(* ===== verification/Prelude.thy ===== *)
theory Prelude
  imports Main
begin

text \<open>
  Prelude of the Setheum development: the fixed-width arithmetic of Rust that the pallets use,
  and the effect of a runtime call. A pallet function of type \<open>Result<a, DispatchError>\<close>
  that reads and writes storage is a function from the storage to a result and the storage it
  leaves behind, also when it fails: Substrate keeps the writes a failing function made, unless
  the function (or one of its callers) carries the attribute \<open>#[transactional]\<close>, which is
  the combinator \<open>transactional\<close> here. The collections \<open>runs\<close> (what a successful
  run means) and \<open>keeps\<close> (which programs preserve an invariant, on success and on failure)
  carry the proofs of the components.
\<close>

named_theorems runs \<open>successful runs of the effect combinators, as equivalences\<close>
named_theorems keeps \<open>introduction rules for preservation of an invariant\<close>

section \<open>Fixed-width arithmetic\<close>

text \<open>
  Unsigned integers are natural numbers together with the largest value of their type; every
  operation that Rust saturates or checks says so, with that largest value as first argument.
\<close>

definition u32_max :: nat where "u32_max = 2 ^ 32 - 1"
definition u64_max :: nat where "u64_max = 2 ^ 64 - 1"
definition u128_max :: nat where "u128_max = 2 ^ 128 - 1"
definition u256_max :: nat where "u256_max = 2 ^ 256 - 1"
definition i128_max :: int where "i128_max = 2 ^ 127 - 1"
definition i128_min :: int where "i128_min = - (2 ^ 127)"

definition sat_add :: "nat \<Rightarrow> nat \<Rightarrow> nat \<Rightarrow> nat" where
  "sat_add M a b = min M (a + b)"

definition sat_mul :: "nat \<Rightarrow> nat \<Rightarrow> nat \<Rightarrow> nat" where
  "sat_mul M a b = min M (a * b)"

definition sat_sub :: "nat \<Rightarrow> nat \<Rightarrow> nat" where
  "sat_sub a b = (if b \<le> a then a - b else 0)"

definition chk_add :: "nat \<Rightarrow> nat \<Rightarrow> nat \<Rightarrow> nat option" where
  "chk_add M a b = (if a + b \<le> M then Some (a + b) else None)"

definition chk_sub :: "nat \<Rightarrow> nat \<Rightarrow> nat option" where
  "chk_sub a b = (if b \<le> a then Some (a - b) else None)"

definition chk_div :: "nat \<Rightarrow> nat \<Rightarrow> nat option" where
  "chk_div a b = (if b = 0 then None else Some (a div b))"

text \<open>\<open>TryInto\<close> from a wider to a narrower unsigned type.\<close>

definition narrow :: "nat \<Rightarrow> nat \<Rightarrow> nat option" where
  "narrow M a = (if a \<le> M then Some a else None)"

abbreviation unwrap_or :: "'a option \<Rightarrow> 'a \<Rightarrow> 'a" where
  "unwrap_or x d \<equiv> case_option d id x"

text \<open>Signed 128-bit amounts.\<close>

definition i128_saturating_abs :: "int \<Rightarrow> int" where
  "i128_saturating_abs a = min i128_max \<bar>a\<bar>"

definition i128_saturating_neg :: "int \<Rightarrow> int" where
  "i128_saturating_neg a = min i128_max (- a)"

definition i128_of_u128 :: "nat \<Rightarrow> int option" where
  "i128_of_u128 b = (if int b \<le> i128_max then Some (int b) else None)"

definition u128_of_i128 :: "int \<Rightarrow> nat option" where
  "u128_of_i128 a = (if 0 \<le> a then Some (nat a) else None)"

lemma sat_add_exact [simp]: "a + b \<le> M \<Longrightarrow> sat_add M a b = a + b"
  by (simp add: sat_add_def)

lemma sat_add_le: "sat_add M a b \<le> M" "sat_add M a b \<le> a + b"
  by (simp_all add: sat_add_def)

lemma sat_add_ge: "a \<le> M \<Longrightarrow> a \<le> sat_add M a b"
  by (simp add: sat_add_def)

lemma sat_mul_le: "sat_mul M a b \<le> M" "sat_mul M a b \<le> a * b"
  by (simp_all add: sat_mul_def)

lemma sat_mul_exact [simp]: "a * b \<le> M \<Longrightarrow> sat_mul M a b = a * b"
  by (simp add: sat_mul_def)

lemma sat_sub_nat [simp]: "sat_sub a b = a - b"
  by (simp add: sat_sub_def)

lemma chk_add_Some [simp]: "chk_add M a b = Some c \<longleftrightarrow> a + b \<le> M \<and> c = a + b"
  by (auto simp: chk_add_def)

lemma chk_sub_Some [simp]: "chk_sub a b = Some c \<longleftrightarrow> b \<le> a \<and> c = a - b"
  by (auto simp: chk_sub_def)

lemma chk_div_Some [simp]: "chk_div a b = Some c \<longleftrightarrow> b \<noteq> 0 \<and> c = a div b"
  by (auto simp: chk_div_def)

lemma narrow_Some [simp]: "narrow M a = Some c \<longleftrightarrow> a \<le> M \<and> c = a"
  by (auto simp: narrow_def)

lemma i128_of_u128_Some [simp]: "i128_of_u128 b = Some a \<longleftrightarrow> int b \<le> i128_max \<and> a = int b"
  by (auto simp: i128_of_u128_def)

section \<open>Association lists\<close>

text \<open>
  Storage maps the code iterates over are association lists. Writing one entry: in place, or as a
  new entry.
\<close>

fun alist_put :: "'k \<Rightarrow> 'v \<Rightarrow> ('k \<times> 'v) list \<Rightarrow> ('k \<times> 'v) list" where
  "alist_put k v [] = [(k, v)]"
| "alist_put k v ((k', v') # xs) = (if k' = k then (k, v) # xs else (k', v') # alist_put k v xs)"

definition alist_remove :: "'k \<Rightarrow> ('k \<times> 'v) list \<Rightarrow> ('k \<times> 'v) list" where
  "alist_remove k xs = filter (\<lambda>e. fst e \<noteq> k) xs"

definition alist_contains :: "'k \<Rightarrow> ('k \<times> 'v) list \<Rightarrow> bool" where
  "alist_contains k xs = list_ex (\<lambda>e. fst e = k) xs"

lemma alist_contains_keys: "alist_contains k xs \<longleftrightarrow> k \<in> set (map fst xs)"
  by (auto simp: alist_contains_def list_ex_iff)

lemma alist_put_keys: "map fst (alist_put k v xs) = (if alist_contains k xs then map fst xs else map fst xs @ [k])"
  by (induction xs) (auto simp: alist_contains_def)

lemma alist_contains_put [simp]: "alist_contains j (alist_put k v xs) \<longleftrightarrow> j = k \<or> alist_contains j xs"
  by (auto simp: alist_contains_keys alist_put_keys)

lemma alist_put_distinct [simp]: "distinct (map fst xs) \<Longrightarrow> distinct (map fst (alist_put k v xs))"
  by (auto simp: alist_put_keys alist_contains_keys)

lemma alist_put_length: "length (alist_put k v xs) = (if alist_contains k xs then length xs else Suc (length xs))"
  by (induction xs) (auto simp: alist_contains_def)

lemma alist_contains_remove [simp]: "alist_contains j (alist_remove k xs) \<longleftrightarrow> j \<noteq> k \<and> alist_contains j xs"
  by (induction xs) (auto simp: alist_contains_def alist_remove_def)

lemma alist_remove_distinct [simp]: "distinct (map fst xs) \<Longrightarrow> distinct (map fst (alist_remove k xs))"
  by (simp add: alist_remove_def distinct_map_filter)

lemma alist_remove_absent: "\<not> alist_contains k xs \<Longrightarrow> alist_remove k xs = xs"
  by (auto simp: alist_remove_def alist_contains_def list_ex_iff filter_id_conv)

lemma alist_remove_length:
  "distinct (map fst xs) \<Longrightarrow> alist_contains k xs \<Longrightarrow> Suc (length (alist_remove k xs)) = length xs"
proof (induction xs)
  case (Cons x xs)
  show ?case
  proof (cases "fst x = k")
    case True
    then have "\<not> alist_contains k xs" using Cons.prems(1) by (auto simp: alist_contains_keys)
    then have "alist_remove k (x # xs) = xs" using True alist_remove_absent[of k xs] by (simp add: alist_remove_def)
    then show ?thesis by simp
  qed (use Cons in \<open>auto simp: alist_remove_def alist_contains_def\<close>)
qed (simp add: alist_contains_def)

section \<open>Arithmetic of release builds\<close>

text \<open>
  Where the code adds or subtracts without a check, the release build wraps around; the first argument
  is the largest value of the type.
\<close>

definition wrap_add :: "nat \<Rightarrow> nat \<Rightarrow> nat \<Rightarrow> nat" where
  "wrap_add M a b = (a + b) mod (M + 1)"

definition wrap_sub :: "nat \<Rightarrow> nat \<Rightarrow> nat \<Rightarrow> nat" where
  "wrap_sub M a b = (a + (M + 1) - b) mod (M + 1)"

lemma wrap_add_exact [simp]: "a + b \<le> M \<Longrightarrow> wrap_add M a b = a + b"
  by (simp add: wrap_add_def)

lemma wrap_sub_exact [simp]:
  assumes "b \<le> a" "a \<le> M"
  shows "wrap_sub M a b = a - b"
proof -
  have "a + (M + 1) - b = (a - b) + (M + 1)" using assms by simp
  then have "wrap_sub M a b = (a - b) mod (M + 1)" unfolding wrap_sub_def by (simp only: mod_add_self2)
  then show ?thesis using assms by simp
qed

lemma wrap_add_le: "wrap_add M a b \<le> M"
  using mod_less_divisor[of "M + 1" "a + b"] by (simp add: wrap_add_def)

lemma wrap_add_sub:
  assumes "a \<le> M" "v \<le> M"
  shows "wrap_add M a (wrap_sub M v a) = v"
proof (cases "a \<le> v")
  case False
  then have "wrap_sub M v a = v + (M + 1) - a" using assms by (simp add: wrap_sub_def)
  then have "wrap_add M a (wrap_sub M v a) = (v + (M + 1)) mod (M + 1)" using assms by (simp add: wrap_add_def)
  then have "wrap_add M a (wrap_sub M v a) = v mod (M + 1)" by (simp only: mod_add_self2)
  then show ?thesis using assms by simp
qed (use assms in simp)

section \<open>Vectors\<close>

text \<open>\<open>Iterator::position\<close>, \<open>Vec::swap_remove\<close>, \<open>Vec::remove\<close> and \<open>Vec::insert\<close>.\<close>

fun position :: "('a \<Rightarrow> bool) \<Rightarrow> 'a list \<Rightarrow> nat option" where
  "position P [] = None"
| "position P (x # xs) = (if P x then Some 0 else map_option Suc (position P xs))"

definition swap_remove :: "nat \<Rightarrow> 'a list \<Rightarrow> 'a list" where
  "swap_remove i xs = (if Suc i = length xs then butlast xs else (butlast xs)[i := last xs])"

definition remove_at :: "nat \<Rightarrow> 'a list \<Rightarrow> 'a list" where
  "remove_at i xs = take i xs @ drop (Suc i) xs"

definition insert_at :: "nat \<Rightarrow> 'a \<Rightarrow> 'a list \<Rightarrow> 'a list" where
  "insert_at i x xs = take i xs @ x # drop i xs"

lemma position_take: "take (case position P xs of None \<Rightarrow> length xs | Some i \<Rightarrow> i) xs = takeWhile (\<lambda>x. \<not> P x) xs"
  by (induction xs) (auto split: option.splits)

text \<open>
  \<open>slice::binary_search\<close> on a sorted list without duplicates: where the key is, or else where it would
  have to be inserted.
\<close>

fun search_sorted :: "nat \<Rightarrow> nat list \<Rightarrow> nat + nat" where
  "search_sorted k [] = Inl 0"
| "search_sorted k (x # xs) =
     (if k = x then Inr 0 else if k < x then Inl 0
      else (case search_sorted k xs of Inl i \<Rightarrow> Inl (Suc i) | Inr i \<Rightarrow> Inr (Suc i)))"

lemma search_found: "search_sorted k xs = Inr i \<Longrightarrow> i < length xs \<and> xs ! i = k"
  by (induction xs arbitrary: i) (auto split: if_splits sum.splits)

lemma search_missing:
  assumes "sorted_wrt (<) xs" "search_sorted k xs = Inl i"
  shows "i \<le> length xs \<and> (\<forall>x \<in> set (take i xs). x < k) \<and> (\<forall>x \<in> set (drop i xs). k < x)"
  using assms
proof (induction xs arbitrary: i)
  case (Cons x xs)
  then show ?case by (auto split: if_splits sum.splits)
qed simp

lemma search_hit:
  assumes "sorted_wrt (<) xs" "k \<in> set xs"
  shows "\<exists>i. search_sorted k xs = Inr i"
  using assms by (induction xs) (auto split: sum.splits)

lemma sorted_insert_at:
  assumes "sorted_wrt (<) xs" "search_sorted k xs = Inl i"
  shows "sorted_wrt (<) (insert_at i k xs)" "set (insert_at i k xs) = insert k (set xs)" "k \<notin> set xs"
proof -
  note split = search_missing[OF assms]
  have xs: "take i xs @ drop i xs = xs" by simp
  have sorted: "sorted_wrt (<) (take i xs @ drop i xs)" using assms(1) by simp
  then have parts: "sorted_wrt (<) (take i xs)" "sorted_wrt (<) (drop i xs)" "\<forall>x \<in> set (take i xs). \<forall>y \<in> set (drop i xs). x < y"
    unfolding sorted_wrt_append by auto
  show "sorted_wrt (<) (insert_at i k xs)"
    unfolding insert_at_def using parts split by (auto simp: sorted_wrt_append)
  have set: "set xs = set (take i xs) \<union> set (drop i xs)" by (metis set_append xs)
  show "set (insert_at i k xs) = insert k (set xs)" unfolding insert_at_def set by auto
  show "k \<notin> set xs" unfolding set using split by auto
qed

section \<open>Dispatch errors\<close>

text \<open>
  The error enumerations of the modelled pallets, in the order of their declarations, and the
  error of a dispatch. \<open>External n\<close> is an error of a pallet that is not part of this
  repository (ORML tokens, Substrate balances, the auction pallet).
\<close>

datatype currencies_error =
    AmountIntoBalanceFailed | BalanceTooLow | Erc20InvalidOperation | EvmAccountNotFound

datatype dex_error =
    NotEnabledTradingPair | MustBeEnabled | MustBeProvisioning | MustBeNotEnabled
  | NotAllowedList | InvalidContributionIncrement | InvalidLiquidityIncrement
  | InvalidCurrencyId | InvalidTradingPathLength | InsufficientTargetAmount
  | ExcessiveSupplyAmount | ExceedPriceImpactLimit | InsufficientLiquidity
  | ZeroSupplyAmount | ZeroTargetAmount | UnacceptableShareIncrement
  | UnacceptableLiquidityWithdrawn

datatype settmint_manager_error =
    StandardOverflow | StandardTooLow | ReserveOverflow | ReserveTooLow
  | AmountConvertFailed | InvalidStandardType

datatype settmint_gateway_error = NoAuthorization

datatype evm_accounts_error =
    AccountIdHasMapped | EthAddressHasMapped | BadSignature | InvalidSignature | NonZeroRefCount

datatype evm_manager_error = CurrencyIdExisted

datatype nft_error =
    ClassIdNotFound | TokenIdNotFound | NoPermission | InvalidQuantity | NonTransferable
  | NonBurnable | CannotDestroyClass

datatype chainbridge_error =
    InvalidDestChainId | ResourceIdAlreadyRegistered | ResourceIdNotRegistered
  | ResourceIdCurrencyIdNotMatch

datatype evm_bridge_error =
    ExecutionFail | ExecutionRevert | ExecutionFatal | ExecutionError | InvalidReturnValue

datatype evm_error =
    AddressNotMapped | ContractNotFound | Evm_NoPermission | NumOutOfBound
  | StorageExceedsStorageLimit | ContractDevelopmentNotEnabled | ContractDevelopmentAlreadyEnabled
  | ContractAlreadyDeployed | ContractExceedsMaxCodeSize | Evm_OutOfStorage | ChargeFeeFailed
  | CannotKillContract | ConflictContractAddress

datatype incentives_error = NotEnough | Incentives_InvalidCurrencyId

datatype renvm_error = InvalidRenVmPublicKey | InvalidMintSignature | SignatureAlreadyUsed

datatype staking_error =
    NotController | NotStash | NoNativePayout | AlreadyBonded | AlreadyPaired | EmptyTargets | DuplicateIndex
  | InvalidSlashIndex | InsufficientBond | NoMoreChunks | NoUnlockChunk | FundedTarget | InvalidEraToReward
  | InvalidNumberOfNominations | NotSortedAndUnique | AlreadyClaimed | IncorrectHistoryDepth
  | IncorrectSlashingSpans | BadState | TooManyTargets | BadTarget | CannotChillOther | TooManyNominators
  | TooManyValidators

datatype democracy_error =
    ValueLow | ProposalMissing | BadIndex | AlreadyCanceled | DuplicateProposal | ProposalBlacklisted
  | NotSimpleMajority | InvalidHash | NoProposal | AlreadyVetoed | NotDelegated | DuplicatePreimage | NotImminent
  | TooEarly | Imminent | Error_PreimageMissing | ReferendumInvalid | Error_PreimageInvalid | NoneWaiting | NotLocked
  | NotExpired | NotVoter | Democracy_NoPermission | AlreadyDelegating | InsufficientFunds | NotDelegating | VotesExist
  | InstantNotAllowed | Nonsense | WrongUpperBound | MaxVotesReached | InvalidWitness | Democracy_InvalidCurrencyType
  | TooManyProposals

datatype serp_auction_error =
    AuctionNonExistent | CurrencyNotAccepted | InvalidFeedPrice | InvalidBidPrice
  | InvalidAmount | InvalidCurrencyType

text \<open>
  \<open>OutOfStorage\<close> and \<open>OutOfGas\<close> are \<open>DispatchError::Other\<close> with these texts. \<open>Panic\<close> is no
  value of the code: it stands for a panic of the runtime, which aborts the block.
\<close>

datatype dispatch_error =
    Other | BadOrigin | CannotLookup | OutOfStorage | OutOfGas | ConsumerRemaining | Panic | Arithmetic_Overflow | Arithmetic_Underflow | External nat
  | Currencies_Error currencies_error
  | Dex_Error dex_error
  | Settmint_Manager_Error settmint_manager_error
  | Settmint_Gateway_Error settmint_gateway_error
  | Evm_Accounts_Error evm_accounts_error
  | Evm_Manager_Error evm_manager_error
  | Nft_Error nft_error
  | Chainbridge_Error chainbridge_error
  | Evm_Bridge_Error evm_bridge_error
  | Evm_Error evm_error
  | Serp_Auction_Error serp_auction_error
  | Incentives_Error incentives_error
  | Renvm_Error renvm_error
  | Staking_Error staking_error
  | Democracy_Error democracy_error

section \<open>Effects of a runtime call\<close>

type_synonym ('e, 's, 'a) effect = "'s \<Rightarrow> ('e + 'a) \<times> 's"
type_synonym ('s, 'a) eff = "(dispatch_error, 's, 'a) effect"

definition okE :: "'a \<Rightarrow> ('e, 's, 'a) effect" where
  "okE x = (\<lambda>s. (Inr x, s))"

definition failE :: "'e \<Rightarrow> ('e, 's, 'a) effect" where
  "failE e = (\<lambda>s. (Inl e, s))"

text \<open>Sequencing with the question-mark operator: the first error is the result.\<close>

definition bindE :: "('e, 's, 'a) effect \<Rightarrow> ('a \<Rightarrow> ('e, 's, 'b) effect) \<Rightarrow> ('e, 's, 'b) effect" where
  "bindE m f = (\<lambda>s. case m s of (Inl e, t) \<Rightarrow> (Inl e, t) | (Inr x, t) \<Rightarrow> f x t)"

definition thenE :: "('e, 's, 'a) effect \<Rightarrow> ('e, 's, 'b) effect \<Rightarrow> ('e, 's, 'b) effect" where
  "thenE m k = bindE m (\<lambda>_. k)"

text \<open>The macro \<open>ensure!\<close> and \<open>Option::ok_or\<close>.\<close>

definition ensure :: "bool \<Rightarrow> 'e \<Rightarrow> ('e, 's, unit) effect" where
  "ensure c e = (if c then okE () else failE e)"

definition ok_or :: "'a option \<Rightarrow> 'e \<Rightarrow> ('e, 's, 'a) effect" where
  "ok_or x e = (case x of None \<Rightarrow> failE e | Some v \<Rightarrow> okE v)"

definition getE :: "('s \<Rightarrow> 'a) \<Rightarrow> ('e, 's, 'a) effect" where
  "getE f = (\<lambda>s. (Inr (f s), s))"

definition modE :: "('s \<Rightarrow> 's) \<Rightarrow> ('e, 's, unit) effect" where
  "modE f = (\<lambda>s. (Inr (), f s))"

text \<open>Observing a result without returning early on an error.\<close>

definition resultE :: "('e, 's, 'a) effect \<Rightarrow> ('e, 's, 'e + 'a) effect" where
  "resultE m = (\<lambda>s. case m s of (r, t) \<Rightarrow> (Inr r, t))"

text \<open>The attribute \<open>#[transactional]\<close>: a failing body leaves the storage as it was.\<close>

definition transactional :: "('e, 's, 'a) effect \<Rightarrow> ('e, 's, 'a) effect" where
  "transactional m = (\<lambda>s. case m s of (Inl e, t) \<Rightarrow> (Inl e, s) | (Inr x, t) \<Rightarrow> (Inr x, t))"

text \<open>A conditional statement without an alternative.\<close>

definition whenE :: "bool \<Rightarrow> ('e, 's, unit) effect \<Rightarrow> ('e, 's, unit) effect" where
  "whenE c m = (if c then m else okE ())"

text \<open>A \<open>for\<close> loop whose body may return early.\<close>

primrec forE :: "'a list \<Rightarrow> ('a \<Rightarrow> ('e, 's, unit) effect) \<Rightarrow> ('e, 's, unit) effect" where
  "forE [] f = okE ()"
| "forE (x # xs) f = thenE (f x) (forE xs f)"

text \<open>\<open>Result::map_err\<close>.\<close>

definition map_errE :: "('e \<Rightarrow> 'f) \<Rightarrow> ('e, 's, 'a) effect \<Rightarrow> ('f, 's, 'a) effect" where
  "map_errE f m = (\<lambda>s. case m s of (Inl e, t) \<Rightarrow> (Inl (f e), t) | (Inr x, t) \<Rightarrow> (Inr x, t))"

text \<open>Running an effect on a component of a larger storage.\<close>

definition zoomE :: "('t \<Rightarrow> 's) \<Rightarrow> ('s \<Rightarrow> 't \<Rightarrow> 't) \<Rightarrow> ('e, 's, 'a) effect \<Rightarrow> ('e, 't, 'a) effect" where
  "zoomE g p m = (\<lambda>t. case m (g t) of (r, s) \<Rightarrow> (r, p s t))"

lemmas eff_defs = okE_def failE_def bindE_def thenE_def ensure_def ok_or_def getE_def modE_def
  resultE_def transactional_def zoomE_def map_errE_def

subsection \<open>What a successful run means\<close>

lemma whenE_run [simp, runs]:
  "whenE c m s = (Inr x, t) \<longleftrightarrow> (if c then m s = (Inr x, t) else t = s)"
  by (simp add: whenE_def okE_def) blast

lemma okE_run [simp, runs]: "okE x s = (Inr y, t) \<longleftrightarrow> y = x \<and> t = s"
  by (auto simp: okE_def)

lemma failE_run [simp, runs]: "failE e s = (Inr y, t) \<longleftrightarrow> False"
  by (simp add: failE_def)

lemma bindE_run [simp, runs]:
  "bindE m f s = (Inr y, t) \<longleftrightarrow> (\<exists>x u. m s = (Inr x, u) \<and> f x u = (Inr y, t))"
  by (auto simp: bindE_def split: prod.splits sum.splits)

lemma thenE_run [simp, runs]:
  "thenE m k s = (Inr y, t) \<longleftrightarrow> (\<exists>x u. m s = (Inr x, u) \<and> k u = (Inr y, t))"
  by (simp add: thenE_def)

lemma bindE_okE: "bindE (okE x) f = f x"
  by (simp add: bindE_def okE_def)

lemma bindE_failE: "bindE (failE e) f = failE e"
  by (simp add: bindE_def failE_def)

lemma ensure_run [simp, runs]: "ensure c e s = (Inr y, t) \<longleftrightarrow> c \<and> t = s"
  by (auto simp: ensure_def okE_def failE_def)

lemma ok_or_run [simp, runs]: "ok_or x e s = (Inr y, t) \<longleftrightarrow> x = Some y \<and> t = s"
  by (auto simp: ok_or_def okE_def failE_def split: option.splits)

lemma getE_run [simp, runs]: "getE f s = (Inr y, t) \<longleftrightarrow> y = f s \<and> t = s"
  by (auto simp: getE_def)

lemma modE_run [simp, runs]: "modE f s = (Inr y, t) \<longleftrightarrow> t = f s"
  by (auto simp: modE_def)

lemma resultE_run [simp, runs]: "resultE m s = (Inr r, t) \<longleftrightarrow> m s = (r, t)"
  by (auto simp: resultE_def split: prod.splits)

lemma map_errE_run [simp, runs]: "map_errE f m s = (Inr y, t) \<longleftrightarrow> m s = (Inr y, t)"
  by (auto simp: map_errE_def split: prod.splits sum.splits)

lemma transactional_run [simp, runs]: "transactional m s = (Inr y, t) \<longleftrightarrow> m s = (Inr y, t)"
  by (auto simp: transactional_def split: prod.splits sum.splits)

lemma zoomE_run [runs]:
  "zoomE g p m t = (Inr y, t') \<longleftrightarrow> (\<exists>s. m (g t) = (Inr y, s) \<and> t' = p s t)"
  by (auto simp: zoomE_def split: prod.splits)

text \<open>A failed transactional call has changed nothing.\<close>

lemma transactional_fails: "transactional m s = (Inl e, t) \<Longrightarrow> t = s"
  by (auto simp: transactional_def split: prod.splits sum.splits)

subsection \<open>Preservation of an invariant\<close>

definition preserves :: "('s \<Rightarrow> bool) \<Rightarrow> ('e, 's, 'a) effect \<Rightarrow> bool" where
  "preserves P m \<longleftrightarrow> (\<forall>s. P s \<longrightarrow> P (snd (m s)))"

lemma preservesI: "(\<And>s r t. P s \<Longrightarrow> m s = (r, t) \<Longrightarrow> P t) \<Longrightarrow> preserves P m"
  by (auto simp: preserves_def) (metis prod.collapse)

lemma preservesD: "preserves P m \<Longrightarrow> P s \<Longrightarrow> m s = (r, t) \<Longrightarrow> P t"
  by (metis preserves_def snd_conv)

lemma keeps_okE [keeps]: "preserves P (okE x)"
  by (simp add: preserves_def okE_def)

lemma keeps_failE [keeps]: "preserves P (failE e)"
  by (simp add: preserves_def failE_def)

lemma keeps_getE [keeps]: "preserves P (getE f)"
  by (simp add: preserves_def getE_def)

lemma keeps_ensure [keeps]: "preserves P (ensure c e)"
  by (simp add: ensure_def keeps)

lemma keeps_ok_or [keeps]: "preserves P (ok_or x e)"
  by (auto simp: ok_or_def keeps split: option.splits)

lemma keeps_modE: "(\<And>s. P s \<Longrightarrow> P (f s)) \<Longrightarrow> preserves P (modE f)"
  by (simp add: preserves_def modE_def)

lemma keeps_bindE [keeps]:
  assumes "preserves P m" "\<And>x. preserves P (f x)"
  shows "preserves P (bindE m f)"
  using assms by (auto simp: preserves_def bindE_def split: prod.splits sum.splits)

lemma keeps_thenE [keeps]: "preserves P m \<Longrightarrow> preserves P k \<Longrightarrow> preserves P (thenE m k)"
  by (simp add: thenE_def keeps_bindE)

lemma keeps_resultE [keeps]: "preserves P m \<Longrightarrow> preserves P (resultE m)"
  by (auto simp: preserves_def resultE_def split: prod.splits)

lemma keeps_map_errE [keeps]: "preserves P m \<Longrightarrow> preserves P (map_errE f m)"
  by (auto simp: preserves_def map_errE_def split: prod.splits sum.splits)

lemma keeps_transactional [keeps]: "preserves P m \<Longrightarrow> preserves P (transactional m)"
  by (auto simp: preserves_def transactional_def split: prod.splits sum.splits)

text \<open>
  A transactional body has to keep the invariant only where it succeeds.
\<close>

lemma keeps_transactional_ok:
  assumes "\<And>s x t. P s \<Longrightarrow> m s = (Inr x, t) \<Longrightarrow> P t"
  shows "preserves P (transactional m)"
  using assms by (auto simp: preserves_def transactional_def split: prod.splits sum.splits)

lemma keeps_whenE [keeps]: "preserves P m \<Longrightarrow> preserves P (whenE c m)"
  by (simp add: whenE_def keeps_okE)

lemma keeps_forE [keeps]: "(\<And>x. preserves P (f x)) \<Longrightarrow> preserves P (forE xs f)"
  by (induction xs) (simp_all add: keeps)

lemma keeps_if [keeps]:
  "(c \<Longrightarrow> preserves P m) \<Longrightarrow> (\<not> c \<Longrightarrow> preserves P k) \<Longrightarrow> preserves P (if c then m else k)"
  by simp

lemma keeps_let [keeps]: "(\<And>x. preserves P (f x)) \<Longrightarrow> preserves P (let x = v in f x)"
  by (simp add: Let_def)

lemma keeps_case_option [keeps]:
  "preserves P m \<Longrightarrow> (\<And>x. preserves P (f x)) \<Longrightarrow> preserves P (case v of None \<Rightarrow> m | Some x \<Rightarrow> f x)"
  by (cases v) simp_all

lemma keeps_case_prod [keeps]:
  "(\<And>x y. preserves P (f x y)) \<Longrightarrow> preserves P (case v of (x, y) \<Rightarrow> f x y)"
  by (cases v) simp

section \<open>Bounds on finite sums\<close>

text \<open>
  A bound on all finite sums of a family survives a change of one member, when the bound changes
  by at least as much.
\<close>

definition sums_below :: "('a \<Rightarrow> nat) \<Rightarrow> nat \<Rightarrow> bool" where
  "sums_below f r \<longleftrightarrow> (\<forall>I. finite I \<longrightarrow> sum f I \<le> r)"

lemma sums_below_update:
  assumes below: "sums_below f r" and others: "\<And>j. j \<noteq> i \<Longrightarrow> g j = f j" and change: "g i + r \<le> f i + r'"
  shows "sums_below g r'"
  unfolding sums_below_def
proof (intro allI impI)
  fix I :: "'a set"
  assume I: "finite I"
  have eq: "sum g (I - {i}) = sum f (I - {i})"
    by (rule sum.cong) (auto simp: others)
  have "sum f (insert i I) \<le> r" using below I by (simp add: sums_below_def)
  then have "f i + sum f (I - {i}) \<le> r" using I by (simp add: sum.insert_remove)
  then have "g i + sum g (I - {i}) \<le> r'" using eq change by linarith
  moreover have "sum g I \<le> sum g (insert i I)" using I by (intro sum_mono2) auto
  ultimately show "sum g I \<le> r'" using I by (simp add: sum.insert_remove)
qed

lemma sums_below_mono: "sums_below f r \<Longrightarrow> r \<le> r' \<Longrightarrow> sums_below f r'"
  unfolding sums_below_def using le_trans by blast

lemma sums_below_member: "sums_below f r \<Longrightarrow> f i \<le> r"
  unfolding sums_below_def by (drule spec[of _ "{i}"]) simp

section \<open>Machines\<close>

text \<open>
  A pallet seen from the outside: calls, each an effect on its storage, and an invariant that
  every admissible call keeps whether it succeeds or fails. Whatever sequence of such calls the
  chain includes, the invariant holds afterwards.
\<close>

primrec run_calls :: "('c \<Rightarrow> ('e, 's, 'a) effect) \<Rightarrow> 'c list \<Rightarrow> 's \<Rightarrow> 's" where
  "run_calls exec [] s = s"
| "run_calls exec (c # cs) s = run_calls exec cs (snd (exec c s))"

locale pallet_machine =
  fixes exec :: "'c \<Rightarrow> ('e, 's, 'a) effect" and admissible :: "'c \<Rightarrow> bool" and inv :: "'s \<Rightarrow> bool"
  assumes exec_keeps: "admissible c \<Longrightarrow> preserves inv (exec c)"
begin

lemma run_calls_inv: "list_all admissible cs \<Longrightarrow> inv s \<Longrightarrow> inv (run_calls exec cs s)"
proof (induction cs arbitrary: s)
  case (Cons c cs)
  have "inv (snd (exec c s))"
    using exec_keeps Cons.prems by (simp add: preserves_def)
  then show ?case using Cons by simp
qed simp

text \<open>The invariant also holds in between, after every prefix of the calls.\<close>

lemma run_calls_prefix_inv:
  "list_all admissible cs \<Longrightarrow> inv s \<Longrightarrow> inv (run_calls exec (take n cs) s)"
  by (rule run_calls_inv) (auto simp: list_all_iff dest: in_set_takeD)

end

section \<open>Origins\<close>

type_synonym account_id = nat
type_synonym balance = nat
type_synonym amount = int
type_synonym block_number = nat

datatype origin = Root | Signed account_id | Unsigned | Custom nat

definition ensure_signed :: "origin \<Rightarrow> ('s, account_id) eff" where
  "ensure_signed org = (case org of Signed a \<Rightarrow> okE a | _ \<Rightarrow> failE BadOrigin)"

definition ensure_root :: "origin \<Rightarrow> ('s, unit) eff" where
  "ensure_root org = ensure (org = Root) BadOrigin"

lemma ensure_signed_run [simp, runs]: "ensure_signed org s = (Inr a, t) \<longleftrightarrow> org = Signed a \<and> t = s"
  by (auto simp: ensure_signed_def okE_def failE_def split: origin.splits)

lemma keeps_ensure_signed [keeps]: "preserves P (ensure_signed org)"
  by (auto simp: ensure_signed_def keeps split: origin.splits)

lemma keeps_ensure_root [keeps]: "preserves P (ensure_root org)"
  by (simp add: ensure_root_def keeps)

end
