(* ===== verification/Primitives.thy ===== *)
theory Primitives
  imports Prelude "HOL-Library.Word" "HOL-Library.List_Lexorder" "HOL-Library.Product_Lexorder"
begin

text \<open>
  The types of \<open>primitives/src\<close>: token symbols, currency identifiers and trading pairs, with the
  derived order of the Rust enumerations, and the byte encodings of currency identifiers as EVM
  addresses. The table of the macro \<open>create_currency_id!\<close> is the function \<open>token_info\<close>;
  an \<open>H160\<close> is the list of its 20 bytes, most significant first.
\<close>

unbundle bit_operations_syntax

type_synonym u8 = "8 word"
type_synonym u32 = "32 word"
type_synonym u64 = "64 word"
type_synonym evm_address = "u8 list"
type_synonym resource_id = "u8 list"

section \<open>Token symbols\<close>

text \<open>The enumeration and the table of \<open>create_currency_id!\<close>: symbol, name, decimals, value.\<close>

datatype (plugins only: code size) token_symbol =
    DNAR | DRAM | SETT | USDJ | EURJ | JPYJ | GBPJ | AUDJ | CADJ | CHFJ | SGDJ | BRLJ | SARJ
   | NEOM | MENA | NSETT | JUSD | JEUR | JJPY | JGBP | JAUD | JCAD | JCHF | JSGD | JBRL | JSAR
   | RENBTC | USD | EUR | JPY | GBP | AUD | CAD | CHF | SGD | BRL | SAR | KWD | JOD | BHD | KYD
   | OMR | GIP

primrec token_info :: "token_symbol \<Rightarrow> string \<times> string \<times> u8 \<times> u8" where
  "token_info DNAR = (''DNAR'', ''Setheum Dinar'', 10, 0)"
| "token_info DRAM = (''DRAM'', ''Setheum Dirham'', 10, 1)"
| "token_info SETT = (''SETT'', ''Setter'', 12, 2)"
| "token_info USDJ = (''USDJ'', ''Setheum US Dollar'', 12, 3)"
| "token_info EURJ = (''EURJ'', ''Setheum Euro'', 12, 4)"
| "token_info JPYJ = (''JPYJ'', ''Setheum Japanese Yen'', 12, 5)"
| "token_info GBPJ = (''GBPJ'', ''Setheum Pound Sterling'', 12, 6)"
| "token_info AUDJ = (''AUDJ'', ''Setheum Australian Dollar'', 12, 7)"
| "token_info CADJ = (''CADJ'', ''Setheum Canadian Dollar'', 12, 8)"
| "token_info CHFJ = (''CHFJ'', ''Setheum Swiss Franc'', 12, 9)"
| "token_info SGDJ = (''SGDJ'', ''Setheum Singapore Dollar'', 12, 10)"
| "token_info BRLJ = (''BRLJ'', ''Setheum Brazilian Real'', 12, 11)"
| "token_info SARJ = (''SARJ'', ''Setheum Saudi Riyal'', 12, 12)"
| "token_info NEOM = (''NEOM'', ''Neom'', 10, 128)"
| "token_info MENA = (''MENA'', ''Mena'', 10, 129)"
| "token_info NSETT = (''NSETT'', ''Neom Setter'', 12, 130)"
| "token_info JUSD = (''JUSD'', ''Neom US Dollar'', 12, 131)"
| "token_info JEUR = (''JEUR'', ''Neom Euro'', 12, 132)"
| "token_info JJPY = (''JJPY'', ''Neom Japanese Yen'', 12, 133)"
| "token_info JGBP = (''JGBP'', ''Neom Pound Sterling'', 12, 134)"
| "token_info JAUD = (''JAUD'', ''Neom Australian Dollar'', 12, 135)"
| "token_info JCAD = (''JCAD'', ''Neom Canadian Dollar'', 12, 136)"
| "token_info JCHF = (''JCHF'', ''Neom Swiss Franc'', 12, 137)"
| "token_info JSGD = (''JSGD'', ''Neom Singapore Dollar'', 12, 138)"
| "token_info JBRL = (''JBRL'', ''Neom Brazilian Real'', 12, 139)"
| "token_info JSAR = (''JSAR'', ''Neom Saudi Riyal'', 12, 140)"
| "token_info RENBTC = (''RENBTC'', ''Ren Bitcoin'', 8, 141)"
| "token_info USD = (''USD'', ''Fiat US Dollar'', 12, 181)"
| "token_info EUR = (''EUR'', ''Fiat Euro'', 12, 182)"
| "token_info JPY = (''JPY'', ''Fiat Japanese Yen'', 12, 183)"
| "token_info GBP = (''GBP'', ''Fiat Pound Sterling'', 12, 184)"
| "token_info AUD = (''AUD'', ''Fiat Australian Dollar'', 12, 185)"
| "token_info CAD = (''CAD'', ''Fiat Canadian Dollar'', 12, 186)"
| "token_info CHF = (''CHF'', ''Fiat Swiss Franc'', 12, 187)"
| "token_info SGD = (''SGD'', ''Fiat Singapore Dollar'', 12, 188)"
| "token_info BRL = (''BRL'', ''Fiat Brazilian Real'', 12, 189)"
| "token_info SAR = (''SAR'', ''Fiat Saudi Riyal'', 12, 190)"
| "token_info KWD = (''KWD'', ''Fiat Kuwaiti Dinar'', 12, 191)"
| "token_info JOD = (''JOD'', ''Fiat Jordanian Dinar'', 12, 192)"
| "token_info BHD = (''BHD'', ''Fiat Bahraini Dirham'', 12, 193)"
| "token_info KYD = (''KYD'', ''Fiat Cayman Islands Dollar'', 12, 194)"
| "token_info OMR = (''OMR'', ''Fiat Omani Riyal'', 12, 195)"
| "token_info GIP = (''GIP'', ''Fiat Gibraltar Pound'', 12, 196)"

definition all_tokens :: "token_symbol list" where
  "all_tokens =
    [DNAR, DRAM, SETT, USDJ, EURJ, JPYJ, GBPJ, AUDJ, CADJ, CHFJ, SGDJ, BRLJ, SARJ, NEOM, 
     MENA, NSETT, JUSD, JEUR, JJPY, JGBP, JAUD, JCAD, JCHF, JSGD, JBRL, JSAR, RENBTC, 
     USD, EUR, JPY, GBP, AUD, CAD, CHF, SGD, BRL, SAR, KWD, JOD, BHD, KYD, OMR, GIP]"

definition token_symbol_str :: "token_symbol \<Rightarrow> string" where
  "token_symbol_str t = fst (token_info t)"

definition token_name :: "token_symbol \<Rightarrow> string" where
  "token_name t = fst (snd (token_info t))"

definition token_decimals :: "token_symbol \<Rightarrow> u8" where
  "token_decimals t = fst (snd (snd (token_info t)))"

text \<open>\<open>Into<u8>\<close> and \<open>TryFrom<u8>\<close> for token symbols.\<close>

definition token_into_u8 :: "token_symbol \<Rightarrow> u8" where
  "token_into_u8 t = snd (snd (snd (token_info t)))"

definition token_try_from_u8 :: "u8 \<Rightarrow> token_symbol option" where
  "token_try_from_u8 v = find (\<lambda>t. token_into_u8 t = v) all_tokens"

section \<open>Currency identifiers\<close>

datatype dex_share = DexShare_Token token_symbol | DexShare_Erc20 evm_address

datatype currency_id =
    Token token_symbol
  | DexShare dex_share dex_share
  | Erc20 evm_address
  | ChainBridge resource_id

text \<open>\<open>TryFrom<Vec<u8>>\<close>: a currency from the bytes of its symbol.\<close>

definition currency_try_from_symbol :: "string \<Rightarrow> currency_id option" where
  "currency_try_from_symbol v = map_option Token (find (\<lambda>t. token_symbol_str t = v) all_tokens)"

text \<open>\<open>TokenInfo for CurrencyId\<close>.\<close>

fun info_currency_id :: "currency_id \<Rightarrow> u8 option" where
  "info_currency_id (Token t) = Some (token_into_u8 t)"
| "info_currency_id _ = None"

fun info_name :: "currency_id \<Rightarrow> string option" where
  "info_name (Token t) = Some (token_name t)"
| "info_name _ = None"

fun info_symbol :: "currency_id \<Rightarrow> string option" where
  "info_symbol (Token t) = Some (token_symbol_str t)"
| "info_symbol _ = None"

fun info_decimals :: "currency_id \<Rightarrow> u8 option" where
  "info_decimals (Token t) = Some (token_decimals t)"
| "info_decimals _ = None"

fun is_token_currency_id :: "currency_id \<Rightarrow> bool" where
  "is_token_currency_id (Token _) = True"
| "is_token_currency_id _ = False"

fun is_dex_share_currency_id :: "currency_id \<Rightarrow> bool" where
  "is_dex_share_currency_id (DexShare _ _) = True"
| "is_dex_share_currency_id _ = False"

fun is_erc20_currency_id :: "currency_id \<Rightarrow> bool" where
  "is_erc20_currency_id (Erc20 _) = True"
| "is_erc20_currency_id _ = False"

text \<open>\<open>Into<CurrencyId> for DexShare\<close>.\<close>

fun dex_share_into :: "dex_share \<Rightarrow> currency_id" where
  "dex_share_into (DexShare_Token t) = Token t"
| "dex_share_into (DexShare_Erc20 a) = Erc20 a"

fun split_dex_share_currency_id :: "currency_id \<Rightarrow> (currency_id \<times> currency_id) option" where
  "split_dex_share_currency_id (DexShare a b) = Some (dex_share_into a, dex_share_into b)"
| "split_dex_share_currency_id _ = None"

fun dex_share_of :: "currency_id \<Rightarrow> dex_share option" where
  "dex_share_of (Token s) = Some (DexShare_Token s)"
| "dex_share_of (Erc20 a) = Some (DexShare_Erc20 a)"
| "dex_share_of _ = None"

definition join_dex_share_currency_id :: "currency_id \<Rightarrow> currency_id \<Rightarrow> currency_id option" where
  "join_dex_share_currency_id c0 c1 =
     (case dex_share_of c0 of None \<Rightarrow> None
      | Some s0 \<Rightarrow> (case dex_share_of c1 of None \<Rightarrow> None | Some s1 \<Rightarrow> Some (DexShare s0 s1)))"

subsection \<open>The derived order\<close>

text \<open>
  \<open>#[derive(PartialOrd, Ord)]\<close> compares the variants in the order of their declaration and
  then their fields from left to right; token symbols compare by their discriminants.
\<close>

fun dex_share_key :: "dex_share \<Rightarrow> nat \<times> u8 list" where
  "dex_share_key (DexShare_Token t) = (0, [token_into_u8 t])"
| "dex_share_key (DexShare_Erc20 a) = (1, a)"

fun currency_key :: "currency_id \<Rightarrow> nat \<times> (nat \<times> u8 list) \<times> (nat \<times> u8 list)" where
  "currency_key (Token t) = (0, (0, [token_into_u8 t]), (0, []))"
| "currency_key (DexShare a b) = (1, dex_share_key a, dex_share_key b)"
| "currency_key (Erc20 a) = (2, (0, a), (0, []))"
| "currency_key (ChainBridge r) = (3, (0, r), (0, []))"

lemma token_try_from_into [simp]: "token_try_from_u8 (token_into_u8 t) = Some t"
  by (cases t) (simp_all add: token_try_from_u8_def token_into_u8_def all_tokens_def)

lemma token_into_u8_inj [simp]: "token_into_u8 s = token_into_u8 t \<longleftrightarrow> s = t"
  by (metis token_try_from_into option.inject)

lemma token_into_try_from: "token_try_from_u8 v = Some t \<Longrightarrow> token_into_u8 t = v"
  by (auto simp: token_try_from_u8_def find_Some_iff)

lemma dex_share_key_inj [simp]: "dex_share_key a = dex_share_key b \<longleftrightarrow> a = b"
  by (cases a; cases b) auto

lemma currency_key_inj: "currency_key a = currency_key b \<longleftrightarrow> a = b"
  by (cases a; cases b) auto

instantiation currency_id :: linorder
begin

definition less_eq_currency_id :: "currency_id \<Rightarrow> currency_id \<Rightarrow> bool" where
  "less_eq_currency_id a b \<longleftrightarrow> currency_key a \<le> currency_key b"

definition less_currency_id :: "currency_id \<Rightarrow> currency_id \<Rightarrow> bool" where
  "less_currency_id a b \<longleftrightarrow> currency_key a < currency_key b"

instance
  by standard (auto simp: less_eq_currency_id_def less_currency_id_def currency_key_inj
      less_le_not_le order_antisym_conv linear intro: order_trans)

end

section \<open>Trading pairs\<close>

datatype trading_pair = TradingPair (pair_0: currency_id) (pair_1: currency_id)

definition trading_pair_new :: "currency_id \<Rightarrow> currency_id \<Rightarrow> trading_pair" where
  "trading_pair_new a b = (if a > b then TradingPair b a else TradingPair a b)"

definition from_token_currency_ids :: "currency_id \<Rightarrow> currency_id \<Rightarrow> trading_pair option" where
  "from_token_currency_ids c0 c1 =
     (if (is_token_currency_id c0 \<or> is_erc20_currency_id c0) \<and>
         (is_token_currency_id c1 \<or> is_erc20_currency_id c1)
      then Some (trading_pair_new c1 c0) else None)"

definition get_dex_share_currency_id :: "trading_pair \<Rightarrow> currency_id option" where
  "get_dex_share_currency_id p = join_dex_share_currency_id (pair_0 p) (pair_1 p)"

lemma trading_pair_new_sym: "trading_pair_new a b = trading_pair_new b a"
  by (auto simp: trading_pair_new_def)

lemma trading_pair_new_cases:
  "(pair_0 (trading_pair_new a b) = a \<and> pair_1 (trading_pair_new a b) = b) \<or>
   (pair_0 (trading_pair_new a b) = b \<and> pair_1 (trading_pair_new a b) = a)"
  by (simp add: trading_pair_new_def)

lemma trading_pair_new_sorted: "pair_0 (trading_pair_new a b) \<le> pair_1 (trading_pair_new a b)"
  by (auto simp: trading_pair_new_def)

lemma from_token_currency_ids_Some:
  "from_token_currency_ids a b = Some p \<Longrightarrow> p = trading_pair_new a b"
  by (simp add: from_token_currency_ids_def trading_pair_new_sym split: if_splits)

lemma dex_share_of_Some_iff:
  "(\<exists>s. dex_share_of c = Some s) \<longleftrightarrow> is_token_currency_id c \<or> is_erc20_currency_id c"
  by (cases c) auto

lemma from_token_currency_ids_has_share:
  assumes "from_token_currency_ids a b = Some p"
  shows "\<exists>lp. get_dex_share_currency_id p = Some lp"
proof -
  have "\<exists>s. dex_share_of a = Some s" "\<exists>s. dex_share_of b = Some s"
    using assms by (auto simp: from_token_currency_ids_def dex_share_of_Some_iff split: if_splits)
  moreover have "p = trading_pair_new a b"
    using assms by (rule from_token_currency_ids_Some)
  ultimately show ?thesis
    by (auto simp: get_dex_share_currency_id_def join_dex_share_currency_id_def trading_pair_new_def)
qed

lemma dex_share_of_into: "dex_share_of c = Some s \<Longrightarrow> dex_share_into s = c"
  by (cases c) auto

lemma join_split:
  "join_dex_share_currency_id a b = Some c \<Longrightarrow> split_dex_share_currency_id c = Some (a, b)"
  by (auto simp: join_dex_share_currency_id_def split: option.splits dest: dex_share_of_into)

lemma get_dex_share_is_share:
  "get_dex_share_currency_id p = Some lp \<Longrightarrow> is_dex_share_currency_id lp"
  by (auto simp: get_dex_share_currency_id_def join_dex_share_currency_id_def split: option.splits)

lemma get_dex_share_inj:
  assumes "get_dex_share_currency_id p = Some lp" "get_dex_share_currency_id q = Some lp"
  shows "p = q"
proof -
  have "split_dex_share_currency_id lp = Some (pair_0 p, pair_1 p)"
       "split_dex_share_currency_id lp = Some (pair_0 q, pair_1 q)"
    using assms unfolding get_dex_share_currency_id_def by (blast dest: join_split)+
  then show ?thesis by (cases p; cases q) simp
qed

text \<open>
  Splitting an LP currency into its two tokens and joining them again are inverse to each
  other: every pair of tokens (native tokens or ERC20 contracts) has an LP currency, splitting
  that currency gives the two tokens back in order, and no LP currency belongs to two pairs.
\<close>

theorem lp_currency_roundtrip:
  assumes "from_token_currency_ids a b = Some p"
  shows "\<exists>lp. get_dex_share_currency_id p = Some lp \<and>
      split_dex_share_currency_id lp = Some (pair_0 p, pair_1 p) \<and>
      from_token_currency_ids (pair_0 p) (pair_1 p) = Some p \<and>
      (\<forall>q. get_dex_share_currency_id q = Some lp \<longleftrightarrow> q = p)"
proof -
  obtain lp where lp: "get_dex_share_currency_id p = Some lp"
    using from_token_currency_ids_has_share[OF assms] by auto
  moreover have "split_dex_share_currency_id lp = Some (pair_0 p, pair_1 p)"
    using lp join_split by (auto simp: get_dex_share_currency_id_def)
  moreover have "from_token_currency_ids (pair_0 p) (pair_1 p) = Some p"
    using assms by (auto simp: from_token_currency_ids_def trading_pair_new_def split: if_splits)
  ultimately show ?thesis using get_dex_share_inj by blast
qed

theorem lp_currency_roundtrip_witness:
  "\<exists>lp. get_dex_share_currency_id (TradingPair (Token DNAR) (Token SETT)) = Some lp \<and>
      split_dex_share_currency_id lp = Some (Token DNAR, Token SETT)"
proof -
  have "from_token_currency_ids (Token SETT) (Token DNAR) = Some (TradingPair (Token DNAR) (Token SETT))"
    by (simp add: from_token_currency_ids_def trading_pair_new_def less_currency_id_def
        token_into_u8_def less_prod_def)
  from lp_currency_roundtrip[OF this] show ?thesis by auto
qed

end
