(* ===== verification/Currency_Interface.thy ===== *)
theory Currency_Interface
  imports Primitives
begin

text \<open>
  The traits the pallets are configured with. The implementations of the currency traits of
  \<open>orml_traits\<close>, of the fixed-point type \<open>FixedU128\<close> of \<open>sp_arithmetic\<close> and of the
  reference counters of \<open>frame_system\<close> are not part of this repository: they are parameters,
  collected in records of operations on an abstract world \<open>'w\<close>. What a property needs of them
  is one of the named predicates at the end of this theory.
\<close>

type_synonym lock_identifier = nat

datatype balance_status = Free | Reserved

text \<open>\<open>MultiCurrency\<close>, \<open>MultiCurrencyExtended\<close>, \<open>MultiLockableCurrency\<close>,
  \<open>MultiReservableCurrency\<close> and \<open>TransferAll\<close> of \<open>orml_traits\<close>.\<close>

record 'w multi_currency =
  mc_minimum_balance :: "currency_id \<Rightarrow> 'w \<Rightarrow> balance"
  mc_total_issuance :: "currency_id \<Rightarrow> 'w \<Rightarrow> balance"
  mc_total_balance :: "currency_id \<Rightarrow> account_id \<Rightarrow> 'w \<Rightarrow> balance"
  mc_free_balance :: "currency_id \<Rightarrow> account_id \<Rightarrow> 'w \<Rightarrow> balance"
  mc_ensure_can_withdraw :: "currency_id \<Rightarrow> account_id \<Rightarrow> balance \<Rightarrow> ('w, unit) eff"
  mc_transfer :: "currency_id \<Rightarrow> account_id \<Rightarrow> account_id \<Rightarrow> balance \<Rightarrow> ('w, unit) eff"
  mc_deposit :: "currency_id \<Rightarrow> account_id \<Rightarrow> balance \<Rightarrow> ('w, unit) eff"
  mc_withdraw :: "currency_id \<Rightarrow> account_id \<Rightarrow> balance \<Rightarrow> ('w, unit) eff"
  mc_can_slash :: "currency_id \<Rightarrow> account_id \<Rightarrow> balance \<Rightarrow> 'w \<Rightarrow> bool"
  mc_slash :: "currency_id \<Rightarrow> account_id \<Rightarrow> balance \<Rightarrow> 'w \<Rightarrow> balance \<times> 'w"
  mc_update_balance :: "currency_id \<Rightarrow> account_id \<Rightarrow> amount \<Rightarrow> ('w, unit) eff"
  mc_set_lock :: "lock_identifier \<Rightarrow> currency_id \<Rightarrow> account_id \<Rightarrow> balance \<Rightarrow> ('w, unit) eff"
  mc_extend_lock :: "lock_identifier \<Rightarrow> currency_id \<Rightarrow> account_id \<Rightarrow> balance \<Rightarrow> ('w, unit) eff"
  mc_remove_lock :: "lock_identifier \<Rightarrow> currency_id \<Rightarrow> account_id \<Rightarrow> ('w, unit) eff"
  mc_can_reserve :: "currency_id \<Rightarrow> account_id \<Rightarrow> balance \<Rightarrow> 'w \<Rightarrow> bool"
  mc_slash_reserved :: "currency_id \<Rightarrow> account_id \<Rightarrow> balance \<Rightarrow> 'w \<Rightarrow> balance \<times> 'w"
  mc_reserved_balance :: "currency_id \<Rightarrow> account_id \<Rightarrow> 'w \<Rightarrow> balance"
  mc_reserve :: "currency_id \<Rightarrow> account_id \<Rightarrow> balance \<Rightarrow> ('w, unit) eff"
  mc_unreserve :: "currency_id \<Rightarrow> account_id \<Rightarrow> balance \<Rightarrow> 'w \<Rightarrow> balance \<times> 'w"
  mc_repatriate_reserved :: "currency_id \<Rightarrow> account_id \<Rightarrow> account_id \<Rightarrow> balance \<Rightarrow>
     balance_status \<Rightarrow> ('w, balance) eff"
  mc_transfer_all :: "account_id \<Rightarrow> account_id \<Rightarrow> ('w, unit) eff"

text \<open>\<open>BasicCurrency\<close> and its extensions: the same for a single currency.\<close>

record 'w basic_currency =
  bc_minimum_balance :: "'w \<Rightarrow> balance"
  bc_total_issuance :: "'w \<Rightarrow> balance"
  bc_total_balance :: "account_id \<Rightarrow> 'w \<Rightarrow> balance"
  bc_free_balance :: "account_id \<Rightarrow> 'w \<Rightarrow> balance"
  bc_ensure_can_withdraw :: "account_id \<Rightarrow> balance \<Rightarrow> ('w, unit) eff"
  bc_transfer :: "account_id \<Rightarrow> account_id \<Rightarrow> balance \<Rightarrow> ('w, unit) eff"
  bc_deposit :: "account_id \<Rightarrow> balance \<Rightarrow> ('w, unit) eff"
  bc_withdraw :: "account_id \<Rightarrow> balance \<Rightarrow> ('w, unit) eff"
  bc_can_slash :: "account_id \<Rightarrow> balance \<Rightarrow> 'w \<Rightarrow> bool"
  bc_slash :: "account_id \<Rightarrow> balance \<Rightarrow> 'w \<Rightarrow> balance \<times> 'w"
  bc_update_balance :: "account_id \<Rightarrow> amount \<Rightarrow> ('w, unit) eff"
  bc_set_lock :: "lock_identifier \<Rightarrow> account_id \<Rightarrow> balance \<Rightarrow> ('w, unit) eff"
  bc_extend_lock :: "lock_identifier \<Rightarrow> account_id \<Rightarrow> balance \<Rightarrow> ('w, unit) eff"
  bc_remove_lock :: "lock_identifier \<Rightarrow> account_id \<Rightarrow> ('w, unit) eff"
  bc_can_reserve :: "account_id \<Rightarrow> balance \<Rightarrow> 'w \<Rightarrow> bool"
  bc_slash_reserved :: "account_id \<Rightarrow> balance \<Rightarrow> 'w \<Rightarrow> balance \<times> 'w"
  bc_reserved_balance :: "account_id \<Rightarrow> 'w \<Rightarrow> balance"
  bc_reserve :: "account_id \<Rightarrow> balance \<Rightarrow> ('w, unit) eff"
  bc_unreserve :: "account_id \<Rightarrow> balance \<Rightarrow> 'w \<Rightarrow> balance \<times> 'w"
  bc_repatriate_reserved :: "account_id \<Rightarrow> account_id \<Rightarrow> balance \<Rightarrow> balance_status \<Rightarrow>
     ('w, balance) eff"

text \<open>
  \<open>FixedU128\<close> by its inner value, a \<open>u128\<close> counting \<open>fx_div\<close>-ths.
\<close>

type_synonym fixed_u128 = nat

definition fx_div :: nat where "fx_div = 10 ^ 18"

record fixed_ops =
  fx_checked_from_rational :: "nat \<Rightarrow> nat \<Rightarrow> fixed_u128 option"
  fx_saturating_mul_int :: "fixed_u128 \<Rightarrow> nat \<Rightarrow> nat"
  fx_checked_mul_int :: "fixed_u128 \<Rightarrow> nat \<Rightarrow> nat option"
  fx_saturating_mul :: "fixed_u128 \<Rightarrow> fixed_u128 \<Rightarrow> fixed_u128"
  fx_saturating_from_integer :: "nat \<Rightarrow> fixed_u128"

section \<open>What is assumed of them\<close>

text \<open>
  The part of the contract of \<open>MultiCurrency\<close> that the owner \<open>m\<close> of an account relies on:
  a successful transfer into or out of \<open>m\<close> moves exactly the amount, and neither a transfer of
  \<open>m\<close> to itself nor an operation on other accounts takes anything from \<open>m\<close>.
\<close>

definition custody_out_law :: "'w multi_currency \<Rightarrow> account_id \<Rightarrow> bool" where
  "custody_out_law ops m \<longleftrightarrow> (\<forall>c b n w w' d. b \<noteq> m \<longrightarrow> mc_transfer ops c m b n w = (Inr (), w') \<longrightarrow>
     mc_free_balance ops d m w' + (if d = c then n else 0) = mc_free_balance ops d m w)"

definition custody_in_law :: "'w multi_currency \<Rightarrow> account_id \<Rightarrow> bool" where
  "custody_in_law ops m \<longleftrightarrow> (\<forall>c a n w w' d. a \<noteq> m \<longrightarrow> mc_transfer ops c a m n w = (Inr (), w') \<longrightarrow>
     mc_free_balance ops d m w' = mc_free_balance ops d m w + (if d = c then n else 0))"

definition custody_others_law :: "'w multi_currency \<Rightarrow> account_id \<Rightarrow> bool" where
  "custody_others_law ops m \<longleftrightarrow>
     (\<forall>c a b n w w' d. (a = m \<longleftrightarrow> b = m) \<longrightarrow> mc_transfer ops c a b n w = (Inr (), w') \<longrightarrow>
        mc_free_balance ops d m w \<le> mc_free_balance ops d m w') \<and>
     (\<forall>c a n w r w' d. mc_deposit ops c a n w = (r, w') \<longrightarrow>
        mc_free_balance ops d m w \<le> mc_free_balance ops d m w') \<and>
     (\<forall>c a n w w' d. a \<noteq> m \<longrightarrow> mc_withdraw ops c a n w = (Inr (), w') \<longrightarrow>
        mc_free_balance ops d m w \<le> mc_free_balance ops d m w')"

definition custody :: "'w multi_currency \<Rightarrow> account_id \<Rightarrow> bool" where
  "custody ops m \<longleftrightarrow> custody_out_law ops m \<and> custody_in_law ops m \<and> custody_others_law ops m"

lemma custody_out:
  assumes "custody ops m" "b \<noteq> m" "mc_transfer ops c m b n w = (Inr (), w')"
  shows "mc_free_balance ops d m w' + (if d = c then n else 0) = mc_free_balance ops d m w"
  using assms by (simp add: custody_def custody_out_law_def)

lemma custody_in:
  assumes "custody ops m" "a \<noteq> m" "mc_transfer ops c a m n w = (Inr (), w')"
  shows "mc_free_balance ops d m w' = mc_free_balance ops d m w + (if d = c then n else 0)"
  using assms by (simp add: custody_def custody_in_law_def)

lemma custody_pay:
  assumes "custody ops m" "mc_transfer ops c m b n w = (Inr (), w')"
  shows "mc_free_balance ops d m w \<le> mc_free_balance ops d m w' + (if d = c then n else 0)"
proof (cases "b = m")
  case True
  then have "mc_free_balance ops d m w \<le> mc_free_balance ops d m w'"
    using assms unfolding custody_def custody_others_law_def by blast
  then show ?thesis by simp
next
  case False
  then show ?thesis using custody_out[OF assms(1) False assms(2), of d] by simp
qed

lemma custody_deposit:
  assumes "custody ops m" "mc_deposit ops c a n w = (r, w')"
  shows "mc_free_balance ops d m w \<le> mc_free_balance ops d m w'"
  using assms unfolding custody_def custody_others_law_def by blast

lemma custody_withdraw:
  assumes "custody ops m" "a \<noteq> m" "mc_withdraw ops c a n w = (Inr (), w')"
  shows "mc_free_balance ops d m w \<le> mc_free_balance ops d m w'"
  using assms unfolding custody_def custody_others_law_def by blast

text \<open>
  The part of the contract of \<open>FixedU128\<close> that proportional payments rely on: a ratio of a part
  to the whole is at most one, and a fraction of an amount is at most the amount.
\<close>

definition fixed_fractions :: "fixed_ops \<Rightarrow> bool" where
  "fixed_fractions fx \<longleftrightarrow>
     (\<forall>n d q. n \<le> d \<longrightarrow> fx_checked_from_rational fx n d = Some q \<longrightarrow> q \<le> fx_div) \<and>
     (\<forall>q n. q \<le> fx_div \<longrightarrow> fx_saturating_mul_int fx q n \<le> n) \<and>
     (\<forall>q n v. q \<le> fx_div \<longrightarrow> fx_checked_mul_int fx q n = Some v \<longrightarrow> v \<le> n)"

end
