(* ===== verification/Evm_Types.thy ===== *)
theory Evm_Types
  imports Primitives
begin

text \<open>
  The types the EVM pallets share: the context and the modes of a call (\<open>lib-serml/support\<close>), its
  result (\<open>primitives/src/evm.rs\<close>), and the exit reasons of the interpreter, which are a library's.
\<close>

abbreviation zero_address :: evm_address where
  "zero_address \<equiv> replicate 20 0"

record invoke_context =
  ctx_contract :: evm_address
  ctx_sender :: evm_address
  ctx_origin :: evm_address

datatype execution_mode = Execute | View | EstimateGas

text \<open>
  \<open>ExitError\<close>: the variants the code names; \<open>Exit_Interpreter n\<close> is another one of the
  interpreter, and \<open>Exit_Panic\<close> is a panic of the runtime, not a value.
\<close>

datatype exit_error = Exit_Other string | Exit_OutOfGas | Exit_Interpreter nat | Exit_Panic

datatype exit_succeed = Stopped | Returned | Suicided

datatype exit_reason =
  Exit_Succeed exit_succeed | Exit_Error exit_error | Exit_Revert | Exit_Fatal

definition is_succeed :: "exit_reason \<Rightarrow> bool" where
  "is_succeed r \<longleftrightarrow> (case r of Exit_Succeed _ \<Rightarrow> True | _ \<Rightarrow> False)"

record call_info =
  ci_exit_reason :: exit_reason
  ci_output :: "u8 list"
  ci_used_gas :: nat
  ci_used_storage :: int

end
