(* ===== verification/Currencies.thy ===== *)
theory Currencies
  imports Currency_Interface Evm_Types
begin

text \<open>
  The currencies pallet, \<open>lib-serml/tokens/currencies/src/lib.rs\<close>: one \<open>MultiCurrency\<close>
  that sends operations on ERC20 currencies to the EVM bridge, operations on the native currency
  to the balances pallet and all others to the tokens pallet. The three back ends are parameters
  (\<open>currencies_config\<close>); \<open>currencies_multi\<close> collects the pallet's operations as an
  implementation of the interface, \<open>currencies_basic\<close> is the struct \<open>Currency\<close> that
  fixes a currency, \<open>adapter_basic\<close> the struct \<open>BasicCurrencyAdapter\<close>.
\<close>

section \<open>Configuration and state\<close>

record 'w currencies_config =
  cc_multi :: "'w multi_currency"
  cc_native :: "'w basic_currency"
  cc_native_id :: currency_id
  cc_get_evm_address :: "account_id \<Rightarrow> 'w \<Rightarrow> evm_address option"
  cc_get_or_create_evm_address :: "account_id \<Rightarrow> 'w \<Rightarrow> evm_address \<times> 'w"
  cc_evm_total_supply :: "invoke_context \<Rightarrow> 'w \<Rightarrow> dispatch_error + balance"
  cc_evm_balance_of :: "invoke_context \<Rightarrow> evm_address \<Rightarrow> 'w \<Rightarrow> dispatch_error + balance"
  cc_evm_transfer :: "invoke_context \<Rightarrow> evm_address \<Rightarrow> balance \<Rightarrow> ('w, unit) eff"
  cc_evm_get_origin :: "'w \<Rightarrow> account_id option"
  cc_blake2_256 :: "u8 list \<Rightarrow> u8 list"
  cc_lookup :: "nat \<Rightarrow> account_id option"

datatype currencies_event =
    Transferred currency_id account_id account_id balance
  | BalanceUpdated currency_id account_id amount
  | Deposited currency_id account_id balance
  | Withdrawn currency_id account_id balance

record 'w currencies_state =
  cs_world :: 'w
  cs_events :: "currencies_event list"

definition inW :: "('w, 'a) eff \<Rightarrow> ('w currencies_state, 'a) eff" where
  "inW m = zoomE cs_world (\<lambda>w s. s\<lparr>cs_world := w\<rparr>) m"

definition stepW :: "('w \<Rightarrow> 'a \<times> 'w) \<Rightarrow> ('w currencies_state, 'a) eff" where
  "stepW f = inW (\<lambda>w. case f w of (x, w') \<Rightarrow> (Inr x, w'))"

definition runW :: "('w \<Rightarrow> 'a \<times> 'w) \<Rightarrow> 'w currencies_state \<Rightarrow> 'a \<times> 'w currencies_state" where
  "runW f s = (case f (cs_world s) of (x, w') \<Rightarrow> (x, s\<lparr>cs_world := w'\<rparr>))"

definition currencies_deposit_event :: "currencies_event \<Rightarrow> ('w currencies_state, unit) eff" where
  "currencies_deposit_event ev = modE (\<lambda>s. s\<lparr>cs_events := cs_events s @ [ev]\<rparr>)"

definition read_context :: "evm_address \<Rightarrow> invoke_context" where
  "read_context contract = \<lparr>ctx_contract = contract, ctx_sender = zero_address, ctx_origin = zero_address\<rparr>"

definition reserve_address :: "'w currencies_config \<Rightarrow> evm_address \<Rightarrow> evm_address" where
  "reserve_address cfg address = take 20 (cc_blake2_256 cfg ([101, 114, 99, 50, 48, 58] @ address))"

definition erc20_balance :: "'w currencies_config \<Rightarrow> evm_address \<Rightarrow> evm_address \<Rightarrow> 'w \<Rightarrow> balance" where
  "erc20_balance cfg contract address w =
     (case cc_evm_balance_of cfg (read_context contract) address w of Inl _ \<Rightarrow> 0 | Inr b \<Rightarrow> b)"

section \<open>\<open>MultiCurrency\<close>\<close>

definition currencies_minimum_balance :: "'w currencies_config \<Rightarrow> currency_id \<Rightarrow> 'w currencies_state \<Rightarrow> balance" where
  "currencies_minimum_balance cfg c s =
     (case c of Erc20 _ \<Rightarrow> 0
      | _ \<Rightarrow> if c = cc_native_id cfg then bc_minimum_balance (cc_native cfg) (cs_world s)
            else mc_minimum_balance (cc_multi cfg) c (cs_world s))"

definition currencies_total_issuance :: "'w currencies_config \<Rightarrow> currency_id \<Rightarrow> 'w currencies_state \<Rightarrow> balance" where
  "currencies_total_issuance cfg c s =
     (case c of
        Erc20 contract \<Rightarrow>
          (case cc_evm_total_supply cfg (read_context contract) (cs_world s) of Inl _ \<Rightarrow> 0 | Inr b \<Rightarrow> b)
      | _ \<Rightarrow> if c = cc_native_id cfg then bc_total_issuance (cc_native cfg) (cs_world s)
            else mc_total_issuance (cc_multi cfg) c (cs_world s))"

definition currencies_total_balance ::
  "'w currencies_config \<Rightarrow> currency_id \<Rightarrow> account_id \<Rightarrow> 'w currencies_state \<Rightarrow> balance" where
  "currencies_total_balance cfg c who s =
     (case c of
        Erc20 contract \<Rightarrow>
          (case cc_get_evm_address cfg who (cs_world s) of
             Some address \<Rightarrow> erc20_balance cfg contract address (cs_world s)
           | None \<Rightarrow> 0)
      | _ \<Rightarrow> if c = cc_native_id cfg then bc_total_balance (cc_native cfg) who (cs_world s)
            else mc_total_balance (cc_multi cfg) c who (cs_world s))"

definition currencies_free_balance ::
  "'w currencies_config \<Rightarrow> currency_id \<Rightarrow> account_id \<Rightarrow> 'w currencies_state \<Rightarrow> balance" where
  "currencies_free_balance cfg c who s =
     (case c of
        Erc20 contract \<Rightarrow>
          (case cc_get_evm_address cfg who (cs_world s) of
             Some address \<Rightarrow> erc20_balance cfg contract address (cs_world s)
           | None \<Rightarrow> 0)
      | _ \<Rightarrow> if c = cc_native_id cfg then bc_free_balance (cc_native cfg) who (cs_world s)
            else mc_free_balance (cc_multi cfg) c who (cs_world s))"

definition currencies_ensure_can_withdraw ::
  "'w currencies_config \<Rightarrow> currency_id \<Rightarrow> account_id \<Rightarrow> balance \<Rightarrow> ('w currencies_state, unit) eff" where
  "currencies_ensure_can_withdraw cfg c who amount =
     (case c of
        Erc20 contract \<Rightarrow>
          bindE (getE (\<lambda>s. cc_get_evm_address cfg who (cs_world s))) (\<lambda>maybe.
          bindE (ok_or maybe (Currencies_Error EvmAccountNotFound)) (\<lambda>address.
          bindE (getE (\<lambda>s. erc20_balance cfg contract address (cs_world s))) (\<lambda>balance.
          ensure (balance \<ge> amount) (Currencies_Error BalanceTooLow))))
      | _ \<Rightarrow> if c = cc_native_id cfg then inW (bc_ensure_can_withdraw (cc_native cfg) who amount)
            else inW (mc_ensure_can_withdraw (cc_multi cfg) c who amount))"

text \<open>
  \<open>unwrap_or_default\<close> on the origin gives the account of all zero bytes, number 0.
\<close>

definition currencies_transfer ::
  "'w currencies_config \<Rightarrow> currency_id \<Rightarrow> account_id \<Rightarrow> account_id \<Rightarrow> balance \<Rightarrow>
   ('w currencies_state, unit) eff" where
  "currencies_transfer cfg c from to amount =
     (if amount = 0 \<or> from = to then okE ()
      else thenE
       (case c of
          Erc20 contract \<Rightarrow>
            bindE (getE (\<lambda>s. cc_get_evm_address cfg from (cs_world s))) (\<lambda>maybe.
            bindE (ok_or maybe (Currencies_Error EvmAccountNotFound)) (\<lambda>sender.
            bindE (getE (\<lambda>s. unwrap_or (cc_evm_get_origin cfg (cs_world s)) 0)) (\<lambda>origin.
            bindE (stepW (cc_get_or_create_evm_address cfg origin)) (\<lambda>origin_address.
            bindE (stepW (cc_get_or_create_evm_address cfg to)) (\<lambda>address.
            inW (cc_evm_transfer cfg
              \<lparr>ctx_contract = contract, ctx_sender = sender, ctx_origin = origin_address\<rparr>
              address amount))))))
        | _ \<Rightarrow> if c = cc_native_id cfg then inW (bc_transfer (cc_native cfg) from to amount)
              else inW (mc_transfer (cc_multi cfg) c from to amount))
       (currencies_deposit_event (Transferred c from to amount)))"

definition currencies_deposit ::
  "'w currencies_config \<Rightarrow> currency_id \<Rightarrow> account_id \<Rightarrow> balance \<Rightarrow> ('w currencies_state, unit) eff" where
  "currencies_deposit cfg c who amount =
     (if amount = 0 then okE ()
      else thenE
       (case c of
          Erc20 _ \<Rightarrow> failE (Currencies_Error Erc20InvalidOperation)
        | _ \<Rightarrow> if c = cc_native_id cfg then inW (bc_deposit (cc_native cfg) who amount)
              else inW (mc_deposit (cc_multi cfg) c who amount))
       (currencies_deposit_event (Deposited c who amount)))"

definition currencies_withdraw ::
  "'w currencies_config \<Rightarrow> currency_id \<Rightarrow> account_id \<Rightarrow> balance \<Rightarrow> ('w currencies_state, unit) eff" where
  "currencies_withdraw cfg c who amount =
     (if amount = 0 then okE ()
      else thenE
       (case c of
          Erc20 _ \<Rightarrow> failE (Currencies_Error Erc20InvalidOperation)
        | _ \<Rightarrow> if c = cc_native_id cfg then inW (bc_withdraw (cc_native cfg) who amount)
              else inW (mc_withdraw (cc_multi cfg) c who amount))
       (currencies_deposit_event (Withdrawn c who amount)))"

definition currencies_can_slash ::
  "'w currencies_config \<Rightarrow> currency_id \<Rightarrow> account_id \<Rightarrow> balance \<Rightarrow> 'w currencies_state \<Rightarrow> bool" where
  "currencies_can_slash cfg c who amount s =
     (case c of Erc20 _ \<Rightarrow> False
      | _ \<Rightarrow> if c = cc_native_id cfg then bc_can_slash (cc_native cfg) who amount (cs_world s)
            else mc_can_slash (cc_multi cfg) c who amount (cs_world s))"

definition currencies_slash ::
  "'w currencies_config \<Rightarrow> currency_id \<Rightarrow> account_id \<Rightarrow> balance \<Rightarrow> 'w currencies_state \<Rightarrow>
   balance \<times> 'w currencies_state" where
  "currencies_slash cfg c who amount s =
     (case c of Erc20 _ \<Rightarrow> (0, s)
      | _ \<Rightarrow> if c = cc_native_id cfg then runW (bc_slash (cc_native cfg) who amount) s
            else runW (mc_slash (cc_multi cfg) c who amount) s)"

definition currencies_update_balance ::
  "'w currencies_config \<Rightarrow> currency_id \<Rightarrow> account_id \<Rightarrow> amount \<Rightarrow> ('w currencies_state, unit) eff" where
  "currencies_update_balance cfg c who by_amount =
     thenE
       (case c of
          Erc20 _ \<Rightarrow> failE (Currencies_Error Erc20InvalidOperation)
        | _ \<Rightarrow> if c = cc_native_id cfg then inW (bc_update_balance (cc_native cfg) who by_amount)
              else inW (mc_update_balance (cc_multi cfg) c who by_amount))
       (currencies_deposit_event (BalanceUpdated c who by_amount))"

section \<open>Locks\<close>

definition currencies_set_lock ::
  "'w currencies_config \<Rightarrow> lock_identifier \<Rightarrow> currency_id \<Rightarrow> account_id \<Rightarrow> balance \<Rightarrow>
   ('w currencies_state, unit) eff" where
  "currencies_set_lock cfg lock c who amount =
     (case c of Erc20 _ \<Rightarrow> failE (Currencies_Error Erc20InvalidOperation)
      | _ \<Rightarrow> if c = cc_native_id cfg then inW (bc_set_lock (cc_native cfg) lock who amount)
            else inW (mc_set_lock (cc_multi cfg) lock c who amount))"

definition currencies_extend_lock ::
  "'w currencies_config \<Rightarrow> lock_identifier \<Rightarrow> currency_id \<Rightarrow> account_id \<Rightarrow> balance \<Rightarrow>
   ('w currencies_state, unit) eff" where
  "currencies_extend_lock cfg lock c who amount =
     (case c of Erc20 _ \<Rightarrow> failE (Currencies_Error Erc20InvalidOperation)
      | _ \<Rightarrow> if c = cc_native_id cfg then inW (bc_extend_lock (cc_native cfg) lock who amount)
            else inW (mc_extend_lock (cc_multi cfg) lock c who amount))"

definition currencies_remove_lock ::
  "'w currencies_config \<Rightarrow> lock_identifier \<Rightarrow> currency_id \<Rightarrow> account_id \<Rightarrow>
   ('w currencies_state, unit) eff" where
  "currencies_remove_lock cfg lock c who =
     (case c of Erc20 _ \<Rightarrow> failE (Currencies_Error Erc20InvalidOperation)
      | _ \<Rightarrow> if c = cc_native_id cfg then inW (bc_remove_lock (cc_native cfg) lock who)
            else inW (mc_remove_lock (cc_multi cfg) lock c who))"

section \<open>Reserves\<close>

definition currencies_can_reserve ::
  "'w currencies_config \<Rightarrow> currency_id \<Rightarrow> account_id \<Rightarrow> balance \<Rightarrow> 'w currencies_state \<Rightarrow> bool" where
  "currencies_can_reserve cfg c who value s =
     (case c of
        Erc20 _ \<Rightarrow> \<not> isl (fst (currencies_ensure_can_withdraw cfg c who value s))
      | _ \<Rightarrow> if c = cc_native_id cfg then bc_can_reserve (cc_native cfg) who value (cs_world s)
            else mc_can_reserve (cc_multi cfg) c who value (cs_world s))"

definition currencies_slash_reserved ::
  "'w currencies_config \<Rightarrow> currency_id \<Rightarrow> account_id \<Rightarrow> balance \<Rightarrow> 'w currencies_state \<Rightarrow>
   balance \<times> 'w currencies_state" where
  "currencies_slash_reserved cfg c who value s =
     (case c of Erc20 _ \<Rightarrow> (value, s)
      | _ \<Rightarrow> if c = cc_native_id cfg then runW (bc_slash_reserved (cc_native cfg) who value) s
            else runW (mc_slash_reserved (cc_multi cfg) c who value) s)"

definition currencies_reserved_balance ::
  "'w currencies_config \<Rightarrow> currency_id \<Rightarrow> account_id \<Rightarrow> 'w currencies_state \<Rightarrow> balance" where
  "currencies_reserved_balance cfg c who s =
     (case c of
        Erc20 contract \<Rightarrow>
          (case cc_get_evm_address cfg who (cs_world s) of
             Some address \<Rightarrow> erc20_balance cfg contract (reserve_address cfg address) (cs_world s)
           | None \<Rightarrow> 0)
      | _ \<Rightarrow> if c = cc_native_id cfg then bc_reserved_balance (cc_native cfg) who (cs_world s)
            else mc_reserved_balance (cc_multi cfg) c who (cs_world s))"

definition currencies_reserve ::
  "'w currencies_config \<Rightarrow> currency_id \<Rightarrow> account_id \<Rightarrow> balance \<Rightarrow> ('w currencies_state, unit) eff" where
  "currencies_reserve cfg c who value =
     (case c of
        Erc20 contract \<Rightarrow>
          if value = 0 then okE ()
          else
            bindE (getE (\<lambda>s. cc_get_evm_address cfg who (cs_world s))) (\<lambda>maybe.
            bindE (ok_or maybe (Currencies_Error EvmAccountNotFound)) (\<lambda>address.
            inW (cc_evm_transfer cfg
              \<lparr>ctx_contract = contract, ctx_sender = address, ctx_origin = address\<rparr>
              (reserve_address cfg address) value)))
      | _ \<Rightarrow> if c = cc_native_id cfg then inW (bc_reserve (cc_native cfg) who value)
            else inW (mc_reserve (cc_multi cfg) c who value))"

definition currencies_unreserve ::
  "'w currencies_config \<Rightarrow> currency_id \<Rightarrow> account_id \<Rightarrow> balance \<Rightarrow> 'w currencies_state \<Rightarrow>
   balance \<times> 'w currencies_state" where
  "currencies_unreserve cfg c who value s =
     (case c of
        Erc20 contract \<Rightarrow>
          if value = 0 then (value, s)
          else (case cc_get_evm_address cfg who (cs_world s) of
             None \<Rightarrow> (value, s)
           | Some address \<Rightarrow>
               let sender = reserve_address cfg address;
                   actual = min (erc20_balance cfg contract sender (cs_world s)) value
               in (case inW (cc_evm_transfer cfg
                     \<lparr>ctx_contract = contract, ctx_sender = sender, ctx_origin = address\<rparr>
                     address actual) s of
                     (Inr _, t) \<Rightarrow> (value - actual, t)
                   | (Inl _, t) \<Rightarrow> (value, t)))
      | _ \<Rightarrow> if c = cc_native_id cfg then runW (bc_unreserve (cc_native cfg) who value) s
            else runW (mc_unreserve (cc_multi cfg) c who value) s)"

definition currencies_repatriate_reserved ::
  "'w currencies_config \<Rightarrow> currency_id \<Rightarrow> account_id \<Rightarrow> account_id \<Rightarrow> balance \<Rightarrow> balance_status \<Rightarrow>
   ('w currencies_state, balance) eff" where
  "currencies_repatriate_reserved cfg c slashed beneficiary value status =
     (case c of
        Erc20 contract \<Rightarrow>
          if value = 0 then okE value
          else if slashed = beneficiary then
            (case status of
               Free \<Rightarrow> (\<lambda>s. case currencies_unreserve cfg c slashed value s of (x, t) \<Rightarrow> (Inr x, t))
             | Reserved \<Rightarrow> getE (\<lambda>s. sat_sub value (currencies_reserved_balance cfg c slashed s)))
          else
            bindE (getE (\<lambda>s. cc_get_evm_address cfg slashed (cs_world s))) (\<lambda>maybe.
            bindE (ok_or maybe (Currencies_Error EvmAccountNotFound)) (\<lambda>slashed_address.
            bindE (stepW (cc_get_or_create_evm_address cfg beneficiary)) (\<lambda>beneficiary_address.
            bindE (getE (\<lambda>s. min (erc20_balance cfg contract
                     (reserve_address cfg slashed_address) (cs_world s)) value)) (\<lambda>actual.
            thenE (inW (cc_evm_transfer cfg
                \<lparr>ctx_contract = contract, ctx_sender = reserve_address cfg slashed_address,
                 ctx_origin = slashed_address\<rparr>
                (case status of Free \<Rightarrow> beneficiary_address
                 | Reserved \<Rightarrow> reserve_address cfg beneficiary_address)
                actual))
              (okE (value - actual))))))
      | _ \<Rightarrow> if c = cc_native_id cfg
            then inW (bc_repatriate_reserved (cc_native cfg) slashed beneficiary value status)
            else inW (mc_repatriate_reserved (cc_multi cfg) c slashed beneficiary value status))"

definition currencies_transfer_all ::
  "'w currencies_config \<Rightarrow> account_id \<Rightarrow> account_id \<Rightarrow> ('w currencies_state, unit) eff" where
  "currencies_transfer_all cfg source dest = transactional (
     thenE (inW (mc_transfer_all (cc_multi cfg) source dest))
       (bindE (getE (\<lambda>s. bc_free_balance (cc_native cfg) source (cs_world s))) (\<lambda>free.
        inW (bc_transfer (cc_native cfg) source dest free))))"

text \<open>The pallet as an implementation of the currency traits.\<close>

definition currencies_multi :: "'w currencies_config \<Rightarrow> 'w currencies_state multi_currency" where
  "currencies_multi cfg = \<lparr>
     mc_minimum_balance = currencies_minimum_balance cfg,
     mc_total_issuance = currencies_total_issuance cfg,
     mc_total_balance = currencies_total_balance cfg,
     mc_free_balance = currencies_free_balance cfg,
     mc_ensure_can_withdraw = currencies_ensure_can_withdraw cfg,
     mc_transfer = currencies_transfer cfg,
     mc_deposit = currencies_deposit cfg,
     mc_withdraw = currencies_withdraw cfg,
     mc_can_slash = currencies_can_slash cfg,
     mc_slash = currencies_slash cfg,
     mc_update_balance = currencies_update_balance cfg,
     mc_set_lock = currencies_set_lock cfg,
     mc_extend_lock = currencies_extend_lock cfg,
     mc_remove_lock = currencies_remove_lock cfg,
     mc_can_reserve = currencies_can_reserve cfg,
     mc_slash_reserved = currencies_slash_reserved cfg,
     mc_reserved_balance = currencies_reserved_balance cfg,
     mc_reserve = currencies_reserve cfg,
     mc_unreserve = currencies_unreserve cfg,
     mc_repatriate_reserved = currencies_repatriate_reserved cfg,
     mc_transfer_all = currencies_transfer_all cfg\<rparr>"

section \<open>A fixed currency: the struct \<open>Currency\<close>\<close>

definition currencies_basic :: "'w currencies_config \<Rightarrow> currency_id \<Rightarrow> 'w currencies_state basic_currency" where
  "currencies_basic cfg cid = \<lparr>
     bc_minimum_balance = currencies_minimum_balance cfg cid,
     bc_total_issuance = currencies_total_issuance cfg cid,
     bc_total_balance = currencies_total_balance cfg cid,
     bc_free_balance = currencies_free_balance cfg cid,
     bc_ensure_can_withdraw = currencies_ensure_can_withdraw cfg cid,
     bc_transfer = currencies_transfer cfg cid,
     bc_deposit = currencies_deposit cfg cid,
     bc_withdraw = currencies_withdraw cfg cid,
     bc_can_slash = currencies_can_slash cfg cid,
     bc_slash = currencies_slash cfg cid,
     bc_update_balance = currencies_update_balance cfg cid,
     bc_set_lock = (\<lambda>lock who amount. currencies_set_lock cfg lock cid who amount),
     bc_extend_lock = (\<lambda>lock who amount. currencies_extend_lock cfg lock cid who amount),
     bc_remove_lock = (\<lambda>lock who. currencies_remove_lock cfg lock cid who),
     bc_can_reserve = currencies_can_reserve cfg cid,
     bc_slash_reserved = currencies_slash_reserved cfg cid,
     bc_reserved_balance = currencies_reserved_balance cfg cid,
     bc_reserve = currencies_reserve cfg cid,
     bc_unreserve = currencies_unreserve cfg cid,
     bc_repatriate_reserved = currencies_repatriate_reserved cfg cid\<rparr>"

section \<open>The adapter from Substrate's \<open>Currency\<close>\<close>

text \<open>
  \<open>frame_support::traits::Currency\<close>, \<open>LockableCurrency\<close> and \<open>ReservableCurrency\<close>. The
  adapter passes \<open>WithdrawReasons::all()\<close> and \<open>ExistenceRequirement::AllowDeath\<close>
  everywhere, so that these two arguments are part of the operations; imbalances are dropped.
\<close>

record 'w pallet_currency =
  pc_minimum_balance :: "'w \<Rightarrow> balance"
  pc_total_issuance :: "'w \<Rightarrow> balance"
  pc_total_balance :: "account_id \<Rightarrow> 'w \<Rightarrow> balance"
  pc_free_balance :: "account_id \<Rightarrow> 'w \<Rightarrow> balance"
  pc_ensure_can_withdraw :: "account_id \<Rightarrow> balance \<Rightarrow> balance \<Rightarrow> ('w, unit) eff"
  pc_transfer :: "account_id \<Rightarrow> account_id \<Rightarrow> balance \<Rightarrow> ('w, unit) eff"
  pc_deposit_creating :: "account_id \<Rightarrow> balance \<Rightarrow> 'w \<Rightarrow> 'w"
  pc_withdraw :: "account_id \<Rightarrow> balance \<Rightarrow> ('w, unit) eff"
  pc_can_slash :: "account_id \<Rightarrow> balance \<Rightarrow> 'w \<Rightarrow> bool"
  pc_slash :: "account_id \<Rightarrow> balance \<Rightarrow> 'w \<Rightarrow> balance \<times> 'w"
  pc_set_lock :: "lock_identifier \<Rightarrow> account_id \<Rightarrow> balance \<Rightarrow> 'w \<Rightarrow> 'w"
  pc_extend_lock :: "lock_identifier \<Rightarrow> account_id \<Rightarrow> balance \<Rightarrow> 'w \<Rightarrow> 'w"
  pc_remove_lock :: "lock_identifier \<Rightarrow> account_id \<Rightarrow> 'w \<Rightarrow> 'w"
  pc_can_reserve :: "account_id \<Rightarrow> balance \<Rightarrow> 'w \<Rightarrow> bool"
  pc_slash_reserved :: "account_id \<Rightarrow> balance \<Rightarrow> 'w \<Rightarrow> balance \<times> 'w"
  pc_reserved_balance :: "account_id \<Rightarrow> 'w \<Rightarrow> balance"
  pc_reserve :: "account_id \<Rightarrow> balance \<Rightarrow> ('w, unit) eff"
  pc_unreserve :: "account_id \<Rightarrow> balance \<Rightarrow> 'w \<Rightarrow> balance \<times> 'w"
  pc_repatriate_reserved :: "account_id \<Rightarrow> account_id \<Rightarrow> balance \<Rightarrow> balance_status \<Rightarrow> ('w, balance) eff"

definition adapter_ensure_can_withdraw :: "'w pallet_currency \<Rightarrow> account_id \<Rightarrow> balance \<Rightarrow> ('w, unit) eff" where
  "adapter_ensure_can_withdraw pc who amount =
     bindE (getE (pc_free_balance pc who)) (\<lambda>free.
     bindE (ok_or (chk_sub free amount) (Currencies_Error BalanceTooLow)) (\<lambda>new_balance.
     pc_ensure_can_withdraw pc who amount new_balance))"

definition adapter_deposit :: "'w pallet_currency \<Rightarrow> account_id \<Rightarrow> balance \<Rightarrow> ('w, unit) eff" where
  "adapter_deposit pc who amount = modE (pc_deposit_creating pc who amount)"

text \<open>
  \<open>by_amount.abs()\<close> on a signed 128-bit integer overflows on the least value: Rust panics in a
  debug build and wraps in a release build, where the wrapped value is negative and the conversion
  into a balance fails; the error stands for both.
\<close>

definition adapter_update_balance :: "'w pallet_currency \<Rightarrow> account_id \<Rightarrow> amount \<Rightarrow> ('w, unit) eff" where
  "adapter_update_balance pc who by_amount =
     bindE (ok_or (if by_amount = i128_min then None else Some (nat \<bar>by_amount\<bar>))
              (Currencies_Error AmountIntoBalanceFailed)) (\<lambda>by_balance.
     if by_amount > 0 then adapter_deposit pc who by_balance
     else pc_withdraw pc who by_balance)"

definition adapter_basic :: "'w pallet_currency \<Rightarrow> 'w basic_currency" where
  "adapter_basic pc = \<lparr>
     bc_minimum_balance = pc_minimum_balance pc,
     bc_total_issuance = pc_total_issuance pc,
     bc_total_balance = pc_total_balance pc,
     bc_free_balance = pc_free_balance pc,
     bc_ensure_can_withdraw = adapter_ensure_can_withdraw pc,
     bc_transfer = pc_transfer pc,
     bc_deposit = adapter_deposit pc,
     bc_withdraw = pc_withdraw pc,
     bc_can_slash = pc_can_slash pc,
     bc_slash = pc_slash pc,
     bc_update_balance = adapter_update_balance pc,
     bc_set_lock = (\<lambda>lock who amount. modE (pc_set_lock pc lock who amount)),
     bc_extend_lock = (\<lambda>lock who amount. modE (pc_extend_lock pc lock who amount)),
     bc_remove_lock = (\<lambda>lock who. modE (pc_remove_lock pc lock who)),
     bc_can_reserve = pc_can_reserve pc,
     bc_slash_reserved = pc_slash_reserved pc,
     bc_reserved_balance = pc_reserved_balance pc,
     bc_reserve = pc_reserve pc,
     bc_unreserve = pc_unreserve pc,
     bc_repatriate_reserved = pc_repatriate_reserved pc\<rparr>"

section \<open>Dispatchables\<close>

definition currencies_lookup :: "'w currencies_config \<Rightarrow> nat \<Rightarrow> ('s, account_id) eff" where
  "currencies_lookup cfg dest = ok_or (cc_lookup cfg dest) CannotLookup"

definition call_transfer ::
  "'w currencies_config \<Rightarrow> origin \<Rightarrow> nat \<Rightarrow> currency_id \<Rightarrow> balance \<Rightarrow> ('w currencies_state, unit) eff" where
  "call_transfer cfg org dest c amount =
     bindE (ensure_signed org) (\<lambda>from.
     bindE (currencies_lookup cfg dest) (\<lambda>to.
     currencies_transfer cfg c from to amount))"

definition call_transfer_native_currency ::
  "'w currencies_config \<Rightarrow> origin \<Rightarrow> nat \<Rightarrow> balance \<Rightarrow> ('w currencies_state, unit) eff" where
  "call_transfer_native_currency cfg org dest amount =
     bindE (ensure_signed org) (\<lambda>from.
     bindE (currencies_lookup cfg dest) (\<lambda>to.
     thenE (inW (bc_transfer (cc_native cfg) from to amount))
       (currencies_deposit_event (Transferred (cc_native_id cfg) from to amount))))"

definition call_update_balance ::
  "'w currencies_config \<Rightarrow> origin \<Rightarrow> nat \<Rightarrow> currency_id \<Rightarrow> amount \<Rightarrow> ('w currencies_state, unit) eff" where
  "call_update_balance cfg org who c amount =
     thenE (ensure_root org)
     (bindE (currencies_lookup cfg who) (\<lambda>dest.
      currencies_update_balance cfg c dest amount))"

end
