(* ===== verification/Dex.thy ===== *)
theory Dex
  imports Currency_Interface
begin

text \<open>
  The exchange pallet, \<open>lib-serml/dex/dex/src/lib.rs\<close>: liquidity pools of two currencies
  with a constant-product price, the life cycle of a trading pair (not enabled, provisioning,
  enabled) and the shares of liquidity providers. This theory holds the configuration, the
  storage and every function of the pallet; the properties are in the theories that import it.
\<close>

section \<open>Configuration and storage\<close>

record provision_parameters =
  min_contribution :: "balance \<times> balance"
  target_provision :: "balance \<times> balance"
  accumulated_provision :: "balance \<times> balance"
  not_before :: block_number

datatype trading_pair_status = NotEnabled | Provisioning provision_parameters | Enabled

datatype dex_event =
    AddProvision account_id currency_id balance currency_id balance
  | AddLiquidity account_id currency_id balance currency_id balance balance
  | RemoveLiquidity account_id currency_id balance currency_id balance balance
  | Swap account_id "currency_id list" balance balance
  | EnableTradingPair trading_pair
  | ListTradingPair trading_pair
  | DisableTradingPair trading_pair
  | ProvisioningToEnabled trading_pair balance balance balance

text \<open>The trait \<open>Config\<close>; \<open>dex_account\<close> is the account of the pallet.\<close>

record 'w dex_config =
  dex_currency :: "'w multi_currency"
  trading_path_limit :: nat
  dex_account :: account_id
  dex_set_erc20_mapping :: "evm_address \<Rightarrow> ('w, unit) eff"
  dex_encode_evm_address :: "currency_id \<Rightarrow> 'w \<Rightarrow> evm_address option"
  dex_deposit_share :: "account_id \<Rightarrow> currency_id \<Rightarrow> balance \<Rightarrow> ('w, unit) eff"
  dex_withdraw_share :: "account_id \<Rightarrow> currency_id \<Rightarrow> balance \<Rightarrow> ('w, unit) eff"
  dex_listing_origin :: "origin \<Rightarrow> bool"
  dex_fixed :: fixed_ops
  dex_inc_consumers :: "account_id \<Rightarrow> ('w, unit) eff"
  dex_dec_consumers :: "account_id \<Rightarrow> 'w \<Rightarrow> 'w"
  dex_block_number :: "'w \<Rightarrow> block_number"

text \<open>
  Storage maps with default values are total functions. \<open>drain_prefix\<close> needs the accounts that
  have a provision, so that the second key of \<open>ProvisioningPool\<close> is an association list, in
  the order the trie is iterated.
\<close>

record 'w dex_state =
  liquidity_pool :: "trading_pair \<Rightarrow> balance \<times> balance"
  trading_pair_statuses :: "trading_pair \<Rightarrow> trading_pair_status"
  provisioning_pool :: "trading_pair \<Rightarrow> (account_id \<times> (balance \<times> balance)) list"
  get_exchange_fee :: "u32 \<times> u32"
  dex_world :: 'w
  dex_events :: "dex_event list"

abbreviation dexE :: "dex_error \<Rightarrow> dispatch_error" where
  "dexE \<equiv> Dex_Error"

definition inD :: "('w, 'a) eff \<Rightarrow> ('w dex_state, 'a) eff" where
  "inD m = zoomE dex_world (\<lambda>w s. s\<lparr>dex_world := w\<rparr>) m"

definition dex_deposit_event :: "dex_event \<Rightarrow> ('w dex_state, unit) eff" where
  "dex_deposit_event ev = modE (\<lambda>s. s\<lparr>dex_events := dex_events s @ [ev]\<rparr>)"

definition put_pool :: "trading_pair \<Rightarrow> balance \<times> balance \<Rightarrow> ('w dex_state, unit) eff" where
  "put_pool p v = modE (\<lambda>s. s\<lparr>liquidity_pool := (liquidity_pool s)(p := v)\<rparr>)"

definition put_status :: "trading_pair \<Rightarrow> trading_pair_status \<Rightarrow> ('w dex_state, unit) eff" where
  "put_status p v = modE (\<lambda>s. s\<lparr>trading_pair_statuses := (trading_pair_statuses s)(p := v)\<rparr>)"

definition put_provisions ::
  "trading_pair \<Rightarrow> (account_id \<times> (balance \<times> balance)) list \<Rightarrow> ('w dex_state, unit) eff" where
  "put_provisions p v = modE (\<lambda>s. s\<lparr>provisioning_pool := (provisioning_pool s)(p := v)\<rparr>)"

text \<open>
  The two values given for the currencies \<open>a\<close> and \<open>b\<close> of a call, in the order of the pair.
\<close>

definition orient :: "trading_pair \<Rightarrow> currency_id \<Rightarrow> 'v \<Rightarrow> 'v \<Rightarrow> 'v \<times> 'v" where
  "orient p a value_a value_b = (if a = pair_0 p then (value_a, value_b) else (value_b, value_a))"

section \<open>Prices\<close>

definition get_liquidity :: "'w dex_state \<Rightarrow> currency_id \<Rightarrow> currency_id \<Rightarrow> balance \<times> balance" where
  "get_liquidity s a b =
     (let p = trading_pair_new a b; (pool_0, pool_1) = liquidity_pool s p
      in if a = pair_0 p then (pool_0, pool_1) else (pool_1, pool_0))"

text \<open>The fee is a pair of \<open>u32\<close>, numerator and denominator; amounts are widened to \<open>U256\<close>.\<close>

definition get_target_amount :: "u32 \<times> u32 \<Rightarrow> balance \<Rightarrow> balance \<Rightarrow> balance \<Rightarrow> balance" where
  "get_target_amount fee supply_pool target_pool supply_amount =
     (if supply_amount = 0 \<or> supply_pool = 0 \<or> target_pool = 0 then 0
      else
        let (fee_numerator, fee_denominator) = fee;
            supply_amount_with_fee =
              sat_mul u128_max supply_amount (sat_sub (unat fee_denominator) (unat fee_numerator));
            numerator = sat_mul u256_max supply_amount_with_fee target_pool;
            denominator = sat_add u256_max (sat_mul u256_max supply_pool (unat fee_denominator))
              supply_amount_with_fee
        in unwrap_or (Option.bind (chk_div numerator denominator) (narrow u128_max)) 0)"

definition get_supply_amount :: "u32 \<times> u32 \<Rightarrow> balance \<Rightarrow> balance \<Rightarrow> balance \<Rightarrow> balance" where
  "get_supply_amount fee supply_pool target_pool target_amount =
     (if target_amount = 0 \<or> supply_pool = 0 \<or> target_pool = 0 then 0
      else
        let (fee_numerator, fee_denominator) = fee;
            numerator = sat_mul u256_max (sat_mul u256_max supply_pool target_amount) (unat fee_denominator);
            denominator = sat_mul u256_max (sat_sub target_pool target_amount)
              (sat_sub (unat fee_denominator) (unat fee_numerator))
        in unwrap_or (Option.bind (Option.bind (chk_div numerator denominator)
             (\<lambda>r. chk_add u256_max r 1)) (narrow u128_max)) 0)"

text \<open>The price impact of a step, checked when a limit is given.\<close>

definition impact_ok :: "fixed_ops \<Rightarrow> fixed_u128 option \<Rightarrow> balance \<Rightarrow> balance \<Rightarrow> bool" where
  "impact_ok fx limit amount pool =
     (case limit of None \<Rightarrow> True
      | Some l \<Rightarrow> unwrap_or (fx_checked_from_rational fx amount pool) 0 \<le> l)"

text \<open>
  The loop of \<open>get_target_amounts\<close>, from the front of the path; the result is the list of the
  amounts after the first.
\<close>

fun target_loop :: "'w dex_config \<Rightarrow> 'w dex_state \<Rightarrow> fixed_u128 option \<Rightarrow> currency_id list \<Rightarrow> balance \<Rightarrow>
    dispatch_error + balance list" where
  "target_loop cfg s limit (x # y # path) amount =
     (if trading_pair_statuses s (trading_pair_new x y) \<noteq> Enabled then Inl (dexE MustBeEnabled)
      else
        let (supply_pool, target_pool) = get_liquidity s x y in
        if supply_pool = 0 \<or> target_pool = 0 then Inl (dexE InsufficientLiquidity)
        else
          let target_amount = get_target_amount (get_exchange_fee s) supply_pool target_pool amount in
          if target_amount = 0 then Inl (dexE ZeroTargetAmount)
          else if \<not> impact_ok (dex_fixed cfg) limit target_amount target_pool
          then Inl (dexE ExceedPriceImpactLimit)
          else (case target_loop cfg s limit (y # path) target_amount of
                  Inl e \<Rightarrow> Inl e | Inr amounts \<Rightarrow> Inr (target_amount # amounts)))"
| "target_loop cfg s limit path amount = Inr []"

definition get_target_amounts ::
  "'w dex_config \<Rightarrow> 'w dex_state \<Rightarrow> currency_id list \<Rightarrow> balance \<Rightarrow> fixed_u128 option \<Rightarrow>
   dispatch_error + balance list" where
  "get_target_amounts cfg s path supply_amount limit =
     (if \<not> (2 \<le> length path \<and> length path \<le> trading_path_limit cfg)
      then Inl (dexE InvalidTradingPathLength)
      else (case target_loop cfg s limit path supply_amount of
              Inl e \<Rightarrow> Inl e | Inr amounts \<Rightarrow> Inr (supply_amount # amounts)))"

text \<open>
  The loop of \<open>get_supply_amounts\<close> runs from the back of the path: it is given the reversed path
  and returns the amounts before the last, last first.
\<close>

fun supply_loop :: "'w dex_config \<Rightarrow> 'w dex_state \<Rightarrow> fixed_u128 option \<Rightarrow> currency_id list \<Rightarrow> balance \<Rightarrow>
    dispatch_error + balance list" where
  "supply_loop cfg s limit (y # x # path) amount =
     (if trading_pair_statuses s (trading_pair_new x y) \<noteq> Enabled then Inl (dexE MustBeEnabled)
      else
        let (supply_pool, target_pool) = get_liquidity s x y in
        if supply_pool = 0 \<or> target_pool = 0 then Inl (dexE InsufficientLiquidity)
        else
          let supply_amount = get_supply_amount (get_exchange_fee s) supply_pool target_pool amount in
          if supply_amount = 0 then Inl (dexE ZeroSupplyAmount)
          else if \<not> impact_ok (dex_fixed cfg) limit amount target_pool
          then Inl (dexE ExceedPriceImpactLimit)
          else (case supply_loop cfg s limit (x # path) supply_amount of
                  Inl e \<Rightarrow> Inl e | Inr amounts \<Rightarrow> Inr (supply_amount # amounts)))"
| "supply_loop cfg s limit path amount = Inr []"

definition get_supply_amounts ::
  "'w dex_config \<Rightarrow> 'w dex_state \<Rightarrow> currency_id list \<Rightarrow> balance \<Rightarrow> fixed_u128 option \<Rightarrow>
   dispatch_error + balance list" where
  "get_supply_amounts cfg s path target_amount limit =
     (if \<not> (2 \<le> length path \<and> length path \<le> trading_path_limit cfg)
      then Inl (dexE InvalidTradingPathLength)
      else (case supply_loop cfg s limit (rev path) target_amount of
              Inl e \<Rightarrow> Inl e | Inr amounts \<Rightarrow> Inr (rev (target_amount # amounts))))"

section \<open>Swaps\<close>

definition dex_swap :: "currency_id \<Rightarrow> currency_id \<Rightarrow> balance \<Rightarrow> balance \<Rightarrow> ('w dex_state, unit) eff" where
  "dex_swap supply_id target_id supply_increment target_decrement =
     (case from_token_currency_ids supply_id target_id of
        None \<Rightarrow> okE ()
      | Some p \<Rightarrow>
          bindE (getE (\<lambda>s. liquidity_pool s p)) (\<lambda>(pool_0, pool_1).
          put_pool p
            (if supply_id = pair_0 p
             then (sat_add u128_max pool_0 supply_increment, sat_sub pool_1 target_decrement)
             else (sat_sub pool_0 target_decrement, sat_add u128_max pool_1 supply_increment))))"

fun dex_swap_by_path :: "currency_id list \<Rightarrow> balance list \<Rightarrow> ('w dex_state, unit) eff" where
  "dex_swap_by_path (x # y # path) (a # b # amounts) =
     thenE (dex_swap x y a b) (dex_swap_by_path (y # path) (b # amounts))"
| "dex_swap_by_path _ _ = okE ()"

definition of_result :: "dispatch_error + 'a \<Rightarrow> ('s, 'a) eff" where
  "of_result r = (\<lambda>s. (r, s))"

definition do_swap_with_exact_supply ::
  "'w dex_config \<Rightarrow> account_id \<Rightarrow> currency_id list \<Rightarrow> balance \<Rightarrow> balance \<Rightarrow> fixed_u128 option \<Rightarrow>
   ('w dex_state, balance) eff" where
  "do_swap_with_exact_supply cfg who path supply_amount min_target_amount limit = transactional (
     bindE (getE (\<lambda>s. get_target_amounts cfg s path supply_amount limit)) (\<lambda>res.
     bindE (of_result res) (\<lambda>amounts.
     thenE (ensure (last amounts \<ge> min_target_amount) (dexE InsufficientTargetAmount)) (
     thenE (inD (mc_transfer (dex_currency cfg) (hd path) who (dex_account cfg) supply_amount)) (
     thenE (dex_swap_by_path path amounts) (
     thenE (inD (mc_transfer (dex_currency cfg) (last path) (dex_account cfg) who (last amounts))) (
     thenE (dex_deposit_event (Swap who path supply_amount (last amounts)))
       (okE (last amounts)))))))))"

definition do_swap_with_exact_target ::
  "'w dex_config \<Rightarrow> account_id \<Rightarrow> currency_id list \<Rightarrow> balance \<Rightarrow> balance \<Rightarrow> fixed_u128 option \<Rightarrow>
   ('w dex_state, balance) eff" where
  "do_swap_with_exact_target cfg who path target_amount max_supply_amount limit = transactional (
     bindE (getE (\<lambda>s. get_supply_amounts cfg s path target_amount limit)) (\<lambda>res.
     bindE (of_result res) (\<lambda>amounts.
     thenE (ensure (hd amounts \<le> max_supply_amount) (dexE ExcessiveSupplyAmount)) (
     thenE (inD (mc_transfer (dex_currency cfg) (hd path) who (dex_account cfg) (hd amounts))) (
     thenE (dex_swap_by_path path amounts) (
     thenE (inD (mc_transfer (dex_currency cfg) (last path) (dex_account cfg) who target_amount)) (
     thenE (dex_deposit_event (Swap who path (hd amounts) target_amount))
       (okE (hd amounts)))))))))"

section \<open>Provision\<close>

text \<open>
  Shares at the initial price: the larger side at its face value plus the smaller side converted
  at the price of the accumulated amounts.
\<close>

definition initial_share :: "fixed_ops \<Rightarrow> balance \<times> balance \<Rightarrow> balance \<times> balance \<Rightarrow> balance" where
  "initial_share fx acc contribution =
     (if fst acc > snd acc
      then sat_add u128_max
             (fx_saturating_mul_int fx
               (unwrap_or (fx_checked_from_rational fx (fst acc) (snd acc)) 0) (snd contribution))
             (fst contribution)
      else sat_add u128_max
             (fx_saturating_mul_int fx
               (unwrap_or (fx_checked_from_rational fx (snd acc) (fst acc)) 0) (fst contribution))
             (snd contribution))"

text \<open>
  The loop over the drained provisions: a failing deposit is logged and skipped. The result is
  the total of the shares issued.
\<close>

fun issue_initial_shares ::
  "'w dex_config \<Rightarrow> currency_id \<Rightarrow> balance \<times> balance \<Rightarrow> (account_id \<times> (balance \<times> balance)) list \<Rightarrow>
   balance \<Rightarrow> ('w dex_state, balance) eff" where
  "issue_initial_shares cfg lp acc [] issued = okE issued"
| "issue_initial_shares cfg lp acc ((who, contribution) # rest) issued =
     bindE (resultE (inD (mc_deposit (dex_currency cfg) lp who
              (initial_share (dex_fixed cfg) acc contribution)))) (\<lambda>res.
     thenE (inD (modE (dex_dec_consumers cfg who)))
       (issue_initial_shares cfg lp acc rest
          (case res of
             Inr _ \<Rightarrow> sat_add u128_max issued (initial_share (dex_fixed cfg) acc contribution)
           | Inl _ \<Rightarrow> issued)))"

definition can_be_enabled :: "block_number \<Rightarrow> provision_parameters \<Rightarrow> bool" where
  "can_be_enabled now pp \<longleftrightarrow>
     not_before pp \<le> now \<and> fst (accumulated_provision pp) \<noteq> 0 \<and> snd (accumulated_provision pp) \<noteq> 0 \<and>
     (fst (accumulated_provision pp) \<ge> fst (target_provision pp) \<or>
      snd (accumulated_provision pp) \<ge> snd (target_provision pp))"

text \<open>
  \<open>get_dex_share_currency_id().expect(..)\<close>: a panic, which aborts the block and is not
  reached for a listed pair; it is the error \<open>Other\<close> here. The second line of the closure over the pool
  subtracts the accumulated provision, as in the source.
\<close>

definition convert_to_enabled_if_possible :: "'w dex_config \<Rightarrow> trading_pair \<Rightarrow> ('w dex_state, unit) eff" where
  "convert_to_enabled_if_possible cfg p =
     bindE (getE (\<lambda>s. (trading_pair_statuses s p, dex_block_number cfg (dex_world s)))) (\<lambda>(status, now).
     (case status of
        Provisioning pp \<Rightarrow>
          if can_be_enabled now pp then
            bindE (ok_or (get_dex_share_currency_id p) Other) (\<lambda>lp.
            bindE (getE (\<lambda>s. provisioning_pool s p)) (\<lambda>provisions.
            thenE (put_provisions p []) (
            bindE (issue_initial_shares cfg lp (accumulated_provision pp) provisions 0) (\<lambda>issued.
            bindE (getE (\<lambda>s. liquidity_pool s p)) (\<lambda>(pool_0, pool_1).
            thenE (put_pool p (sat_add u128_max pool_0 (fst (accumulated_provision pp)),
                               sat_sub pool_1 (snd (accumulated_provision pp)))) (
            thenE (put_status p Enabled)
              (dex_deposit_event (ProvisioningToEnabled p (fst (accumulated_provision pp))
                 (snd (accumulated_provision pp)) issued))))))))
          else okE ()
      | _ \<Rightarrow> okE ()))"

definition do_add_provision ::
  "'w dex_config \<Rightarrow> account_id \<Rightarrow> currency_id \<Rightarrow> currency_id \<Rightarrow> balance \<Rightarrow> balance \<Rightarrow>
   ('w dex_state, unit) eff" where
  "do_add_provision cfg who a b contribution_a contribution_b =
     (let p = trading_pair_new a b;
          (contribution_0, contribution_1) =
            orient p a contribution_a contribution_b
      in
     bindE (getE (\<lambda>s. trading_pair_statuses s p)) (\<lambda>status.
     case status of
       Provisioning pp \<Rightarrow>
         thenE (ensure (contribution_0 \<ge> fst (min_contribution pp) \<or> contribution_1 \<ge> snd (min_contribution pp))
                  (dexE InvalidContributionIncrement)) (
         bindE (getE (\<lambda>s. map_of (provisioning_pool s p) who)) (\<lambda>maybe_pool.
         thenE (inD (mc_transfer (dex_currency cfg) (pair_0 p) who (dex_account cfg) contribution_0)) (
         thenE (inD (mc_transfer (dex_currency cfg) (pair_1 p) who (dex_account cfg) contribution_1)) (
         thenE (modE (\<lambda>s. s\<lparr>provisioning_pool := (provisioning_pool s)(p :=
                  alist_put who (let pool = unwrap_or maybe_pool (0, 0) in
                    (sat_add u128_max (fst pool) contribution_0,
                     sat_add u128_max (snd pool) contribution_1)) (provisioning_pool s p))\<rparr>)) (
         thenE (whenE (maybe_pool = None) (thenE (resultE (inD (dex_inc_consumers cfg who))) (okE ()))) (
         thenE (put_status p (Provisioning (pp\<lparr>accumulated_provision :=
                  (sat_add u128_max (fst (accumulated_provision pp)) contribution_0,
                   sat_add u128_max (snd (accumulated_provision pp)) contribution_1)\<rparr>)))
           (dex_deposit_event (AddProvision who (pair_0 p) contribution_0 (pair_1 p) contribution_1))))))))
     | _ \<Rightarrow> failE (dexE MustBeProvisioning)))"

section \<open>Liquidity\<close>

text \<open>The increments of the two pools and of the shares.\<close>

definition liquidity_increments ::
  "fixed_ops \<Rightarrow> balance \<Rightarrow> balance \<times> balance \<Rightarrow> balance \<Rightarrow> balance \<Rightarrow> balance \<times> balance \<times> balance" where
  "liquidity_increments fx total_shares pool max_amount_0 max_amount_1 =
     (case pool of (pool_0, pool_1) \<Rightarrow>
      if total_shares = 0 then
        (max_amount_0, max_amount_1,
         initial_share fx (max_amount_0, max_amount_1) (max_amount_0, max_amount_1))
      else
        let price_0_1 = unwrap_or (fx_checked_from_rational fx pool_1 pool_0) 0;
            input_price_0_1 = unwrap_or (fx_checked_from_rational fx max_amount_1 max_amount_0) 0
        in if input_price_0_1 \<le> price_0_1 then
             let price_1_0 = unwrap_or (fx_checked_from_rational fx pool_0 pool_1) 0;
                 amount_0 = fx_saturating_mul_int fx price_1_0 max_amount_1;
                 share = unwrap_or (Option.bind (fx_checked_from_rational fx amount_0 pool_0)
                           (\<lambda>n. fx_checked_mul_int fx n total_shares)) 0
             in (amount_0, max_amount_1, share)
           else
             let amount_1 = fx_saturating_mul_int fx price_0_1 max_amount_0;
                 share = unwrap_or (Option.bind (fx_checked_from_rational fx amount_1 pool_1)
                           (\<lambda>n. fx_checked_mul_int fx n total_shares)) 0
             in (max_amount_0, amount_1, share))"

definition do_add_liquidity ::
  "'w dex_config \<Rightarrow> account_id \<Rightarrow> currency_id \<Rightarrow> currency_id \<Rightarrow> balance \<Rightarrow> balance \<Rightarrow> balance \<Rightarrow> bool \<Rightarrow>
   ('w dex_state, unit) eff" where
  "do_add_liquidity cfg who a b max_amount_a max_amount_b min_share_increment deposit_increment_share =
     (let p = trading_pair_new a b in
     bindE (ok_or (get_dex_share_currency_id p) (dexE InvalidCurrencyId)) (\<lambda>lp.
     bindE (getE (\<lambda>s. trading_pair_statuses s p)) (\<lambda>status.
     thenE (ensure (status = Enabled) (dexE MustBeEnabled)) (
     bindE (getE (\<lambda>s. (liquidity_pool s p, mc_total_issuance (dex_currency cfg) lp (dex_world s)))) (\<lambda>(pool, total_shares).
     let (max_amount_0, max_amount_1) =
           orient p a max_amount_a max_amount_b;
         (inc_0, inc_1, share) =
           liquidity_increments (dex_fixed cfg) total_shares pool max_amount_0 max_amount_1
     in
     thenE (ensure (share \<noteq> 0 \<and> inc_0 \<noteq> 0 \<and> inc_1 \<noteq> 0) (dexE InvalidLiquidityIncrement)) (
     thenE (ensure (share \<ge> min_share_increment) (dexE UnacceptableShareIncrement)) (
     thenE (inD (mc_transfer (dex_currency cfg) (pair_0 p) who (dex_account cfg) inc_0)) (
     thenE (inD (mc_transfer (dex_currency cfg) (pair_1 p) who (dex_account cfg) inc_1)) (
     thenE (inD (mc_deposit (dex_currency cfg) lp who share)) (
     thenE (whenE deposit_increment_share (inD (dex_deposit_share cfg who lp share))) (
     thenE (dex_deposit_event (AddLiquidity who (pair_0 p) inc_0 (pair_1 p) inc_1 share))
       (put_pool p (sat_add u128_max (fst pool) inc_0, sat_add u128_max (snd pool) inc_1)))))))))))))"

text \<open>The share of one pool that belongs to the removed LP shares.\<close>

definition liquidity_decrement :: "fixed_ops \<Rightarrow> balance \<Rightarrow> balance \<Rightarrow> balance \<Rightarrow> balance" where
  "liquidity_decrement fx remove_share total_shares pool =
     (let proportion = unwrap_or (fx_checked_from_rational fx remove_share total_shares) 0
      in fx_saturating_mul_int fx proportion pool)"

definition do_remove_liquidity ::
  "'w dex_config \<Rightarrow> account_id \<Rightarrow> currency_id \<Rightarrow> currency_id \<Rightarrow> balance \<Rightarrow> balance \<Rightarrow> balance \<Rightarrow> bool \<Rightarrow>
   ('w dex_state, unit) eff" where
  "do_remove_liquidity cfg who a b remove_share min_withdrawn_a min_withdrawn_b by_withdraw = transactional (
     if remove_share = 0 then okE ()
     else
     bindE (ok_or (from_token_currency_ids a b) (dexE InvalidCurrencyId)) (\<lambda>p.
     bindE (ok_or (get_dex_share_currency_id p) (dexE InvalidCurrencyId)) (\<lambda>lp.
     bindE (getE (\<lambda>s. (liquidity_pool s p, mc_total_issuance (dex_currency cfg) lp (dex_world s)))) (\<lambda>(pool, total_shares).
     let (min_withdrawn_0, min_withdrawn_1) =
           orient p a min_withdrawn_a min_withdrawn_b;
         dec_0 = liquidity_decrement (dex_fixed cfg) remove_share total_shares (fst pool);
         dec_1 = liquidity_decrement (dex_fixed cfg) remove_share total_shares (snd pool)
     in
     thenE (ensure (dec_0 \<ge> min_withdrawn_0 \<and> dec_1 \<ge> min_withdrawn_1) (dexE UnacceptableLiquidityWithdrawn)) (
     thenE (whenE by_withdraw (inD (dex_withdraw_share cfg who lp remove_share))) (
     thenE (inD (mc_withdraw (dex_currency cfg) lp who remove_share)) (
     thenE (inD (mc_transfer (dex_currency cfg) (pair_0 p) (dex_account cfg) who dec_0)) (
     thenE (inD (mc_transfer (dex_currency cfg) (pair_1 p) (dex_account cfg) who dec_1)) (
     thenE (dex_deposit_event (RemoveLiquidity who (pair_0 p) dec_0 (pair_1 p) dec_1 remove_share))
       (put_pool p (sat_sub (fst pool) dec_0, sat_sub (snd pool) dec_1)))))))))))"

section \<open>Dispatchables\<close>

definition swap_with_exact_supply ::
  "'w dex_config \<Rightarrow> origin \<Rightarrow> currency_id list \<Rightarrow> balance \<Rightarrow> balance \<Rightarrow> ('w dex_state, unit) eff" where
  "swap_with_exact_supply cfg org path supply_amount min_target_amount = transactional (
     bindE (ensure_signed org) (\<lambda>who.
     thenE (do_swap_with_exact_supply cfg who path supply_amount min_target_amount None) (okE ())))"

definition swap_with_exact_target ::
  "'w dex_config \<Rightarrow> origin \<Rightarrow> currency_id list \<Rightarrow> balance \<Rightarrow> balance \<Rightarrow> ('w dex_state, unit) eff" where
  "swap_with_exact_target cfg org path target_amount max_supply_amount = transactional (
     bindE (ensure_signed org) (\<lambda>who.
     thenE (do_swap_with_exact_target cfg who path target_amount max_supply_amount None) (okE ())))"

definition add_liquidity ::
  "'w dex_config \<Rightarrow> origin \<Rightarrow> currency_id \<Rightarrow> currency_id \<Rightarrow> balance \<Rightarrow> balance \<Rightarrow> balance \<Rightarrow> bool \<Rightarrow>
   ('w dex_state, unit) eff" where
  "add_liquidity cfg org a b max_amount_a max_amount_b min_share_increment deposit_increment_share = transactional (
     bindE (ensure_signed org) (\<lambda>who.
     bindE (ok_or (from_token_currency_ids a b) (dexE InvalidCurrencyId)) (\<lambda>p.
     bindE (getE (\<lambda>s. trading_pair_statuses s p)) (\<lambda>status.
     case status of
       Enabled \<Rightarrow> do_add_liquidity cfg who a b max_amount_a max_amount_b min_share_increment deposit_increment_share
     | Provisioning _ \<Rightarrow>
         thenE (do_add_provision cfg who a b max_amount_a max_amount_b) (convert_to_enabled_if_possible cfg p)
     | NotEnabled \<Rightarrow> failE (dexE NotEnabledTradingPair)))))"

definition remove_liquidity ::
  "'w dex_config \<Rightarrow> origin \<Rightarrow> currency_id \<Rightarrow> currency_id \<Rightarrow> balance \<Rightarrow> balance \<Rightarrow> balance \<Rightarrow> bool \<Rightarrow>
   ('w dex_state, unit) eff" where
  "remove_liquidity cfg org a b remove_share min_withdrawn_a min_withdrawn_b by_withdraw = transactional (
     bindE (ensure_signed org) (\<lambda>who.
     do_remove_liquidity cfg who a b remove_share min_withdrawn_a min_withdrawn_b by_withdraw))"

fun erc20_mapping :: "'w dex_config \<Rightarrow> currency_id \<Rightarrow> ('w dex_state, unit) eff" where
  "erc20_mapping cfg (Erc20 address) = inD (dex_set_erc20_mapping cfg address)"
| "erc20_mapping cfg _ = okE ()"

definition list_trading_pair ::
  "'w dex_config \<Rightarrow> origin \<Rightarrow> currency_id \<Rightarrow> currency_id \<Rightarrow> balance \<Rightarrow> balance \<Rightarrow> balance \<Rightarrow> balance \<Rightarrow>
   block_number \<Rightarrow> ('w dex_state, unit) eff" where
  "list_trading_pair cfg org a b min_contribution_a min_contribution_b target_provision_a target_provision_b nb =
   transactional (
     thenE (ensure (dex_listing_origin cfg org) BadOrigin) (
     thenE (ensure (a \<noteq> b) (dexE NotAllowedList)) (
     bindE (ok_or (from_token_currency_ids a b) (dexE InvalidCurrencyId)) (\<lambda>p.
     bindE (ok_or (get_dex_share_currency_id p) (dexE InvalidCurrencyId)) (\<lambda>lp.
     bindE (getE (\<lambda>s. (trading_pair_statuses s p, mc_total_issuance (dex_currency cfg) lp (dex_world s)))) (\<lambda>(status, issuance).
     thenE (ensure (status = NotEnabled) (dexE MustBeNotEnabled)) (
     thenE (ensure (issuance = 0) (dexE NotAllowedList)) (
     thenE (erc20_mapping cfg a) (
     thenE (erc20_mapping cfg b) (
     thenE (put_status p (Provisioning
        \<lparr>min_contribution = orient p a min_contribution_a min_contribution_b,
         target_provision = orient p a target_provision_a target_provision_b,
         accumulated_provision = (0, 0), not_before = nb\<rparr>))
       (dex_deposit_event (ListTradingPair p))))))))))))"

definition enable_trading_pair ::
  "'w dex_config \<Rightarrow> origin \<Rightarrow> currency_id \<Rightarrow> currency_id \<Rightarrow> ('w dex_state, unit) eff" where
  "enable_trading_pair cfg org a b = transactional (
     thenE (ensure (dex_listing_origin cfg org) BadOrigin) (
     bindE (ok_or (from_token_currency_ids a b) (dexE InvalidCurrencyId)) (\<lambda>p.
     bindE (getE (\<lambda>s. trading_pair_statuses s p)) (\<lambda>status.
     thenE (ensure (status = NotEnabled) (dexE MustBeNotEnabled)) (
     thenE (put_status p Enabled) (dex_deposit_event (EnableTradingPair p)))))))"

fun refund_provisions ::
  "'w dex_config \<Rightarrow> trading_pair \<Rightarrow> (account_id \<times> (balance \<times> balance)) list \<Rightarrow> ('w dex_state, unit) eff" where
  "refund_provisions cfg p [] = okE ()"
| "refund_provisions cfg p ((who, contribution) # rest) =
     thenE (inD (mc_transfer (dex_currency cfg) (pair_0 p) (dex_account cfg) who (fst contribution))) (
     thenE (inD (mc_transfer (dex_currency cfg) (pair_1 p) (dex_account cfg) who (snd contribution))) (
     thenE (inD (modE (dex_dec_consumers cfg who))) (refund_provisions cfg p rest)))"

definition disable_trading_pair ::
  "'w dex_config \<Rightarrow> origin \<Rightarrow> currency_id \<Rightarrow> currency_id \<Rightarrow> ('w dex_state, unit) eff" where
  "disable_trading_pair cfg org a b = transactional (
     thenE (ensure (dex_listing_origin cfg org) BadOrigin) (
     bindE (ok_or (from_token_currency_ids a b) (dexE InvalidCurrencyId)) (\<lambda>p.
     bindE (getE (\<lambda>s. trading_pair_statuses s p)) (\<lambda>status.
     case status of
       Enabled \<Rightarrow> thenE (put_status p NotEnabled) (dex_deposit_event (DisableTradingPair p))
     | Provisioning _ \<Rightarrow>
         bindE (getE (\<lambda>s. provisioning_pool s p)) (\<lambda>provisions.
         thenE (put_provisions p []) (
         thenE (refund_provisions cfg p provisions) (
         thenE (put_status p NotEnabled) (dex_deposit_event (DisableTradingPair p)))))
     | NotEnabled \<Rightarrow> failE (dexE NotEnabledTradingPair)))))"

section \<open>The trait \<open>DEXManager\<close>\<close>

definition get_liquidity_token_address ::
  "'w dex_config \<Rightarrow> currency_id \<Rightarrow> currency_id \<Rightarrow> 'w dex_state \<Rightarrow> evm_address option" where
  "get_liquidity_token_address cfg a b s =
     Option.bind (from_token_currency_ids a b) (\<lambda>p.
     Option.bind (get_dex_share_currency_id p) (\<lambda>lp.
     dex_encode_evm_address cfg lp (dex_world s)))"

definition get_swap_target_amount ::
  "'w dex_config \<Rightarrow> 'w dex_state \<Rightarrow> currency_id list \<Rightarrow> balance \<Rightarrow> fixed_u128 option \<Rightarrow> balance option" where
  "get_swap_target_amount cfg s path supply_amount limit =
     (case get_target_amounts cfg s path supply_amount limit of Inl _ \<Rightarrow> None | Inr amounts \<Rightarrow> Some (last amounts))"

definition get_swap_supply_amount ::
  "'w dex_config \<Rightarrow> 'w dex_state \<Rightarrow> currency_id list \<Rightarrow> balance \<Rightarrow> fixed_u128 option \<Rightarrow> balance option" where
  "get_swap_supply_amount cfg s path target_amount limit =
     (case get_supply_amounts cfg s path target_amount limit of Inl _ \<Rightarrow> None | Inr amounts \<Rightarrow> Some (hd amounts))"

section \<open>Genesis\<close>

text \<open>\<open>assert!\<close> in \<open>GenesisConfig::build\<close> stops the construction: the error \<open>Other\<close>.\<close>

record dex_genesis =
  initial_listing_trading_pairs ::
    "(trading_pair \<times> (balance \<times> balance) \<times> (balance \<times> balance) \<times> block_number) list"
  initial_enabled_trading_pairs :: "trading_pair list"
  initial_added_liquidity_pools :: "(account_id \<times> (trading_pair \<times> (balance \<times> balance)) list) list"

definition genesis_valid_pair :: "trading_pair \<Rightarrow> ('s, unit) eff" where
  "genesis_valid_pair p = ensure (get_dex_share_currency_id p \<noteq> None) Other"

definition genesis_add_pool ::
  "'w dex_config \<Rightarrow> account_id \<Rightarrow> trading_pair \<times> (balance \<times> balance) \<Rightarrow> ('w dex_state, unit) eff" where
  "genesis_add_pool cfg who = (\<lambda>(p, (deposit_amount_0, deposit_amount_1)).
     thenE (genesis_valid_pair p) (
     bindE (getE (\<lambda>s. trading_pair_statuses s p)) (\<lambda>status.
     bindE (resultE (if status = Enabled
              then do_add_liquidity cfg who (pair_0 p) (pair_1 p) deposit_amount_0 deposit_amount_1 0 False
              else failE (dexE NotEnabledTradingPair))) (\<lambda>res.
     ensure (\<not> isl res) Other))))"

definition dex_genesis_build :: "'w dex_config \<Rightarrow> dex_genesis \<Rightarrow> ('w dex_state, unit) eff" where
  "dex_genesis_build cfg g =
     thenE (forE (initial_listing_trading_pairs g) (\<lambda>(p, minc, target, nb).
       thenE (genesis_valid_pair p)
         (put_status p (Provisioning \<lparr>min_contribution = minc, target_provision = target,
            accumulated_provision = (0, 0), not_before = nb\<rparr>)))) (
     thenE (forE (initial_enabled_trading_pairs g) (\<lambda>p.
       thenE (genesis_valid_pair p) (put_status p Enabled)))
       (forE (initial_added_liquidity_pools g) (\<lambda>(who, data). forE data (genesis_add_pool cfg who))))"

end
