(* ===== verification/Dex_Pricing.thy ===== *)
theory Dex_Pricing
  imports Dex
begin

text \<open>
  The price functions of the exchange. The locale \<open>constant_product\<close> is what the pools rely on:
  a quote never empties the target pool and never lowers the product of the two pools; it is
  interpreted on \<open>get_target_amount\<close> for every fee, with all saturations of the code.
\<close>

section \<open>The interface of a constant-product quote\<close>

locale constant_product =
  fixes cap :: nat and quote :: "nat \<Rightarrow> nat \<Rightarrow> nat \<Rightarrow> nat"
  assumes quote_less:
      "0 < sp \<Longrightarrow> 0 < tp \<Longrightarrow> sp \<le> cap \<Longrightarrow> tp \<le> cap \<Longrightarrow> quote sp tp a < tp"
    and quote_product:
      "sp \<le> cap \<Longrightarrow> tp \<le> cap \<Longrightarrow> sp * tp \<le> (sp + a) * (tp - quote sp tp a)"
begin

lemma quote_le:
  assumes "sp \<le> cap" "tp \<le> cap"
  shows "sp = 0 \<or> tp = 0 \<or> quote sp tp a \<le> tp"
  using quote_less[of sp tp a] assms by force

text \<open>Selling the proceeds back to the pool never returns more than was paid.\<close>

lemma quote_back:
  assumes "0 < sp" "0 < tp" "sp + a \<le> cap" "tp \<le> cap"
  shows "quote (tp - quote sp tp a) (sp + a) (quote sp tp a) \<le> a"
proof -
  define t where "t = quote sp tp a"
  define q where "q = quote (tp - t) (sp + a) t"
  have t: "t < tp" using quote_less assms by (simp add: t_def)
  have "sp * tp \<le> (sp + a) * (tp - t)"
    using quote_product assms by (simp add: t_def)
  also have "\<dots> \<le> tp * (sp + a - q)"
    using quote_product[of "tp - t" "sp + a" t] assms t by (simp add: q_def mult.commute)
  finally have "sp \<le> sp + a - q"
    using assms(2) by (simp add: mult.commute)
  then show ?thesis
    using assms(1) by (simp add: q_def t_def)
qed

end

section \<open>Closed form of the code's quote\<close>

lemma width_facts:
  "u32_max * u128_max + u128_max \<le> u256_max" "u128_max * u128_max \<le> u256_max"
  by (simp_all add: u32_max_def u128_max_def u256_max_def)

lemma unat_u32_max: "unat (x :: u32) \<le> u32_max"
  using unsigned_less[of x, where 'a = nat] by (simp add: u32_max_def)

lemma unwrap_narrow: "v \<le> M \<Longrightarrow> unwrap_or (narrow M v) 0 = v"
  by (simp add: narrow_def)

lemma get_target_amount_eq:
  assumes "sp \<le> u128_max" "tp \<le> u128_max"
  shows "get_target_amount (fn, fd) sp tp a =
    (let x = min u128_max (a * (unat fd - unat fn)) in
     if sp = 0 then 0 else x * tp div (sp * unat fd + x))"
proof -
  define x where "x = min u128_max (a * (unat fd - unat fn))"
  have x: "x \<le> u128_max" by (simp add: x_def)
  have num: "x * tp \<le> u256_max"
    using mult_le_mono[OF x assms(2)] width_facts(2) by linarith
  have "sp * unat fd \<le> u128_max * u32_max"
    using mult_le_mono[OF assms(1) unat_u32_max] .
  then have den: "sp * unat fd \<le> u256_max" "sp * unat fd + x \<le> u256_max"
    using x width_facts(1) by (simp_all add: mult.commute)
  have small: "x * tp div (sp * unat fd + x) \<le> u128_max"
  proof -
    have "x * tp \<le> (sp * unat fd + x) * tp" by (simp add: algebra_simps)
    then have "x * tp div (sp * unat fd + x) \<le> tp"
      by (metis div_le_mono div_mult_self1_is_m gr0I le0 div_by_0)
    then show ?thesis using assms(2) by simp
  qed
  show ?thesis
  proof (cases "a = 0")
    case True
    then show ?thesis by (simp add: get_target_amount_def)
  next
    case False
    then show ?thesis
    using num den small
    by (auto simp: get_target_amount_def x_def[symmetric] sat_mul_def[of u128_max] Let_def
        chk_div_def unwrap_narrow)
  qed
qed

lemma target_arith:
  fixes x :: nat
  assumes "t = x * tp div (y + x)"
  shows "y * tp \<le> (y + x) * (tp - t)" and "0 < y \<Longrightarrow> 0 < tp \<Longrightarrow> t < tp"
proof -
  have t: "t * (y + x) \<le> x * tp"
    using assms by simp
  have "t \<le> tp"
  proof (cases "y + x = 0")
    case False
    have "t * (y + x) \<le> tp * (y + x)" using t by (simp add: algebra_simps)
    then show ?thesis using False by (simp only: mult_le_cancel2)
  qed (use assms in simp)
  then show "y * tp \<le> (y + x) * (tp - t)"
    using t by (simp add: diff_mult_distrib2 algebra_simps)
  show "t < tp" if "0 < y" "0 < tp"
  proof -
    have "t * (y + x) < tp * (y + x)" using t that by (simp add: algebra_simps)
      (meson le_less_trans less_add_same_cancel1 nat_0_less_mult_iff)
    then show ?thesis by simp
  qed
qed

lemma get_target_amount_less:
  assumes "0 < sp" "0 < tp" "sp \<le> u128_max" "tp \<le> u128_max"
  shows "get_target_amount fee sp tp a < tp"
proof (cases fee)
  case (Pair fn fd)
  define x where "x = min u128_max (a * (unat fd - unat fn))"
  have eq: "get_target_amount fee sp tp a = x * tp div (sp * unat fd + x)"
    using assms by (simp add: Pair get_target_amount_eq x_def Let_def)
  show ?thesis
  proof (cases "unat fd = 0")
    case True
    then show ?thesis using eq assms by (simp add: x_def)
  next
    case False
    then show ?thesis using target_arith(2)[OF eq] assms by simp
  qed
qed

lemma get_target_amount_product:
  assumes "sp \<le> u128_max" "tp \<le> u128_max"
  shows "sp * tp \<le> (sp + a) * (tp - get_target_amount fee sp tp a)"
proof (cases fee)
  case (Pair fn fd)
  define x where "x = min u128_max (a * (unat fd - unat fn))"
  have x: "x \<le> a * unat fd"
    by (simp add: x_def min.coboundedI2)
  show ?thesis
  proof (cases "sp = 0 \<or> unat fd = 0")
    case True
    then show ?thesis
      using assms by (auto simp: Pair get_target_amount_eq Let_def)
  next
    case False
    define t where "t = get_target_amount fee sp tp a"
    have t: "t = x * tp div (sp * unat fd + x)"
      using assms False by (simp add: t_def Pair get_target_amount_eq x_def Let_def)
    have "unat fd * (sp * tp) \<le> (sp * unat fd + x) * (tp - t)"
      using target_arith(1)[OF t] by (simp add: algebra_simps)
    also have "\<dots> \<le> (sp * unat fd + a * unat fd) * (tp - t)"
      using x by simp
    also have "\<dots> = unat fd * ((sp + a) * (tp - t))"
      by (simp add: algebra_simps)
    finally show ?thesis using False by (simp add: t_def)
  qed
qed

interpretation dex_curve: constant_product u128_max "get_target_amount fee" for fee
  by unfold_locales (rule get_target_amount_less get_target_amount_product; assumption)+

section \<open>The inverse quote\<close>

lemma get_supply_amount_bound: "get_supply_amount fee sp tp t \<noteq> 0 \<Longrightarrow> t < tp"
  by (cases fee) (auto simp: get_supply_amount_def Let_def chk_div_def sat_mul_def
      split: if_splits option.splits intro: ccontr)

lemma get_supply_amount_le: "get_supply_amount fee sp tp t \<le> u128_max"
  by (cases fee) (auto simp: get_supply_amount_def Let_def bind_eq_Some_conv
      split: if_splits option.splits)

lemma get_supply_amount_eq:
  assumes "get_supply_amount (fn, fd) sp tp t \<noteq> 0" "sp * t * unat fd \<le> u256_max" "tp \<le> u128_max"
  shows "get_supply_amount (fn, fd) sp tp t =
      sp * t * unat fd div ((tp - t) * (unat fd - unat fn)) + 1 \<and>
      0 < (tp - t) * (unat fd - unat fn)"
proof -
  have "(tp - t) * (unat fd - unat fn) \<le> u128_max * u32_max"
    using assms(3) unat_u32_max[of fd] by (intro mult_le_mono) auto
  then have den: "(tp - t) * (unat fd - unat fn) \<le> u256_max"
    using width_facts(1) by (simp add: mult.commute)
  have "sp * t \<le> u256_max"
  proof (cases "unat fd = 0")
    case True
    then have False using assms(1) by (auto simp: get_supply_amount_def Let_def chk_div_def split: if_splits)
    then show ?thesis ..
  next
    case False
    then have "sp * t \<le> sp * t * unat fd" by simp
    then show ?thesis using assms(2) by (rule order_trans)
  qed
  then have sat: "sat_mul u256_max (sat_mul u256_max sp t) (unat fd) = sp * t * unat fd"
    "sat_mul u256_max (sat_sub tp t) (sat_sub (unat fd) (unat fn)) = (tp - t) * (unat fd - unat fn)"
    using assms(2) den by simp_all
  show ?thesis
    using assms(1) unfolding get_supply_amount_def Let_def prod.case sat
    by (auto simp: bind_eq_Some_conv split: if_splits option.splits)
qed

section \<open>Properties of the prices\<close>

text \<open>
  C2. A trade never empties a pool and never lowers the product of the two pools: for every fee
  and every amount supplied, the quoted amount is less than the target pool, and the product of
  the pools after the trade is at least the product before it. All saturations of the 128-bit and
  256-bit arithmetic are included.
\<close>

theorem quote_keeps_constant_product:
  assumes "0 < supply_pool" "0 < target_pool" "supply_pool \<le> u128_max" "target_pool \<le> u128_max"
  shows "get_target_amount fee supply_pool target_pool supply_amount < target_pool \<and>
    supply_pool * target_pool \<le> (supply_pool + supply_amount) *
      (target_pool - get_target_amount fee supply_pool target_pool supply_amount)"
  using assms dex_curve.quote_less dex_curve.quote_product by blast

theorem quote_keeps_constant_product_witness:
  "get_target_amount (3, 1000) 100000 200000 5000 < 200000 \<and>
   100000 * 200000 \<le> (100000 + 5000) * (200000 - get_target_amount (3, 1000) 100000 200000 5000)"
  using quote_keeps_constant_product[of 100000 200000 "(3, 1000)" 5000] by (simp add: u128_max_def)

text \<open>
  No profit from trading there and back: selling the amount received back to the pool the
  trade has left behind returns at most the amount first supplied.
\<close>

theorem round_trip_no_profit:
  assumes "0 < supply_pool" "0 < target_pool"
    and "supply_pool + supply_amount \<le> u128_max" "target_pool \<le> u128_max"
  shows "get_target_amount fee
      (target_pool - get_target_amount fee supply_pool target_pool supply_amount)
      (supply_pool + supply_amount)
      (get_target_amount fee supply_pool target_pool supply_amount) \<le> supply_amount"
  using assms by (rule dex_curve.quote_back)

theorem round_trip_no_profit_witness:
  "get_target_amount (3, 1000) (200000 - get_target_amount (3, 1000) 100000 200000 5000)
     (100000 + 5000) (get_target_amount (3, 1000) 100000 200000 5000) \<le> 5000"
  by (rule round_trip_no_profit) (simp_all add: u128_max_def)

text \<open>
  The amount quoted for an exact target is enough: supplying what \<open>get_supply_amount\<close> asks
  for buys at least the wanted amount, as long as the intermediate products fit their types.
\<close>

theorem exact_target_suffices:
  assumes s: "supply = get_supply_amount (fn, fd) supply_pool target_pool target_amount" "supply \<noteq> 0"
    and fits: "supply_pool * target_amount * unat fd \<le> u256_max"
      "supply * (unat fd - unat fn) \<le> u128_max"
    and pools: "supply_pool \<le> u128_max" "target_pool \<le> u128_max"
  shows "target_amount \<le> get_target_amount (fn, fd) supply_pool target_pool supply"
proof -
  define g where "g = unat fd - unat fn"
  define n where "n = supply_pool * target_amount * unat fd"
  define d where "d = (target_pool - target_amount) * g"
  have sd: "supply = n div d + 1" "0 < d"
    using get_supply_amount_eq[of fn fd supply_pool target_pool target_amount] s fits(1) pools(2)
    by (simp_all add: n_def d_def g_def)
  have sp: "supply_pool \<noteq> 0" using s by (auto simp: get_supply_amount_def split: if_splits)
  have "n < supply * d"
    using dividend_less_div_times[OF sd(2), of n] sd(1) by (simp add: algebra_simps)
  then have le: "target_amount * (supply_pool * unat fd) \<le> supply * g * (target_pool - target_amount)"
    by (simp add: n_def d_def algebra_simps)
  have "target_amount < target_pool"
    using get_supply_amount_bound s by metis
  then have "target_amount * (supply_pool * unat fd + supply * g)
      \<le> supply * g * (target_pool - target_amount) + supply * g * target_amount"
    using le by (simp add: add_mult_distrib2 mult.commute mult.left_commute)
  also have "\<dots> = supply * g * target_pool"
    using \<open>target_amount < target_pool\<close> by (simp add: add_mult_distrib2[symmetric])
  finally have "target_amount * (supply_pool * unat fd + supply * g) \<le> supply * g * target_pool" .
  moreover have "0 < supply_pool * unat fd + supply * g"
    using sd s(2) by (simp add: d_def)
  ultimately have "target_amount \<le> supply * g * target_pool div (supply_pool * unat fd + supply * g)"
    by (simp add: less_eq_div_iff_mult_less_eq)
  then show ?thesis
    using pools fits(2) sp by (simp add: get_target_amount_eq g_def Let_def min.absorb2)
qed

theorem exact_target_suffices_witness:
  "7000 \<le> get_target_amount (3, 1000) 100000 200000 (get_supply_amount (3, 1000) 100000 200000 7000)"
proof (rule exact_target_suffices)
  have eq: "get_supply_amount (3, 1000) 100000 200000 7000 = 3638"
    by (simp add: get_supply_amount_def chk_div_def chk_add_def narrow_def sat_mul_def
        u128_max_def u256_max_def)
  show "get_supply_amount (3, 1000) 100000 200000 7000 \<noteq> 0" by (simp add: eq)
  show "get_supply_amount (3, 1000) 100000 200000 7000 * (unat (1000::u32) - unat (3::u32)) \<le> u128_max"
    by (simp add: eq u128_max_def)
qed (simp_all add: u128_max_def u256_max_def)

end
