(* ===== verification/Dex_Solvency.thy ===== *)
theory Dex_Solvency
  imports Dex_Pricing
begin

text \<open>
  Solvency of the exchange: what the pools and the provisions record of a currency is never more
  than the pallet's account holds of it. The invariant \<open>dex_inv\<close> says so for every currency and
  every finite set of pairs, and that the status of a pair agrees with its provisions; every
  call of the pallet keeps it, for any currency implementation that keeps custody of the pallet's
  account.
\<close>

section \<open>Successful runs of the primitive updates\<close>

lemma inD_run [simp, runs]:
  "inD m s = (Inr x, t) \<longleftrightarrow> (\<exists>w. m (dex_world s) = (Inr x, w) \<and> t = s\<lparr>dex_world := w\<rparr>)"
  by (simp add: inD_def zoomE_run)

lemma put_pool_run [simp, runs]:
  "put_pool p v s = (Inr x, t) \<longleftrightarrow> t = s\<lparr>liquidity_pool := (liquidity_pool s)(p := v)\<rparr>"
  by (simp add: put_pool_def)

lemma put_status_run [simp, runs]:
  "put_status p v s = (Inr x, t) \<longleftrightarrow> t = s\<lparr>trading_pair_statuses := (trading_pair_statuses s)(p := v)\<rparr>"
  by (simp add: put_status_def)

lemma put_provisions_run [simp, runs]:
  "put_provisions p v s = (Inr x, t) \<longleftrightarrow> t = s\<lparr>provisioning_pool := (provisioning_pool s)(p := v)\<rparr>"
  by (simp add: put_provisions_def)

lemma dex_deposit_event_run [simp, runs]:
  "dex_deposit_event ev s = (Inr x, t) \<longleftrightarrow> t = s\<lparr>dex_events := dex_events s @ [ev]\<rparr>"
  by (simp add: dex_deposit_event_def)

lemma of_result_run [simp, runs]: "of_result r s = (Inr x, t) \<longleftrightarrow> r = Inr x \<and> t = s"
  by (auto simp: of_result_def)

section \<open>Liabilities and the invariant\<close>

text \<open>The part of a pair of amounts that is in currency \<open>c\<close>.\<close>

definition amt :: "trading_pair \<Rightarrow> currency_id \<Rightarrow> balance \<times> balance \<Rightarrow> balance" where
  "amt p c v = (if pair_0 p = c then fst v else 0) + (if pair_1 p = c then snd v else 0)"

definition prov_sum :: "(account_id \<times> (balance \<times> balance)) list \<Rightarrow> balance \<times> balance" where
  "prov_sum xs = (sum_list (map (fst \<circ> snd) xs), sum_list (map (snd \<circ> snd) xs))"

definition reserve_of :: "'w dex_state \<Rightarrow> currency_id \<Rightarrow> trading_pair \<Rightarrow> balance" where
  "reserve_of s c p = amt p c (liquidity_pool s p) + amt p c (prov_sum (provisioning_pool s p))"

definition covered :: "'w dex_state \<Rightarrow> (currency_id \<Rightarrow> nat) \<Rightarrow> bool" where
  "covered s f \<longleftrightarrow> (\<forall>c P. finite P \<longrightarrow> (\<Sum>p\<in>P. reserve_of s c p) \<le> f c)"

definition held :: "'w dex_config \<Rightarrow> 'w dex_state \<Rightarrow> currency_id \<Rightarrow> balance" where
  "held cfg s c = mc_free_balance (dex_currency cfg) c (dex_account cfg) (dex_world s)"

definition valid_pair :: "trading_pair \<Rightarrow> bool" where
  "valid_pair p \<longleftrightarrow> pair_0 p \<noteq> pair_1 p \<and> from_token_currency_ids (pair_0 p) (pair_1 p) = Some p"

definition status_ok :: "'w dex_state \<Rightarrow> trading_pair \<Rightarrow> bool" where
  "status_ok s p \<longleftrightarrow>
     (case trading_pair_statuses s p of
        NotEnabled \<Rightarrow> provisioning_pool s p = []
      | Enabled \<Rightarrow> provisioning_pool s p = [] \<and> valid_pair p
      | Provisioning pp \<Rightarrow> valid_pair p \<and>
          fst (accumulated_provision pp) \<le> fst (prov_sum (provisioning_pool s p)) \<and>
          snd (accumulated_provision pp) \<le> snd (prov_sum (provisioning_pool s p)))"

definition dex_inv :: "'w dex_config \<Rightarrow> 'w dex_state \<Rightarrow> bool" where
  "dex_inv cfg s \<longleftrightarrow> covered s (held cfg s) \<and> (\<forall>p. status_ok s p)"

text \<open>What is assumed of the other pallets.\<close>

definition hook_keeps :: "'w dex_config \<Rightarrow> ('w, 'a) eff \<Rightarrow> bool" where
  "hook_keeps cfg h \<longleftrightarrow> (\<forall>w r w' c. h w = (r, w') \<longrightarrow>
     mc_free_balance (dex_currency cfg) c (dex_account cfg) w
       \<le> mc_free_balance (dex_currency cfg) c (dex_account cfg) w')"

definition issue_keeps :: "'w dex_config \<Rightarrow> ('w, 'a) eff \<Rightarrow> bool" where
  "issue_keeps cfg h \<longleftrightarrow> (\<forall>w r w' c. h w = (r, w') \<longrightarrow>
     mc_total_issuance (dex_currency cfg) c w' \<le> mc_total_issuance (dex_currency cfg) c w)"

definition dex_env :: "'w dex_config \<Rightarrow> bool" where
  "dex_env cfg \<longleftrightarrow> custody (dex_currency cfg) (dex_account cfg) \<and>
     (\<forall>c w. mc_free_balance (dex_currency cfg) c (dex_account cfg) w \<le> u128_max) \<and>
     (\<forall>a. hook_keeps cfg (dex_set_erc20_mapping cfg a)) \<and>
     (\<forall>a c n. hook_keeps cfg (dex_deposit_share cfg a c n)) \<and>
     (\<forall>a c n. hook_keeps cfg (dex_withdraw_share cfg a c n)) \<and>
     (\<forall>a c n. issue_keeps cfg (dex_withdraw_share cfg a c n)) \<and>
     (\<forall>c a n w w'. mc_withdraw (dex_currency cfg) c a n w = (Inr (), w') \<longrightarrow>
        n \<le> mc_total_issuance (dex_currency cfg) c w) \<and>
     fixed_fractions (dex_fixed cfg) \<and>
     (\<forall>a. hook_keeps cfg (dex_inc_consumers cfg a)) \<and>
     (\<forall>a. hook_keeps cfg (modE (dex_dec_consumers cfg a)))"

section \<open>Arithmetic of liabilities\<close>

lemma amt_add: "amt p c (a + b, d + e) = amt p c (a, d) + amt p c (b, e)"
  by (simp add: amt_def)

lemma amt_sat_add:
  "amt p c (sat_add M (fst v) x, sat_add M (snd v) y) \<le> amt p c v + amt p c (x, y)"
  using sat_add_le(2)[of M "fst v" x] sat_add_le(2)[of M "snd v" y] by (simp add: amt_def)

lemma amt_mono: "fst v \<le> fst w \<Longrightarrow> snd v \<le> snd w \<Longrightarrow> amt p c v \<le> amt p c w"
  by (simp add: amt_def)

lemma prov_sum_simps [simp]:
  "prov_sum [] = (0, 0)"
  "prov_sum ((k, v) # xs) = (fst v + fst (prov_sum xs), snd v + snd (prov_sum xs))"
  by (simp_all add: prov_sum_def)

lemma amt_zero [simp]: "amt p c (0, 0) = 0"
  by (simp add: amt_def)

lemma reserve_le_covered: "covered s f \<Longrightarrow> reserve_of s c p \<le> f c"
  unfolding covered_def by (drule spec[of _ c], drule spec[of _ "{p}"]) simp

lemma covered_mono: "covered s f \<Longrightarrow> (\<And>c. f c \<le> g c) \<Longrightarrow> covered s g"
  unfolding covered_def by (meson order_trans)

lemma covered_frame:
  assumes "covered s f" "liquidity_pool t = liquidity_pool s" "provisioning_pool t = provisioning_pool s"
  shows "covered t f"
  using assms by (simp add: covered_def reserve_of_def)

text \<open>
  Changing one pair: if the liability of the pair and the holdings change together, everything
  stays covered.
\<close>

lemma covered_update:
  assumes cov: "covered s f"
    and others: "\<And>q. q \<noteq> p \<Longrightarrow> liquidity_pool t q = liquidity_pool s q \<and> provisioning_pool t q = provisioning_pool s q"
    and change: "\<And>c. reserve_of t c p + f c \<le> reserve_of s c p + g c"
  shows "covered t g"
proof -
  have "sums_below (reserve_of t c) (g c)" for c
  proof (rule sums_below_update[where i = p])
    show "sums_below (reserve_of s c) (f c)"
      using cov by (simp add: covered_def sums_below_def)
  qed (use others change in \<open>auto simp: reserve_of_def\<close>)
  then show ?thesis by (simp add: covered_def sums_below_def)
qed

lemma alist_put_sum:
  "fst (prov_sum (alist_put k v xs)) + fst (unwrap_or (map_of xs k) (0, 0)) = fst (prov_sum xs) + fst v"
  "snd (prov_sum (alist_put k v xs)) + snd (unwrap_or (map_of xs k) (0, 0)) = snd (prov_sum xs) + snd v"
  by (induction xs) (auto simp: split: option.splits)

section \<open>Custody, for the two transfers of a pair\<close>

lemma hook_keepsD:
  "hook_keeps cfg h \<Longrightarrow> h (dex_world s) = (r, w') \<Longrightarrow> held cfg s c \<le> held cfg (s\<lparr>dex_world := w'\<rparr>) c"
  unfolding hook_keeps_def held_def by simp

lemma held_simps [simp]:
  "held cfg (s\<lparr>liquidity_pool := a\<rparr>) = held cfg s"
  "held cfg (s\<lparr>trading_pair_statuses := b\<rparr>) = held cfg s"
  "held cfg (s\<lparr>provisioning_pool := d\<rparr>) = held cfg s"
  "held cfg (s\<lparr>dex_events := e\<rparr>) = held cfg s"
  by (simp_all add: held_def fun_eq_iff)

definition bal :: "'w dex_config \<Rightarrow> 'w \<Rightarrow> currency_id \<Rightarrow> balance" where
  "bal cfg w c = mc_free_balance (dex_currency cfg) c (dex_account cfg) w"

lemma held_bal: "held cfg s = bal cfg (dex_world s)"
  by (simp add: held_def bal_def fun_eq_iff)

lemma hook_bal: "hook_keeps cfg h \<Longrightarrow> h w = (r, w') \<Longrightarrow> bal cfg w c \<le> bal cfg w' c"
  unfolding hook_keeps_def bal_def by blast

lemma transfer_pair_in:
  assumes "custody (dex_currency cfg) (dex_account cfg)" "who \<noteq> dex_account cfg"
    and "mc_transfer (dex_currency cfg) (pair_0 p) who (dex_account cfg) x w = (Inr (), w1)"
    and "mc_transfer (dex_currency cfg) (pair_1 p) who (dex_account cfg) y w1 = (Inr (), w2)"
  shows "bal cfg w2 c = bal cfg w c + amt p c (x, y)"
  using custody_in[OF assms(1,2,3), of c] custody_in[OF assms(1,2,4), of c]
  by (auto simp: bal_def amt_def)

lemma transfer_pair_out:
  assumes "custody (dex_currency cfg) (dex_account cfg)" "who \<noteq> dex_account cfg"
    and "mc_transfer (dex_currency cfg) (pair_0 p) (dex_account cfg) who x w = (Inr (), w1)"
    and "mc_transfer (dex_currency cfg) (pair_1 p) (dex_account cfg) who y w1 = (Inr (), w2)"
  shows "bal cfg w2 c + amt p c (x, y) = bal cfg w c"
  using custody_out[OF assms(1,2,3), of c] custody_out[OF assms(1,2,4), of c]
  by (auto simp: bal_def amt_def split: if_splits)

lemma dex_envD:
  assumes "dex_env cfg"
  shows "custody (dex_currency cfg) (dex_account cfg)" "bal cfg w c \<le> u128_max"
    "hook_keeps cfg (dex_set_erc20_mapping cfg address)"
    "hook_keeps cfg (dex_deposit_share cfg a d n)"
    "hook_keeps cfg (dex_withdraw_share cfg a d n)"
    "hook_keeps cfg (dex_inc_consumers cfg a)"
    "hook_keeps cfg (modE (dex_dec_consumers cfg a))"
    "issue_keeps cfg (dex_withdraw_share cfg a d n)"
    "mc_withdraw (dex_currency cfg) d a n w = (Inr (), w') \<Longrightarrow> n \<le> mc_total_issuance (dex_currency cfg) d w"
    "fixed_fractions (dex_fixed cfg)"
  using assms unfolding dex_env_def bal_def by blast+

lemma dec_consumers_bal: "dex_env cfg \<Longrightarrow> bal cfg w c \<le> bal cfg (dex_dec_consumers cfg a w) c"
  using hook_bal[OF dex_envD(7)[of cfg a]] by (simp add: modE_def)

section \<open>Each operation keeps the invariant\<close>

lemma dex_invI:
  assumes "covered t (held cfg t)" "\<And>q. status_ok t q"
  shows "dex_inv cfg t"
  using assms by (simp add: dex_inv_def)

lemma status_ok_cong:
  assumes "trading_pair_statuses t q = trading_pair_statuses s q"
    "provisioning_pool t q = provisioning_pool s q"
  shows "status_ok t q = status_ok s q"
  using assms by (cases "trading_pair_statuses s q") (simp_all add: status_ok_def)

lemma dex_inv_status: "dex_inv cfg s \<Longrightarrow> status_ok s q"
  by (simp add: dex_inv_def)

text \<open>A state that differs in the world and the events only.\<close>

lemma dex_inv_frame:
  assumes "dex_inv cfg s"
    and "liquidity_pool t = liquidity_pool s" "provisioning_pool t = provisioning_pool s"
    and "trading_pair_statuses t = trading_pair_statuses s"
    and "\<And>c. held cfg s c \<le> held cfg t c"
  shows "dex_inv cfg t"
proof (rule dex_invI)
  show "covered t (held cfg t)"
    using assms covered_frame covered_mono unfolding dex_inv_def by metis
  show "status_ok t q" for q
    using assms status_ok_cong[of t q s] by (simp add: dex_inv_status)
qed

text \<open>A change of the pool of one pair together with the world.\<close>

lemma dex_inv_pool:
  assumes inv: "dex_inv cfg s"
    and t: "liquidity_pool t = (liquidity_pool s)(p := v)" "provisioning_pool t = provisioning_pool s"
      "trading_pair_statuses t = trading_pair_statuses s"
    and change: "\<And>c. amt p c v + bal cfg (dex_world s) c \<le> amt p c (liquidity_pool s p) + bal cfg (dex_world t) c"
  shows "dex_inv cfg t"
proof (rule dex_invI)
  show "covered t (held cfg t)"
  proof (rule covered_update[where p = p])
    show "covered s (held cfg s)" using inv by (simp add: dex_inv_def)
    show "reserve_of t c p + held cfg s c \<le> reserve_of s c p + held cfg t c" for c
      using change[of c] by (simp add: t reserve_of_def held_bal)
  qed (simp add: t)
  show "status_ok t q" for q
    using inv status_ok_cong[of t q s] by (simp add: dex_inv_status t)
qed

lemma do_add_liquidity_inv:
  assumes env: "dex_env cfg" and who: "who \<noteq> dex_account cfg" and inv: "dex_inv cfg s"
    and run: "do_add_liquidity cfg who a b ma mb ms dep s = (Inr r, t)"
  shows "dex_inv cfg t"
proof -
  let ?p = "trading_pair_new a b"
  from run obtain lp inc_0 inc_1 share w1 w2 w3 u where
      tr: "mc_transfer (dex_currency cfg) (pair_0 ?p) who (dex_account cfg) inc_0 (dex_world s) = (Inr (), w1)"
      "mc_transfer (dex_currency cfg) (pair_1 ?p) who (dex_account cfg) inc_1 w1 = (Inr (), w2)"
    and dep: "mc_deposit (dex_currency cfg) lp who share w2 = (Inr (), w3)"
    and hook: "whenE dep (inD (dex_deposit_share cfg who lp share)) (s\<lparr>dex_world := w3\<rparr>) = (Inr (), u)"
    and t: "t = u\<lparr>dex_events := dex_events u @ [AddLiquidity who (pair_0 ?p) inc_0 (pair_1 ?p) inc_1 share],
          liquidity_pool := (liquidity_pool u)(?p :=
             (sat_add u128_max (fst (liquidity_pool s ?p)) inc_0,
              sat_add u128_max (snd (liquidity_pool s ?p)) inc_1))\<rparr>"
    by (auto simp: do_add_liquidity_def Let_def case_prod_beta simp del: whenE_run)
  have u: "liquidity_pool u = liquidity_pool s" "provisioning_pool u = provisioning_pool s"
      "trading_pair_statuses u = trading_pair_statuses s" "\<And>c. bal cfg w3 c \<le> bal cfg (dex_world u) c"
    using hook hook_bal[OF dex_envD(4)[OF env]] by (auto split: if_splits)
  show ?thesis
  proof (rule dex_inv_pool[OF inv])
    fix c
    have "bal cfg w2 c = bal cfg (dex_world s) c + amt ?p c (inc_0, inc_1)"
      using transfer_pair_in[OF dex_envD(1)[OF env] who tr] .
    moreover have "bal cfg w2 c \<le> bal cfg w3 c"
      using custody_deposit[OF dex_envD(1)[OF env] dep] by (simp add: bal_def)
    ultimately show "amt ?p c (sat_add u128_max (fst (liquidity_pool s ?p)) inc_0,
        sat_add u128_max (snd (liquidity_pool s ?p)) inc_1) + bal cfg (dex_world s) c
        \<le> amt ?p c (liquidity_pool s ?p) + bal cfg (dex_world t) c"
      using amt_sat_add[of ?p c u128_max "liquidity_pool s ?p" inc_0 inc_1] u(4)[of c] t by simp
  qed (simp_all add: t u)
qed

text \<open>Removing liquidity pays out of the pool what it takes from the account.\<close>

lemma amt_sat_sub:
  "amt p c (sat_sub (fst v) x, sat_sub (snd v) y) + amt p c (x, y) \<le> amt p c v + amt p c (x - fst v, y - snd v)"
  by (auto simp: amt_def)

lemma liquidity_decrement_le:
  assumes "fixed_fractions fx" "n \<le> d"
  shows "liquidity_decrement fx n d v \<le> v"
proof -
  let ?q = "unwrap_or (fx_checked_from_rational fx n d) 0"
  have "?q \<le> fx_div"
  proof (cases "fx_checked_from_rational fx n d")
    case (Some q)
    then have "q \<le> fx_div" using assms unfolding fixed_fractions_def by blast
    with Some show ?thesis by simp
  qed simp
  then have "fx_saturating_mul_int fx ?q v \<le> v"
    using assms(1) unfolding fixed_fractions_def by blast
  then show ?thesis by (simp add: liquidity_decrement_def)
qed

lemma do_remove_liquidity_inv:
  assumes env: "dex_env cfg" and who: "who \<noteq> dex_account cfg" and inv: "dex_inv cfg s"
    and run: "do_remove_liquidity cfg who a b rs ma mb byw s = (Inr r, t)"
  shows "dex_inv cfg t"
proof (cases "rs = 0")
  case True
  then show ?thesis using run inv by (simp add: do_remove_liquidity_def)
next
  case False
  define dec where "dec lp v = liquidity_decrement (dex_fixed cfg) rs
      (mc_total_issuance (dex_currency cfg) lp (dex_world s)) v" for lp v
  from run False obtain p lp u w1 w2 w3 ev where
      lp: "get_dex_share_currency_id p = Some lp"
    and hook: "whenE byw (inD (dex_withdraw_share cfg who lp rs)) s = (Inr (), u)"
    and wd: "mc_withdraw (dex_currency cfg) lp who rs (dex_world u) = (Inr (), w1)"
    and tr: "mc_transfer (dex_currency cfg) (pair_0 p) (dex_account cfg) who (dec lp (fst (liquidity_pool s p))) w1 = (Inr (), w2)"
      "mc_transfer (dex_currency cfg) (pair_1 p) (dex_account cfg) who (dec lp (snd (liquidity_pool s p))) w2 = (Inr (), w3)"
    and t: "t = u\<lparr>dex_world := w3, dex_events := ev,
          liquidity_pool := (liquidity_pool u)(p :=
             (sat_sub (fst (liquidity_pool s p)) (dec lp (fst (liquidity_pool s p))),
              sat_sub (snd (liquidity_pool s p)) (dec lp (snd (liquidity_pool s p)))))\<rparr>"
    by (auto simp: do_remove_liquidity_def Let_def case_prod_beta dec_def simp del: whenE_run)
  have u: "liquidity_pool u = liquidity_pool s" "provisioning_pool u = provisioning_pool s"
      "trading_pair_statuses u = trading_pair_statuses s" "\<And>c. bal cfg (dex_world s) c \<le> bal cfg (dex_world u) c"
    using hook hook_bal[OF dex_envD(5)[OF env]] by (auto split: if_splits)
  have "mc_total_issuance (dex_currency cfg) lp (dex_world u) \<le> mc_total_issuance (dex_currency cfg) lp (dex_world s)"
    using hook dex_envD(8)[OF env, of who lp rs] unfolding issue_keeps_def by (auto split: if_splits)
  then have shares: "rs \<le> mc_total_issuance (dex_currency cfg) lp (dex_world s)"
    using dex_envD(9)[OF env wd] by simp
  have dec: "dec lp v \<le> v" for v
    unfolding dec_def by (rule liquidity_decrement_le[OF dex_envD(10)[OF env] shares])
  show ?thesis
  proof (rule dex_inv_pool[OF inv])
    fix c
    have "bal cfg (dex_world u) c \<le> bal cfg w1 c"
      using custody_withdraw[OF dex_envD(1)[OF env] who wd] by (simp add: bal_def)
    moreover have "bal cfg w3 c + amt p c (dec lp (fst (liquidity_pool s p)), dec lp (snd (liquidity_pool s p))) = bal cfg w1 c"
      using transfer_pair_out[OF dex_envD(1)[OF env] who tr] .
    ultimately show "amt p c (sat_sub (fst (liquidity_pool s p)) (dec lp (fst (liquidity_pool s p))),
          sat_sub (snd (liquidity_pool s p)) (dec lp (snd (liquidity_pool s p)))) + bal cfg (dex_world s) c
        \<le> amt p c (liquidity_pool s p) + bal cfg (dex_world t) c"
      using amt_sat_sub[of p c "liquidity_pool s p" "dec lp (fst (liquidity_pool s p))" "dec lp (snd (liquidity_pool s p))"]
        dec u(4)[of c] t by simp
  qed (simp_all add: t u)
qed

text \<open>Adding a provision.\<close>

lemma do_add_provision_run:
  assumes "do_add_provision cfg who a b ca cb s = (Inr r, t)"
  obtains pp c0 c1 w1 w2 u where
    "trading_pair_statuses s (trading_pair_new a b) = Provisioning pp"
    "(c0, c1) = orient (trading_pair_new a b) a ca cb"
    "mc_transfer (dex_currency cfg) (pair_0 (trading_pair_new a b)) who (dex_account cfg) c0 (dex_world s) = (Inr (), w1)"
    "mc_transfer (dex_currency cfg) (pair_1 (trading_pair_new a b)) who (dex_account cfg) c1 w1 = (Inr (), w2)"
    "whenE (map_of (provisioning_pool s (trading_pair_new a b)) who = None)
       (thenE (resultE (inD (dex_inc_consumers cfg who))) (okE ()))
       (s\<lparr>dex_world := w2, provisioning_pool := (provisioning_pool s)(trading_pair_new a b :=
          alist_put who (let pool = unwrap_or (map_of (provisioning_pool s (trading_pair_new a b)) who) (0, 0) in
             (sat_add u128_max (fst pool) c0, sat_add u128_max (snd pool) c1))
            (provisioning_pool s (trading_pair_new a b)))\<rparr>) = (Inr (), u)"
    "t = u\<lparr>trading_pair_statuses := (trading_pair_statuses u)(trading_pair_new a b :=
         Provisioning (pp\<lparr>accumulated_provision :=
            (sat_add u128_max (fst (accumulated_provision pp)) c0,
             sat_add u128_max (snd (accumulated_provision pp)) c1)\<rparr>)),
       dex_events := dex_events u @ [AddProvision who (pair_0 (trading_pair_new a b)) c0 (pair_1 (trading_pair_new a b)) c1]\<rparr>"
proof -
  obtain c0 c1 where c: "orient (trading_pair_new a b) a ca cb = (c0, c1)" by (metis prod.exhaust)
  obtain pp where pp: "trading_pair_statuses s (trading_pair_new a b) = Provisioning pp"
    using assms by (cases "trading_pair_statuses s (trading_pair_new a b)")
      (auto simp: do_add_provision_def c Let_def)
  show thesis
    using assms pp c by (auto simp: do_add_provision_def Let_def simp del: whenE_run intro!: that)
qed

lemma valid_amt:
  assumes "valid_pair p"
  shows "amt p (pair_0 p) v = fst v" "amt p (pair_1 p) v = snd v"
  using assms by (auto simp: valid_pair_def amt_def)

lemma prov_entry_le:
  "fst (unwrap_or (map_of xs k) (0, 0)) \<le> fst (prov_sum xs)"
  "snd (unwrap_or (map_of xs k) (0, 0)) \<le> snd (prov_sum xs)"
  by (induction xs) (auto split: option.splits)

text \<open>A contribution to the provision of \<open>p\<close> adds up without saturation.\<close>

lemma alist_put_contribution:
  assumes "fst (prov_sum xs) + c0 \<le> M" "snd (prov_sum xs) + c1 \<le> M"
  shows "prov_sum (alist_put k (let pool = unwrap_or (map_of xs k) (0, 0) in
           (sat_add M (fst pool) c0, sat_add M (snd pool) c1)) xs)
         = (fst (prov_sum xs) + c0, snd (prov_sum xs) + c1)"
proof -
  let ?e = "unwrap_or (map_of xs k) (0, 0)"
  have e: "fst ?e + c0 \<le> M" "snd ?e + c1 \<le> M"
    using assms prov_entry_le[of xs k] by linarith+
  then have eq: "(let pool = ?e in (sat_add M (fst pool) c0, sat_add M (snd pool) c1)) = (fst ?e + c0, snd ?e + c1)"
    by (simp add: Let_def)
  show ?thesis
    unfolding eq using alist_put_sum[of k "(fst ?e + c0, snd ?e + c1)" xs] by (intro prod_eqI) simp_all
qed

lemma do_add_provision_inv:
  assumes env: "dex_env cfg" and who: "who \<noteq> dex_account cfg" and inv: "dex_inv cfg s"
    and run: "do_add_provision cfg who a b ca cb s = (Inr r, t)"
  shows "dex_inv cfg t"
proof -
  let ?p = "trading_pair_new a b"
  from run obtain pp c0 c1 w1 w2 u where
    st: "trading_pair_statuses s ?p = Provisioning pp" and
    tr: "mc_transfer (dex_currency cfg) (pair_0 ?p) who (dex_account cfg) c0 (dex_world s) = (Inr (), w1)"
      "mc_transfer (dex_currency cfg) (pair_1 ?p) who (dex_account cfg) c1 w1 = (Inr (), w2)" and
    hook: "whenE (map_of (provisioning_pool s ?p) who = None)
       (thenE (resultE (inD (dex_inc_consumers cfg who))) (okE ()))
       (s\<lparr>dex_world := w2, provisioning_pool := (provisioning_pool s)(?p :=
          alist_put who (let pool = unwrap_or (map_of (provisioning_pool s ?p) who) (0, 0) in
             (sat_add u128_max (fst pool) c0, sat_add u128_max (snd pool) c1)) (provisioning_pool s ?p))\<rparr>) = (Inr (), u)" and
    t: "t = u\<lparr>trading_pair_statuses := (trading_pair_statuses u)(?p :=
         Provisioning (pp\<lparr>accumulated_provision :=
            (sat_add u128_max (fst (accumulated_provision pp)) c0,
             sat_add u128_max (snd (accumulated_provision pp)) c1)\<rparr>)),
       dex_events := dex_events u @ [AddProvision who (pair_0 ?p) c0 (pair_1 ?p) c1]\<rparr>"
    by (rule do_add_provision_run)
  let ?xs = "provisioning_pool s ?p"
  have vp: "valid_pair ?p" and acc: "fst (accumulated_provision pp) \<le> fst (prov_sum ?xs)"
      "snd (accumulated_provision pp) \<le> snd (prov_sum ?xs)"
    using dex_inv_status[OF inv, of ?p] st by (simp_all add: status_ok_def)
  have w2: "bal cfg w2 c = bal cfg (dex_world s) c + amt ?p c (c0, c1)" for c
    by (rule transfer_pair_in[OF dex_envD(1)[OF env] who tr])
  have cov: "reserve_of s c ?p \<le> bal cfg (dex_world s) c" for c
    using inv reserve_le_covered by (fastforce simp: dex_inv_def held_bal)
  have room: "fst (prov_sum ?xs) + c0 \<le> u128_max" "snd (prov_sum ?xs) + c1 \<le> u128_max"
    using cov[of "pair_0 ?p"] cov[of "pair_1 ?p"] w2[of "pair_0 ?p"] w2[of "pair_1 ?p"]
      dex_envD(2)[OF env, of w2 "pair_0 ?p"] dex_envD(2)[OF env, of w2 "pair_1 ?p"]
    by (simp_all add: reserve_of_def valid_amt[OF vp])
  define E where "E = alist_put who (let pool = unwrap_or (map_of ?xs who) (0, 0) in
             (sat_add u128_max (fst pool) c0, sat_add u128_max (snd pool) c1)) ?xs"
  have E: "prov_sum E = (fst (prov_sum ?xs) + c0, snd (prov_sum ?xs) + c1)"
    unfolding E_def by (rule alist_put_contribution[OF room])
  have u: "liquidity_pool u = liquidity_pool s" "trading_pair_statuses u = trading_pair_statuses s"
      "\<And>q. q \<noteq> ?p \<Longrightarrow> provisioning_pool u q = provisioning_pool s q"
      "prov_sum (provisioning_pool u ?p) = (fst (prov_sum ?xs) + c0, snd (prov_sum ?xs) + c1)"
      "\<And>c. bal cfg w2 c \<le> bal cfg (dex_world u) c"
    using hook[folded E_def] hook_bal[OF dex_envD(6)[OF env]]
    by (auto simp: inD_def zoomE_def E split: if_splits prod.splits)
  show ?thesis
  proof (rule dex_invI)
    show "covered t (held cfg t)"
    proof (rule covered_update[where p = ?p])
      show "covered s (held cfg s)" using inv by (simp add: dex_inv_def)
      show "reserve_of t c ?p + held cfg s c \<le> reserve_of s c ?p + held cfg t c" for c
        using u(5)[of c] w2[of c]
        by (auto simp: t u(1-4) reserve_of_def held_bal amt_def split: if_splits)
    qed (simp add: t u)
    show "status_ok t q" for q
    proof (cases "q = ?p")
      case True
      then show ?thesis
        using acc sat_add_le(2)[of u128_max "fst (accumulated_provision pp)" c0]
          sat_add_le(2)[of u128_max "snd (accumulated_provision pp)" c1]
        by (simp add: status_ok_def t u vp)
    next
      case False
      then have "status_ok t q = status_ok s q" by (intro status_ok_cong) (simp_all add: t u)
      then show ?thesis using inv by (simp add: dex_inv_status)
    qed
  qed
qed

text \<open>Conversion to an enabled pair.\<close>

lemma issue_initial_shares_frame:
  assumes "dex_env cfg" "issue_initial_shares cfg lp acc xs n s = (r, t)"
  shows "liquidity_pool t = liquidity_pool s \<and> provisioning_pool t = provisioning_pool s \<and>
    trading_pair_statuses t = trading_pair_statuses s \<and> bal cfg (dex_world s) c \<le> bal cfg (dex_world t) c"
  using assms(2)
proof (induction xs arbitrary: n s)
  case Nil
  then show ?case by (simp add: okE_def)
next
  case (Cons x xs)
  obtain who con where x: "x = (who, con)" by (cases x)
  obtain res w1 where dep: "mc_deposit (dex_currency cfg) lp who (initial_share (dex_fixed cfg) acc con) (dex_world s) = (res, w1)"
    by (metis surj_pair)
  let ?u = "s\<lparr>dex_world := dex_dec_consumers cfg who w1\<rparr>"
  obtain m where rest: "issue_initial_shares cfg lp acc xs m ?u = (r, t)"
    using Cons.prems by (auto simp: x dep eff_defs inD_def split: prod.splits)
  have "bal cfg (dex_world s) c \<le> bal cfg w1 c"
    using custody_deposit[OF dex_envD(1)[OF assms(1)] dep] by (simp add: bal_def)
  with Cons.IH[OF rest] dec_consumers_bal[OF assms(1), of w1 c who] show ?case by simp
qed

lemma convert_to_enabled_inv:
  assumes env: "dex_env cfg" and inv: "dex_inv cfg s"
    and run: "convert_to_enabled_if_possible cfg p s = (Inr r, t)"
  shows "dex_inv cfg t"
proof -
  consider "t = s" | (conv) pp lp n u where
      "trading_pair_statuses s p = Provisioning pp"
      "issue_initial_shares cfg lp (accumulated_provision pp) (provisioning_pool s p) 0
         (s\<lparr>provisioning_pool := (provisioning_pool s)(p := [])\<rparr>) = (Inr n, u)"
      "t = u\<lparr>liquidity_pool := (liquidity_pool u)(p :=
             (sat_add u128_max (fst (liquidity_pool u p)) (fst (accumulated_provision pp)),
              sat_sub (snd (liquidity_pool u p)) (snd (accumulated_provision pp)))),
           trading_pair_statuses := (trading_pair_statuses u)(p := Enabled),
           dex_events := dex_events u @ [ProvisioningToEnabled p (fst (accumulated_provision pp))
                 (snd (accumulated_provision pp)) n]\<rparr>"
    using run by (cases "trading_pair_statuses s p")
      (auto simp: convert_to_enabled_if_possible_def case_prod_beta split: if_splits)
  then show ?thesis
  proof cases
    case 1
    then show ?thesis using inv by simp
  next
    case conv
    have u: "liquidity_pool u = liquidity_pool s" "provisioning_pool u = (provisioning_pool s)(p := [])"
        "trading_pair_statuses u = trading_pair_statuses s" "\<And>c. bal cfg (dex_world s) c \<le> bal cfg (dex_world u) c"
      using issue_initial_shares_frame[OF env conv(2)] by simp_all
    have p: "valid_pair p" "fst (accumulated_provision pp) \<le> fst (prov_sum (provisioning_pool s p))"
      using dex_inv_status[OF inv, of p] conv(1) by (simp_all add: status_ok_def)
    have le: "amt p c (sat_add u128_max (fst (liquidity_pool s p)) (fst (accumulated_provision pp)),
              sat_sub (snd (liquidity_pool s p)) (snd (accumulated_provision pp)))
        \<le> amt p c (liquidity_pool s p) + amt p c (prov_sum (provisioning_pool s p))" for c
      using p(2) sat_add_le(2)[of u128_max "fst (liquidity_pool s p)" "fst (accumulated_provision pp)"]
      by (auto simp: amt_def)
    show ?thesis
    proof (rule dex_invI)
      show "covered t (held cfg t)"
      proof (rule covered_update[where p = p])
        show "covered s (held cfg s)" using inv by (simp add: dex_inv_def)
        show "reserve_of t c p + held cfg s c \<le> reserve_of s c p + held cfg t c" for c
          using u(4)[of c] le[of c] by (simp add: conv(3) u(1-3) reserve_of_def held_bal)
      qed (simp add: conv(3) u)
      show "status_ok t q" for q
      proof (cases "q = p")
        case False
        then have "status_ok t q = status_ok s q" by (intro status_ok_cong) (simp_all add: conv(3) u)
        then show ?thesis using inv by (simp add: dex_inv_status)
      qed (simp add: status_ok_def conv(3) u p)
    qed
  qed
qed

end
