(* ===== verification/Dex_Paths.thy ===== *)
theory Dex_Paths
  imports Dex_Pricing
begin

text \<open>
  Quotes along a trading path. The two loops of the exchange, one from the front of the path and
  one from its back, are characterised by the same declarative relation \<open>hops\<close>: consecutive
  currencies of the path and consecutive amounts are related, hop by hop, by what the pool of the
  hop quotes.
\<close>

fun hops :: "('c \<Rightarrow> 'c \<Rightarrow> nat \<Rightarrow> nat \<Rightarrow> bool) \<Rightarrow> 'c list \<Rightarrow> nat list \<Rightarrow> bool" where
  "hops R (x # y # path) (a # b # amounts) \<longleftrightarrow> R x y a b \<and> hops R (y # path) (b # amounts)"
| "hops R [x] [a] \<longleftrightarrow> True"
| "hops R _ _ \<longleftrightarrow> False"

definition open_hop :: "'w dex_state \<Rightarrow> currency_id \<Rightarrow> currency_id \<Rightarrow> bool" where
  "open_hop s x y \<longleftrightarrow> trading_pair_statuses s (trading_pair_new x y) = Enabled \<and>
     fst (get_liquidity s x y) \<noteq> 0 \<and> snd (get_liquidity s x y) \<noteq> 0"

definition target_hop ::
  "'w dex_config \<Rightarrow> 'w dex_state \<Rightarrow> fixed_u128 option \<Rightarrow> currency_id \<Rightarrow> currency_id \<Rightarrow> balance \<Rightarrow> balance \<Rightarrow> bool" where
  "target_hop cfg s limit x y a b \<longleftrightarrow> open_hop s x y \<and> b \<noteq> 0 \<and>
     b = get_target_amount (get_exchange_fee s) (fst (get_liquidity s x y)) (snd (get_liquidity s x y)) a \<and>
     impact_ok (dex_fixed cfg) limit b (snd (get_liquidity s x y))"

definition supply_hop ::
  "'w dex_config \<Rightarrow> 'w dex_state \<Rightarrow> fixed_u128 option \<Rightarrow> currency_id \<Rightarrow> currency_id \<Rightarrow> balance \<Rightarrow> balance \<Rightarrow> bool" where
  "supply_hop cfg s limit x y a b \<longleftrightarrow> open_hop s x y \<and> a \<noteq> 0 \<and>
     a = get_supply_amount (get_exchange_fee s) (fst (get_liquidity s x y)) (snd (get_liquidity s x y)) b \<and>
     impact_ok (dex_fixed cfg) limit b (snd (get_liquidity s x y))"

section \<open>Paths\<close>

lemma hops_length: "hops R path amounts \<Longrightarrow> length amounts = length path \<and> path \<noteq> []"
  by (induction R path amounts rule: hops.induct) auto

lemma hops_mono:
  "hops R path amounts \<Longrightarrow> (\<And>x y a b. R x y a b \<Longrightarrow> Q x y a b) \<Longrightarrow> hops Q path amounts"
  by (induction R path amounts rule: hops.induct) auto

lemma hops_snoc:
  "length amounts = length path \<Longrightarrow>
   hops R (path @ [x, y]) (amounts @ [a, b]) \<longleftrightarrow> hops R (path @ [x]) (amounts @ [a]) \<and> R x y a b"
proof (induction path amounts rule: list_induct2')
  case (4 p path q amounts)
  then show ?case by (cases path; cases amounts) auto
qed auto

lemma target_loop_step:
  "target_loop cfg s limit (x # y # path) a = Inr (b # bs) \<longleftrightarrow>
   target_hop cfg s limit x y a b \<and> target_loop cfg s limit (y # path) b = Inr bs"
  "target_loop cfg s limit (x # y # path) a \<noteq> Inr []"
  by (auto simp: target_hop_def open_hop_def Let_def split: sum.splits prod.splits)

lemma supply_loop_step:
  "supply_loop cfg s limit (y # x # path) b = Inr (a # as) \<longleftrightarrow>
   supply_hop cfg s limit x y a b \<and> supply_loop cfg s limit (x # path) a = Inr as"
  "supply_loop cfg s limit (y # x # path) b \<noteq> Inr []"
  by (auto simp: supply_hop_def open_hop_def Let_def split: sum.splits prod.splits)

lemma target_loop_hops:
  "target_loop cfg s limit (x # path) a = Inr amounts \<longleftrightarrow> hops (target_hop cfg s limit) (x # path) (a # amounts)"
proof (induction path arbitrary: x a amounts)
  case Nil
  then show ?case by (cases amounts) auto
next
  case (Cons y path)
  then show ?case by (cases amounts) (simp_all add: target_loop_step del: target_loop.simps)
qed

text \<open>The second loop sees the reversed path and yields the amounts in reverse.\<close>

lemma supply_loop_hops:
  "supply_loop cfg s limit (y # path) b = Inr amounts \<longleftrightarrow>
   hops (supply_hop cfg s limit) (rev path @ [y]) (rev amounts @ [b])"
proof (induction path arbitrary: y b amounts)
  case Nil
  show ?case
  proof (cases amounts)
    case (Cons a as)
    then show ?thesis using hops_length[of _ "[y]" "rev amounts @ [b]"] by auto
  qed simp
next
  case (Cons x path)
  show ?case
  proof (cases amounts)
    case Nil
    then show ?thesis
      using hops_length[of _ "rev (x # path) @ [y]" "[b]"] by (auto simp: supply_loop_step simp del: supply_loop.simps)
  next
    case (Cons a as)
    have snoc: "hops R (rev path @ [x, y]) (rev as @ [a, b]) \<longleftrightarrow>
        hops R (rev path @ [x]) (rev as @ [a]) \<and> R x y a b" for R
    proof (cases "length as = length path")
      case True
      then show ?thesis by (intro hops_snoc) simp
    next
      case False
      then show ?thesis using hops_length[of R "rev path @ [x, y]"] hops_length[of R "rev path @ [x]"] by fastforce
    qed
    show ?thesis
      using Cons.IH[of x a as]
      by (auto simp: \<open>amounts = a # as\<close> snoc supply_loop_step simp del: supply_loop.simps)
  qed
qed

lemma get_target_amounts_hops:
  "get_target_amounts cfg s path supply_amount limit = Inr amounts \<longleftrightarrow>
     2 \<le> length path \<and> length path \<le> trading_path_limit cfg \<and>
     hd amounts = supply_amount \<and> hops (target_hop cfg s limit) path amounts"
proof (cases path)
  case (Cons x rest)
  show ?thesis
  proof (cases amounts)
    case Nil
    then show ?thesis
      using hops_length[of "target_hop cfg s limit" path "[]"]
      by (auto simp: get_target_amounts_def Cons split: sum.splits)
  next
    case (Cons a as)
    then show ?thesis
      using target_loop_hops[of cfg s limit x rest supply_amount as]
      by (auto simp: get_target_amounts_def \<open>path = x # rest\<close> split: sum.splits)
  qed
qed (simp add: get_target_amounts_def)

lemma get_supply_amounts_hops:
  "get_supply_amounts cfg s path target_amount limit = Inr amounts \<longleftrightarrow>
     2 \<le> length path \<and> length path \<le> trading_path_limit cfg \<and>
     last amounts = target_amount \<and> hops (supply_hop cfg s limit) path amounts"
proof (cases path rule: rev_cases)
  case (snoc rest y)
  show ?thesis
  proof (cases amounts rule: rev_cases)
    case Nil
    then show ?thesis
      using hops_length[of "supply_hop cfg s limit" path "[]"]
      by (auto simp: get_supply_amounts_def snoc split: sum.splits)
  next
    case (snoc as b)
    then show ?thesis
      using supply_loop_hops[of cfg s limit y "rev rest" target_amount "rev as"]
      by (auto simp: get_supply_amounts_def \<open>path = rest @ [y]\<close> split: sum.splits)
  qed
qed (simp add: get_supply_amounts_def)

section \<open>Properties\<close>

text \<open>
  C4. \<open>get_target_amounts\<close> succeeds exactly on the admissible path lengths with an open pool at
  every hop, and then returns the one list of amounts that starts with the supplied amount and in
  which each amount is the (nonzero) quote of the hop for the amount before it, within the price
  impact limit.
\<close>

theorem get_target_amounts_spec:
  "get_target_amounts cfg s path supply_amount limit = Inr amounts \<longleftrightarrow>
     2 \<le> length path \<and> length path \<le> trading_path_limit cfg \<and>
     hd amounts = supply_amount \<and> hops (target_hop cfg s limit) path amounts"
  by (rule get_target_amounts_hops)

text \<open>
  \<open>get_supply_amounts\<close>, which walks the path from its end, returns the one list of amounts
  that ends with the wanted target amount and in which each amount is the (nonzero) supply its
  hop asks for the amount after it.
\<close>

theorem get_supply_amounts_spec:
  "get_supply_amounts cfg s path target_amount limit = Inr amounts \<longleftrightarrow>
     2 \<le> length path \<and> length path \<le> trading_path_limit cfg \<and>
     last amounts = target_amount \<and> hops (supply_hop cfg s limit) path amounts"
  by (rule get_supply_amounts_hops)


end
