(* ===== verification/Ledger.thy ===== *)
theory Ledger
  imports Currency_Interface
begin

text \<open>
  A reference implementation of the currency interface: a ledger that keeps the balance of every
  account and the issuance of every currency, refuses overdrafts and overflows, and takes a lock
  or a reserve as a separate entry. It models no code of the repository. It shows that the
  hypotheses the components state about their currency (\<open>custody\<close>, \<open>fixed_fractions\<close>) can be
  met, and the witnesses of the properties run on it.
\<close>

datatype entry = FreeOf account_id | ReservedOf account_id | Issuance

type_synonym ledger = "currency_id \<Rightarrow> entry \<Rightarrow> nat"

definition post :: "currency_id \<Rightarrow> entry \<Rightarrow> nat \<Rightarrow> ledger \<Rightarrow> ledger" where
  "post c e v w = w(c := (w c)(e := v))"

definition ledger_free :: "currency_id \<Rightarrow> account_id \<Rightarrow> ledger \<Rightarrow> nat" where
  "ledger_free c a w = min u128_max (w c (FreeOf a))"

text \<open>Moving an amount from one entry to a different one.\<close>

definition ledger_move :: "currency_id \<Rightarrow> entry \<Rightarrow> entry \<Rightarrow> nat \<Rightarrow> (ledger, unit) eff" where
  "ledger_move c x y n w =
     (if n \<le> w c x \<and> w c x \<le> u128_max \<and> w c y + n \<le> u128_max
      then (Inr (), post c y (w c y + n) (post c x (w c x - n) w)) else (Inl (External 0), w))"

definition ledger_transfer :: "currency_id \<Rightarrow> account_id \<Rightarrow> account_id \<Rightarrow> nat \<Rightarrow> (ledger, unit) eff" where
  "ledger_transfer c a b n = (if a = b \<or> n = 0 then okE () else ledger_move c (FreeOf a) (FreeOf b) n)"

definition ledger_deposit :: "currency_id \<Rightarrow> account_id \<Rightarrow> nat \<Rightarrow> (ledger, unit) eff" where
  "ledger_deposit c a n w =
     (if w c Issuance + n \<le> u128_max \<and> w c (FreeOf a) + n \<le> u128_max
      then (Inr (), post c Issuance (w c Issuance + n) (post c (FreeOf a) (w c (FreeOf a) + n) w))
      else (Inl (External 1), w))"

definition ledger_withdraw :: "currency_id \<Rightarrow> account_id \<Rightarrow> nat \<Rightarrow> (ledger, unit) eff" where
  "ledger_withdraw c a n w =
     (if n \<le> w c (FreeOf a) \<and> n \<le> w c Issuance
      then (Inr (), post c Issuance (w c Issuance - n) (post c (FreeOf a) (w c (FreeOf a) - n) w))
      else (Inl (External 2), w))"

definition ledger_slash :: "currency_id \<Rightarrow> account_id \<Rightarrow> nat \<Rightarrow> ledger \<Rightarrow> nat \<times> ledger" where
  "ledger_slash c a n w =
     (case ledger_withdraw c a n w of (Inl _, _) \<Rightarrow> (n, w) | (Inr _, w') \<Rightarrow> (0, w'))"

definition ledger_update :: "currency_id \<Rightarrow> account_id \<Rightarrow> int \<Rightarrow> (ledger, unit) eff" where
  "ledger_update c a n = (if 0 \<le> n then ledger_deposit c a (nat n) else ledger_withdraw c a (nat (- n)))"

definition ledger_unreserve :: "currency_id \<Rightarrow> account_id \<Rightarrow> nat \<Rightarrow> ledger \<Rightarrow> nat \<times> ledger" where
  "ledger_unreserve c a n w =
     (let k = min n (w c (ReservedOf a)) in (n - k, snd (ledger_move c (ReservedOf a) (FreeOf a) k w)))"

definition ledger_multi :: "ledger multi_currency" where
  "ledger_multi = \<lparr>
     mc_minimum_balance = (\<lambda>c w. 0),
     mc_total_issuance = (\<lambda>c w. w c Issuance),
     mc_total_balance = (\<lambda>c a w. ledger_free c a w + w c (ReservedOf a)),
     mc_free_balance = ledger_free,
     mc_ensure_can_withdraw = (\<lambda>c a n w. ensure (n \<le> ledger_free c a w) (External 0) w),
     mc_transfer = ledger_transfer,
     mc_deposit = ledger_deposit,
     mc_withdraw = ledger_withdraw,
     mc_can_slash = (\<lambda>c a n w. n \<le> ledger_free c a w),
     mc_slash = ledger_slash,
     mc_update_balance = ledger_update,
     mc_set_lock = (\<lambda>i c a n. okE ()),
     mc_extend_lock = (\<lambda>i c a n. okE ()),
     mc_remove_lock = (\<lambda>i c a. okE ()),
     mc_can_reserve = (\<lambda>c a n w. n \<le> ledger_free c a w),
     mc_slash_reserved = (\<lambda>c a n w. (n, w)),
     mc_reserved_balance = (\<lambda>c a w. w c (ReservedOf a)),
     mc_reserve = (\<lambda>c a n. ledger_move c (FreeOf a) (ReservedOf a) n),
     mc_unreserve = ledger_unreserve,
     mc_repatriate_reserved = (\<lambda>c a b n st. bindE (ledger_move c (ReservedOf a) (FreeOf b) n) (\<lambda>_. okE 0)),
     mc_transfer_all = (\<lambda>a b. okE ())\<rparr>"

text \<open>Fixed-point numbers, rounded down.\<close>

definition floor_fixed :: fixed_ops where
  "floor_fixed = \<lparr>
     fx_checked_from_rational = (\<lambda>n d. Option.bind (chk_div (n * fx_div) d) (narrow u128_max)),
     fx_saturating_mul_int = (\<lambda>q n. min u128_max (q * n div fx_div)),
     fx_checked_mul_int = (\<lambda>q n. narrow u128_max (q * n div fx_div)),
     fx_saturating_mul = (\<lambda>q r. min u128_max (q * r div fx_div)),
     fx_saturating_from_integer = (\<lambda>n. min u128_max (n * fx_div))\<rparr>"

lemma post_apply [simp]: "post c e v w d f = (if d = c \<and> f = e then v else w d f)"
  by (simp add: post_def)

lemma ledger_multi_sel [simp]:
  "mc_transfer ledger_multi = ledger_transfer" "mc_deposit ledger_multi = ledger_deposit"
  "mc_withdraw ledger_multi = ledger_withdraw" "mc_free_balance ledger_multi = ledger_free"
  "mc_total_issuance ledger_multi c w = w c Issuance"
  by (simp_all add: ledger_multi_def)

lemma ledger_custody: "custody ledger_multi m"
  unfolding custody_def custody_out_law_def custody_in_law_def custody_others_law_def
  by (auto simp: ledger_transfer_def ledger_move_def ledger_deposit_def ledger_withdraw_def
      ledger_free_def split: if_splits)

lemma fx_div_pos: "0 < fx_div"
  by (simp add: fx_div_def)

lemma floor_fixed_fractions: "fixed_fractions floor_fixed"
proof -
  have "q * n div fx_div \<le> n" if "q \<le> fx_div" for q n
    using div_le_mono[of "q * n" "fx_div * n" fx_div] that fx_div_pos by simp
  moreover have "n * fx_div div d \<le> fx_div" if "n \<le> d" "d \<noteq> 0" for n d
    using div_le_mono[of "n * fx_div" "d * fx_div" d] that by simp
  ultimately show ?thesis
    by (auto simp: fixed_fractions_def floor_fixed_def bind_eq_Some_conv le_trans min.coboundedI2)
qed

end
