(* ===== verification/Dex_Machine.thy ===== *)
theory Dex_Machine
  imports Dex_Solvency Dex_Paths Ledger
begin

text \<open>
  The exchange as a machine: its dispatchable calls, the proof that swaps, listings and disabling
  keep the invariant of \<open>Dex_Solvency\<close>, and the properties of whole runs of the pallet.
\<close>

section \<open>Swaps keep the exchange solvent\<close>

lemma valid_pair_from:
  assumes "valid_pair (trading_pair_new x y)"
  shows "from_token_currency_ids x y = Some (trading_pair_new x y)" "x \<noteq> y"
  using assms trading_pair_new_cases[of x y]
  by (auto simp: valid_pair_def from_token_currency_ids_def trading_pair_new_sym split: if_splits)

lemma get_liquidity_pools:
  "get_liquidity s x y = (if x = pair_0 (trading_pair_new x y)
     then liquidity_pool s (trading_pair_new x y)
     else (snd (liquidity_pool s (trading_pair_new x y)), fst (liquidity_pool s (trading_pair_new x y))))"
  by (simp add: get_liquidity_def Let_def case_prod_beta)

text \<open>One hop, as an update of the state.\<close>

definition swapped :: "currency_id \<Rightarrow> currency_id \<Rightarrow> balance \<Rightarrow> balance \<Rightarrow> 'w dex_state \<Rightarrow> 'w dex_state" where
  "swapped x y a b s = s\<lparr>liquidity_pool := (liquidity_pool s)(trading_pair_new x y :=
     (if x = pair_0 (trading_pair_new x y)
      then (sat_add u128_max (fst (liquidity_pool s (trading_pair_new x y))) a,
            sat_sub (snd (liquidity_pool s (trading_pair_new x y))) b)
      else (sat_sub (fst (liquidity_pool s (trading_pair_new x y))) b,
            sat_add u128_max (snd (liquidity_pool s (trading_pair_new x y))) a)))\<rparr>"

lemma dex_swap_valid:
  assumes "valid_pair (trading_pair_new x y)"
  shows "dex_swap x y a b s = (Inr (), swapped x y a b s)"
  using valid_pair_from(1)[OF assms]
  by (simp add: dex_swap_def swapped_def put_pool_def eff_defs case_prod_beta)

lemma swapped_frame [simp]:
  "trading_pair_statuses (swapped x y a b s) = trading_pair_statuses s"
  "provisioning_pool (swapped x y a b s) = provisioning_pool s"
  "dex_world (swapped x y a b s) = dex_world s"
  "dex_events (swapped x y a b s) = dex_events s"
  by (simp_all add: swapped_def)

text \<open>
  A hop that takes no more than the target pool holds keeps everything covered, when the
  holdings behind it change by the two amounts.
\<close>

lemma swapped_covered:
  assumes cov: "covered s f" and vp: "valid_pair (trading_pair_new x y)"
    and b: "b \<le> snd (get_liquidity s x y)"
    and g: "\<And>c. f c + (if x = c then a else 0) = g c + (if y = c then b else 0)"
  shows "covered (swapped x y a b s) g"
proof (rule covered_update[OF cov, where p = "trading_pair_new x y"])
  let ?p = "trading_pair_new x y"
  show "reserve_of (swapped x y a b s) c ?p + f c \<le> reserve_of s c ?p + g c" for c
    using g[of c] b valid_pair_from(2)[OF vp] trading_pair_new_cases[of x y]
      sat_add_le(2)[of u128_max "fst (liquidity_pool s ?p)" a]
      sat_add_le(2)[of u128_max "snd (liquidity_pool s ?p)" a]
    by (auto simp: reserve_of_def amt_def swapped_def get_liquidity_pools split: if_splits)
qed (simp add: swapped_def)

text \<open>A hop does not shrink the target pool of the next hop of the path.\<close>

lemma swapped_next_target:
  assumes "valid_pair (trading_pair_new x y)"
    and "\<And>c. amt (trading_pair_new x y) c (liquidity_pool s (trading_pair_new x y)) \<le> u128_max"
  shows "snd (get_liquidity s y z) \<le> snd (get_liquidity (swapped x y a b s) y z)"
proof (cases "trading_pair_new y z = trading_pair_new x y")
  case True
  let ?p = "trading_pair_new x y"
  have "z = x" using True trading_pair_new_cases[of x y] trading_pair_new_cases[of y z] by fastforce
  moreover have "fst (liquidity_pool s ?p) \<le> u128_max" "snd (liquidity_pool s ?p) \<le> u128_max"
    using assms(2)[of "pair_0 ?p"] assms(2)[of "pair_1 ?p"] valid_amt[OF assms(1)] by simp_all
  ultimately show ?thesis
    using valid_pair_from(2)[OF assms(1)] trading_pair_new_cases[of x y]
    by (auto simp: get_liquidity_pools swapped_def True sat_add_ge trading_pair_new_sym[of y x])
qed (simp add: get_liquidity_pools swapped_def)

text \<open>What a hop of either quote gives for solvency.\<close>

definition safe_hop :: "'w dex_state \<Rightarrow> currency_id \<Rightarrow> currency_id \<Rightarrow> balance \<Rightarrow> balance \<Rightarrow> bool" where
  "safe_hop s x y a b \<longleftrightarrow> valid_pair (trading_pair_new x y) \<and> b \<le> snd (get_liquidity s x y)"

lemma inv_pool_bound:
  assumes "dex_env cfg" "dex_inv cfg s"
  shows "amt p c (liquidity_pool s p) \<le> u128_max"
proof -
  have "reserve_of s c p \<le> bal cfg (dex_world s) c"
    using assms(2) reserve_le_covered by (fastforce simp: dex_inv_def held_bal)
  with dex_envD(2)[OF assms(1), of "dex_world s" c] show ?thesis by (simp add: reserve_of_def)
qed

lemma enabled_valid:
  "dex_inv cfg s \<Longrightarrow> trading_pair_statuses s p = Enabled \<Longrightarrow> valid_pair p"
  using dex_inv_status[of cfg s p] by (simp add: status_ok_def)

lemma get_liquidity_amt:
  assumes "valid_pair (trading_pair_new x y)"
  shows "fst (get_liquidity s x y) = amt (trading_pair_new x y) x (liquidity_pool s (trading_pair_new x y))"
    "snd (get_liquidity s x y) = amt (trading_pair_new x y) y (liquidity_pool s (trading_pair_new x y))"
  using valid_pair_from(2)[OF assms] trading_pair_new_cases[of x y] by (auto simp: get_liquidity_pools amt_def)

lemma get_liquidity_fits:
  assumes "dex_env cfg" "dex_inv cfg s" "valid_pair (trading_pair_new x y)"
  shows "fst (get_liquidity s x y) \<le> u128_max" "snd (get_liquidity s x y) \<le> u128_max"
  by (simp_all add: get_liquidity_amt[OF assms(3)] inv_pool_bound[OF assms(1,2)])

lemma supply_side_fits:
  assumes "dex_env cfg" "dex_inv cfg s" "who \<noteq> dex_account cfg" "valid_pair (trading_pair_new x y)"
    and t_in: "mc_transfer (dex_currency cfg) x who (dex_account cfg) n (dex_world s) = (Inr (), w)"
  shows "fst (get_liquidity s x y) + n \<le> u128_max"
proof -
  have "reserve_of s x (trading_pair_new x y) \<le> bal cfg (dex_world s) x"
    using assms(2) reserve_le_covered by (fastforce simp: dex_inv_def held_bal)
  moreover have "bal cfg w x = bal cfg (dex_world s) x + n"
    using custody_in[OF dex_envD(1)[OF assms(1)] assms(3) t_in, of x] by (simp add: bal_def)
  ultimately show ?thesis
    using dex_envD(2)[OF assms(1), of w x] by (simp add: get_liquidity_amt[OF assms(4)] reserve_of_def)
qed

lemma target_hop_safe:
  assumes "dex_env cfg" "dex_inv cfg s" "target_hop cfg s limit x y a b"
  shows "safe_hop s x y a b"
proof -
  let ?p = "trading_pair_new x y"
  have vp: "valid_pair ?p" using assms(2,3) enabled_valid by (auto simp: target_hop_def open_hop_def)
  have "b < snd (get_liquidity s x y)"
    using assms(3) get_target_amount_less get_liquidity_fits[OF assms(1,2) vp]
    by (auto simp: target_hop_def open_hop_def)
  with vp show ?thesis by (simp add: safe_hop_def)
qed

lemma supply_hop_safe:
  assumes "dex_inv cfg s" "supply_hop cfg s limit x y a b"
  shows "safe_hop s x y a b"
proof -
  have "valid_pair (trading_pair_new x y)" using assms enabled_valid by (auto simp: supply_hop_def open_hop_def)
  moreover have "b < snd (get_liquidity s x y)"
    using assms(2) get_supply_amount_bound[of "get_exchange_fee s" "fst (get_liquidity s x y)" "snd (get_liquidity s x y)" b]
    by (simp add: supply_hop_def)
  ultimately show ?thesis by (simp add: safe_hop_def)
qed

lemma dex_swap_frame:
  "dex_swap x y a b s = (r, t) \<Longrightarrow> trading_pair_statuses t = trading_pair_statuses s \<and>
    provisioning_pool t = provisioning_pool s \<and> dex_world t = dex_world s \<and> dex_events t = dex_events s"
  by (auto simp: dex_swap_def put_pool_def eff_defs split: option.splits prod.splits if_splits)

lemma dex_swap_by_path_frame:
  "dex_swap_by_path path amounts s = (Inr r, t) \<Longrightarrow> trading_pair_statuses t = trading_pair_statuses s \<and>
    provisioning_pool t = provisioning_pool s \<and> dex_world t = dex_world s \<and> dex_events t = dex_events s"
  by (induction path amounts arbitrary: s rule: dex_swap_by_path.induct) (fastforce dest: dex_swap_frame)+

text \<open>
  The whole path: at most two hops, so that the second sees a target pool at least as large as
  the one it was quoted for.
\<close>

lemma swap_path_covered:
  assumes hops: "hops (safe_hop s) path amounts" and len: "2 \<le> length path" "length path \<le> 3"
    and cov: "covered s f" and bound: "\<And>p c. amt p c (liquidity_pool s p) \<le> u128_max"
    and run: "dex_swap_by_path path amounts s = (Inr r, t)"
    and g: "\<And>c. g c + (if last path = c then last amounts else 0) = f c + (if hd path = c then hd amounts else 0)"
  shows "covered t g"
proof -
  note alen = hops_length[OF hops]
  have "length path = 2 \<or> length path = 3" using len by linarith
  then consider x y where "path = [x, y]" | x y z where "path = [x, y, z]"
    by (auto simp: numeral_eq_Suc length_Suc_conv)
  then show ?thesis
  proof cases
    case 1
    then obtain a b where ab: "amounts = [a, b]" using alen by (auto simp: length_Suc_conv)
    have safe: "valid_pair (trading_pair_new x y)" "b \<le> snd (get_liquidity s x y)"
      using hops by (simp_all add: 1 ab safe_hop_def)
    have "t = swapped x y a b s"
      using run by (simp add: 1 ab dex_swap_valid[OF safe(1)])
    moreover have "f c + (if x = c then a else 0) = g c + (if y = c then b else 0)" for c
      using g[of c] by (auto simp: 1 ab split: if_splits)
    then have "covered (swapped x y a b s) g"
      by (rule swapped_covered[OF cov safe])
    ultimately show ?thesis by simp
  next
    case 2
    then obtain a b d where ab: "amounts = [a, b, d]" using alen by (auto simp: length_Suc_conv)
    let ?u = "swapped x y a b s"
    have safe: "valid_pair (trading_pair_new x y)" "b \<le> snd (get_liquidity s x y)"
        "valid_pair (trading_pair_new y z)" "d \<le> snd (get_liquidity s y z)"
      using hops by (simp_all add: 2 ab safe_hop_def)
    have safe': "d \<le> snd (get_liquidity ?u y z)"
      using safe(4) swapped_next_target[OF safe(1) bound, of z a b] by linarith
    have t: "t = swapped y z b d ?u"
      using run by (simp add: 2 ab dex_swap_valid[OF safe(1)] dex_swap_valid[OF safe(3)])
    define h where "h c = (if y = c then f c + (if x = c then a else 0) - b else f c + (if x = c then a else 0))" for c
    have ne: "x \<noteq> y" using valid_pair_from(2)[OF safe(1)] .
    have "b \<le> f y"
    proof -
      have "amt (trading_pair_new x y) y (liquidity_pool s (trading_pair_new x y)) \<le> f y"
        using reserve_le_covered[OF cov, of y "trading_pair_new x y"] by (simp add: reserve_of_def)
      moreover have "snd (get_liquidity s x y) \<le> amt (trading_pair_new x y) y (liquidity_pool s (trading_pair_new x y))"
        using trading_pair_new_cases[of x y] ne by (auto simp: get_liquidity_pools amt_def)
      ultimately show ?thesis using safe(2) by linarith
    qed
    then have "covered ?u h"
      by (intro swapped_covered[OF cov safe(1,2)]) (auto simp: h_def)
    moreover have "h c + (if y = c then b else 0) = g c + (if z = c then d else 0)" for c
      using g[of c] ne \<open>b \<le> f y\<close> by (auto simp: h_def 2 ab split: if_splits)
    ultimately show "covered t g"
      unfolding t by (rule swapped_covered[OF _ safe(3) safe'])
  qed
qed

lemma dex_inv_swap_frame:
  assumes "dex_inv cfg s" "covered t (held cfg t)" "trading_pair_statuses t = trading_pair_statuses s"
    "provisioning_pool t = provisioning_pool s"
  shows "dex_inv cfg t"
  using assms status_ok_cong[of t _ s] by (intro dex_invI) (simp_all add: dex_inv_status)

text \<open>
  A transfer in, the hops, and a transfer out, in the order of both swap functions.
\<close>

lemma swap_transfers_inv:
  assumes env: "dex_env cfg" and who: "who \<noteq> dex_account cfg" and inv: "dex_inv cfg s"
    and hops: "hops (safe_hop s) path amounts" and len: "2 \<le> length path" "length path \<le> 3"
    and t_in: "mc_transfer (dex_currency cfg) (hd path) who (dex_account cfg) (hd amounts) (dex_world s) = (Inr (), w1)"
    and path: "dex_swap_by_path path amounts (s\<lparr>dex_world := w1\<rparr>) = (Inr r, u)"
    and t_out: "mc_transfer (dex_currency cfg) (last path) (dex_account cfg) who (last amounts) (dex_world u) = (Inr (), w2)"
  shows "dex_inv cfg (u\<lparr>dex_world := w2, dex_events := ev\<rparr>)"
proof -
  let ?s = "s\<lparr>dex_world := w1\<rparr>"
  have w1: "bal cfg w1 c = bal cfg (dex_world s) c + (if c = hd path then hd amounts else 0)" for c
    using custody_in[OF dex_envD(1)[OF env] who t_in] by (simp add: bal_def)
  have hops': "hops (safe_hop ?s) path amounts"
    using hops by (rule hops_mono) (simp add: safe_hop_def get_liquidity_def)
  have cov: "covered ?s (bal cfg (dex_world s))"
    using inv covered_frame[of s _ ?s] by (simp add: dex_inv_def held_bal)
  have bound: "amt p c (liquidity_pool ?s p) \<le> u128_max" for p c
    using inv_pool_bound[OF env inv] by simp
  have frame: "trading_pair_statuses u = trading_pair_statuses s" "provisioning_pool u = provisioning_pool s"
      "dex_world u = w1"
    using dex_swap_by_path_frame[OF path] by simp_all
  let ?t = "u\<lparr>dex_world := w2, dex_events := ev\<rparr>"
  have w2: "bal cfg w2 c + (if c = last path then last amounts else 0) = bal cfg w1 c" for c
    using custody_out[OF dex_envD(1)[OF env] who t_out] by (simp add: bal_def frame)
  have "covered u (bal cfg w2)"
  proof (rule swap_path_covered[OF hops' len cov bound path])
    show "bal cfg w2 c + (if last path = c then last amounts else 0) =
        bal cfg (dex_world s) c + (if hd path = c then hd amounts else 0)" for c
      using w1[of c] w2[of c] by (auto split: if_splits)
  qed
  then have "covered ?t (held cfg ?t)"
    using covered_frame[of u _ ?t] by (simp add: held_bal)
  then show ?thesis
    using inv by (rule_tac dex_inv_swap_frame[of cfg s]) (simp_all add: frame)
qed

lemma do_swap_with_exact_supply_inv:
  assumes env: "dex_env cfg" and lim: "trading_path_limit cfg \<le> 3"
    and who: "who \<noteq> dex_account cfg" and inv: "dex_inv cfg s"
    and run: "do_swap_with_exact_supply cfg who path a m limit s = (Inr r, t)"
  shows "dex_inv cfg t"
proof -
  from run obtain amounts w1 u w2 where
      q: "get_target_amounts cfg s path a limit = Inr amounts"
    and t_in: "mc_transfer (dex_currency cfg) (hd path) who (dex_account cfg) a (dex_world s) = (Inr (), w1)"
    and p: "dex_swap_by_path path amounts (s\<lparr>dex_world := w1\<rparr>) = (Inr (), u)"
    and t_out: "mc_transfer (dex_currency cfg) (last path) (dex_account cfg) who (last amounts) (dex_world u) = (Inr (), w2)"
    and t: "t = u\<lparr>dex_world := w2, dex_events := dex_events u @ [Swap who path a (last amounts)]\<rparr>"
    by (auto simp: do_swap_with_exact_supply_def)
  note spec = q[unfolded get_target_amounts_hops]
  have "hops (safe_hop s) path amounts"
    using spec target_hop_safe[OF env inv] hops_mono by blast
  then show ?thesis
    unfolding t using spec lim t_in by (intro swap_transfers_inv[OF env who inv _ _ _ _ p t_out]) simp_all
qed

lemma do_swap_with_exact_target_inv:
  assumes env: "dex_env cfg" and lim: "trading_path_limit cfg \<le> 3"
    and who: "who \<noteq> dex_account cfg" and inv: "dex_inv cfg s"
    and run: "do_swap_with_exact_target cfg who path a m limit s = (Inr r, t)"
  shows "dex_inv cfg t"
proof -
  from run obtain amounts w1 u w2 where
      q: "get_supply_amounts cfg s path a limit = Inr amounts"
    and t_in: "mc_transfer (dex_currency cfg) (hd path) who (dex_account cfg) (hd amounts) (dex_world s) = (Inr (), w1)"
    and p: "dex_swap_by_path path amounts (s\<lparr>dex_world := w1\<rparr>) = (Inr (), u)"
    and t_out: "mc_transfer (dex_currency cfg) (last path) (dex_account cfg) who a (dex_world u) = (Inr (), w2)"
    and t: "t = u\<lparr>dex_world := w2, dex_events := dex_events u @ [Swap who path (hd amounts) a]\<rparr>"
    by (auto simp: do_swap_with_exact_target_def)
  note spec = q[unfolded get_supply_amounts_hops]
  have "hops (safe_hop s) path amounts"
    using spec supply_hop_safe[OF inv] hops_mono by blast
  then show ?thesis
    unfolding t using spec lim t_out by (intro swap_transfers_inv[OF env who inv _ _ _ t_in p]) simp_all
qed

section \<open>Listing, enabling and disabling\<close>

lemma erc20_mapping_frame:
  assumes "dex_env cfg" "erc20_mapping cfg c s = (Inr r, t)"
  shows "liquidity_pool t = liquidity_pool s \<and> provisioning_pool t = provisioning_pool s \<and>
    trading_pair_statuses t = trading_pair_statuses s \<and> bal cfg (dex_world s) d \<le> bal cfg (dex_world t) d"
  using assms hook_bal[OF dex_envD(3)[OF assms(1)]] by (cases c) auto

text \<open>A new status for one pair, with nothing provisioned.\<close>

lemma dex_inv_status_change:
  assumes inv: "dex_inv cfg s"
    and t: "liquidity_pool t = liquidity_pool s" "provisioning_pool t = provisioning_pool s"
      "trading_pair_statuses t = (trading_pair_statuses s)(p := st)"
    and world: "\<And>c. bal cfg (dex_world s) c \<le> bal cfg (dex_world t) c"
    and ok: "status_ok t p"
  shows "dex_inv cfg t"
proof (rule dex_invI)
  have "covered s (held cfg t)"
    using inv world covered_mono by (fastforce simp: dex_inv_def held_bal)
  then show "covered t (held cfg t)" by (rule covered_frame) (simp_all add: t)
  show "status_ok t q" for q
  proof (cases "q = p")
    case False
    then have "status_ok t q = status_ok s q" by (intro status_ok_cong) (simp_all add: t)
    then show ?thesis using inv by (simp add: dex_inv_status)
  qed (simp add: ok)
qed

lemma from_token_valid:
  assumes "from_token_currency_ids a b = Some p" "a \<noteq> b"
  shows "valid_pair p"
  using assms trading_pair_new_cases[of a b]
  by (auto simp: valid_pair_def from_token_currency_ids_def trading_pair_new_def split: if_splits)

lemma list_trading_pair_inv:
  assumes env: "dex_env cfg" and inv: "dex_inv cfg s"
    and run: "list_trading_pair cfg org a b ma mb ta tb nb s = (Inr r, t)"
  shows "dex_inv cfg t"
proof -
  from run obtain p u v where
      p: "from_token_currency_ids a b = Some p" "a \<noteq> b" "trading_pair_statuses s p = NotEnabled"
    and m: "erc20_mapping cfg a s = (Inr (), u)" "erc20_mapping cfg b u = (Inr (), v)"
    and t: "t = v\<lparr>trading_pair_statuses := (trading_pair_statuses v)(p := Provisioning
        \<lparr>min_contribution = orient p a ma mb, target_provision = orient p a ta tb,
         accumulated_provision = (0, 0), not_before = nb\<rparr>), dex_events := dex_events v @ [ListTradingPair p]\<rparr>"
    by (auto simp: list_trading_pair_def case_prod_beta)
  have v: "liquidity_pool v = liquidity_pool s" "provisioning_pool v = provisioning_pool s"
      "trading_pair_statuses v = trading_pair_statuses s" "\<And>d. bal cfg (dex_world s) d \<le> bal cfg (dex_world v) d"
    using erc20_mapping_frame[OF env m(1)] erc20_mapping_frame[OF env m(2)] order_trans by (auto, blast)
  show ?thesis
    using v(4) from_token_valid[OF p(1,2)]
    by (intro dex_inv_status_change[OF inv, of t p]) (simp_all add: t v(1-3) status_ok_def)
qed

lemma enable_trading_pair_inv:
  assumes inv: "dex_inv cfg s" and ne: "a \<noteq> b"
    and run: "enable_trading_pair cfg org a b s = (Inr r, t)"
  shows "dex_inv cfg t"
proof -
  from run obtain p where
      p: "from_token_currency_ids a b = Some p" "trading_pair_statuses s p = NotEnabled"
    and t: "t = s\<lparr>trading_pair_statuses := (trading_pair_statuses s)(p := Enabled),
        dex_events := dex_events s @ [EnableTradingPair p]\<rparr>"
    by (auto simp: enable_trading_pair_def)
  show ?thesis
    using dex_inv_status[OF inv, of p] p(2) from_token_valid[OF p(1) ne]
    by (intro dex_inv_status_change[OF inv, of t p Enabled]) (simp_all add: t status_ok_def)
qed

lemma refund_provisions_frame:
  assumes "dex_env cfg" "refund_provisions cfg p xs s = (Inr r, t)"
  shows "liquidity_pool t = liquidity_pool s \<and> provisioning_pool t = provisioning_pool s \<and>
    trading_pair_statuses t = trading_pair_statuses s \<and>
    bal cfg (dex_world s) c \<le> bal cfg (dex_world t) c + amt p c (prov_sum xs)"
  using assms(2)
proof (induction xs arbitrary: s)
  case (Cons x xs)
  obtain who con where x: "x = (who, con)" by (cases x)
  from Cons.prems obtain w1 w2 where
      tr: "mc_transfer (dex_currency cfg) (pair_0 p) (dex_account cfg) who (fst con) (dex_world s) = (Inr (), w1)"
        "mc_transfer (dex_currency cfg) (pair_1 p) (dex_account cfg) who (snd con) w1 = (Inr (), w2)"
    and rest: "refund_provisions cfg p xs (s\<lparr>dex_world := dex_dec_consumers cfg who w2\<rparr>) = (Inr r, t)"
    by (auto simp: x)
  have "bal cfg (dex_world s) c \<le> bal cfg w2 c + amt p c con"
    using custody_pay[OF dex_envD(1)[OF assms(1)] tr(1), of c] custody_pay[OF dex_envD(1)[OF assms(1)] tr(2), of c]
    by (auto simp: bal_def amt_def split: if_splits)
  moreover have "amt p c (prov_sum (x # xs)) = amt p c con + amt p c (prov_sum xs)"
    by (simp add: x amt_def)
  ultimately show ?case
    using Cons.IH[OF rest] dec_consumers_bal[OF assms(1), of w2 c who] by simp
qed simp

lemma disable_trading_pair_inv:
  assumes env: "dex_env cfg" and inv: "dex_inv cfg s"
    and run: "disable_trading_pair cfg org a b s = (Inr r, t)"
  shows "dex_inv cfg t"
proof -
  obtain p where p: "from_token_currency_ids a b = Some p"
    using run by (auto simp: disable_trading_pair_def)
  consider (en) "trading_pair_statuses s p = Enabled"
      "t = s\<lparr>trading_pair_statuses := (trading_pair_statuses s)(p := NotEnabled),
        dex_events := dex_events s @ [DisableTradingPair p]\<rparr>"
    | (pr) u where
      "refund_provisions cfg p (provisioning_pool s p) (s\<lparr>provisioning_pool := (provisioning_pool s)(p := [])\<rparr>) = (Inr (), u)"
      "t = u\<lparr>trading_pair_statuses := (trading_pair_statuses u)(p := NotEnabled),
        dex_events := dex_events u @ [DisableTradingPair p]\<rparr>"
    using run by (cases "trading_pair_statuses s p") (auto simp: disable_trading_pair_def p)
  then show ?thesis
  proof cases
    case en
    then show ?thesis
      using dex_inv_status[OF inv, of p]
      by (intro dex_inv_status_change[OF inv, of t p NotEnabled]) (simp_all add: status_ok_def)
  next
    case pr
    have u: "liquidity_pool u = liquidity_pool s" "provisioning_pool u = (provisioning_pool s)(p := [])"
        "trading_pair_statuses u = trading_pair_statuses s"
        "\<And>c. bal cfg (dex_world s) c \<le> bal cfg (dex_world u) c + amt p c (prov_sum (provisioning_pool s p))"
      using refund_provisions_frame[OF env pr(1)] by simp_all
    show ?thesis
    proof (rule dex_invI)
      show "covered t (held cfg t)"
      proof (rule covered_update[where p = p])
        show "covered s (held cfg s)" using inv by (simp add: dex_inv_def)
        show "reserve_of t c p + held cfg s c \<le> reserve_of s c p + held cfg t c" for c
          using u(4)[of c] by (simp add: pr(2) u(1-3) reserve_of_def held_bal)
      qed (simp add: pr(2) u(1-3))
      show "status_ok t q" for q
      proof (cases "q = p")
        case False
        then have "status_ok t q = status_ok s q" by (intro status_ok_cong) (simp_all add: pr(2) u(1-3))
        then show ?thesis using inv by (simp add: dex_inv_status)
      qed (simp add: status_ok_def pr(2) u(1-3))
    qed
  qed
qed

section \<open>The calls of the pallet\<close>

datatype dex_call =
    Call_swap_with_exact_supply "currency_id list" balance balance
  | Call_swap_with_exact_target "currency_id list" balance balance
  | Call_add_liquidity currency_id currency_id balance balance balance bool
  | Call_remove_liquidity currency_id currency_id balance balance balance bool
  | Call_list_trading_pair currency_id currency_id balance balance balance balance block_number
  | Call_enable_trading_pair currency_id currency_id
  | Call_disable_trading_pair currency_id currency_id

fun dex_exec :: "'w dex_config \<Rightarrow> origin \<times> dex_call \<Rightarrow> ('w dex_state, unit) eff" where
  "dex_exec cfg (org, Call_swap_with_exact_supply path a m) = swap_with_exact_supply cfg org path a m"
| "dex_exec cfg (org, Call_swap_with_exact_target path a m) = swap_with_exact_target cfg org path a m"
| "dex_exec cfg (org, Call_add_liquidity a b ma mb ms dep) = add_liquidity cfg org a b ma mb ms dep"
| "dex_exec cfg (org, Call_remove_liquidity a b rs ma mb byw) = remove_liquidity cfg org a b rs ma mb byw"
| "dex_exec cfg (org, Call_list_trading_pair a b ma mb ta tb nb) = list_trading_pair cfg org a b ma mb ta tb nb"
| "dex_exec cfg (org, Call_enable_trading_pair a b) = enable_trading_pair cfg org a b"
| "dex_exec cfg (org, Call_disable_trading_pair a b) = disable_trading_pair cfg org a b"

text \<open>
  Calls that can occur: the account of the pallet has no key and signs nothing, and the council
  does not enable a pair of a currency with itself, which \<open>enable_trading_pair\<close> does not check.
\<close>

fun dex_admissible :: "'w dex_config \<Rightarrow> origin \<times> dex_call \<Rightarrow> bool" where
  "dex_admissible cfg (org, Call_enable_trading_pair a b) \<longleftrightarrow> a \<noteq> b"
| "dex_admissible cfg (org, _) \<longleftrightarrow> org \<noteq> Signed (dex_account cfg)"

definition dex_safe_call :: "'w dex_config \<Rightarrow> origin \<times> dex_call \<Rightarrow> bool" where
  "dex_safe_call cfg c \<longleftrightarrow> dex_env cfg \<and> trading_path_limit cfg \<le> 3 \<and> dex_admissible cfg c"

lemma swap_calls_inv:
  assumes "dex_env cfg" "trading_path_limit cfg \<le> 3" "org \<noteq> Signed (dex_account cfg)" "dex_inv cfg s"
  shows "swap_with_exact_supply cfg org path a m s = (Inr r, t) \<Longrightarrow> dex_inv cfg t"
    "swap_with_exact_target cfg org path a m s = (Inr r, t) \<Longrightarrow> dex_inv cfg t"
  using assms(3) by (auto simp: swap_with_exact_supply_def swap_with_exact_target_def
      intro: do_swap_with_exact_supply_inv[OF assms(1,2) _ assms(4)]
        do_swap_with_exact_target_inv[OF assms(1,2) _ assms(4)])

lemma add_liquidity_inv:
  assumes env: "dex_env cfg" and org: "org \<noteq> Signed (dex_account cfg)" and inv: "dex_inv cfg s"
    and run: "add_liquidity cfg org a b ma mb ms dep s = (Inr r, t)"
  shows "dex_inv cfg t"
proof -
  obtain who p where p: "from_token_currency_ids a b = Some p" "org = Signed who" "who \<noteq> dex_account cfg"
    using run org by (auto simp: add_liquidity_def)
  show ?thesis
  proof (cases "trading_pair_statuses s p")
    case (Provisioning pp)
    then obtain r' u where "do_add_provision cfg who a b ma mb s = (Inr r', u)"
        "convert_to_enabled_if_possible cfg p u = (Inr r, t)"
      using run p by (auto simp: add_liquidity_def)
    then show ?thesis
      using do_add_provision_inv[OF env p(3) inv] convert_to_enabled_inv[OF env] by blast
  qed (use run p do_add_liquidity_inv[OF env p(3) inv] in \<open>auto simp: add_liquidity_def\<close>)
qed

lemma remove_liquidity_inv:
  assumes "dex_env cfg" "org \<noteq> Signed (dex_account cfg)" "dex_inv cfg s"
    "remove_liquidity cfg org a b rs ma mb byw s = (Inr r, t)"
  shows "dex_inv cfg t"
  using assms(2,4) by (auto simp: remove_liquidity_def intro: do_remove_liquidity_inv[OF assms(1) _ assms(3)])

text \<open>Every dispatchable is transactional, so that it has to keep the invariant where it succeeds.\<close>

lemma keeps_transactional_call:
  assumes "m = transactional k" "\<And>s x t. P s \<Longrightarrow> m s = (Inr x, t) \<Longrightarrow> P t"
  shows "preserves P m"
  unfolding assms(1) using assms(2) by (intro keeps_transactional_ok) (simp add: assms(1))

lemma dex_exec_transactional: "\<exists>k. dex_exec cfg c = transactional k"
  by (cases "(cfg, c)" rule: dex_exec.cases)
    (auto simp: swap_with_exact_supply_def swap_with_exact_target_def add_liquidity_def
      remove_liquidity_def list_trading_pair_def enable_trading_pair_def disable_trading_pair_def)

lemma dex_exec_keeps:
  assumes "dex_safe_call cfg c"
  shows "preserves (dex_inv cfg) (dex_exec cfg c)"
proof -
  have env: "dex_env cfg" and lim: "trading_path_limit cfg \<le> 3" and adm: "dex_admissible cfg c"
    using assms by (simp_all add: dex_safe_call_def)
  have ok: "dex_inv cfg t" if "dex_inv cfg s" "dex_exec cfg c s = (Inr x, t)" for s x t
    using that(2) adm
    by (cases "(cfg, c)" rule: dex_exec.cases)
      (auto intro: swap_calls_inv[OF env lim _ that(1)] add_liquidity_inv[OF env _ that(1)]
        remove_liquidity_inv[OF env _ that(1)] list_trading_pair_inv[OF env that(1)]
        enable_trading_pair_inv[OF that(1)] disable_trading_pair_inv[OF env that(1)])
  show ?thesis using dex_exec_transactional[of cfg c] ok keeps_transactional_call[of "dex_exec cfg c"] by blast
qed

interpretation dex_machine: pallet_machine "dex_exec cfg" "dex_safe_call cfg" "dex_inv cfg" for cfg
  by unfold_locales (rule dex_exec_keeps)

end
