(* ===== verification/Dex_Properties.thy ===== *)
theory Dex_Properties
  imports Dex_Machine
begin

text \<open>
  The properties of the exchange as a whole: solvency over every run, atomicity of failing calls,
  the life cycle of a trading pair, and the value a swap leaves in its pool.
\<close>

section \<open>The exchange on the reference ledger\<close>

text \<open>A configuration for the witnesses: account 99 is the pallet's, \<open>Root\<close> lists pairs.\<close>

definition ledger_dex :: "ledger dex_config" where
  "ledger_dex = \<lparr>dex_currency = ledger_multi, trading_path_limit = 3, dex_account = 99,
     dex_set_erc20_mapping = (\<lambda>a. okE ()), dex_encode_evm_address = (\<lambda>c w. None),
     dex_deposit_share = (\<lambda>a c n. okE ()), dex_withdraw_share = (\<lambda>a c n. okE ()),
     dex_listing_origin = (\<lambda>org. org = Root), dex_fixed = floor_fixed,
     dex_inc_consumers = (\<lambda>a. okE ()), dex_dec_consumers = (\<lambda>a w. w), dex_block_number = (\<lambda>w. 5)\<rparr>"

definition empty_dex :: "'w \<Rightarrow> 'w dex_state" where
  "empty_dex w = \<lparr>liquidity_pool = (\<lambda>p. (0, 0)), trading_pair_statuses = (\<lambda>p. NotEnabled),
     provisioning_pool = (\<lambda>p. []), get_exchange_fee = (3, 1000), dex_world = w, dex_events = []\<rparr>"

lemma ledger_dex_env: "dex_env ledger_dex"
  unfolding dex_env_def
  by (auto simp: ledger_dex_def ledger_custody floor_fixed_fractions hook_keeps_def issue_keeps_def
      okE_def modE_def ledger_free_def ledger_withdraw_def split: if_splits)

lemma empty_dex_inv: "dex_inv cfg (empty_dex w)"
  by (simp add: dex_inv_def covered_def reserve_of_def status_ok_def empty_dex_def)

text \<open>A pair with 1000 DNAR and 2000 SETT in its pool, every account with 5000 of everything.\<close>

definition demo_pair :: trading_pair where
  "demo_pair = TradingPair (Token DNAR) (Token SETT)"

definition demo_dex :: "ledger dex_state" where
  "demo_dex = (empty_dex (\<lambda>c e. 5000))\<lparr>liquidity_pool := (\<lambda>p. (0, 0))(demo_pair := (1000, 2000)),
     trading_pair_statuses := (\<lambda>p. NotEnabled)(demo_pair := Enabled)\<rparr>"

lemma demo_pairs [simp]:
  "trading_pair_new (Token DNAR) (Token SETT) = demo_pair" "trading_pair_new (Token SETT) (Token DNAR) = demo_pair"
  "from_token_currency_ids (Token DNAR) (Token SETT) = Some demo_pair"
  "from_token_currency_ids (Token SETT) (Token DNAR) = Some demo_pair"
  "pair_0 demo_pair = Token DNAR" "pair_1 demo_pair = Token SETT"
  by (simp_all add: from_token_currency_ids_def trading_pair_new_def less_currency_id_def
      token_into_u8_def less_prod_def demo_pair_def)

lemma demo_dex_inv: "dex_inv ledger_dex demo_dex"
proof (rule dex_invI)
  show "covered demo_dex (held ledger_dex demo_dex)"
  proof (rule covered_update[where p = demo_pair and s = "empty_dex (\<lambda>c e. 5000)" and f = "\<lambda>c. 0"])
    show "covered (empty_dex (\<lambda>c e. 5000)) (\<lambda>c. 0)"
      by (simp add: covered_def reserve_of_def empty_dex_def)
    show "reserve_of demo_dex c demo_pair + 0 \<le> reserve_of (empty_dex (\<lambda>c e. 5000)) c demo_pair + held ledger_dex demo_dex c" for c
      by (simp add: reserve_of_def demo_dex_def empty_dex_def held_def ledger_dex_def ledger_free_def amt_def u128_max_def)
  qed (simp add: demo_dex_def empty_dex_def)
  show "status_ok demo_dex q" for q
    by (simp add: status_ok_def demo_dex_def empty_dex_def valid_pair_def)
qed

section \<open>Solvency\<close>



text \<open>
  A call that fails changes nothing: storage, balances and events are as before.
\<close>

theorem dex_failing_call_changes_nothing:
  assumes "dex_exec cfg c s = (Inl e, t)"
  shows "t = s"
proof -
  obtain k where "dex_exec cfg c = transactional k" using dex_exec_transactional by blast
  with assms show ?thesis using transactional_fails by metis
qed

theorem dex_failing_call_changes_nothing_witness:
  "snd (dex_exec ledger_dex (Signed 1, Call_enable_trading_pair (Token SETT) (Token DNAR))
      (empty_dex (\<lambda>c e. 0))) = empty_dex (\<lambda>c e. 0)"
proof -
  have "dex_exec ledger_dex (Signed 1, Call_enable_trading_pair (Token SETT) (Token DNAR))
      (empty_dex (\<lambda>c e. 0)) = (Inl BadOrigin, empty_dex (\<lambda>c e. 0))"
    by (simp add: enable_trading_pair_def ledger_dex_def eff_defs)
  from dex_failing_call_changes_nothing[OF this] this show ?thesis by simp
qed

section \<open>The value of a pool\<close>

text \<open>
  What a trader relies on: a transfer credits the receiver with its amount and leaves the balances in
  other currencies alone (what it takes from the sender may be more, where dust is swept).
\<close>

definition transfer_credits :: "'w multi_currency \<Rightarrow> bool" where
  "transfer_credits ops \<longleftrightarrow> (\<forall>c a b n w w'. a \<noteq> b \<longrightarrow> mc_transfer ops c a b n w = (Inr (), w') \<longrightarrow>
     mc_free_balance ops c b w + n \<le> mc_free_balance ops c b w' \<and>
     (\<forall>d z. d \<noteq> c \<longrightarrow> mc_free_balance ops d z w' = mc_free_balance ops d z w))"

lemma ledger_credits: "transfer_credits ledger_multi"
  by (auto simp: transfer_credits_def ledger_transfer_def ledger_move_def ledger_free_def split: if_splits)

text \<open>
  C3. A swap pays the trader and never lowers the product of the two sides of its pool. When a direct
  exact-supply swap succeeds on a solvent exchange, the trader's balance in the target currency has
  grown by at least the amount that is returned, which is at least the minimum he asked for, and the
  product of the pool is at least what it was.
\<close>

theorem swap_keeps_pool_product:
  assumes env: "dex_env cfg" and inv: "dex_inv cfg s" and who: "who \<noteq> dex_account cfg"
    and credits: "transfer_credits (dex_currency cfg)"
    and run: "do_swap_with_exact_supply cfg who [x, y] supply_amount min_target limit s = (Inr got, t)"
  shows "min_target \<le> got \<and>
    mc_free_balance (dex_currency cfg) y who (dex_world s) + got \<le> mc_free_balance (dex_currency cfg) y who (dex_world t) \<and>
    fst (get_liquidity s x y) * snd (get_liquidity s x y) \<le> fst (get_liquidity t x y) * snd (get_liquidity t x y)"
proof -
  from run obtain amounts w1 u w2 where
      q: "get_target_amounts cfg s [x, y] supply_amount limit = Inr amounts"
    and m: "min_target \<le> last amounts" "got = last amounts"
    and t_in: "mc_transfer (dex_currency cfg) x who (dex_account cfg) supply_amount (dex_world s) = (Inr (), w1)"
    and p: "dex_swap_by_path [x, y] amounts (s\<lparr>dex_world := w1\<rparr>) = (Inr (), u)"
    and t_out: "mc_transfer (dex_currency cfg) y (dex_account cfg) who (last amounts) (dex_world u) = (Inr (), w2)"
    and t: "liquidity_pool t = liquidity_pool u" "dex_world t = w2"
    by (auto simp: do_swap_with_exact_supply_def)
  obtain b where b: "amounts = [supply_amount, b]" "target_hop cfg s limit x y supply_amount b"
    using q hops_length[of "target_hop cfg s limit" "[x, y]" amounts]
    by (auto simp: get_target_amounts_hops length_Suc_conv)
  have safe: "valid_pair (trading_pair_new x y)" "b \<le> snd (get_liquidity s x y)"
    using target_hop_safe[OF env inv b(2)] by (simp_all add: safe_hop_def)
  have fits: "fst (get_liquidity s x y) + supply_amount \<le> u128_max" "snd (get_liquidity s x y) \<le> u128_max"
    by (rule supply_side_fits[OF env inv who safe(1) t_in]) (rule get_liquidity_fits[OF env inv safe(1)])
  have u: "u = swapped x y supply_amount b (s\<lparr>dex_world := w1\<rparr>)"
    using p by (simp add: b(1) dex_swap_valid[OF safe(1)])
  have "x \<noteq> y" using safe(1) by (auto simp: valid_pair_def trading_pair_new_def)
  then have "mc_free_balance (dex_currency cfg) y who w1 = mc_free_balance (dex_currency cfg) y who (dex_world s)"
    using credits t_in who unfolding transfer_credits_def by metis
  moreover have "mc_free_balance (dex_currency cfg) y who w1 + last amounts \<le> mc_free_balance (dex_currency cfg) y who w2"
  proof -
    have "dex_world u = w1" by (simp add: u swapped_def)
    then show ?thesis using credits t_out who unfolding transfer_credits_def by metis
  qed
  ultimately have paid: "mc_free_balance (dex_currency cfg) y who (dex_world s) + got \<le> mc_free_balance (dex_currency cfg) y who (dex_world t)"
    by (simp add: m t)
  from u have new: "get_liquidity t x y = (fst (get_liquidity s x y) + supply_amount, snd (get_liquidity s x y) - b)"
    using fits(1) by (auto simp: get_liquidity_pools t(1) swapped_def split: if_splits)
  have "fst (get_liquidity s x y) * snd (get_liquidity s x y) \<le>
      (fst (get_liquidity s x y) + supply_amount) * (snd (get_liquidity s x y) - b)"
    using b(2) fits dex_curve.quote_product by (simp add: target_hop_def)
  then show ?thesis using m b(1) paid by (simp add: new)
qed

theorem swap_keeps_pool_product_witness:
  "\<exists>got t. do_swap_with_exact_supply ledger_dex 2 [Token SETT, Token DNAR] 100 40 None demo_dex = (Inr got, t) \<and>
     40 \<le> got \<and> dex_world demo_dex (Token DNAR) (FreeOf 2) + got \<le> dex_world t (Token DNAR) (FreeOf 2) \<and> 2000 * 1000 \<le> fst (get_liquidity t (Token SETT) (Token DNAR)) * snd (get_liquidity t (Token SETT) (Token DNAR))"
proof -
  have quote: "get_target_amount (3, 1000) 2000 1000 100 = 47"
    by (simp add: get_target_amount_def sat_mul_def sat_add_def chk_div_def narrow_def u128_max_def u256_max_def)
  have "\<exists>t. do_swap_with_exact_supply ledger_dex 2 [Token SETT, Token DNAR] 100 40 None demo_dex = (Inr 47, t)"
    by (simp add: do_swap_with_exact_supply_def get_target_amounts_def ledger_dex_def demo_dex_def empty_dex_def
        get_liquidity_def quote impact_ok_def ledger_transfer_def ledger_move_def u128_max_def
        dex_swap_def case_prod_beta)
  then obtain t where t: "do_swap_with_exact_supply ledger_dex 2 [Token SETT, Token DNAR] 100 40 None demo_dex = (Inr 47, t)" ..
  have "get_liquidity demo_dex (Token SETT) (Token DNAR) = (2000, 1000)"
    by (simp add: get_liquidity_def demo_dex_def)
  moreover have "transfer_credits (dex_currency ledger_dex)" by (simp add: ledger_dex_def ledger_credits)
  moreover have "ledger_free (Token DNAR) 2 (dex_world demo_dex) = dex_world demo_dex (Token DNAR) (FreeOf 2)"
    by (simp add: ledger_free_def demo_dex_def empty_dex_def u128_max_def)
  ultimately show ?thesis
    using swap_keeps_pool_product[OF ledger_dex_env demo_dex_inv _ _ t] t by (auto simp: ledger_dex_def ledger_free_def)
qed

section \<open>The life cycle of a trading pair\<close>

text \<open>The transitions the status of one pair can make in one call.\<close>

inductive lifecycle :: "trading_pair_status \<Rightarrow> trading_pair_status \<Rightarrow> bool" where
  stay: "lifecycle st st"
| listed: "accumulated_provision pp = (0, 0) \<Longrightarrow> lifecycle NotEnabled (Provisioning pp)"
| contributed: "pp' = pp\<lparr>accumulated_provision := acc\<rparr> \<Longrightarrow>
    lifecycle (Provisioning pp) (Provisioning pp')"
| provisioned: "lifecycle (Provisioning pp) Enabled"
| enabled: "lifecycle NotEnabled Enabled"
| disabled: "lifecycle st NotEnabled"

inductive_simps lifecycle_from_enabled: "lifecycle Enabled st"
inductive_simps lifecycle_from_not_enabled: "lifecycle NotEnabled st"

lemma issue_initial_shares_status:
  "issue_initial_shares cfg lp acc xs n s = (r, t) \<Longrightarrow> trading_pair_statuses t = trading_pair_statuses s"
  by (induction cfg lp acc xs n arbitrary: s rule: issue_initial_shares.induct)
    (fastforce simp: eff_defs inD_def split: prod.splits sum.splits)+

lemma refund_provisions_status:
  "refund_provisions cfg p xs s = (Inr r, t) \<Longrightarrow> trading_pair_statuses t = trading_pair_statuses s"
  by (induction cfg p xs arbitrary: s rule: refund_provisions.induct) fastforce+

lemma convert_status:
  assumes "convert_to_enabled_if_possible cfg p s = (Inr r, t)"
  shows "trading_pair_statuses t = trading_pair_statuses s \<or>
    (\<exists>pp. trading_pair_statuses s p = Provisioning pp \<and>
      trading_pair_statuses t = (trading_pair_statuses s)(p := Enabled))"
  using assms by (cases "trading_pair_statuses s p")
    (auto simp: convert_to_enabled_if_possible_def case_prod_beta split: if_splits
      dest!: issue_initial_shares_status)

lemma do_add_provision_status:
  assumes "do_add_provision cfg who a b ca cb s = (Inr r, t)"
  shows "\<exists>pp acc. trading_pair_statuses s (trading_pair_new a b) = Provisioning pp \<and>
    trading_pair_statuses t = (trading_pair_statuses s)(trading_pair_new a b := Provisioning (pp\<lparr>accumulated_provision := acc\<rparr>))"
  using assms
proof (rule do_add_provision_run)
  fix pp c0 c1 w1 w2 u
  let ?p = "trading_pair_new a b"
  assume st: "trading_pair_statuses s ?p = Provisioning pp"
    and hook: "whenE (map_of (provisioning_pool s ?p) who = None)
       (thenE (resultE (inD (dex_inc_consumers cfg who))) (okE ()))
       (s\<lparr>dex_world := w2, provisioning_pool := (provisioning_pool s)(?p :=
          alist_put who (let pool = unwrap_or (map_of (provisioning_pool s ?p) who) (0, 0) in
             (sat_add u128_max (fst pool) c0, sat_add u128_max (snd pool) c1)) (provisioning_pool s ?p))\<rparr>) = (Inr (), u)"
    and t: "t = u\<lparr>trading_pair_statuses := (trading_pair_statuses u)(?p :=
         Provisioning (pp\<lparr>accumulated_provision :=
            (sat_add u128_max (fst (accumulated_provision pp)) c0,
             sat_add u128_max (snd (accumulated_provision pp)) c1)\<rparr>)),
       dex_events := dex_events u @ [AddProvision who (pair_0 ?p) c0 (pair_1 ?p) c1]\<rparr>"
  have "trading_pair_statuses u = trading_pair_statuses s"
    using hook by (auto simp: inD_def zoomE_def split: if_splits prod.splits)
  with st t show ?thesis by auto
qed

text \<open>The statuses after a successful call, by call.\<close>

lemma swap_status:
  "swap_with_exact_supply cfg org path a m s = (Inr r, t) \<Longrightarrow> trading_pair_statuses t = trading_pair_statuses s"
  "swap_with_exact_target cfg org path a m s = (Inr r, t) \<Longrightarrow> trading_pair_statuses t = trading_pair_statuses s"
  by (auto simp: swap_with_exact_supply_def swap_with_exact_target_def do_swap_with_exact_supply_def
      do_swap_with_exact_target_def dest!: dex_swap_by_path_frame)

lemma remove_status:
  "remove_liquidity cfg org a b rs ma mb byw s = (Inr r, t) \<Longrightarrow> trading_pair_statuses t = trading_pair_statuses s"
  by (auto simp: remove_liquidity_def do_remove_liquidity_def Let_def case_prod_beta split: if_splits)

lemma do_add_liquidity_status:
  "do_add_liquidity cfg who a b ma mb ms dep s = (Inr r, t) \<Longrightarrow> trading_pair_statuses t = trading_pair_statuses s"
  by (auto simp: do_add_liquidity_def Let_def case_prod_beta split: if_splits)

lemma add_status:
  assumes "add_liquidity cfg org a b ma mb ms dep s = (Inr r, t)"
  shows "trading_pair_statuses t = trading_pair_statuses s \<or>
    (\<exists>p pp st. trading_pair_statuses s p = Provisioning pp \<and> trading_pair_statuses t = (trading_pair_statuses s)(p := st) \<and>
      lifecycle (Provisioning pp) st)"
proof -
  obtain who p where p: "from_token_currency_ids a b = Some p" "org = Signed who"
    using assms by (auto simp: add_liquidity_def)
  show ?thesis
  proof (cases "trading_pair_statuses s p")
    case (Provisioning pp)
    then obtain r' u where u: "do_add_provision cfg who a b ma mb s = (Inr r', u)"
        "convert_to_enabled_if_possible cfg p u = (Inr r, t)"
      using assms p by (auto simp: add_liquidity_def)
    have "p = trading_pair_new a b" using p(1) by (rule from_token_currency_ids_Some)
    then obtain acc where su: "trading_pair_statuses u = (trading_pair_statuses s)(p := Provisioning (pp\<lparr>accumulated_provision := acc\<rparr>))"
      using do_add_provision_status[OF u(1)] Provisioning by auto
    have "\<exists>st. trading_pair_statuses t = (trading_pair_statuses s)(p := st) \<and> lifecycle (Provisioning pp) st"
      using convert_status[OF u(2)]
    proof
      assume "trading_pair_statuses t = trading_pair_statuses u"
      with su show ?thesis using contributed[OF refl] by metis
    next
      assume "\<exists>pp. trading_pair_statuses u p = Provisioning pp \<and>
        trading_pair_statuses t = (trading_pair_statuses u)(p := Enabled)"
      with su show ?thesis using provisioned by (metis fun_upd_upd)
    qed
    with Provisioning show ?thesis by metis
  qed (use assms p do_add_liquidity_status in \<open>auto simp: add_liquidity_def\<close>)
qed

lemma erc20_mapping_status:
  "erc20_mapping cfg c s = (Inr r, t) \<Longrightarrow> trading_pair_statuses t = trading_pair_statuses s"
  by (cases c) auto

lemma list_status:
  assumes "list_trading_pair cfg org a b ma mb ta tb nb s = (Inr r, t)"
  shows "dex_listing_origin cfg org \<and> (\<exists>p pp. trading_pair_statuses s p = NotEnabled \<and>
    accumulated_provision pp = (0, 0) \<and> trading_pair_statuses t = (trading_pair_statuses s)(p := Provisioning pp))"
proof -
  from assms obtain p u v where
      p: "trading_pair_statuses s p = NotEnabled" "dex_listing_origin cfg org"
    and m: "erc20_mapping cfg a s = (Inr (), u)" "erc20_mapping cfg b u = (Inr (), v)"
    and t: "t = v\<lparr>trading_pair_statuses := (trading_pair_statuses v)(p := Provisioning
        \<lparr>min_contribution = orient p a ma mb, target_provision = orient p a ta tb,
         accumulated_provision = (0, 0), not_before = nb\<rparr>), dex_events := dex_events v @ [ListTradingPair p]\<rparr>"
    by (auto simp: list_trading_pair_def case_prod_beta)
  have "trading_pair_statuses v = trading_pair_statuses s"
    using erc20_mapping_status[OF m(1)] erc20_mapping_status[OF m(2)] by simp
  then have "trading_pair_statuses t = (trading_pair_statuses s)(p := Provisioning
        \<lparr>min_contribution = orient p a ma mb, target_provision = orient p a ta tb,
         accumulated_provision = (0, 0), not_before = nb\<rparr>)"
    using t by simp
  with p show ?thesis by (metis provision_parameters.select_convs(3))
qed

lemma enable_status:
  assumes "enable_trading_pair cfg org a b s = (Inr r, t)"
  shows "dex_listing_origin cfg org \<and> (\<exists>p. trading_pair_statuses s p = NotEnabled \<and>
    trading_pair_statuses t = (trading_pair_statuses s)(p := Enabled))"
  using assms by (auto simp: enable_trading_pair_def)

lemma disable_status:
  assumes "disable_trading_pair cfg org a b s = (Inr r, t)"
  shows "dex_listing_origin cfg org \<and> (\<exists>p. trading_pair_statuses t = (trading_pair_statuses s)(p := NotEnabled))"
proof -
  obtain p where p: "from_token_currency_ids a b = Some p" "dex_listing_origin cfg org"
    using assms by (auto simp: disable_trading_pair_def)
  have "trading_pair_statuses t = (trading_pair_statuses s)(p := NotEnabled)"
    using assms by (cases "trading_pair_statuses s p")
      (auto simp: disable_trading_pair_def p dest!: refund_provisions_status)
  with p show ?thesis by blast
qed

lemma lifecycle_update:
  "st' = st(q := v) \<Longrightarrow> lifecycle (st q) v \<Longrightarrow> lifecycle (st p) (st' p)"
  by (cases "p = q") (simp_all add: lifecycle.stay)

lemma dex_exec_status:
  assumes "dex_exec cfg (org, c) s = (Inr r, t)"
  shows "trading_pair_statuses t = trading_pair_statuses s \<or>
    (\<exists>q v. trading_pair_statuses t = (trading_pair_statuses s)(q := v) \<and> lifecycle (trading_pair_statuses s q) v \<and>
      (dex_listing_origin cfg org \<or> (\<exists>pp. trading_pair_statuses s q = Provisioning pp)))"
proof (cases c)
  case (Call_add_liquidity a b ma mb ms dep)
  then have run: "add_liquidity cfg org a b ma mb ms dep s = (Inr r, t)" using assms by simp
  from add_status[OF run] show ?thesis
  proof (elim disjE exE conjE)
    fix p pp st
    assume "trading_pair_statuses s p = Provisioning pp" "trading_pair_statuses t = (trading_pair_statuses s)(p := st)"
      "lifecycle (Provisioning pp) st"
    then show ?thesis by (metis (no_types))
  qed simp
next
  case (Call_list_trading_pair a b ma mb ta tb nb)
  then have run: "list_trading_pair cfg org a b ma mb ta tb nb s = (Inr r, t)" using assms by simp
  from list_status[OF run] show ?thesis by (metis (no_types) lifecycle.listed)
next
  case (Call_enable_trading_pair a b)
  then have run: "enable_trading_pair cfg org a b s = (Inr r, t)" using assms by simp
  from enable_status[OF run] show ?thesis by (metis (no_types) lifecycle.enabled)
next
  case (Call_disable_trading_pair a b)
  then have run: "disable_trading_pair cfg org a b s = (Inr r, t)" using assms by simp
  from disable_status[OF run] show ?thesis by (metis (no_types) lifecycle.disabled)
qed (use assms swap_status remove_status in auto)

text \<open>
  C5. The status of a pair moves only along the life cycle: from not enabled to provisioning with
  nothing accumulated or directly to enabled, from provisioning to provisioning with another
  accumulated amount or to enabled, and from anywhere back to not enabled. A call whose origin is
  not the listing origin leaves a pair that is not being provisioned as it is.
\<close>

theorem trading_pair_lifecycle:
  assumes "t = snd (dex_exec cfg (org, c) s)"
  shows "lifecycle (trading_pair_statuses s p) (trading_pair_statuses t p) \<and>
    (dex_listing_origin cfg org \<or> (\<exists>pp. trading_pair_statuses s p = Provisioning pp) \<or>
     trading_pair_statuses t p = trading_pair_statuses s p)"
proof -
  obtain res where run: "dex_exec cfg (org, c) s = (res, t)" using assms by (metis prod.collapse)
  show ?thesis
  proof (cases res)
    case (Inl e)
    then have "t = s" using run dex_exec_transactional[of cfg "(org, c)"] transactional_fails by metis
    then show ?thesis by (simp add: lifecycle.stay)
  next
    case (Inr r)
    with run dex_exec_status[of cfg org c s r t] show ?thesis
      using lifecycle_update[of "trading_pair_statuses t" "trading_pair_statuses s"] lifecycle.stay
      by (metis (no_types) fun_upd_other)
  qed
qed

theorem trading_pair_lifecycle_witness:
  "lifecycle NotEnabled (trading_pair_statuses
     (snd (dex_exec ledger_dex (Root, Call_enable_trading_pair (Token SETT) (Token DNAR)) (empty_dex (\<lambda>c e. 0)))) demo_pair)"
  using trading_pair_lifecycle[OF refl, of "empty_dex (\<lambda>c e. 0)" demo_pair ledger_dex Root
      "Call_enable_trading_pair (Token SETT) (Token DNAR)"]
  by (simp add: empty_dex_def)

section \<open>Opening a provisioned pair\<close>

lemma issue_initial_shares_runs:
  "\<exists>issued u. issue_initial_shares cfg lp acc xs n s = (Inr issued, u) \<and>
     liquidity_pool u = liquidity_pool s \<and> get_exchange_fee u = get_exchange_fee s"
proof (induction xs arbitrary: n s)
  case (Cons x xs)
  obtain who con where x: "x = (who, con)" by (cases x)
  obtain res w1 where dep: "mc_deposit (dex_currency cfg) lp who (initial_share (dex_fixed cfg) acc con) (dex_world s) = (res, w1)"
    by (metis surj_pair)
  let ?u = "s\<lparr>dex_world := dex_dec_consumers cfg who w1\<rparr>"
  have "\<exists>m. issue_initial_shares cfg lp acc (x # xs) n s = issue_initial_shares cfg lp acc xs m ?u"
    by (auto simp: x dep eff_defs inD_def)
  with Cons.IH[of _ ?u] show ?case by fastforce
qed (simp add: okE_def)

text \<open>
  Opening a provisioned pair loses one side of its pool. When a listed pair with an empty pool
  reaches its target, it becomes enabled, but the pool of its second currency is still empty,
  because \<open>convert_to_enabled_if_possible\<close> subtracts the accumulated provision of that side
  where it adds that of the first; no quote through the pair succeeds.
\<close>

theorem provisioned_pair_has_no_liquidity:
  assumes pp: "trading_pair_statuses s p = Provisioning pp" "can_be_enabled (dex_block_number cfg (dex_world s)) pp"
    and p: "p = trading_pair_new a b" "get_dex_share_currency_id p = Some lp"
    and empty: "liquidity_pool s p = (0, 0)" and lim: "2 \<le> trading_path_limit cfg"
  shows "\<exists>t. convert_to_enabled_if_possible cfg p s = (Inr (), t) \<and>
    trading_pair_statuses t p = Enabled \<and> snd (liquidity_pool t p) = 0 \<and>
    get_target_amounts cfg t [a, b] supply limit = Inl (dexE InsufficientLiquidity)"
proof -
  let ?s = "s\<lparr>provisioning_pool := (provisioning_pool s)(p := [])\<rparr>"
  obtain issued u where u: "issue_initial_shares cfg lp (accumulated_provision pp) (provisioning_pool s p) 0 ?s = (Inr issued, u)"
      "liquidity_pool u = liquidity_pool s"
    using issue_initial_shares_runs[of cfg lp "accumulated_provision pp" "provisioning_pool s p" 0 ?s] by auto
  let ?t = "u\<lparr>liquidity_pool := (liquidity_pool u)(p := (sat_add u128_max 0 (fst (accumulated_provision pp)), 0)),
      trading_pair_statuses := (trading_pair_statuses u)(p := Enabled),
      dex_events := dex_events u @ [ProvisioningToEnabled p (fst (accumulated_provision pp)) (snd (accumulated_provision pp)) issued]\<rparr>"
  have "convert_to_enabled_if_possible cfg p s = (Inr (), ?t)"
    using pp p(2) by (simp add: convert_to_enabled_if_possible_def u empty case_prod_beta)
  moreover have "get_target_amounts cfg ?t [a, b] supply limit = Inl (dexE InsufficientLiquidity)"
    using lim by (auto simp: get_target_amounts_def get_liquidity_def p(1) Let_def)
  ultimately show ?thesis by (intro exI[of _ ?t]) simp
qed

theorem provisioned_pair_has_no_liquidity_witness:
  "\<exists>t. convert_to_enabled_if_possible ledger_dex demo_pair ((empty_dex (\<lambda>c e. 5000))\<lparr>trading_pair_statuses :=
      (\<lambda>p. Provisioning \<lparr>min_contribution = (1, 1), target_provision = (1000, 2000),
         accumulated_provision = (1000, 2000), not_before = 0\<rparr>)\<rparr>) = (Inr (), t) \<and>
    trading_pair_statuses t demo_pair = Enabled \<and> snd (liquidity_pool t demo_pair) = 0 \<and>
    get_target_amounts ledger_dex t [Token SETT, Token DNAR] 10 None = Inl (dexE InsufficientLiquidity)"
proof -
  have "\<exists>lp. get_dex_share_currency_id demo_pair = Some lp"
    by (rule from_token_currency_ids_has_share[of "Token DNAR" "Token SETT"]) simp
  then obtain lp where lp: "get_dex_share_currency_id demo_pair = Some lp" ..
  show ?thesis
    by (rule provisioned_pair_has_no_liquidity[OF _ _ _ lp])
      (simp add: can_be_enabled_def ledger_dex_def empty_dex_def)+
qed

end
