(* ===== verification/Settmint.thy ===== *)
theory Settmint
  imports Currency_Interface
begin

text \<open>
  The settmint manager, \<open>lib-serml/settmint/settmint-manager/src/lib.rs\<close>, which keeps the
  positions (a reserve and a standard amount per stablecoin and account) and their totals, and the
  settmint gateway, \<open>lib-serml/settmint/settmint-gateway/src/lib.rs\<close>, whose dispatchables are
  the only way to it and which keeps the authorizations. The engine between the two only passes
  \<open>adjust_position\<close> on; its validator is a parameter.
\<close>

section \<open>Storage and configuration\<close>

record position =
  reserve :: balance
  standard :: balance

definition default_position :: position where
  "default_position = \<lparr>reserve = 0, standard = 0\<rparr>"

datatype settmint_event =
    PositionUpdated account_id currency_id amount amount
  | TransferReserve account_id account_id currency_id
  | Authorized account_id account_id currency_id
  | UnAuthorized account_id account_id currency_id
  | UnAuthorizedAll account_id

text \<open>
  The trait \<open>Config\<close>. \<open>sm_issue_standard\<close> and \<open>sm_burn_standard\<close> are the operations of
  the treasury; the manager passes the account and the currency to \<open>burn_standard\<close> in the other
  order than the trait declares them, which their types decide here.
\<close>

record 'w settmint_config =
  sm_convert :: "currency_id \<times> balance \<Rightarrow> 'w \<Rightarrow> balance"
  sm_currency :: "'w multi_currency"
  sm_standard_currency_ids :: "currency_id list"
  sm_reserve_currency_id :: currency_id
  sm_check_position_valid :: "currency_id \<Rightarrow> balance \<Rightarrow> balance \<Rightarrow> 'w \<Rightarrow> dispatch_error + unit"
  sm_issue_standard :: "currency_id \<Rightarrow> account_id \<Rightarrow> balance \<Rightarrow> ('w, unit) eff"
  sm_burn_standard :: "currency_id \<Rightarrow> account_id \<Rightarrow> balance \<Rightarrow> ('w, unit) eff"
  sm_account :: account_id
  sm_on_update :: "account_id \<Rightarrow> currency_id \<Rightarrow> amount \<Rightarrow> balance \<Rightarrow> 'w \<Rightarrow> 'w"
  sm_inc_consumers :: "account_id \<Rightarrow> ('w, unit) eff"
  sm_dec_consumers :: "account_id \<Rightarrow> 'w \<Rightarrow> 'w"
  sm_lookup :: "nat \<Rightarrow> account_id option"

text \<open>
  The authorizations are a set of keys: the storage declares a \<open>Balance\<close> as value, the code writes
  \<open>true\<close> and reads it as a condition.
\<close>

record 'w settmint_state =
  positions :: "currency_id \<Rightarrow> account_id \<Rightarrow> position option"
  total_positions :: "currency_id \<Rightarrow> position"
  authorization :: "account_id \<Rightarrow> currency_id \<Rightarrow> account_id \<Rightarrow> bool"
  sm_world :: 'w
  sm_events :: "settmint_event list"

abbreviation smE :: "settmint_manager_error \<Rightarrow> dispatch_error" where
  "smE \<equiv> Settmint_Manager_Error"

definition inS :: "('w, 'a) eff \<Rightarrow> ('w settmint_state, 'a) eff" where
  "inS m = zoomE sm_world (\<lambda>w s. s\<lparr>sm_world := w\<rparr>) m"

definition settmint_deposit_event :: "settmint_event \<Rightarrow> ('w settmint_state, unit) eff" where
  "settmint_deposit_event ev = modE (\<lambda>s. s\<lparr>sm_events := sm_events s @ [ev]\<rparr>)"

definition position_of :: "'w settmint_state \<Rightarrow> currency_id \<Rightarrow> account_id \<Rightarrow> position" where
  "position_of s c who = unwrap_or (positions s c who) default_position"

section \<open>Conversions between amounts and balances\<close>

definition amount_try_from_balance :: "balance \<Rightarrow> dispatch_error + amount" where
  "amount_try_from_balance b =
     (case i128_of_u128 b of None \<Rightarrow> Inl (smE AmountConvertFailed) | Some a \<Rightarrow> Inr a)"

definition balance_try_from_amount_abs :: "amount \<Rightarrow> dispatch_error + balance" where
  "balance_try_from_amount_abs a =
     (case u128_of_i128 (i128_saturating_abs a) of
        None \<Rightarrow> Inl (smE AmountConvertFailed) | Some b \<Rightarrow> Inr b)"

definition from_result :: "dispatch_error + 'a \<Rightarrow> ('s, 'a) eff" where
  "from_result r = (\<lambda>s. (r, s))"

section \<open>Updating positions\<close>

text \<open>
  One amount after a signed adjustment with absolute value \<open>by\<close>: zero and negative adjustments
  subtract.
\<close>

definition adjusted :: "settmint_manager_error \<Rightarrow> settmint_manager_error \<Rightarrow> amount \<Rightarrow> balance \<Rightarrow> balance \<Rightarrow>
    dispatch_error + balance" where
  "adjusted overflow low adjustment by_balance old =
     (if adjustment > 0
      then (case chk_add u128_max old by_balance of None \<Rightarrow> Inl (smE overflow) | Some n \<Rightarrow> Inr n)
      else (case chk_sub old by_balance of None \<Rightarrow> Inl (smE low) | Some n \<Rightarrow> Inr n))"

text \<open>A position of zero is removed from the storage.\<close>

definition store_position ::
  "'w settmint_config \<Rightarrow> account_id \<Rightarrow> currency_id \<Rightarrow> balance \<Rightarrow> balance \<Rightarrow> ('w settmint_state, unit) eff" where
  "store_position cfg who c new_reserve new_standard =
     (if new_reserve = 0 \<and> new_standard = 0
      then thenE (inS (modE (sm_dec_consumers cfg who)))
        (modE (\<lambda>s. s\<lparr>positions := (positions s)(c := (positions s c)(who := None))\<rparr>))
      else modE (\<lambda>s. s\<lparr>positions := (positions s)(c := (positions s c)(who :=
             Some \<lparr>reserve = new_reserve, standard = new_standard\<rparr>))\<rparr>))"

text \<open>
  The closure of \<open>try_mutate_exists\<close>: \<open>take\<close> empties the entry, but an error discards the mutation.
\<close>

definition mutate_position ::
  "'w settmint_config \<Rightarrow> account_id \<Rightarrow> currency_id \<Rightarrow> amount \<Rightarrow> amount \<Rightarrow> balance \<Rightarrow> balance \<Rightarrow>
   ('w settmint_state, unit) eff" where
  "mutate_position cfg who c reserve_adjustment standard_adjustment reserve_balance standard_balance =
     bindE (getE (\<lambda>s. position_of s c who)) (\<lambda>p.
     bindE (from_result (adjusted ReserveOverflow ReserveTooLow reserve_adjustment reserve_balance (reserve p))) (\<lambda>new_reserve.
     bindE (from_result (adjusted StandardOverflow StandardTooLow standard_adjustment standard_balance (standard p))) (\<lambda>new_standard.
     thenE (whenE (reserve p = 0 \<and> standard p = 0)
              (thenE (resultE (inS (sm_inc_consumers cfg who))) (okE ()))) (
     thenE (inS (modE (sm_on_update cfg who c standard_adjustment (standard p)))) (
     store_position cfg who c new_reserve new_standard)))))"

definition mutate_total ::
  "currency_id \<Rightarrow> amount \<Rightarrow> amount \<Rightarrow> balance \<Rightarrow> balance \<Rightarrow> ('w settmint_state, unit) eff" where
  "mutate_total c reserve_adjustment standard_adjustment reserve_balance standard_balance =
     bindE (getE (\<lambda>s. total_positions s c)) (\<lambda>tot.
     bindE (from_result (adjusted StandardOverflow StandardTooLow standard_adjustment standard_balance (standard tot))) (\<lambda>new_standard.
     bindE (from_result (adjusted ReserveOverflow ReserveTooLow reserve_adjustment reserve_balance (reserve tot))) (\<lambda>new_reserve.
     modE (\<lambda>s. s\<lparr>total_positions := (total_positions s)(c :=
         \<lparr>reserve = new_reserve, standard = new_standard\<rparr>)\<rparr>))))"

definition update_reserve ::
  "'w settmint_config \<Rightarrow> account_id \<Rightarrow> currency_id \<Rightarrow> amount \<Rightarrow> amount \<Rightarrow> ('w settmint_state, unit) eff" where
  "update_reserve cfg who c reserve_adjustment standard_adjustment =
     bindE (from_result (balance_try_from_amount_abs reserve_adjustment)) (\<lambda>reserve_balance.
     bindE (from_result (balance_try_from_amount_abs standard_adjustment)) (\<lambda>standard_balance.
     thenE (mutate_position cfg who c reserve_adjustment standard_adjustment reserve_balance standard_balance)
       (mutate_total c reserve_adjustment standard_adjustment reserve_balance standard_balance)))"

section \<open>The operations of the manager\<close>

text \<open>The transfer of the reserve and the issue or burn of the standard, by the signs.\<close>

definition move_reserve :: "'w settmint_config \<Rightarrow> account_id \<Rightarrow> amount \<Rightarrow> balance \<Rightarrow> ('w settmint_state, unit) eff" where
  "move_reserve cfg who adjustment by_balance =
     bindE (getE (\<lambda>s. sm_convert cfg (sm_reserve_currency_id cfg, by_balance) (sm_world s))) (\<lambda>n.
     if adjustment > 0
     then inS (mc_transfer (sm_currency cfg) (sm_reserve_currency_id cfg) who (sm_account cfg) n)
     else if adjustment < 0
     then inS (mc_transfer (sm_currency cfg) (sm_reserve_currency_id cfg) (sm_account cfg) who n)
     else okE ())"

definition move_standard :: "'w settmint_config \<Rightarrow> account_id \<Rightarrow> currency_id \<Rightarrow> amount \<Rightarrow> balance \<Rightarrow> ('w settmint_state, unit) eff" where
  "move_standard cfg who c adjustment by_balance =
     bindE (getE (\<lambda>s. sm_convert cfg (c, by_balance) (sm_world s))) (\<lambda>n.
     if adjustment > 0 then inS (sm_issue_standard cfg c who n)
     else if adjustment < 0 then inS (sm_burn_standard cfg c who n)
     else okE ())"

definition check_valid :: "'w settmint_config \<Rightarrow> currency_id \<Rightarrow> balance \<Rightarrow> balance \<Rightarrow> ('w settmint_state, unit) eff" where
  "check_valid cfg c r st = bindE (getE (\<lambda>s. sm_check_position_valid cfg c r st (sm_world s))) from_result"

definition manager_adjust_position ::
  "'w settmint_config \<Rightarrow> account_id \<Rightarrow> currency_id \<Rightarrow> amount \<Rightarrow> amount \<Rightarrow> ('w settmint_state, unit) eff" where
  "manager_adjust_position cfg who c reserve_adjustment standard_adjustment = transactional (
     thenE (update_reserve cfg who c reserve_adjustment standard_adjustment) (
     bindE (from_result (balance_try_from_amount_abs reserve_adjustment)) (\<lambda>reserve_balance.
     bindE (from_result (balance_try_from_amount_abs standard_adjustment)) (\<lambda>standard_balance.
     thenE (ensure (c \<in> set (sm_standard_currency_ids cfg)) (smE InvalidStandardType)) (
     thenE (move_reserve cfg who reserve_adjustment reserve_balance) (
     thenE (move_standard cfg who c standard_adjustment standard_balance) (
     bindE (getE (\<lambda>s. position_of s c who)) (\<lambda>p.
     thenE (check_valid cfg c (reserve p) (standard p))
       (settmint_deposit_event (PositionUpdated who c reserve_adjustment standard_adjustment))))))))))"

text \<open>
  The two \<open>expect\<close> of the source panic when the sum of the two positions overflows; a panic is the
  error \<open>Other\<close>.
\<close>

definition transfer_reserve ::
  "'w settmint_config \<Rightarrow> account_id \<Rightarrow> account_id \<Rightarrow> currency_id \<Rightarrow> ('w settmint_state, unit) eff" where
  "transfer_reserve cfg from to c =
     bindE (getE (\<lambda>s. (position_of s c from, position_of s c to))) (\<lambda>(p, q).
     bindE (ok_or (chk_add u128_max (reserve q) (reserve p)) Other) (\<lambda>new_to_reserve.
     bindE (ok_or (chk_add u128_max (standard q) (standard p)) Other) (\<lambda>new_to_standard.
     thenE (check_valid cfg c new_to_reserve new_to_standard) (
     bindE (from_result (amount_try_from_balance (reserve p))) (\<lambda>reserve_adjustment.
     bindE (from_result (amount_try_from_balance (standard p))) (\<lambda>standard_adjustment.
     thenE (update_reserve cfg from c (i128_saturating_neg reserve_adjustment) (i128_saturating_neg standard_adjustment)) (
     thenE (update_reserve cfg to c reserve_adjustment standard_adjustment)
       (settmint_deposit_event (TransferReserve from to c)))))))))"

definition total_reserve :: "'w settmint_config \<Rightarrow> 'w settmint_state \<Rightarrow> balance" where
  "total_reserve cfg s =
     mc_free_balance (sm_currency cfg) (sm_reserve_currency_id cfg) (sm_account cfg) (sm_world s)"

section \<open>The dispatchables of the gateway\<close>

definition check_authorization :: "account_id \<Rightarrow> account_id \<Rightarrow> currency_id \<Rightarrow> ('w settmint_state, unit) eff" where
  "check_authorization from to c =
     bindE (getE (\<lambda>s. authorization s from c to)) (\<lambda>ok.
     ensure (from = to \<or> ok) (Settmint_Gateway_Error NoAuthorization))"

definition gateway_lookup :: "'w settmint_config \<Rightarrow> nat \<Rightarrow> ('s, account_id) eff" where
  "gateway_lookup cfg a = ok_or (sm_lookup cfg a) CannotLookup"

definition gateway_adjust_position ::
  "'w settmint_config \<Rightarrow> origin \<Rightarrow> currency_id \<Rightarrow> amount \<Rightarrow> amount \<Rightarrow> ('w settmint_state, unit) eff" where
  "gateway_adjust_position cfg org c reserve_adjustment standard_adjustment = transactional (
     bindE (ensure_signed org) (\<lambda>who.
     manager_adjust_position cfg who c reserve_adjustment standard_adjustment))"

definition transfer_position_from ::
  "'w settmint_config \<Rightarrow> origin \<Rightarrow> currency_id \<Rightarrow> nat \<Rightarrow> ('w settmint_state, unit) eff" where
  "transfer_position_from cfg org c src = transactional (
     bindE (ensure_signed org) (\<lambda>to.
     bindE (gateway_lookup cfg src) (\<lambda>from.
     thenE (check_authorization from to c)
       (transfer_reserve cfg from to c))))"

definition authorize :: "'w settmint_config \<Rightarrow> origin \<Rightarrow> currency_id \<Rightarrow> nat \<Rightarrow> ('w settmint_state, unit) eff" where
  "authorize cfg org c dest = transactional (
     bindE (ensure_signed org) (\<lambda>from.
     bindE (gateway_lookup cfg dest) (\<lambda>to.
     thenE (modE (\<lambda>s. s\<lparr>authorization := (authorization s)(from :=
              (authorization s from)(c := (authorization s from c)(to := True)))\<rparr>))
       (settmint_deposit_event (Authorized from to c)))))"

definition unauthorize :: "'w settmint_config \<Rightarrow> origin \<Rightarrow> currency_id \<Rightarrow> nat \<Rightarrow> ('w settmint_state, unit) eff" where
  "unauthorize cfg org c dest = transactional (
     bindE (ensure_signed org) (\<lambda>from.
     bindE (gateway_lookup cfg dest) (\<lambda>to.
     thenE (modE (\<lambda>s. s\<lparr>authorization := (authorization s)(from :=
              (authorization s from)(c := (authorization s from c)(to := False)))\<rparr>))
       (settmint_deposit_event (UnAuthorized from to c)))))"

definition unauthorize_all :: "'w settmint_config \<Rightarrow> origin \<Rightarrow> ('w settmint_state, unit) eff" where
  "unauthorize_all cfg org = transactional (
     bindE (ensure_signed org) (\<lambda>from.
     thenE (modE (\<lambda>s. s\<lparr>authorization := (authorization s)(from := (\<lambda>c to. False))\<rparr>))
       (settmint_deposit_event (UnAuthorizedAll from))))"

end
