(* ===== verification/Settmint_Properties.thy ===== *)
theory Settmint_Properties
  imports Settmint Ledger
begin

text \<open>
  Properties of the settmint pallets: the totals are the sums of the positions after every run of
  the gateway, a transfer moves exactly one whole position, an adjustment is undone by its
  opposite, and only authorized accounts take over positions.
\<close>

section \<open>Successful runs\<close>

lemma inS_run [simp, runs]:
  "inS m s = (Inr x, t) \<longleftrightarrow> (\<exists>w. m (sm_world s) = (Inr x, w) \<and> t = s\<lparr>sm_world := w\<rparr>)"
  by (simp add: inS_def zoomE_run)

lemma from_result_run [simp, runs]: "from_result r s = (Inr x, t) \<longleftrightarrow> r = Inr x \<and> t = s"
  by (auto simp: from_result_def)

lemma settmint_event_run [simp, runs]:
  "settmint_deposit_event ev s = (Inr x, t) \<longleftrightarrow> t = s\<lparr>sm_events := sm_events s @ [ev]\<rparr>"
  by (simp add: settmint_deposit_event_def)

lemma gateway_lookup_run [simp, runs]:
  "gateway_lookup cfg a s = (Inr x, t) \<longleftrightarrow> sm_lookup cfg a = Some x \<and> t = s"
  by (simp add: gateway_lookup_def)

text \<open>
  A signed amount as the balances see it: the least 128-bit integer has no absolute value in the
  type and counts as its neighbour.
\<close>

definition clip :: "amount \<Rightarrow> int" where
  "clip a = (if a < - i128_max then - i128_max else a)"

lemma i128_max_pos: "0 < i128_max"
  by (simp add: i128_max_def)

lemma balance_try_from_amount_abs_run:
  assumes "a \<le> i128_max" "balance_try_from_amount_abs a = Inr b"
  shows "int b = \<bar>clip a\<bar>"
  using assms i128_max_pos
  by (auto simp: balance_try_from_amount_abs_def u128_of_i128_def i128_saturating_abs_def clip_def
      split: if_splits option.splits)

lemma adjusted_run:
  assumes "a \<le> i128_max" "balance_try_from_amount_abs a = Inr b"
  shows "adjusted e1 e2 a b old = Inr new \<longleftrightarrow> int new = int old + clip a \<and> (a > 0 \<longrightarrow> new \<le> u128_max)"
  using balance_try_from_amount_abs_run[OF assms] i128_max_pos
  by (auto simp: adjusted_def clip_def chk_add_def chk_sub_def split: option.splits if_splits)

section \<open>One update of a position\<close>

text \<open>The stored entry for a position: nothing is stored for a position of zero.\<close>

definition entry_of :: "position \<Rightarrow> position option" where
  "entry_of p = (if reserve p = 0 \<and> standard p = 0 then None else Some p)"

definition shifted :: "amount \<Rightarrow> amount \<Rightarrow> position \<Rightarrow> position \<Rightarrow> bool" where
  "shifted ra sa p q \<longleftrightarrow> int (reserve q) = int (reserve p) + clip ra \<and> int (standard q) = int (standard p) + clip sa"

lemma shifted_unique: "shifted ra sa p q \<Longrightarrow> shifted ra sa p q' \<Longrightarrow> q = q'"
  by (simp add: shifted_def)

lemma update_reserve_run:
  assumes amounts: "ra \<le> i128_max" "sa \<le> i128_max"
    and run: "update_reserve cfg who c ra sa s = (Inr r, t)"
  obtains p' tot' where
    "shifted ra sa (position_of s c who) p'" "shifted ra sa (total_positions s c) tot'"
    "positions t = (positions s)(c := (positions s c)(who := entry_of p'))"
    "total_positions t = (total_positions s)(c := tot')"
    "authorization t = authorization s" "sm_events t = sm_events s"
proof -
  let ?p = "position_of s c who"
  from run obtain rb sb nr ns u v tr ts where
      b: "balance_try_from_amount_abs ra = Inr rb" "balance_try_from_amount_abs sa = Inr sb"
    and n: "adjusted ReserveOverflow ReserveTooLow ra rb (reserve ?p) = Inr nr"
      "adjusted StandardOverflow StandardTooLow sa sb (standard ?p) = Inr ns"
    and hook: "whenE (reserve ?p = 0 \<and> standard ?p = 0)
        (thenE (resultE (inS (sm_inc_consumers cfg who))) (okE ())) s = (Inr (), u)"
    and st: "store_position cfg who c nr ns
        (u\<lparr>sm_world := sm_on_update cfg who c sa (standard ?p) (sm_world u)\<rparr>) = (Inr (), v)"
    and tot: "adjusted StandardOverflow StandardTooLow sa sb (standard (total_positions v c)) = Inr ts"
      "adjusted ReserveOverflow ReserveTooLow ra rb (reserve (total_positions v c)) = Inr tr"
    and t: "t = v\<lparr>total_positions := (total_positions v)(c := \<lparr>reserve = tr, standard = ts\<rparr>)\<rparr>"
    by (auto simp: update_reserve_def mutate_position_def mutate_total_def simp del: whenE_run)
  have u: "positions u = positions s" "total_positions u = total_positions s"
      "authorization u = authorization s" "sm_events u = sm_events s"
    using hook by (auto simp: inS_def zoomE_def split: if_splits prod.splits)
  have v: "positions v = (positions s)(c := (positions s c)(who := entry_of \<lparr>reserve = nr, standard = ns\<rparr>))"
      "total_positions v = total_positions s" "authorization v = authorization s" "sm_events v = sm_events s"
    using st by (auto simp: store_position_def entry_of_def u split: if_splits)
  show thesis
  proof (rule that[of "\<lparr>reserve = nr, standard = ns\<rparr>" "\<lparr>reserve = tr, standard = ts\<rparr>"])
    show "shifted ra sa ?p \<lparr>reserve = nr, standard = ns\<rparr>"
      using n by (simp add: shifted_def adjusted_run[OF amounts(1) b(1)] adjusted_run[OF amounts(2) b(2)])
    show "shifted ra sa (total_positions s c) \<lparr>reserve = tr, standard = ts\<rparr>"
      using tot by (simp add: shifted_def adjusted_run[OF amounts(1) b(1)] adjusted_run[OF amounts(2) b(2)] v)
  qed (simp_all add: t v)
qed

section \<open>The totals\<close>

definition sum_positions :: "(account_id \<Rightarrow> position option) \<Rightarrow> (position \<Rightarrow> nat) \<Rightarrow> nat" where
  "sum_positions m f = (\<Sum>a\<in>dom m. f (the (m a)))"

definition settmint_inv :: "'w settmint_state \<Rightarrow> bool" where
  "settmint_inv s \<longleftrightarrow> (\<forall>c. finite (dom (positions s c)) \<and>
     reserve (total_positions s c) = sum_positions (positions s c) reserve \<and>
     standard (total_positions s c) = sum_positions (positions s c) standard)"

lemma sum_positions_upd:
  assumes "finite (dom m)" "f default_position = 0"
    and "\<And>q. entry_of q = None \<Longrightarrow> f q = 0"
  shows "sum_positions (m(a := entry_of q)) f + f (unwrap_or (m a) default_position) = sum_positions m f + f q"
proof -
  let ?R = "\<Sum>b\<in>dom m - {a}. f (the (m b))"
  have old: "sum_positions m f = ?R + f (unwrap_or (m a) default_position)"
  proof (cases "m a")
    case None
    then have "dom m - {a} = dom m" by auto
    with None show ?thesis by (simp add: sum_positions_def assms(2))
  next
    case (Some p)
    then have "a \<in> dom m" by auto
    with Some show ?thesis
      by (simp add: sum_positions_def sum.remove[OF assms(1) \<open>a \<in> dom m\<close>])
  qed
  have "sum_positions (m(a := entry_of q)) f = ?R + f q"
  proof (cases "entry_of q")
    case None
    then show ?thesis using assms(3)[OF None] by (auto simp: sum_positions_def intro!: sum.cong)
  next
    case (Some p)
    then have "p = q" by (simp add: entry_of_def split: if_splits)
    show ?thesis
      unfolding Some \<open>p = q\<close> sum_positions_def using assms(1)
      by (auto simp: sum.insert_remove intro!: sum.cong)
  qed
  with old show ?thesis by simp
qed

lemma entry_of_zero: "entry_of q = None \<Longrightarrow> reserve q = 0" "entry_of q = None \<Longrightarrow> standard q = 0"
  by (auto simp: entry_of_def split: if_splits)

lemma default_position_sel [simp]: "reserve default_position = 0" "standard default_position = 0"
  by (simp_all add: default_position_def)

lemma update_reserve_inv:
  assumes "ra \<le> i128_max" "sa \<le> i128_max" and inv: "settmint_inv s"
    and run: "update_reserve cfg who c ra sa s = (Inr r, t)"
  shows "settmint_inv t"
proof -
  from update_reserve_run[OF assms(1,2) run] obtain p' tot' where
      sh: "shifted ra sa (position_of s c who) p'" "shifted ra sa (total_positions s c) tot'"
    and t: "positions t = (positions s)(c := (positions s c)(who := entry_of p'))"
      "total_positions t = (total_positions s)(c := tot')" .
  have fin: "finite (dom (positions s c))" using inv by (simp add: settmint_inv_def)
  have "reserve tot' = sum_positions (positions t c) reserve"
    using sum_positions_upd[OF fin, of reserve who p'] sh inv entry_of_zero
    by (simp add: t shifted_def settmint_inv_def position_of_def)
  moreover have "standard tot' = sum_positions (positions t c) standard"
    using sum_positions_upd[OF fin, of standard who p'] sh inv entry_of_zero
    by (simp add: t shifted_def settmint_inv_def position_of_def)
  moreover have "finite (dom (positions t c))"
    using fin by (simp add: t)
  ultimately show ?thesis using inv by (simp add: settmint_inv_def t)
qed

section \<open>The operations\<close>

lemma amount_bounds:
  "amount_try_from_balance b = Inr a \<longleftrightarrow> a = int b \<and> int b \<le> i128_max"
  by (auto simp: amount_try_from_balance_def i128_of_u128_def)

lemma clip_pos: "0 \<le> a \<Longrightarrow> clip a = a"
  using i128_max_pos by (simp add: clip_def)

lemma neg_bounds:
  assumes "0 \<le> a" "a \<le> i128_max"
  shows "i128_saturating_neg a = - a" "i128_saturating_neg a \<le> i128_max" "clip (i128_saturating_neg a) = - a"
  using assms i128_max_pos by (auto simp: i128_saturating_neg_def clip_def)

lemma move_reserve_frame:
  "move_reserve cfg who adj n s = (Inr r, t) \<Longrightarrow> positions t = positions s \<and>
    total_positions t = total_positions s \<and> authorization t = authorization s \<and> sm_events t = sm_events s"
  by (auto simp: move_reserve_def split: if_splits)

lemma move_standard_frame:
  "move_standard cfg who c adj n s = (Inr r, t) \<Longrightarrow> positions t = positions s \<and>
    total_positions t = total_positions s \<and> authorization t = authorization s \<and> sm_events t = sm_events s"
  by (auto simp: move_standard_def split: if_splits)

lemma check_valid_run [simp, runs]:
  "check_valid cfg c a b s = (Inr r, t) \<longleftrightarrow> sm_check_position_valid cfg c a b (sm_world s) = Inr r \<and> t = s"
  by (auto simp: check_valid_def)

text \<open>What an adjustment leaves behind is what the update of the position leaves.\<close>

lemma manager_adjust_position_run:
  assumes "manager_adjust_position cfg who c ra sa s = (Inr r, t)"
  obtains u where "update_reserve cfg who c ra sa s = (Inr (), u)" "positions t = positions u"
    "total_positions t = total_positions u" "authorization t = authorization u"
    "c \<in> set (sm_standard_currency_ids cfg)"
proof -
  from assms obtain u v w rb sb where
      u: "update_reserve cfg who c ra sa s = (Inr (), u)" "c \<in> set (sm_standard_currency_ids cfg)"
    and v: "move_reserve cfg who ra rb u = (Inr (), v)" "move_standard cfg who c sa sb v = (Inr (), w)"
    and t: "t = w\<lparr>sm_events := sm_events w @ [PositionUpdated who c ra sa]\<rparr>"
    by (auto simp: manager_adjust_position_def)
  show thesis
    using move_reserve_frame[OF v(1)] move_standard_frame[OF v(2)] by (intro that[OF u(1) _ _ _ u(2)]) (simp_all add: t)
qed

lemma transfer_reserve_run:
  assumes "transfer_reserve cfg from to c s = (Inr r, t)"
  obtains u v where
    "int (reserve (position_of s c from)) \<le> i128_max" "int (standard (position_of s c from)) \<le> i128_max"
    "update_reserve cfg from c (- int (reserve (position_of s c from))) (- int (standard (position_of s c from))) s = (Inr (), u)"
    "update_reserve cfg to c (int (reserve (position_of s c from))) (int (standard (position_of s c from))) u = (Inr (), v)"
    "t = v\<lparr>sm_events := sm_events v @ [TransferReserve from to c]\<rparr>"
proof -
  let ?p = "position_of s c from"
  from assms obtain ra sa u v where
      a: "amount_try_from_balance (reserve ?p) = Inr ra" "amount_try_from_balance (standard ?p) = Inr sa"
    and u: "update_reserve cfg from c (i128_saturating_neg ra) (i128_saturating_neg sa) s = (Inr (), u)"
      "update_reserve cfg to c ra sa u = (Inr (), v)"
    and t: "t = v\<lparr>sm_events := sm_events v @ [TransferReserve from to c]\<rparr>"
    by (auto simp: transfer_reserve_def case_prod_beta)
  have ra: "ra = int (reserve ?p)" "int (reserve ?p) \<le> i128_max"
    and sa: "sa = int (standard ?p)" "int (standard ?p) \<le> i128_max"
    using a by (simp_all add: amount_bounds)
  show thesis
    using u t ra sa neg_bounds(1)[of ra] neg_bounds(1)[of sa] by (intro that[of u v]) simp_all
qed

lemma transfer_reserve_inv:
  assumes "settmint_inv s" "transfer_reserve cfg from to c s = (Inr r, t)"
  shows "settmint_inv t"
proof -
  from transfer_reserve_run[OF assms(2)] obtain u v where
      le: "int (reserve (position_of s c from)) \<le> i128_max" "int (standard (position_of s c from)) \<le> i128_max"
    and u: "update_reserve cfg from c (- int (reserve (position_of s c from))) (- int (standard (position_of s c from))) s = (Inr (), u)"
    and v: "update_reserve cfg to c (int (reserve (position_of s c from))) (int (standard (position_of s c from))) u = (Inr (), v)"
    and t: "t = v\<lparr>sm_events := sm_events v @ [TransferReserve from to c]\<rparr>" .
  have "settmint_inv u"
    using i128_max_pos by (intro update_reserve_inv[OF _ _ assms(1) u]) linarith+
  then have "settmint_inv v" by (intro update_reserve_inv[OF le _ v])
  then show ?thesis by (simp add: settmint_inv_def t)
qed

section \<open>The gateway as a machine\<close>

datatype gateway_call =
    Call_adjust_position currency_id amount amount
  | Call_transfer_position_from currency_id nat
  | Call_authorize currency_id nat
  | Call_unauthorize currency_id nat
  | Call_unauthorize_all

fun gateway_exec :: "'w settmint_config \<Rightarrow> origin \<times> gateway_call \<Rightarrow> ('w settmint_state, unit) eff" where
  "gateway_exec cfg (org, Call_adjust_position c ra sa) = gateway_adjust_position cfg org c ra sa"
| "gateway_exec cfg (org, Call_transfer_position_from c a) = transfer_position_from cfg org c a"
| "gateway_exec cfg (org, Call_authorize c a) = authorize cfg org c a"
| "gateway_exec cfg (org, Call_unauthorize c a) = unauthorize cfg org c a"
| "gateway_exec cfg (org, Call_unauthorize_all) = unauthorize_all cfg org"

text \<open>The amounts of a call are 128-bit integers.\<close>

fun gateway_typed :: "origin \<times> gateway_call \<Rightarrow> bool" where
  "gateway_typed (org, Call_adjust_position c ra sa) \<longleftrightarrow> ra \<le> i128_max \<and> sa \<le> i128_max"
| "gateway_typed _ \<longleftrightarrow> True"

lemma gateway_exec_transactional: "\<exists>k. gateway_exec cfg c = transactional k"
  by (cases "(cfg, c)" rule: gateway_exec.cases)
    (auto simp: gateway_adjust_position_def transfer_position_from_def authorize_def unauthorize_def unauthorize_all_def)

lemma gateway_exec_inv:
  assumes "gateway_typed c" "settmint_inv s" "gateway_exec cfg c s = (Inr r, t)"
  shows "settmint_inv t"
proof (cases "(cfg, c)" rule: gateway_exec.cases)
  case (1 cfg' org cc ra sa)
  then obtain who where "manager_adjust_position cfg who cc ra sa s = (Inr (), t)"
    using assms(3) by (auto simp: gateway_adjust_position_def)
  then show ?thesis
  proof (rule manager_adjust_position_run)
    fix u
    assume u: "update_reserve cfg who cc ra sa s = (Inr (), u)" "positions t = positions u"
      "total_positions t = total_positions u"
    have "settmint_inv u"
      using assms(1,2) 1 by (intro update_reserve_inv[OF _ _ _ u(1)]) simp_all
    with u show ?thesis by (simp add: settmint_inv_def)
  qed
next
  case (2 cfg' org cc a)
  then show ?thesis
    using assms(2,3) transfer_reserve_inv by (auto simp: transfer_position_from_def check_authorization_def)
qed (use assms in \<open>auto simp: authorize_def unauthorize_def unauthorize_all_def settmint_inv_def\<close>)

interpretation gateway_machine: pallet_machine "gateway_exec cfg" gateway_typed settmint_inv for cfg
proof unfold_locales
  fix c :: "origin \<times> gateway_call"
  assume c: "gateway_typed c"
  obtain k where k: "gateway_exec cfg c = transactional k" using gateway_exec_transactional by blast
  show "preserves settmint_inv (gateway_exec cfg c)"
    unfolding k using gateway_exec_inv[OF c, of _ cfg] by (intro keeps_transactional_ok) (simp add: k)
qed

text \<open>Authorizations change by their owner's calls only.\<close>

lemma keeps_authorization [keeps]:
  "preserves (\<lambda>s. authorization s = A) (inS m)"
  "preserves (\<lambda>s. authorization s = A) (from_result r)"
  "preserves (\<lambda>s. authorization s = A) (modE (\<lambda>s. s\<lparr>positions := f s\<rparr>))"
  "preserves (\<lambda>s. authorization s = A) (modE (\<lambda>s. s\<lparr>total_positions := g s\<rparr>))"
  by (auto simp: preserves_def inS_def zoomE_def from_result_def modE_def split: prod.splits)

lemma update_reserve_authorization:
  assumes "update_reserve cfg who c ra sa s = (Inr r, t)"
  shows "authorization t = authorization s"
proof -
  have "preserves (\<lambda>u. authorization u = authorization s) (update_reserve cfg who c ra sa)"
    unfolding update_reserve_def mutate_position_def mutate_total_def store_position_def
    by (intro keeps)
  from preservesD[OF this _ assms] show ?thesis by simp
qed

lemma gateway_authorization:
  assumes "gateway_exec cfg (org, call) s = (Inr r, t)" "authorization t owner \<noteq> authorization s owner"
  shows "org = Signed owner"
proof (cases call)
  case (Call_adjust_position c ra sa)
  then obtain who where "manager_adjust_position cfg who c ra sa s = (Inr (), t)"
    using assms(1) by (auto simp: gateway_adjust_position_def)
  then show ?thesis
  proof (rule manager_adjust_position_run)
    fix u
    assume "update_reserve cfg who c ra sa s = (Inr (), u)" "authorization t = authorization u"
    then show ?thesis using assms(2) update_reserve_authorization by metis
  qed
next
  case (Call_transfer_position_from c a)
  then obtain src dst where run: "transfer_reserve cfg src dst c s = (Inr (), t)"
    using assms(1) by (auto simp: transfer_position_from_def check_authorization_def)
  show ?thesis
  proof (rule transfer_reserve_run[OF run])
    fix u v
    assume "update_reserve cfg src c (- int (reserve (position_of s c src))) (- int (standard (position_of s c src))) s = (Inr (), u)"
      "update_reserve cfg dst c (int (reserve (position_of s c src))) (int (standard (position_of s c src))) u = (Inr (), v)"
      "t = v\<lparr>sm_events := sm_events v @ [TransferReserve src dst c]\<rparr>"
    then show ?thesis using assms(2) by (auto dest!: update_reserve_authorization)
  qed
qed (use assms in \<open>auto simp: authorize_def unauthorize_def unauthorize_all_def split: if_splits\<close>)

section \<open>Properties\<close>

text \<open>A configuration on the reference ledger: account 88 keeps the reserves, USDJ is a standard.\<close>

definition ledger_settmint :: "ledger settmint_config" where
  "ledger_settmint = \<lparr>sm_convert = (\<lambda>(c, n) w. n), sm_currency = ledger_multi,
     sm_standard_currency_ids = [Token USDJ, Token EURJ], sm_reserve_currency_id = Token SETT,
     sm_check_position_valid = (\<lambda>c r n w. Inr ()), sm_issue_standard = ledger_deposit,
     sm_burn_standard = ledger_withdraw, sm_account = 88, sm_on_update = (\<lambda>a c n b w. w),
     sm_inc_consumers = (\<lambda>a. okE ()), sm_dec_consumers = (\<lambda>a w. w), sm_lookup = Some\<rparr>"

definition empty_settmint :: "'w \<Rightarrow> 'w settmint_state" where
  "empty_settmint w = \<lparr>positions = (\<lambda>c a. None), total_positions = (\<lambda>c. default_position),
     authorization = (\<lambda>a c b. False), sm_world = w, sm_events = []\<rparr>"

lemma empty_settmint_inv: "settmint_inv (empty_settmint w)"
  by (simp add: settmint_inv_def empty_settmint_def sum_positions_def)

text \<open>
  C6. The recorded totals are right after every run of the gateway: for every stablecoin finitely
  many accounts have a position, and the total reserve and the total standard are the sums of the
  reserves and of the standards of these positions, whatever calls were executed, succeeded or
  failed.
\<close>

theorem settmint_totals_are_sums:
  assumes "list_all gateway_typed calls" "settmint_inv s"
  shows "settmint_inv (run_calls (gateway_exec cfg) calls s)"
  by (rule gateway_machine.run_calls_inv[OF assms])

theorem settmint_totals_are_sums_witness:
  "settmint_inv (run_calls (gateway_exec ledger_settmint)
     [(Signed 1, Call_adjust_position (Token USDJ) 500 200), (Signed 1, Call_authorize (Token USDJ) 2),
      (Signed 2, Call_transfer_position_from (Token USDJ) 1), (Signed 2, Call_adjust_position (Token USDJ) (- 900) 0)]
     (empty_settmint (\<lambda>c e. 5000)))"
  by (rule settmint_totals_are_sums[OF _ empty_settmint_inv]) (simp add: i128_max_def)

text \<open>
  A transfer moves exactly one whole position: when \<open>transfer_reserve\<close> between two accounts
  succeeds, the source has nothing left and no entry in the storage, the destination has the sum of
  both positions, no other account's position and no total changes.
\<close>

theorem transfer_reserve_moves_position:
  assumes run: "transfer_reserve cfg from to c s = (Inr r, t)" and ne: "from \<noteq> to"
  shows "positions t c from = None \<and>
    reserve (position_of t c to) = reserve (position_of s c to) + reserve (position_of s c from) \<and>
    standard (position_of t c to) = standard (position_of s c to) + standard (position_of s c from) \<and>
    (\<forall>d a. d \<noteq> c \<or> a \<notin> {from, to} \<longrightarrow> positions t d a = positions s d a) \<and>
    total_positions t = total_positions s"
proof -
  let ?r = "int (reserve (position_of s c from))" and ?n = "int (standard (position_of s c from))"
  from transfer_reserve_run[OF run] obtain u v where
      le: "?r \<le> i128_max" "?n \<le> i128_max"
    and u: "update_reserve cfg from c (- ?r) (- ?n) s = (Inr (), u)"
    and v: "update_reserve cfg to c ?r ?n u = (Inr (), v)"
    and t: "t = v\<lparr>sm_events := sm_events v @ [TransferReserve from to c]\<rparr>" .
  have neg: "- ?r \<le> i128_max" "- ?n \<le> i128_max" using i128_max_pos by linarith+
  have clips: "clip (- ?r) = - ?r" "clip (- ?n) = - ?n" "clip ?r = ?r" "clip ?n = ?n"
    using le i128_max_pos by (simp_all add: clip_def)
  from update_reserve_run[OF neg u] obtain p1 t1 where
      p1: "shifted (- ?r) (- ?n) (position_of s c from) p1" "shifted (- ?r) (- ?n) (total_positions s c) t1"
    and pu: "positions u = (positions s)(c := (positions s c)(from := entry_of p1))"
      "total_positions u = (total_positions s)(c := t1)" .
  from update_reserve_run[OF le v] obtain p2 t2 where
      p2: "shifted ?r ?n (position_of u c to) p2" "shifted ?r ?n (total_positions u c) t2"
    and pv: "positions v = (positions u)(c := (positions u c)(to := entry_of p2))"
      "total_positions v = (total_positions u)(c := t2)" .
  have "entry_of p1 = None" using p1(1) by (simp add: shifted_def clips entry_of_def)
  moreover have "position_of u c to = position_of s c to" using ne by (simp add: position_of_def pu)
  moreover have "unwrap_or (entry_of p2) default_position = p2"
    by (cases p2) (auto simp: entry_of_def default_position_def)
  moreover have "t2 = total_positions s c"
    using p1(2) p2(2) by (simp add: pu shifted_def clips)
  moreover have "int (reserve p2) = int (reserve (position_of u c to)) + ?r"
      "int (standard p2) = int (standard (position_of u c to)) + ?n"
    using p2(1) unfolding shifted_def clips by simp_all
  then have "reserve p2 = reserve (position_of u c to) + reserve (position_of s c from)"
      "standard p2 = standard (position_of u c to) + standard (position_of s c from)"
    by linarith+
  ultimately show ?thesis
    using ne by (auto simp: t pv pu position_of_def fun_eq_iff)
qed

text \<open>One account with a position of 500 and 200.\<close>

definition demo_settmint :: "ledger settmint_state" where
  "demo_settmint = (empty_settmint (\<lambda>c e. 5000))\<lparr>
     positions := (\<lambda>c a. if c = Token USDJ \<and> a = 1 then Some \<lparr>reserve = 500, standard = 200\<rparr> else None),
     total_positions := (\<lambda>c. if c = Token USDJ then \<lparr>reserve = 500, standard = 200\<rparr> else default_position)\<rparr>"

lemma inS_okE [simp]: "inS (okE x) s = (Inr x, s)"
  by (simp add: inS_def zoomE_def okE_def)

lemmas settmint_eval = update_reserve_def mutate_position_def mutate_total_def store_position_def
  adjusted_def chk_add_def chk_sub_def balance_try_from_amount_abs_def amount_try_from_balance_def
  u128_of_i128_def i128_of_u128_def i128_saturating_abs_def i128_saturating_neg_def
  i128_max_def u128_max_def position_of_def check_valid_def

theorem transfer_reserve_moves_position_witness:
  "\<exists>t. transfer_reserve ledger_settmint 1 2 (Token USDJ) demo_settmint = (Inr (), t) \<and>
     positions t (Token USDJ) 1 = None \<and> reserve (position_of t (Token USDJ) 2) = 500 \<and>
     total_positions t = total_positions demo_settmint"
proof -
  have "\<exists>t. transfer_reserve ledger_settmint 1 2 (Token USDJ) demo_settmint = (Inr (), t)"
    by (simp add: transfer_reserve_def settmint_eval ledger_settmint_def demo_settmint_def empty_settmint_def default_position_def)
  then obtain t where t: "transfer_reserve ledger_settmint 1 2 (Token USDJ) demo_settmint = (Inr (), t)" ..
  show ?thesis
    using transfer_reserve_moves_position[OF t] t
    by (auto simp: position_of_def demo_settmint_def empty_settmint_def)
qed

text \<open>
  An adjustment is undone by its opposite: when an account adjusts a position and then adjusts
  it by the negated amounts, and both calls succeed, every position and every total is as before,
  provided that no empty position was stored.
\<close>

theorem adjust_position_undone:
  assumes amounts: "- i128_max \<le> ra" "ra \<le> i128_max" "- i128_max \<le> sa" "sa \<le> i128_max"
    and run: "manager_adjust_position cfg who c ra sa s = (Inr r, t)"
    and undo: "manager_adjust_position cfg who c (- ra) (- sa) t = (Inr r', t')"
    and stored: "positions s c who = entry_of (position_of s c who)"
  shows "positions t' = positions s \<and> total_positions t' = total_positions s"
proof -
  have neg: "- ra \<le> i128_max" "- sa \<le> i128_max" using amounts by linarith+
  have clips: "clip ra = ra" "clip sa = sa" "clip (- ra) = - ra" "clip (- sa) = - sa"
    using amounts by (simp_all add: clip_def)
  from manager_adjust_position_run[OF run] obtain u where
      u: "update_reserve cfg who c ra sa s = (Inr (), u)" "positions t = positions u" "total_positions t = total_positions u" .
  from update_reserve_run[OF amounts(2,4) u(1)] obtain p1 t1 where
      p1: "shifted ra sa (position_of s c who) p1" "shifted ra sa (total_positions s c) t1"
    and pu: "positions u = (positions s)(c := (positions s c)(who := entry_of p1))"
      "total_positions u = (total_positions s)(c := t1)" .
  from manager_adjust_position_run[OF undo] obtain v where
      v: "update_reserve cfg who c (- ra) (- sa) t = (Inr (), v)" "positions t' = positions v" "total_positions t' = total_positions v" .
  from update_reserve_run[OF neg v(1)] obtain p2 t2 where
      p2: "shifted (- ra) (- sa) (position_of t c who) p2" "shifted (- ra) (- sa) (total_positions t c) t2"
    and pv: "positions v = (positions t)(c := (positions t c)(who := entry_of p2))"
      "total_positions v = (total_positions t)(c := t2)" .
  have "position_of t c who = p1"
    by (cases p1) (auto simp: position_of_def u pu entry_of_def default_position_def)
  then have "p2 = position_of s c who"
    using p1(1) p2(1) unfolding shifted_def clips by simp
  moreover have "t2 = total_positions s c"
    using p1(2) p2(2) unfolding shifted_def clips by (simp add: u pu)
  ultimately show ?thesis
    using stored by (simp add: v pv u pu fun_upd_idem)
qed

theorem adjust_position_undone_witness:
  "\<exists>t t'. manager_adjust_position ledger_settmint 1 (Token USDJ) 100 (- 50) demo_settmint = (Inr (), t) \<and>
     manager_adjust_position ledger_settmint 1 (Token USDJ) (- 100) 50 t = (Inr (), t') \<and>
     positions t' = positions demo_settmint \<and> total_positions t' = total_positions demo_settmint"
proof -
  let ?m = "\<lambda>ra sa. manager_adjust_position ledger_settmint 1 (Token USDJ) ra sa"
  have "\<exists>t t'. ?m 100 (- 50) demo_settmint = (Inr (), t) \<and> ?m (- 100) 50 t = (Inr (), t')"
    by (simp add: manager_adjust_position_def move_reserve_def move_standard_def settmint_eval
        ledger_settmint_def demo_settmint_def empty_settmint_def ledger_transfer_def ledger_move_def
        ledger_withdraw_def ledger_deposit_def)
  then obtain t t' where t: "?m 100 (- 50) demo_settmint = (Inr (), t)" "?m (- 100) 50 t = (Inr (), t')" by blast
  moreover have "positions t' = positions demo_settmint \<and> total_positions t' = total_positions demo_settmint"
    using t by (intro adjust_position_undone[OF _ _ _ _ t(1)])
      (simp_all add: i128_max_def entry_of_def position_of_def demo_settmint_def)
  ultimately show ?thesis by blast
qed

text \<open>
  C7. Nobody takes over a position without authorization: a \<open>transfer_position_from\<close> by another
  account than the owner fails with \<open>NoAuthorization\<close> and changes nothing, unless the owner
  authorized the caller for this stablecoin; and a call of the gateway changes the authorizations
  an account gave only if it is signed by this account.
\<close>

theorem positions_move_with_authorization_only:
  "(sm_lookup cfg src = Some owner \<and> owner \<noteq> caller \<and> \<not> authorization s owner c caller \<longrightarrow>
      transfer_position_from cfg (Signed caller) c src s = (Inl (Settmint_Gateway_Error NoAuthorization), s)) \<and>
   (authorization (snd (gateway_exec cfg (org, call) s)) owner \<noteq> authorization s owner \<longrightarrow> org = Signed owner)"
proof (intro conjI impI)
  assume "sm_lookup cfg src = Some owner \<and> owner \<noteq> caller \<and> \<not> authorization s owner c caller"
  then show "transfer_position_from cfg (Signed caller) c src s = (Inl (Settmint_Gateway_Error NoAuthorization), s)"
    by (simp add: transfer_position_from_def check_authorization_def gateway_lookup_def ensure_signed_def eff_defs)
next
  assume diff: "authorization (snd (gateway_exec cfg (org, call) s)) owner \<noteq> authorization s owner"
  obtain res t where run: "gateway_exec cfg (org, call) s = (res, t)" by fastforce
  obtain k where k: "gateway_exec cfg (org, call) = transactional k" using gateway_exec_transactional by blast
  obtain r where "res = Inr r"
    using diff run k transactional_fails[of k s] by (cases res) auto
  then show "org = Signed owner"
    using diff run gateway_authorization[of cfg org call s] by auto
qed

theorem positions_move_with_authorization_only_witness:
  "transfer_position_from ledger_settmint (Signed 2) (Token USDJ) 1 demo_settmint
     = (Inl (Settmint_Gateway_Error NoAuthorization), demo_settmint) \<and>
   authorization (snd (gateway_exec ledger_settmint (Signed 1, Call_authorize (Token USDJ) 2) demo_settmint)) 1
     \<noteq> authorization demo_settmint 1 \<and> Signed 1 = Signed (1::account_id)"
proof -
  let ?exec = "gateway_exec ledger_settmint (Signed 1, Call_authorize (Token USDJ) 2)"
  have "authorization (snd (?exec demo_settmint)) 1 (Token USDJ) 2"
    by (simp add: authorize_def transactional_def ensure_signed_def gateway_lookup_def ledger_settmint_def
        settmint_deposit_event_def eff_defs)
  moreover have "\<not> authorization demo_settmint 1 (Token USDJ) 2"
    by (simp add: demo_settmint_def empty_settmint_def)
  ultimately have "authorization (snd (?exec demo_settmint)) 1 \<noteq> authorization demo_settmint 1" by metis
  then show ?thesis
    using positions_move_with_authorization_only[of ledger_settmint 1 1 2 demo_settmint "Token USDJ"
        "Signed 1" "Call_authorize (Token USDJ) 2"]
    by (simp add: ledger_settmint_def demo_settmint_def empty_settmint_def del: gateway_exec.simps)
qed

end
