(* ===== verification/Evm_Accounts.thy ===== *)
theory Evm_Accounts
  imports Primitives
begin

text \<open>
  The EVM accounts pallet, \<open>lib-serml/evm/evm-accounts/src/lib.rs\<close>: the mapping between
  accounts of 32 bytes and EVM addresses of 20 bytes, the proof of ownership by a signature, and
  the address mapping the other EVM pallets use. The hash functions, the recovery of a public key,
  the existence of an account, the merge of balances and the claim handler are parameters.
\<close>

section \<open>Accounts as bytes\<close>

text \<open>\<open>AccountId32\<close>: an account is the number its 32 bytes represent, most significant first.\<close>

definition account_of_bytes :: "u8 list \<Rightarrow> account_id" where
  "account_of_bytes bs = foldl (\<lambda>n b. n * 256 + unat b) 0 bs"

definition account_bytes :: "account_id \<Rightarrow> u8 list" where
  "account_bytes a = map (\<lambda>i. word_of_nat (a div 256 ^ (31 - i))) [0..<32]"

abbreviation evm_prefix :: "u8 list" where
  "evm_prefix \<equiv> [101, 118, 109, 58]"

definition starts_with :: "u8 list \<Rightarrow> u8 list \<Rightarrow> bool" where
  "starts_with bs prefix \<longleftrightarrow> take (length prefix) bs = prefix"

section \<open>Storage and configuration\<close>

datatype evm_accounts_event = ClaimAccount account_id evm_address

record 'w evm_accounts_config =
  ea_keccak_256 :: "u8 list \<Rightarrow> u8 list"
  ea_blake2_256 :: "u8 list \<Rightarrow> u8 list"
  ea_ecdsa_recover :: "u8 list \<Rightarrow> u8 list \<Rightarrow> u8 list option"
  ea_account_exists :: "account_id \<Rightarrow> 'w \<Rightarrow> bool"
  ea_transfer_all :: "account_id \<Rightarrow> account_id \<Rightarrow> ('w, unit) eff"
  ea_on_claim :: "account_id \<Rightarrow> ('w, unit) eff"

record 'w evm_accounts_state =
  accounts :: "evm_address \<Rightarrow> account_id option"
  evm_addresses :: "account_id \<Rightarrow> evm_address option"
  ea_world :: 'w
  ea_events :: "evm_accounts_event list"

abbreviation eaE :: "evm_accounts_error \<Rightarrow> dispatch_error" where
  "eaE \<equiv> Evm_Accounts_Error"

definition inA :: "('w, 'a) eff \<Rightarrow> ('w evm_accounts_state, 'a) eff" where
  "inA m = zoomE ea_world (\<lambda>w s. s\<lparr>ea_world := w\<rparr>) m"

definition ea_deposit_event :: "evm_accounts_event \<Rightarrow> ('w evm_accounts_state, unit) eff" where
  "ea_deposit_event ev = modE (\<lambda>s. s\<lparr>ea_events := ea_events s @ [ev]\<rparr>)"

section \<open>Signed messages\<close>

definition hex_nibble :: "u8 \<Rightarrow> u8" where
  "hex_nibble n = (if n < 10 then 48 + n else 97 - 10 + n)"

definition to_ascii_hex :: "u8 list \<Rightarrow> u8 list" where
  "to_ascii_hex data = concat (map (\<lambda>b. [hex_nibble (b div 16), hex_nibble (b mod 16)]) data)"

text \<open>The loop that pushes the decimal digits of the length, least significant first.\<close>

fun push_digits :: "nat \<Rightarrow> u8 list" where
  "push_digits l = (if l = 0 then [] else (48 + word_of_nat (l mod 10)) # push_digits (l div 10))"

declare push_digits.simps [simp del]

text \<open>The byte string \<open>"\x19Ethereum Signed Message:\n"\<close> and the prefix \<open>"setheum evm:"\<close>.\<close>

definition signed_message_header :: "u8 list" where
  "signed_message_header =
     [25, 69, 116, 104, 101, 114, 101, 117, 109, 32, 83, 105, 103, 110, 101, 100, 32,
      77, 101, 115, 115, 97, 103, 101, 58, 10]"

definition setheum_evm_prefix :: "u8 list" where
  "setheum_evm_prefix = [115, 101, 116, 104, 101, 117, 109, 32, 101, 118, 109, 58]"

definition ethereum_signable_message :: "u8 list \<Rightarrow> u8 list \<Rightarrow> u8 list" where
  "ethereum_signable_message what extra =
     (let l = length setheum_evm_prefix + length what + length extra
      in signed_message_header @ rev (push_digits l) @ setheum_evm_prefix @ what @ extra)"

definition eth_recover :: "'w evm_accounts_config \<Rightarrow> u8 list \<Rightarrow> u8 list \<Rightarrow> u8 list \<Rightarrow> evm_address option" where
  "eth_recover cfg sig what extra =
     (let msg = ea_keccak_256 cfg (ethereum_signable_message what extra)
      in map_option (\<lambda>key. drop 12 (ea_keccak_256 cfg key)) (ea_ecdsa_recover cfg sig msg))"

section \<open>The address mapping\<close>

definition account_to_default_evm_address :: "'w evm_accounts_config \<Rightarrow> account_id \<Rightarrow> evm_address" where
  "account_to_default_evm_address cfg a = take 20 (ea_blake2_256 cfg (evm_prefix @ account_bytes a))"

definition padded_account :: "evm_address \<Rightarrow> account_id" where
  "padded_account address = account_of_bytes (evm_prefix @ address @ replicate 8 0)"

definition get_account_id :: "evm_address \<Rightarrow> 'w evm_accounts_state \<Rightarrow> account_id" where
  "get_account_id address s =
     (case accounts s address of Some acc \<Rightarrow> acc | None \<Rightarrow> padded_account address)"

definition get_evm_address :: "account_id \<Rightarrow> 'w evm_accounts_state \<Rightarrow> evm_address option" where
  "get_evm_address a s =
     (case evm_addresses s a of
        Some address \<Rightarrow> Some address
      | None \<Rightarrow>
          if starts_with (account_bytes a) evm_prefix then Some (take 20 (drop 4 (account_bytes a)))
          else None)"

text \<open>Writing both directions of the mapping.\<close>

definition insert_mapping :: "evm_address \<Rightarrow> account_id \<Rightarrow> 'w evm_accounts_state \<Rightarrow> 'w evm_accounts_state" where
  "insert_mapping address who s =
     s\<lparr>accounts := (accounts s)(address := Some who), evm_addresses := (evm_addresses s)(who := Some address)\<rparr>"

definition get_or_create_evm_address ::
  "'w evm_accounts_config \<Rightarrow> account_id \<Rightarrow> 'w evm_accounts_state \<Rightarrow> evm_address \<times> 'w evm_accounts_state" where
  "get_or_create_evm_address cfg a s =
     (case get_evm_address a s of
        Some address \<Rightarrow> (address, s)
      | None \<Rightarrow>
          let address = account_to_default_evm_address cfg a
          in (address, insert_mapping address a s))"

definition get_default_evm_address :: "'w evm_accounts_config \<Rightarrow> account_id \<Rightarrow> evm_address" where
  "get_default_evm_address cfg a = account_to_default_evm_address cfg a"

definition is_linked :: "'w evm_accounts_config \<Rightarrow> account_id \<Rightarrow> evm_address \<Rightarrow> 'w evm_accounts_state \<Rightarrow> bool" where
  "is_linked cfg a address s \<longleftrightarrow>
     get_evm_address a s = Some address \<or> account_to_default_evm_address cfg a = address"

text \<open>\<open>CallKillAccount\<close>: the hook of the system when an account is removed.\<close>

definition on_killed_account :: "'w evm_accounts_config \<Rightarrow> account_id \<Rightarrow> 'w evm_accounts_state \<Rightarrow> 'w evm_accounts_state" where
  "on_killed_account cfg who s =
     (let s1 = s\<lparr>accounts := (accounts s)(account_to_default_evm_address cfg who := None)\<rparr>
      in case evm_addresses s1 who of
           Some address \<Rightarrow> s1\<lparr>accounts := (accounts s1)(address := None),
                             evm_addresses := (evm_addresses s1)(who := None)\<rparr>
         | None \<Rightarrow> s1)"

text \<open>\<open>StaticLookup\<close>: only 20-byte addresses are looked up.\<close>

datatype multi_address = Id account_id | Address20 evm_address | OtherAddress

definition ea_lookup :: "multi_address \<Rightarrow> 'w evm_accounts_state \<Rightarrow> dispatch_error + account_id" where
  "ea_lookup a s = (case a of Address20 i \<Rightarrow> Inr (get_account_id i s) | _ \<Rightarrow> Inl CannotLookup)"

definition ea_unlookup :: "account_id \<Rightarrow> multi_address" where
  "ea_unlookup a = Id a"

section \<open>Dispatchables\<close>

definition claim_account ::
  "'w evm_accounts_config \<Rightarrow> origin \<Rightarrow> evm_address \<Rightarrow> u8 list \<Rightarrow> ('w evm_accounts_state, unit) eff" where
  "claim_account cfg org eth_address eth_signature = transactional (
     bindE (ensure_signed org) (\<lambda>who.
     bindE (getE (\<lambda>s. (evm_addresses s who, accounts s eth_address))) (\<lambda>(mapped, taken).
     thenE (ensure (mapped = None) (eaE AccountIdHasMapped)) (
     thenE (ensure (taken = None) (eaE EthAddressHasMapped)) (
     bindE (ok_or (eth_recover cfg eth_signature (to_ascii_hex (account_bytes who)) []) (eaE BadSignature)) (\<lambda>address.
     thenE (ensure (eth_address = address) (eaE InvalidSignature)) (
     bindE (getE (\<lambda>s. (get_account_id eth_address s, ea_account_exists cfg (get_account_id eth_address s) (ea_world s)))) (\<lambda>(padded, exists).
     thenE (whenE exists (inA (ea_transfer_all cfg padded who))) (
     thenE (modE (insert_mapping eth_address who)) (
     thenE (inA (ea_on_claim cfg who))
       (ea_deposit_event (ClaimAccount who eth_address))))))))))))"

text \<open>Not transactional: the mapping stays when the claim handler fails.\<close>

definition claim_default_account :: "'w evm_accounts_config \<Rightarrow> origin \<Rightarrow> ('w evm_accounts_state, unit) eff" where
  "claim_default_account cfg org =
     bindE (ensure_signed org) (\<lambda>who.
     bindE (getE (\<lambda>s. evm_addresses s who)) (\<lambda>mapped.
     thenE (ensure (mapped = None) (eaE AccountIdHasMapped)) (
     bindE (\<lambda>s. case get_or_create_evm_address cfg who s of (address, t) \<Rightarrow> (Inr address, t)) (\<lambda>eth_address.
     thenE (inA (ea_on_claim cfg who))
       (ea_deposit_event (ClaimAccount who eth_address))))))"

section \<open>Bytes and accounts\<close>

lemma account_bytes_length [simp]: "length (account_bytes a) = 32"
  by (simp add: account_bytes_def)

lemma account_of_bytes_snoc: "account_of_bytes (bs @ [b]) = account_of_bytes bs * 256 + unat b"
  by (simp add: account_of_bytes_def)

lemma account_of_bytes_div:
  "i \<le> length bs \<Longrightarrow> account_of_bytes bs div 256 ^ i = account_of_bytes (take (length bs - i) bs)"
proof (induction i arbitrary: bs)
  case (Suc i)
  then obtain cs b where bs: "bs = cs @ [b]" by (cases bs rule: rev_cases) auto
  have "unat b < 256" using unsigned_less[of b, where 'a = nat] by simp
  then have "account_of_bytes bs div 256 = account_of_bytes cs"
    by (simp add: bs account_of_bytes_snoc)
  then have "account_of_bytes bs div 256 ^ Suc i = account_of_bytes cs div 256 ^ i"
    by (simp add: div_mult2_eq)
  also have "\<dots> = account_of_bytes (take (length cs - i) cs)" using Suc bs by simp
  finally show ?case by (simp add: bs)
qed simp

lemma byte_of_snoc: "word_of_nat (n * 256 + unat b) = (b :: u8)"
proof -
  have "unat b < 256" using unsigned_less[of b, where 'a = nat] by simp
  then have "unat (word_of_nat (n * 256 + unat b) :: u8) = unat b"
    by (simp only: unsigned_of_nat take_bit_eq_mod) simp
  then show ?thesis by (simp only: word_unat_eq_iff)
qed

lemma account_bytes_of_bytes:
  assumes "length bs = 32"
  shows "account_bytes (account_of_bytes bs) = bs"
proof (rule nth_equalityI)
  fix i assume "i < length (account_bytes (account_of_bytes bs))"
  then have i: "i < 32" by simp
  have "account_of_bytes bs div 256 ^ (31 - i) = account_of_bytes (take (Suc i) bs)"
    using account_of_bytes_div[of "31 - i" bs] assms i by (simp add: Suc_diff_le)
  also have "take (Suc i) bs = take i bs @ [bs ! i]"
    using i assms by (simp add: take_Suc_conv_app_nth)
  finally have "word_of_nat (account_of_bytes bs div 256 ^ (31 - i)) = (bs ! i :: u8)"
    by (simp add: account_of_bytes_snoc byte_of_snoc del: of_nat_add of_nat_mult)
  then show "account_bytes (account_of_bytes bs) ! i = bs ! i"
    using i by (simp add: account_bytes_def)
qed (simp add: assms)

lemma account_bytes_inj:
  assumes "account_bytes a = account_bytes b" "a < 256 ^ 32" "b < 256 ^ 32"
  shows "a = b"
proof -
  have "account_of_bytes (map (\<lambda>i. word_of_nat (a div 256 ^ (n - Suc i))) [0..<n]) = a mod 256 ^ n" for a n
  proof (induction n arbitrary: a)
    case (Suc n)
    have shift: "map (\<lambda>i. word_of_nat (a div 256 ^ (n - i))) [0..<n]
        = map (\<lambda>i. (word_of_nat ((a div 256) div 256 ^ (n - Suc i)) :: u8)) [0..<n]"
    proof (rule map_cong[OF refl])
      fix i assume "i \<in> set [0..<n]"
      then have "n - i = Suc (n - Suc i)" by auto
      then show "word_of_nat (a div 256 ^ (n - i)) = (word_of_nat ((a div 256) div 256 ^ (n - Suc i)) :: u8)"
        by (simp only: power_Suc div_mult2_eq)
    qed
    have "account_of_bytes (map (\<lambda>i. word_of_nat (a div 256 ^ (Suc n - Suc i))) [0..<Suc n])
        = account_of_bytes (map (\<lambda>i. word_of_nat (a div 256 ^ (n - i))) [0..<n]) * 256 + a mod 256"
      by (simp add: account_of_bytes_snoc unsigned_of_nat take_bit_eq_mod)
    also have "\<dots> = (a div 256) mod 256 ^ n * 256 + a mod 256"
      unfolding shift Suc.IH ..
    also have "\<dots> = a mod 256 ^ Suc n"
      by (simp add: mod_mult2_eq mult.commute)
    finally show ?case .
  qed (simp add: account_of_bytes_def)
  from this[of _ 32] have "account_of_bytes (account_bytes x) = x mod 256 ^ 32" for x
    by (simp add: account_bytes_def)
  then show ?thesis using assms by (metis mod_less)
qed

end
