(* ===== verification/Evm_Accounts_Properties.thy ===== *)
theory Evm_Accounts_Properties
  imports Evm_Accounts
begin

text \<open>
  Properties of the EVM accounts pallet: the two directions of the address mapping stay inverse to
  each other, every EVM address is found back from its account, and the message an account signs
  names the account.
\<close>

section \<open>The invariant of the mapping\<close>

definition prefixed :: "account_id \<Rightarrow> bool" where
  "prefixed a \<longleftrightarrow> starts_with (account_bytes a) evm_prefix"

text \<open>
  Relative to a set \<open>V\<close> of accounts that occur: only their default addresses matter for
  collisions of the hash.
\<close>

definition mapping_inv :: "'w evm_accounts_config \<Rightarrow> account_id set \<Rightarrow> 'w evm_accounts_state \<Rightarrow> bool" where
  "mapping_inv cfg V s \<longleftrightarrow>
     (\<forall>who a. evm_addresses s who = Some a \<longleftrightarrow> accounts s a = Some who) \<and>
     (\<forall>who a. evm_addresses s who = Some a \<longrightarrow> length a = 20 \<and> \<not> prefixed who) \<and>
     (\<forall>a who. accounts s a = Some who \<longrightarrow> (\<forall>v\<in>V. a = account_to_default_evm_address cfg v \<longrightarrow> v = who))"

definition hashes_ok :: "'w evm_accounts_config \<Rightarrow> account_id set \<Rightarrow> bool" where
  "hashes_ok cfg V \<longleftrightarrow>
     (\<forall>bs. length (ea_keccak_256 cfg bs) = 32) \<and> (\<forall>bs. length (ea_blake2_256 cfg bs) = 32) \<and>
     inj_on (account_to_default_evm_address cfg) V"

datatype evm_accounts_call =
    Claim_account origin evm_address "u8 list"
  | Claim_default_account origin
  | Get_or_create account_id
  | Killed account_id

fun evm_accounts_exec :: "'w evm_accounts_config \<Rightarrow> evm_accounts_call \<Rightarrow> ('w evm_accounts_state, unit) eff" where
  "evm_accounts_exec cfg (Claim_account org address sig) = claim_account cfg org address sig"
| "evm_accounts_exec cfg (Claim_default_account org) = claim_default_account cfg org"
| "evm_accounts_exec cfg (Get_or_create a) = (\<lambda>s. (Inr (), snd (get_or_create_evm_address cfg a s)))"
| "evm_accounts_exec cfg (Killed a) = modE (on_killed_account cfg a)"

text \<open>
  Accounts that occur are in \<open>V\<close>; an account that embeds an EVM address has no key and signs
  nothing; a claimed address is not the default address of another account, for which a key would
  have to be found.
\<close>

fun evm_accounts_admissible :: "'w evm_accounts_config \<Rightarrow> account_id set \<Rightarrow> evm_accounts_call \<Rightarrow> bool" where
  "evm_accounts_admissible cfg V (Claim_account org address sig) \<longleftrightarrow>
     (\<forall>who. org = Signed who \<longrightarrow> who \<in> V \<and> \<not> prefixed who \<and>
        (\<forall>v\<in>V. address = account_to_default_evm_address cfg v \<longrightarrow> v = who))"
| "evm_accounts_admissible cfg V (Claim_default_account org) \<longleftrightarrow> (\<forall>who. org = Signed who \<longrightarrow> who \<in> V)"
| "evm_accounts_admissible cfg V (Get_or_create a) \<longleftrightarrow> a \<in> V"
| "evm_accounts_admissible cfg V (Killed a) \<longleftrightarrow> a \<in> V"

lemma mapping_inv_frame:
  assumes "mapping_inv cfg V s" "accounts t = accounts s" "evm_addresses t = evm_addresses s"
  shows "mapping_inv cfg V t"
  using assms by (simp add: mapping_inv_def)

lemma insert_mapping_inv:
  assumes inv: "mapping_inv cfg V s" and free: "evm_addresses s who = None" "accounts s address = None"
    and ok: "length address = 20" "\<not> prefixed who"
      "\<forall>v\<in>V. address = account_to_default_evm_address cfg v \<longrightarrow> v = who"
  shows "mapping_inv cfg V (insert_mapping address who s)"
proof -
  have iff: "evm_addresses s x = Some y \<longleftrightarrow> accounts s y = Some x" for x y
    using inv by (simp add: mapping_inv_def)
  have "evm_addresses s x \<noteq> Some address" "accounts s y \<noteq> Some who" for x y
    using free iff[of x address] iff[of who y] by auto
  with inv ok iff show ?thesis
    unfolding mapping_inv_def insert_mapping_def by auto
qed

lemma default_address_length:
  "hashes_ok cfg V \<Longrightarrow> length (account_to_default_evm_address cfg a) = 20"
  by (simp add: account_to_default_evm_address_def hashes_ok_def)

lemma get_evm_address_None: "get_evm_address a s = None \<longleftrightarrow> evm_addresses s a = None \<and> \<not> prefixed a"
  by (auto simp: get_evm_address_def prefixed_def split: option.splits)

lemma get_or_create_inv:
  assumes "hashes_ok cfg V" "mapping_inv cfg V s" "a \<in> V"
  shows "mapping_inv cfg V (snd (get_or_create_evm_address cfg a s))"
proof (cases "get_evm_address a s")
  case None
  let ?d = "account_to_default_evm_address cfg a"
  have none: "evm_addresses s a = None" "\<not> prefixed a" using None by (simp_all add: get_evm_address_None)
  have "accounts s ?d = None"
  proof (rule ccontr)
    assume "accounts s ?d \<noteq> None"
    then obtain who where "accounts s ?d = Some who" by auto
    then have "a = who" "evm_addresses s who = Some ?d"
      using assms(2,3) by (auto simp: mapping_inv_def)
    with none show False by simp
  qed
  moreover have "\<forall>v\<in>V. ?d = account_to_default_evm_address cfg v \<longrightarrow> v = a"
    using assms(1,3) by (auto simp: hashes_ok_def inj_on_def)
  ultimately have "mapping_inv cfg V (insert_mapping ?d a s)"
    by (rule insert_mapping_inv[OF assms(2) none(1) _ default_address_length[OF assms(1)] none(2)])
  then show ?thesis by (simp add: get_or_create_evm_address_def None Let_def)
qed (use assms in \<open>simp add: get_or_create_evm_address_def\<close>)

lemma on_killed_inv:
  assumes "mapping_inv cfg V s" "a \<in> V"
  shows "mapping_inv cfg V (on_killed_account cfg a s)"
proof -
  let ?d = "account_to_default_evm_address cfg a"
  have iff: "evm_addresses s x = Some y \<longleftrightarrow> accounts s y = Some x" for x y
    using assms(1) by (simp add: mapping_inv_def)
  have d: "x = a" if "accounts s ?d = Some x" for x
    using assms that unfolding mapping_inv_def by blast
  show ?thesis
  proof (cases "evm_addresses s a")
    case None
    then have "accounts s ?d = None" using d iff by (metis not_None_eq)
    then have "on_killed_account cfg a s = s"
      using None by (simp add: on_killed_account_def fun_upd_idem)
    with assms show ?thesis by simp
  next
    case (Some y)
    have "accounts s ?d = None \<or> y = ?d"
      using d iff Some by (cases "accounts s ?d") (auto, metis option.inject)
    then have t: "accounts (on_killed_account cfg a s) = (accounts s)(y := None)"
        "evm_addresses (on_killed_account cfg a s) = (evm_addresses s)(a := None)"
      using Some by (auto simp: on_killed_account_def fun_eq_iff)
    have y: "accounts s z = Some a \<longleftrightarrow> z = y" "evm_addresses s x = Some y \<longleftrightarrow> x = a" for x z
      using Some iff[of a z] iff[of x y] iff[of a y] by auto
    show ?thesis
      using assms(1) y unfolding mapping_inv_def t by (auto simp: fun_upd_apply)
  qed
qed

lemma inA_frame:
  "inA m s = (r, t) \<Longrightarrow> accounts t = accounts s \<and> evm_addresses t = evm_addresses s"
  by (auto simp: inA_def zoomE_def split: prod.splits)

lemma claim_account_inv:
  assumes "hashes_ok cfg V" "mapping_inv cfg V s" "evm_accounts_admissible cfg V (Claim_account org address sig)"
    and run: "claim_account cfg org address sig s = (Inr r, t)"
  shows "mapping_inv cfg V t"
proof -
  from run obtain who u v w where
      who: "org = Signed who" "evm_addresses s who = None" "accounts s address = None"
    and rec: "eth_recover cfg sig (to_ascii_hex (account_bytes who)) [] = Some address"
    and u: "whenE (ea_account_exists cfg (get_account_id address s) (ea_world s))
        (inA (ea_transfer_all cfg (get_account_id address s) who)) s = (Inr (), u)"
    and v: "inA (ea_on_claim cfg who) (insert_mapping address who u) = (Inr (), v)"
    and t: "t = v\<lparr>ea_events := ea_events v @ [ClaimAccount who address]\<rparr>"
    by (auto simp: claim_account_def ea_deposit_event_def case_prod_beta simp del: whenE_run)
  have fu: "accounts u = accounts s" "evm_addresses u = evm_addresses s"
    using u inA_frame[of _ s "Inr ()" u] by (simp_all split: if_splits)
  have "length address = 20"
    using rec assms(1) by (auto simp: eth_recover_def Let_def hashes_ok_def)
  then have "mapping_inv cfg V (insert_mapping address who u)"
    using assms(3) who by (intro insert_mapping_inv mapping_inv_frame[OF assms(2) fu]) (auto simp: fu)
  then show ?thesis
    by (rule mapping_inv_frame) (use inA_frame[OF v] in \<open>simp_all add: t\<close>)
qed

lemma claim_default_keeps:
  assumes "hashes_ok cfg V" "evm_accounts_admissible cfg V (Claim_default_account org)"
  shows "preserves (mapping_inv cfg V) (claim_default_account cfg org)"
proof (cases org)
  case (Signed who)
  have inA: "preserves (mapping_inv cfg V) (inA m)" for m :: "('a, unit) eff"
    by (intro preservesI) (use inA_frame mapping_inv_frame in blast)
  have create: "preserves (mapping_inv cfg V) (\<lambda>s. case get_or_create_evm_address cfg who s of (address, t) \<Rightarrow> (Inr address, t))"
    using get_or_create_inv[OF assms(1)] assms(2) Signed
    by (auto simp: preserves_def split: prod.splits) (metis snd_conv)
  have event: "preserves (mapping_inv cfg V) (ea_deposit_event ev)" for ev
    unfolding ea_deposit_event_def by (intro keeps_modE) (simp add: mapping_inv_def)
  have s: "ensure_signed org = okE who" by (simp add: ensure_signed_def Signed)
  show ?thesis
    unfolding claim_default_account_def s bindE_okE by (intro keeps inA create event)
qed (simp_all add: claim_default_account_def ensure_signed_def bindE_failE keeps_failE)

definition evm_accounts_safe :: "'w evm_accounts_config \<Rightarrow> account_id set \<Rightarrow> evm_accounts_call \<Rightarrow> bool" where
  "evm_accounts_safe cfg V c \<longleftrightarrow> hashes_ok cfg V \<and> evm_accounts_admissible cfg V c"

interpretation evm_accounts_machine:
  pallet_machine "evm_accounts_exec cfg" "evm_accounts_safe cfg V" "mapping_inv cfg V" for cfg V
proof unfold_locales
  fix c
  assume safe: "evm_accounts_safe cfg V c"
  then have ok: "hashes_ok cfg V" and adm: "evm_accounts_admissible cfg V c" by (simp_all add: evm_accounts_safe_def)
  show "preserves (mapping_inv cfg V) (evm_accounts_exec cfg c)"
  proof (cases c)
    case (Claim_account org address sig)
    have "preserves (mapping_inv cfg V) (claim_account cfg org address sig)"
      using claim_account_inv[OF ok _ adm[unfolded Claim_account]] unfolding claim_account_def
      by (intro keeps_transactional_ok) simp
    then show ?thesis by (simp add: Claim_account)
  next
    case (Claim_default_account org)
    then show ?thesis using claim_default_keeps[OF ok] adm by simp
  next
    case (Get_or_create a)
    then show ?thesis using get_or_create_inv[OF ok] adm by (simp add: preserves_def)
  next
    case (Killed a)
    then show ?thesis using on_killed_inv[of cfg V _ a] adm by (simp add: preserves_def modE_def)
  qed
qed

section \<open>Messages\<close>

lemma hex_nibble_inj: "m < 16 \<Longrightarrow> n < 16 \<Longrightarrow> hex_nibble m = hex_nibble n \<Longrightarrow> m = n"
proof -
  assume mn: "m < 16" "n < 16" "hex_nibble m = hex_nibble n"
  have "\<forall>m\<in>set [0, 1, 2, 3, 4, 5, 6, 7, 8, 9, 10, 11, 12, 13, 14, 15 :: u8].
      \<forall>n\<in>set [0, 1, 2, 3, 4, 5, 6, 7, 8, 9, 10, 11, 12, 13, 14, 15]. hex_nibble m = hex_nibble n \<longrightarrow> m = n"
    by (simp add: hex_nibble_def)
  moreover have "k \<in> set [0, 1, 2, 3, 4, 5, 6, 7, 8, 9, 10, 11, 12, 13, 14, 15]" if "k < 16" for k :: u8
  proof -
    have "unat k \<in> set [0..<16]" using that by (simp add: word_less_nat_alt)
    then have "k \<in> word_of_nat ` set [0..<16]" by (intro image_eqI[of _ _ "unat k"]) (simp_all add: of_nat_unat)
    then show ?thesis by (simp add: upt_rec)
  qed
  ultimately show "m = n" using mn by blast
qed

lemma to_ascii_hex_inj: "to_ascii_hex xs = to_ascii_hex ys \<Longrightarrow> xs = ys"
proof (induction xs arbitrary: ys)
  case Nil
  then show ?case by (cases ys) (simp_all add: to_ascii_hex_def)
next
  case (Cons x xs)
  then obtain y zs where ys: "ys = y # zs" by (cases ys) (simp_all add: to_ascii_hex_def)
  have small: "b div 16 < 16" "b mod 16 < 16" for b :: u8
    using unsigned_less[of b, where 'a = nat] by (simp_all add: word_less_nat_alt unat_div unat_mod)
  have "hex_nibble (x div 16) = hex_nibble (y div 16)" "hex_nibble (x mod 16) = hex_nibble (y mod 16)"
    and rest: "to_ascii_hex xs = to_ascii_hex zs"
    using Cons.prems by (simp_all add: ys to_ascii_hex_def)
  then have "x div 16 = y div 16" "x mod 16 = y mod 16" using hex_nibble_inj small by blast+
  then have "x = y" by (metis div_mult_mod_eq)
  with Cons.IH[OF rest] ys show ?case by simp
qed

section \<open>Properties\<close>

definition demo_evm_accounts :: "unit evm_accounts_config" where
  "demo_evm_accounts = \<lparr>ea_keccak_256 = (\<lambda>bs. take 32 (bs @ replicate 32 0)), ea_blake2_256 = (\<lambda>bs. take 32 (rev (replicate 32 0 @ bs))),
     ea_ecdsa_recover = (\<lambda>sig msg. Some sig), ea_account_exists = (\<lambda>a w. False),
     ea_transfer_all = (\<lambda>a b. okE ()), ea_on_claim = (\<lambda>a. okE ())\<rparr>"

definition empty_evm_accounts :: "unit evm_accounts_state" where
  "empty_evm_accounts = \<lparr>accounts = (\<lambda>a. None), evm_addresses = (\<lambda>a. None), ea_world = (), ea_events = []\<rparr>"

lemma empty_evm_accounts_inv: "mapping_inv cfg V empty_evm_accounts"
  by (simp add: mapping_inv_def empty_evm_accounts_def)

text \<open>
  C10. The address mapping stays one-to-one: whatever sequence of claims, default claims, addresses
  created for other pallets and removals of accounts happens, the two storage maps are inverse to
  each other, the mapped addresses have 20 bytes and no account that embeds an address is mapped.
  The hashes return 32 bytes and the default addresses of the accounts that occur do not collide.
\<close>

theorem evm_mapping_one_to_one:
  assumes "list_all (evm_accounts_safe cfg V) calls" "mapping_inv cfg V s"
    and "t = run_calls (evm_accounts_exec cfg) calls s"
  shows "mapping_inv cfg V t \<and> (evm_addresses t who = Some a \<longleftrightarrow> accounts t a = Some who)"
  using evm_accounts_machine.run_calls_inv[OF assms(1,2)] assms(3) by (simp add: mapping_inv_def)

theorem evm_mapping_one_to_one_witness:
  "let t = run_calls (evm_accounts_exec demo_evm_accounts)
      [Claim_default_account (Signed 1), Get_or_create 2, Killed 1] empty_evm_accounts
   in mapping_inv demo_evm_accounts {1, 2} t \<and>
      (evm_addresses t 2 = Some (replicate 20 0) \<longleftrightarrow> accounts t (replicate 20 0) = Some 2)"
proof -
  have "account_to_default_evm_address demo_evm_accounts 1 \<noteq> account_to_default_evm_address demo_evm_accounts 2"
    by (simp add: account_to_default_evm_address_def demo_evm_accounts_def account_bytes_def upt_rec)
  then have "hashes_ok demo_evm_accounts {1, 2}"
    by (simp add: hashes_ok_def, simp add: demo_evm_accounts_def, linarith)
  then show ?thesis
    unfolding Let_def by (intro evm_mapping_one_to_one[OF _ empty_evm_accounts_inv refl]) (simp add: evm_accounts_safe_def)
qed

text \<open>
  Every EVM address is found back from its account: the account that
  \<open>EvmAddressMapping::get_account_id\<close> gives for an address of 20 bytes has this address under
  \<open>get_evm_address\<close>, whether the address was claimed or is embedded in the account.
\<close>

theorem evm_address_roundtrip:
  assumes "mapping_inv cfg V s" "length address = 20"
  shows "get_evm_address (get_account_id address s) s = Some address"
proof (cases "accounts s address")
  case None
  have b: "account_bytes (padded_account address) = evm_prefix @ address @ replicate 8 0"
    unfolding padded_account_def by (rule account_bytes_of_bytes) (simp add: assms(2))
  then have "prefixed (padded_account address)" by (simp add: prefixed_def starts_with_def)
  then have "evm_addresses s (padded_account address) = None"
    using assms(1) unfolding mapping_inv_def by (metis not_None_eq)
  then show ?thesis by (simp add: get_account_id_def None get_evm_address_def b starts_with_def assms(2))
next
  case (Some who)
  then have "evm_addresses s who = Some address" using assms(1) by (simp add: mapping_inv_def)
  then show ?thesis by (simp add: get_account_id_def Some get_evm_address_def)
qed

theorem evm_address_roundtrip_witness:
  "get_evm_address (get_account_id (replicate 20 7) empty_evm_accounts) empty_evm_accounts = Some (replicate 20 7)"
  by (rule evm_address_roundtrip[OF empty_evm_accounts_inv[of demo_evm_accounts "{}"]]) simp

text \<open>
  Different accounts share an EVM address: \<open>get_evm_address\<close> looks at the first 24 bytes of
  an account only, so that an account with the prefix, an address and any 8 further bytes has this
  address, although the address belongs to another account, the one padded with zeros.
\<close>

theorem embedded_address_not_unique:
  assumes "length address = 20" "length tail = 8" "tail \<noteq> replicate 8 0"
    and "other = account_of_bytes (evm_prefix @ address @ tail)"
    and "accounts s address = None" "evm_addresses s other = None"
  shows "get_evm_address other s = Some address \<and> get_account_id address s \<noteq> other"
proof -
  have b: "account_bytes other = evm_prefix @ address @ tail"
    unfolding assms(4) by (rule account_bytes_of_bytes) (simp add: assms(1,2))
  have "account_bytes (padded_account address) = evm_prefix @ address @ replicate 8 0"
    unfolding padded_account_def by (rule account_bytes_of_bytes) (simp add: assms(1))
  with b assms(3) have "padded_account address \<noteq> other" by auto
  then show ?thesis
    by (simp add: get_evm_address_def get_account_id_def assms(1,5,6) b starts_with_def)
qed

theorem embedded_address_not_unique_witness:
  "get_evm_address (account_of_bytes (evm_prefix @ replicate 20 7 @ replicate 8 1)) empty_evm_accounts = Some (replicate 20 7) \<and>
   get_account_id (replicate 20 7) empty_evm_accounts \<noteq> account_of_bytes (evm_prefix @ replicate 20 7 @ replicate 8 1)"
  by (rule embedded_address_not_unique[OF _ _ _ refl])
    (simp_all add: empty_evm_accounts_def numeral_eq_Suc)

text \<open>
  A claim signature is bound to one account: the messages two accounts sign to claim an address
  are different.
\<close>

theorem claim_message_names_account:
  assumes "a < 256 ^ 32" "b < 256 ^ 32"
    and "ethereum_signable_message (to_ascii_hex (account_bytes a)) [] =
         ethereum_signable_message (to_ascii_hex (account_bytes b)) []"
  shows "a = b"
proof -
  have len: "length (to_ascii_hex xs) = 2 * length xs" for xs
    by (induction xs) (simp_all add: to_ascii_hex_def)
  have "to_ascii_hex (account_bytes a) = to_ascii_hex (account_bytes b)"
    using assms(3) by (simp add: ethereum_signable_message_def len Let_def)
  then show ?thesis using to_ascii_hex_inj account_bytes_inj assms(1,2) by blast
qed

theorem claim_message_names_account_witness:
  "ethereum_signable_message (to_ascii_hex (account_bytes 1)) [] \<noteq> ethereum_signable_message (to_ascii_hex (account_bytes 2)) []"
  using claim_message_names_account[of 1 2] by auto

end
