(* ===== verification/Evm_Manager.thy ===== *)
theory Evm_Manager
  imports Primitives
begin

text \<open>
  The EVM manager, \<open>lib-serml/evm/evm-manager/src/lib.rs\<close>: the table of registered ERC20
  contracts and the encoding of currency identifiers as EVM addresses, with the conversions of
  \<open>primitives/src/currency.rs\<close> it builds on. The calls into contracts for their name, symbol and
  decimals are parameters.
\<close>

section \<open>Bytes of integers\<close>

definition u32_to_be_bytes :: "u32 \<Rightarrow> u8 list" where
  "u32_to_be_bytes x = map (\<lambda>i. ucast (drop_bit (8 * (3 - i)) x)) [0..<4]"

definition u64_to_be_bytes :: "u64 \<Rightarrow> u8 list" where
  "u64_to_be_bytes x = map (\<lambda>i. ucast (drop_bit (8 * (7 - i)) x)) [0..<8]"

definition u32_from_be_bytes :: "u8 list \<Rightarrow> u32" where
  "u32_from_be_bytes bs =
     push_bit 24 (ucast (bs ! 0)) OR push_bit 16 (ucast (bs ! 1)) OR push_bit 8 (ucast (bs ! 2)) OR ucast (bs ! 3)"

text \<open>\<open>H160::from_low_u64_be\<close> and the bitwise or of addresses.\<close>

definition from_low_u64_be :: "u64 \<Rightarrow> evm_address" where
  "from_low_u64_be x = replicate 12 0 @ u64_to_be_bytes x"

definition address_or :: "evm_address \<Rightarrow> evm_address \<Rightarrow> evm_address" where
  "address_or = map2 (OR)"

section \<open>Constants\<close>

definition mirrored_tokens_address_start :: u64 where
  "mirrored_tokens_address_start = 0x1000000"

definition h160_prefix_token :: "u8 list" where
  "h160_prefix_token = [0, 0, 0, 0, 0, 0, 0, 0, 0, 0, 0, 0, 0, 0, 0, 0, 1, 0, 0]"

definition h160_prefix_dexshare :: "u8 list" where
  "h160_prefix_dexshare = [0, 0, 0, 0, 0, 0, 0, 0, 0, 0, 0, 1]"

definition bytes_start_with :: "u8 list \<Rightarrow> u8 list \<Rightarrow> bool" where
  "bytes_start_with bs prefix \<longleftrightarrow> take (length prefix) bs = prefix"

section \<open>Conversions of the primitives\<close>

text \<open>
  \<open>From<DexShare> for u32\<close>: the symbol of a token, or the first four bytes of an address from its
  first nonzero byte on (the last four when there are fewer).
\<close>

fun dex_share_into_u32 :: "dex_share \<Rightarrow> u32" where
  "dex_share_into_u32 (DexShare_Token t) = u32_from_be_bytes [0, 0, 0, token_into_u8 t]"
| "dex_share_into_u32 (DexShare_Erc20 address) =
     (let leading_zeros = length (takeWhile (\<lambda>d. d = 0) address);
          index = (if leading_zeros > 16 then 16 else leading_zeros)
      in u32_from_be_bytes (take 4 (drop index address)))"

definition dexshare_address :: "u64 \<Rightarrow> u64 \<Rightarrow> evm_address" where
  "dexshare_address symbol_0 symbol_1 =
     address_or (h160_prefix_dexshare @ replicate 8 0) (from_low_u64_be (push_bit 32 symbol_0 OR symbol_1))"

text \<open>\<open>TryFrom<CurrencyId> for EvmAddress\<close>.\<close>

fun evm_address_try_from :: "currency_id \<Rightarrow> evm_address option" where
  "evm_address_try_from (Token t) =
     Some (from_low_u64_be (mirrored_tokens_address_start OR ucast (the (info_currency_id (Token t)))))"
| "evm_address_try_from (DexShare s0 s1) =
     (case (s0, s1) of
        (DexShare_Token t0, DexShare_Token t1) \<Rightarrow>
          Option.bind (info_currency_id (Token t0)) (\<lambda>symbol_0.
          Option.bind (info_currency_id (Token t1)) (\<lambda>symbol_1.
          Some (dexshare_address (ucast symbol_0) (ucast symbol_1))))
      | _ \<Rightarrow> None)"
| "evm_address_try_from (Erc20 address) = Some address"
| "evm_address_try_from (ChainBridge r) = None"

section \<open>The table of contracts\<close>

record erc20_info =
  erc20_address :: evm_address
  erc20_name :: "u8 list"
  erc20_symbol :: "u8 list"
  erc20_decimals :: u8

record 'w evm_bridge =
  eb_name :: "evm_address \<Rightarrow> 'w \<Rightarrow> dispatch_error + u8 list"
  eb_symbol :: "evm_address \<Rightarrow> 'w \<Rightarrow> dispatch_error + u8 list"
  eb_decimals :: "evm_address \<Rightarrow> 'w \<Rightarrow> dispatch_error + u8"

record 'w evm_manager_state =
  currency_id_map :: "u32 \<Rightarrow> erc20_info option"
  em_world :: 'w

definition query :: "('w \<Rightarrow> dispatch_error + 'a) \<Rightarrow> ('w evm_manager_state, 'a) eff" where
  "query q = (\<lambda>s. (q (em_world s), s))"

definition set_erc20_mapping :: "'w evm_bridge \<Rightarrow> evm_address \<Rightarrow> ('w evm_manager_state, unit) eff" where
  "set_erc20_mapping bridge address =
     bindE (getE (\<lambda>s. currency_id_map s (dex_share_into_u32 (DexShare_Erc20 address)))) (\<lambda>maybe_erc20_info.
     case maybe_erc20_info of
       Some info \<Rightarrow> ensure (erc20_address info = address) (Evm_Manager_Error CurrencyIdExisted)
     | None \<Rightarrow>
         bindE (query (eb_name bridge address)) (\<lambda>nm.
         bindE (query (eb_symbol bridge address)) (\<lambda>sym.
         bindE (query (eb_decimals bridge address)) (\<lambda>dec.
         modE (\<lambda>s. s\<lparr>currency_id_map := (currency_id_map s)(dex_share_into_u32 (DexShare_Erc20 address) :=
           Some \<lparr>erc20_address = address, erc20_name = nm, erc20_symbol = sym, erc20_decimals = dec\<rparr>)\<rparr>)))))"

definition mapped_evm_address :: "u32 \<Rightarrow> 'w evm_manager_state \<Rightarrow> evm_address option" where
  "mapped_evm_address i s = map_option erc20_address (currency_id_map s i)"

text \<open>The entry of an address, if the entry under its number is for this very address.\<close>

definition erc20_entry :: "evm_address \<Rightarrow> 'w evm_manager_state \<Rightarrow> erc20_info option" where
  "erc20_entry address s =
     (case currency_id_map s (dex_share_into_u32 (DexShare_Erc20 address)) of
        None \<Rightarrow> None
      | Some info \<Rightarrow> if erc20_address info = address then Some info else None)"

definition string_bytes :: "string \<Rightarrow> u8 list" where
  "string_bytes s = map of_char s"

section \<open>Names, symbols and decimals\<close>

definition truncate_32 :: "u8 list \<Rightarrow> u8 list" where
  "truncate_32 bs = (if length bs > 32 then take 32 bs else bs)"

fun share_name :: "dex_share \<Rightarrow> 'w evm_manager_state \<Rightarrow> u8 list option" where
  "share_name (DexShare_Token t) s = map_option string_bytes (info_name (Token t))"
| "share_name (DexShare_Erc20 address) s = map_option erc20_name (erc20_entry address s)"

fun share_symbol :: "dex_share \<Rightarrow> 'w evm_manager_state \<Rightarrow> u8 list option" where
  "share_symbol (DexShare_Token t) s = map_option string_bytes (info_symbol (Token t))"
| "share_symbol (DexShare_Erc20 address) s = map_option erc20_symbol (erc20_entry address s)"

fun share_decimals :: "dex_share \<Rightarrow> 'w evm_manager_state \<Rightarrow> u8 option" where
  "share_decimals (DexShare_Token t) s = info_decimals (Token t)"
| "share_decimals (DexShare_Erc20 address) s = map_option erc20_decimals (erc20_entry address s)"

definition mapping_name :: "currency_id \<Rightarrow> 'w evm_manager_state \<Rightarrow> u8 list option" where
  "mapping_name c s = map_option truncate_32
     (case c of
        Token t \<Rightarrow> map_option string_bytes (info_name c)
      | DexShare s0 s1 \<Rightarrow>
          Option.bind (share_name s0 s) (\<lambda>name_0.
          Option.bind (share_name s1 s) (\<lambda>name_1.
          Some (string_bytes ''LP '' @ name_0 @ string_bytes '' - '' @ name_1)))
      | Erc20 address \<Rightarrow> map_option erc20_name (erc20_entry address s)
      | ChainBridge r \<Rightarrow> None)"

definition mapping_symbol :: "currency_id \<Rightarrow> 'w evm_manager_state \<Rightarrow> u8 list option" where
  "mapping_symbol c s = map_option truncate_32
     (case c of
        Token t \<Rightarrow> map_option string_bytes (info_symbol c)
      | DexShare s0 s1 \<Rightarrow>
          Option.bind (share_symbol s0 s) (\<lambda>symbol_0.
          Option.bind (share_symbol s1 s) (\<lambda>symbol_1.
          Some (string_bytes ''LP_'' @ symbol_0 @ string_bytes ''_'' @ symbol_1)))
      | Erc20 address \<Rightarrow> map_option erc20_symbol (erc20_entry address s)
      | ChainBridge r \<Rightarrow> None)"

definition mapping_decimals :: "currency_id \<Rightarrow> 'w evm_manager_state \<Rightarrow> u8 option" where
  "mapping_decimals c s =
     (case c of
        Token t \<Rightarrow> info_decimals c
      | DexShare s0 s1 \<Rightarrow>
          Option.bind (share_decimals s0 s) (\<lambda>decimals_0.
          Option.bind (share_decimals s1 s) (\<lambda>decimals_1.
          Some (max decimals_0 decimals_1)))
      | Erc20 address \<Rightarrow> map_option erc20_decimals (erc20_entry address s)
      | ChainBridge r \<Rightarrow> None)"

section \<open>Encoding\<close>

fun share_number :: "dex_share \<Rightarrow> 'w evm_manager_state \<Rightarrow> u32 option" where
  "share_number (DexShare_Token t) s = Some (dex_share_into_u32 (DexShare_Token t))"
| "share_number (DexShare_Erc20 address) s =
     map_option (\<lambda>_. dex_share_into_u32 (DexShare_Erc20 address)) (erc20_entry address s)"

definition encode_evm_address :: "currency_id \<Rightarrow> 'w evm_manager_state \<Rightarrow> evm_address option" where
  "encode_evm_address v s =
     (case v of
        DexShare left right \<Rightarrow>
          Option.bind (share_number left s) (\<lambda>symbol_0.
          Option.bind (share_number right s) (\<lambda>symbol_1.
          Some (dexshare_address (ucast symbol_0) (ucast symbol_1))))
      | _ \<Rightarrow> evm_address_try_from v)"

definition decode_share :: "u8 list \<Rightarrow> 'w evm_manager_state \<Rightarrow> dex_share option" where
  "decode_share bs s =
     (if bytes_start_with bs [0, 0, 0] then map_option DexShare_Token (token_try_from_u8 (bs ! 3))
      else map_option (\<lambda>info. DexShare_Erc20 (erc20_address info)) (currency_id_map s (u32_from_be_bytes bs)))"

definition decode_evm_address :: "evm_address \<Rightarrow> 'w evm_manager_state \<Rightarrow> currency_id option" where
  "decode_evm_address address s =
     (if bytes_start_with address h160_prefix_token
      then map_option Token (token_try_from_u8 (address ! 19))
      else if bytes_start_with address h160_prefix_dexshare
      then Option.bind (decode_share (take 4 (drop 12 address)) s) (\<lambda>left.
           Option.bind (decode_share (take 4 (drop 16 address)) s) (\<lambda>right.
           Some (DexShare left right)))
      else map_option (\<lambda>info. Erc20 (erc20_address info))
             (currency_id_map s (dex_share_into_u32 (DexShare_Erc20 address))))"

section \<open>Bytes of words\<close>

lemma list_of_4: "length bs = 4 \<Longrightarrow> bs = [bs ! 0, bs ! 1, bs ! 2, bs ! 3]"
  by (auto simp: numeral_eq_Suc length_Suc_conv)

lemma u32_bytes:
  "u32_to_be_bytes x = [ucast (drop_bit 24 x), ucast (drop_bit 16 x), ucast (drop_bit 8 x), ucast x]"
  by (simp add: u32_to_be_bytes_def upt_rec)

lemma u32_to_from_be_bytes:
  assumes "length bs = 4"
  shows "u32_to_be_bytes (u32_from_be_bytes bs) = bs"
proof -
  obtain a b c d where bs: "bs = [a, b, c, d]" using list_of_4[OF assms] by blast
  let ?x = "u32_from_be_bytes [a, b, c, d]"
  have "(ucast (drop_bit 24 ?x) :: u8) = a" "(ucast (drop_bit 16 ?x) :: u8) = b"
      "(ucast (drop_bit 8 ?x) :: u8) = c" "(ucast ?x :: u8) = d"
    by (rule bit_word_eqI; auto simp: u32_from_be_bytes_def bit_simps dest: bit_imp_le_length)+
  then show ?thesis by (simp add: bs u32_bytes)
qed

lemma u32_from_to_be_bytes [simp]: "u32_from_be_bytes (u32_to_be_bytes x) = x"
proof (rule bit_word_eqI)
  fix n assume "n < LENGTH(32)"
  then have "n < 8 \<or> (8 \<le> n \<and> n < 16) \<or> (16 \<le> n \<and> n < 24) \<or> (24 \<le> n \<and> n < 32)" by auto
  then consider "n < 8" | k where "n = 8 + k" "k < 8" | k where "n = 16 + k" "k < 8" | k where "n = 24 + k" "k < 8"
    by (elim disjE conjE) (auto simp: le_iff_add)
  then show "bit (u32_from_be_bytes (u32_to_be_bytes x)) n = bit x n"
    by cases (auto simp: u32_from_be_bytes_def u32_bytes bit_simps)
qed

lemma u64_of_two_u32:
  fixes a b :: u32
  shows "u64_to_be_bytes (push_bit 32 (ucast a) OR ucast b) = u32_to_be_bytes a @ u32_to_be_bytes b"
proof -
  let ?x = "push_bit 32 (ucast a) OR ucast b :: u64"
  have high: "(ucast (drop_bit (32 + n) ?x) :: u8) = ucast (drop_bit n a)" for n
    by (rule bit_word_eqI) (auto simp: bit_simps dest: bit_imp_le_length)
  have low: "(ucast (drop_bit n ?x) :: u8) = ucast (drop_bit n b)" if "n \<le> 24" for n
    using that by (intro bit_word_eqI) (auto simp: bit_simps dest: bit_imp_le_length)
  show ?thesis
    using high[of 24] high[of 16] high[of 8] high[of 0] low[of 24] low[of 16] low[of 8] low[of 0]
    by (simp add: u64_to_be_bytes_def u32_bytes upt_rec)
qed

end
