(* ===== verification/Evm_Manager_Properties.thy ===== *)
theory Evm_Manager_Properties
  imports Evm_Manager
begin

text \<open>
  Properties of the EVM manager: decoding inverts encoding, a registered contract keeps its number,
  and the names given to contracts fit in 32 bytes.
\<close>

section \<open>Encoded addresses\<close>

lemma zero_bytes:
  "replicate 8 (0 :: u8) = [0, 0, 0, 0, 0, 0, 0, 0]"
  "replicate 12 (0 :: u8) = [0, 0, 0, 0, 0, 0, 0, 0, 0, 0, 0, 0]"
  by (simp_all add: numeral_eq_Suc)

lemma mirrored_start_bit: "bit mirrored_tokens_address_start n \<longleftrightarrow> n = 24"
proof -
  have eq: "mirrored_tokens_address_start = push_bit 24 1"
    by (simp add: mirrored_tokens_address_start_def push_bit_eq_mult)
  show ?thesis unfolding eq bit_push_bit_iff bit_1_iff by auto
qed

lemma dexshare_address_bytes:
  "dexshare_address (ucast (a :: u32)) (ucast (b :: u32)) = h160_prefix_dexshare @ u32_to_be_bytes a @ u32_to_be_bytes b"
  by (simp add: dexshare_address_def from_low_u64_be_def u64_of_two_u32 address_or_def h160_prefix_dexshare_def
      u32_bytes zero_bytes)

lemma token_address_bytes:
  "from_low_u64_be (mirrored_tokens_address_start OR ucast (t :: u8)) = h160_prefix_token @ [t]"
proof -
  let ?x = "mirrored_tokens_address_start OR ucast t :: u64"
  have "(ucast ?x :: u8) = t" "(ucast (drop_bit 24 ?x) :: u8) = 1"
    by (rule bit_word_eqI; auto simp: mirrored_start_bit bit_simps dest: bit_imp_le_length)+
  moreover have "(ucast (drop_bit n ?x) :: u8) = 0" if "n = 8 \<or> n = 16 \<or> n = 32 \<or> n = 40 \<or> n = 48 \<or> n = 56" for n
    using that by (intro bit_word_eqI) (auto simp: mirrored_start_bit bit_simps dest: bit_imp_le_length)
  ultimately show ?thesis
    by (simp add: from_low_u64_be_def u64_to_be_bytes_def h160_prefix_token_def upt_rec zero_bytes)
qed

section \<open>Numbers of contracts\<close>

text \<open>Contracts whose number cannot be mistaken for a token: not all of the first 19 bytes are zero.\<close>

fun share_distinct :: "dex_share \<Rightarrow> bool" where
  "share_distinct (DexShare_Token t) \<longleftrightarrow> True"
| "share_distinct (DexShare_Erc20 a) \<longleftrightarrow> length a = 20 \<and> take 19 a \<noteq> replicate 19 0"

lemma token_number_bytes: "u32_to_be_bytes (dex_share_into_u32 (DexShare_Token t)) = [0, 0, 0, token_into_u8 t]"
  by (simp add: u32_to_from_be_bytes)

lemma takeWhile_zeros_short:
  assumes "length (takeWhile (\<lambda>d. d = 0) a) \<ge> n"
  shows "take n a = replicate n (0 :: u8)"
  using assms
proof (induction n arbitrary: a)
  case (Suc n)
  then show ?case by (cases a) (auto split: if_splits)
qed simp

lemma contract_number_bytes:
  assumes "share_distinct (DexShare_Erc20 a)"
  shows "\<not> bytes_start_with (u32_to_be_bytes (dex_share_into_u32 (DexShare_Erc20 a))) [0, 0, 0]"
proof -
  define z where "z = length (takeWhile (\<lambda>d. d = 0) a)"
  define i where "i = (if z > 16 then 16 else z)"
  have len: "length a = 20" and z19: "z < 19"
    using assms takeWhile_zeros_short[of 19 a] by (auto simp: z_def not_le[symmetric])
  have nz: "a ! z \<noteq> 0"
    using z19 len nth_length_takeWhile[of "\<lambda>d. d = 0" a] by (simp add: z_def)
  have "dex_share_into_u32 (DexShare_Erc20 a) = u32_from_be_bytes (take 4 (drop i a))"
    by (simp add: Let_def z_def i_def)
  moreover have "length (take 4 (drop i a)) = 4" using len by (simp add: i_def)
  ultimately have "u32_to_be_bytes (dex_share_into_u32 (DexShare_Erc20 a)) = take 4 (drop i a)"
    by (simp only: u32_to_from_be_bytes)
  moreover have "take 3 (take 4 (drop i a)) \<noteq> [0, 0, 0]"
  proof
    assume eq: "take 3 (take 4 (drop i a)) = [0, 0, 0]"
    have k: "i \<le> z" "z - i < 3" using z19 by (auto simp: i_def)
    then have "take 3 (take 4 (drop i a)) ! (z - i) = a ! z"
      using len z19 by (simp add: i_def)
    moreover have "[0, 0, 0 :: u8] ! (z - i) = 0"
      using k(2) by (auto simp: less_Suc_eq numeral_eq_Suc)
    ultimately show False using nz unfolding eq by simp
  qed
  moreover have "length [0, 0, 0 :: u8] = 3" by simp
  ultimately show ?thesis unfolding bytes_start_with_def by (simp only: not_False_eq_True)
qed

lemma erc20_entry_map:
  "erc20_entry a s = Some info \<Longrightarrow>
   currency_id_map s (dex_share_into_u32 (DexShare_Erc20 a)) = Some info \<and> erc20_address info = a"
  by (auto simp: erc20_entry_def split: option.splits if_splits)

lemma decode_share_number:
  assumes "share_number sh s = Some n" "share_distinct sh"
  shows "decode_share (u32_to_be_bytes n) s = Some sh"
proof (cases sh)
  case (DexShare_Token t)
  then have "u32_to_be_bytes n = [0, 0, 0, token_into_u8 t]"
    using assms(1) token_number_bytes[of t] by simp
  then show ?thesis by (simp add: decode_share_def bytes_start_with_def DexShare_Token)
next
  case (DexShare_Erc20 a)
  then obtain info where info: "erc20_entry a s = Some info" "n = dex_share_into_u32 (DexShare_Erc20 a)"
    using assms(1) by auto
  have "\<not> bytes_start_with (u32_to_be_bytes n) [0, 0, 0]"
    unfolding info(2) by (rule contract_number_bytes) (use assms(2) DexShare_Erc20 in simp)
  then show ?thesis
    using erc20_entry_map[OF info(1)] by (simp add: decode_share_def info(2) DexShare_Erc20 del: dex_share_into_u32.simps)
qed

lemma decode_dexshare_address:
  assumes "share_number l s = Some m" "share_number r s = Some n" "share_distinct l" "share_distinct r"
  shows "decode_evm_address (dexshare_address (ucast m) (ucast n)) s = Some (DexShare l r)"
proof -
  have len: "length (u32_to_be_bytes x) = 4" for x by (simp add: u32_bytes)
  show ?thesis
    using decode_share_number[OF assms(1,3)] decode_share_number[OF assms(2,4)]
    by (simp add: dexshare_address_bytes decode_evm_address_def bytes_start_with_def h160_prefix_token_def
        h160_prefix_dexshare_def len)
qed

text \<open>
  Currencies whose encoding is unambiguous: an ERC20 currency is registered and its address is not
  of one of the two forms reserved for tokens and liquidity shares.
\<close>

fun encoding_distinct :: "currency_id \<Rightarrow> 'w evm_manager_state \<Rightarrow> bool" where
  "encoding_distinct (DexShare l r) s \<longleftrightarrow> share_distinct l \<and> share_distinct r"
| "encoding_distinct (Erc20 a) s \<longleftrightarrow> erc20_entry a s \<noteq> None \<and>
     \<not> bytes_start_with a h160_prefix_token \<and> \<not> bytes_start_with a h160_prefix_dexshare"
| "encoding_distinct _ s \<longleftrightarrow> True"

lemma decode_encode:
  assumes "encode_evm_address v s = Some a" "encoding_distinct v s"
  shows "decode_evm_address a s = Some v"
proof (cases v)
  case (Token t)
  then have a: "a = h160_prefix_token @ [token_into_u8 t]"
    using assms(1) token_address_bytes[of "token_into_u8 t"] by (simp add: encode_evm_address_def)
  show ?thesis
    by (simp add: a decode_evm_address_def bytes_start_with_def Token) (simp add: h160_prefix_token_def)
next
  case (DexShare l r)
  then obtain m n where "share_number l s = Some m" "share_number r s = Some n" "a = dexshare_address (ucast m) (ucast n)"
    using assms(1) by (auto simp: encode_evm_address_def bind_eq_Some_conv)
  then show ?thesis using assms(2) DexShare by (simp add: decode_dexshare_address[of l s m r n])
next
  case (Erc20 x)
  then obtain info where "erc20_entry x s = Some info" using assms(2) by auto
  from erc20_entry_map[OF this] show ?thesis
    using assms Erc20 by (simp add: encode_evm_address_def decode_evm_address_def del: dex_share_into_u32.simps)
qed (use assms in \<open>simp add: encode_evm_address_def\<close>)

section \<open>The table of contracts\<close>

text \<open>An entry is registered under the number of its address.\<close>

definition table_inv :: "'w evm_manager_state \<Rightarrow> bool" where
  "table_inv s \<longleftrightarrow> (\<forall>i info. currency_id_map s i = Some info \<longrightarrow>
     dex_share_into_u32 (DexShare_Erc20 (erc20_address info)) = i)"

lemma query_run [simp, runs]: "query q s = (Inr x, t) \<longleftrightarrow> q (em_world s) = Inr x \<and> t = s"
  by (auto simp: query_def)

lemma keeps_query [keeps]: "preserves P (query q)"
  by (simp add: preserves_def query_def)

lemma set_erc20_mapping_cases:
  assumes "set_erc20_mapping bridge a s = (r, t)"
  shows "t = s \<or> (currency_id_map s (dex_share_into_u32 (DexShare_Erc20 a)) = None \<and>
    (\<exists>info. erc20_address info = a \<and>
      t = s\<lparr>currency_id_map := (currency_id_map s)(dex_share_into_u32 (DexShare_Erc20 a) := Some info)\<rparr>))"
  using assms
  by (auto simp: set_erc20_mapping_def query_def eff_defs simp del: dex_share_into_u32.simps
      split: option.splits sum.splits if_splits) (metis erc20_info.select_convs(1))+

definition table_keeps :: "u32 \<Rightarrow> erc20_info \<Rightarrow> 'w evm_manager_state \<Rightarrow> bool" where
  "table_keeps i info s \<longleftrightarrow> table_inv s \<and> currency_id_map s i = Some info"

lemma set_erc20_mapping_table: "preserves table_inv (set_erc20_mapping bridge a)"
  by (rule preservesI) (auto simp: table_inv_def simp del: dex_share_into_u32.simps dest!: set_erc20_mapping_cases split: if_splits)

interpretation evm_table: pallet_machine "set_erc20_mapping bridge" "\<lambda>a. True" table_inv for bridge
  by unfold_locales (rule set_erc20_mapping_table)

interpretation evm_table_entry: pallet_machine "set_erc20_mapping bridge" "\<lambda>a. True" "table_keeps i info" for bridge i info
proof unfold_locales
  show "preserves (table_keeps i info) (set_erc20_mapping bridge a)" for a
    using preservesD[OF set_erc20_mapping_table] set_erc20_mapping_cases
    by (intro preservesI) (fastforce simp: table_keeps_def)
qed

section \<open>Properties\<close>

text \<open>
  C11. Decoding inverts encoding: the EVM address of a token, of a registered ERC20 contract or of
  a liquidity share of tokens and registered contracts is decoded to the same currency, so that
  different currencies have different addresses. Excepted are contracts at addresses reserved for
  tokens and shares and, in shares, contracts whose first 19 address bytes are zero, which are
  mistaken for tokens.
\<close>

theorem evm_encoding_roundtrip:
  assumes "encode_evm_address v s = Some a" "encoding_distinct v s"
  shows "decode_evm_address a s = Some v"
  using assms by (rule decode_encode)

theorem evm_encoding_roundtrip_witness:
  "\<exists>a. encode_evm_address (DexShare (DexShare_Token SETT) (DexShare_Token USDJ))
        \<lparr>currency_id_map = (\<lambda>i. None), em_world = ()\<rparr> = Some a \<and>
     decode_evm_address a \<lparr>currency_id_map = (\<lambda>i. None), em_world = ()\<rparr> =
       Some (DexShare (DexShare_Token SETT) (DexShare_Token USDJ))"
proof -
  let ?s = "\<lparr>currency_id_map = (\<lambda>i. None), em_world = ()\<rparr>" and ?v = "DexShare (DexShare_Token SETT) (DexShare_Token USDJ)"
  obtain a where a: "encode_evm_address ?v ?s = Some a" by (simp add: encode_evm_address_def)
  then show ?thesis using evm_encoding_roundtrip[OF a] by simp
qed

text \<open>
  A registered contract keeps its number: after any sequence of registrations, succeeding or
  failing, an entry of the table is unchanged and stands under the number of its address, and
  registering another address with the same number fails with \<open>CurrencyIdExisted\<close> and changes
  nothing.
\<close>

theorem registered_contract_is_kept:
  assumes "table_inv s" "currency_id_map s i = Some info" "t = run_calls (set_erc20_mapping bridge) addresses s"
  shows "currency_id_map t i = Some info \<and> dex_share_into_u32 (DexShare_Erc20 (erc20_address info)) = i \<and>
    (dex_share_into_u32 (DexShare_Erc20 b) = i \<and> b \<noteq> erc20_address info \<longrightarrow>
       set_erc20_mapping bridge b t = (Inl (Evm_Manager_Error CurrencyIdExisted), t))"
proof -
  have "table_keeps i info t"
    unfolding assms(3) by (rule evm_table_entry.run_calls_inv) (simp_all add: table_keeps_def assms(1,2) list_all_iff)
  then show ?thesis
    by (auto simp: table_keeps_def table_inv_def set_erc20_mapping_def eff_defs simp del: dex_share_into_u32.simps)
qed

theorem registered_contract_is_kept_witness:
  "let info = \<lparr>erc20_address = replicate 20 7, erc20_name = [], erc20_symbol = [], erc20_decimals = 8\<rparr>;
       i = dex_share_into_u32 (DexShare_Erc20 (replicate 20 7));
       bridge = \<lparr>eb_name = (\<lambda>a w. Inr []), eb_symbol = (\<lambda>a w. Inr []), eb_decimals = (\<lambda>a w. Inr 9)\<rparr>
   in currency_id_map (run_calls (set_erc20_mapping bridge) [replicate 20 3, replicate 4 7 @ replicate 16 5]
        \<lparr>currency_id_map = (\<lambda>j. None)(i := Some info), em_world = ()\<rparr>) i = Some info"
  unfolding Let_def
  by (rule registered_contract_is_kept[THEN conjunct1, OF _ _ refl]) (simp_all add: table_inv_def del: dex_share_into_u32.simps)

text \<open>
  Names and symbols given to contracts have at most 32 bytes, and a liquidity share has a name
  exactly when both of its currencies have one.
\<close>

theorem mapping_name_bounded:
  "pred_option (\<lambda>nm. length nm \<le> 32) (mapping_name c s) \<and>
   pred_option (\<lambda>nm. length nm \<le> 32) (mapping_symbol c s) \<and>
   (mapping_name (DexShare l r) s = None \<longleftrightarrow> mapping_name (dex_share_into l) s = None \<or> mapping_name (dex_share_into r) s = None)"
proof -
  have len: "length (truncate_32 nm) \<le> 32" for nm by (simp add: truncate_32_def)
  have share: "mapping_name (dex_share_into sh) s = map_option truncate_32 (share_name sh s)" for sh
    by (cases sh) (simp_all add: mapping_name_def)
  show ?thesis
  proof (intro conjI)
    show "pred_option (\<lambda>nm. length nm \<le> 32) (mapping_name c s)"
      "pred_option (\<lambda>nm. length nm \<le> 32) (mapping_symbol c s)"
      by (simp_all add: mapping_name_def mapping_symbol_def option.pred_map comp_def len option.pred_True)
    show "mapping_name (DexShare l r) s = None \<longleftrightarrow> mapping_name (dex_share_into l) s = None \<or> mapping_name (dex_share_into r) s = None"
      unfolding share by (cases "share_name l s"; cases "share_name r s") (simp_all add: mapping_name_def)
  qed
qed

end
