(* ===== verification/Storage_Meter.thy ===== *)
theory Storage_Meter
  imports Primitives
begin

text \<open>
  The storage meter of the EVM runner, \<open>lib-serml/evm/evm/src/runner/storage_meter.rs\<close>. A meter
  counts the storage a contract uses and gives back; the meter of a nested call has the meter of
  its caller as handler, so that the meters of a transaction form a stack over the handler of the
  runner, which is a parameter.
\<close>

section \<open>Meters and handlers\<close>

record meter =
  m_contract :: evm_address
  m_limit :: nat
  m_total_used :: nat
  m_self_used :: nat
  m_total_refunded :: nat
  m_self_refunded :: nat
  m_result :: "dispatch_error + unit"

text \<open>The trait \<open>StorageMeterHandler\<close>, as implemented by the runner.\<close>

record 'w storage_handler =
  h_reserve_storage :: "nat \<Rightarrow> ('w, unit) eff"
  h_unreserve_storage :: "nat \<Rightarrow> nat \<Rightarrow> nat \<Rightarrow> ('w, unit) eff"
  h_charge_storage :: "evm_address \<Rightarrow> nat \<Rightarrow> nat \<Rightarrow> ('w, unit) eff"

text \<open>The meters from the innermost outwards, over the handler of the runner.\<close>

type_synonym 'w meters = "meter list \<times> 'w"

abbreviation sat32_add :: "nat \<Rightarrow> nat \<Rightarrow> nat" where
  "sat32_add \<equiv> sat_add u32_max"

definition on_handler :: "('w, 'a) eff \<Rightarrow> ('w meters, 'a) eff" where
  "on_handler m = zoomE snd (\<lambda>w (ms, _). (ms, w)) m"

text \<open>
  \<open>handle\<close> on the innermost meter: an earlier error is returned again, otherwise the body runs.
\<close>

definition meter_handle :: "(meter \<Rightarrow> ('w meters, 'a) eff) \<Rightarrow> ('w meters, 'a) eff" where
  "meter_handle f = (\<lambda>(ms, w). case ms of
      [] \<Rightarrow> (Inl Other, (ms, w))
    | m # rest \<Rightarrow> (case m_result m of Inl e \<Rightarrow> (Inl e, (ms, w)) | Inr _ \<Rightarrow> f m (ms, w)))"

definition put_meter :: "meter \<Rightarrow> ('w meters, unit) eff" where
  "put_meter m = modE (\<lambda>(ms, w). (m # tl ms, w))"

section \<open>Reading a meter\<close>

definition available_storage :: "meter \<Rightarrow> nat" where
  "available_storage m =
     (case m_result m of
        Inr _ \<Rightarrow> sat_sub (sat32_add (m_limit m) (m_total_refunded m)) (m_total_used m)
      | Inl _ \<Rightarrow> 0)"

text \<open>The casts to \<open>i32\<close> wrap around.\<close>

definition used_storage :: "meter \<Rightarrow> int" where
  "used_storage m =
     sint (if m_total_used m > m_total_refunded m
           then word_of_nat (m_total_used m - m_total_refunded m)
           else - word_of_nat (m_total_refunded m - m_total_used m) :: u32)"

section \<open>Operations\<close>

definition fresh_meter :: "evm_address \<Rightarrow> nat \<Rightarrow> meter" where
  "fresh_meter contract limit = \<lparr>m_contract = contract, m_limit = limit, m_total_used = 0,
     m_self_used = 0, m_total_refunded = 0, m_self_refunded = 0, m_result = Inr ()\<rparr>"

text \<open>The outermost meter, over the handler of the runner.\<close>

definition meter_new :: "'w storage_handler \<Rightarrow> evm_address \<Rightarrow> nat \<Rightarrow> ('w meters, unit) eff" where
  "meter_new h contract limit =
     thenE (on_handler (h_reserve_storage h limit)) (modE (\<lambda>(ms, w). (fresh_meter contract limit # ms, w)))"

text \<open>A meter as handler reserves nothing.\<close>

definition child_meter :: "evm_address \<Rightarrow> ('w meters, unit) eff" where
  "child_meter contract = meter_handle (\<lambda>m.
     modE (\<lambda>(ms, w). (fresh_meter contract (available_storage m) # ms, w)))"

definition meter_charge :: "nat \<Rightarrow> ('w meters, unit) eff" where
  "meter_charge storage = meter_handle (\<lambda>m.
     put_meter (m\<lparr>m_total_used := sat32_add (m_total_used m) storage,
                  m_self_used := sat32_add (m_self_used m) storage\<rparr>))"

definition meter_uncharge :: "nat \<Rightarrow> ('w meters, unit) eff" where
  "meter_uncharge storage = meter_handle (\<lambda>m.
     put_meter (m\<lparr>m_total_used := sat_sub (m_total_used m) storage,
                  m_self_used := sat_sub (m_self_used m) storage\<rparr>))"

definition meter_refund :: "nat \<Rightarrow> ('w meters, unit) eff" where
  "meter_refund storage = meter_handle (\<lambda>m.
     put_meter (m\<lparr>m_total_refunded := sat32_add (m_total_refunded m) storage,
                  m_self_refunded := sat32_add (m_self_refunded m) storage\<rparr>))"

text \<open>
  \<open>charge_storage\<close> of a meter as handler: it counts the amounts and passes them outwards.
\<close>

fun charge_outwards :: "'w storage_handler \<Rightarrow> evm_address \<Rightarrow> nat \<Rightarrow> nat \<Rightarrow> ('w meters, unit) eff" where
  "charge_outwards h contract used refunded ([], w) =
     (case h_charge_storage h contract used refunded w of (r, w') \<Rightarrow> (r, ([], w')))"
| "charge_outwards h contract used refunded (m # ms, w) =
     (case m_result m of
        Inl e \<Rightarrow> (Inl e, (m # ms, w))
      | Inr _ \<Rightarrow>
          (case charge_outwards h contract used refunded (ms, w) of
             (r, (ms', w')) \<Rightarrow>
               (r, (m\<lparr>m_total_refunded := sat32_add (m_total_refunded m) refunded,
                      m_total_used := sat32_add (m_total_used m) used\<rparr> # ms', w'))))"

definition unreserve_outwards :: "'w storage_handler \<Rightarrow> nat \<Rightarrow> nat \<Rightarrow> nat \<Rightarrow> ('w meters, unit) eff" where
  "unreserve_outwards h limit used refunded = (\<lambda>(ms, w).
     if ms = [] then on_handler (h_unreserve_storage h limit used refunded) (ms, w) else (Inr (), (ms, w)))"

text \<open>
  \<open>finish\<close> consumes the innermost meter; what remains is the stack of its handlers.
\<close>

definition meter_finish :: "'w storage_handler \<Rightarrow> ('w meters, unit) eff" where
  "meter_finish h = (\<lambda>(ms, w). case ms of
      [] \<Rightarrow> (Inl Other, (ms, w))
    | m # rest \<Rightarrow>
        (case m_result m of
           Inl e \<Rightarrow> (Inl e, (rest, w))
         | Inr _ \<Rightarrow>
             (thenE (ensure (\<not> m_limit m < sat_sub (m_total_used m) (m_total_refunded m)) OutOfStorage)
              (thenE (charge_outwards h (m_contract m) (m_self_used m) (m_self_refunded m))
                (unreserve_outwards h
                   (sat_sub (sat_sub (sat32_add (sat32_add (m_limit m) (m_self_used m)) (m_total_refunded m))
                      (m_total_used m)) (m_self_refunded m))
                   (m_self_used m) (m_self_refunded m)))) (rest, w)))"

section \<open>Runs of a transaction\<close>

datatype meter_op =
    Op_charge nat | Op_uncharge nat | Op_refund nat | Op_enter evm_address | Op_finish

fun meter_exec :: "'w storage_handler \<Rightarrow> meter_op \<Rightarrow> ('w meters, unit) eff" where
  "meter_exec h (Op_charge n) = meter_charge n"
| "meter_exec h (Op_uncharge n) = meter_uncharge n"
| "meter_exec h (Op_refund n) = meter_refund n"
| "meter_exec h (Op_enter c) = child_meter c"
| "meter_exec h Op_finish = meter_finish h"

text \<open>
  A handler that records the charges: the world is the list of what each contract was charged.
\<close>

definition recording_handler :: "(evm_address \<times> nat \<times> nat) list storage_handler" where
  "recording_handler = \<lparr>h_reserve_storage = (\<lambda>n. okE ()), h_unreserve_storage = (\<lambda>n u r. okE ()),
     h_charge_storage = (\<lambda>c u r. modE (\<lambda>log. (c, u, r) # log))\<rparr>"

definition charged :: "(evm_address \<times> nat \<times> nat) list \<Rightarrow> nat" where
  "charged log = sum_list (map (\<lambda>(c, u, r). u) log)"

definition given_back :: "(evm_address \<times> nat \<times> nat) list \<Rightarrow> nat" where
  "given_back log = sum_list (map (\<lambda>(c, u, r). r) log)"

text \<open>
  A step within a transaction: the counters stay in 32 bits, and no more is uncharged than this
  very meter was charged.
\<close>

definition counters_fit :: "(evm_address \<times> nat \<times> nat) list meters \<Rightarrow> bool" where
  "counters_fit s \<longleftrightarrow>
     charged (snd s) + sum_list (map m_self_used (fst s)) \<le> u32_max \<and>
     given_back (snd s) + sum_list (map m_self_refunded (fst s)) \<le> u32_max"

inductive meter_step :: "(evm_address \<times> nat \<times> nat) list meters \<Rightarrow> (evm_address \<times> nat \<times> nat) list meters \<Rightarrow> bool" where
  charge: "meter_charge n s = (r, t) \<Longrightarrow>
     charged (snd s) + sum_list (map m_self_used (fst s)) + n \<le> u32_max \<Longrightarrow> meter_step s t"
| uncharge: "meter_uncharge n (m # ms, w) = (r, t) \<Longrightarrow> n \<le> m_self_used m \<Longrightarrow> meter_step (m # ms, w) t"
| refund: "meter_refund n s = (r, t) \<Longrightarrow>
     given_back (snd s) + sum_list (map m_self_refunded (fst s)) + n \<le> u32_max \<Longrightarrow> meter_step s t"
| enter: "child_meter c s = (r, t) \<Longrightarrow> meter_step s t"
| leave: "meter_finish recording_handler (m # n # ms, w) = (r, t) \<Longrightarrow> meter_step (m # n # ms, w) t"

text \<open>
  The books of a stack: every meter is in order, and its totals are its own amounts plus what was
  charged within it; the outermost has seen everything charged so far, an inner meter at most
  that.
\<close>

fun books :: "meter list \<Rightarrow> nat \<Rightarrow> nat \<Rightarrow> bool" where
  "books [] u r \<longleftrightarrow> True"
| "books [m] u r \<longleftrightarrow> m_result m = Inr () \<and> m_total_used m = m_self_used m + u \<and>
     m_total_refunded m = m_self_refunded m + r"
| "books (m # n # ms) u r \<longleftrightarrow> m_result m = Inr () \<and>
     (\<exists>u' r'. u' \<le> u \<and> r' \<le> r \<and> m_total_used m = m_self_used m + u' \<and> m_total_refunded m = m_self_refunded m + r') \<and>
     books (n # ms) u r"

definition meters_inv :: "evm_address \<Rightarrow> nat \<Rightarrow> (evm_address \<times> nat \<times> nat) list meters \<Rightarrow> bool" where
  "meters_inv contract limit s \<longleftrightarrow> fst s \<noteq> [] \<and>
     m_contract (last (fst s)) = contract \<and> m_limit (last (fst s)) = limit \<and>
     books (fst s) (charged (snd s)) (given_back (snd s)) \<and> counters_fit s"

lemma books_ok: "books (m # ms) u r \<Longrightarrow> m_result m = Inr ()"
  by (cases ms) auto

lemma books_Cons: "books (m # n # ms) u r \<Longrightarrow> books (n # ms) u r"
  by simp

lemma books_change:
  assumes "books (m # ms) u r" "m_result m' = Inr ()"
    and "\<And>u' r'. m_total_used m = m_self_used m + u' \<Longrightarrow> m_total_refunded m = m_self_refunded m + r' \<Longrightarrow> u' \<le> u \<Longrightarrow> r' \<le> r \<Longrightarrow>
      m_total_used m' = m_self_used m' + u' \<and> m_total_refunded m' = m_self_refunded m' + r'"
  shows "books (m' # ms) u r"
proof (cases ms)
  case Nil
  then show ?thesis using assms(1,2) assms(3)[of u r] by simp
next
  case (Cons n ns)
  then obtain u' r' where "u' \<le> u" "r' \<le> r" "m_total_used m = m_self_used m + u'" "m_total_refunded m = m_self_refunded m + r'"
    using assms(1) by auto
  then show ?thesis using assms(1,2) assms(3)[of u' r'] Cons by auto
qed

lemma books_totals:
  assumes "books (m # ms) u r"
  shows "m_total_used m \<le> m_self_used m + u" "m_total_refunded m \<le> m_self_refunded m + r"
  using assms by (cases ms; auto)+

text \<open>What a leaving meter hands over is added to every meter around it.\<close>

lemma charge_outwards_books:
  assumes "books ms u r" "ms \<noteq> []" "u + x + sum_list (map m_self_used ms) \<le> u32_max"
    "r + y + sum_list (map m_self_refunded ms) \<le> u32_max"
  shows "\<exists>ms'. charge_outwards recording_handler c x y (ms, w) = (Inr (), (ms', (c, x, y) # w)) \<and>
    books ms' (u + x) (r + y) \<and> map m_self_used ms' = map m_self_used ms \<and>
    map m_self_refunded ms' = map m_self_refunded ms \<and>
    m_contract (last ms') = m_contract (last ms) \<and> m_limit (last ms') = m_limit (last ms) \<and> ms' \<noteq> []"
  using assms
proof (induction ms)
  case (Cons m ms)
  let ?m = "m\<lparr>m_total_refunded := m_total_refunded m + y, m_total_used := m_total_used m + x\<rparr>"
  have ok: "m_result m = Inr ()" by (rule books_ok[OF Cons.prems(1)])
  have "m_total_used m + x \<le> u32_max" "m_total_refunded m + y \<le> u32_max"
    using books_totals[OF Cons.prems(1)] Cons.prems(3,4) by simp_all
  then have m: "m\<lparr>m_total_refunded := sat32_add (m_total_refunded m) y, m_total_used := sat32_add (m_total_used m) x\<rparr> = ?m"
    by simp
  show ?case
  proof (cases ms)
    case Nil
    then show ?thesis
      using Cons.prems(1) ok m by (simp add: recording_handler_def modE_def)
  next
    case (Cons n ns)
    then obtain ms' where ms': "charge_outwards recording_handler c x y (ms, w) = (Inr (), (ms', (c, x, y) # w))"
        "books ms' (u + x) (r + y)" "map m_self_used ms' = map m_self_used ms" "map m_self_refunded ms' = map m_self_refunded ms"
        "m_contract (last ms') = m_contract (last ms)" "m_limit (last ms') = m_limit (last ms)" "ms' \<noteq> []"
      using Cons.IH Cons.prems by auto
    obtain u' r' where "u' \<le> u" "r' \<le> r" "m_total_used m = m_self_used m + u'" "m_total_refunded m = m_self_refunded m + r'"
      using Cons.prems(1) Cons by auto
    then have "books (?m # ms') (u + x) (r + y)"
      using ms'(2,7) ok by (cases ms') (auto intro!: exI[of _ "u' + x"] exI[of _ "r' + y"])
    then show ?thesis
      using ms' ok m Cons by (intro exI[of _ "?m # ms'"]) simp
  qed
qed simp

lemma meters_inv_Cons:
  assumes "meters_inv c l (m # ms, w)"
  shows "m_result m = Inr ()" "books (m # ms) (charged w) (given_back w)"
    "m_total_used m \<le> m_self_used m + charged w" "m_total_refunded m \<le> m_self_refunded m + given_back w"
  using assms books_ok books_totals by (auto simp: meters_inv_def)

text \<open>An update of the innermost meter that keeps its books.\<close>

lemma meters_inv_update:
  assumes inv: "meters_inv c l (m # ms, w)"
    and keep: "m_contract m' = m_contract m" "m_limit m' = m_limit m" "m_result m' = Inr ()"
    and bal: "m_total_used m' + m_self_used m = m_total_used m + m_self_used m'"
      "m_total_refunded m' + m_self_refunded m = m_total_refunded m + m_self_refunded m'"
    and fit: "counters_fit (m' # ms, w)"
  shows "meters_inv c l (m' # ms, w)"
proof -
  have "books (m' # ms) (charged w) (given_back w)"
    by (rule books_change[OF meters_inv_Cons(2)[OF inv] keep(3)]) (use bal in auto)
  moreover have "m_contract (last (m' # ms)) = c \<and> m_limit (last (m' # ms)) = l"
    using inv keep by (auto simp: meters_inv_def)
  ultimately show ?thesis using fit by (simp add: meters_inv_def)
qed

lemma meter_step_inv:
  assumes "meter_step s t" "meters_inv c l s"
  shows "meters_inv c l t"
  using assms(1)
proof (cases rule: meter_step.cases)
  case (charge n r)
  obtain m ms w where s: "s = (m # ms, w)" using assms(2) by (cases s; cases "fst s") (auto simp: meters_inv_def)
  note m = meters_inv_Cons[OF assms(2)[unfolded s]]
  have sum: "charged w + (m_self_used m + sum_list (map m_self_used ms)) + n \<le> u32_max"
    using charge(2) by (simp add: s)
  then have le: "m_total_used m + n \<le> u32_max" "m_self_used m + n \<le> u32_max" using m(3) by linarith+
  have t: "t = (m\<lparr>m_total_used := m_total_used m + n, m_self_used := m_self_used m + n\<rparr> # ms, w)"
    using charge(1) m(1) le by (simp add: s meter_charge_def meter_handle_def put_meter_def modE_def)
  show ?thesis
    unfolding t using assms(2) sum m(1)
    by (intro meters_inv_update[OF assms(2)[unfolded s]]) (auto simp: s meters_inv_def counters_fit_def)
next
  case (uncharge n m ms w r)
  note m = meters_inv_Cons[OF assms(2)[unfolded uncharge(1)]]
  have le: "n \<le> m_total_used m"
  proof (cases ms)
    case Nil
    then show ?thesis using m(2) uncharge(3) by simp
  next
    case (Cons n' ns)
    then show ?thesis using m(2) uncharge(3) by auto
  qed
  have t: "t = (m\<lparr>m_total_used := m_total_used m - n, m_self_used := m_self_used m - n\<rparr> # ms, w)"
    using uncharge(2) m(1) by (simp add: meter_uncharge_def meter_handle_def put_meter_def modE_def)
  show ?thesis
    unfolding t using assms(2) m(1) le uncharge(3)
    by (intro meters_inv_update[OF assms(2)[unfolded uncharge(1)]]) (auto simp: uncharge(1) meters_inv_def counters_fit_def)
next
  case (refund n r)
  obtain m ms w where s: "s = (m # ms, w)" using assms(2) by (cases s; cases "fst s") (auto simp: meters_inv_def)
  note m = meters_inv_Cons[OF assms(2)[unfolded s]]
  have sum: "given_back w + (m_self_refunded m + sum_list (map m_self_refunded ms)) + n \<le> u32_max"
    using refund(2) by (simp add: s)
  then have le: "m_total_refunded m + n \<le> u32_max" "m_self_refunded m + n \<le> u32_max" using m(4) by linarith+
  have t: "t = (m\<lparr>m_total_refunded := m_total_refunded m + n, m_self_refunded := m_self_refunded m + n\<rparr> # ms, w)"
    using refund(1) m(1) le by (simp add: s meter_refund_def meter_handle_def put_meter_def modE_def)
  show ?thesis
    unfolding t using assms(2) sum m(1)
    by (intro meters_inv_update[OF assms(2)[unfolded s]]) (auto simp: s meters_inv_def counters_fit_def)
next
  case (enter contract r)
  obtain m ms w where s: "s = (m # ms, w)" using assms(2) by (cases s; cases "fst s") (auto simp: meters_inv_def)
  note m = meters_inv_Cons[OF assms(2)[unfolded s]]
  have t: "t = (fresh_meter contract (available_storage m) # m # ms, w)"
    using enter m(1) by (simp add: s child_meter_def meter_handle_def modE_def)
  show ?thesis
    using assms(2) by (auto simp: t s meters_inv_def counters_fit_def fresh_meter_def)
next
  case (leave m n ms w r)
  note m = meters_inv_Cons[OF assms(2)[unfolded leave(1)]]
  have books: "books (n # ms) (charged w) (given_back w)" using books_Cons[OF m(2)] .
  have fit: "charged w + m_self_used m + sum_list (map m_self_used (n # ms)) \<le> u32_max"
      "given_back w + m_self_refunded m + sum_list (map m_self_refunded (n # ms)) \<le> u32_max"
    using assms(2) by (simp_all add: leave(1) meters_inv_def counters_fit_def)
  from charge_outwards_books[OF books _ fit] obtain ms' where
      ms': "charge_outwards recording_handler (m_contract m) (m_self_used m) (m_self_refunded m) (n # ms, w)
        = (Inr (), (ms', (m_contract m, m_self_used m, m_self_refunded m) # w))"
      "books ms' (charged w + m_self_used m) (given_back w + m_self_refunded m)"
      "map m_self_used ms' = map m_self_used (n # ms)" "map m_self_refunded ms' = map m_self_refunded (n # ms)"
      "m_contract (last ms') = m_contract (last (n # ms))" "m_limit (last ms') = m_limit (last (n # ms))" "ms' \<noteq> []"
    by blast
  have "t = (n # ms, w) \<or> t = (ms', (m_contract m, m_self_used m, m_self_refunded m) # w)"
    using leave(2) m(1) ms'(1,7)
    by (auto simp: meter_finish_def thenE_def bindE_def ensure_def okE_def failE_def unreserve_outwards_def split: if_splits)
  then show ?thesis
  proof
    assume t: "t = (n # ms, w)"
    show ?thesis using assms(2) books by (simp add: t leave(1) meters_inv_def counters_fit_def)
  next
    assume t: "t = (ms', (m_contract m, m_self_used m, m_self_refunded m) # w)"
    show ?thesis
      using assms(2) ms' fit by (simp add: t leave(1) meters_inv_def counters_fit_def charged_def given_back_def add.commute add.left_commute)
  qed
qed

lemma meter_steps_inv: "meter_step\<^sup>*\<^sup>* s t \<Longrightarrow> meters_inv c l s \<Longrightarrow> meters_inv c l t"
  by (induction rule: rtranclp_induct) (auto intro: meter_step_inv)

section \<open>Properties\<close>



end
