(* ===== verification/Precompile_Input.thy ===== *)
theory Precompile_Input
  imports Evm_Accounts Evm_Types
begin

text \<open>
  The input of the precompiled contracts, \<open>runtime/common/src/precompile/input.rs\<close>: a length word,
  the function selector and parameters of 32 bytes each, as Solidity encodes a call. The address and
  currency mappings are the traits of \<open>support\<close>, collected in records. Indices and lengths are
  natural numbers; those of the code are words of the machine and stay far below their bound,
  because an index beyond the input fails.
\<close>

section \<open>Errors and traits\<close>

text \<open>A successful precompile returns bytes and the gas it used.\<close>

type_synonym returned = "u8 list \<times> nat"
type_synonym ('w, 'a) pce = "(exit_error, 'w, 'a) effect"

record 'w address_mapping =
  am_get_account_id :: "evm_address \<Rightarrow> 'w \<Rightarrow> account_id"
  am_get_evm_address :: "account_id \<Rightarrow> 'w \<Rightarrow> evm_address option"
  am_get_default_evm_address :: "account_id \<Rightarrow> 'w \<Rightarrow> evm_address"

record 'w currency_id_mapping =
  cm_name :: "currency_id \<Rightarrow> 'w \<Rightarrow> u8 list option"
  cm_symbol :: "currency_id \<Rightarrow> 'w \<Rightarrow> u8 list option"
  cm_decimals :: "currency_id \<Rightarrow> 'w \<Rightarrow> u8 option"
  cm_decode_evm_address :: "evm_address \<Rightarrow> 'w \<Rightarrow> currency_id option"

section \<open>Numbers as bytes\<close>

text \<open>Big-endian numbers of any length, and \<open>U256::to_big_endian\<close>.\<close>

abbreviation be_number :: "u8 list \<Rightarrow> nat" where
  "be_number \<equiv> account_of_bytes"

abbreviation be_word :: "nat \<Rightarrow> u8 list" where
  "be_word \<equiv> account_bytes"

section \<open>The input\<close>

definition input_bytes_length :: nat where "input_bytes_length = 32"
definition function_selector_length :: nat where "function_selector_length = 4"
definition per_param_bytes :: nat where "per_param_bytes = 32"
definition balance_bytes :: nat where "balance_bytes = 16"
definition u64_bytes :: nat where "u64_bytes = 8"
definition u32_bytes_length :: nat where "u32_bytes_length = 4"

lemmas input_lengths = input_bytes_length_def function_selector_length_def per_param_bytes_def
  balance_bytes_def u64_bytes_def u32_bytes_length_def

definition param_start :: "nat \<Rightarrow> nat" where
  "param_start n =
     (if n = 0 then input_bytes_length
      else input_bytes_length + function_selector_length + per_param_bytes * (n - 1))"

definition param_end :: "nat \<Rightarrow> nat option \<Rightarrow> nat" where
  "param_end n len =
     (if n = 0 then param_start n + function_selector_length
      else param_start n + unwrap_or len per_param_bytes)"

definition nth_param :: "u8 list \<Rightarrow> nat \<Rightarrow> nat option \<Rightarrow> ('w, u8 list) pce" where
  "nth_param content n len =
     thenE (ensure (param_end n len \<le> length content) (Exit_Other ''invalid input''))
       (okE (take (param_end n len - param_start n) (drop (param_start n) content)))"

text \<open>The action by its selector; \<open>try_from\<close> is the conversion of the enumeration.\<close>

definition input_action :: "(nat \<Rightarrow> 'act option) \<Rightarrow> u8 list \<Rightarrow> ('w, 'act) pce" where
  "input_action try_from content =
     bindE (nth_param content 0 None) (\<lambda>param.
     ok_or (try_from (be_number param)) (Exit_Other ''invalid action''))"

definition account_id_at :: "'w address_mapping \<Rightarrow> u8 list \<Rightarrow> nat \<Rightarrow> ('w, account_id) pce" where
  "account_id_at am content index =
     bindE (nth_param content index None) (\<lambda>param. getE (am_get_account_id am (drop 12 param)))"

definition evm_address_at :: "u8 list \<Rightarrow> nat \<Rightarrow> ('w, evm_address) pce" where
  "evm_address_at content index =
     bindE (nth_param content index None) (\<lambda>param. okE (drop 12 param))"

definition currency_id_at :: "'w currency_id_mapping \<Rightarrow> u8 list \<Rightarrow> nat \<Rightarrow> ('w, currency_id) pce" where
  "currency_id_at cm content index =
     bindE (evm_address_at content index) (\<lambda>address.
     bindE (getE (cm_decode_evm_address cm address)) (\<lambda>c.
     ok_or c (Exit_Other ''invalid currency id'')))"

definition balance_at :: "u8 list \<Rightarrow> nat \<Rightarrow> ('w, balance) pce" where
  "balance_at content index =
     bindE (nth_param content index None) (\<lambda>param. okE (be_number (drop (per_param_bytes - balance_bytes) param)))"

text \<open>The bytes of a signed amount are in two's complement.\<close>

definition amount_at :: "u8 list \<Rightarrow> nat \<Rightarrow> ('w, amount) pce" where
  "amount_at content index =
     bindE (nth_param content index None) (\<lambda>param.
     okE (sint (word_of_nat (be_number (drop (per_param_bytes - balance_bytes) param)) :: 128 word)))"

definition u64_at :: "u8 list \<Rightarrow> nat \<Rightarrow> ('w, nat) pce" where
  "u64_at content index =
     bindE (nth_param content index None) (\<lambda>param. okE (be_number (drop (per_param_bytes - u64_bytes) param)))"

definition u32_at :: "u8 list \<Rightarrow> nat \<Rightarrow> ('w, nat) pce" where
  "u32_at content index =
     bindE (nth_param content index None) (\<lambda>param. okE (be_number (drop (per_param_bytes - u32_bytes_length) param)))"

definition bytes_at :: "u8 list \<Rightarrow> nat \<Rightarrow> nat \<Rightarrow> ('w, u8 list) pce" where
  "bytes_at content index len = nth_param content index (Some len)"

text \<open>The loops of the exchange's contract that read a path of currencies.\<close>

primrec path_at :: "'w currency_id_mapping \<Rightarrow> u8 list \<Rightarrow> nat \<Rightarrow> nat \<Rightarrow> ('w, currency_id list) pce" where
  "path_at cm content index 0 = okE []"
| "path_at cm content index (Suc n) =
     bindE (currency_id_at cm content index) (\<lambda>c.
     bindE (path_at cm content (Suc index) n) (\<lambda>cs. okE (c # cs)))"

section \<open>The encoding of a call\<close>

text \<open>What Solidity sends: a length word, the selector, and parameters of 32 bytes.\<close>

definition abi_call :: "u8 list \<Rightarrow> u8 list \<Rightarrow> u8 list list \<Rightarrow> u8 list" where
  "abi_call len selector params = len @ selector @ concat params"

definition abi_header :: "u8 list \<Rightarrow> u8 list \<Rightarrow> u8 list list \<Rightarrow> bool" where
  "abi_header len selector params \<longleftrightarrow>
     length len = 32 \<and> length selector = 4 \<and> list_all (\<lambda>p. length p = 32) params"

definition abi_address :: "evm_address \<Rightarrow> u8 list" where
  "abi_address a = replicate 12 0 @ a"

section \<open>Reading what was encoded\<close>

lemma be_number_bound: "be_number bs < 256 ^ length bs"
proof (induction bs rule: rev_induct)
  case (snoc b bs)
  have "unat b < 256" using unsigned_less[of b] by simp
  then have "be_number bs * 256 + unat b < (be_number bs + 1) * 256" by simp
  also have "\<dots> \<le> 256 ^ length bs * 256" using snoc by (intro mult_right_mono) simp_all
  finally show ?case by (simp add: account_of_bytes_snoc mult.commute)
qed (simp add: account_of_bytes_def)

lemma be_number_append: "be_number (as @ bs) = be_number as * 256 ^ length bs + be_number bs"
proof (induction bs rule: rev_induct)
  case (snoc b bs)
  have "be_number (as @ bs @ [b]) = be_number (as @ bs) * 256 + unat b"
    using account_of_bytes_snoc[of "as @ bs" b] by simp
  then show ?case by (simp add: snoc account_of_bytes_snoc algebra_simps)
qed (simp add: account_of_bytes_def)

lemma be_number_word: "n < 256 ^ 32 \<Longrightarrow> be_number (be_word n) = n"
proof -
  assume n: "n < 256 ^ 32"
  have "be_number (be_word n) < 256 ^ 32" using be_number_bound[of "be_word n"] by simp
  moreover have "be_word (be_number (be_word n)) = be_word n" by (rule account_bytes_of_bytes) simp
  ultimately show ?thesis using account_bytes_inj n by blast
qed

lemma be_number_drop_word:
  assumes "k \<le> 32" "n < 256 ^ (32 - k)"
  shows "be_number (drop k (be_word n)) = n"
proof -
  let ?hi = "be_number (take k (be_word n))" and ?lo = "be_number (drop k (be_word n))"
  have "(256::nat) ^ (32 - k) \<le> 256 ^ 32" by (rule power_increasing) simp_all
  then have "n = ?hi * 256 ^ (32 - k) + ?lo"
    using be_number_append[of "take k (be_word n)" "drop k (be_word n)"] be_number_word[of n] assms by simp
  moreover have "?hi = 0"
  proof (rule ccontr)
    assume "?hi \<noteq> 0"
    then have "256 ^ (32 - k) \<le> ?hi * 256 ^ (32 - k)" by simp
    with calculation assms(2) show False by linarith
  qed
  ultimately show ?thesis by simp
qed

lemma nth_param_run [simp]:
  "nth_param content n len s = (Inr p, t) \<longleftrightarrow>
     param_end n len \<le> length content \<and> p = take (param_end n len - param_start n) (drop (param_start n) content) \<and> t = s"
  by (auto simp: nth_param_def)

lemma nth_param_length: "nth_param content (Suc n) None s = (Inr p, t) \<Longrightarrow> length p = 32"
  by (auto simp: param_end_def param_start_def input_lengths)

text \<open>The inputs never change the storage.\<close>

lemma keeps_nth_param [keeps]: "preserves P (nth_param content n len)"
  unfolding nth_param_def by (intro keeps)

lemma keeps_inputs [keeps]:
  "preserves P (input_action try_from content)" "preserves P (account_id_at am content i)"
  "preserves P (evm_address_at content i)" "preserves P (currency_id_at cm content i)"
  "preserves P (balance_at content i)" "preserves P (amount_at content i)"
  "preserves P (u64_at content i)" "preserves P (u32_at content i)" "preserves P (bytes_at content i n)"
  unfolding input_action_def account_id_at_def evm_address_at_def currency_id_at_def balance_at_def
    amount_at_def u64_at_def u32_at_def bytes_at_def
  by (intro keeps)+

lemma keeps_path_at [keeps]: "preserves P (path_at cm content i n)"
  by (induction n arbitrary: i) (simp_all, (intro keeps | simp add: keeps)+)

lemma concat_nth_block:
  "list_all (\<lambda>p. length p = k) ps \<Longrightarrow> i < length ps \<Longrightarrow> take k (drop (k * i) (concat ps)) = ps ! i"
proof (induction ps arbitrary: i)
  case (Cons p ps)
  then show ?case by (cases i) simp_all
qed simp

lemma concat_blocks_length: "list_all (\<lambda>p. length p = k) ps \<Longrightarrow> length (concat ps) = k * length ps"
  by (induction ps) simp_all

lemma nth_param_abi:
  assumes "abi_header len selector params"
  shows "nth_param (abi_call len selector params) 0 None s = (Inr selector, s)"
    "i < length params \<Longrightarrow> nth_param (abi_call len selector params) (Suc i) None s = (Inr (params ! i), s)"
proof -
  have blocks: "list_all (\<lambda>p. length p = 32) params" and len: "length len = 32" "length selector = 4"
    using assms by (simp_all add: abi_header_def)
  show "nth_param (abi_call len selector params) 0 None s = (Inr selector, s)"
    using len by (simp add: param_end_def param_start_def input_lengths abi_call_def)
  assume i: "i < length params"
  then have "32 + 4 + 32 * i + 32 \<le> length (abi_call len selector params)"
    using len concat_blocks_length[OF blocks] by (simp add: abi_call_def)
  moreover have "drop (32 + 4 + 32 * i) (abi_call len selector params) = drop (32 * i) (concat params)"
    using len by (simp add: abi_call_def)
  ultimately show "nth_param (abi_call len selector params) (Suc i) None s = (Inr (params ! i), s)"
    using concat_nth_block[OF blocks i] by (simp add: param_end_def param_start_def input_lengths)
qed

text \<open>Each kind of parameter is read back as it was written.\<close>

lemma abi_reads:
  assumes h: "abi_header len selector params" and i: "i < length params"
  shows "balance_at (abi_call len selector params) (Suc i) s = (Inr (be_number (drop 16 (params ! i))), s)"
    "u64_at (abi_call len selector params) (Suc i) s = (Inr (be_number (drop 24 (params ! i))), s)"
    "u32_at (abi_call len selector params) (Suc i) s = (Inr (be_number (drop 28 (params ! i))), s)"
    "evm_address_at (abi_call len selector params) (Suc i) s = (Inr (drop 12 (params ! i)), s)"
    "account_id_at am (abi_call len selector params) (Suc i) s = (Inr (am_get_account_id am (drop 12 (params ! i)) s), s)"
    "currency_id_at cm (abi_call len selector params) (Suc i) s =
       ok_or (cm_decode_evm_address cm (drop 12 (params ! i)) s) (Exit_Other ''invalid currency id'') s"
  by (simp_all add: balance_at_def u64_at_def u32_at_def evm_address_at_def account_id_at_def currency_id_at_def
      bindE_def nth_param_abi(2)[OF h i] input_lengths getE_def okE_def)

lemma path_at_run:
  "path_at cm content i n s = (Inr cs, t) \<longleftrightarrow>
     t = s \<and> length cs = n \<and> (\<forall>j<n. currency_id_at cm content (i + j) s = (Inr (cs ! j), s))"
proof (induction n arbitrary: i cs t)
  case (Suc n)
  have unchanged: "u = s" if "currency_id_at cm content i s = (r, u)" for i r u
    using preservesD[OF keeps_inputs(4), of "\<lambda>x. x = s", OF refl that] by simp
  show ?case
  proof
    assume "path_at cm content i (Suc n) s = (Inr cs, t)"
    then obtain c u ds where c: "currency_id_at cm content i s = (Inr c, u)"
      and ds: "path_at cm content (Suc i) n u = (Inr ds, t)" "cs = c # ds" by auto
    have "u = s" using c unchanged by blast
    with c ds Suc.IH show "t = s \<and> length cs = Suc n \<and> (\<forall>j<Suc n. currency_id_at cm content (i + j) s = (Inr (cs ! j), s))"
      by (auto simp: less_Suc_eq_0_disj)
  next
    assume r: "t = s \<and> length cs = Suc n \<and> (\<forall>j<Suc n. currency_id_at cm content (i + j) s = (Inr (cs ! j), s))"
    then obtain c ds where cs: "cs = c # ds" "length ds = n" by (cases cs) auto
    have at: "currency_id_at cm content (i + j) s = (Inr (cs ! j), s)" if "j < Suc n" for j using r that by blast
    have "currency_id_at cm content i s = (Inr c, s)" using at[of 0] cs by simp
    moreover have "path_at cm content (Suc i) n s = (Inr ds, s)"
      unfolding Suc.IH using at[of "Suc _"] cs by simp
    ultimately show "path_at cm content i (Suc n) s = (Inr cs, t)" using cs r by auto
  qed
qed auto

end
