(* ===== verification/Nft.thy ===== *)
theory Nft
  imports Primitives
begin

text \<open>
  The NFT pallet, \<open>lib-serml/tokens/nft/src/lib.rs\<close>: classes and tokens with deposits that are
  reserved on the account of a class and on the owner of a token. The storage of classes and
  tokens is the ORML pallet \<open>orml_nft\<close>, the deposits are kept by the native currency, and the
  creator of a class becomes a proxy of its account; these three are parameters.
\<close>

section \<open>Data\<close>

type_synonym class_id = nat
type_synonym token_id = nat
type_synonym cid = "u8 list"

datatype class_property = Transferable | Burnable

text \<open>\<open>Properties\<close> is the byte of a set of flags.\<close>

type_synonym properties = u8

primrec property_bit :: "class_property \<Rightarrow> u8" where
  "property_bit Transferable = 1"
| "property_bit Burnable = 2"

definition has_property :: "properties \<Rightarrow> class_property \<Rightarrow> bool" where
  "has_property ps p \<longleftrightarrow> ps AND property_bit p = property_bit p"

definition encode_properties :: "properties \<Rightarrow> u8 list" where
  "encode_properties ps = [ps]"

text \<open>Decoding takes one byte from the input and accepts the defined flags only.\<close>

definition decode_properties :: "u8 list \<Rightarrow> (properties \<times> u8 list) option" where
  "decode_properties input =
     (case input of
        [] \<Rightarrow> None
      | field # rest \<Rightarrow>
          if field AND NOT (property_bit Transferable OR property_bit Burnable) = 0
          then Some (field, rest) else None)"

record class_data =
  cd_deposit :: balance
  cd_properties :: properties

record token_data =
  td_deposit :: balance

text \<open>What \<open>orml_nft\<close> stores of a class and of a token, without the metadata.\<close>

record class_info =
  ci_owner :: account_id
  ci_total_issuance :: nat
  ci_data :: class_data

record token_entry =
  ti_owner :: account_id
  ti_data :: token_data

datatype existence_requirement = KeepAlive | AllowDeath

datatype nft_event =
    CreatedClass account_id class_id
  | MintedToken account_id account_id class_id nat
  | TransferredToken account_id account_id class_id token_id
  | BurnedToken account_id class_id token_id
  | BurnedTokenWithRemark account_id class_id token_id nat
  | DestroyedClass account_id class_id

record 'w nft_config =
  nf_next_class_id :: "'w \<Rightarrow> class_id"
  nf_classes :: "class_id \<Rightarrow> 'w \<Rightarrow> class_info option"
  nf_tokens :: "class_id \<Rightarrow> token_id \<Rightarrow> 'w \<Rightarrow> token_entry option"
  nf_tokens_by_owner :: "account_id \<Rightarrow> 'w \<Rightarrow> (class_id \<times> token_id) list"
  nf_orml_create_class :: "account_id \<Rightarrow> cid \<Rightarrow> class_data \<Rightarrow> ('w, class_id) eff"
  nf_orml_mint :: "account_id \<Rightarrow> class_id \<Rightarrow> cid \<Rightarrow> token_data \<Rightarrow> ('w, token_id) eff"
  nf_orml_transfer :: "account_id \<Rightarrow> account_id \<Rightarrow> class_id \<times> token_id \<Rightarrow> ('w, unit) eff"
  nf_orml_burn :: "account_id \<Rightarrow> class_id \<times> token_id \<Rightarrow> ('w, unit) eff"
  nf_orml_destroy_class :: "account_id \<Rightarrow> class_id \<Rightarrow> ('w, unit) eff"
  nf_free_balance :: "account_id \<Rightarrow> 'w \<Rightarrow> balance"
  nf_pay :: "account_id \<Rightarrow> account_id \<Rightarrow> balance \<Rightarrow> existence_requirement \<Rightarrow> ('w, unit) eff"
  nf_reserve :: "account_id \<Rightarrow> balance \<Rightarrow> ('w, unit) eff"
  nf_unreserve :: "account_id \<Rightarrow> balance \<Rightarrow> 'w \<Rightarrow> balance \<times> 'w"
  nf_proxy_deposit :: "nat \<Rightarrow> balance"
  nf_add_proxy_delegate :: "account_id \<Rightarrow> account_id \<Rightarrow> ('w, unit) eff"
  nf_remove_proxy_delegate :: "account_id \<Rightarrow> account_id \<Rightarrow> ('w, unit) eff"
  nf_create_class_deposit :: balance
  nf_create_token_deposit :: balance
  nf_sub_account :: "class_id \<Rightarrow> account_id"
  nf_lookup :: "nat \<Rightarrow> account_id option"
  nf_hashing :: "u8 list \<Rightarrow> nat"

record 'w nft_state =
  nf_world :: 'w
  nf_events :: "nft_event list"

abbreviation nfE :: "nft_error \<Rightarrow> dispatch_error" where
  "nfE \<equiv> Nft_Error"

definition inN :: "('w, 'a) eff \<Rightarrow> ('w nft_state, 'a) eff" where
  "inN m = zoomE nf_world (\<lambda>w s. s\<lparr>nf_world := w\<rparr>) m"

definition nft_deposit_event :: "nft_event \<Rightarrow> ('w nft_state, unit) eff" where
  "nft_deposit_event ev = modE (\<lambda>s. s\<lparr>nf_events := nf_events s @ [ev]\<rparr>)"

definition nft_lookup :: "'w nft_config \<Rightarrow> nat \<Rightarrow> ('s, account_id) eff" where
  "nft_lookup cfg a = ok_or (nf_lookup cfg a) CannotLookup"

definition nft_class :: "'w nft_config \<Rightarrow> class_id \<Rightarrow> ('w nft_state, class_info) eff" where
  "nft_class cfg c = bindE (getE (\<lambda>s. nf_classes cfg c (nf_world s))) (\<lambda>x. ok_or x (nfE ClassIdNotFound))"

definition nft_token :: "'w nft_config \<Rightarrow> class_id \<times> token_id \<Rightarrow> ('w nft_state, token_entry) eff" where
  "nft_token cfg tok =
     bindE (getE (\<lambda>s. nf_tokens cfg (fst tok) (snd tok) (nf_world s))) (\<lambda>x. ok_or x (nfE TokenIdNotFound))"

text \<open>\<open>unreserve\<close> cannot fail; what it could not unreserve is ignored.\<close>

definition nft_unreserve :: "'w nft_config \<Rightarrow> account_id \<Rightarrow> balance \<Rightarrow> ('w nft_state, unit) eff" where
  "nft_unreserve cfg a n = inN (modE (\<lambda>w. snd (nf_unreserve cfg a n w)))"

section \<open>Operations\<close>

definition nft_do_transfer :: "'w nft_config \<Rightarrow> account_id \<Rightarrow> account_id \<Rightarrow> class_id \<times> token_id \<Rightarrow>
    ('w nft_state, unit) eff" where
  "nft_do_transfer cfg from to tok = transactional (
     bindE (nft_class cfg (fst tok)) (\<lambda>ci.
     thenE (ensure (has_property (cd_properties (ci_data ci)) Transferable) (nfE NonTransferable)) (
     bindE (nft_token cfg tok) (\<lambda>ti.
     thenE (inN (nf_orml_transfer cfg from to tok)) (
     thenE (nft_unreserve cfg from (td_deposit (ti_data ti))) (
     thenE (inN (nf_pay cfg from to (td_deposit (ti_data ti)) AllowDeath)) (
     thenE (inN (nf_reserve cfg to (td_deposit (ti_data ti))))
       (nft_deposit_event (TransferredToken from to (fst tok) (snd tok))))))))))"

definition nft_do_burn :: "'w nft_config \<Rightarrow> account_id \<Rightarrow> class_id \<times> token_id \<Rightarrow> ('w nft_state, unit) eff" where
  "nft_do_burn cfg who tok = transactional (
     bindE (nft_class cfg (fst tok)) (\<lambda>ci.
     thenE (ensure (has_property (cd_properties (ci_data ci)) Burnable) (nfE NonBurnable)) (
     bindE (nft_token cfg tok) (\<lambda>ti.
     thenE (ensure (who = ti_owner ti) (nfE NoPermission)) (
     thenE (inN (nf_orml_burn cfg who tok))
       (nft_unreserve cfg who (td_deposit (ti_data ti))))))))"

section \<open>Dispatchables\<close>

definition nft_create_class :: "'w nft_config \<Rightarrow> origin \<Rightarrow> cid \<Rightarrow> properties \<Rightarrow> ('w nft_state, unit) eff" where
  "nft_create_class cfg org metadata ps = transactional (
     bindE (ensure_signed org) (\<lambda>who.
     bindE (getE (\<lambda>s. nf_next_class_id cfg (nf_world s))) (\<lambda>next_id.
     let owner = nf_sub_account cfg next_id;
         class_deposit = nf_create_class_deposit cfg;
         total_deposit = sat_add u128_max (nf_proxy_deposit cfg 1) class_deposit
     in
     thenE (inN (nf_pay cfg who owner total_deposit KeepAlive)) (
     thenE (inN (nf_reserve cfg owner class_deposit)) (
     thenE (inN (nf_add_proxy_delegate cfg owner who)) (
     thenE (inN (nf_orml_create_class cfg owner metadata
              \<lparr>cd_deposit = class_deposit, cd_properties = ps\<rparr>))
       (nft_deposit_event (CreatedClass owner next_id))))))))"

definition mint_loop :: "'w nft_config \<Rightarrow> account_id \<Rightarrow> class_id \<Rightarrow> cid \<Rightarrow> token_data \<Rightarrow> nat \<Rightarrow>
    ('w nft_state, unit) eff" where
  "mint_loop cfg to c metadata data quantity =
     forE [0..<quantity] (\<lambda>_. thenE (inN (nf_orml_mint cfg to c metadata data)) (okE ()))"

definition nft_mint :: "'w nft_config \<Rightarrow> origin \<Rightarrow> nat \<Rightarrow> class_id \<Rightarrow> cid \<Rightarrow> nat \<Rightarrow> ('w nft_state, unit) eff" where
  "nft_mint cfg org dest c metadata quantity = transactional (
     bindE (ensure_signed org) (\<lambda>who.
     bindE (nft_lookup cfg dest) (\<lambda>to.
     thenE (ensure (1 \<le> quantity) (nfE InvalidQuantity)) (
     bindE (nft_class cfg c) (\<lambda>ci.
     thenE (ensure (who = ci_owner ci) (nfE NoPermission)) (
     let total_deposit = sat_mul u128_max (nf_create_token_deposit cfg) quantity in
     thenE (inN (nf_pay cfg who to total_deposit KeepAlive)) (
     thenE (inN (nf_reserve cfg to total_deposit)) (
     thenE (mint_loop cfg to c metadata \<lparr>td_deposit = nf_create_token_deposit cfg\<rparr> quantity)
       (nft_deposit_event (MintedToken who to c quantity))))))))))"

definition nft_transfer :: "'w nft_config \<Rightarrow> origin \<Rightarrow> nat \<Rightarrow> class_id \<times> token_id \<Rightarrow> ('w nft_state, unit) eff" where
  "nft_transfer cfg org dest tok = transactional (
     bindE (ensure_signed org) (\<lambda>who.
     bindE (nft_lookup cfg dest) (\<lambda>to. nft_do_transfer cfg who to tok)))"

definition nft_burn :: "'w nft_config \<Rightarrow> origin \<Rightarrow> class_id \<times> token_id \<Rightarrow> ('w nft_state, unit) eff" where
  "nft_burn cfg org tok = transactional (
     bindE (ensure_signed org) (\<lambda>who.
     thenE (nft_do_burn cfg who tok)
       (nft_deposit_event (BurnedToken who (fst tok) (snd tok)))))"

definition nft_burn_with_remark :: "'w nft_config \<Rightarrow> origin \<Rightarrow> class_id \<times> token_id \<Rightarrow> u8 list \<Rightarrow>
    ('w nft_state, unit) eff" where
  "nft_burn_with_remark cfg org tok remark = transactional (
     bindE (ensure_signed org) (\<lambda>who.
     thenE (nft_do_burn cfg who tok)
       (nft_deposit_event (BurnedTokenWithRemark who (fst tok) (snd tok) (nf_hashing cfg remark)))))"

definition nft_destroy_class :: "'w nft_config \<Rightarrow> origin \<Rightarrow> class_id \<Rightarrow> nat \<Rightarrow> ('w nft_state, unit) eff" where
  "nft_destroy_class cfg org c dst = transactional (
     bindE (ensure_signed org) (\<lambda>who.
     bindE (nft_lookup cfg dst) (\<lambda>dest.
     bindE (nft_class cfg c) (\<lambda>ci.
     thenE (ensure (who = ci_owner ci) (nfE NoPermission)) (
     thenE (ensure (ci_total_issuance ci = 0) (nfE CannotDestroyClass)) (
     thenE (nft_unreserve cfg who (cd_deposit (ci_data ci))) (
     thenE (inN (nf_orml_destroy_class cfg who c)) (
     thenE (inN (nf_remove_proxy_delegate cfg who dest)) (
     bindE (getE (\<lambda>s. nf_free_balance cfg who (nf_world s))) (\<lambda>free.
     thenE (inN (nf_pay cfg who dest free AllowDeath))
       (nft_deposit_event (DestroyedClass who c))))))))))))"

section \<open>The trait \<open>NFT\<close>\<close>

definition nft_balance :: "'w nft_config \<Rightarrow> account_id \<Rightarrow> 'w nft_state \<Rightarrow> nat" where
  "nft_balance cfg who s = length (nf_tokens_by_owner cfg who (nf_world s))"

definition nft_owner :: "'w nft_config \<Rightarrow> class_id \<times> token_id \<Rightarrow> 'w nft_state \<Rightarrow> account_id option" where
  "nft_owner cfg tok s = map_option ti_owner (nf_tokens cfg (fst tok) (snd tok) (nf_world s))"

definition nft_trait_transfer :: "'w nft_config \<Rightarrow> account_id \<Rightarrow> account_id \<Rightarrow> class_id \<times> token_id \<Rightarrow>
    ('w nft_state, unit) eff" where
  "nft_trait_transfer cfg from to tok = nft_do_transfer cfg from to tok"

section \<open>Calls\<close>

datatype nft_call =
    Call_create_class cid properties
  | Call_mint nat class_id cid nat
  | Call_transfer nat "class_id \<times> token_id"
  | Call_burn "class_id \<times> token_id"
  | Call_burn_with_remark "class_id \<times> token_id" "u8 list"
  | Call_destroy_class class_id nat

fun nft_exec :: "'w nft_config \<Rightarrow> origin \<times> nft_call \<Rightarrow> ('w nft_state, unit) eff" where
  "nft_exec cfg (org, Call_create_class m ps) = nft_create_class cfg org m ps"
| "nft_exec cfg (org, Call_mint dest c m q) = nft_mint cfg org dest c m q"
| "nft_exec cfg (org, Call_transfer dest tok) = nft_transfer cfg org dest tok"
| "nft_exec cfg (org, Call_burn tok) = nft_burn cfg org tok"
| "nft_exec cfg (org, Call_burn_with_remark tok r) = nft_burn_with_remark cfg org tok r"
| "nft_exec cfg (org, Call_destroy_class c dest) = nft_destroy_class cfg org c dest"

end
