(* ===== verification/Precompiles.thy ===== *)
theory Precompiles
  imports Precompile_Input Evm_Manager Dex Nft
begin

text \<open>
  The precompiled contracts of \<open>runtime/common/src/precompile/\<close>, which give EVM contracts access to
  the currencies, the NFTs, the storage rent, the prices, the scheduler and the exchange, and the
  table of \<open>mod.rs\<close> with the filter of their callers from \<open>runtime/common/src/lib.rs\<close>. Every
  contract is generic in the traits it calls; \<open>pallet_dex\<close> and \<open>pallet_nft\<close> are the
  implementations of two of them by the pallets of this development. The constant
  \<open>ExitSucceed::Returned\<close> of a success is left out, and of the context only the caller is used.
\<close>

type_synonym 'w precompile = "u8 list \<Rightarrow> nat option \<Rightarrow> evm_address \<Rightarrow> ('w, returned) pce"

definition returns :: "u8 list \<Rightarrow> ('w, returned) pce" where
  "returns bs = okE (bs, 0)"

text \<open>A dispatch error becomes an \<open>ExitError::Other\<close> with the text the runtime gives it.\<close>

definition exit_text :: "(dispatch_error \<Rightarrow> string) \<Rightarrow> ('w, 'a) eff \<Rightarrow> ('w, 'a) pce" where
  "exit_text err_text m = map_errE (\<lambda>e. Exit_Other (err_text e)) m"

text \<open>\<open>U256::from_big_endian\<close> panics on more than 32 bytes.\<close>

definition vec_u8_from_str :: "u8 list \<Rightarrow> ('w, u8 list) pce" where
  "vec_u8_from_str b = thenE (ensure (length b \<le> 32) Exit_Panic) (okE (be_word (be_number b)))"

definition vec_u8_from_balance :: "nat \<Rightarrow> u8 list" where
  "vec_u8_from_balance b = be_word b"

definition vec_u8_from_u8 :: "u8 \<Rightarrow> u8 list" where
  "vec_u8_from_u8 b = be_word (unat b)"

definition address_output :: "evm_address \<Rightarrow> u8 list" where
  "address_output a = replicate 12 0 @ a"

section \<open>Currencies\<close>

datatype multicurrency_action =
    Mc_QueryName | Mc_QuerySymbol | Mc_QueryDecimals | Mc_QueryTotalIssuance | Mc_QueryBalance | Mc_Transfer

definition multicurrency_action_of :: "nat \<Rightarrow> multicurrency_action option" where
  "multicurrency_action_of = map_of [(0x06fdde03, Mc_QueryName), (0x95d89b41, Mc_QuerySymbol),
     (0x313ce567, Mc_QueryDecimals), (0x18160ddd, Mc_QueryTotalIssuance), (0x70a08231, Mc_QueryBalance),
     (0xbeabacc8, Mc_Transfer)]"

text \<open>The currency is the one whose mirrored contract calls.\<close>

definition multicurrency_run ::
  "(dispatch_error \<Rightarrow> string) \<Rightarrow> 'w address_mapping \<Rightarrow> 'w currency_id_mapping \<Rightarrow> 'w multi_currency \<Rightarrow> u8 list \<Rightarrow>
   currency_id \<Rightarrow> multicurrency_action \<Rightarrow> ('w, returned) pce" where
  "multicurrency_run err_text am cm mc input c action =
     (case action of
       Mc_QueryName \<Rightarrow>
         bindE (bindE (getE (cm_name cm c)) (\<lambda>x. ok_or x (Exit_Other ''Get name failed''))) (\<lambda>name.
         bindE (vec_u8_from_str name) returns)
     | Mc_QuerySymbol \<Rightarrow>
         bindE (bindE (getE (cm_symbol cm c)) (\<lambda>x. ok_or x (Exit_Other ''Get symbol failed''))) (\<lambda>symbol.
         bindE (vec_u8_from_str symbol) returns)
     | Mc_QueryDecimals \<Rightarrow>
         bindE (bindE (getE (cm_decimals cm c)) (\<lambda>x. ok_or x (Exit_Other ''Get decimals failed''))) (\<lambda>decimals.
         returns (vec_u8_from_u8 decimals))
     | Mc_QueryTotalIssuance \<Rightarrow>
         bindE (getE (mc_total_issuance mc c)) (\<lambda>n. returns (vec_u8_from_balance n))
     | Mc_QueryBalance \<Rightarrow>
         bindE (account_id_at am input 1) (\<lambda>who.
         bindE (getE (mc_total_balance mc c who)) (\<lambda>n. returns (vec_u8_from_balance n)))
     | Mc_Transfer \<Rightarrow>
         bindE (account_id_at am input 1) (\<lambda>from.
         bindE (account_id_at am input 2) (\<lambda>to.
         bindE (balance_at input 3) (\<lambda>amount.
         thenE (exit_text err_text (mc_transfer mc c from to amount)) (returns [])))))"

definition multicurrency_execute ::
  "(dispatch_error \<Rightarrow> string) \<Rightarrow> 'w address_mapping \<Rightarrow> 'w currency_id_mapping \<Rightarrow> 'w multi_currency \<Rightarrow> 'w precompile" where
  "multicurrency_execute err_text am cm mc input target_gas caller =
     bindE (input_action multicurrency_action_of input) (\<lambda>action.
     bindE (bindE (getE (cm_decode_evm_address cm caller)) (\<lambda>x. ok_or x (Exit_Other ''invalid currency id''))) (\<lambda>c.
     multicurrency_run err_text am cm mc input c action))"

section \<open>NFTs\<close>

datatype nft_action = Nft_QueryBalance | Nft_QueryOwner | Nft_Transfer

definition nft_action_of :: "nat \<Rightarrow> nft_action option" where
  "nft_action_of = map_of [(0x70a08231, Nft_QueryBalance), (0xd9dad80d, Nft_QueryOwner), (0x411b252, Nft_Transfer)]"

record 'w nft_trait =
  nt_balance :: "account_id \<Rightarrow> 'w \<Rightarrow> nat"
  nt_owner :: "class_id \<times> token_id \<Rightarrow> 'w \<Rightarrow> account_id option"
  nt_transfer :: "account_id \<Rightarrow> account_id \<Rightarrow> class_id \<times> token_id \<Rightarrow> ('w, unit) eff"

definition nft_run ::
  "(dispatch_error \<Rightarrow> string) \<Rightarrow> 'w address_mapping \<Rightarrow> 'w nft_trait \<Rightarrow> u8 list \<Rightarrow> nft_action \<Rightarrow> ('w, returned) pce" where
  "nft_run err_text am nft input action =
     (case action of
       Nft_QueryBalance \<Rightarrow>
         bindE (account_id_at am input 1) (\<lambda>who.
         bindE (getE (nt_balance nft who)) (\<lambda>n. returns (vec_u8_from_balance n)))
     | Nft_QueryOwner \<Rightarrow>
         bindE (u32_at input 1) (\<lambda>c.
         bindE (u64_at input 2) (\<lambda>i.
         bindE (getE (nt_owner nft (c, i))) (\<lambda>maybe_owner.
         bindE (getE (\<lambda>w. case maybe_owner of
                   Some a \<Rightarrow> unwrap_or (am_get_evm_address am a w) (am_get_default_evm_address am a w)
                 | None \<Rightarrow> replicate 20 0)) (\<lambda>owner.
         returns (address_output owner)))))
     | Nft_Transfer \<Rightarrow>
         bindE (account_id_at am input 1) (\<lambda>from.
         bindE (account_id_at am input 2) (\<lambda>to.
         bindE (u32_at input 3) (\<lambda>c.
         bindE (u64_at input 4) (\<lambda>i.
         thenE (exit_text err_text (nt_transfer nft from to (c, i))) (returns []))))))"

definition nft_execute ::
  "(dispatch_error \<Rightarrow> string) \<Rightarrow> 'w address_mapping \<Rightarrow> 'w nft_trait \<Rightarrow> 'w precompile" where
  "nft_execute err_text am nft input target_gas caller =
     bindE (input_action nft_action_of input) (nft_run err_text am nft input)"

text \<open>The trait as the NFT pallet implements it.\<close>

definition pallet_nft :: "'w nft_config \<Rightarrow> 'w nft_state nft_trait" where
  "pallet_nft cfg = \<lparr>nt_balance = nft_balance cfg, nt_owner = nft_owner cfg, nt_transfer = nft_trait_transfer cfg\<rparr>"

section \<open>Storage rent\<close>

datatype state_rent_action =
    Sr_QueryNewContractExtraBytes | Sr_QueryStorageDepositPerByte | Sr_QueryMaintainer
  | Sr_QueryDeveloperDeposit | Sr_QueryDeploymentFee | Sr_TransferMaintainer

definition state_rent_action_of :: "nat \<Rightarrow> state_rent_action option" where
  "state_rent_action_of = map_of [(0xa23e8b82, Sr_QueryNewContractExtraBytes), (0x6e043998, Sr_QueryStorageDepositPerByte),
     (0x06ad1355, Sr_QueryMaintainer), (0x68a18855, Sr_QueryDeveloperDeposit), (0xf2cff57f, Sr_QueryDeploymentFee),
     (0xee0d2e12, Sr_TransferMaintainer)]"

record 'w state_rent =
  sr_new_contract_extra_bytes :: "'w \<Rightarrow> nat"
  sr_storage_deposit_per_byte :: "'w \<Rightarrow> balance"
  sr_maintainer :: "evm_address \<Rightarrow> ('w, evm_address) eff"
  sr_developer_deposit :: "'w \<Rightarrow> balance"
  sr_deployment_fee :: "'w \<Rightarrow> balance"
  sr_transfer_maintainer :: "account_id \<Rightarrow> evm_address \<Rightarrow> evm_address \<Rightarrow> ('w, unit) eff"

definition state_rent_execute ::
  "(dispatch_error \<Rightarrow> string) \<Rightarrow> 'w address_mapping \<Rightarrow> 'w state_rent \<Rightarrow> 'w precompile" where
  "state_rent_execute err_text am evm input target_gas caller =
     bindE (input_action state_rent_action_of input) (\<lambda>action.
     case action of
       Sr_QueryNewContractExtraBytes \<Rightarrow> bindE (getE (sr_new_contract_extra_bytes evm)) (\<lambda>n. returns (be_word n))
     | Sr_QueryStorageDepositPerByte \<Rightarrow> bindE (getE (sr_storage_deposit_per_byte evm)) (\<lambda>n. returns (vec_u8_from_balance n))
     | Sr_QueryMaintainer \<Rightarrow>
         bindE (evm_address_at input 1) (\<lambda>contract.
         bindE (exit_text err_text (sr_maintainer evm contract)) (\<lambda>maintainer. returns (address_output maintainer)))
     | Sr_QueryDeveloperDeposit \<Rightarrow> bindE (getE (sr_developer_deposit evm)) (\<lambda>n. returns (vec_u8_from_balance n))
     | Sr_QueryDeploymentFee \<Rightarrow> bindE (getE (sr_deployment_fee evm)) (\<lambda>n. returns (vec_u8_from_balance n))
     | Sr_TransferMaintainer \<Rightarrow>
         bindE (account_id_at am input 1) (\<lambda>from.
         bindE (evm_address_at input 2) (\<lambda>contract.
         bindE (evm_address_at input 3) (\<lambda>new_maintainer.
         thenE (exit_text err_text (sr_transfer_maintainer evm from contract new_maintainer)) (returns [])))))"

section \<open>Prices\<close>

datatype oracle_action = Or_GetPrice

definition oracle_action_of :: "nat \<Rightarrow> oracle_action option" where
  "oracle_action_of = map_of [(0x41976e09, Or_GetPrice)]"

text \<open>
  \<open>10u128.checked_pow((18 - decimals).into())\<close> or zero; the difference of bytes wraps around, as in
  a release build of the runtime.
\<close>

definition adjustment_multiplier :: "u8 \<Rightarrow> nat option" where
  "adjustment_multiplier decimals = narrow u128_max (10 ^ unat (18 - decimals))"

text \<open>\<open>wrapping_div\<close> panics on zero.\<close>

definition vec_u8_from_price :: "fixed_u128 \<Rightarrow> nat \<Rightarrow> ('w, u8 list) pce" where
  "vec_u8_from_price price multiplier = bindE (ok_or (chk_div price multiplier) Exit_Panic) (\<lambda>n. okE (be_word n))"

definition oracle_execute ::
  "'w currency_id_mapping \<Rightarrow> (currency_id \<Rightarrow> 'w \<Rightarrow> fixed_u128 option) \<Rightarrow> 'w precompile" where
  "oracle_execute cm get_price input target_gas caller =
     bindE (input_action oracle_action_of input) (\<lambda>action.
     case action of Or_GetPrice \<Rightarrow>
       bindE (currency_id_at cm input 1) (\<lambda>c.
       bindE (getE (\<lambda>w. (unwrap_or (get_price c w) 0, cm_decimals cm c w))) (\<lambda>(price0, maybe_decimals).
       let (price1, decimals) = (case maybe_decimals of Some d \<Rightarrow> (price0, d) | None \<Rightarrow> (0, 0));
           (price, multiplier) = (case adjustment_multiplier decimals of Some m \<Rightarrow> (price1, m) | None \<Rightarrow> (0, 0))
       in bindE (vec_u8_from_price price multiplier) returns)))"

section \<open>Scheduled calls\<close>

record task_info =
  ti_prefix :: "u8 list"
  ti_id :: nat
  ti_sender :: evm_address
  ti_fee :: balance

datatype schedule_action = Sc_Schedule | Sc_Cancel | Sc_Reschedule

definition schedule_action_of :: "nat \<Rightarrow> schedule_action option" where
  "schedule_action_of = map_of [(0x64c91905, Sc_Schedule), (0x93e32661, Sc_Cancel), (0x28302f34, Sc_Reschedule)]"

text \<open>\<open>Call::scheduled_call\<close>: sender, target, input, value, gas limit and storage limit.\<close>

datatype scheduled_call = Scheduled_call evm_address evm_address "u8 list" balance nat nat

text \<open>
  The scheduler, the fees, the storage item \<open>EvmSchedulerNextID\<close>, the SCALE codec of a task and the
  feature \<open>with-ethereum-compatibility\<close>.
\<close>

record 'w scheduling =
  sg_next_id :: "'w \<Rightarrow> nat"
  sg_set_next_id :: "nat \<Rightarrow> 'w \<Rightarrow> 'w"
  sg_encode :: "task_info \<Rightarrow> u8 list"
  sg_decode :: "u8 list \<Rightarrow> task_info option"
  sg_schedule_named :: "u8 list \<Rightarrow> nat \<Rightarrow> scheduled_call \<Rightarrow> ('w, unit) eff"
  sg_cancel_named :: "u8 list \<Rightarrow> ('w, unit) eff"
  sg_reschedule_named :: "u8 list \<Rightarrow> nat \<Rightarrow> ('w, unit) eff"
  sg_gas_to_weight :: "nat \<Rightarrow> nat"
  sg_reserve_fee :: "account_id \<Rightarrow> nat \<Rightarrow> ('w, balance) eff"
  sg_unreserve_fee :: "account_id \<Rightarrow> balance \<Rightarrow> 'w \<Rightarrow> 'w"
  sg_ethereum_compatibility :: bool

text \<open>The bytes of \<open>"ScheduleCall"\<close>.\<close>

definition schedule_call_prefix :: "u8 list" where
  "schedule_call_prefix = [83, 99, 104, 101, 100, 117, 108, 101, 67, 97, 108, 108]"

text \<open>A task id behind its length, in an array of 96 bytes.\<close>

definition task_id_with_len :: "u8 list \<Rightarrow> ('w, u8 list) pce" where
  "task_id_with_len task_id =
     thenE (ensure (length task_id \<le> 64) Exit_Panic)
       (okE (be_word (length task_id) @ task_id @ replicate (64 - length task_id) 0))"

definition schedule_action_schedule ::
  "(dispatch_error \<Rightarrow> string) \<Rightarrow> 'w address_mapping \<Rightarrow> 'w scheduling \<Rightarrow> u8 list \<Rightarrow> ('w, returned) pce" where
  "schedule_action_schedule err_text am sg input =
     bindE (evm_address_at input 1) (\<lambda>from.
     bindE (evm_address_at input 2) (\<lambda>target.
     bindE (balance_at input 3) (\<lambda>val.
     bindE (u64_at input 4) (\<lambda>gas_limit.
     bindE (u32_at input 5) (\<lambda>storage_limit.
     bindE (u32_at input 6) (\<lambda>min_delay.
     bindE (u32_at input 8) (\<lambda>input_len.
     bindE (bytes_at input 9 input_len) (\<lambda>input_data.
     bindE (if sg_ethereum_compatibility sg then okE 0
            else bindE (getE (am_get_account_id am from)) (\<lambda>from_account.
                 exit_text err_text (sg_reserve_fee sg from_account (sg_gas_to_weight sg gas_limit)))) (\<lambda>fee.
     bindE (getE (sg_next_id sg)) (\<lambda>current_id.
     bindE (ok_or (chk_add u32_max current_id 1) (Exit_Other ''Scheduler next id overflow'')) (\<lambda>next_id.
     thenE (modE (sg_set_next_id sg next_id)) (
     let task_id = sg_encode sg \<lparr>ti_prefix = schedule_call_prefix, ti_id = current_id, ti_sender = from, ti_fee = fee\<rparr> in
     thenE (map_errE (\<lambda>_. Exit_Other ''Schedule failed'') (sg_schedule_named sg task_id min_delay
              (Scheduled_call from target input_data val gas_limit storage_limit)))
       (bindE (task_id_with_len task_id) returns)))))))))))))"

text \<open>The task of an id, when its sender is the one that asks.\<close>

definition owned_task :: "'w scheduling \<Rightarrow> evm_address \<Rightarrow> u8 list \<Rightarrow> ('w, task_info) pce" where
  "owned_task sg from task_id =
     bindE (ok_or (sg_decode sg task_id) (Exit_Other ''Decode task_id failed'')) (\<lambda>task_info.
     thenE (ensure (ti_sender task_info = from) (Exit_Other ''NoPermission'')) (okE task_info))"

definition schedule_action_cancel :: "'w address_mapping \<Rightarrow> 'w scheduling \<Rightarrow> u8 list \<Rightarrow> ('w, returned) pce" where
  "schedule_action_cancel am sg input =
     bindE (evm_address_at input 1) (\<lambda>from.
     bindE (u32_at input 3) (\<lambda>task_id_len.
     bindE (bytes_at input 4 task_id_len) (\<lambda>task_id.
     bindE (owned_task sg from task_id) (\<lambda>task_info.
     thenE (map_errE (\<lambda>_. Exit_Other ''Cancel schedule failed'') (sg_cancel_named sg task_id)) (
     thenE (whenE (\<not> sg_ethereum_compatibility sg)
              (bindE (getE (am_get_account_id am from)) (\<lambda>from_account.
               modE (sg_unreserve_fee sg from_account (ti_fee task_info)))))
       (returns []))))))"

definition schedule_action_reschedule ::
  "(dispatch_error \<Rightarrow> string) \<Rightarrow> 'w scheduling \<Rightarrow> u8 list \<Rightarrow> ('w, returned) pce" where
  "schedule_action_reschedule err_text sg input =
     bindE (evm_address_at input 1) (\<lambda>from.
     bindE (u32_at input 2) (\<lambda>min_delay.
     bindE (u32_at input 4) (\<lambda>task_id_len.
     bindE (bytes_at input 5 task_id_len) (\<lambda>task_id.
     bindE (owned_task sg from task_id) (\<lambda>task_info.
     thenE (exit_text err_text (sg_reschedule_named sg task_id min_delay)) (returns []))))))"

definition schedule_execute ::
  "(dispatch_error \<Rightarrow> string) \<Rightarrow> 'w address_mapping \<Rightarrow> 'w scheduling \<Rightarrow> 'w precompile" where
  "schedule_execute err_text am sg input target_gas caller =
     bindE (input_action schedule_action_of input) (\<lambda>action.
     case action of
       Sc_Schedule \<Rightarrow> schedule_action_schedule err_text am sg input
     | Sc_Cancel \<Rightarrow> schedule_action_cancel am sg input
     | Sc_Reschedule \<Rightarrow> schedule_action_reschedule err_text sg input)"

section \<open>The exchange\<close>

datatype dex_action =
    Dx_GetLiquidityPool | Dx_GetLiquidityTokenAddress | Dx_GetSwapTargetAmount | Dx_GetSwapSupplyAmount
  | Dx_SwapWithExactSupply | Dx_SwapWithExactTarget | Dx_AddLiquidity | Dx_RemoveLiquidity

definition dex_action_of :: "nat \<Rightarrow> dex_action option" where
  "dex_action_of = map_of [(0xf4f31ede, Dx_GetLiquidityPool), (0xffd73c4a, Dx_GetLiquidityTokenAddress),
     (0x4d60beb1, Dx_GetSwapTargetAmount), (0xdbcd19a2, Dx_GetSwapSupplyAmount), (0x579baa18, Dx_SwapWithExactSupply),
     (0x9782ac81, Dx_SwapWithExactTarget), (0x67088D59, Dx_AddLiquidity), (0x35315332, Dx_RemoveLiquidity)]"

text \<open>The trait \<open>DEXManager\<close>; the price impact limit is never given by the contract.\<close>

record 'w dex_manager =
  dm_get_liquidity_pool :: "currency_id \<Rightarrow> currency_id \<Rightarrow> 'w \<Rightarrow> balance \<times> balance"
  dm_get_liquidity_token_address :: "currency_id \<Rightarrow> currency_id \<Rightarrow> 'w \<Rightarrow> evm_address option"
  dm_get_swap_target_amount :: "currency_id list \<Rightarrow> balance \<Rightarrow> fixed_u128 option \<Rightarrow> 'w \<Rightarrow> balance option"
  dm_get_swap_supply_amount :: "currency_id list \<Rightarrow> balance \<Rightarrow> fixed_u128 option \<Rightarrow> 'w \<Rightarrow> balance option"
  dm_swap_with_exact_supply :: "account_id \<Rightarrow> currency_id list \<Rightarrow> balance \<Rightarrow> balance \<Rightarrow> fixed_u128 option \<Rightarrow> ('w, balance) eff"
  dm_swap_with_exact_target :: "account_id \<Rightarrow> currency_id list \<Rightarrow> balance \<Rightarrow> balance \<Rightarrow> fixed_u128 option \<Rightarrow> ('w, balance) eff"
  dm_add_liquidity :: "account_id \<Rightarrow> currency_id \<Rightarrow> currency_id \<Rightarrow> balance \<Rightarrow> balance \<Rightarrow> balance \<Rightarrow> bool \<Rightarrow> ('w, unit) eff"
  dm_remove_liquidity :: "account_id \<Rightarrow> currency_id \<Rightarrow> currency_id \<Rightarrow> balance \<Rightarrow> balance \<Rightarrow> balance \<Rightarrow> bool \<Rightarrow> ('w, unit) eff"

definition dex_query_pool :: "'w currency_id_mapping \<Rightarrow> 'w dex_manager \<Rightarrow> u8 list \<Rightarrow> ('w, returned) pce" where
  "dex_query_pool cm dm input =
     bindE (currency_id_at cm input 1) (\<lambda>a.
     bindE (currency_id_at cm input 2) (\<lambda>b.
     bindE (getE (dm_get_liquidity_pool dm a b)) (\<lambda>(balance_a, balance_b).
     returns (be_word balance_a @ be_word balance_b))))"

definition dex_query_token :: "'w currency_id_mapping \<Rightarrow> 'w dex_manager \<Rightarrow> u8 list \<Rightarrow> ('w, returned) pce" where
  "dex_query_token cm dm input =
     bindE (currency_id_at cm input 1) (\<lambda>a.
     bindE (currency_id_at cm input 2) (\<lambda>b.
     bindE (bindE (getE (dm_get_liquidity_token_address dm a b))
              (\<lambda>x. ok_or x (Exit_Other ''Dex get_liquidity_token_address failed''))) (\<lambda>address.
     bindE (vec_u8_from_str address) returns)))"

text \<open>The two quotes; parameter 1 is the offset of the array of the path.\<close>

definition dex_query_quote ::
  "(currency_id list \<Rightarrow> balance \<Rightarrow> fixed_u128 option \<Rightarrow> 'w \<Rightarrow> balance option) \<Rightarrow> string \<Rightarrow>
   'w currency_id_mapping \<Rightarrow> u8 list \<Rightarrow> ('w, returned) pce" where
  "dex_query_quote quote failed cm input =
     bindE (balance_at input 2) (\<lambda>amount.
     bindE (u32_at input 3) (\<lambda>path_len.
     bindE (path_at cm input 4 path_len) (\<lambda>path.
     bindE (bindE (getE (quote path amount None)) (\<lambda>x. ok_or x (Exit_Other failed))) (\<lambda>n.
     returns (be_word n)))))"

text \<open>The two swaps; parameter 2 is the offset of the array of the path.\<close>

definition dex_call_swap ::
  "(dispatch_error \<Rightarrow> string) \<Rightarrow>
   (account_id \<Rightarrow> currency_id list \<Rightarrow> balance \<Rightarrow> balance \<Rightarrow> fixed_u128 option \<Rightarrow> ('w, balance) eff) \<Rightarrow>
   'w address_mapping \<Rightarrow> 'w currency_id_mapping \<Rightarrow> u8 list \<Rightarrow> ('w, returned) pce" where
  "dex_call_swap err_text swap am cm input =
     bindE (account_id_at am input 1) (\<lambda>who.
     bindE (balance_at input 3) (\<lambda>amount.
     bindE (balance_at input 4) (\<lambda>bound.
     bindE (u32_at input 5) (\<lambda>path_len.
     bindE (path_at cm input 6 path_len) (\<lambda>path.
     bindE (exit_text err_text (swap who path amount bound None)) (\<lambda>n.
     returns (be_word n)))))))"

definition dex_call_liquidity ::
  "(dispatch_error \<Rightarrow> string) \<Rightarrow>
   (account_id \<Rightarrow> currency_id \<Rightarrow> currency_id \<Rightarrow> balance \<Rightarrow> balance \<Rightarrow> balance \<Rightarrow> bool \<Rightarrow> ('w, unit) eff) \<Rightarrow>
   'w address_mapping \<Rightarrow> 'w currency_id_mapping \<Rightarrow> u8 list \<Rightarrow> ('w, returned) pce" where
  "dex_call_liquidity err_text f am cm input =
     bindE (account_id_at am input 1) (\<lambda>who.
     bindE (currency_id_at cm input 2) (\<lambda>a.
     bindE (currency_id_at cm input 3) (\<lambda>b.
     bindE (balance_at input 4) (\<lambda>x.
     bindE (balance_at input 5) (\<lambda>y.
     bindE (balance_at input 6) (\<lambda>z.
     thenE (exit_text err_text (f who a b x y z False)) (returns [])))))))"

definition dex_run ::
  "(dispatch_error \<Rightarrow> string) \<Rightarrow> 'w address_mapping \<Rightarrow> 'w currency_id_mapping \<Rightarrow> 'w dex_manager \<Rightarrow> u8 list \<Rightarrow>
   dex_action \<Rightarrow> ('w, returned) pce" where
  "dex_run err_text am cm dm input action =
     (case action of
       Dx_GetLiquidityPool \<Rightarrow> dex_query_pool cm dm input
     | Dx_GetLiquidityTokenAddress \<Rightarrow> dex_query_token cm dm input
     | Dx_GetSwapTargetAmount \<Rightarrow>
         dex_query_quote (dm_get_swap_target_amount dm) ''Dex get_swap_target_amount failed'' cm input
     | Dx_GetSwapSupplyAmount \<Rightarrow>
         dex_query_quote (dm_get_swap_supply_amount dm) ''Dex get_swap_supply_amount failed'' cm input
     | Dx_SwapWithExactSupply \<Rightarrow> dex_call_swap err_text (dm_swap_with_exact_supply dm) am cm input
     | Dx_SwapWithExactTarget \<Rightarrow> dex_call_swap err_text (dm_swap_with_exact_target dm) am cm input
     | Dx_AddLiquidity \<Rightarrow> dex_call_liquidity err_text (dm_add_liquidity dm) am cm input
     | Dx_RemoveLiquidity \<Rightarrow> dex_call_liquidity err_text (dm_remove_liquidity dm) am cm input)"

definition dex_execute ::
  "(dispatch_error \<Rightarrow> string) \<Rightarrow> 'w address_mapping \<Rightarrow> 'w currency_id_mapping \<Rightarrow> 'w dex_manager \<Rightarrow> 'w precompile" where
  "dex_execute err_text am cm dm input target_gas caller =
     bindE (input_action dex_action_of input) (dex_run err_text am cm dm input)"

text \<open>The trait as the exchange pallet implements it.\<close>

definition pallet_dex :: "'w dex_config \<Rightarrow> 'w dex_state dex_manager" where
  "pallet_dex cfg = \<lparr>
     dm_get_liquidity_pool = (\<lambda>a b s. get_liquidity s a b),
     dm_get_liquidity_token_address = get_liquidity_token_address cfg,
     dm_get_swap_target_amount = (\<lambda>path n limit s. get_swap_target_amount cfg s path n limit),
     dm_get_swap_supply_amount = (\<lambda>path n limit s. get_swap_supply_amount cfg s path n limit),
     dm_swap_with_exact_supply = do_swap_with_exact_supply cfg,
     dm_swap_with_exact_target = do_swap_with_exact_target cfg,
     dm_add_liquidity = (\<lambda>who a b ma mb ms dep. transactional (do_add_liquidity cfg who a b ma mb ms dep)),
     dm_remove_liquidity = do_remove_liquidity cfg\<rparr>"

section \<open>The table of precompiles\<close>

definition precompile_address_start :: u64 where "precompile_address_start = 0x400"
definition predeploy_address_start :: u64 where "predeploy_address_start = 0x800"

definition system_contract_address_prefix :: "u8 list" where
  "system_contract_address_prefix = replicate 11 0"

definition is_system_contract :: "evm_address \<Rightarrow> bool" where
  "is_system_contract address \<longleftrightarrow> bytes_start_with address system_contract_address_prefix"

text \<open>Addresses are ordered as the numbers of their bytes.\<close>

definition is_setheum_precompile :: "evm_address \<Rightarrow> bool" where
  "is_setheum_precompile address \<longleftrightarrow>
     be_number (from_low_u64_be precompile_address_start) \<le> be_number address \<and>
     be_number address < be_number (from_low_u64_be predeploy_address_start)"

record 'w precompile_set =
  ps_evm :: "evm_address \<Rightarrow> u8 list \<Rightarrow> nat option \<Rightarrow> evm_address \<Rightarrow> 'w \<Rightarrow> ((exit_error + returned) \<times> 'w) option"
  ps_is_allowed :: "evm_address \<Rightarrow> bool"
  ps_multicurrency :: "'w precompile"
  ps_nft :: "'w precompile"
  ps_state_rent :: "'w precompile"
  ps_oracle :: "'w precompile"
  ps_schedule :: "'w precompile"
  ps_dex :: "'w precompile"

text \<open>\<open>None\<close>: there is no precompile at the address. The precompiles of Ethereum come first.\<close>

definition all_precompiles_execute ::
  "'w precompile_set \<Rightarrow> evm_address \<Rightarrow> u8 list \<Rightarrow> nat option \<Rightarrow> evm_address \<Rightarrow> 'w \<Rightarrow> ((exit_error + returned) \<times> 'w) option" where
  "all_precompiles_execute ps address input target_gas caller w =
     (case ps_evm ps address input target_gas caller w of
        Some r \<Rightarrow> Some r
      | None \<Rightarrow>
          if is_setheum_precompile address \<and> \<not> ps_is_allowed ps caller
          then Some (Inl (Exit_Other ''no permission''), w)
          else if address = from_low_u64_be precompile_address_start
          then Some (ps_multicurrency ps input target_gas caller w)
          else if address = from_low_u64_be (precompile_address_start + 1)
          then Some (ps_nft ps input target_gas caller w)
          else if address = from_low_u64_be (precompile_address_start + 2)
          then Some (ps_state_rent ps input target_gas caller w)
          else if address = from_low_u64_be (precompile_address_start + 3)
          then Some (ps_oracle ps input target_gas caller w)
          else if address = from_low_u64_be (precompile_address_start + 4)
          then Some (ps_schedule ps input target_gas caller w)
          else if address = from_low_u64_be (precompile_address_start + 5)
          then Some (ps_dex ps input target_gas caller w)
          else None)"

end
