(* ===== verification/Nft_Laws.thy ===== *)
theory Nft_Laws
  imports Nft
begin

text \<open>
  What the NFT pallet relies on: the documented behaviour of \<open>orml_nft\<close>, of the native currency
  and of the proxy pallet, as named laws, and what every operation of the pallet does under these
  laws to the classes, the tokens and the reserved deposits.
\<close>

section \<open>The laws of the back ends\<close>

definition cls :: "'w nft_config \<Rightarrow> 'w \<Rightarrow> class_id \<Rightarrow> class_info option" where
  "cls cfg w = (\<lambda>c. nf_classes cfg c w)"

definition toks :: "'w nft_config \<Rightarrow> 'w \<Rightarrow> class_id \<times> token_id \<Rightarrow> token_entry option" where
  "toks cfg w = (\<lambda>k. nf_tokens cfg (fst k) (snd k) w)"

text \<open>
  \<open>orml_nft\<close>: identifiers are fresh, only the owner of a token transfers or burns it, only the
  owner of a class destroys it, and nothing else changes.
\<close>

definition create_law :: "'w nft_config \<Rightarrow> bool" where
  "create_law cfg \<longleftrightarrow> (\<forall>a m d w c w'. nf_orml_create_class cfg a m d w = (Inr c, w') \<longrightarrow>
     cls cfg w c = None \<and> toks cfg w' = toks cfg w \<and>
     cls cfg w' = (cls cfg w)(c := Some \<lparr>ci_owner = a, ci_total_issuance = 0, ci_data = d\<rparr>))"

definition mint_law :: "'w nft_config \<Rightarrow> bool" where
  "mint_law cfg \<longleftrightarrow> (\<forall>a c m d w i w'. nf_orml_mint cfg a c m d w = (Inr i, w') \<longrightarrow>
     toks cfg w (c, i) = None \<and> toks cfg w' = (toks cfg w)((c, i) := Some \<lparr>ti_owner = a, ti_data = d\<rparr>) \<and>
     cls cfg w' = (cls cfg w)(c := map_option (ci_total_issuance_update Suc) (cls cfg w c)))"

definition transfer_law :: "'w nft_config \<Rightarrow> bool" where
  "transfer_law cfg \<longleftrightarrow> (\<forall>a b k w w'. nf_orml_transfer cfg a b k w = (Inr (), w') \<longrightarrow>
     (\<exists>ti. toks cfg w k = Some ti \<and> ti_owner ti = a \<and>
        toks cfg w' = (toks cfg w)(k := Some (ti\<lparr>ti_owner := b\<rparr>)) \<and> cls cfg w' = cls cfg w))"

definition burn_law :: "'w nft_config \<Rightarrow> bool" where
  "burn_law cfg \<longleftrightarrow> (\<forall>a k w w'. nf_orml_burn cfg a k w = (Inr (), w') \<longrightarrow>
     (\<exists>ti. toks cfg w k = Some ti \<and> ti_owner ti = a) \<and> toks cfg w' = (toks cfg w)(k := None) \<and>
     cls cfg w' = (cls cfg w)(fst k := map_option (ci_total_issuance_update (\<lambda>n. n - 1)) (cls cfg w (fst k))))"

definition destroy_law :: "'w nft_config \<Rightarrow> bool" where
  "destroy_law cfg \<longleftrightarrow> (\<forall>a c w w'. nf_orml_destroy_class cfg a c w = (Inr (), w') \<longrightarrow>
     toks cfg w' = toks cfg w \<and> cls cfg w' = (cls cfg w)(c := None))"

text \<open>
  The native currency and the proxies: \<open>rs\<close> is what an account has reserved apart from the
  deposits of its proxies, which the proxy pallet adds and removes itself.
\<close>

definition same_registry :: "'w nft_config \<Rightarrow> 'w \<Rightarrow> 'w \<Rightarrow> bool" where
  "same_registry cfg w w' \<longleftrightarrow> cls cfg w' = cls cfg w \<and> toks cfg w' = toks cfg w"

definition reserve_law :: "'w nft_config \<Rightarrow> ('w \<Rightarrow> account_id \<Rightarrow> balance) \<Rightarrow> bool" where
  "reserve_law cfg rs \<longleftrightarrow>
     (\<forall>a n w w'. nf_reserve cfg a n w = (Inr (), w') \<longrightarrow>
        same_registry cfg w w' \<and> rs w' = (rs w)(a := rs w a + n)) \<and>
     (\<forall>a n w. n \<le> rs w a \<longrightarrow> rs (snd (nf_unreserve cfg a n w)) = (rs w)(a := rs w a - n)) \<and>
     (\<forall>a n w. same_registry cfg w (snd (nf_unreserve cfg a n w)))"

definition keeps_reserved :: "'w nft_config \<Rightarrow> ('w \<Rightarrow> account_id \<Rightarrow> balance) \<Rightarrow> ('w, 'a) eff \<Rightarrow> bool" where
  "keeps_reserved cfg rs m \<longleftrightarrow> (\<forall>w r w'. m w = (Inr r, w') \<longrightarrow> rs w' = rs w)"

definition money_law :: "'w nft_config \<Rightarrow> ('w \<Rightarrow> account_id \<Rightarrow> balance) \<Rightarrow> bool" where
  "money_law cfg rs \<longleftrightarrow> reserve_law cfg rs \<and>
     (\<forall>a b n k. keeps_reserved cfg rs (nf_pay cfg a b n k)) \<and>
     (\<forall>a b. keeps_reserved cfg rs (nf_add_proxy_delegate cfg a b)) \<and>
     (\<forall>a b. keeps_reserved cfg rs (nf_remove_proxy_delegate cfg a b)) \<and>
     (\<forall>a m d. keeps_reserved cfg rs (nf_orml_create_class cfg a m d)) \<and>
     (\<forall>a c m d. keeps_reserved cfg rs (nf_orml_mint cfg a c m d)) \<and>
     (\<forall>a b k. keeps_reserved cfg rs (nf_orml_transfer cfg a b k)) \<and>
     (\<forall>a k. keeps_reserved cfg rs (nf_orml_burn cfg a k)) \<and>
     (\<forall>a c. keeps_reserved cfg rs (nf_orml_destroy_class cfg a c))"

definition keeps_registry :: "'w nft_config \<Rightarrow> ('w, 'a) eff \<Rightarrow> bool" where
  "keeps_registry cfg m \<longleftrightarrow> (\<forall>w r w'. m w = (Inr r, w') \<longrightarrow> same_registry cfg w w')"

definition nft_env :: "'w nft_config \<Rightarrow> ('w \<Rightarrow> account_id \<Rightarrow> balance) \<Rightarrow> bool" where
  "nft_env cfg rs \<longleftrightarrow> create_law cfg \<and> mint_law cfg \<and> transfer_law cfg \<and> burn_law cfg \<and> destroy_law cfg \<and>
     money_law cfg rs \<and>
     (\<forall>a b n k. keeps_registry cfg (nf_pay cfg a b n k)) \<and>
     (\<forall>a b. keeps_registry cfg (nf_add_proxy_delegate cfg a b)) \<and>
     (\<forall>a b. keeps_registry cfg (nf_remove_proxy_delegate cfg a b))"

lemma nft_envD:
  assumes "nft_env cfg rs"
  shows "create_law cfg" "mint_law cfg" "transfer_law cfg" "burn_law cfg" "destroy_law cfg" "reserve_law cfg rs"
    "keeps_reserved cfg rs (nf_pay cfg a b n k)" "keeps_registry cfg (nf_pay cfg a b n k)"
    "keeps_reserved cfg rs (nf_add_proxy_delegate cfg a b)" "keeps_registry cfg (nf_add_proxy_delegate cfg a b)"
    "keeps_reserved cfg rs (nf_remove_proxy_delegate cfg a b)" "keeps_registry cfg (nf_remove_proxy_delegate cfg a b)"
    "keeps_reserved cfg rs (nf_orml_create_class cfg a m d)" "keeps_reserved cfg rs (nf_orml_mint cfg a c m td)"
    "keeps_reserved cfg rs (nf_orml_transfer cfg a b tok)" "keeps_reserved cfg rs (nf_orml_burn cfg a tok)"
    "keeps_reserved cfg rs (nf_orml_destroy_class cfg a c)"
  using assms by (simp_all add: nft_env_def money_law_def del: split_paired_All)

lemma keeps_reservedD: "keeps_reserved cfg rs m \<Longrightarrow> m w = (Inr r, w') \<Longrightarrow> rs w' = rs w"
  unfolding keeps_reserved_def by blast

lemma keeps_registryD: "keeps_registry cfg m \<Longrightarrow> m w = (Inr r, w') \<Longrightarrow> same_registry cfg w w'"
  unfolding keeps_registry_def by blast

lemma reserve_lawD:
  assumes "reserve_law cfg rs"
  shows "nf_reserve cfg a n w = (Inr (), w') \<Longrightarrow> same_registry cfg w w'"
    "nf_reserve cfg a n w = (Inr (), w') \<Longrightarrow> rs w' = (rs w)(a := rs w a + n)"
    "n \<le> rs w a \<Longrightarrow> rs (snd (nf_unreserve cfg a n w)) = (rs w)(a := rs w a - n)"
    "same_registry cfg w (snd (nf_unreserve cfg a n w))"
  using assms by (simp_all add: reserve_law_def)

lemma create_lawD:
  assumes "create_law cfg" "nf_orml_create_class cfg a m d w = (Inr c, w')"
  shows "cls cfg w c = None" "toks cfg w' = toks cfg w"
    "cls cfg w' = (cls cfg w)(c := Some \<lparr>ci_owner = a, ci_total_issuance = 0, ci_data = d\<rparr>)"
  using assms by (simp_all add: create_law_def)

lemma mint_lawD:
  assumes "mint_law cfg" "nf_orml_mint cfg a c m d w = (Inr i, w')"
  shows "toks cfg w (c, i) = None" "toks cfg w' = (toks cfg w)((c, i) := Some \<lparr>ti_owner = a, ti_data = d\<rparr>)"
    "cls cfg w' = (cls cfg w)(c := map_option (ci_total_issuance_update Suc) (cls cfg w c))"
  using assms by (simp_all add: mint_law_def)

lemma transfer_lawD:
  assumes "transfer_law cfg" "nf_orml_transfer cfg a b k w = (Inr (), w')" "toks cfg w k = Some ti"
  shows "ti_owner ti = a" "toks cfg w' = (toks cfg w)(k := Some (ti\<lparr>ti_owner := b\<rparr>))" "cls cfg w' = cls cfg w"
  using assms(1)[unfolded transfer_law_def, rule_format, OF assms(2)] assms(3) by auto

lemma burn_lawD:
  assumes "burn_law cfg" "nf_orml_burn cfg a k w = (Inr (), w')" "toks cfg w k = Some ti"
  shows "ti_owner ti = a" "toks cfg w' = (toks cfg w)(k := None)"
    "cls cfg w' = (cls cfg w)(fst k := map_option (ci_total_issuance_update (\<lambda>n. n - 1)) (cls cfg w (fst k)))"
  using assms(1)[unfolded burn_law_def, rule_format, OF assms(2)] assms(3) by auto

lemma destroy_lawD:
  assumes "destroy_law cfg" "nf_orml_destroy_class cfg a c w = (Inr (), w')"
  shows "toks cfg w' = toks cfg w" "cls cfg w' = (cls cfg w)(c := None)"
  using assms by (simp_all add: destroy_law_def)

section \<open>Deposits due\<close>

datatype item = Class_item class_id | Token_item "class_id \<times> token_id"

primrec due :: "'w nft_config \<Rightarrow> 'w \<Rightarrow> account_id \<Rightarrow> item \<Rightarrow> nat" where
  "due cfg w who (Class_item c) =
     (case cls cfg w c of None \<Rightarrow> 0 | Some ci \<Rightarrow> if ci_owner ci = who then cd_deposit (ci_data ci) else 0)"
| "due cfg w who (Token_item k) =
     (case toks cfg w k of None \<Rightarrow> 0 | Some ti \<Rightarrow> if ti_owner ti = who then td_deposit (ti_data ti) else 0)"

definition backed :: "'w nft_config \<Rightarrow> (account_id \<Rightarrow> balance) \<Rightarrow> 'w \<Rightarrow> bool" where
  "backed cfg R w \<longleftrightarrow> (\<forall>who. sums_below (due cfg w who) (R who))"

definition nft_inv :: "'w nft_config \<Rightarrow> ('w \<Rightarrow> account_id \<Rightarrow> balance) \<Rightarrow> 'w nft_state \<Rightarrow> bool" where
  "nft_inv cfg rs s \<longleftrightarrow> backed cfg (rs (nf_world s)) (nf_world s)"

lemma due_same: "same_registry cfg w w' \<Longrightarrow> due cfg w' who i = due cfg w who i"
  by (cases i) (simp_all add: same_registry_def)

lemma backed_same: "same_registry cfg w w' \<Longrightarrow> backed cfg R w' \<longleftrightarrow> backed cfg R w"
  by (simp add: backed_def sums_below_def due_same)

lemma backed_update:
  assumes "backed cfg R w" "\<And>who j. j \<noteq> i \<Longrightarrow> due cfg w' who j = due cfg w who j"
    and "\<And>who. due cfg w' who i + R who \<le> due cfg w who i + R' who"
  shows "backed cfg R' w'"
  unfolding backed_def
proof
  fix who
  show "sums_below (due cfg w' who) (R' who)"
    by (rule sums_below_update[where i = i and f = "due cfg w who" and r = "R who"])
      (use assms in \<open>auto simp: backed_def\<close>)
qed

lemma backed_token: "backed cfg R w \<Longrightarrow> toks cfg w k = Some ti \<Longrightarrow> td_deposit (ti_data ti) \<le> R (ti_owner ti)"
  using sums_below_member[of "due cfg w (ti_owner ti)" "R (ti_owner ti)" "Token_item k"]
  by (simp add: backed_def)

lemma backed_class: "backed cfg R w \<Longrightarrow> cls cfg w c = Some ci \<Longrightarrow> cd_deposit (ci_data ci) \<le> R (ci_owner ci)"
  using sums_below_member[of "due cfg w (ci_owner ci)" "R (ci_owner ci)" "Class_item c"]
  by (simp add: backed_def)

lemma create_backed:
  assumes env: "nft_env cfg rs" and b: "backed cfg R w" and run: "nf_orml_create_class cfg a m d w = (Inr c, w')"
  shows "backed cfg (R(a := R a + cd_deposit d)) w'" "rs w' = rs w"
proof -
  have law: "cls cfg w c = None" "toks cfg w' = toks cfg w"
      "cls cfg w' = (cls cfg w)(c := Some \<lparr>ci_owner = a, ci_total_issuance = 0, ci_data = d\<rparr>)"
    using create_lawD[OF nft_envD(1)[OF env] run] by simp_all
  show "backed cfg (R(a := R a + cd_deposit d)) w'"
  proof (rule backed_update[OF b, where i = "Class_item c"])
    show "due cfg w' who j = due cfg w who j" if "j \<noteq> Class_item c" for who j
      using that by (cases j) (simp_all add: law)
  qed (simp add: law)
  show "rs w' = rs w"
    using nft_envD[OF env] run keeps_reservedD by metis
qed

lemma mint_backed:
  assumes env: "nft_env cfg rs" and b: "backed cfg R w" and run: "nf_orml_mint cfg a c m d w = (Inr i, w')"
  shows "backed cfg (R(a := R a + td_deposit d)) w'" "rs w' = rs w"
    "toks cfg w (c, i) = None" "toks cfg w' = (toks cfg w)((c, i) := Some \<lparr>ti_owner = a, ti_data = d\<rparr>)"
proof -
  have law: "toks cfg w (c, i) = None" "toks cfg w' = (toks cfg w)((c, i) := Some \<lparr>ti_owner = a, ti_data = d\<rparr>)"
      "cls cfg w' = (cls cfg w)(c := map_option (ci_total_issuance_update Suc) (cls cfg w c))"
    using mint_lawD[OF nft_envD(2)[OF env] run] by simp_all
  show "backed cfg (R(a := R a + td_deposit d)) w'"
  proof (rule backed_update[OF b, where i = "Token_item (c, i)"])
    show "due cfg w' who j = due cfg w who j" if "j \<noteq> Token_item (c, i)" for who j
      using that by (cases j) (auto simp: law option.case_eq_if option.map_sel)
  qed (simp add: law)
  show "toks cfg w (c, i) = None" "toks cfg w' = (toks cfg w)((c, i) := Some \<lparr>ti_owner = a, ti_data = d\<rparr>)"
    by (fact law)+
  show "rs w' = rs w"
    using nft_envD[OF env] run keeps_reservedD by metis
qed

lemma burn_backed:
  assumes env: "nft_env cfg rs" and b: "backed cfg R w" and ti: "toks cfg w k = Some ti"
    and run: "nf_orml_burn cfg a k w = (Inr (), w')"
  shows "backed cfg (R(a := R a - td_deposit (ti_data ti))) w'" "rs w' = rs w" "ti_owner ti = a"
    "toks cfg w' = (toks cfg w)(k := None)"
proof -
  have law: "ti_owner ti = a" "toks cfg w' = (toks cfg w)(k := None)"
      "cls cfg w' = (cls cfg w)(fst k := map_option (ci_total_issuance_update (\<lambda>n. n - 1)) (cls cfg w (fst k)))"
    using burn_lawD[OF nft_envD(4)[OF env] run ti] by simp_all
  have le: "td_deposit (ti_data ti) \<le> R a" using backed_token[OF b ti] law by simp
  show "backed cfg (R(a := R a - td_deposit (ti_data ti))) w'"
  proof (rule backed_update[OF b, where i = "Token_item k"])
    show "due cfg w' who j = due cfg w who j" if "j \<noteq> Token_item k" for who j
      using that by (cases j) (auto simp: law option.case_eq_if option.map_sel)
  qed (use le in \<open>simp add: law ti\<close>)
  show "ti_owner ti = a" "toks cfg w' = (toks cfg w)(k := None)" by (fact law)+
  show "rs w' = rs w"
    using nft_envD[OF env] run keeps_reservedD by metis
qed

lemma transfer_backed:
  assumes env: "nft_env cfg rs" and b: "backed cfg R w" and ti: "toks cfg w k = Some ti"
    and run: "nf_orml_transfer cfg x y k w = (Inr (), w')"
  shows "backed cfg ((R(x := R x - td_deposit (ti_data ti)))(y := (R(x := R x - td_deposit (ti_data ti))) y + td_deposit (ti_data ti))) w'"
    "rs w' = rs w" "ti_owner ti = x" "toks cfg w' = (toks cfg w)(k := Some (ti\<lparr>ti_owner := y\<rparr>))" "cls cfg w' = cls cfg w"
proof -
  have law: "ti_owner ti = x" "toks cfg w' = (toks cfg w)(k := Some (ti\<lparr>ti_owner := y\<rparr>))" "cls cfg w' = cls cfg w"
    using transfer_lawD[OF nft_envD(3)[OF env] run ti] by simp_all
  have le: "td_deposit (ti_data ti) \<le> R x" using backed_token[OF b ti] law by simp
  show "backed cfg ((R(x := R x - td_deposit (ti_data ti)))(y := (R(x := R x - td_deposit (ti_data ti))) y + td_deposit (ti_data ti))) w'"
  proof (rule backed_update[OF b, where i = "Token_item k"])
    show "due cfg w' who j = due cfg w who j" if "j \<noteq> Token_item k" for who j
      using that by (cases j) (auto simp: law)
  qed (use le in \<open>auto simp: law ti\<close>)
  show "ti_owner ti = x" "toks cfg w' = (toks cfg w)(k := Some (ti\<lparr>ti_owner := y\<rparr>))" "cls cfg w' = cls cfg w"
    by (fact law)+
  show "rs w' = rs w"
    using nft_envD[OF env] run keeps_reservedD by metis
qed

lemma destroy_backed:
  assumes env: "nft_env cfg rs" and b: "backed cfg R w" and ci: "cls cfg w c = Some ci" "ci_owner ci = a"
    and run: "nf_orml_destroy_class cfg a c w = (Inr (), w')"
  shows "backed cfg (R(a := R a - cd_deposit (ci_data ci))) w'" "rs w' = rs w"
    "toks cfg w' = toks cfg w" "cls cfg w' = (cls cfg w)(c := None)"
proof -
  have law: "toks cfg w' = toks cfg w" "cls cfg w' = (cls cfg w)(c := None)"
    using destroy_lawD[OF nft_envD(5)[OF env] run] by simp_all
  have le: "cd_deposit (ci_data ci) \<le> R a" using backed_class[OF b ci(1)] ci by simp
  show "backed cfg (R(a := R a - cd_deposit (ci_data ci))) w'"
  proof (rule backed_update[OF b, where i = "Class_item c"])
    show "due cfg w' who j = due cfg w who j" if "j \<noteq> Class_item c" for who j
      using that by (cases j) (simp_all add: law)
  qed (use le ci in \<open>simp add: law\<close>)
  show "toks cfg w' = toks cfg w" "cls cfg w' = (cls cfg w)(c := None)" by (fact law)+
  show "rs w' = rs w"
    using nft_envD[OF env] run keeps_reservedD by metis
qed

section \<open>Runs of the operations\<close>

lemma inN_run [simp]: "inN m s = (Inr x, t) \<longleftrightarrow> (\<exists>w. m (nf_world s) = (Inr x, w) \<and> t = s\<lparr>nf_world := w\<rparr>)"
  by (simp add: inN_def zoomE_run)

lemma nft_event_run [simp]: "nft_deposit_event ev s = (Inr x, t) \<longleftrightarrow> t = s\<lparr>nf_events := nf_events s @ [ev]\<rparr>"
  by (simp add: nft_deposit_event_def)

lemma nft_class_run [simp]: "nft_class cfg c s = (Inr ci, t) \<longleftrightarrow> cls cfg (nf_world s) c = Some ci \<and> t = s"
  by (auto simp: nft_class_def cls_def)

lemma nft_token_run [simp]: "nft_token cfg k s = (Inr ti, t) \<longleftrightarrow> toks cfg (nf_world s) k = Some ti \<and> t = s"
  by (auto simp: nft_token_def toks_def)

lemma nft_unreserve_run [simp]:
  "nft_unreserve cfg a n s = (Inr x, t) \<longleftrightarrow> t = s\<lparr>nf_world := snd (nf_unreserve cfg a n (nf_world s))\<rparr>"
  by (simp add: nft_unreserve_def)

lemma nft_lookup_run [simp]: "nft_lookup cfg a s = (Inr b, t) \<longleftrightarrow> nf_lookup cfg a = Some b \<and> t = s"
  by (simp add: nft_lookup_def)

text \<open>The steps of a transfer; the deposit goes with the token.\<close>

lemma nft_do_transfer_run:
  assumes env: "nft_env cfg rs" and inv: "nft_inv cfg rs s"
    and run: "nft_do_transfer cfg x y k s = (Inr r, t)"
  obtains ci ti where "cls cfg (nf_world s) (fst k) = Some ci" "has_property (cd_properties (ci_data ci)) Transferable"
    "toks cfg (nf_world s) k = Some ti" "ti_owner ti = x"
    "toks cfg (nf_world t) = (toks cfg (nf_world s))(k := Some (ti\<lparr>ti_owner := y\<rparr>))"
    "cls cfg (nf_world t) = cls cfg (nf_world s)" "nft_inv cfg rs t"
proof -
  let ?w = "nf_world s"
  from run obtain ci ti w1 w3 w4 where
      ci: "cls cfg ?w (fst k) = Some ci" "has_property (cd_properties (ci_data ci)) Transferable"
    and ti: "toks cfg ?w k = Some ti" and move: "nf_orml_transfer cfg x y k ?w = (Inr (), w1)"
    and pay: "nf_pay cfg x y (td_deposit (ti_data ti)) AllowDeath (snd (nf_unreserve cfg x (td_deposit (ti_data ti)) w1)) = (Inr (), w3)"
    and res: "nf_reserve cfg y (td_deposit (ti_data ti)) w3 = (Inr (), w4)"
    and t: "nf_world t = w4"
    by (auto simp: nft_do_transfer_def)
  define d where "d = td_deposit (ti_data ti)"
  define w2 where "w2 = snd (nf_unreserve cfg x d w1)"
  have b: "backed cfg (rs ?w) ?w" using inv by (simp add: nft_inv_def)
  note m = transfer_backed[OF env b ti move]
  have le: "d \<le> rs w1 x" using backed_token[OF b ti] m(2,3) by (simp add: d_def)
  have w2: "rs w2 = (rs ?w)(x := rs ?w x - d)" "same_registry cfg w1 w2"
    using reserve_lawD(3,4)[OF nft_envD(6)[OF env]] le m(2) by (simp_all add: w2_def)
  have w3: "rs w3 = rs w2" "same_registry cfg w2 w3"
    using keeps_reservedD[OF nft_envD(7)[OF env] pay] keeps_registryD[OF nft_envD(8)[OF env] pay]
    by (simp_all add: w2_def d_def)
  have w4: "rs w4 = (rs w3)(y := rs w3 y + d)" "same_registry cfg w3 w4"
    using reserve_lawD(1,2)[OF nft_envD(6)[OF env] res] by (simp_all add: d_def)
  have same: "same_registry cfg w1 w4"
    using w2(2) w3(2) w4(2) by (simp add: same_registry_def)
  have "backed cfg (rs w4) w4"
    using m(1) by (simp add: backed_same[OF same] w4(1) w3(1) w2(1) d_def)
  with ci ti m(3,4,5) same t show ?thesis
    by (intro that) (auto simp: same_registry_def nft_inv_def)
qed

lemma nft_do_burn_run:
  assumes env: "nft_env cfg rs" and inv: "nft_inv cfg rs s"
    and run: "nft_do_burn cfg x k s = (Inr r, t)"
  obtains ci ti where "cls cfg (nf_world s) (fst k) = Some ci" "has_property (cd_properties (ci_data ci)) Burnable"
    "toks cfg (nf_world s) k = Some ti" "ti_owner ti = x"
    "toks cfg (nf_world t) = (toks cfg (nf_world s))(k := None)" "nft_inv cfg rs t"
proof -
  let ?w = "nf_world s"
  from run obtain ci ti w1 where
      ci: "cls cfg ?w (fst k) = Some ci" "has_property (cd_properties (ci_data ci)) Burnable"
    and ti: "toks cfg ?w k = Some ti" and burn: "nf_orml_burn cfg x k ?w = (Inr (), w1)"
    and t: "nf_world t = snd (nf_unreserve cfg x (td_deposit (ti_data ti)) w1)"
    by (auto simp: nft_do_burn_def)
  have b: "backed cfg (rs ?w) ?w" using inv by (simp add: nft_inv_def)
  note m = burn_backed[OF env b ti burn]
  have le: "td_deposit (ti_data ti) \<le> rs w1 x" using backed_token[OF b ti] m(2,3) by simp
  have same: "same_registry cfg w1 (nf_world t)"
    using reserve_lawD(4)[OF nft_envD(6)[OF env]] by (simp add: t)
  have rst: "rs (nf_world t) = (rs ?w)(x := rs ?w x - td_deposit (ti_data ti))"
    using reserve_lawD(3)[OF nft_envD(6)[OF env]] le m(2) by (simp add: t)
  have "nft_inv cfg rs t"
    using m(1) by (simp add: nft_inv_def backed_same[OF same] rst)
  with ci ti m(3,4) same show ?thesis
    by (intro that) (simp_all add: same_registry_def)
qed

text \<open>Minting: every round adds one token that was not there.\<close>

definition minted :: "account_id \<Rightarrow> token_data \<Rightarrow> (class_id \<times> token_id) set \<Rightarrow>
    (class_id \<times> token_id \<Rightarrow> token_entry option) \<Rightarrow> class_id \<times> token_id \<Rightarrow> token_entry option" where
  "minted a d N f = (\<lambda>k. if k \<in> N then Some \<lparr>ti_owner = a, ti_data = d\<rparr> else f k)"

lemma mint_loop_run:
  assumes env: "nft_env cfg rs"
  shows "backed cfg R (nf_world s) \<Longrightarrow>
    forE is (\<lambda>_. thenE (inN (nf_orml_mint cfg a c m d)) (okE ())) s = (Inr r, t) \<Longrightarrow>
    backed cfg (R(a := R a + length is * td_deposit d)) (nf_world t) \<and> rs (nf_world t) = rs (nf_world s) \<and>
    (\<exists>N. finite N \<and> card N = length is \<and> (\<forall>k\<in>N. fst k = c \<and> toks cfg (nf_world s) k = None) \<and>
       toks cfg (nf_world t) = minted a d N (toks cfg (nf_world s)))"
proof (induction "is" arbitrary: R s)
  case Nil
  then show ?case by (auto simp: minted_def intro!: exI[of _ "{}"])
next
  case (Cons i "is")
  from Cons.prems(2) obtain j w1 where
      mint: "nf_orml_mint cfg a c m d (nf_world s) = (Inr j, w1)"
    and rest: "forE is (\<lambda>_. thenE (inN (nf_orml_mint cfg a c m d)) (okE ())) (s\<lparr>nf_world := w1\<rparr>) = (Inr r, t)"
    by auto
  note m = mint_backed[OF env Cons.prems(1) mint]
  have m1: "backed cfg (R(a := R a + td_deposit d)) (nf_world (s\<lparr>nf_world := w1\<rparr>))" using m(1) by simp
  define R2 where "R2 = (R(a := R a + td_deposit d))(a := (R(a := R a + td_deposit d)) a + length is * td_deposit d)"
  have R2: "R2 = R(a := R a + length (i # is) * td_deposit d)" by (simp add: R2_def fun_eq_iff)
  note IH = Cons.IH[OF m1 rest, folded R2_def, unfolded R2, simplified]
  from IH have "\<exists>N. finite N \<and> card N = length is \<and> (\<forall>k\<in>N. fst k = c \<and> toks cfg w1 k = None) \<and>
       toks cfg (nf_world t) = minted a d N (toks cfg w1)" by simp
  then obtain N where N: "finite N" "card N = length is" "\<forall>k\<in>N. fst k = c \<and> toks cfg w1 k = None"
      "toks cfg (nf_world t) = minted a d N (toks cfg w1)" by blast
  have fresh: "(c, j) \<notin> N" using N(3) m(4) by auto
  have "\<forall>k\<in>insert (c, j) N. fst k = c \<and> toks cfg (nf_world s) k = None"
    using N(3) m(3,4) by (auto split: if_splits)
  moreover have "toks cfg (nf_world t) = minted a d (insert (c, j) N) (toks cfg (nf_world s))"
    by (auto simp: N(4) m(4) minted_def fun_eq_iff)
  moreover have "card (insert (c, j) N) = length (i # is)" using N fresh by simp
  ultimately show ?case
    using IH m(2) N(1) by (intro conjI exI[of _ "insert (c, j) N"]) simp_all
qed

lemma pay_backed:
  assumes "nft_env cfg rs" "nf_pay cfg a b n k w = (Inr r, w')" "backed cfg (rs w) w"
  shows "backed cfg (rs w') w'" "same_registry cfg w w'"
  using keeps_reservedD[OF nft_envD(7)[OF assms(1)] assms(2)] keeps_registryD[OF nft_envD(8)[OF assms(1)] assms(2)]
    assms(3) by (simp_all add: backed_same)

lemma reserve_surplus:
  assumes "nft_env cfg rs" "nf_reserve cfg a n w = (Inr (), w')" "backed cfg (rs w) w"
  shows "backed cfg (rs w) w'" "rs w' = (rs w)(a := rs w a + n)" "same_registry cfg w w'"
  using reserve_lawD(1,2)[OF nft_envD(6)[OF assms(1)] assms(2)] assms(3) by (simp_all add: backed_same)

lemma nft_mint_run:
  assumes env: "nft_env cfg rs" and inv: "nft_inv cfg rs s"
    and fits: "nf_create_token_deposit cfg * quantity \<le> u128_max"
    and run: "nft_mint cfg org dest c m quantity s = (Inr r, t)"
  obtains who to ci N where "org = Signed who" "nf_lookup cfg dest = Some to"
    "cls cfg (nf_world s) c = Some ci" "ci_owner ci = who"
    "finite N" "card N = quantity" "\<forall>k\<in>N. fst k = c \<and> toks cfg (nf_world s) k = None"
    "toks cfg (nf_world t) = minted to \<lparr>td_deposit = nf_create_token_deposit cfg\<rparr> N (toks cfg (nf_world s))"
    "nft_inv cfg rs t"
proof -
  let ?w = "nf_world s" and ?d = "nf_create_token_deposit cfg"
  from run obtain who to ci w1 w2 u where
      ids: "org = Signed who" "nf_lookup cfg dest = Some to" "cls cfg ?w c = Some ci" "ci_owner ci = who"
    and pay: "nf_pay cfg who to (?d * quantity) KeepAlive ?w = (Inr (), w1)"
    and res: "nf_reserve cfg to (?d * quantity) w1 = (Inr (), w2)"
    and loop: "mint_loop cfg to c m \<lparr>td_deposit = ?d\<rparr> quantity (s\<lparr>nf_world := w2\<rparr>) = (Inr (), u)"
    and t: "nf_world t = nf_world u"
    using fits by (auto simp: nft_mint_def Let_def)
  note p = pay_backed[OF env pay] and q = reserve_surplus[OF env res]
  have b: "backed cfg (rs ?w) ?w" using inv by (simp add: nft_inv_def)
  have same: "toks cfg w2 = toks cfg ?w" using p(2)[OF b] q(3)[OF p(1)[OF b]] by (simp add: same_registry_def)
  from mint_loop_run[OF env _ loop[unfolded mint_loop_def], of "rs w1"] q(1)[OF p(1)[OF b]]
  have l: "backed cfg ((rs w1)(to := rs w1 to + quantity * ?d)) (nf_world u)" "rs (nf_world u) = rs w2"
    and "\<exists>N. finite N \<and> card N = quantity \<and> (\<forall>k\<in>N. fst k = c \<and> toks cfg w2 k = None) \<and>
       toks cfg (nf_world u) = minted to \<lparr>td_deposit = ?d\<rparr> N (toks cfg w2)"
    by simp_all
  then obtain N where "finite N" "card N = quantity" "\<forall>k\<in>N. fst k = c \<and> toks cfg w2 k = None"
      "toks cfg (nf_world u) = minted to \<lparr>td_deposit = ?d\<rparr> N (toks cfg w2)" by blast
  moreover have "nft_inv cfg rs t"
    using l q(2)[OF p(1)[OF b]] by (simp add: nft_inv_def t mult.commute)
  ultimately show ?thesis using ids same t by (intro that) simp_all
qed

lemma nft_create_class_run:
  assumes env: "nft_env cfg rs" and inv: "nft_inv cfg rs s"
    and run: "nft_create_class cfg org m ps s = (Inr r, t)"
  shows "nft_inv cfg rs t" "toks cfg (nf_world t) = toks cfg (nf_world s)"
proof -
  let ?w = "nf_world s" and ?d = "nf_create_class_deposit cfg"
  define a where "a = nf_sub_account cfg (nf_next_class_id cfg ?w)"
  define n where "n = sat_add u128_max (nf_proxy_deposit cfg 1) ?d"
  from run obtain who w1 w2 w3 c where
      pay: "nf_pay cfg who a n KeepAlive ?w = (Inr (), w1)"
    and res: "nf_reserve cfg a ?d w1 = (Inr (), w2)"
    and prox: "nf_add_proxy_delegate cfg a who w2 = (Inr (), w3)"
    and create: "nf_orml_create_class cfg a m \<lparr>cd_deposit = ?d, cd_properties = ps\<rparr> w3 = (Inr c, nf_world t)"
    by (auto simp: nft_create_class_def Let_def a_def n_def)
  have b: "backed cfg (rs ?w) ?w" using inv by (simp add: nft_inv_def)
  note p = pay_backed[OF env pay b]
  note q = reserve_surplus[OF env res p(1)]
  have w3: "rs w3 = rs w2" "same_registry cfg w2 w3"
    using keeps_reservedD[OF nft_envD(9)[OF env] prox] keeps_registryD[OF nft_envD(10)[OF env] prox] .
  have "backed cfg (rs w1) w3" using q(1) w3(2) by (simp add: backed_same)
  note e = create_backed[OF env this create]
  show "nft_inv cfg rs t" using e q(2) w3(1) by (simp add: nft_inv_def)
  show "toks cfg (nf_world t) = toks cfg ?w"
    using create_lawD(2)[OF nft_envD(1)[OF env] create] p(2) q(3) w3(2) by (simp add: same_registry_def)
qed

lemma nft_destroy_class_run:
  assumes env: "nft_env cfg rs" and inv: "nft_inv cfg rs s"
    and run: "nft_destroy_class cfg org c dst s = (Inr r, t)"
  obtains ci who where "org = Signed who" "cls cfg (nf_world s) c = Some ci" "ci_owner ci = who" "ci_total_issuance ci = 0"
    "cls cfg (nf_world t) = (cls cfg (nf_world s))(c := None)" "toks cfg (nf_world t) = toks cfg (nf_world s)" "nft_inv cfg rs t"
proof -
  let ?w = "nf_world s"
  from run obtain who dest ci w2 w3 where
      ids: "org = Signed who" "cls cfg ?w c = Some ci" "ci_owner ci = who" "ci_total_issuance ci = 0"
    and destroy': "nf_orml_destroy_class cfg who c (snd (nf_unreserve cfg who (cd_deposit (ci_data ci)) ?w)) = (Inr (), w2)"
    and prox: "nf_remove_proxy_delegate cfg who dest w2 = (Inr (), w3)"
    and pay: "nf_pay cfg who dest (nf_free_balance cfg who w3) AllowDeath w3 = (Inr (), nf_world t)"
    by (auto simp: nft_destroy_class_def)
  define w1 where w1: "w1 = snd (nf_unreserve cfg who (cd_deposit (ci_data ci)) ?w)"
  note destroy = destroy'[folded w1]
  have b: "backed cfg (rs ?w) ?w" using inv by (simp add: nft_inv_def)
  have rs1: "rs w1 = (rs ?w)(who := rs ?w who - cd_deposit (ci_data ci))"
    using reserve_lawD(3)[OF nft_envD(6)[OF env]] backed_class[OF b ids(2)] ids(3) by (simp add: w1)
  have same1: "same_registry cfg ?w w1"
    using reserve_lawD(4)[OF nft_envD(6)[OF env]] by (simp add: w1)
  have ci1: "cls cfg w1 c = Some ci" using same1 ids(2) by (simp add: same_registry_def)
  have b1: "backed cfg (rs ?w) w1" using b by (simp only: backed_same[OF same1])
  note d = destroy_backed[OF env b1 ci1 ids(3) destroy]
  have w3: "rs w3 = rs w2" "same_registry cfg w2 w3"
    using keeps_reservedD[OF nft_envD(11)[OF env] prox] keeps_registryD[OF nft_envD(12)[OF env] prox] .
  have "rs w3 = (rs ?w)(who := rs ?w who - cd_deposit (ci_data ci))" using d(2) rs1 w3(1) by simp
  then have b3: "backed cfg (rs w3) w3" using d(1) by (simp only: backed_same[OF w3(2)])
  note p = pay_backed[OF env pay b3]
  show ?thesis
  proof (rule that[OF ids])
    show "cls cfg (nf_world t) = (cls cfg ?w)(c := None)" "toks cfg (nf_world t) = toks cfg ?w"
      using d(3,4) same1 w3(2) p(2) by (simp_all add: same_registry_def)
    show "nft_inv cfg rs t" using p(1) by (simp add: nft_inv_def)
  qed
qed

end
