(* ===== verification/Nft_Properties.thy ===== *)
theory Nft_Properties
  imports Nft_Laws
begin

text \<open>
  The NFT pallet as a machine, and its properties: the deposits of classes and tokens are always
  backed by reserved balance, tokens move by calls of their owners only, minting creates as many
  tokens as asked, and a class is destroyed only when it is empty. A reference implementation of the
  back ends meets the laws and carries the witnesses.
\<close>

section \<open>The machine\<close>

text \<open>The deposits of a call do not overflow: \<open>quantity\<close> is 32 bits wide.\<close>

fun nft_typed :: "'w nft_config \<Rightarrow> origin \<times> nft_call \<Rightarrow> bool" where
  "nft_typed cfg (org, Call_mint dest c m q) \<longleftrightarrow> nf_create_token_deposit cfg * q \<le> u128_max"
| "nft_typed cfg _ \<longleftrightarrow> True"

definition nft_safe :: "'w nft_config \<Rightarrow> ('w \<Rightarrow> account_id \<Rightarrow> balance) \<Rightarrow> origin \<times> nft_call \<Rightarrow> bool" where
  "nft_safe cfg rs c \<longleftrightarrow> nft_env cfg rs \<and> nft_typed cfg c"

lemma nft_exec_transactional: "\<exists>k. nft_exec cfg c = transactional k"
  by (cases "(cfg, c)" rule: nft_exec.cases)
    (auto simp: nft_create_class_def nft_mint_def nft_transfer_def nft_burn_def nft_burn_with_remark_def
      nft_destroy_class_def)

text \<open>What a successful call does to the token under \<open>k\<close>.\<close>

definition token_step :: "'w nft_config \<Rightarrow> origin \<Rightarrow> 'w nft_state \<Rightarrow> 'w nft_state \<Rightarrow> class_id \<times> token_id \<Rightarrow> bool" where
  "token_step cfg org s t k \<longleftrightarrow> (\<forall>ti. toks cfg (nf_world s) k = Some ti \<longrightarrow>
     toks cfg (nf_world t) k = Some ti \<or>
     org = Signed (ti_owner ti) \<and> (\<exists>ci. cls cfg (nf_world s) (fst k) = Some ci \<and>
       (toks cfg (nf_world t) k = None \<and> has_property (cd_properties (ci_data ci)) Burnable \<or>
        (\<exists>b. toks cfg (nf_world t) k = Some (ti\<lparr>ti_owner := b\<rparr>)) \<and> has_property (cd_properties (ci_data ci)) Transferable)))"

lemma nft_burn_step:
  assumes "nft_env cfg rs" "nft_inv cfg rs s" "nft_do_burn cfg x k s = (Inr r, u)" "nf_world t = nf_world u"
  shows "nft_inv cfg rs t \<and> token_step cfg (Signed x) s t j"
  by (rule nft_do_burn_run[OF assms(1-3)]) (auto simp: token_step_def nft_inv_def assms(4))

lemma nft_transfer_step:
  assumes "nft_env cfg rs" "nft_inv cfg rs s" "nft_do_transfer cfg x y k s = (Inr r, t)"
  shows "nft_inv cfg rs t \<and> token_step cfg (Signed x) s t j"
  by (rule nft_do_transfer_run[OF assms]) (auto simp: token_step_def)

lemma nft_exec_step:
  assumes env: "nft_env cfg rs" and typed: "nft_typed cfg (org, call)" and inv: "nft_inv cfg rs s"
    and run: "nft_exec cfg (org, call) s = (Inr r, t)"
  shows "nft_inv cfg rs t \<and> token_step cfg org s t j"
proof (cases call)
  case (Call_create_class m ps)
  then show ?thesis
    using nft_create_class_run[OF env inv] run by (auto simp: token_step_def)
next
  case (Call_mint dest c m q)
  then have "nft_mint cfg org dest c m q s = (Inr r, t)" "nf_create_token_deposit cfg * q \<le> u128_max"
    using run typed by simp_all
  note mint = nft_mint_run[OF env inv this(2,1)]
  show ?thesis
    by (rule mint) (auto simp: token_step_def minted_def)
next
  case (Call_transfer dest k)
  then show ?thesis
    using run by (auto simp: nft_transfer_def dest: nft_transfer_step[OF env inv, where j = j])
next
  case (Call_burn k)
  then show ?thesis
    using run by (auto simp: nft_burn_def intro: nft_burn_step[OF env inv, where j = j, THEN conjunct1]
        nft_burn_step[OF env inv, where j = j, THEN conjunct2])
next
  case (Call_burn_with_remark k rem)
  then show ?thesis
    using run by (auto simp: nft_burn_with_remark_def intro: nft_burn_step[OF env inv, where j = j, THEN conjunct1]
        nft_burn_step[OF env inv, where j = j, THEN conjunct2])
next
  case (Call_destroy_class c dest)
  then have "nft_destroy_class cfg org c dest s = (Inr r, t)" using run by simp
  note destroy = nft_destroy_class_run[OF env inv this]
  show ?thesis
    by (rule destroy) (simp_all add: token_step_def)
qed

interpretation nft_machine: pallet_machine "nft_exec cfg" "nft_safe cfg rs" "nft_inv cfg rs" for cfg rs
proof unfold_locales
  fix c :: "origin \<times> nft_call"
  assume c: "nft_safe cfg rs c"
  obtain k where k: "nft_exec cfg c = transactional k" using nft_exec_transactional by blast
  have "nft_inv cfg rs t" if "nft_inv cfg rs s" "nft_exec cfg c s = (Inr x, t)" for s x t
    using nft_exec_step[of cfg rs "fst c" "snd c" s x t] c that by (simp add: nft_safe_def)
  then show "preserves (nft_inv cfg rs) (nft_exec cfg c)"
    unfolding k by (intro keeps_transactional_ok) simp
qed

section \<open>A reference implementation of the back ends\<close>

record nft_ledger =
  nl_classes :: "class_id \<Rightarrow> class_info option"
  nl_tokens :: "class_id \<times> token_id \<Rightarrow> token_entry option"
  nl_next_class :: class_id
  nl_next_token :: token_id
  nl_free :: "account_id \<Rightarrow> nat"
  nl_reserved :: "account_id \<Rightarrow> nat"

definition nl_create :: "account_id \<Rightarrow> cid \<Rightarrow> class_data \<Rightarrow> (nft_ledger, class_id) eff" where
  "nl_create a m d l =
     (if nl_classes l (nl_next_class l) = None
      then (Inr (nl_next_class l), l\<lparr>nl_next_class := Suc (nl_next_class l), nl_classes := (nl_classes l)
             (nl_next_class l := Some \<lparr>ci_owner = a, ci_total_issuance = 0, ci_data = d\<rparr>)\<rparr>)
      else (Inl (External 10), l))"

definition nl_mint :: "account_id \<Rightarrow> class_id \<Rightarrow> cid \<Rightarrow> token_data \<Rightarrow> (nft_ledger, token_id) eff" where
  "nl_mint a c m d l =
     (if nl_tokens l (c, nl_next_token l) = None
      then (Inr (nl_next_token l), l\<lparr>nl_next_token := Suc (nl_next_token l),
             nl_tokens := (nl_tokens l)((c, nl_next_token l) := Some \<lparr>ti_owner = a, ti_data = d\<rparr>),
             nl_classes := (nl_classes l)(c := map_option (ci_total_issuance_update Suc) (nl_classes l c))\<rparr>)
      else (Inl (External 11), l))"

definition nl_transfer :: "account_id \<Rightarrow> account_id \<Rightarrow> class_id \<times> token_id \<Rightarrow> (nft_ledger, unit) eff" where
  "nl_transfer a b k l =
     (case nl_tokens l k of
        Some ti \<Rightarrow> if ti_owner ti = a then (Inr (), l\<lparr>nl_tokens := (nl_tokens l)(k := Some (ti\<lparr>ti_owner := b\<rparr>))\<rparr>)
                  else (Inl (External 12), l)
      | None \<Rightarrow> (Inl (External 12), l))"

definition nl_burn :: "account_id \<Rightarrow> class_id \<times> token_id \<Rightarrow> (nft_ledger, unit) eff" where
  "nl_burn a k l =
     (case nl_tokens l k of
        Some ti \<Rightarrow> if ti_owner ti = a
          then (Inr (), l\<lparr>nl_tokens := (nl_tokens l)(k := None), nl_classes := (nl_classes l)
                 (fst k := map_option (ci_total_issuance_update (\<lambda>n. n - 1)) (nl_classes l (fst k)))\<rparr>)
          else (Inl (External 12), l)
      | None \<Rightarrow> (Inl (External 12), l))"

definition nl_pay :: "account_id \<Rightarrow> account_id \<Rightarrow> nat \<Rightarrow> existence_requirement \<Rightarrow> (nft_ledger, unit) eff" where
  "nl_pay a b n k l =
     (if n \<le> nl_free l a
      then (let f = (nl_free l)(a := nl_free l a - n) in (Inr (), l\<lparr>nl_free := f(b := f b + n)\<rparr>))
      else (Inl (External 13), l))"

definition nl_reserve :: "account_id \<Rightarrow> nat \<Rightarrow> (nft_ledger, unit) eff" where
  "nl_reserve a n l =
     (if n \<le> nl_free l a
      then (Inr (), l\<lparr>nl_free := (nl_free l)(a := nl_free l a - n), nl_reserved := (nl_reserved l)(a := nl_reserved l a + n)\<rparr>)
      else (Inl (External 13), l))"

definition nl_unreserve :: "account_id \<Rightarrow> nat \<Rightarrow> nft_ledger \<Rightarrow> nat \<times> nft_ledger" where
  "nl_unreserve a n l =
     (let k = min n (nl_reserved l a)
      in (n - k, l\<lparr>nl_free := (nl_free l)(a := nl_free l a + k), nl_reserved := (nl_reserved l)(a := nl_reserved l a - k)\<rparr>))"

definition ledger_nft :: "nft_ledger nft_config" where
  "ledger_nft = \<lparr>nf_next_class_id = nl_next_class, nf_classes = (\<lambda>c l. nl_classes l c),
     nf_tokens = (\<lambda>c i l. nl_tokens l (c, i)), nf_tokens_by_owner = (\<lambda>a l. []),
     nf_orml_create_class = nl_create, nf_orml_mint = nl_mint, nf_orml_transfer = nl_transfer,
     nf_orml_burn = nl_burn,
     nf_orml_destroy_class = (\<lambda>a c. modE (\<lambda>l. l\<lparr>nl_classes := (nl_classes l)(c := None)\<rparr>)),
     nf_free_balance = (\<lambda>a l. nl_free l a), nf_pay = nl_pay, nf_reserve = nl_reserve, nf_unreserve = nl_unreserve,
     nf_proxy_deposit = (\<lambda>n. 5), nf_add_proxy_delegate = (\<lambda>a b. okE ()), nf_remove_proxy_delegate = (\<lambda>a b. okE ()),
     nf_create_class_deposit = 50, nf_create_token_deposit = 10, nf_sub_account = (\<lambda>c. 1000 + c),
     nf_lookup = Some, nf_hashing = length\<rparr>"

lemma ledger_nft_views [simp]:
  "cls ledger_nft l = nl_classes l" "toks ledger_nft l = nl_tokens l"
  "nf_orml_create_class ledger_nft = nl_create" "nf_orml_mint ledger_nft = nl_mint"
  "nf_orml_transfer ledger_nft = nl_transfer" "nf_orml_burn ledger_nft = nl_burn"
  "nf_orml_destroy_class ledger_nft a c = modE (\<lambda>l. l\<lparr>nl_classes := (nl_classes l)(c := None)\<rparr>)"
  "nf_pay ledger_nft = nl_pay" "nf_reserve ledger_nft = nl_reserve" "nf_unreserve ledger_nft = nl_unreserve"
  "nf_add_proxy_delegate ledger_nft a b = okE ()" "nf_remove_proxy_delegate ledger_nft a b = okE ()"
  "nf_classes ledger_nft c l = nl_classes l c" "nf_tokens ledger_nft c i l = nl_tokens l (c, i)"
  "nf_free_balance ledger_nft a l = nl_free l a"
  "nf_lookup ledger_nft = Some" "nf_create_token_deposit ledger_nft = 10"
  by (simp_all add: cls_def toks_def ledger_nft_def)

lemmas nl_defs = nl_create_def nl_mint_def nl_transfer_def nl_burn_def nl_pay_def nl_reserve_def nl_unreserve_def

lemma ledger_nft_env: "nft_env ledger_nft nl_reserved"
proof -
  have orml: "create_law ledger_nft" "mint_law ledger_nft" "transfer_law ledger_nft" "burn_law ledger_nft" "destroy_law ledger_nft"
    unfolding create_law_def mint_law_def transfer_law_def burn_law_def destroy_law_def
    by (auto simp: nl_defs split: if_splits option.splits)
  have reserve: "reserve_law ledger_nft nl_reserved"
    unfolding reserve_law_def same_registry_def
    by (auto simp: nl_defs Let_def split: if_splits)
  have money: "money_law ledger_nft nl_reserved"
    unfolding money_law_def keeps_reserved_def
    by (intro conjI reserve) (auto simp: nl_defs Let_def split: if_splits option.splits)
  show ?thesis
    unfolding nft_env_def keeps_registry_def same_registry_def
    by (intro conjI orml money) (auto simp: nl_defs Let_def split: if_splits)
qed

text \<open>Class 0 belongs to its account 1000; token 7 of it, with a deposit of 10, belongs to account 1.\<close>

definition demo_nft :: "nft_ledger nft_state" where
  "demo_nft = \<lparr>nf_world = \<lparr>
     nl_classes = (\<lambda>c. None)(0 := Some \<lparr>ci_owner = 1000, ci_total_issuance = 1,
        ci_data = \<lparr>cd_deposit = 50, cd_properties = 3\<rparr>\<rparr>),
     nl_tokens = (\<lambda>k. None)((0, 7) := Some \<lparr>ti_owner = 1, ti_data = \<lparr>td_deposit = 10\<rparr>\<rparr>),
     nl_next_class = 1, nl_next_token = 8, nl_free = (\<lambda>a. 500),
     nl_reserved = (\<lambda>a. 0)(1000 := 50, 1 := 10)\<rparr>, nf_events = []\<rparr>"

definition empty_nft :: "nft_ledger nft_state" where
  "empty_nft = \<lparr>nf_world = \<lparr>nl_classes = (\<lambda>c. None), nl_tokens = (\<lambda>k. None), nl_next_class = 0, nl_next_token = 0,
     nl_free = (\<lambda>a. 500), nl_reserved = (\<lambda>a. 0)\<rparr>, nf_events = []\<rparr>"

lemma empty_nft_inv: "nft_inv ledger_nft nl_reserved empty_nft"
proof -
  have "due ledger_nft (nf_world empty_nft) who i = 0" for who i
    by (cases i) (simp_all add: empty_nft_def)
  then show ?thesis by (simp add: nft_inv_def backed_def sums_below_def)
qed

lemma demo_nft_inv: "nft_inv ledger_nft nl_reserved demo_nft"
proof -
  let ?w = "nf_world empty_nft"
  let ?w1 = "?w\<lparr>nl_classes := nl_classes (nf_world demo_nft)\<rparr>"
  have "backed ledger_nft (\<lambda>a. 0) ?w" using empty_nft_inv by (simp add: nft_inv_def empty_nft_def)
  then have "backed ledger_nft ((\<lambda>a. 0)(1000 := 50)) ?w1"
  proof (rule backed_update[where i = "Class_item 0"])
    show "due ledger_nft ?w1 who j = due ledger_nft ?w who j" if "j \<noteq> Class_item 0" for who j
      using that by (cases j) (simp_all add: empty_nft_def demo_nft_def)
  qed (simp add: empty_nft_def demo_nft_def)
  then show ?thesis
    unfolding nft_inv_def
  proof (rule backed_update[where i = "Token_item (0, 7)"])
    show "due ledger_nft (nf_world demo_nft) who j = due ledger_nft ?w1 who j" if "j \<noteq> Token_item (0, 7)" for who j
      using that by (cases j) (simp_all add: empty_nft_def demo_nft_def)
  qed (simp add: empty_nft_def demo_nft_def)
qed

section \<open>Properties\<close>

text \<open>
  C8. Every deposit is backed: after any run of calls, succeeding or failing, the deposits recorded
  for the classes and tokens of an account (any finite set of them) add up to at most what the
  account has reserved, so that destroying a class or burning a token always returns its deposit.
\<close>

theorem nft_deposits_backed:
  assumes "list_all (nft_safe cfg rs) calls" "nft_inv cfg rs s" "finite items"
    and "w = nf_world (run_calls (nft_exec cfg) calls s)"
  shows "(\<Sum>i\<in>items. due cfg w who i) \<le> rs w who"
  using nft_machine.run_calls_inv[OF assms(1,2)] assms(3,4) by (simp add: nft_inv_def backed_def sums_below_def)

theorem nft_deposits_backed_witness:
  "(\<Sum>i\<in>{Token_item (0, 7), Token_item (0, 8)}. due ledger_nft (nf_world (run_calls (nft_exec ledger_nft)
      [(Signed 1000, Call_mint 1 0 [] 3), (Signed 1, Call_transfer 2 (0, 7)), (Signed 2, Call_burn (0, 8))] demo_nft)) 1 i)
   \<le> nl_reserved (nf_world (run_calls (nft_exec ledger_nft)
      [(Signed 1000, Call_mint 1 0 [] 3), (Signed 1, Call_transfer 2 (0, 7)), (Signed 2, Call_burn (0, 8))] demo_nft)) 1"
  by (rule nft_deposits_backed[OF _ demo_nft_inv _ refl])
    (simp_all add: nft_safe_def ledger_nft_env u128_max_def)

text \<open>
  C9. Only its owner moves a token: if a call changes the entry of a token, the call is signed by
  the token's owner, and either the token is gone and its class is burnable, or it has another owner
  and the same data and its class is transferable.
\<close>

theorem nft_token_moves_by_owner:
  assumes "nft_env cfg rs" "nft_inv cfg rs s" "nft_typed cfg (org, call)"
    and "t = snd (nft_exec cfg (org, call) s)"
    and "toks cfg (nf_world s) k = Some ti" "toks cfg (nf_world t) k \<noteq> Some ti"
  shows "org = Signed (ti_owner ti) \<and> (\<exists>ci. cls cfg (nf_world s) (fst k) = Some ci \<and>
    (toks cfg (nf_world t) k = None \<and> has_property (cd_properties (ci_data ci)) Burnable \<or>
     (\<exists>b. toks cfg (nf_world t) k = Some (ti\<lparr>ti_owner := b\<rparr>)) \<and> has_property (cd_properties (ci_data ci)) Transferable))"
proof -
  obtain f where f: "nft_exec cfg (org, call) = transactional f" using nft_exec_transactional by blast
  obtain r where "nft_exec cfg (org, call) s = (r, t)" using assms(4) by (metis prod.collapse)
  moreover from this obtain x where "r = Inr x"
    using assms(5,6) transactional_fails[of f s] f by (cases r) auto
  ultimately have "token_step cfg org s t k"
    using nft_exec_step[OF assms(1,3,2)] by blast
  then show ?thesis using assms(5,6) unfolding token_step_def by blast
qed

lemma demo_nft_transfer:
  "toks ledger_nft (nf_world (snd (nft_exec ledger_nft (Signed 1, Call_transfer 2 (0, 7)) demo_nft))) (0, 7)
     = Some \<lparr>ti_owner = 2, ti_data = \<lparr>td_deposit = 10\<rparr>\<rparr>"
  by (simp add: nft_transfer_def nft_do_transfer_def nft_class_def nft_token_def nft_lookup_def inN_def nft_unreserve_def
      nft_deposit_event_def ensure_signed_def eff_defs demo_nft_def nl_defs has_property_def Let_def)

theorem nft_token_moves_by_owner_witness:
  "Signed 1 = Signed (ti_owner \<lparr>ti_owner = 1, ti_data = \<lparr>td_deposit = 10\<rparr>\<rparr>) \<and>
   (\<exists>ci. cls ledger_nft (nf_world demo_nft) 0 = Some ci \<and> has_property (cd_properties (ci_data ci)) Transferable)"
  using nft_token_moves_by_owner[OF ledger_nft_env demo_nft_inv _ refl,
      of "Signed 1" "Call_transfer 2 (0, 7)" "(0, 7)" "\<lparr>ti_owner = 1, ti_data = \<lparr>td_deposit = 10\<rparr>\<rparr>"]
    demo_nft_transfer by (auto simp: demo_nft_def)

text \<open>
  Minting creates exactly the quantity asked for: a successful mint is signed by the owner of
  the class, and the tokens it changes are as many as the quantity, all of this class, none of them
  there before, all owned by the destination.
\<close>

theorem mint_creates_quantity:
  assumes "nft_env cfg rs" "nft_inv cfg rs s" "nf_create_token_deposit cfg * quantity \<le> u128_max"
    and "nft_mint cfg org dest c m quantity s = (Inr r, t)"
    and "N = {k. toks cfg (nf_world t) k \<noteq> toks cfg (nf_world s) k}"
  shows "card N = quantity \<and> (\<exists>ci. cls cfg (nf_world s) c = Some ci \<and> org = Signed (ci_owner ci)) \<and>
    (\<forall>k\<in>N. fst k = c \<and> toks cfg (nf_world s) k = None \<and>
       nf_lookup cfg dest = map_option ti_owner (toks cfg (nf_world t) k))"
proof (rule nft_mint_run[OF assms(1-4)])
  fix who to ci M
  assume ids: "org = Signed who" "nf_lookup cfg dest = Some to" "cls cfg (nf_world s) c = Some ci" "ci_owner ci = who"
    and M: "card M = quantity" "\<forall>k\<in>M. fst k = c \<and> toks cfg (nf_world s) k = None"
      "toks cfg (nf_world t) = minted to \<lparr>td_deposit = nf_create_token_deposit cfg\<rparr> M (toks cfg (nf_world s))"
  have "N = M" using M(2) by (auto simp: assms(5) M(3) minted_def)
  then show ?thesis using ids M by (auto simp: minted_def)
qed

theorem mint_creates_quantity_witness:
  "\<exists>t. nft_mint ledger_nft (Signed 1000) 4 0 [] 2 demo_nft = (Inr (), t) \<and>
     card {k. toks ledger_nft (nf_world t) k \<noteq> toks ledger_nft (nf_world demo_nft) k} = 2"
proof -
  have "\<exists>t. nft_mint ledger_nft (Signed 1000) 4 0 [] 2 demo_nft = (Inr (), t)"
    by (simp add: nft_mint_def mint_loop_def Let_def upt_rec demo_nft_def nl_defs u128_max_def sat_mul_def)
  then obtain t where t: "nft_mint ledger_nft (Signed 1000) 4 0 [] 2 demo_nft = (Inr (), t)" ..
  then show ?thesis
    using mint_creates_quantity[OF ledger_nft_env demo_nft_inv _ t refl] by (simp add: u128_max_def)
qed

text \<open>
  A class is destroyed only when no token of it is left: a successful \<open>destroy_class\<close> is signed
  by the owner of the class, the class has no issuance and is removed, and no token changes.
\<close>

theorem destroyed_class_was_empty:
  assumes "nft_env cfg rs" "nft_inv cfg rs s" "nft_destroy_class cfg org c dst s = (Inr r, t)"
  shows "(\<exists>ci. cls cfg (nf_world s) c = Some ci \<and> org = Signed (ci_owner ci) \<and> ci_total_issuance ci = 0) \<and>
    cls cfg (nf_world t) = (cls cfg (nf_world s))(c := None) \<and> toks cfg (nf_world t) = toks cfg (nf_world s)"
  by (rule nft_destroy_class_run[OF assms]) auto

theorem destroyed_class_was_empty_witness:
  "\<exists>s t. nft_destroy_class ledger_nft (Signed 1000) 0 5 s = (Inr (), t) \<and>
     cls ledger_nft (nf_world s) 0 \<noteq> None \<and> cls ledger_nft (nf_world t) 0 = None"
proof -
  define s where "s = snd (nft_burn ledger_nft (Signed 1) (0, 7) demo_nft)"
  have s: "s = demo_nft\<lparr>nf_world := nf_world s, nf_events := [BurnedToken 1 0 7]\<rparr>" "nl_classes (nf_world s) 0 = Some
      \<lparr>ci_owner = 1000, ci_total_issuance = 0, ci_data = \<lparr>cd_deposit = 50, cd_properties = 3\<rparr>\<rparr>"
    by (simp_all add: s_def nft_burn_def nft_do_burn_def nft_class_def nft_token_def inN_def nft_unreserve_def
        nft_deposit_event_def ensure_signed_def eff_defs demo_nft_def nl_defs has_property_def Let_def)
  have "nft_inv ledger_nft nl_reserved s"
    using nft_machine.run_calls_inv[of ledger_nft nl_reserved "[(Signed 1, Call_burn (0, 7))]" demo_nft]
    by (simp add: nft_safe_def ledger_nft_env demo_nft_inv s_def)
  moreover have "\<exists>t. nft_destroy_class ledger_nft (Signed 1000) 0 5 s = (Inr (), t)"
    by (simp add: nft_destroy_class_def s(2) nl_pay_def nl_unreserve_def Let_def)
  ultimately show ?thesis
    using destroyed_class_was_empty[OF ledger_nft_env] s(2) by fastforce
qed

end
