(* ===== verification/Precompiles_Properties.thy ===== *)
theory Precompiles_Properties
  imports Precompiles Evm_Manager_Properties Dex_Properties Nft_Properties
begin

text \<open>
  The precompiled contracts do what the pallets behind them do: a call encoded as Solidity encodes
  it is the operation of the pallet on the decoded arguments, whatever bytes a contract sends the
  exchange stays solvent and NFT deposits stay backed, only system contracts get through, and names
  of currencies never make the runtime panic, while prices of currencies with many decimals do.
\<close>

section \<open>Running the input\<close>

lemma account_id_at_run:
  "account_id_at am content i s = (Inr who, t) \<Longrightarrow> t = s \<and> (\<exists>a. who = am_get_account_id am a s)"
  by (auto simp: account_id_at_def)

lemma keeps_bind_account:
  assumes "\<And>a w. am_get_account_id am a w \<noteq> own" "\<And>who. who \<noteq> own \<Longrightarrow> preserves P (f who)"
  shows "preserves P (bindE (account_id_at am content i) f)"
proof (rule preservesI)
  fix s r t
  assume P: "P s" and run: "bindE (account_id_at am content i) f s = (r, t)"
  obtain x u where m: "account_id_at am content i s = (x, u)" by fastforce
  have u: "P u" using preservesD[of P, OF keeps_inputs(2) P m] .
  show "P t"
  proof (cases x)
    case (Inr who)
    then have "who \<noteq> own" using account_id_at_run m assms(1) by fastforce
    then show ?thesis using run m Inr u preservesD[OF assms(2)] by (simp add: bindE_def)
  qed (use run m u in \<open>simp add: bindE_def\<close>)
qed

lemma keeps_returns [keeps]: "preserves P (returns bs)"
  by (simp add: returns_def keeps)

lemma keeps_exit_text [keeps]: "preserves P m \<Longrightarrow> preserves P (exit_text f m)"
  by (simp add: exit_text_def keeps)

lemma keeps_vec_u8_from_str [keeps]: "preserves P (vec_u8_from_str b)"
  unfolding vec_u8_from_str_def by (intro keeps)

lemma action_abi:
  assumes "abi_header len selector params"
  shows "input_action f (abi_call len selector params) s = ok_or (f (be_number selector)) (Exit_Other ''invalid action'') s"
  by (simp add: input_action_def bindE_def nth_param_abi(1)[OF assms])

lemma abi_address_read: "length a = 20 \<Longrightarrow> drop 12 (abi_address a) = a"
  by (simp add: abi_address_def)

text \<open>Evaluating a call: the effects are unfolded on the state only.\<close>

lemma bindE_eval: "bindE m f s = (case m s of (Inl e, t) \<Rightarrow> (Inl e, t) | (Inr x, t) \<Rightarrow> f x t)"
  by (simp add: bindE_def)

lemma bindE_Inr: "m s = (Inr x, t) \<Longrightarrow> bindE m f s = f x t"
  by (simp add: bindE_def)

lemmas run_eval = bindE_eval thenE_def okE_def getE_def ok_or_def ensure_def failE_def

section \<open>Keeping the exchange solvent\<close>

text \<open>
  What the contract of the exchange relies on: each operation of the exchange keeps its invariant
  for every account but its own.
\<close>

locale exchange_service =
  fixes dm :: "'w dex_manager" and inv :: "'w \<Rightarrow> bool" and own :: account_id
  assumes swap_supply_keeps: "who \<noteq> own \<Longrightarrow> preserves inv (dm_swap_with_exact_supply dm who path n m limit)"
    and swap_target_keeps: "who \<noteq> own \<Longrightarrow> preserves inv (dm_swap_with_exact_target dm who path n m limit)"
    and add_keeps: "who \<noteq> own \<Longrightarrow> preserves inv (dm_add_liquidity dm who a b x y z dep)"
    and remove_keeps: "who \<noteq> own \<Longrightarrow> preserves inv (dm_remove_liquidity dm who a b x y z wit)"
begin

lemma call_swap_keeps:
  assumes "\<And>a w. am_get_account_id am a w \<noteq> own"
    "\<And>who path n m limit. who \<noteq> own \<Longrightarrow> preserves inv (swap who path n m limit)"
  shows "preserves inv (dex_call_swap err_text swap am cm input)"
  unfolding dex_call_swap_def
  by (rule keeps_bind_account[OF assms(1)]) (intro keeps assms(2))

lemma call_liquidity_keeps:
  assumes "\<And>a w. am_get_account_id am a w \<noteq> own"
    "\<And>who a b x y z d. who \<noteq> own \<Longrightarrow> preserves inv (f who a b x y z d)"
  shows "preserves inv (dex_call_liquidity err_text f am cm input)"
  unfolding dex_call_liquidity_def
  by (rule keeps_bind_account[OF assms(1)]) (intro keeps assms(2))

lemma execute_keeps:
  assumes "\<And>a w. am_get_account_id am a w \<noteq> own"
  shows "preserves inv (dex_execute err_text am cm dm input gas caller)"
proof -
  have q: "preserves inv (dex_query_pool cm dm input)" "preserves inv (dex_query_token cm dm input)"
      "preserves inv (dex_query_quote quote failed cm input)" for quote failed
    unfolding dex_query_pool_def dex_query_token_def dex_query_quote_def by (intro keeps)+
  have "preserves inv (dex_run err_text am cm dm input action)" for action
    by (cases action)
      (simp_all add: dex_run_def q call_swap_keeps[OF assms] call_liquidity_keeps[OF assms]
        swap_supply_keeps swap_target_keeps add_keeps remove_keeps)
  then show ?thesis unfolding dex_execute_def by (intro keeps)
qed

end

definition dex_sound :: "'w dex_config \<Rightarrow> 'w dex_state \<Rightarrow> bool" where
  "dex_sound cfg s \<longleftrightarrow> dex_env cfg \<and> trading_path_limit cfg \<le> 3 \<and> dex_inv cfg s"

interpretation pallet_exchange: exchange_service "pallet_dex cfg" "dex_sound cfg" "dex_account cfg" for cfg
proof unfold_locales
  fix who :: account_id and path n m limit
  assume who: "who \<noteq> dex_account cfg"
  show "preserves (dex_sound cfg) (dm_swap_with_exact_supply (pallet_dex cfg) who path n m limit)"
  proof (rule keeps_transactional_call)
    show "dm_swap_with_exact_supply (pallet_dex cfg) who path n m limit = transactional (do_swap_with_exact_supply cfg who path n m limit)"
      by (simp add: pallet_dex_def do_swap_with_exact_supply_def transactional_def fun_eq_iff split: prod.splits sum.splits)
  qed (use who do_swap_with_exact_supply_inv in \<open>auto simp: dex_sound_def pallet_dex_def\<close>)
  show "preserves (dex_sound cfg) (dm_swap_with_exact_target (pallet_dex cfg) who path n m limit)"
  proof (rule keeps_transactional_call)
    show "dm_swap_with_exact_target (pallet_dex cfg) who path n m limit = transactional (do_swap_with_exact_target cfg who path n m limit)"
      by (simp add: pallet_dex_def do_swap_with_exact_target_def transactional_def fun_eq_iff split: prod.splits sum.splits)
  qed (use who do_swap_with_exact_target_inv in \<open>auto simp: dex_sound_def pallet_dex_def\<close>)
next
  fix who :: account_id and a b x y z d
  assume who: "who \<noteq> dex_account cfg"
  show "preserves (dex_sound cfg) (dm_add_liquidity (pallet_dex cfg) who a b x y z d)"
  proof (rule keeps_transactional_call)
    show "dm_add_liquidity (pallet_dex cfg) who a b x y z d = transactional (do_add_liquidity cfg who a b x y z d)"
      by (simp add: pallet_dex_def)
  qed (use who do_add_liquidity_inv in \<open>auto simp: dex_sound_def pallet_dex_def\<close>)
  show "preserves (dex_sound cfg) (dm_remove_liquidity (pallet_dex cfg) who a b x y z d)"
  proof (rule keeps_transactional_call)
    show "dm_remove_liquidity (pallet_dex cfg) who a b x y z d = transactional (do_remove_liquidity cfg who a b x y z d)"
      by (simp add: pallet_dex_def do_remove_liquidity_def transactional_def fun_eq_iff split: prod.splits sum.splits)
  qed (use who do_remove_liquidity_inv in \<open>auto simp: dex_sound_def pallet_dex_def\<close>)
qed

section \<open>Calls as operations of the pallets\<close>

text \<open>The result of an operation as an EVM contract sees it.\<close>

definition as_exit :: "(dispatch_error \<Rightarrow> string) \<Rightarrow> ('a \<Rightarrow> u8 list) \<Rightarrow> (dispatch_error + 'a) \<times> 'w \<Rightarrow> (exit_error + returned) \<times> 'w" where
  "as_exit err_text f r =
     (case r of (Inr v, w) \<Rightarrow> (Inr (f v, 0), w) | (Inl e, w) \<Rightarrow> (Inl (Exit_Other (err_text e)), w))"

lemma exit_text_eval:
  "bindE (exit_text err_text m) (\<lambda>v. returns (f v)) s = as_exit err_text f (m s)"
  "thenE (exit_text err_text m) (returns bs) s = as_exit err_text (\<lambda>_. bs) (m s)"
  by (auto simp: as_exit_def exit_text_def map_errE_def returns_def bindE_def thenE_def okE_def split: prod.splits sum.splits)

text \<open>
  C13. The transfer of a mirrored currency is the transfer of the currency: a contract call with the
  selector of \<open>transfer(address,address,uint256)\<close> from the mirrored contract of a currency moves the
  amount between the accounts of the two addresses, as the currencies pallet does, and returns its
  error.
\<close>

theorem mirrored_transfer_refines_transfer:
  assumes "length len = 32" "length a = 20" "length b = 20" "n \<le> u128_max"
    and "cm_decode_evm_address cm caller w = Some c"
  shows "multicurrency_execute err_text am cm mc
      (abi_call len [0xbe, 0xab, 0xac, 0xc8] [abi_address a, abi_address b, be_word n]) gas caller w =
    as_exit err_text (\<lambda>_. []) (mc_transfer mc c (am_get_account_id am a w) (am_get_account_id am b w) n w)"
proof -
  have h: "abi_header len [0xbe, 0xab, 0xac, 0xc8] [abi_address a, abi_address b, be_word n]"
    using assms by (simp add: abi_header_def abi_address_def)
  have n: "be_number (drop 16 (be_word n)) = n"
    using assms(4) by (intro be_number_drop_word) (simp_all add: u128_max_def)
  have sel: "multicurrency_action_of (be_number [0xbe, 0xab, 0xac, 0xc8]) = Some Mc_Transfer"
    by (simp add: multicurrency_action_of_def account_of_bytes_def)
  show ?thesis
    using abi_reads(5)[OF h, of 0 am w] abi_reads(5)[OF h, of 1 am w] abi_reads(1)[OF h, of 2 w]
    by (simp add: multicurrency_execute_def multicurrency_run_def bindE_eval action_abi[OF h] sel ok_or_def okE_def getE_def assms
        abi_address_read n exit_text_eval numeral_2_eq_2[symmetric])
qed

definition zero_mapping :: "'w address_mapping" where
  "zero_mapping = \<lparr>am_get_account_id = (\<lambda>a w. be_number a), am_get_evm_address = (\<lambda>a w. None),
     am_get_default_evm_address = (\<lambda>a w. replicate 20 0)\<rparr>"

lemma be_number_zeros: "be_number (replicate k 0 @ bs) = be_number bs"
proof -
  have "be_number (replicate k 0) = 0"
    by (induction k) (simp_all add: account_of_bytes_def)
  then show ?thesis by (simp add: be_number_append)
qed

text \<open>Currencies by the last byte of their address.\<close>

definition byte_currencies :: "'w currency_id_mapping" where
  "byte_currencies = \<lparr>cm_name = (\<lambda>c w. map_option string_bytes (info_name c)),
     cm_symbol = (\<lambda>c w. map_option string_bytes (info_symbol c)), cm_decimals = (\<lambda>c w. info_decimals c),
     cm_decode_evm_address = (\<lambda>a w. map_option Token (token_try_from_u8 (last a)))\<rparr>"

theorem mirrored_transfer_refines_transfer_witness:
  "multicurrency_execute (\<lambda>e. ''no'') zero_mapping byte_currencies ledger_multi
     (abi_call (replicate 32 0) [0xbe, 0xab, 0xac, 0xc8]
        [abi_address (replicate 19 0 @ [1]), abi_address (replicate 19 0 @ [2]), be_word 40]) None (replicate 19 0 @ [2]) (\<lambda>c e. 100) =
   as_exit (\<lambda>e. ''no'') (\<lambda>_. []) (ledger_transfer (Token SETT) 1 2 40 (\<lambda>c e. 100))"
proof -
  have "token_try_from_u8 2 = Some SETT" by (simp add: token_try_from_u8_def all_tokens_def token_into_u8_def)
  moreover have "be_number [1] = 1" "be_number [2] = 2" by (simp_all add: account_of_bytes_def)
  ultimately show ?thesis
    using mirrored_transfer_refines_transfer[of "replicate 32 0" "replicate 19 0 @ [1]" "replicate 19 0 @ [2]" 40
        byte_currencies "replicate 19 0 @ [2]" "\<lambda>c e. 100" "Token SETT" "\<lambda>e. ''no''" zero_mapping ledger_multi None]
    by (simp add: byte_currencies_def zero_mapping_def u128_max_def be_number_zeros)
qed

text \<open>
  C14. A swap called by a contract is the swap of the exchange: with the selector of
  \<open>swapWithExactSupply\<close>, the account's address, the amounts and the array of currency addresses, the
  contract of the exchange performs \<open>do_swap_with_exact_supply\<close> along the path of the decoded
  currencies, without price limit, and returns the amount obtained as a word.
\<close>

theorem precompiled_swap_refines_swap:
  assumes "length len = 32" "length a = 20" "length off = 32" "n \<le> u128_max" "m \<le> u128_max" "length path \<le> u32_max"
    and addresses: "list_all2 (\<lambda>x c. length x = 20 \<and> cm_decode_evm_address cm x s = Some c) addresses path"
  shows "dex_execute err_text am cm (pallet_dex cfg)
      (abi_call len [0x57, 0x9b, 0xaa, 0x18] ([abi_address a, off, be_word n, be_word m, be_word (length path)] @
         map abi_address addresses)) gas caller s =
    as_exit err_text be_word (do_swap_with_exact_supply cfg (am_get_account_id am a s) path n m None s)"
proof -
  let ?params = "[abi_address a, off, be_word n, be_word m, be_word (length path)] @ map abi_address addresses"
  have len: "length addresses = length path" using addresses by (rule list_all2_lengthD)
  have each: "length (addresses ! j) = 20 \<and> cm_decode_evm_address cm (addresses ! j) s = Some (path ! j)"
    if "j < length path" for j
    using list_all2_nthD2[OF addresses that] .
  have "list_all (\<lambda>p. length p = 32) (map abi_address addresses)"
    using each len by (auto simp: list_all_length abi_address_def)
  then have h: "abi_header len [0x57, 0x9b, 0xaa, 0x18] ?params"
    using assms(1-3) by (simp add: abi_header_def abi_address_def)
  have nums: "be_number (drop 16 (be_word n)) = n" "be_number (drop 16 (be_word m)) = m"
      "be_number (drop 28 (be_word (length path))) = length path"
    using assms(4-6) by (auto intro!: be_number_drop_word simp: u128_max_def u32_max_def)
  have sel: "dex_action_of (be_number [0x57, 0x9b, 0xaa, 0x18]) = Some Dx_SwapWithExactSupply"
    by (simp add: dex_action_of_def account_of_bytes_def)
  define input where "input = abi_call len [0x57, 0x9b, 0xaa, 0x18] ?params"
  note reads = abi_reads[OF h, folded input_def]
  have "currency_id_at cm input (6 + j) s = (Inr (path ! j), s)" if "j < length path" for j
    using reads(6)[of "5 + j" cm s] each[OF that] that len
    by (simp add: nth_append abi_address_read ok_or_def okE_def)
  then have path: "path_at cm input 6 (length path) s = (Inr path, s)"
    by (simp add: path_at_run)
  have args: "account_id_at am input 1 s = (Inr (am_get_account_id am a s), s)" "balance_at input 3 s = (Inr n, s)"
      "balance_at input 4 s = (Inr m, s)" "u32_at input 5 s = (Inr (length path), s)"
    using reads(5)[of 0 am s] reads(1)[of 2 s] reads(1)[of 3 s] reads(3)[of 4 s] assms(2)
    by (simp_all add: nums abi_address_read)
  have "input_action dex_action_of input s = (Inr Dx_SwapWithExactSupply, s)"
    unfolding input_def action_abi[OF h] sel by (simp add: ok_or_def okE_def)
  then have "dex_execute err_text am cm (pallet_dex cfg) input gas caller s =
      dex_call_swap err_text (do_swap_with_exact_supply cfg) am cm input s"
    by (simp add: dex_execute_def dex_run_def bindE_def pallet_dex_def)
  also have "\<dots> = as_exit err_text be_word (do_swap_with_exact_supply cfg (am_get_account_id am a s) path n m None s)"
    unfolding dex_call_swap_def by (simp add: bindE_Inr args args[simplified] path exit_text_eval)
  finally show ?thesis unfolding input_def .
qed

theorem precompiled_swap_refines_swap_witness:
  "dex_execute (\<lambda>e. ''no'') zero_mapping byte_currencies (pallet_dex ledger_dex)
     (abi_call (replicate 32 0) [0x57, 0x9b, 0xaa, 0x18] ([abi_address (replicate 19 0 @ [1]), be_word 160, be_word 100,
        be_word 10, be_word (length [Token SETT, Token DNAR])] @
        map abi_address [replicate 19 0 @ [2], replicate 19 0 @ [0]])) None [] demo_dex =
   as_exit (\<lambda>e. ''no'') be_word (do_swap_with_exact_supply ledger_dex 1 [Token SETT, Token DNAR] 100 10 None demo_dex)"
proof -
  have "token_try_from_u8 2 = Some SETT" "token_try_from_u8 0 = Some DNAR"
    by (simp_all add: token_try_from_u8_def all_tokens_def token_into_u8_def)
  moreover have "be_number [1] = 1" by (simp add: account_of_bytes_def)
  then have "am_get_account_id zero_mapping (replicate 19 0 @ [1]) demo_dex = 1"
    by (simp add: zero_mapping_def be_number_zeros)
  ultimately show ?thesis
    using precompiled_swap_refines_swap[of "replicate 32 0" "replicate 19 0 @ [1]" "be_word 160" 100 10
        "[Token SETT, Token DNAR]" byte_currencies demo_dex "[replicate 19 0 @ [2], replicate 19 0 @ [0]]"
        "\<lambda>e. ''no''" zero_mapping ledger_dex None "[]"]
    by (simp add: byte_currencies_def u128_max_def u32_max_def)
qed

section \<open>Whatever bytes a contract sends\<close>


definition low_accounts :: "'w address_mapping" where
  "low_accounts = zero_mapping\<lparr>am_get_account_id := (\<lambda>a w. be_number a mod 50)\<rparr>"


text \<open>
  Contracts cannot take deposits of NFTs: whatever input the NFT contract gets, the deposits of
  all classes and tokens are backed afterwards as they were before.
\<close>

theorem precompiled_nft_keeps_deposits:
  assumes "nft_env cfg rs" "nft_inv cfg rs s"
  shows "nft_inv cfg rs (snd (nft_execute err_text am (pallet_nft cfg) input gas caller s))"
proof -
  let ?P = "\<lambda>s. nft_env cfg rs \<and> nft_inv cfg rs s"
  have move: "preserves ?P (nt_transfer (pallet_nft cfg) x y k)" for x y k
  proof (rule keeps_transactional_call)
    show "nt_transfer (pallet_nft cfg) x y k = transactional (nft_do_transfer cfg x y k)"
      by (simp add: pallet_nft_def nft_trait_transfer_def nft_do_transfer_def transactional_def fun_eq_iff
          split: prod.splits sum.splits)
  qed (auto simp: pallet_nft_def nft_trait_transfer_def intro: nft_transfer_step[THEN conjunct1])
  have "preserves ?P (nft_run err_text am (pallet_nft cfg) input action)" for action
    unfolding nft_run_def by (cases action; simp; intro keeps move)
  then have "preserves ?P (nft_execute err_text am (pallet_nft cfg) input gas caller)"
    unfolding nft_execute_def by (intro keeps)
  then show ?thesis using assms by (simp add: preserves_def)
qed

theorem precompiled_nft_keeps_deposits_witness:
  "nft_inv ledger_nft nl_reserved (snd (nft_execute (\<lambda>e. ''no'') zero_mapping (pallet_nft ledger_nft)
     (abi_call (replicate 32 0) [0x04, 0x11, 0xb2, 0x52] [be_word 1, be_word 2, be_word 0, be_word 7]) None [] demo_nft))"
  by (rule precompiled_nft_keeps_deposits[OF ledger_nft_env demo_nft_inv])

lemma precompile_numbers:
  "be_number (from_low_u64_be precompile_address_start) = 1024"
  "be_number (from_low_u64_be (precompile_address_start + 1)) = 1025"
  "be_number (from_low_u64_be (precompile_address_start + 2)) = 1026"
  "be_number (from_low_u64_be (precompile_address_start + 3)) = 1027"
  "be_number (from_low_u64_be (precompile_address_start + 4)) = 1028"
  "be_number (from_low_u64_be (precompile_address_start + 5)) = 1029"
  "be_number (from_low_u64_be predeploy_address_start) = 2048"
  by code_simp+

text \<open>
  C16. Only system contracts reach the contracts of this chain: with the runtime's filter, a call
  from an address that does not start with eleven zero bytes, to an address without a contract of
  Ethereum, either fails with "no permission" and changes nothing, or there is no contract at the
  address at all.
\<close>

theorem precompiles_need_permission:
  assumes "ps_is_allowed ps = is_system_contract" "\<not> is_system_contract caller"
    and "ps_evm ps address input gas caller s = None"
  shows "all_precompiles_execute ps address input gas caller s =
    (if is_setheum_precompile address then Some (Inl (Exit_Other ''no permission''), s) else None)"
proof -
  have "is_setheum_precompile a" if "be_number a \<in> {1024..1029}" for a
    using that by (simp add: is_setheum_precompile_def precompile_numbers)
  then have "is_setheum_precompile (from_low_u64_be precompile_address_start)"
      "is_setheum_precompile (from_low_u64_be (precompile_address_start + 1))"
      "is_setheum_precompile (from_low_u64_be (precompile_address_start + 2))"
      "is_setheum_precompile (from_low_u64_be (precompile_address_start + 3))"
      "is_setheum_precompile (from_low_u64_be (precompile_address_start + 4))"
      "is_setheum_precompile (from_low_u64_be (precompile_address_start + 5))"
    by (simp_all add: precompile_numbers)
  then show ?thesis
    using assms unfolding all_precompiles_execute_def by auto
qed

definition demo_precompiles :: "ledger dex_state precompile_set" where
  "demo_precompiles = \<lparr>ps_evm = (\<lambda>a i g c w. None), ps_is_allowed = is_system_contract,
     ps_multicurrency = (\<lambda>i g c. returns []), ps_nft = (\<lambda>i g c. returns []), ps_state_rent = (\<lambda>i g c. returns []),
     ps_oracle = (\<lambda>i g c. returns []), ps_schedule = (\<lambda>i g c. returns []),
     ps_dex = dex_execute (\<lambda>e. ''no'') low_accounts byte_currencies (pallet_dex ledger_dex)\<rparr>"

theorem precompiles_need_permission_witness:
  "all_precompiles_execute demo_precompiles (from_low_u64_be (precompile_address_start + 5)) [] None (replicate 20 1) demo_dex
     = Some (Inl (Exit_Other ''no permission''), demo_dex)"
proof -
  have "\<not> is_system_contract (replicate 20 1)"
    by (simp add: is_system_contract_def bytes_start_with_def system_contract_address_prefix_def take_Cons' numeral_eq_Suc)
  then show ?thesis
    using precompiles_need_permission[of demo_precompiles "replicate 20 1" "from_low_u64_be (precompile_address_start + 5)" "[]" None demo_dex]
    by (simp add: demo_precompiles_def is_setheum_precompile_def precompile_numbers)
qed

section \<open>Names, prices and tasks\<close>

text \<open>
  What reading the input yields: the storage is as it was, and a failure is not a panic.
\<close>

definition outcome_at :: "'w \<Rightarrow> ('w, 'a) pce \<Rightarrow> ('a \<Rightarrow> bool) \<Rightarrow> bool" where
  "outcome_at s m Q \<longleftrightarrow> (case m s of (Inl e, t) \<Rightarrow> t = s \<and> e \<noteq> Exit_Panic | (Inr x, t) \<Rightarrow> t = s \<and> Q x)"

lemma outcome_then:
  assumes "outcome_at s m Q" "\<And>e. e \<noteq> Exit_Panic \<Longrightarrow> F (Inl e, s)" "\<And>x. Q x \<Longrightarrow> F (f x s)"
  shows "F (bindE m f s)"
  using assms by (auto simp: outcome_at_def bindE_def split: prod.splits sum.splits)

lemma outcome_bind:
  assumes "outcome_at s m Q" "\<And>x. Q x \<Longrightarrow> outcome_at s (f x) R"
  shows "outcome_at s (bindE m f) R"
  unfolding outcome_at_def[of s "bindE m f"]
  by (rule outcome_then[OF assms(1), where F = "\<lambda>r. case r of (Inl e, t) \<Rightarrow> t = s \<and> e \<noteq> Exit_Panic | (Inr x, t) \<Rightarrow> t = s \<and> R x"])
    (use assms(2) in \<open>simp_all add: outcome_at_def\<close>)

lemma outcome_simps:
  "outcome_at s (okE x) Q \<longleftrightarrow> Q x" "outcome_at s (getE f) Q \<longleftrightarrow> Q (f s)"
  "outcome_at s (ok_or y (Exit_Other e)) Q \<longleftrightarrow> (\<forall>x. y = Some x \<longrightarrow> Q x)"
  by (auto simp: outcome_at_def okE_def getE_def ok_or_def failE_def split: option.splits)

lemma outcome_lookup:
  "outcome_at s (bindE (getE f) (\<lambda>x. ok_or x (Exit_Other e))) (\<lambda>x. f s = Some x)"
  by (rule outcome_bind[where Q = "\<lambda>x. x = f s"]) (simp_all add: outcome_simps)

lemma outcome_nth_param: "outcome_at s (nth_param content n len) (\<lambda>_. True)"
  by (simp add: outcome_at_def nth_param_def thenE_def bindE_def ensure_def okE_def failE_def)

lemma outcome_inputs:
  "outcome_at s (input_action f content) (\<lambda>_. True)" "outcome_at s (account_id_at am content i) (\<lambda>_. True)"
  "outcome_at s (balance_at content i) (\<lambda>_. True)"
  unfolding input_action_def account_id_at_def balance_at_def
  by (rule outcome_bind[OF outcome_nth_param], simp add: outcome_simps)+

definition query_safe :: "'w \<Rightarrow> (exit_error + returned) \<times> 'w \<Rightarrow> bool" where
  "query_safe w r \<longleftrightarrow> fst r \<noteq> Inl Exit_Panic \<and>
     (case fst r of Inr (out, g) \<Rightarrow> g = 0 \<and> (out = [] \<or> length out = 32 \<and> snd r = w) | Inl e \<Rightarrow> True)"

lemma query_safe_simps:
  "e \<noteq> Exit_Panic \<Longrightarrow> query_safe w (Inl e, w')" "query_safe w (returns (be_word n) w)"
  "query_safe w (as_exit err_text (\<lambda>_. []) r)"
  by (auto simp: query_safe_def returns_def okE_def as_exit_def split: prod.splits sum.splits)

lemma query_safe_str: "length b \<le> 32 \<Longrightarrow> query_safe w (bindE (vec_u8_from_str b) returns w)"
  by (simp add: query_safe_def vec_u8_from_str_def run_eval returns_def)

text \<open>
  A call of a mirrored currency never panics: the names and symbols of the EVM manager fit the
  32 bytes of a word. A successful call either returns one word and leaves the storage as it was, or
  it is a transfer and returns nothing.
\<close>

theorem mirrored_queries_are_safe:
  assumes "\<And>c w. cm_name cm c w = mapping_name c (em w)" "\<And>c w. cm_symbol cm c w = mapping_symbol c (em w)"
    and run: "multicurrency_execute err_text am cm mc input gas caller w = (r, t)"
  shows "r \<noteq> Inl Exit_Panic \<and> (case r of Inr (out, g) \<Rightarrow> g = 0 \<and> (out = [] \<or> length out = 32 \<and> t = w) | Inl e \<Rightarrow> True)"
proof -
  have short: "length nm \<le> 32" if "cm_name cm c w = Some nm \<or> cm_symbol cm c w = Some nm" for nm c
    using that by (auto simp: assms(1,2) mapping_name_def mapping_symbol_def truncate_32_def split: if_splits)
  have "query_safe w (multicurrency_run err_text am cm mc input c action w)" for c action
  proof (cases action)
    case Mc_Transfer
    then show ?thesis
      by (simp add: multicurrency_run_def, intro outcome_then[OF outcome_inputs(2), where F = "query_safe w"]
          outcome_then[OF outcome_inputs(3), where F = "query_safe w"])
        (simp_all add: query_safe_simps exit_text_eval)
  next
    case Mc_QueryBalance
    then show ?thesis
      by (simp add: multicurrency_run_def, intro outcome_then[OF outcome_inputs(2), where F = "query_safe w"])
        (simp_all add: query_safe_simps bindE_Inr getE_def vec_u8_from_balance_def)
  next
    case Mc_QueryName
    then show ?thesis
      by (simp add: multicurrency_run_def, intro outcome_then[OF outcome_lookup, where F = "query_safe w"])
        (auto simp: query_safe_simps intro: query_safe_str short)
  next
    case Mc_QuerySymbol
    then show ?thesis
      by (simp add: multicurrency_run_def, intro outcome_then[OF outcome_lookup, where F = "query_safe w"])
        (auto simp: query_safe_simps intro: query_safe_str short)
  next
    case Mc_QueryDecimals
    then show ?thesis
      by (simp add: multicurrency_run_def, intro outcome_then[OF outcome_lookup, where F = "query_safe w"])
        (auto simp: query_safe_simps vec_u8_from_u8_def)
  next
    case Mc_QueryTotalIssuance
    then show ?thesis
      by (simp add: multicurrency_run_def query_safe_simps bindE_Inr getE_def vec_u8_from_balance_def)
  qed
  then have "query_safe w (multicurrency_execute err_text am cm mc input gas caller w)"
    unfolding multicurrency_execute_def
    by (intro outcome_then[OF outcome_inputs(1), where F = "query_safe w"] outcome_then[OF outcome_lookup, where F = "query_safe w"])
      (simp_all add: query_safe_simps)
  then show ?thesis unfolding run by (cases r) (auto simp: query_safe_def)
qed

definition manager_currencies :: "ledger currency_id_mapping" where
  "manager_currencies = (let s = \<lparr>currency_id_map = (\<lambda>i. None), em_world = ()\<rparr> in
     \<lparr>cm_name = (\<lambda>c w. mapping_name c s), cm_symbol = (\<lambda>c w. mapping_symbol c s),
      cm_decimals = (\<lambda>c w. mapping_decimals c s), cm_decode_evm_address = (\<lambda>a w. decode_evm_address a s)\<rparr>)"

theorem mirrored_queries_are_safe_witness:
  "fst (multicurrency_execute (\<lambda>e. ''no'') zero_mapping manager_currencies ledger_multi
      (abi_call (replicate 32 0) [0x06, 0xfd, 0xde, 0x03] []) None (replicate 16 0 @ [1, 0, 0, 2]) (\<lambda>c e. 100)) \<noteq> Inl Exit_Panic"
proof -
  obtain r t where run: "multicurrency_execute (\<lambda>e. ''no'') zero_mapping manager_currencies ledger_multi
      (abi_call (replicate 32 0) [0x06, 0xfd, 0xde, 0x03] []) None (replicate 16 0 @ [1, 0, 0, 2]) (\<lambda>c e. 100) = (r, t)" by fastforce
  have "cm_name manager_currencies c w = mapping_name c \<lparr>currency_id_map = (\<lambda>i. None), em_world = ()\<rparr>"
    "cm_symbol manager_currencies c w = mapping_symbol c \<lparr>currency_id_map = (\<lambda>i. None), em_world = ()\<rparr>" for c w
    by (simp_all add: manager_currencies_def Let_def)
  from mirrored_queries_are_safe[where em = "\<lambda>w. \<lparr>currency_id_map = (\<lambda>i. None), em_world = ()\<rparr>", OF this run]
  show ?thesis by (simp add: run)
qed

text \<open>
  The price of a currency with more than 18 decimals is not zero but a panic: up to 18 decimals
  the contract returns the price scaled down to them, but for 19 to 235 decimals, which an ERC20
  contract may have, the multiplier becomes zero and the division by it panics.
\<close>

theorem oracle_price_or_panic:
  assumes "length len = 32" "length a = 20" "cm_decode_evm_address cm a w = Some c"
    and "cm_decimals cm c w = Some d" "unat d \<le> 235"
  shows "oracle_execute cm get_price (abi_call len [0x41, 0x97, 0x6e, 0x09] [abi_address a]) gas caller w =
    ((if unat d \<le> 18 then Inr (be_word (unwrap_or (get_price c w) 0 div 10 ^ (18 - unat d)), 0) else Inl Exit_Panic), w)"
proof -
  have h: "abi_header len [0x41, 0x97, 0x6e, 0x09] [abi_address a]"
    using assms by (simp add: abi_header_def abi_address_def)
  have sel: "oracle_action_of (be_number [0x41, 0x97, 0x6e, 0x09]) = Some Or_GetPrice"
    by (simp add: oracle_action_of_def account_of_bytes_def)
  have multiplier: "adjustment_multiplier d = (if unat d \<le> 18 then Some (10 ^ (18 - unat d)) else None)"
  proof (cases "unat d \<le> 18")
    case True
    then have "unat (18 - d) = 18 - unat d"
      by (subst unat_sub) (simp_all add: word_le_nat_alt)
    moreover have "(10::nat) ^ (18 - unat d) \<le> 10 ^ 18" by (rule power_increasing) simp_all
    then have "(10::nat) ^ (18 - unat d) \<le> u128_max" by (simp add: u128_max_def)
    ultimately show ?thesis using True by (simp add: adjustment_multiplier_def narrow_def)
  next
    case False
    have "unat (18 - d) = 256 + 18 - unat d"
      using False assms(5) by (simp add: unat_sub_if' word_le_nat_alt)
    then have "39 \<le> unat (18 - d)" using assms(5) by simp
    then have "(10::nat) ^ 39 \<le> 10 ^ unat (18 - d)" by (rule power_increasing) simp
    then have "\<not> 10 ^ unat (18 - d) \<le> u128_max" by (simp add: u128_max_def)
    then show ?thesis using False by (simp add: adjustment_multiplier_def narrow_def)
  qed
  have "currency_id_at cm (abi_call len [0x41, 0x97, 0x6e, 0x09] [abi_address a]) 1 w = (Inr c, w)"
    using abi_reads(6)[OF h, of 0 cm w] assms(2,3) by (simp add: abi_address_read ok_or_def okE_def)
  then show ?thesis
    using assms(4) by (simp add: oracle_execute_def bindE_Inr action_abi[OF h] sel multiplier Let_def run_eval
        vec_u8_from_price_def chk_div_def returns_def)
qed

definition twenty_decimals :: "unit currency_id_mapping" where
  "twenty_decimals = byte_currencies\<lparr>cm_decimals := (\<lambda>c w. Some 20)\<rparr>"

theorem oracle_price_or_panic_witness:
  "oracle_execute twenty_decimals (\<lambda>c w. Some 5) (abi_call (replicate 32 0) [0x41, 0x97, 0x6e, 0x09]
     [abi_address (replicate 19 0 @ [2])]) None [] () = (Inl Exit_Panic, ())"
proof -
  have "token_try_from_u8 2 = Some SETT" by (simp add: token_try_from_u8_def all_tokens_def token_into_u8_def)
  then show ?thesis
    using oracle_price_or_panic[of "replicate 32 0" "replicate 19 0 @ [2]" twenty_decimals "()" "Token SETT" 20 "\<lambda>c w. Some 5" None "[]"]
    by (simp add: twenty_decimals_def byte_currencies_def)
qed

text \<open>The reads are equations of the input; a number read is at most what its bytes hold.\<close>

lemma reads_run:
  "evm_address_at input i s = (Inr a, t) \<longleftrightarrow> t = s \<and> evm_address_at input i s = (Inr a, s)"
  "balance_at input i s = (Inr n, t) \<longleftrightarrow> t = s \<and> balance_at input i s = (Inr n, s)"
  "u64_at input i s = (Inr n, t) \<longleftrightarrow> t = s \<and> u64_at input i s = (Inr n, s)"
  "u32_at input i s = (Inr n, t) \<longleftrightarrow> t = s \<and> u32_at input i s = (Inr n, s)"
  "bytes_at input i k s = (Inr bs, t) \<longleftrightarrow> t = s \<and> bytes_at input i k s = (Inr bs, s)"
  by (auto simp: evm_address_at_def balance_at_def u64_at_def u32_at_def bytes_at_def)

definition scheduled_task :: "nat \<Rightarrow> evm_address \<Rightarrow> balance \<Rightarrow> task_info" where
  "scheduled_task n sender fee = \<lparr>ti_prefix = schedule_call_prefix, ti_id = n, ti_sender = sender, ti_fee = fee\<rparr>"

lemma task_id_with_len_run:
  "task_id_with_len b s = (Inr bs, t) \<longleftrightarrow>
     length b \<le> 64 \<and> bs = be_word (length b) @ b @ replicate (64 - length b) 0 \<and> t = s"
  by (auto simp: task_id_with_len_def)

lemma schedule_runs:
  assumes "schedule_action_schedule err_text am sg input w = (Inr (out, g), t)" "\<not> sg_ethereum_compatibility sg"
  obtains sender gas_limit fee u where
    "evm_address_at input 1 w = (Inr sender, w)"
    "sg_reserve_fee sg (am_get_account_id am sender w) (sg_gas_to_weight sg gas_limit) w = (Inr fee, u)"
    "\<exists>v. task_id_with_len (sg_encode sg (scheduled_task (sg_next_id sg u) sender fee)) v = (Inr out, v)"
proof -
  note input = that
  from assms obtain sender s1 where 1: "evm_address_at input 1 w = (Inr sender, s1)"
    by (auto simp: schedule_action_schedule_def)
  then have w: "s1 = w" by (subst (asm) reads_run) simp
  from assms 1 obtain target s2 where 2: "evm_address_at input 2 w = (Inr target, s2)"
    by (auto simp: schedule_action_schedule_def w)
  then have w2: "s2 = w" by (subst (asm) reads_run) simp
  from assms 1 2 obtain given s3 where 3: "balance_at input 3 w = (Inr given, s3)"
    by (auto simp: schedule_action_schedule_def w w2)
  then have w3: "s3 = w" by (subst (asm) reads_run) simp
  from assms 1 2 3 obtain gas_limit s4 where 4: "u64_at input 4 w = (Inr gas_limit, s4)"
    by (auto simp: schedule_action_schedule_def w w2 w3)
  then have w4: "s4 = w" by (subst (asm) reads_run) simp
  from assms 1 2 3 4 obtain storage_limit s5 where 5: "u32_at input 5 w = (Inr storage_limit, s5)"
    by (auto simp: schedule_action_schedule_def w w2 w3 w4)
  then have w5: "s5 = w" by (subst (asm) reads_run) simp
  from assms 1 2 3 4 5 obtain min_delay s6 where 6: "u32_at input 6 w = (Inr min_delay, s6)"
    by (auto simp: schedule_action_schedule_def w w2 w3 w4 w5)
  then have w6: "s6 = w" by (subst (asm) reads_run) simp
  from assms 1 2 3 4 5 6 obtain len s7 where 7: "u32_at input 8 w = (Inr len, s7)"
    by (auto simp: schedule_action_schedule_def w w2 w3 w4 w5 w6)
  then have w7: "s7 = w" by (subst (asm) reads_run) simp
  from assms 1 2 3 4 5 6 7 obtain data s8 where 8: "bytes_at input 9 len w = (Inr data, s8)"
    by (auto simp: schedule_action_schedule_def w w2 w3 w4 w5 w6 w7)
  then have w8: "s8 = w" by (subst (asm) reads_run) simp
  note read = 1[unfolded w] 2[unfolded w2] 3[unfolded w3] 4[unfolded w4] 5[unfolded w5] 6[unfolded w6] 7[unfolded w7] 8[unfolded w8]
  from assms read show thesis
    by (auto simp: schedule_action_schedule_def Let_def bindE_Inr exit_text_def task_id_with_len_run returns_def
        scheduled_task_def intro!: input)
qed

text \<open>
  A scheduled call belongs to its sender: the task id a successful scheduling returns names the
  sender and the fee that was reserved for him, so that he can cancel or reschedule the task, and
  anybody else is refused with "NoPermission". The codec decodes what it encoded, in at most 64 bytes.
\<close>

theorem scheduled_task_belongs_to_sender:
  assumes codec: "\<forall>n a fee. length a = 20 \<longrightarrow> sg_decode sg (sg_encode sg (scheduled_task n a fee)) = Some (scheduled_task n a fee)"
    and compat: "\<not> sg_ethereum_compatibility sg"
    and run: "schedule_action_schedule err_text am sg input w = (Inr (out, g), t)"
    and task: "task_id = take (be_number (take 32 out)) (drop 32 out)"
  shows "\<exists>sender fee gas u. evm_address_at input 1 w = (Inr sender, w) \<and>
    sg_reserve_fee sg (am_get_account_id am sender w) (sg_gas_to_weight sg gas) w = (Inr fee, u) \<and>
    (\<forall>who v. owned_task sg who task_id v =
       (if who = sender then (Inr (scheduled_task (sg_next_id sg u) sender fee), v)
        else (Inl (Exit_Other ''NoPermission''), v)))"
proof -
  obtain sender gas fee u v where sender: "evm_address_at input 1 w = (Inr sender, w)"
    and fee: "sg_reserve_fee sg (am_get_account_id am sender w) (sg_gas_to_weight sg gas) w = (Inr fee, u)"
    and returned: "task_id_with_len (sg_encode sg (scheduled_task (sg_next_id sg u) sender fee)) v = (Inr out, v)"
    using schedule_runs[OF run compat] by metis
  define ti where "ti = scheduled_task (sg_next_id sg u) sender fee"
  have out: "length (sg_encode sg ti) \<le> 64"
      "out = be_word (length (sg_encode sg ti)) @ sg_encode sg ti @ replicate (64 - length (sg_encode sg ti)) 0"
    using returned by (simp_all add: task_id_with_len_run ti_def)
  have "length sender = 20" using sender
    by (auto simp: evm_address_at_def simp del: nth_param_run dest: nth_param_length[of input 0, simplified])
  then have decoded: "sg_decode sg (sg_encode sg ti) = Some ti" unfolding ti_def using codec by blast
  have "be_number (be_word (length (sg_encode sg ti))) = length (sg_encode sg ti)"
    using out(1) by (intro be_number_word) simp
  then have id: "task_id = sg_encode sg ti" by (simp add: task out(2))
  have "ti_sender ti = sender" by (simp add: ti_def scheduled_task_def)
  then have "owned_task sg who task_id v = (if who = sender then (Inr ti, v) else (Inl (Exit_Other ''NoPermission''), v))" for who v
    by (simp add: owned_task_def id decoded run_eval)
  then show ?thesis using sender fee unfolding ti_def by blast
qed

definition demo_scheduling :: "nat scheduling" where
  "demo_scheduling = \<lparr>sg_next_id = (\<lambda>w. w), sg_set_next_id = (\<lambda>n w. n),
     sg_encode = (\<lambda>ti. ti_sender ti @ replicate (ti_id ti) 1 @ replicate (ti_fee ti) 2),
     sg_decode = (\<lambda>bs. Some (scheduled_task (length (takeWhile (\<lambda>b. b = 1) (drop 20 bs))) (take 20 bs)
        (length (dropWhile (\<lambda>b. b = 1) (drop 20 bs))))),
     sg_schedule_named = (\<lambda>i d c. okE ()), sg_cancel_named = (\<lambda>i. okE ()), sg_reschedule_named = (\<lambda>i d. okE ()),
     sg_gas_to_weight = (\<lambda>g. g), sg_reserve_fee = (\<lambda>a g. okE 5), sg_unreserve_fee = (\<lambda>a b w. w),
     sg_ethereum_compatibility = False\<rparr>"

lemma demo_codec:
  "\<forall>n a fee. length a = 20 \<longrightarrow>
     sg_decode demo_scheduling (sg_encode demo_scheduling (scheduled_task n a fee)) = Some (scheduled_task n a fee)"
proof (intro allI impI)
  show "sg_decode demo_scheduling (sg_encode demo_scheduling (scheduled_task n a fee)) = Some (scheduled_task n a fee)"
    if "length a = 20" for n a fee
    using that by (cases fee) (simp_all add: demo_scheduling_def scheduled_task_def takeWhile_append dropWhile_append)
qed

definition demo_schedule_input :: "u8 list" where
  "demo_schedule_input = replicate 36 0 @ replicate 31 0 @ [7] @ replicate 256 0"

theorem scheduled_task_belongs_to_sender_witness:
  "\<exists>task_id. owned_task demo_scheduling (replicate 19 0 @ [7]) task_id (3::nat) = (Inr (scheduled_task 0 (replicate 19 0 @ [7]) 5), 3) \<and>
     owned_task demo_scheduling (replicate 19 0 @ [8]) task_id (3::nat) = (Inl (Exit_Other ''NoPermission''), 3)"
proof -
  have zeros: "be_number (replicate k 0) = 0" for k using be_number_zeros[of k "[]"] by (simp add: account_of_bytes_def)
  have a: "evm_address_at demo_schedule_input 1 (0::nat) = (Inr (replicate 19 0 @ [7]), 0)"
    by (simp add: evm_address_at_def demo_schedule_input_def nth_param_def run_eval param_end_def param_start_def input_lengths)
  have reads: "evm_address_at demo_schedule_input 2 (0::nat) = (Inr (replicate 20 0), 0)"
      "balance_at demo_schedule_input 3 (0::nat) = (Inr 0, 0)" "u64_at demo_schedule_input 4 (0::nat) = (Inr 0, 0)"
      "u32_at demo_schedule_input 5 (0::nat) = (Inr 0, 0)" "u32_at demo_schedule_input 6 (0::nat) = (Inr 0, 0)"
      "u32_at demo_schedule_input 8 (0::nat) = (Inr 0, 0)" "bytes_at demo_schedule_input 9 0 (0::nat) = (Inr [], 0)"
    by (simp_all add: evm_address_at_def balance_at_def u64_at_def u32_at_def bytes_at_def demo_schedule_input_def
        nth_param_def run_eval param_end_def param_start_def input_lengths zeros)
  have fee: "sg_reserve_fee demo_scheduling who gas u = (Inr 5, u)" for who gas u
    by (simp add: demo_scheduling_def okE_def)
  have task: "sg_next_id demo_scheduling u = u" "sg_set_next_id demo_scheduling n u = n"
      "sg_schedule_named demo_scheduling i d c u = (Inr (), u)" for u n i d c
    by (simp_all add: demo_scheduling_def okE_def)
  have compat: "\<not> sg_ethereum_compatibility demo_scheduling" by (simp add: demo_scheduling_def)
  have short: "length (sg_encode demo_scheduling \<lparr>ti_prefix = schedule_call_prefix, ti_id = 0, ti_sender = replicate 19 0 @ [7], ti_fee = 5\<rparr>) \<le> 64"
    by (simp add: demo_scheduling_def)
  obtain out g t where run: "schedule_action_schedule (\<lambda>e. ''no'') zero_mapping demo_scheduling demo_schedule_input (0::nat) = (Inr (out, g), t)"
    using short
    by (simp add: schedule_action_schedule_def a a[simplified] reads compat fee exit_text_def task u32_max_def Let_def
        task_id_with_len_run returns_def)
  obtain sender fee gas u where sender: "evm_address_at demo_schedule_input 1 (0::nat) = (Inr sender, 0)"
    and reserved: "sg_reserve_fee demo_scheduling (am_get_account_id zero_mapping sender (0::nat)) (sg_gas_to_weight demo_scheduling gas) (0::nat) = (Inr fee, u)"
    and owned: "\<forall>who v. owned_task demo_scheduling who (take (be_number (take 32 out)) (drop 32 out)) v =
       (if who = sender then (Inr (scheduled_task (sg_next_id demo_scheduling u) sender fee), v)
        else (Inl (Exit_Other ''NoPermission''), v))"
    using scheduled_task_belongs_to_sender[OF demo_codec compat run refl] by (elim exE conjE) (rule that)
  from sender a have "sender = replicate 19 0 @ [7]" by simp
  moreover from reserved have "fee = 5" "sg_next_id demo_scheduling u = 0" by (simp_all add: demo_scheduling_def okE_def)
  ultimately show ?thesis using owned
    by (intro exI[of _ "take (be_number (take 32 out)) (drop 32 out)"]) simp
qed

end
