(* ===== verification/Chainbridge.thy ===== *)
theory Chainbridge
  imports Currency_Interface
begin

text \<open>
  The chain bridge pallet, \<open>lib-serml/bridges/chainbridge/src/lib.rs\<close>: the registration of
  currencies under resource ids, and transfers of currencies over the bridge. A currency of this
  chain is locked in the account of the bridge while it is abroad; a currency of another chain is
  issued when it comes in and burnt when it leaves. The bridge itself (white list, account,
  outgoing messages) is a library, the currency a parameter.
\<close>

section \<open>Storage and configuration\<close>

datatype chainbridge_event =
    RegisterResourceId resource_id currency_id
  | UnregisterResourceId resource_id currency_id

record 'w chainbridge_config =
  cb_currency :: "'w multi_currency"
  cb_native_currency_id :: currency_id
  cb_registor_origin :: "origin \<Rightarrow> bool"
  cb_bridge_origin :: "origin \<Rightarrow> account_id option"
  cb_chain_id :: u8
  cb_account_id :: account_id
  cb_chain_whitelisted :: "u8 \<Rightarrow> 'w \<Rightarrow> bool"
  cb_transfer_fungible :: "u8 \<Rightarrow> resource_id \<Rightarrow> u8 list \<Rightarrow> nat \<Rightarrow> ('w, unit) eff"

record 'w chainbridge_state =
  resource_ids :: "currency_id \<Rightarrow> resource_id option"
  currency_ids :: "resource_id \<Rightarrow> currency_id option"
  cb_world :: 'w
  cb_events :: "chainbridge_event list"

definition inB :: "('w, 'a) eff \<Rightarrow> ('w chainbridge_state, 'a) eff" where
  "inB m = zoomE cb_world (\<lambda>w s. s\<lparr>cb_world := w\<rparr>) m"

definition cb_deposit_event :: "chainbridge_event \<Rightarrow> ('w chainbridge_state, unit) eff" where
  "cb_deposit_event ev = modE (\<lambda>s. s\<lparr>cb_events := cb_events s @ [ev]\<rparr>)"

abbreviation cbE :: "chainbridge_error \<Rightarrow> dispatch_error" where
  "cbE \<equiv> Chainbridge_Error"

section \<open>Resource ids\<close>

text \<open>The last byte of a resource id is the chain it comes from.\<close>

definition is_origin_chain_resource :: "'w chainbridge_config \<Rightarrow> resource_id \<Rightarrow> bool" where
  "is_origin_chain_resource cfg r \<longleftrightarrow> r ! 31 = cb_chain_id cfg"

definition check_match :: "'w chainbridge_config \<Rightarrow> resource_id \<Rightarrow> currency_id \<Rightarrow> bool" where
  "check_match cfg r c =
     (if is_origin_chain_resource cfg r then (case c of ChainBridge _ \<Rightarrow> False | _ \<Rightarrow> True)
      else (case c of ChainBridge r_id \<Rightarrow> r_id = r | _ \<Rightarrow> False))"

definition register_resource_id ::
  "'w chainbridge_config \<Rightarrow> origin \<Rightarrow> resource_id \<Rightarrow> currency_id \<Rightarrow> ('w chainbridge_state, unit) eff" where
  "register_resource_id cfg org r c = transactional (
     thenE (ensure (cb_registor_origin cfg org) BadOrigin) (
     bindE (getE (\<lambda>s. (resource_ids s c, currency_ids s r))) (\<lambda>(known_r, known_c).
     thenE (ensure (known_r = None \<and> known_c = None) (cbE ResourceIdAlreadyRegistered)) (
     thenE (ensure (check_match cfg r c) (cbE ResourceIdCurrencyIdNotMatch)) (
     thenE (modE (\<lambda>s. s\<lparr>resource_ids := (resource_ids s)(c := Some r)\<rparr>)) (
     thenE (modE (\<lambda>s. s\<lparr>currency_ids := (currency_ids s)(r := Some c)\<rparr>))
       (cb_deposit_event (RegisterResourceId r c))))))))"

definition remove_resource_id ::
  "'w chainbridge_config \<Rightarrow> origin \<Rightarrow> resource_id \<Rightarrow> ('w chainbridge_state, unit) eff" where
  "remove_resource_id cfg org r = transactional (
     thenE (ensure (cb_registor_origin cfg org) BadOrigin) (
     bindE (getE (\<lambda>s. currency_ids s r)) (\<lambda>taken.
     thenE (modE (\<lambda>s. s\<lparr>currency_ids := (currency_ids s)(r := None)\<rparr>)) (
     case taken of
       None \<Rightarrow> okE ()
     | Some c \<Rightarrow>
         thenE (modE (\<lambda>s. s\<lparr>resource_ids := (resource_ids s)(c := None)\<rparr>))
           (cb_deposit_event (UnregisterResourceId r c))))))"

section \<open>Transfers\<close>

definition do_transfer_to_bridge ::
  "'w chainbridge_config \<Rightarrow> account_id \<Rightarrow> currency_id \<Rightarrow> u8 \<Rightarrow> u8 list \<Rightarrow> balance \<Rightarrow>
   ('w chainbridge_state, unit) eff" where
  "do_transfer_to_bridge cfg from c dest_chain_id recipient amount =
     bindE (getE (\<lambda>s. cb_chain_whitelisted cfg dest_chain_id (cb_world s))) (\<lambda>listed.
     thenE (ensure listed (cbE InvalidDestChainId)) (
     bindE (getE (\<lambda>s. resource_ids s c)) (\<lambda>known.
     bindE (ok_or known (cbE ResourceIdNotRegistered)) (\<lambda>r.
     thenE (if is_origin_chain_resource cfg r
            then inB (mc_transfer (cb_currency cfg) c from (cb_account_id cfg) amount)
            else inB (mc_withdraw (cb_currency cfg) c from amount))
       (inB (cb_transfer_fungible cfg dest_chain_id r recipient amount))))))"

definition transfer_to_bridge ::
  "'w chainbridge_config \<Rightarrow> origin \<Rightarrow> currency_id \<Rightarrow> u8 \<Rightarrow> u8 list \<Rightarrow> balance \<Rightarrow>
   ('w chainbridge_state, unit) eff" where
  "transfer_to_bridge cfg org c dest_chain_id recipient amount = transactional (
     bindE (ensure_signed org) (\<lambda>who. do_transfer_to_bridge cfg who c dest_chain_id recipient amount))"

definition transfer_native_to_bridge ::
  "'w chainbridge_config \<Rightarrow> origin \<Rightarrow> u8 \<Rightarrow> u8 list \<Rightarrow> balance \<Rightarrow> ('w chainbridge_state, unit) eff" where
  "transfer_native_to_bridge cfg org dest_chain_id recipient amount = transactional (
     bindE (ensure_signed org) (\<lambda>who.
     do_transfer_to_bridge cfg who (cb_native_currency_id cfg) dest_chain_id recipient amount))"

text \<open>The origin of the bridge is the account of the bridge.\<close>

definition transfer_from_bridge ::
  "'w chainbridge_config \<Rightarrow> origin \<Rightarrow> account_id \<Rightarrow> balance \<Rightarrow> resource_id \<Rightarrow>
   ('w chainbridge_state, unit) eff" where
  "transfer_from_bridge cfg org to amount r = transactional (
     bindE (ok_or (cb_bridge_origin cfg org) BadOrigin) (\<lambda>bridge_account_id.
     bindE (getE (\<lambda>s. currency_ids s r)) (\<lambda>known.
     bindE (ok_or known (cbE ResourceIdNotRegistered)) (\<lambda>c.
     if is_origin_chain_resource cfg r
     then inB (mc_transfer (cb_currency cfg) c bridge_account_id to amount)
     else inB (mc_deposit (cb_currency cfg) c to amount)))))"

end
