(* ===== verification/Chainbridge_Properties.thy ===== *)
theory Chainbridge_Properties
  imports Chainbridge Ledger
begin

text \<open>
  Properties of the chain bridge: the two resource maps stay inverse to each other and consistent
  with the origin of the resources, and the books of the bridge balance over every run of calls.
\<close>

section \<open>The calls\<close>

datatype chainbridge_call =
    Register_resource origin resource_id currency_id
  | Remove_resource origin resource_id
  | To_bridge origin currency_id u8 "u8 list" balance
  | Native_to_bridge origin u8 "u8 list" balance
  | From_bridge origin account_id balance resource_id

primrec chainbridge_exec :: "'w chainbridge_config \<Rightarrow> chainbridge_call \<Rightarrow> ('w chainbridge_state, unit) eff" where
  "chainbridge_exec cfg (Register_resource org r c) = register_resource_id cfg org r c"
| "chainbridge_exec cfg (Remove_resource org r) = remove_resource_id cfg org r"
| "chainbridge_exec cfg (To_bridge org c dest recipient n) = transfer_to_bridge cfg org c dest recipient n"
| "chainbridge_exec cfg (Native_to_bridge org dest recipient n) = transfer_native_to_bridge cfg org dest recipient n"
| "chainbridge_exec cfg (From_bridge org to n r) = transfer_from_bridge cfg org to n r"

lemma inB_run [simp, runs]:
  "inB m s = (Inr x, t) \<longleftrightarrow> (\<exists>w. m (cb_world s) = (Inr x, w) \<and> t = s\<lparr>cb_world := w\<rparr>)"
  by (auto simp: inB_def zoomE_run)

lemma cb_deposit_event_run [simp, runs]:
  "cb_deposit_event ev s = (Inr x, t) \<longleftrightarrow> t = s\<lparr>cb_events := cb_events s @ [ev]\<rparr>"
  by (simp add: cb_deposit_event_def)

text \<open>Every dispatchable is transactional: a failing call has no effect.\<close>

lemma failing_call_changes_nothing: "chainbridge_exec cfg call s = (Inl e, t) \<Longrightarrow> t = s"
  by (cases call) (auto simp: register_resource_id_def remove_resource_id_def transfer_to_bridge_def
      transfer_native_to_bridge_def transfer_from_bridge_def dest: transactional_fails)

section \<open>The resource maps\<close>

definition resources_ok :: "'w chainbridge_config \<Rightarrow> 'w chainbridge_state \<Rightarrow> bool" where
  "resources_ok cfg s \<longleftrightarrow>
     (\<forall>c r. resource_ids s c = Some r \<longleftrightarrow> currency_ids s r = Some c) \<and>
     (\<forall>c r. resource_ids s c = Some r \<longrightarrow> check_match cfg r c)"

lemma resources_okD:
  assumes "resources_ok cfg s"
  shows "resource_ids s c = Some r \<longleftrightarrow> currency_ids s r = Some c" "resource_ids s c = Some r \<Longrightarrow> check_match cfg r c"
  using assms unfolding resources_ok_def by blast+

lemma transfer_maps:
  assumes "do_transfer_to_bridge cfg from c dest recipient n s = (Inr u, t)"
  shows "resource_ids t = resource_ids s \<and> currency_ids t = currency_ids s"
  using assms by (auto simp: do_transfer_to_bridge_def split: if_splits)

lemma call_keeps_resources:
  assumes "chainbridge_exec cfg call s = (Inr u, t)" "resources_ok cfg s"
  shows "resources_ok cfg t"
proof (cases call)
  case (Register_resource org r c)
  then have new: "resource_ids s c = None" "currency_ids s r = None" "check_match cfg r c"
    and t: "resource_ids t = (resource_ids s)(c := Some r)" "currency_ids t = (currency_ids s)(r := Some c)"
    using assms(1) by (auto simp: register_resource_id_def)
  have "resource_ids s d \<noteq> Some r" "currency_ids s q \<noteq> Some c" for d q
    using resources_okD(1)[OF assms(2)] new by (metis option.distinct(1))+
  then show ?thesis
    using new resources_okD[OF assms(2)] unfolding resources_ok_def t by auto
next
  case (Remove_resource org r)
  show ?thesis
  proof (cases "currency_ids s r")
    case None
    then have "resource_ids t = resource_ids s" "currency_ids t = currency_ids s"
      using assms(1) Remove_resource by (auto simp: remove_resource_id_def)
    then show ?thesis using assms(2) by (simp add: resources_ok_def)
  next
    case (Some c)
    then have t: "resource_ids t = (resource_ids s)(c := None)" "currency_ids t = (currency_ids s)(r := None)"
      using assms(1) Remove_resource by (auto simp: remove_resource_id_def)
    have "resource_ids s c = Some r" using Some resources_okD(1)[OF assms(2)] by blast
    then have "resource_ids s d = Some r \<longleftrightarrow> d = c" "currency_ids s q = Some c \<longleftrightarrow> q = r" for d q
      using resources_okD(1)[OF assms(2)] by (metis option.inject)+
    then show ?thesis
      using resources_okD[OF assms(2)] unfolding resources_ok_def t by auto
  qed
next
  case (To_bridge org c dest recipient n)
  then show ?thesis
    using assms by (auto simp: transfer_to_bridge_def resources_ok_def dest!: transfer_maps)
next
  case (Native_to_bridge org dest recipient n)
  then show ?thesis
    using assms by (auto simp: transfer_native_to_bridge_def resources_ok_def dest!: transfer_maps)
next
  case (From_bridge org to n r)
  then have "resource_ids t = resource_ids s \<and> currency_ids t = currency_ids s"
    using assms(1) by (auto simp: transfer_from_bridge_def split: if_splits)
  then show ?thesis using assms(2) by (simp add: resources_ok_def)
qed

lemma call_preserves_resources: "preserves (resources_ok cfg) (chainbridge_exec cfg call)"
proof (rule preservesI)
  fix s r t
  assume "resources_ok cfg s" "chainbridge_exec cfg call s = (r, t)"
  then show "resources_ok cfg t"
    using failing_call_changes_nothing[of cfg call s _ t] call_keeps_resources[of cfg call s _ t]
    by (cases r) auto
qed

interpretation bridge: pallet_machine "chainbridge_exec cfg" "\<lambda>_. True" "resources_ok cfg" for cfg
  by unfold_locales (rule call_preserves_resources)

text \<open>
  C17. Registered currencies and resource ids correspond one to one after every run of calls, a
  resource of this chain never belongs to a bridged currency, and a resource of another chain only
  to the bridged currency that carries its id: nobody can make the bridge issue a currency of this
  chain.
\<close>

theorem resources_one_to_one:
  assumes "resource_ids s = (\<lambda>c. None)" "currency_ids s = (\<lambda>r. None)"
    and "t = run_calls (chainbridge_exec cfg) calls s"
  shows "(resource_ids t c = Some r \<longleftrightarrow> currency_ids t r = Some c) \<and>
    (currency_ids t r = Some c \<longrightarrow> (if is_origin_chain_resource cfg r then \<forall>q. c \<noteq> ChainBridge q else c = ChainBridge r))"
proof -
  have "resources_ok cfg s" using assms(1,2) by (simp add: resources_ok_def)
  then have "resources_ok cfg t" using assms(3) by (simp add: bridge.run_calls_inv list_all_iff)
  then show ?thesis
    using resources_okD[of cfg t c r] by (auto simp: check_match_def split: currency_id.splits if_splits)
qed

definition demo_bridge :: "ledger chainbridge_config" where
  "demo_bridge = \<lparr>cb_currency = ledger_multi, cb_native_currency_id = Token DNAR,
     cb_registor_origin = (\<lambda>org. org = Root), cb_bridge_origin = (\<lambda>org. if org = Custom 0 then Some 9 else None),
     cb_chain_id = 2, cb_account_id = 9, cb_chain_whitelisted = (\<lambda>i w. i = 0),
     cb_transfer_fungible = (\<lambda>i r recipient n. okE ())\<rparr>"

definition bridge_start :: "ledger chainbridge_state" where
  "bridge_start = \<lparr>resource_ids = (\<lambda>c. None), currency_ids = (\<lambda>r. None),
     cb_world = (\<lambda>c e. 100), cb_events = []\<rparr>"

definition local_resource :: resource_id where
  "local_resource = replicate 31 0 @ [2]"

theorem resources_one_to_one_witness:
  "resource_ids (run_calls (chainbridge_exec demo_bridge)
     [Register_resource Root local_resource (Token DNAR), Register_resource Root local_resource (Token SETT)] bridge_start)
     (Token DNAR) = Some local_resource \<and>
   currency_ids (run_calls (chainbridge_exec demo_bridge)
     [Register_resource Root local_resource (Token DNAR), Register_resource Root local_resource (Token SETT)] bridge_start)
     local_resource = Some (Token DNAR)"
  (is "resource_ids ?t _ = _ \<and> _")
proof -
  have "resource_ids ?t (Token DNAR) = Some local_resource"
    by (simp add: register_resource_id_def demo_bridge_def bridge_start_def local_resource_def check_match_def
        is_origin_chain_resource_def eff_defs cb_deposit_event_def nth_append)
  moreover have "resource_ids ?t (Token DNAR) = Some local_resource \<longleftrightarrow> currency_ids ?t local_resource = Some (Token DNAR)"
    by (rule resources_one_to_one[THEN conjunct1, OF _ _ refl]) (simp_all add: bridge_start_def)
  ultimately show ?thesis by simp
qed

section \<open>The books\<close>

text \<open>
  What a call moves: for a successful transfer its currency, resource and amount, positive when it
  leaves this chain.
\<close>

definition bridged :: "'w chainbridge_config \<Rightarrow> chainbridge_call \<Rightarrow> 'w chainbridge_state \<Rightarrow> (currency_id \<times> resource_id \<times> int) option" where
  "bridged cfg call s =
     (if isl (fst (chainbridge_exec cfg call s)) then None
      else case call of
        To_bridge org c dest recipient n \<Rightarrow> map_option (\<lambda>r. (c, r, int n)) (resource_ids s c)
      | Native_to_bridge org dest recipient n \<Rightarrow>
          map_option (\<lambda>r. (cb_native_currency_id cfg, r, int n)) (resource_ids s (cb_native_currency_id cfg))
      | From_bridge org to n r \<Rightarrow> map_option (\<lambda>c. (c, r, - int n)) (currency_ids s r)
      | _ \<Rightarrow> None)"

text \<open>What left this chain and is not back, for resources of this chain or of others.\<close>

definition net :: "'w chainbridge_config \<Rightarrow> bool \<Rightarrow> chainbridge_call \<Rightarrow> 'w chainbridge_state \<Rightarrow> currency_id \<Rightarrow> int" where
  "net cfg own call s c =
     (case bridged cfg call s of
        Some (d, r, n) \<Rightarrow> if d = c \<and> is_origin_chain_resource cfg r = own then n else 0
      | None \<Rightarrow> 0)"

primrec abroad :: "'w chainbridge_config \<Rightarrow> bool \<Rightarrow> chainbridge_call list \<Rightarrow> 'w chainbridge_state \<Rightarrow> currency_id \<Rightarrow> int" where
  "abroad cfg own [] s c = 0"
| "abroad cfg own (call # calls) s c =
     net cfg own call s c + abroad cfg own calls (snd (chainbridge_exec cfg call s)) c"

abbreviation locked :: "'w chainbridge_config \<Rightarrow> 'w chainbridge_state \<Rightarrow> currency_id \<Rightarrow> int" where
  "locked cfg s c \<equiv> int (mc_free_balance (cb_currency cfg) c (cb_account_id cfg) (cb_world s))"

abbreviation issued :: "'w chainbridge_config \<Rightarrow> 'w chainbridge_state \<Rightarrow> currency_id \<Rightarrow> int" where
  "issued cfg s c \<equiv> int (mc_total_issuance (cb_currency cfg) c (cb_world s))"

text \<open>
  The contract of the currency: custody of the account of the bridge, and an issuance that only
  deposits and withdrawals change. The message to the other chain moves no currency, and the
  bridge's origin is its account.
\<close>

definition issuance_law :: "'w multi_currency \<Rightarrow> bool" where
  "issuance_law ops \<longleftrightarrow>
     (\<forall>c a b n w w' d. mc_transfer ops c a b n w = (Inr (), w') \<longrightarrow> mc_total_issuance ops d w' = mc_total_issuance ops d w) \<and>
     (\<forall>c a n w w' d. mc_deposit ops c a n w = (Inr (), w') \<longrightarrow>
        mc_total_issuance ops d w' = mc_total_issuance ops d w + (if d = c then n else 0)) \<and>
     (\<forall>c a n w w' d. mc_withdraw ops c a n w = (Inr (), w') \<longrightarrow>
        mc_total_issuance ops d w' + (if d = c then n else 0) = mc_total_issuance ops d w)"

definition bridge_env :: "'w chainbridge_config \<Rightarrow> bool" where
  "bridge_env cfg \<longleftrightarrow> custody (cb_currency cfg) (cb_account_id cfg) \<and> issuance_law (cb_currency cfg) \<and>
     (\<forall>i r recipient n w w' c. cb_transfer_fungible cfg i r recipient n w = (Inr (), w') \<longrightarrow>
        mc_free_balance (cb_currency cfg) c (cb_account_id cfg) w' = mc_free_balance (cb_currency cfg) c (cb_account_id cfg) w \<and>
        mc_total_issuance (cb_currency cfg) c w' = mc_total_issuance (cb_currency cfg) c w) \<and>
     (\<forall>org a. cb_bridge_origin cfg org = Some a \<longrightarrow> a = cb_account_id cfg)"

text \<open>The account of the bridge signs no calls.\<close>

primrec not_by_bridge :: "'w chainbridge_config \<Rightarrow> chainbridge_call \<Rightarrow> bool" where
  "not_by_bridge cfg (To_bridge org c dest recipient n) \<longleftrightarrow> org \<noteq> Signed (cb_account_id cfg)"
| "not_by_bridge cfg (Native_to_bridge org dest recipient n) \<longleftrightarrow> org \<noteq> Signed (cb_account_id cfg)"
| "not_by_bridge cfg (Register_resource org r c) \<longleftrightarrow> True"
| "not_by_bridge cfg (Remove_resource org r) \<longleftrightarrow> True"
| "not_by_bridge cfg (From_bridge org to n r) \<longleftrightarrow> True"

lemma issuance_transfer:
  "issuance_law ops \<Longrightarrow> mc_transfer ops c a b n w = (Inr (), w') \<Longrightarrow> mc_total_issuance ops d w' = mc_total_issuance ops d w"
  unfolding issuance_law_def by blast

lemma issuance_deposit:
  "issuance_law ops \<Longrightarrow> mc_deposit ops c a n w = (Inr (), w') \<Longrightarrow>
     mc_total_issuance ops d w' = mc_total_issuance ops d w + (if d = c then n else 0)"
  unfolding issuance_law_def by blast

lemma issuance_withdraw:
  "issuance_law ops \<Longrightarrow> mc_withdraw ops c a n w = (Inr (), w') \<Longrightarrow>
     mc_total_issuance ops d w' + (if d = c then n else 0) = mc_total_issuance ops d w"
  unfolding issuance_law_def by blast

lemma to_bridge_books:
  assumes env: "bridge_env cfg" "from \<noteq> cb_account_id cfg"
    and run: "do_transfer_to_bridge cfg from d dest recipient n s = (Inr u, t)"
  obtains r where "resource_ids s d = Some r"
    "locked cfg s c + (if d = c \<and> is_origin_chain_resource cfg r then int n else 0) \<le> locked cfg t c"
    "issued cfg t c = issued cfg s c - (if d = c \<and> \<not> is_origin_chain_resource cfg r then int n else 0)"
proof -
  let ?ops = "cb_currency cfg" and ?m = "cb_account_id cfg"
  have laws: "custody ?ops ?m" "issuance_law ?ops" using env(1) by (simp_all add: bridge_env_def)
  have same: "mc_free_balance ?ops c ?m w' = mc_free_balance ?ops c ?m w" "mc_total_issuance ?ops c w' = mc_total_issuance ?ops c w"
    if "cb_transfer_fungible cfg dest r recipient n w = (Inr (), w')" for r w w'
    using env(1) that unfolding bridge_env_def by blast+
  obtain r where r: "resource_ids s d = Some r"
    using run by (auto simp: do_transfer_to_bridge_def)
  show thesis
  proof (cases "is_origin_chain_resource cfg r")
    case True
    then obtain w1 where move: "mc_transfer ?ops d from ?m n (cb_world s) = (Inr (), w1)"
      and message: "cb_transfer_fungible cfg dest r recipient n w1 = (Inr (), cb_world t)"
      using run r by (auto simp: do_transfer_to_bridge_def)
    show thesis
      using True custody_in[OF laws(1) env(2) move, of c] issuance_transfer[OF laws(2) move, of c]
      by (intro that[OF r]) (auto simp: same[OF message])
  next
    case False
    then obtain w1 where move: "mc_withdraw ?ops d from n (cb_world s) = (Inr (), w1)"
      and message: "cb_transfer_fungible cfg dest r recipient n w1 = (Inr (), cb_world t)"
      using run r by (auto simp: do_transfer_to_bridge_def)
    show thesis
      using False custody_withdraw[OF laws(1) env(2) move, of c] issuance_withdraw[OF laws(2) move, of c]
      by (intro that[OF r]) (auto simp: same[OF message])
  qed
qed

lemma from_bridge_books:
  assumes env: "bridge_env cfg" and run: "transfer_from_bridge cfg org to n r s = (Inr u, t)"
  obtains d where "currency_ids s r = Some d"
    "locked cfg s c - (if d = c \<and> is_origin_chain_resource cfg r then int n else 0) \<le> locked cfg t c"
    "issued cfg t c = issued cfg s c + (if d = c \<and> \<not> is_origin_chain_resource cfg r then int n else 0)"
proof -
  let ?ops = "cb_currency cfg" and ?m = "cb_account_id cfg"
  obtain d where d: "currency_ids s r = Some d" and bridge: "cb_bridge_origin cfg org = Some ?m"
    using run env by (auto simp: transfer_from_bridge_def bridge_env_def)
  have laws: "custody ?ops ?m" "issuance_law ?ops" using env by (simp_all add: bridge_env_def)
  show thesis
  proof (cases "is_origin_chain_resource cfg r")
    case True
    then have move: "mc_transfer ?ops d ?m to n (cb_world s) = (Inr (), cb_world t)"
      using run d bridge by (auto simp: transfer_from_bridge_def)
    show thesis
      using True custody_pay[OF laws(1) move, of c] issuance_transfer[OF laws(2) move, of c]
      by (intro that[OF d]) auto
  next
    case False
    then have move: "mc_deposit ?ops d to n (cb_world s) = (Inr (), cb_world t)"
      using run d bridge by (auto simp: transfer_from_bridge_def)
    show thesis
      using False custody_deposit[OF laws(1) move, of c] issuance_deposit[OF laws(2) move, of c]
      by (intro that[OF d]) auto
  qed
qed

text \<open>One call moves on both sides what \<open>net\<close> says.\<close>

lemma call_books:
  assumes env: "bridge_env cfg" and call: "not_by_bridge cfg call" and t: "t = snd (chainbridge_exec cfg call s)"
  shows "locked cfg s c + net cfg True call s c \<le> locked cfg t c \<and> issued cfg t c = issued cfg s c - net cfg False call s c"
proof (cases "chainbridge_exec cfg call s")
  case (Pair res t')
  show ?thesis
  proof (cases res)
    case (Inl e)
    then have "t = s" using failing_call_changes_nothing[of cfg call s e t'] Pair t by simp
    then show ?thesis using Inl Pair by (simp add: net_def bridged_def)
  next
    case (Inr u)
    have run: "chainbridge_exec cfg call s = (Inr u, t)" and ok: "\<not> isl (fst (chainbridge_exec cfg call s))"
      using Inr Pair t by simp_all
    show ?thesis
    proof (cases call)
      case (Register_resource org r d)
      then have "cb_world t = cb_world s" using run by (auto simp: register_resource_id_def)
      then show ?thesis using Register_resource by (simp add: net_def bridged_def)
    next
      case (Remove_resource org r)
      then have "cb_world t = cb_world s"
        using run by (cases "currency_ids s r") (auto simp: remove_resource_id_def)
      then show ?thesis using Remove_resource by (simp add: net_def bridged_def)
    next
      case (To_bridge org d dest recipient n)
      then obtain who where who: "org = Signed who" "who \<noteq> cb_account_id cfg"
        and transfer: "do_transfer_to_bridge cfg who d dest recipient n s = (Inr u, t)"
        using run call by (auto simp: transfer_to_bridge_def)
      obtain r where r: "resource_ids s (d) = Some r"
        and moved: "locked cfg s c + (if d = c \<and> is_origin_chain_resource cfg r then int n else 0) \<le> locked cfg t c"
          "issued cfg t c = issued cfg s c - (if d = c \<and> \<not> is_origin_chain_resource cfg r then int n else 0)"
        by (rule to_bridge_books[OF env who(2) transfer])
      have "net cfg own call s c = (if d = c \<and> is_origin_chain_resource cfg r = own then int n else 0)" for own
        using ok by (simp add: net_def bridged_def To_bridge r)
      then show ?thesis using moved by simp
    next
      case (Native_to_bridge org dest recipient n)
      then obtain who where who: "org = Signed who" "who \<noteq> cb_account_id cfg"
        and transfer: "do_transfer_to_bridge cfg who (cb_native_currency_id cfg) dest recipient n s = (Inr u, t)"
        using run call by (auto simp: transfer_native_to_bridge_def)
      obtain r where r: "resource_ids s (cb_native_currency_id cfg) = Some r"
        and moved: "locked cfg s c + (if cb_native_currency_id cfg = c \<and> is_origin_chain_resource cfg r then int n else 0) \<le> locked cfg t c"
          "issued cfg t c = issued cfg s c - (if cb_native_currency_id cfg = c \<and> \<not> is_origin_chain_resource cfg r then int n else 0)"
        by (rule to_bridge_books[OF env who(2) transfer])
      have "net cfg own call s c = (if cb_native_currency_id cfg = c \<and> is_origin_chain_resource cfg r = own then int n else 0)" for own
        using ok by (simp add: net_def bridged_def Native_to_bridge r)
      then show ?thesis using moved by simp
    next
      case (From_bridge org to n r)
      then have "transfer_from_bridge cfg org to n r s = (Inr u, t)" using run by simp
      then obtain d where d: "currency_ids s r = Some d"
        and moved: "locked cfg s c - (if d = c \<and> is_origin_chain_resource cfg r then int n else 0) \<le> locked cfg t c"
          "issued cfg t c = issued cfg s c + (if d = c \<and> \<not> is_origin_chain_resource cfg r then int n else 0)"
        by (rule from_bridge_books[OF env])
      have "net cfg own call s c = - (if d = c \<and> is_origin_chain_resource cfg r = own then int n else 0)" for own
        using ok by (simp add: net_def bridged_def From_bridge d)
      then show ?thesis using moved by simp
    qed
  qed
qed

text \<open>
  C18. The books of the bridge balance over every run of calls: the account of the bridge has
  gained at least what left this chain of a currency of this chain and has not come back, and the
  issuance of a currency has changed by exactly what came in of it from other chains less what
  went back. Nobody calls in the name of the bridge's account.
\<close>

theorem bridge_books_balance:
  assumes "bridge_env cfg" "list_all (not_by_bridge cfg) calls" "t = run_calls (chainbridge_exec cfg) calls s"
  shows "locked cfg s c + abroad cfg True calls s c \<le> locked cfg t c \<and> issued cfg t c = issued cfg s c - abroad cfg False calls s c"
  using assms(2,3)
proof (induction calls arbitrary: s)
  case (Cons call calls)
  define u where "u = snd (chainbridge_exec cfg call s)"
  have "locked cfg s c + net cfg True call s c \<le> locked cfg u c \<and> issued cfg u c = issued cfg s c - net cfg False call s c"
    using Cons.prems by (intro call_books[OF assms(1) _ u_def]) simp
  moreover have "locked cfg u c + abroad cfg True calls u c \<le> locked cfg t c \<and> issued cfg t c = issued cfg u c - abroad cfg False calls u c"
    using Cons by (simp add: u_def)
  ultimately show ?case by (simp add: u_def)
qed simp

lemma demo_bridge_env: "bridge_env demo_bridge"
proof -
  have "issuance_law ledger_multi"
    by (auto simp: issuance_law_def ledger_transfer_def ledger_move_def ledger_deposit_def ledger_withdraw_def split: if_splits)
  then show ?thesis by (auto simp: bridge_env_def demo_bridge_def ledger_custody split: if_splits)
qed

theorem bridge_books_balance_witness:
  "locked demo_bridge (run_calls (chainbridge_exec demo_bridge)
     [Register_resource Root local_resource (Token DNAR), To_bridge (Signed 1) (Token DNAR) 0 [] 40,
      From_bridge (Custom 0) 3 10 local_resource] bridge_start) (Token DNAR) \<ge> 130"
proof -
  let ?calls = "[Register_resource Root local_resource (Token DNAR), To_bridge (Signed 1) (Token DNAR) 0 [] 40,
      From_bridge (Custom 0) 3 10 local_resource]"
  have "abroad demo_bridge True ?calls bridge_start (Token DNAR) = 30"
    by (simp add: net_def bridged_def register_resource_id_def transfer_to_bridge_def do_transfer_to_bridge_def
        transfer_from_bridge_def demo_bridge_def bridge_start_def local_resource_def check_match_def
        is_origin_chain_resource_def eff_defs cb_deposit_event_def nth_append inB_def ensure_signed_def
        ledger_transfer_def ledger_move_def u128_max_def)
  moreover have "locked demo_bridge bridge_start (Token DNAR) = 100"
    by (simp add: demo_bridge_def bridge_start_def ledger_free_def u128_max_def)
  moreover have "list_all (not_by_bridge demo_bridge) ?calls" by (simp add: demo_bridge_def)
  ultimately show ?thesis
    using bridge_books_balance[OF demo_bridge_env _ refl, of ?calls "Token DNAR" bridge_start] by linarith
qed

end
