(* ===== verification/Evm_Bridge.thy ===== *)
theory Evm_Bridge
  imports Evm_Manager Precompile_Input
begin

text \<open>
  The EVM bridge, \<open>lib-serml/evm/evm-bridge/src/lib.rs\<close>: calls of ERC20 contracts, encoded for the
  EVM, with their results decoded. The EVM (the trait \<open>EVM\<close> of \<open>lib-serml/support\<close>) is a
  parameter; the EVM pallet implements it. A slice out of range, a number that fits no \<open>usize\<close> and
  \<open>U256::from\<close> of more than 32 bytes panic, which is the error \<open>Panic\<close> here.
\<close>

record 'w evm_executor =
  ex_execute :: "invoke_context \<Rightarrow> u8 list \<Rightarrow> balance \<Rightarrow> nat \<Rightarrow> nat \<Rightarrow> execution_mode \<Rightarrow> ('w, call_info) eff"
  ex_get_origin :: "'w \<Rightarrow> account_id option"
  ex_set_origin :: "account_id \<Rightarrow> 'w \<Rightarrow> 'w"

abbreviation ebE :: "evm_bridge_error \<Rightarrow> dispatch_error" where
  "ebE \<equiv> Evm_Bridge_Error"

definition method_name :: u32 where "method_name = 0x06fdde03"
definition method_symbol :: u32 where "method_symbol = 0x95d89b41"
definition method_decimals :: u32 where "method_decimals = 0x313ce567"
definition method_total_supply :: u32 where "method_total_supply = 0x18160ddd"
definition method_balance_of :: u32 where "method_balance_of = 0x70a08231"
definition method_transfer :: u32 where "method_transfer = 0xa9059cbb"

text \<open>The largest \<open>usize\<close> of the runtime, which runs on a machine of 32 bits.\<close>

definition usize_max :: nat where "usize_max = u32_max"

definition handle_exit_reason :: "exit_reason \<Rightarrow> ('w, unit) eff" where
  "handle_exit_reason reason =
     (case reason of
        Exit_Succeed Returned \<Rightarrow> okE ()
      | Exit_Succeed Stopped \<Rightarrow> okE ()
      | Exit_Succeed _ \<Rightarrow> failE (ebE ExecutionFail)
      | Exit_Revert \<Rightarrow> failE (ebE ExecutionRevert)
      | Exit_Fatal \<Rightarrow> failE (ebE ExecutionFatal)
      | Exit_Error _ \<Rightarrow> failE (ebE ExecutionError))"

text \<open>
  A string behind its offset and its length. An overflow of the sums of \<open>usize\<close> panics too: at
  once in a debug build, at the slice with wrapped bounds in a release build.
\<close>

definition decode_string :: "u8 list \<Rightarrow> ('w, u8 list) eff" where
  "decode_string out =
     thenE (ensure (length out \<ge> 64 \<and> length out mod 32 = 0) (ebE InvalidReturnValue))
     (let offset = be_number (take 32 out) in
      thenE (ensure (offset + 32 \<le> length out) Panic)
      (let len = be_number (take 32 (drop offset out)) in
       thenE (ensure (offset + 32 + len \<le> usize_max) Panic) (
       thenE (ensure (offset + 32 + len \<le> length out) (ebE InvalidReturnValue))
         (okE (take len (drop (offset + 32) out))))))"

text \<open>\<open>U256::from\<close> a slice.\<close>

definition u256_from :: "u8 list \<Rightarrow> ('w, nat) eff" where
  "u256_from bs = thenE (ensure (length bs \<le> 32) Panic) (okE (be_number bs))"

text \<open>A call that changes nothing, with its exit reason handled.\<close>

definition bridge_view :: "'w evm_executor \<Rightarrow> invoke_context \<Rightarrow> u8 list \<Rightarrow> ('w, u8 list) eff" where
  "bridge_view ex ctx input =
     bindE (ex_execute ex ctx input 0 2100000 0 View) (\<lambda>info.
     thenE (handle_exit_reason (ci_exit_reason info)) (okE (ci_output info)))"

definition bridge_name :: "'w evm_executor \<Rightarrow> invoke_context \<Rightarrow> ('w, u8 list) eff" where
  "bridge_name ex ctx = bindE (bridge_view ex ctx (u32_to_be_bytes method_name)) decode_string"

definition bridge_symbol :: "'w evm_executor \<Rightarrow> invoke_context \<Rightarrow> ('w, u8 list) eff" where
  "bridge_symbol ex ctx = bindE (bridge_view ex ctx (u32_to_be_bytes method_symbol)) decode_string"

definition bridge_decimals :: "'w evm_executor \<Rightarrow> invoke_context \<Rightarrow> ('w, u8) eff" where
  "bridge_decimals ex ctx =
     bindE (bridge_view ex ctx (u32_to_be_bytes method_decimals)) (\<lambda>out.
     thenE (ensure (length out = 32) (ebE InvalidReturnValue)) (
     bindE (u256_from out) (\<lambda>n. okE (word_of_nat (min 255 n)))))"

definition bridge_total_supply :: "'w evm_executor \<Rightarrow> invoke_context \<Rightarrow> ('w, balance) eff" where
  "bridge_total_supply ex ctx =
     bindE (bridge_view ex ctx (u32_to_be_bytes method_total_supply)) (\<lambda>out.
     thenE (ensure (length out = 32) (ebE InvalidReturnValue)) (
     bindE (u256_from out) (\<lambda>n. okE (min u128_max n))))"

definition bridge_balance_of :: "'w evm_executor \<Rightarrow> invoke_context \<Rightarrow> evm_address \<Rightarrow> ('w, balance) eff" where
  "bridge_balance_of ex ctx address =
     bindE (bridge_view ex ctx (u32_to_be_bytes method_balance_of @ replicate 12 0 @ address)) (\<lambda>out.
     bindE (u256_from out) (\<lambda>n. okE (min u128_max n)))"

definition transfer_input :: "evm_address \<Rightarrow> balance \<Rightarrow> u8 list" where
  "transfer_input to value = u32_to_be_bytes method_transfer @ (replicate 12 0 @ to) @ be_word value"

definition bridge_transfer ::
  "'w evm_executor \<Rightarrow> invoke_context \<Rightarrow> evm_address \<Rightarrow> balance \<Rightarrow> ('w, unit) eff" where
  "bridge_transfer ex ctx to value =
     (let storage_limit = (if ctx_origin ctx = zero_address then 0 else 1000) in
      bindE (ex_execute ex ctx (transfer_input to value) 0 2100000 storage_limit Execute) (\<lambda>info.
      thenE (handle_exit_reason (ci_exit_reason info))
        (ensure (ci_output info \<noteq> [] \<and> ci_output info = be_word 1) (ebE InvalidReturnValue))))"

definition bridge_get_origin :: "'w evm_executor \<Rightarrow> 'w \<Rightarrow> account_id option" where
  "bridge_get_origin ex = ex_get_origin ex"

definition bridge_set_origin :: "'w evm_executor \<Rightarrow> account_id \<Rightarrow> ('w, unit) eff" where
  "bridge_set_origin ex a = modE (ex_set_origin ex a)"

end
