(* ===== verification/Evm_Bridge_Properties.thy ===== *)
theory Evm_Bridge_Properties
  imports Evm_Bridge
begin

text \<open>
  Properties of the EVM bridge: strings survive the encoding of Solidity, a transfer is what the
  contract confirms, and which answers of a contract are errors and which panic.
\<close>

text \<open>A string as Solidity returns it: offset, length, bytes, padding to whole words.\<close>

definition abi_string :: "u8 list \<Rightarrow> u8 list" where
  "abi_string s = be_word 32 @ be_word (length s) @ s @ replicate ((32 - length s mod 32) mod 32) 0"

text \<open>A contract at work: calls with this context are answered by \<open>info\<close> and change nothing.\<close>

definition answers :: "'w evm_executor \<Rightarrow> invoke_context \<Rightarrow> 'w \<Rightarrow> u8 list \<Rightarrow> bool" where
  "answers ex ctx w out \<longleftrightarrow>
     (\<forall>input. \<exists>info. ex_execute ex ctx input 0 2100000 0 View w = (Inr info, w) \<and>
        ci_exit_reason info = Exit_Succeed Returned \<and> ci_output info = out)"

lemma view_answer:
  assumes "answers ex ctx w out"
  shows "bindE (bridge_view ex ctx input) f w = f out w"
proof -
  obtain info where "ex_execute ex ctx input 0 2100000 0 View w = (Inr info, w)"
      "ci_exit_reason info = Exit_Succeed Returned" "ci_output info = out"
    using assms unfolding answers_def by blast
  then show ?thesis by (simp add: bridge_view_def handle_exit_reason_def bindE_def thenE_def okE_def)
qed

lemma padding_words: "(n + (32 - n mod 32) mod 32) mod 32 = (0::nat)"
proof -
  have "n + (32 - n mod 32) = 32 * (n div 32 + 1)"
  proof -
    have "n mod 32 < 32" by simp
    moreover have "32 * (n div 32) + n mod 32 = n" by simp
    ultimately show ?thesis by arith
  qed
  then show ?thesis by (simp add: mod_add_right_eq)
qed

lemma decode_abi_string:
  assumes "length s + 64 \<le> usize_max"
  shows "decode_string (abi_string s) w = (Inr s, w)"
proof -
  let ?out = "abi_string s"
  have small: "length s < 256 ^ 32" using assms by (simp add: usize_max_def u32_max_def)
  have numbers: "be_number (take 32 ?out) = 32" "be_number (take 32 (drop 32 ?out)) = length s"
    by (simp_all add: abi_string_def be_number_word[OF small] be_number_word[of 32])
  have len: "length ?out = 64 + (length s + (32 - length s mod 32) mod 32)"
    by (simp add: abi_string_def)
  then have "length ?out mod 32 = (length s + (32 - length s mod 32) mod 32) mod 32"
    using mod_mult_self2[of "length s + (32 - length s mod 32) mod 32" 32 2] by (simp add: add.commute)
  then have words: "length ?out mod 32 = 0" by (simp only: padding_words)
  have "take (length s) (drop (32 + 32) ?out) = s" by (simp add: abi_string_def)
  with words show ?thesis
    using assms len by (simp add: decode_string_def numbers thenE_def bindE_def ensure_def okE_def Let_def)
qed

text \<open>
  The bridge reads the name and the symbol of a contract as the contract returned them, with
  the string encoding of Solidity, for strings of any length the runtime can address.
\<close>

theorem erc20_name_roundtrip:
  assumes "answers ex ctx w (abi_string s)" "length s + 64 \<le> usize_max"
  shows "bridge_name ex ctx w = (Inr s, w) \<and> bridge_symbol ex ctx w = (Inr s, w)"
  by (simp add: bridge_name_def bridge_symbol_def view_answer[OF assms(1)] decode_abi_string[OF assms(2)])

definition constant_contract :: "u8 list \<Rightarrow> 'w evm_executor" where
  "constant_contract out = \<lparr>
     ex_execute = (\<lambda>ctx input value gas storage mode. okE \<lparr>ci_exit_reason = Exit_Succeed Returned,
        ci_output = out, ci_used_gas = 0, ci_used_storage = 0\<rparr>),
     ex_get_origin = (\<lambda>w. None), ex_set_origin = (\<lambda>a w. w)\<rparr>"

definition empty_context :: invoke_context where
  "empty_context = \<lparr>ctx_contract = zero_address, ctx_sender = zero_address, ctx_origin = zero_address\<rparr>"

lemma constant_answers: "answers (constant_contract out) empty_context w out"
  by (simp add: answers_def constant_contract_def okE_def)

theorem erc20_name_roundtrip_witness:
  "bridge_name (constant_contract (abi_string [84, 101, 115, 116])) empty_context () = (Inr [84, 101, 115, 116], ())"
  using erc20_name_roundtrip[OF constant_answers, of "[84, 101, 115, 116]" "()"] by (simp add: usize_max_def u32_max_def)

text \<open>
  A contract can make the runtime panic by its answer. Reading a name panics exactly when the
  answer has whole words, at least two, and the offset in it points behind its end or the length in
  it is no number of the machine; reading a balance panics exactly when the answer has more than 32
  bytes. Reading the decimals or the total supply never panics.
\<close>

theorem erc20_answers_that_panic:
  assumes "answers ex ctx w out"
  shows "(fst (bridge_name ex ctx w) = Inl Panic \<longleftrightarrow>
      64 \<le> length out \<and> length out mod 32 = 0 \<and>
      (length out < be_number (take 32 out) + 32 \<or>
       usize_max < be_number (take 32 out) + 32 + be_number (take 32 (drop (be_number (take 32 out)) out))))
    \<and> (fst (bridge_balance_of ex ctx a w) = Inl Panic \<longleftrightarrow> 32 < length out)
    \<and> fst (bridge_decimals ex ctx w) \<noteq> Inl Panic \<and> fst (bridge_total_supply ex ctx w) \<noteq> Inl Panic"
proof -
  have "bridge_name ex ctx w = decode_string out w"
    "bridge_balance_of ex ctx a w = bindE (u256_from out) (\<lambda>n. okE (min u128_max n)) w"
    "bridge_decimals ex ctx w = thenE (ensure (length out = 32) (ebE InvalidReturnValue))
       (bindE (u256_from out) (\<lambda>n. okE (word_of_nat (min 255 n)))) w"
    "bridge_total_supply ex ctx w = thenE (ensure (length out = 32) (ebE InvalidReturnValue))
       (bindE (u256_from out) (\<lambda>n. okE (min u128_max n))) w"
    by (simp_all add: bridge_name_def bridge_balance_of_def bridge_decimals_def bridge_total_supply_def view_answer[OF assms])
  then show ?thesis
    by (auto simp: decode_string_def u256_from_def thenE_def bindE_def ensure_def okE_def failE_def Let_def)
qed

theorem erc20_answers_that_panic_witness:
  "fst (bridge_name (constant_contract (be_word 1000 @ be_word 0)) empty_context ()) = Inl Panic \<and>
   fst (bridge_balance_of (constant_contract (be_word 1000 @ be_word 0)) empty_context zero_address ()) = Inl Panic"
proof -
  have "be_number (take 32 (be_word 1000 @ be_word 0)) = 1000" by (simp add: be_number_word[of 1000])
  then show ?thesis
    using erc20_answers_that_panic[OF constant_answers, of "be_word 1000 @ be_word 0" "()" zero_address] by simp
qed

text \<open>
  A transfer by the bridge succeeds exactly when the contract ran to its end and returned the
  word one: a call of an address without code, which returns nothing, is an error. The contract
  receives the selector of \<open>transfer(address,uint256)\<close>, the receiver and the amount.
\<close>

theorem erc20_transfer_confirmed:
  assumes "ex_execute ex ctx (transfer_input to n) 0 2100000 (if ctx_origin ctx = zero_address then 0 else 1000) Execute w = (Inr info, t)"
    and "length to = 20" "n \<le> u128_max"
  shows "(bridge_transfer ex ctx to n w = (Inr (), t) \<longleftrightarrow>
      ci_exit_reason info \<in> {Exit_Succeed Returned, Exit_Succeed Stopped} \<and> ci_output info = be_word 1)
    \<and> take 4 (transfer_input to n) = [0xa9, 0x05, 0x9c, 0xbb]
    \<and> drop 12 (take 32 (drop 4 (transfer_input to n))) = to \<and> be_number (drop 36 (transfer_input to n)) = n"
proof -
  have "be_word 1 \<noteq> []" using account_bytes_length[of 1] by (metis list.size(3) zero_neq_numeral)
  moreover have "(handle_exit_reason r s = (Inr (), s)) = (r \<in> {Exit_Succeed Returned, Exit_Succeed Stopped})" for r and s :: 'a
    by (auto simp: handle_exit_reason_def failE_def split: exit_reason.splits exit_succeed.splits)
  moreover have "handle_exit_reason r s = (Inr (), u) \<Longrightarrow> u = s" for r and s u :: 'a
    by (auto simp: handle_exit_reason_def failE_def split: exit_reason.splits exit_succeed.splits)
  ultimately have "bridge_transfer ex ctx to n w = (Inr (), t) \<longleftrightarrow>
      ci_exit_reason info \<in> {Exit_Succeed Returned, Exit_Succeed Stopped} \<and> ci_output info = be_word 1"
    using assms(1) by (auto simp: bridge_transfer_def Let_def)
  moreover have "u32_to_be_bytes method_transfer = [0xa9, 0x05, 0x9c, 0xbb]"
    by (simp add: u32_bytes method_transfer_def)
  ultimately show ?thesis
    using assms(2,3) by (simp add: transfer_input_def be_number_word u128_max_def)
qed

theorem erc20_transfer_confirmed_witness:
  "bridge_transfer (constant_contract (be_word 1)) empty_context zero_address 5 () = (Inr (), ())"
  using erc20_transfer_confirmed[of "constant_contract (be_word 1)" empty_context zero_address 5 "()"]
  by (simp add: constant_contract_def empty_context_def okE_def u128_max_def)

end
