(* ===== verification/Evm.thy ===== *)
theory Evm
  imports Evm_Manager Precompile_Input Storage_Meter Currency_Interface
begin

text \<open>
  The EVM pallet, \<open>lib-serml/evm/evm/src/lib.rs\<close>, first part: its storage and the operations on
  accounts, contracts and code, and the handler of storage deposits of
  \<open>lib-serml/evm/evm/src/runner/handler.rs\<close>. The currency, the address mapping, Keccak and the
  reference counters of the system are parameters. An operation of the currency that can reap an
  account says which accounts it reaped: the system calls \<open>OnKilledAccount\<close> for each of them, and
  so does \<open>reaping\<close>, with the address mapping as it was before.
\<close>

section \<open>Storage\<close>

type_synonym h256 = "u8 list"

abbreviation zero_h256 :: h256 where
  "zero_h256 \<equiv> replicate 32 0"

record contract_info =
  co_code_hash :: h256
  co_maintainer :: evm_address
  co_deployed :: bool

record account_info =
  ac_nonce :: nat
  ac_contract_info :: "contract_info option"
  ac_developer_deposit :: "balance option"

record code_info =
  cd_code_size :: nat
  cd_ref_count :: nat

datatype evm_event =
    Log evm_address "h256 list" "u8 list"
  | Created evm_address
  | CreatedFailed evm_address exit_reason "u8 list"
  | Executed evm_address
  | ExecutedFailed evm_address exit_reason "u8 list"
  | TransferredMaintainer evm_address evm_address
  | ContractDevelopmentEnabled account_id
  | ContractDevelopmentDisabled account_id
  | ContractDeployed evm_address
  | ContractSetCode evm_address
  | ContractSelfdestructed evm_address

record 'w evm_state =
  ev_accounts :: "evm_address \<Rightarrow> account_info option"
  ev_storage_sizes :: "evm_address \<Rightarrow> nat"
  ev_storages :: "evm_address \<Rightarrow> h256 \<Rightarrow> h256"
  ev_codes :: "h256 \<Rightarrow> u8 list"
  ev_code_infos :: "h256 \<Rightarrow> code_info option"
  ev_network_contract_index :: nat
  ev_extrinsic_origin :: "account_id option"
  ev_world :: 'w
  ev_events :: "evm_event list"

definition account_info_new :: "nat \<Rightarrow> contract_info option \<Rightarrow> account_info" where
  "account_info_new n c = \<lparr>ac_nonce = n, ac_contract_info = c, ac_developer_deposit = None\<rparr>"

text \<open>
  \<open>er_dec_providers\<close> and the operations of the currency that move balances return the accounts
  they reaped; \<open>er_imbalance\<close> is a negative imbalance by its amount.
\<close>

record 'w evm_env =
  er_mapping :: "'w address_mapping"
  er_get_or_create_evm_address :: "account_id \<Rightarrow> 'w \<Rightarrow> evm_address \<times> 'w"
  er_free_balance :: "account_id \<Rightarrow> 'w \<Rightarrow> balance"
  er_transfer :: "account_id \<Rightarrow> account_id \<Rightarrow> balance \<Rightarrow> ('w, unit \<times> account_id list) eff"
  er_transfer_all :: "account_id \<Rightarrow> account_id \<Rightarrow> ('w, unit \<times> account_id list) eff"
  er_reserve :: "account_id \<Rightarrow> balance \<Rightarrow> ('w, unit) eff"
  er_unreserve :: "account_id \<Rightarrow> balance \<Rightarrow> 'w \<Rightarrow> balance \<times> 'w"
  er_repatriate :: "account_id \<Rightarrow> account_id \<Rightarrow> balance \<Rightarrow> balance_status \<Rightarrow> ('w, balance \<times> account_id list) eff"
  er_inc_providers :: "account_id \<Rightarrow> 'w \<Rightarrow> 'w"
  er_dec_providers :: "account_id \<Rightarrow> ('w, unit \<times> account_id list) eff"
  er_keccak :: "u8 list \<Rightarrow> h256"
  er_new_contract_extra_bytes :: nat
  er_storage_deposit_per_byte :: balance
  er_max_code_size :: nat
  er_ethereum_compatibility :: bool

definition inE :: "('w, 'a) eff \<Rightarrow> ('w evm_state, 'a) eff" where
  "inE m = zoomE ev_world (\<lambda>w s. s\<lparr>ev_world := w\<rparr>) m"

definition evm_deposit_event :: "evm_event \<Rightarrow> ('e, 'w evm_state, unit) effect" where
  "evm_deposit_event ev = modE (\<lambda>s. s\<lparr>ev_events := ev_events s @ [ev]\<rparr>)"

definition put_account :: "evm_address \<Rightarrow> account_info option \<Rightarrow> 'w evm_state \<Rightarrow> 'w evm_state" where
  "put_account a v s = s\<lparr>ev_accounts := (ev_accounts s)(a := v)\<rparr>"

abbreviation evE :: "evm_error \<Rightarrow> dispatch_error" where
  "evE \<equiv> Evm_Error"

abbreviation account_at :: "'w evm_env \<Rightarrow> evm_address \<Rightarrow> 'w evm_state \<Rightarrow> account_id" where
  "account_at env a s \<equiv> am_get_account_id (er_mapping env) a (ev_world s)"

section \<open>Code\<close>

definition contract_at :: "evm_address \<Rightarrow> 'w evm_state \<Rightarrow> contract_info option" where
  "contract_at a s = Option.bind (ev_accounts s a) ac_contract_info"

definition code_hash_at_address :: "'w evm_env \<Rightarrow> evm_address \<Rightarrow> 'w evm_state \<Rightarrow> h256" where
  "code_hash_at_address env a s =
     (case contract_at a s of Some c \<Rightarrow> co_code_hash c | None \<Rightarrow> er_keccak env [])"

definition code_at_address :: "'w evm_env \<Rightarrow> evm_address \<Rightarrow> 'w evm_state \<Rightarrow> u8 list" where
  "code_at_address env a s = ev_codes s (code_hash_at_address env a s)"

text \<open>Giving up one reference to a code; the last one removes it.\<close>

definition release_code :: "h256 \<Rightarrow> 'w evm_state \<Rightarrow> 'w evm_state" where
  "release_code h s =
     (case ev_code_infos s h of
        None \<Rightarrow> s
      | Some ci \<Rightarrow>
          if sat_sub (cd_ref_count ci) 1 = 0
          then s\<lparr>ev_codes := (ev_codes s)(h := []), ev_code_infos := (ev_code_infos s)(h := None)\<rparr>
          else s\<lparr>ev_code_infos := (ev_code_infos s)(h := Some (ci\<lparr>cd_ref_count := sat_sub (cd_ref_count ci) 1\<rparr>))\<rparr>)"

definition retain_code :: "h256 \<Rightarrow> u8 list \<Rightarrow> 'w evm_state \<Rightarrow> 'w evm_state" where
  "retain_code h code s =
     (case ev_code_infos s h of
        Some ci \<Rightarrow> s\<lparr>ev_code_infos := (ev_code_infos s)(h := Some (ci\<lparr>cd_ref_count := sat_add u32_max (cd_ref_count ci) 1\<rparr>))\<rparr>
      | None \<Rightarrow> s\<lparr>ev_code_infos := (ev_code_infos s)(h := Some \<lparr>cd_code_size = length code, cd_ref_count = 1\<rparr>),
                  ev_codes := (ev_codes s)(h := code)\<rparr>)"

section \<open>Accounts\<close>

definition remove_account :: "evm_address \<Rightarrow> 'w evm_state \<Rightarrow> 'w evm_state" where
  "remove_account a s =
     put_account a None (case contract_at a s of Some c \<Rightarrow> release_code (co_code_hash c) s | None \<Rightarrow> s)"

text \<open>\<open>CallKillAccount\<close>, with the address mapping of the world \<open>w\<close>.\<close>

definition evm_killed_account :: "'w evm_env \<Rightarrow> 'w \<Rightarrow> account_id \<Rightarrow> 'w evm_state \<Rightarrow> 'w evm_state" where
  "evm_killed_account env w who s =
     remove_account (am_get_default_evm_address (er_mapping env) who w)
       (case am_get_evm_address (er_mapping env) who w of Some a \<Rightarrow> remove_account a s | None \<Rightarrow> s)"

definition reaping :: "'w evm_env \<Rightarrow> ('w, 'a \<times> account_id list) eff \<Rightarrow> ('w evm_state, 'a) eff" where
  "reaping env m =
     bindE (getE ev_world) (\<lambda>w.
     bindE (inE m) (\<lambda>(x, killed).
     thenE (modE (fold (evm_killed_account env w) killed)) (okE x)))"

record evm_account_basic =
  ab_nonce :: nat
  ab_balance :: balance

definition account_basic :: "'w evm_env \<Rightarrow> evm_address \<Rightarrow> 'w evm_state \<Rightarrow> evm_account_basic" where
  "account_basic env a s =
     \<lparr>ab_nonce = (case ev_accounts s a of Some i \<Rightarrow> ac_nonce i | None \<Rightarrow> 0),
      ab_balance = er_free_balance env (account_at env a s) (ev_world s)\<rparr>"

text \<open>The change is an \<open>i32\<close>, the size a \<open>u32\<close>.\<close>

definition update_contract_storage_size :: "evm_address \<Rightarrow> int \<Rightarrow> 'w evm_state \<Rightarrow> 'w evm_state" where
  "update_contract_storage_size a change s =
     (if change = 0 then s
      else s\<lparr>ev_storage_sizes := (ev_storage_sizes s)(a :=
             if change > 0 then sat_add u32_max (ev_storage_sizes s a) (nat change)
             else sat_sub (ev_storage_sizes s a) (nat (- change)))\<rparr>)"

section \<open>Contracts\<close>

text \<open>
  \<open>remove_contract\<close>. The entry of the account is read before and written after the transfer of the
  balances, without its contract.
\<close>

definition remove_contract :: "'w evm_env \<Rightarrow> evm_address \<Rightarrow> evm_address \<Rightarrow> ('w evm_state, nat) eff" where
  "remove_contract env address dest = transactional (
     bindE (getE (\<lambda>s. (account_at env address s, account_at env dest s, ev_accounts s address)))
       (\<lambda>(address_account, dest_account, maybe_account).
     bindE (ok_or maybe_account (evE ContractNotFound)) (\<lambda>info.
     bindE (ok_or (ac_contract_info info) (evE ContractNotFound)) (\<lambda>contract.
     thenE (reaping env (er_transfer_all env address_account dest_account)) (
     thenE (modE (release_code (co_code_hash contract))) (
     thenE (modE (\<lambda>s. s\<lparr>ev_storages := (ev_storages s)(address := (\<lambda>i. zero_h256))\<rparr>)) (
     bindE (getE (\<lambda>s. ev_storage_sizes s address)) (\<lambda>size.
     thenE (modE (\<lambda>s. s\<lparr>ev_storage_sizes := (ev_storage_sizes s)(address := 0)\<rparr>)) (
     thenE (modE (put_account address (Some (info\<lparr>ac_contract_info := None\<rparr>)))) (
     thenE (reaping env (er_dec_providers env address_account))
       (okE size)))))))))))"

text \<open>The cast of the size to \<open>i32\<close> wraps around.\<close>

definition on_contract_initialization ::
  "'w evm_env \<Rightarrow> evm_address \<Rightarrow> evm_address \<Rightarrow> u8 list \<Rightarrow> (exit_error, 'w evm_state, unit) effect" where
  "on_contract_initialization env address maintainer code =
     thenE (ensure (length code \<le> er_max_code_size env) Exit_OutOfGas)
     (let contract = \<lparr>co_code_hash = er_keccak env code, co_maintainer = maintainer,
            co_deployed = er_ethereum_compatibility env\<rparr> in
      thenE (modE (update_contract_storage_size address
        (sint (word_of_nat (sat_add u32_max (length code) (er_new_contract_extra_bytes env)) :: u32)))) (
      thenE (modE (retain_code (er_keccak env code) code)) (
      thenE (modE (\<lambda>s. put_account address (Some
        (case ev_accounts s address of
           Some info \<Rightarrow> info\<lparr>ac_contract_info := Some contract\<rparr>
         | None \<Rightarrow> account_info_new 0 (Some contract))) s))
        (modE (\<lambda>s. s\<lparr>ev_world := er_inc_providers env (account_at env address s) (ev_world s)\<rparr>)))))"

definition do_transfer_maintainer ::
  "'w evm_env \<Rightarrow> account_id \<Rightarrow> evm_address \<Rightarrow> evm_address \<Rightarrow> ('w evm_state, unit) eff" where
  "do_transfer_maintainer env who contract new_maintainer =
     bindE (getE (\<lambda>s. (ev_accounts s contract, am_get_evm_address (er_mapping env) who (ev_world s))))
       (\<lambda>(maybe_account, maybe_address).
     bindE (ok_or maybe_account (evE ContractNotFound)) (\<lambda>info.
     bindE (ok_or (ac_contract_info info) (evE ContractNotFound)) (\<lambda>c.
     bindE (ok_or maybe_address (evE AddressNotMapped)) (\<lambda>maintainer.
     thenE (ensure (co_maintainer c = maintainer) (evE Evm_NoPermission))
       (modE (put_account contract (Some (info\<lparr>ac_contract_info := Some (c\<lparr>co_maintainer := new_maintainer\<rparr>)\<rparr>))))))))"

definition mark_deployed :: "evm_address \<Rightarrow> evm_address option \<Rightarrow> ('w evm_state, unit) eff" where
  "mark_deployed contract maintainer =
     bindE (getE (\<lambda>s. ev_accounts s contract)) (\<lambda>maybe_account.
     bindE (ok_or (Option.bind maybe_account (\<lambda>i. map_option (\<lambda>c. (i, c)) (ac_contract_info i))) (evE ContractNotFound))
       (\<lambda>(info, c).
     thenE (ensure (case maintainer of Some m \<Rightarrow> co_maintainer c = m | None \<Rightarrow> True) (evE Evm_NoPermission)) (
     thenE (ensure (\<not> co_deployed c) (evE ContractAlreadyDeployed))
       (modE (put_account contract (Some (info\<lparr>ac_contract_info := Some (c\<lparr>co_deployed := True\<rparr>)\<rparr>)))))))"

definition do_selfdestruct ::
  "'w evm_env \<Rightarrow> account_id \<Rightarrow> evm_address \<Rightarrow> evm_address \<Rightarrow> ('w evm_state, unit) eff" where
  "do_selfdestruct env who maintainer contract =
     bindE (getE (\<lambda>s. ev_accounts s contract)) (\<lambda>maybe_account.
     bindE (ok_or maybe_account (evE ContractNotFound)) (\<lambda>info.
     bindE (ok_or (ac_contract_info info) (evE ContractNotFound)) (\<lambda>c.
     thenE (ensure (co_maintainer c = maintainer) (evE Evm_NoPermission)) (
     thenE (ensure (\<not> co_deployed c) (evE ContractAlreadyDeployed)) (
     bindE (remove_contract env contract maintainer) (\<lambda>storage.
     bindE (getE (\<lambda>s. account_at env contract s)) (\<lambda>contract_account.
     thenE (reaping env (er_repatriate env contract_account who
              (sat_mul u128_max (er_storage_deposit_per_byte env) storage) Free))
       (okE ()))))))))"

section \<open>Nonces and permissions\<close>

text \<open>The nonce is a \<open>u32\<close> and wraps around, as in a release build.\<close>

definition inc_nonce :: "evm_address \<Rightarrow> 'w evm_state \<Rightarrow> 'w evm_state" where
  "inc_nonce a s = put_account a (Some
     (case ev_accounts s a of
        Some info \<Rightarrow> info\<lparr>ac_nonce := (ac_nonce info + 1) mod 2 ^ 32\<rparr>
      | None \<Rightarrow> account_info_new 1 None)) s"

definition is_developer_or_contract :: "evm_address \<Rightarrow> 'w evm_state \<Rightarrow> bool" where
  "is_developer_or_contract caller s =
     (case ev_accounts s caller of
        Some info \<Rightarrow> ac_contract_info info \<noteq> None \<or> ac_developer_deposit info \<noteq> None
      | None \<Rightarrow> False)"

definition can_call_contract :: "evm_address \<Rightarrow> evm_address \<Rightarrow> 'w evm_state \<Rightarrow> bool" where
  "can_call_contract address caller s =
     (case contract_at address s of
        Some c \<Rightarrow> co_deployed c \<or> co_maintainer c = caller \<or> is_developer_or_contract caller s
      | None \<Rightarrow> True)"

section \<open>Storage deposits\<close>

text \<open>
  \<open>StorageMeterHandlerImpl\<close> of an origin: the origin reserves the deposit of the limit beforehand;
  what a contract uses is moved to the contract and reserved there, what it gives back returns.
\<close>

definition deposit_of :: "'w evm_env \<Rightarrow> nat \<Rightarrow> balance" where
  "deposit_of env bytes = sat_mul u128_max (er_storage_deposit_per_byte env) bytes"

definition reserve_storage :: "'w evm_env \<Rightarrow> evm_address \<Rightarrow> nat \<Rightarrow> ('w evm_state, unit) eff" where
  "reserve_storage env origin limit =
     (if limit = 0 then okE ()
      else bindE (getE (account_at env origin)) (\<lambda>user. inE (er_reserve env user (deposit_of env limit))))"

definition unreserve_storage :: "'w evm_env \<Rightarrow> evm_address \<Rightarrow> nat \<Rightarrow> nat \<Rightarrow> nat \<Rightarrow> ('w evm_state, unit) eff" where
  "unreserve_storage env origin limit used refunded =
     (let unused = sat_sub (sat_add u32_max limit refunded) used in
      if unused = 0 then okE ()
      else bindE (getE (account_at env origin)) (\<lambda>user.
           modE (\<lambda>s. s\<lparr>ev_world := snd (er_unreserve env user (deposit_of env unused) (ev_world s))\<rparr>)))"

definition charge_storage :: "'w evm_env \<Rightarrow> evm_address \<Rightarrow> evm_address \<Rightarrow> nat \<Rightarrow> nat \<Rightarrow> ('w evm_state, unit) eff" where
  "charge_storage env origin contract used refunded =
     (if used = refunded then okE ()
      else bindE (getE (\<lambda>s. (account_at env origin s, account_at env contract s))) (\<lambda>(user, contract_acc).
        if used > refunded then
          (let amount = deposit_of env (used - refunded) in
           thenE (modE (\<lambda>s. s\<lparr>ev_world := snd (er_unreserve env user amount (ev_world s))\<rparr>)) (
           thenE (reaping env (er_transfer env user contract_acc amount))
             (inE (er_reserve env contract_acc amount))))
        else
          thenE (reaping env (er_repatriate env contract_acc user (deposit_of env (refunded - used)) Reserved)) (okE ())))"

definition storage_meter_handler :: "'w evm_env \<Rightarrow> evm_address \<Rightarrow> 'w evm_state storage_handler" where
  "storage_meter_handler env origin = \<lparr>
     h_reserve_storage = reserve_storage env origin,
     h_unreserve_storage = unreserve_storage env origin,
     h_charge_storage = charge_storage env origin\<rparr>"

end
