(* ===== verification/Evm_Runner.thy ===== *)
theory Evm_Runner
  imports Evm
begin

text \<open>
  The runner of the EVM: \<open>lib-serml/evm/evm/src/runner/mod.rs\<close> and the handler of
  \<open>lib-serml/evm/evm/src/runner/handler.rs\<close>, through which the interpreter reads and changes the
  state. The interpreter, its gas meter and the hashes are parameters; the interpreter gets the
  handler and the state of a frame and returns its exit reason, its return value and the state it
  left, so that everything here holds for any code and any nesting of calls.
\<close>

section \<open>The interpreter and its gas meter\<close>

text \<open>The fields of \<open>EvmConfig\<close> that the runner reads itself.\<close>

record evm_config =
  cf_call_l64_after_gas :: bool
  cf_call_stipend :: nat
  cf_estimate :: bool

definition setheum_config :: evm_config where
  "setheum_config = \<lparr>cf_call_l64_after_gas = True, cf_call_stipend = 2300, cf_estimate = False\<rparr>"

record evm_context =
  cx_caller :: evm_address
  cx_address :: evm_address
  cx_apparent_value :: nat

record evm_transfer =
  tr_source :: evm_address
  tr_target :: evm_address
  tr_value :: nat

record 'g gas_ops =
  g_new :: "nat \<Rightarrow> evm_config \<Rightarrow> 'g"
  g_gas :: "'g \<Rightarrow> nat"
  g_total_used_gas :: "'g \<Rightarrow> nat"
  g_refunded_gas :: "'g \<Rightarrow> int"
  g_record_cost :: "nat \<Rightarrow> (exit_error, 'g, unit) effect"
  g_record_stipend :: "nat \<Rightarrow> (exit_error, 'g, unit) effect"
  g_record_refund :: "int \<Rightarrow> (exit_error, 'g, unit) effect"
  g_record_deposit :: "nat \<Rightarrow> (exit_error, 'g, unit) effect"
  g_record_transaction :: "u8 list \<Rightarrow> (exit_error, 'g, unit) effect"
  g_fail :: "'g \<Rightarrow> 'g"

text \<open>The immutable part of a handler: the origin of the transaction and the mode of the call.\<close>

record handler =
  hd_origin :: evm_address
  hd_is_static :: bool
  hd_config :: evm_config

text \<open>The state of a frame: its gas, the stack of storage meters, the storage of the pallet.\<close>

record ('w, 'g) frame =
  fr_gas :: 'g
  fr_meters :: "meter list"
  fr_state :: "'w evm_state"

record ('w, 'g) runner =
  rn_env :: "'w evm_env"
  rn_gas :: "'g gas_ops"
  rn_interpret :: "handler \<Rightarrow> evm_context \<Rightarrow> u8 list \<Rightarrow> u8 list \<Rightarrow> ('w, 'g) frame \<Rightarrow> (exit_reason \<times> u8 list) \<times> ('w, 'g) frame"
  rn_precompiles :: "evm_address \<Rightarrow> u8 list \<Rightarrow> nat option \<Rightarrow> evm_context \<Rightarrow> 'w evm_state \<Rightarrow> ((exit_error + exit_succeed \<times> u8 list \<times> nat) \<times> 'w evm_state) option"
  rn_rlp_caller_nonce :: "evm_address \<Rightarrow> nat \<Rightarrow> u8 list"
  rn_error_text :: "dispatch_error \<Rightarrow> string"
  rn_chain_id :: nat
  rn_block_hash :: "nat \<Rightarrow> 'w \<Rightarrow> h256"
  rn_block_number :: "'w \<Rightarrow> nat"
  rn_now :: "'w \<Rightarrow> nat"

section \<open>Effects on a frame\<close>

definition on_state :: "('e, 'w evm_state, 'a) effect \<Rightarrow> ('e, ('w, 'g) frame, 'a) effect" where
  "on_state m = zoomE fr_state (\<lambda>s f. f\<lparr>fr_state := s\<rparr>) m"

definition on_gas :: "('e, 'g, 'a) effect \<Rightarrow> ('e, ('w, 'g) frame, 'a) effect" where
  "on_gas m = zoomE fr_gas (\<lambda>g f. f\<lparr>fr_gas := g\<rparr>) m"

definition on_meters :: "('w evm_state meters, 'a) eff \<Rightarrow> (dispatch_error, ('w, 'g) frame, 'a) effect" where
  "on_meters m = zoomE (\<lambda>f. (fr_meters f, fr_state f)) (\<lambda>(ms, s) f. f\<lparr>fr_meters := ms, fr_state := s\<rparr>) m"

text \<open>\<open>used_gas\<close>; the cast of the refund to \<open>u64\<close> wraps around.\<close>

definition used_gas :: "'g gas_ops \<Rightarrow> 'g \<Rightarrow> nat" where
  "used_gas ops g =
     g_total_used_gas ops g -
       min (g_total_used_gas ops g div 2) (unat (word_of_int (g_refunded_gas ops g) :: u64))"

definition frame_used_storage :: "('w, 'g) frame \<Rightarrow> int" where
  "frame_used_storage f = (case fr_meters f of [] \<Rightarrow> 0 | m # ms \<Rightarrow> used_storage m)"

section \<open>Transactions\<close>

text \<open>
  The body of a transaction: its error is the result of a rollback, its value the result of a
  commit. A rollback restores the storage of the pallet, not the gas.
\<close>

type_synonym ('w, 'g, 'r) body = "('r, ('w, 'g) frame, 'r) effect"

definition run_transaction ::
  "('w, 'g) runner \<Rightarrow> evm_address \<Rightarrow> nat \<Rightarrow> nat \<Rightarrow> evm_address \<Rightarrow> bool \<Rightarrow> evm_config \<Rightarrow>
   (handler \<Rightarrow> ('w, 'g, 'r) body) \<Rightarrow> ('w evm_state, 'r) eff" where
  "run_transaction rn origin gas_limit storage_limit contract is_static config body s =
     (let h = storage_meter_handler (rn_env rn) origin;
          hdl = \<lparr>hd_origin = origin, hd_is_static = is_static, hd_config = config\<rparr>
      in case meter_new h contract storage_limit ([], s) of
           (Inl e, _) \<Rightarrow> (Inl e, s)
         | (Inr _, (ms, s1)) \<Rightarrow>
             (case body hdl \<lparr>fr_gas = g_new (rn_gas rn) gas_limit config, fr_meters = ms, fr_state = s1\<rparr> of
                (Inl r, _) \<Rightarrow> (Inr r, s)
              | (Inr r, f) \<Rightarrow>
                  (case meter_finish h (fr_meters f, fr_state f) of
                     (Inl e, _) \<Rightarrow> (Inl e, s)
                   | (Inr _, (_, t)) \<Rightarrow> (Inr r, t))))"

text \<open>
  A nested transaction: the frame of the body has a gas meter of its own and a child of the
  storage meter; the body also reaches the gas of the frame around it.
\<close>

definition run_sub_transaction ::
  "('w, 'g) runner \<Rightarrow> handler \<Rightarrow> nat \<Rightarrow> evm_address \<Rightarrow> bool \<Rightarrow>
   (handler \<Rightarrow> ('r, ('w, 'g) frame \<times> 'g, 'r) effect) \<Rightarrow> (dispatch_error, ('w, 'g) frame, 'r) effect" where
  "run_sub_transaction rn hdl gas_limit contract is_static body f =
     (let h = storage_meter_handler (rn_env rn) (hd_origin hdl) in
      case child_meter contract (fr_meters f, fr_state f) of
        (Inl e, _) \<Rightarrow> (Inl e, f)
      | (Inr _, (ms, s1)) \<Rightarrow>
          (case body (hdl\<lparr>hd_is_static := is_static\<rparr>)
                  (\<lparr>fr_gas = g_new (rn_gas rn) gas_limit (hd_config hdl), fr_meters = ms, fr_state = s1\<rparr>, fr_gas f) of
             (Inl r, (c, g)) \<Rightarrow> (Inr r, f\<lparr>fr_gas := g, fr_meters := tl (fr_meters c)\<rparr>)
           | (Inr r, (c, g)) \<Rightarrow>
               (case meter_finish h (fr_meters c, fr_state c) of
                  (Inl e, (ms2, _)) \<Rightarrow> (Inl e, f\<lparr>fr_gas := g, fr_meters := ms2\<rparr>)
                | (Inr _, (ms2, t)) \<Rightarrow> (Inr r, \<lparr>fr_gas = g, fr_meters = ms2, fr_state = t\<rparr>))))"

section \<open>Execution\<close>

definition execute ::
  "('w, 'g) runner \<Rightarrow> handler \<Rightarrow> evm_address \<Rightarrow> evm_address \<Rightarrow> nat \<Rightarrow> u8 list \<Rightarrow> u8 list \<Rightarrow>
   ('e, ('w, 'g) frame, exit_reason \<times> u8 list) effect" where
  "execute rn hdl caller address val code input f =
     (case rn_interpret rn hdl \<lparr>cx_caller = caller, cx_address = address, cx_apparent_value = val\<rparr> code input f of
        ((reason, return_value), f1) \<Rightarrow>
          (case reason of
             Exit_Succeed _ \<Rightarrow> (Inr (reason, return_value), f1)
           | Exit_Error _ \<Rightarrow> (Inr (reason, []), f1)
           | Exit_Revert \<Rightarrow> (Inr (reason, return_value), f1)
           | Exit_Fatal \<Rightarrow> (Inr (reason, []), f1\<lparr>fr_gas := g_fail (rn_gas rn) (fr_gas f1)\<rparr>)))"

text \<open>The value is cut to \<open>u128\<close>.\<close>

definition handler_transfer :: "('w, 'g) runner \<Rightarrow> evm_transfer \<Rightarrow> (exit_error, 'w evm_state, unit) effect" where
  "handler_transfer rn tr = map_errE (\<lambda>_. Exit_OutOfGas)
     (bindE (getE (\<lambda>s. (account_at (rn_env rn) (tr_source tr) s, account_at (rn_env rn) (tr_target tr) s)))
       (\<lambda>(source, target). reaping (rn_env rn) (er_transfer (rn_env rn) source target (min u128_max (tr_value tr)))))"

text \<open>The address of a new contract; system addresses are refused.\<close>

datatype create_scheme =
  Create2 evm_address h256 h256 | Legacy evm_address | Fixed evm_address

definition scheme_address :: "('w, 'g) runner \<Rightarrow> create_scheme \<Rightarrow> 'w evm_state \<Rightarrow> evm_address" where
  "scheme_address rn scheme s =
     (case scheme of
        Create2 caller code_hash salt \<Rightarrow>
          drop 12 (er_keccak (rn_env rn) ([0xff] @ caller @ salt @ code_hash))
      | Legacy caller \<Rightarrow>
          drop 12 (er_keccak (rn_env rn) (rn_rlp_caller_nonce rn caller (ab_nonce (account_basic (rn_env rn) caller s))))
      | Fixed a \<Rightarrow> a)"

definition evm_system_prefix :: "u8 list" where
  "evm_system_prefix = replicate 11 0"

definition create_address :: "('w, 'g) runner \<Rightarrow> create_scheme \<Rightarrow> (exit_error, 'w evm_state, evm_address) effect" where
  "create_address rn scheme =
     bindE (getE (scheme_address rn scheme)) (\<lambda>address.
     if bytes_start_with address evm_system_prefix
     then failE (Exit_Other (rn_error_text rn (evE ConflictContractAddress))) else okE address)"

section \<open>Transactions of the pallet\<close>

record create_info =
  cr_exit_reason :: exit_reason
  cr_address :: evm_address
  cr_output :: "u8 list"
  cr_used_gas :: nat
  cr_used_storage :: int

definition runner_transfer ::
  "('w, 'g) runner \<Rightarrow> evm_address \<Rightarrow> evm_address \<Rightarrow> balance \<Rightarrow> ('w evm_state, unit) eff" where
  "runner_transfer rn source target val =
     (if val = 0 then okE ()
      else bindE (getE (\<lambda>s. (account_at (rn_env rn) source s, account_at (rn_env rn) target s))) (\<lambda>(from, to).
           reaping (rn_env rn) (er_transfer (rn_env rn) from to val)))"

text \<open>The code that a successful constructor returned becomes the code of the contract.\<close>

definition finish_create ::
  "('w, 'g) runner \<Rightarrow> evm_address \<Rightarrow> evm_address \<Rightarrow> u8 list \<Rightarrow> create_info \<Rightarrow> ('w, 'g, dispatch_error + create_info) body" where
  "finish_create rn source address out info =
     thenE (map_errE (\<lambda>e. Inr (info\<lparr>cr_exit_reason := Exit_Error e\<rparr>))
              (on_gas (g_record_deposit (rn_gas rn) (length out))))
     (bindE (getE (\<lambda>f. info\<lparr>cr_used_gas := used_gas (rn_gas rn) (fr_gas f)\<rparr>)) (\<lambda>info.
      thenE (on_state (modE (inc_nonce address))) (
      thenE (map_errE (\<lambda>_. Inr (info\<lparr>cr_exit_reason := Exit_Error Exit_OutOfGas\<rparr>))
               (on_meters (meter_charge (sat_add u32_max (length out) (er_new_contract_extra_bytes (rn_env rn)))))) (
      bindE (getE (\<lambda>f. info\<lparr>cr_used_storage := frame_used_storage f\<rparr>)) (\<lambda>info.
      thenE (map_errE (\<lambda>e. Inr (info\<lparr>cr_exit_reason := Exit_Error e\<rparr>))
               (on_state (on_contract_initialization (rn_env rn) address source out)))
        (okE (Inr info)))))))"

definition create_body ::
  "('w, 'g) runner \<Rightarrow> evm_address \<Rightarrow> evm_address \<Rightarrow> balance \<Rightarrow> u8 list \<Rightarrow> handler \<Rightarrow>
   ('w, 'g, dispatch_error + create_info) body" where
  "create_body rn source address val init hdl =
     thenE (map_errE Inl (on_state (runner_transfer rn source address val))) (
     thenE (map_errE (\<lambda>_. Inl OutOfGas) (on_gas (g_record_transaction (rn_gas rn) init))) (
     bindE (execute rn hdl source address val init []) (\<lambda>(reason, out).
     bindE (getE (\<lambda>f. \<lparr>cr_exit_reason = reason, cr_address = address, cr_output = [],
              cr_used_gas = used_gas (rn_gas rn) (fr_gas f), cr_used_storage = frame_used_storage f\<rparr>)) (\<lambda>info.
     thenE (ensure (is_succeed reason) (Inr (info\<lparr>cr_output := out\<rparr>)))
       (finish_create rn source address out info)))))"

definition inner_create ::
  "('w, 'g) runner \<Rightarrow> evm_address \<Rightarrow> u8 list \<Rightarrow> balance \<Rightarrow> nat \<Rightarrow> nat \<Rightarrow> evm_address option \<Rightarrow> h256 option \<Rightarrow>
   evm_config \<Rightarrow> ('w evm_state, create_info) eff" where
  "inner_create rn source init val gas_limit storage_limit assigned_address salt config =
     bindE (case assigned_address of
              Some a \<Rightarrow> okE a
            | None \<Rightarrow> map_errE (\<lambda>_. evE ConflictContractAddress)
                (create_address rn (case salt of
                   Some st \<Rightarrow> Create2 source (er_keccak (rn_env rn) init) st | None \<Rightarrow> Legacy source)))
       (\<lambda>address.
     thenE (modE (inc_nonce source)) (
     bindE (run_transaction rn source gas_limit storage_limit address False config
              (create_body rn source address val init)) (\<lambda>r.
     case r of Inl e \<Rightarrow> failE e | Inr info \<Rightarrow> okE info)))"

definition runner_create ::
  "('w, 'g) runner \<Rightarrow> evm_address \<Rightarrow> u8 list \<Rightarrow> balance \<Rightarrow> nat \<Rightarrow> nat \<Rightarrow> evm_config \<Rightarrow> ('w evm_state, create_info) eff" where
  "runner_create rn source init val gas_limit storage_limit config =
     inner_create rn source init val gas_limit storage_limit None None config"

definition runner_create2 ::
  "('w, 'g) runner \<Rightarrow> evm_address \<Rightarrow> u8 list \<Rightarrow> h256 \<Rightarrow> balance \<Rightarrow> nat \<Rightarrow> nat \<Rightarrow> evm_config \<Rightarrow> ('w evm_state, create_info) eff" where
  "runner_create2 rn source init salt val gas_limit storage_limit config =
     inner_create rn source init val gas_limit storage_limit None (Some salt) config"

definition create_at_address ::
  "('w, 'g) runner \<Rightarrow> evm_address \<Rightarrow> u8 list \<Rightarrow> balance \<Rightarrow> evm_address \<Rightarrow> nat \<Rightarrow> nat \<Rightarrow> evm_config \<Rightarrow> ('w evm_state, create_info) eff" where
  "create_at_address rn source init val assigned_address gas_limit storage_limit config =
     inner_create rn source init val gas_limit storage_limit (Some assigned_address) None config"

section \<open>What the interpreter sees\<close>

definition evm_predeploy_address_start :: u64 where "evm_predeploy_address_start = 0x800"

text \<open>Mirrored currencies share the code of one predeployed contract.\<close>

definition handle_mirrored_token :: "evm_address \<Rightarrow> evm_address" where
  "handle_mirrored_token address =
     (if \<not> bytes_start_with address evm_system_prefix then address
      else if bytes_start_with address h160_prefix_token \<or> bytes_start_with address h160_prefix_dexshare
      then from_low_u64_be evm_predeploy_address_start
      else address)"

definition handler_balance :: "('w, 'g) runner \<Rightarrow> evm_address \<Rightarrow> 'w evm_state \<Rightarrow> nat" where
  "handler_balance rn a s = ab_balance (account_basic (rn_env rn) a s)"

definition handler_code_hash :: "('w, 'g) runner \<Rightarrow> evm_address \<Rightarrow> 'w evm_state \<Rightarrow> h256" where
  "handler_code_hash rn a s = code_hash_at_address (rn_env rn) (handle_mirrored_token a) s"

definition handler_code_size :: "('w, 'g) runner \<Rightarrow> evm_address \<Rightarrow> 'w evm_state \<Rightarrow> nat" where
  "handler_code_size rn a s = length (ev_codes s (handler_code_hash rn (handle_mirrored_token a) s))"

definition handler_code :: "('w, 'g) runner \<Rightarrow> evm_address \<Rightarrow> 'w evm_state \<Rightarrow> u8 list" where
  "handler_code rn a s = code_at_address (rn_env rn) (handle_mirrored_token a) s"

definition handler_storage :: "evm_address \<Rightarrow> h256 \<Rightarrow> 'w evm_state \<Rightarrow> h256" where
  "handler_storage a i s = ev_storages s a i"

definition handler_block_hash :: "('w, 'g) runner \<Rightarrow> nat \<Rightarrow> 'w evm_state \<Rightarrow> h256" where
  "handler_block_hash rn n s = (if n > u32_max then zero_h256 else rn_block_hash rn n (ev_world s))"

definition handler_block_timestamp :: "('w, 'g) runner \<Rightarrow> 'w evm_state \<Rightarrow> nat" where
  "handler_block_timestamp rn s = rn_now rn (ev_world s) div 1000"

section \<open>What the interpreter changes\<close>

definition storage_size :: nat where "storage_size = 64"

datatype storage_change = No_change | Added | Removed

definition set_storage :: "handler \<Rightarrow> evm_address \<Rightarrow> h256 \<Rightarrow> h256 \<Rightarrow> (exit_error, ('w, 'g) frame, unit) effect" where
  "set_storage hdl address index val =
     thenE (ensure (\<not> hd_is_static hdl) Exit_OutOfGas) (
     bindE (getE (\<lambda>f. ev_storages (fr_state f) address index = zero_h256)) (\<lambda>is_prev_value_default.
     let change = (if val = zero_h256 then if is_prev_value_default then No_change else Removed
                   else if is_prev_value_default then Added else No_change) in
     thenE (on_state (modE (\<lambda>s. s\<lparr>ev_storages := (ev_storages s)(address := (ev_storages s address)(index := val))\<rparr>)))
     (map_errE (\<lambda>_. Exit_OutOfGas)
       (case change of
          Added \<Rightarrow> thenE (on_state (modE (update_contract_storage_size address (int storage_size))))
                     (on_meters (meter_charge storage_size))
        | Removed \<Rightarrow> thenE (on_state (modE (update_contract_storage_size address (- int storage_size))))
                     (on_meters (meter_refund storage_size))
        | No_change \<Rightarrow> okE ()))))"

definition handler_log :: "evm_address \<Rightarrow> h256 list \<Rightarrow> u8 list \<Rightarrow> (exit_error, ('w, 'g) frame, unit) effect" where
  "handler_log address topics data = on_state (evm_deposit_event (Log address topics data))"

definition mark_delete :: "('w, 'g) runner \<Rightarrow> handler \<Rightarrow> evm_address \<Rightarrow> evm_address \<Rightarrow> (exit_error, ('w, 'g) frame, unit) effect" where
  "mark_delete rn hdl address target =
     thenE (ensure (\<not> hd_is_static hdl) Exit_OutOfGas) (
     map_errE (\<lambda>e. Exit_Other (rn_error_text rn e))
       (bindE (on_state (remove_contract (rn_env rn) address target)) (\<lambda>storage. on_meters (meter_refund storage))))"

definition l64 :: "nat \<Rightarrow> nat" where
  "l64 gas = gas - gas div 64"

definition call_gas :: "('w, 'g) runner \<Rightarrow> handler \<Rightarrow> nat option \<Rightarrow> ('w, 'g) frame \<Rightarrow> nat" where
  "call_gas rn hdl target_gas f =
     (let gas = g_gas (rn_gas rn) (fr_gas f);
          after_gas = (if cf_call_l64_after_gas (hd_config hdl) then l64 gas else gas)
      in min (unwrap_or target_gas after_gas) after_gas)"

text \<open>Effects of the body of a nested transaction, on its own frame and on the gas around it.\<close>

definition child :: "('e, ('w, 'g) frame, 'a) effect \<Rightarrow> ('e, ('w, 'g) frame \<times> 'g, 'a) effect" where
  "child m = zoomE fst (\<lambda>c (_, g). (c, g)) m"

definition outer_gas :: "('e, 'g, 'a) effect \<Rightarrow> ('e, ('w, 'g) frame \<times> 'g, 'a) effect" where
  "outer_gas m = zoomE snd (\<lambda>g (c, _). (c, g)) m"

text \<open>The gas a nested call did not use goes back to the frame around it.\<close>

definition return_gas :: "('w, 'g) runner \<Rightarrow> (exit_error, ('w, 'g) frame \<times> 'g, unit) effect" where
  "return_gas rn =
     bindE (getE (\<lambda>(c, g). fr_gas c)) (\<lambda>own.
     thenE (outer_gas (g_record_stipend (rn_gas rn) (g_gas (rn_gas rn) own)))
       (outer_gas (g_record_refund (rn_gas rn) (g_refunded_gas (rn_gas rn) own))))"

type_synonym created = "exit_reason \<times> evm_address option \<times> u8 list"

abbreviation create_failed :: "exit_error \<Rightarrow> created" where
  "create_failed e \<equiv> (Exit_Error e, None, [])"

definition sub_create_body ::
  "('w, 'g) runner \<Rightarrow> evm_address \<Rightarrow> evm_address \<Rightarrow> nat \<Rightarrow> u8 list \<Rightarrow> handler \<Rightarrow> (created, ('w, 'g) frame \<times> 'g, created) effect" where
  "sub_create_body rn caller address val init hdl =
     thenE (map_errE create_failed (child (on_state (handler_transfer rn
              \<lparr>tr_source = caller, tr_target = address, tr_value = val\<rparr>)))) (
     bindE (child (execute rn hdl caller address val init [])) (\<lambda>(reason, out).
     case reason of
       Exit_Succeed _ \<Rightarrow>
         map_errE create_failed
          (thenE (child (on_gas (g_record_deposit (rn_gas rn) (length out)))) (
           thenE (return_gas rn) (
           thenE (child (on_state (modE (inc_nonce address)))) (
           thenE (map_errE (\<lambda>_. Exit_OutOfGas) (child (on_meters (meter_charge
                    (sat_add u32_max (length out) (er_new_contract_extra_bytes (rn_env rn))))))) (
           thenE (child (on_state (on_contract_initialization (rn_env rn) address (hd_origin hdl) out)))
             (okE (reason, Some address, [])))))))
     | Exit_Revert \<Rightarrow> failE (reason, None, out)
     | Exit_Error e \<Rightarrow> failE (reason, None, [])
     | Exit_Fatal \<Rightarrow> thenE (outer_gas (modE (g_fail (rn_gas rn)))) (failE (reason, None, []))))"

definition handler_create ::
  "('w, 'g) runner \<Rightarrow> handler \<Rightarrow> evm_address \<Rightarrow> create_scheme \<Rightarrow> nat \<Rightarrow> u8 list \<Rightarrow> nat option \<Rightarrow>
   ('e, ('w, 'g) frame, created) effect" where
  "handler_create rn hdl caller scheme val init target_gas f =
     (case (thenE (ensure (\<not> hd_is_static hdl) (create_failed Exit_OutOfGas))
        (bindE (getE (call_gas rn hdl target_gas)) (\<lambda>gas.
         thenE (map_errE create_failed (on_gas (g_record_cost (rn_gas rn) gas))) (
         bindE (map_errE create_failed (on_state (create_address rn scheme))) (\<lambda>address.
         thenE (on_state (modE (inc_nonce caller)))
           (map_errE (\<lambda>e. create_failed (Exit_Other (rn_error_text rn e)))
             (run_sub_transaction rn hdl gas address (hd_is_static hdl) (sub_create_body rn caller address val init)))))))) f of
        (Inl r, f') \<Rightarrow> (Inr r, f')
      | (Inr r, f') \<Rightarrow> (Inr r, f'))"

type_synonym called = "exit_reason \<times> u8 list"

abbreviation call_failed :: "exit_error \<Rightarrow> called" where
  "call_failed e \<equiv> (Exit_Error e, [])"

text \<open>A precompiled contract at the address is called instead of its code.\<close>

definition try_precompile ::
  "('w, 'g) runner \<Rightarrow> evm_address \<Rightarrow> u8 list \<Rightarrow> nat \<Rightarrow> evm_context \<Rightarrow>
   (exit_error, ('w, 'g) frame, (exit_succeed \<times> u8 list \<times> nat) option) effect" where
  "try_precompile rn code_address input gas ctx f =
     (case rn_precompiles rn code_address input (Some gas) ctx (fr_state f) of
        None \<Rightarrow> (Inr None, f)
      | Some (Inl e, s) \<Rightarrow> (Inl e, f\<lparr>fr_state := s\<rparr>)
      | Some (Inr r, s) \<Rightarrow> (Inr (Some r), f\<lparr>fr_state := s\<rparr>))"

definition sub_call_body ::
  "('w, 'g) runner \<Rightarrow> evm_address \<Rightarrow> evm_transfer option \<Rightarrow> u8 list \<Rightarrow> u8 list \<Rightarrow> nat \<Rightarrow> evm_context \<Rightarrow> handler \<Rightarrow>
   (called, ('w, 'g) frame \<times> 'g, called) effect" where
  "sub_call_body rn code_address transfer code input gas ctx hdl =
     thenE (case transfer of
              Some tr \<Rightarrow> map_errE call_failed (child (on_state (handler_transfer rn tr)))
            | None \<Rightarrow> okE ()) (
     thenE (map_errE call_failed (outer_gas (g_record_cost (rn_gas rn) gas))) (
     bindE (map_errE call_failed (child (try_precompile rn code_address input gas ctx))) (\<lambda>precompiled.
     case precompiled of
       Some (s, out, cost) \<Rightarrow>
         map_errE call_failed
          (thenE (child (on_gas (g_record_cost (rn_gas rn) cost))) (
           thenE (return_gas rn) (okE (Exit_Succeed s, out))))
     | None \<Rightarrow>
         bindE (child (execute rn hdl (cx_caller ctx) (cx_address ctx) (cx_apparent_value ctx) code input)) (\<lambda>(reason, out).
         case reason of
           Exit_Succeed _ \<Rightarrow> map_errE call_failed (thenE (return_gas rn) (okE (reason, out)))
         | Exit_Revert \<Rightarrow> failE (reason, out)
         | Exit_Error e \<Rightarrow> failE (reason, [])
         | Exit_Fatal \<Rightarrow> thenE (outer_gas (modE (g_fail (rn_gas rn)))) (failE (reason, []))))))"

definition handler_call ::
  "('w, 'g) runner \<Rightarrow> handler \<Rightarrow> evm_address \<Rightarrow> evm_transfer option \<Rightarrow> u8 list \<Rightarrow> nat option \<Rightarrow> bool \<Rightarrow> evm_context \<Rightarrow>
   ('e, ('w, 'g) frame, called) effect" where
  "handler_call rn hdl code_address transfer input target_gas is_static ctx f =
     (case (thenE (ensure (\<not> (hd_is_static hdl \<and> transfer \<noteq> None)) (call_failed Exit_OutOfGas))
        (bindE (getE (\<lambda>f. (call_gas rn hdl target_gas f, handler_code rn code_address (fr_state f)))) (\<lambda>(gas0, code).
         let gas = (case transfer of
                      Some tr \<Rightarrow> if tr_value tr \<noteq> 0 then sat_add u64_max gas0 (cf_call_stipend (hd_config hdl)) else gas0
                    | None \<Rightarrow> gas0) in
         map_errE (\<lambda>e. call_failed (Exit_Other (rn_error_text rn e)))
           (run_sub_transaction rn hdl gas (cx_address ctx) (hd_is_static hdl \<or> is_static)
             (sub_call_body rn code_address transfer code input gas ctx))))) f of
        (Inl r, f') \<Rightarrow> (Inr r, f')
      | (Inr r, f') \<Rightarrow> (Inr r, f'))"

section \<open>Calls of the pallet\<close>

definition call_body ::
  "('w, 'g) runner \<Rightarrow> evm_address \<Rightarrow> evm_address \<Rightarrow> u8 list \<Rightarrow> balance \<Rightarrow> handler \<Rightarrow> ('w, 'g, dispatch_error + call_info) body" where
  "call_body rn sender target input val hdl =
     thenE (map_errE Inl (on_state (runner_transfer rn sender target val))) (
     bindE (getE (\<lambda>f. handler_code rn target (fr_state f))) (\<lambda>code.
     thenE (map_errE (\<lambda>_. Inl OutOfGas) (on_gas (g_record_transaction (rn_gas rn) code))) (
     bindE (execute rn hdl sender target val code input) (\<lambda>(reason, out).
     bindE (getE (\<lambda>f. \<lparr>ci_exit_reason = reason, ci_output = out,
              ci_used_gas = used_gas (rn_gas rn) (fr_gas f), ci_used_storage = frame_used_storage f\<rparr>)) (\<lambda>info.
     thenE (ensure (is_succeed reason) (Inr info)) (okE (Inr info)))))))"

definition runner_call ::
  "('w, 'g) runner \<Rightarrow> evm_address \<Rightarrow> evm_address \<Rightarrow> evm_address \<Rightarrow> u8 list \<Rightarrow> balance \<Rightarrow> nat \<Rightarrow> nat \<Rightarrow> evm_config \<Rightarrow>
   ('w evm_state, call_info) eff" where
  "runner_call rn sender origin target input val gas_limit storage_limit config =
     bindE (getE (can_call_contract target sender)) (\<lambda>allowed.
     thenE (ensure allowed (evE Evm_NoPermission)) (
     thenE (modE (inc_nonce sender)) (
     bindE (run_transaction rn origin gas_limit storage_limit target False config
              (call_body rn sender target input val)) (\<lambda>r.
     case r of Inl e \<Rightarrow> failE e | Inr info \<Rightarrow> okE info))))"

end
