(* ===== verification/Evm_Pallet.thy ===== *)
theory Evm_Pallet
  imports Evm_Runner Evm_Bridge Precompiles
begin

text \<open>
  The EVM pallet, \<open>lib-serml/evm/evm/src/lib.rs\<close>, second part: its dispatchables, the traits
  \<open>EVM\<close> and \<open>EVMStateRentTrait\<close> it implements for the EVM bridge and the precompiled contracts,
  and the signed extension that records the origin of an extrinsic. A dispatchable that runs code
  returns the weight it used.
\<close>

record ('w, 'g) evm_pallet =
  pl_runner :: "('w, 'g) runner"
  pl_network_contract_origin :: "origin \<Rightarrow> bool"
  pl_network_contract_source :: evm_address
  pl_developer_deposit :: balance
  pl_deployment_fee :: balance
  pl_treasury_account :: account_id
  pl_free_deployment_origin :: "origin \<Rightarrow> bool"
  pl_gas_to_weight :: "nat \<Rightarrow> nat"
  pl_unreserve_and_charge_fee :: "account_id \<Rightarrow> nat \<Rightarrow> ('w, balance \<times> balance) eff"
  pl_refund_fee :: "account_id \<Rightarrow> nat \<Rightarrow> balance \<Rightarrow> ('w, unit) eff"
  pl_deposit_creating :: "account_id \<Rightarrow> balance \<Rightarrow> 'w \<Rightarrow> 'w"

abbreviation pl_env :: "('w, 'g) evm_pallet \<Rightarrow> 'w evm_env" where
  "pl_env cfg \<equiv> rn_env (pl_runner cfg)"

definition evm_address_of :: "('w, 'g) evm_pallet \<Rightarrow> account_id \<Rightarrow> ('e, 'w evm_state, evm_address) effect" where
  "evm_address_of cfg who s =
     (case er_get_or_create_evm_address (pl_env cfg) who (ev_world s) of (a, w) \<Rightarrow> (Inr a, s\<lparr>ev_world := w\<rparr>))"

definition mapped_address :: "('w, 'g) evm_pallet \<Rightarrow> account_id \<Rightarrow> ('w evm_state, evm_address) eff" where
  "mapped_address cfg who =
     bindE (getE (\<lambda>s. am_get_evm_address (er_mapping (pl_env cfg)) who (ev_world s))) (\<lambda>maybe.
     ok_or maybe (evE AddressNotMapped))"

section \<open>Calling and creating contracts\<close>

text \<open>\<open>unique_saturated_into\<close> a \<open>u64\<close>, and the weight of the gas.\<close>

definition weight_of_gas :: "('w, 'g) evm_pallet \<Rightarrow> nat \<Rightarrow> nat" where
  "weight_of_gas cfg gas = pl_gas_to_weight cfg (min u64_max gas)"

definition report_call :: "evm_address \<Rightarrow> call_info \<Rightarrow> ('w evm_state, unit) eff" where
  "report_call target info =
     evm_deposit_event (if is_succeed (ci_exit_reason info) then Executed target
       else ExecutedFailed target (ci_exit_reason info) (ci_output info))"

definition report_create :: "create_info \<Rightarrow> ('w evm_state, unit) eff" where
  "report_create info =
     evm_deposit_event (if is_succeed (cr_exit_reason info) then Created (cr_address info)
       else CreatedFailed (cr_address info) (cr_exit_reason info) (cr_output info))"

definition evm_call ::
  "('w, 'g) evm_pallet \<Rightarrow> origin \<Rightarrow> evm_address \<Rightarrow> u8 list \<Rightarrow> balance \<Rightarrow> nat \<Rightarrow> nat \<Rightarrow> ('w evm_state, nat) eff" where
  "evm_call cfg org target input val gas_limit storage_limit =
     bindE (ensure_signed org) (\<lambda>who.
     bindE (evm_address_of cfg who) (\<lambda>source.
     bindE (runner_call (pl_runner cfg) source source target input val gas_limit storage_limit setheum_config) (\<lambda>info.
     thenE (report_call target info) (okE (weight_of_gas cfg (ci_used_gas info))))))"

definition evm_scheduled_call ::
  "('w, 'g) evm_pallet \<Rightarrow> origin \<Rightarrow> evm_address \<Rightarrow> evm_address \<Rightarrow> u8 list \<Rightarrow> balance \<Rightarrow> nat \<Rightarrow> nat \<Rightarrow>
   ('w evm_state, nat) eff" where
  "evm_scheduled_call cfg org from target input val gas_limit storage_limit = transactional (
     thenE (ensure_root org) (
     bindE (getE (account_at (pl_env cfg) from)) (\<lambda>from_account.
     bindE (if er_ethereum_compatibility (pl_env cfg) then okE 0
            else bindE (map_errE (\<lambda>_. evE ChargeFeeFailed)
                   (inE (pl_unreserve_and_charge_fee cfg from_account (pl_gas_to_weight cfg gas_limit))))
                 (\<lambda>(_, imbalance). okE imbalance)) (\<lambda>payed.
     bindE (runner_call (pl_runner cfg) from from target input val gas_limit storage_limit setheum_config) (\<lambda>info.
     thenE (report_call target info) (
     let used = min u64_max (ci_used_gas info); refund_gas = sat_sub gas_limit used in
     thenE (whenE (\<not> er_ethereum_compatibility (pl_env cfg) \<and> refund_gas \<noteq> 0)
              (thenE (resultE (inE (pl_refund_fee cfg from_account (pl_gas_to_weight cfg refund_gas) payed))) (okE ())))
       (okE (pl_gas_to_weight cfg used))))))))"

definition evm_create ::
  "('w, 'g) evm_pallet \<Rightarrow> origin \<Rightarrow> u8 list \<Rightarrow> balance \<Rightarrow> nat \<Rightarrow> nat \<Rightarrow> ('w evm_state, nat) eff" where
  "evm_create cfg org init val gas_limit storage_limit =
     bindE (ensure_signed org) (\<lambda>who.
     bindE (evm_address_of cfg who) (\<lambda>source.
     bindE (runner_create (pl_runner cfg) source init val gas_limit storage_limit setheum_config) (\<lambda>info.
     thenE (report_create info) (okE (weight_of_gas cfg (cr_used_gas info))))))"

definition evm_create2 ::
  "('w, 'g) evm_pallet \<Rightarrow> origin \<Rightarrow> u8 list \<Rightarrow> h256 \<Rightarrow> balance \<Rightarrow> nat \<Rightarrow> nat \<Rightarrow> ('w evm_state, nat) eff" where
  "evm_create2 cfg org init salt val gas_limit storage_limit =
     bindE (ensure_signed org) (\<lambda>who.
     bindE (evm_address_of cfg who) (\<lambda>source.
     bindE (runner_create2 (pl_runner cfg) source init salt val gas_limit storage_limit setheum_config) (\<lambda>info.
     thenE (report_create info) (okE (weight_of_gas cfg (cr_used_gas info))))))"

definition create_network_contract ::
  "('w, 'g) evm_pallet \<Rightarrow> origin \<Rightarrow> u8 list \<Rightarrow> balance \<Rightarrow> nat \<Rightarrow> nat \<Rightarrow> ('w evm_state, nat) eff" where
  "create_network_contract cfg org init val gas_limit storage_limit =
     thenE (ensure (pl_network_contract_origin cfg org) BadOrigin) (
     bindE (getE (\<lambda>s. from_low_u64_be (word_of_nat (ev_network_contract_index s)))) (\<lambda>address.
     bindE (create_at_address (pl_runner cfg) (pl_network_contract_source cfg) init val address gas_limit storage_limit
              setheum_config) (\<lambda>info.
     thenE (modE (\<lambda>s. s\<lparr>ev_network_contract_index := sat_add u64_max (ev_network_contract_index s) 1\<rparr>)) (
     thenE (report_create info) (okE (weight_of_gas cfg (cr_used_gas info)))))))"

section \<open>Maintaining contracts\<close>

definition transfer_maintainer :: "('w, 'g) evm_pallet \<Rightarrow> origin \<Rightarrow> evm_address \<Rightarrow> evm_address \<Rightarrow> ('w evm_state, unit) eff" where
  "transfer_maintainer cfg org contract new_maintainer = transactional (
     bindE (ensure_signed org) (\<lambda>who.
     thenE (do_transfer_maintainer (pl_env cfg) who contract new_maintainer)
       (evm_deposit_event (TransferredMaintainer contract new_maintainer))))"

definition evm_deploy :: "('w, 'g) evm_pallet \<Rightarrow> origin \<Rightarrow> evm_address \<Rightarrow> ('w evm_state, unit) eff" where
  "evm_deploy cfg org contract = transactional (
     bindE (ensure_signed org) (\<lambda>who.
     bindE (mapped_address cfg who) (\<lambda>address.
     thenE (reaping (pl_env cfg) (er_transfer (pl_env cfg) who (pl_treasury_account cfg) (pl_deployment_fee cfg))) (
     thenE (mark_deployed contract (Some address))
       (evm_deposit_event (ContractDeployed contract))))))"

definition deploy_free :: "('w, 'g) evm_pallet \<Rightarrow> origin \<Rightarrow> evm_address \<Rightarrow> ('w evm_state, unit) eff" where
  "deploy_free cfg org contract = transactional (
     thenE (ensure (pl_free_deployment_origin cfg org) BadOrigin) (
     thenE (mark_deployed contract None)
       (evm_deposit_event (ContractDeployed contract))))"

definition enable_contract_development :: "('w, 'g) evm_pallet \<Rightarrow> origin \<Rightarrow> ('w evm_state, unit) eff" where
  "enable_contract_development cfg org = transactional (
     bindE (ensure_signed org) (\<lambda>who.
     bindE (evm_address_of cfg who) (\<lambda>address.
     thenE (inE (er_reserve (pl_env cfg) who (pl_developer_deposit cfg))) (
     bindE (getE (\<lambda>s. unwrap_or (ev_accounts s address) (account_info_new 0 None))) (\<lambda>info.
     thenE (ensure (ac_developer_deposit info = None) (evE ContractDevelopmentAlreadyEnabled)) (
     thenE (modE (put_account address (Some (info\<lparr>ac_developer_deposit := Some (pl_developer_deposit cfg)\<rparr>))))
       (evm_deposit_event (ContractDevelopmentEnabled who))))))))"

definition disable_contract_development :: "('w, 'g) evm_pallet \<Rightarrow> origin \<Rightarrow> ('w evm_state, unit) eff" where
  "disable_contract_development cfg org = transactional (
     bindE (ensure_signed org) (\<lambda>who.
     bindE (mapped_address cfg who) (\<lambda>address.
     bindE (getE (\<lambda>s. ev_accounts s address)) (\<lambda>maybe_account.
     bindE (ok_or maybe_account (evE ContractDevelopmentNotEnabled)) (\<lambda>info.
     bindE (ok_or (ac_developer_deposit info) (evE ContractDevelopmentNotEnabled)) (\<lambda>deposit.
     thenE (modE (put_account address (Some (info\<lparr>ac_developer_deposit := None\<rparr>)))) (
     thenE (modE (\<lambda>s. s\<lparr>ev_world := snd (er_unreserve (pl_env cfg) who deposit (ev_world s))\<rparr>))
       (evm_deposit_event (ContractDevelopmentDisabled who)))))))))"

text \<open>
  The closure of \<open>Accounts::mutate\<close> gets a copy of the entry and the entry is written back after it,
  as it is then: what the closure itself writes under the same key is lost.
\<close>

definition mutate_account ::
  "evm_address \<Rightarrow> (account_info option \<Rightarrow> ('w evm_state, account_info option \<times> 'a) eff) \<Rightarrow> ('w evm_state, 'a) eff" where
  "mutate_account a f s =
     (case f (ev_accounts s a) s of
        (Inl e, t) \<Rightarrow> (Inl e, put_account a (ev_accounts s a) t)
      | (Inr (v, x), t) \<Rightarrow> (Inr x, put_account a v t))"

text \<open>The caller: \<open>None\<close> is root.\<close>

definition do_set_code :: "('w, 'g) evm_pallet \<Rightarrow> account_id option \<Rightarrow> evm_address \<Rightarrow> u8 list \<Rightarrow> ('w evm_state, unit) eff" where
  "do_set_code cfg root_or_signed contract code = mutate_account contract (\<lambda>maybe_account.
     bindE (ok_or maybe_account (evE ContractNotFound)) (\<lambda>info.
     bindE (ok_or (ac_contract_info info) (evE ContractNotFound)) (\<lambda>c.
     bindE (case root_or_signed of
              Some signer \<Rightarrow>
                bindE (mapped_address cfg signer) (\<lambda>maintainer.
                thenE (ensure (co_maintainer c = maintainer) (evE Evm_NoPermission)) (
                thenE (ensure (\<not> co_deployed c) (evE ContractAlreadyDeployed)) (okE maintainer)))
            | None \<Rightarrow> okE (pl_network_contract_source cfg)) (\<lambda>source.
     if er_keccak (pl_env cfg) code = co_code_hash c then okE (maybe_account, ())
     else
       thenE (ensure (length code \<le> er_max_code_size (pl_env cfg)) (evE ContractExceedsMaxCodeSize)) (
       thenE (create_at_address (pl_runner cfg) source code 0 contract 2100000 100000 setheum_config)
         (okE (maybe_account, ())))))))"

definition set_code :: "('w, 'g) evm_pallet \<Rightarrow> origin \<Rightarrow> evm_address \<Rightarrow> u8 list \<Rightarrow> ('w evm_state, unit) eff" where
  "set_code cfg org contract code = transactional (
     bindE (case org of Root \<Rightarrow> okE None | Signed a \<Rightarrow> okE (Some a) | _ \<Rightarrow> failE BadOrigin) (\<lambda>root_or_signed.
     thenE (do_set_code cfg root_or_signed contract code)
       (evm_deposit_event (ContractSetCode contract))))"

definition evm_selfdestruct :: "('w, 'g) evm_pallet \<Rightarrow> origin \<Rightarrow> evm_address \<Rightarrow> ('w evm_state, unit) eff" where
  "evm_selfdestruct cfg org contract = transactional (
     bindE (ensure_signed org) (\<lambda>who.
     bindE (mapped_address cfg who) (\<lambda>maintainer.
     thenE (do_selfdestruct (pl_env cfg) who maintainer contract)
       (evm_deposit_event (ContractSelfdestructed contract)))))"

section \<open>The genesis accounts\<close>

record genesis_account =
  ga_nonce :: nat
  ga_balance :: balance
  ga_storage :: "(h256 \<times> h256) list"
  ga_code :: "u8 list"

text \<open>
  The code of a genesis contract runs without a transaction around it, on a storage meter of limit 0
  that is never finished. Whatever fails is a panic.
\<close>

definition genesis_execute :: "('w, 'g) evm_pallet \<Rightarrow> evm_address \<Rightarrow> u8 list \<Rightarrow> ('w evm_state, u8 list) eff" where
  "genesis_execute cfg address code s =
     (let rn = pl_runner cfg; source = pl_network_contract_source cfg in
      case meter_new (storage_meter_handler (rn_env rn) source) address 0 ([], s) of
        (Inl e, _) \<Rightarrow> (Inl Panic, s)
      | (Inr _, (ms, s1)) \<Rightarrow>
          (case execute rn \<lparr>hd_origin = source, hd_is_static = False, hd_config = setheum_config\<rparr> source address 0 code []
                  \<lparr>fr_gas = g_new (rn_gas rn) 2100000 setheum_config, fr_meters = ms, fr_state = s1\<rparr> of
             (Inl e, f) \<Rightarrow> (Inl e, fr_state f)
           | (Inr (reason, out), f) \<Rightarrow> (if is_succeed reason then Inr out else Inl Panic, fr_state f)))"

definition genesis_contract :: "('w, 'g) evm_pallet \<Rightarrow> evm_address \<Rightarrow> evm_address \<Rightarrow> genesis_account \<Rightarrow> ('w evm_state, unit) eff" where
  "genesis_contract cfg treasury address account =
     (let env = pl_env cfg; storage = length (ga_storage account) * storage_size mod 2 ^ 32 in
      bindE (genesis_execute cfg address (ga_code account)) (\<lambda>out.
      thenE (map_errE (\<lambda>_. Panic) (on_contract_initialization env address (pl_network_contract_source cfg) out)) (
      thenE (whenE (\<not> er_ethereum_compatibility env) (map_errE (\<lambda>_. Panic) (mark_deployed address None))) (
      thenE (forE (ga_storage account) (\<lambda>(index, val).
               modE (\<lambda>s. s\<lparr>ev_storages := (ev_storages s)(address := (ev_storages s address)(index := val))\<rparr>))) (
      thenE (map_errE (\<lambda>_. Panic) (reserve_storage env treasury storage))
        (map_errE (\<lambda>_. Panic) (charge_storage env treasury address storage 0)))))))"

definition genesis_account_build ::
  "('w, 'g) evm_pallet \<Rightarrow> evm_address \<Rightarrow> evm_address \<times> genesis_account \<Rightarrow> ('w evm_state, unit) eff" where
  "genesis_account_build cfg treasury = (\<lambda>(address, account).
     bindE (getE (account_at (pl_env cfg) address)) (\<lambda>account_id.
     thenE (modE (put_account address (Some (account_info_new (ga_nonce account) None)))) (
     thenE (modE (\<lambda>s. s\<lparr>ev_world := pl_deposit_creating cfg account_id (ga_balance account) (ev_world s)\<rparr>))
       (whenE (ga_code account \<noteq> []) (genesis_contract cfg treasury address account)))))"

definition mirrored_nft_address_start :: u64 where "mirrored_nft_address_start = 0x2000000"

definition evm_genesis_build ::
  "('w, 'g) evm_pallet \<Rightarrow> account_id \<Rightarrow> (evm_address \<times> genesis_account) list \<Rightarrow> ('w evm_state, unit) eff" where
  "evm_genesis_build cfg treasury genesis =
     bindE (evm_address_of cfg treasury) (\<lambda>address.
     thenE (forE genesis (genesis_account_build cfg address))
       (modE (\<lambda>s. s\<lparr>ev_network_contract_index := unat mirrored_nft_address_start\<rparr>)))"

section \<open>The EVM for the other pallets\<close>

text \<open>The trait \<open>EVM\<close>: anything but a successful execution in mode \<open>Execute\<close> is rolled back.\<close>

definition evm_execute ::
  "('w, 'g) evm_pallet \<Rightarrow> invoke_context \<Rightarrow> u8 list \<Rightarrow> balance \<Rightarrow> nat \<Rightarrow> nat \<Rightarrow> execution_mode \<Rightarrow> ('w evm_state, call_info) eff" where
  "evm_execute cfg ctx input val gas_limit storage_limit mode s =
     (let config = (if mode = EstimateGas then setheum_config\<lparr>cf_estimate := True\<rparr> else setheum_config) in
      case runner_call (pl_runner cfg) (ctx_sender ctx) (ctx_origin ctx) (ctx_contract ctx) input val gas_limit storage_limit config s of
        (Inl e, _) \<Rightarrow> (Inl e, s)
      | (Inr info, t) \<Rightarrow>
          if mode = Execute \<and> is_succeed (ci_exit_reason info)
          then (Inr info, snd (report_call (ctx_contract ctx) info t))
          else (Inr info, s))"

definition pallet_evm :: "('w, 'g) evm_pallet \<Rightarrow> 'w evm_state evm_executor" where
  "pallet_evm cfg = \<lparr>ex_execute = evm_execute cfg, ex_get_origin = ev_extrinsic_origin,
     ex_set_origin = (\<lambda>a s. s\<lparr>ev_extrinsic_origin := Some a\<rparr>)\<rparr>"

definition query_maintainer :: "evm_address \<Rightarrow> ('w evm_state, evm_address) eff" where
  "query_maintainer contract =
     bindE (getE (contract_at contract)) (\<lambda>maybe.
     bindE (ok_or maybe (evE ContractNotFound)) (\<lambda>c. okE (co_maintainer c)))"

definition pallet_state_rent :: "('w, 'g) evm_pallet \<Rightarrow> 'w evm_state state_rent" where
  "pallet_state_rent cfg = \<lparr>
     sr_new_contract_extra_bytes = (\<lambda>s. er_new_contract_extra_bytes (pl_env cfg)),
     sr_storage_deposit_per_byte = (\<lambda>s. er_storage_deposit_per_byte (pl_env cfg)),
     sr_maintainer = query_maintainer,
     sr_developer_deposit = (\<lambda>s. pl_developer_deposit cfg),
     sr_deployment_fee = (\<lambda>s. pl_deployment_fee cfg),
     sr_transfer_maintainer = do_transfer_maintainer (pl_env cfg)\<rparr>"

text \<open>\<open>SetEvmOrigin\<close>, before and after an extrinsic.\<close>

definition evm_pre_dispatch :: "account_id \<Rightarrow> 'w evm_state \<Rightarrow> 'w evm_state" where
  "evm_pre_dispatch who s = s\<lparr>ev_extrinsic_origin := Some who\<rparr>"

definition evm_post_dispatch :: "'w evm_state \<Rightarrow> 'w evm_state" where
  "evm_post_dispatch s = s\<lparr>ev_extrinsic_origin := None\<rparr>"

end
