(* ===== verification/Evm_Properties.thy ===== *)
theory Evm_Properties
  imports Evm_Pallet
begin

text \<open>
  Properties of the EVM pallet: what a failed execution leaves behind, and what
  \<open>set_code\<close> does.
\<close>

section \<open>Failed executions\<close>

text \<open>A body commits good results only.\<close>

definition commits :: "('r \<Rightarrow> bool) \<Rightarrow> ('r, 's, 'r) effect \<Rightarrow> bool" where
  "commits good m \<longleftrightarrow> (\<forall>f r g. m f = (Inr r, g) \<longrightarrow> good r)"

lemma run_transaction_reverts:
  assumes "\<And>hdl. commits good (body hdl)" "run_transaction rn origin gas_limit storage_limit contract is_static config body s = (r, t)"
    and "case r of Inl e \<Rightarrow> True | Inr x \<Rightarrow> \<not> good x"
  shows "t = s"
proof -
  have good: "good x" if "body hdl f = (Inr x, g)" for hdl f x g
    using assms(1) that unfolding commits_def by blast
  show ?thesis
    using assms(2,3) good unfolding run_transaction_def Let_def
    by (auto split: prod.splits sum.splits)
qed

definition call_succeeded :: "dispatch_error + call_info \<Rightarrow> bool" where
  "call_succeeded r \<longleftrightarrow> (case r of Inl e \<Rightarrow> False | Inr info \<Rightarrow> is_succeed (ci_exit_reason info))"

definition create_succeeded :: "dispatch_error + create_info \<Rightarrow> bool" where
  "create_succeeded r \<longleftrightarrow> (case r of Inl e \<Rightarrow> False | Inr info \<Rightarrow> is_succeed (cr_exit_reason info))"

lemma call_commits: "commits call_succeeded (call_body rn sender target input val hdl)"
  by (auto simp: commits_def call_body_def call_succeeded_def)

lemma finish_create_commits: "is_succeed (cr_exit_reason info) \<Longrightarrow> commits create_succeeded (finish_create rn source address out info)"
  by (auto simp: commits_def finish_create_def create_succeeded_def)

lemma create_commits: "commits create_succeeded (create_body rn source address val init hdl)"
  unfolding commits_def
proof (intro allI impI)
  fix f r g
  assume "create_body rn source address val init hdl f = (Inr r, g)"
  then obtain info out f1 where "is_succeed (cr_exit_reason info)" "finish_create rn source address out info f1 = (Inr r, g)"
    by (auto simp: create_body_def case_prod_beta) (metis create_info.select_convs(1))
  then show "create_succeeded r" using finish_create_commits[of info] unfolding commits_def by blast
qed

lemma runner_call_reverts:
  assumes "runner_call rn sender origin target input val gas_limit storage_limit config s = (r, t)" "\<not> call_succeeded r"
  shows "t = (if can_call_contract target sender s then inc_nonce sender s else s)"
proof (cases "can_call_contract target sender s")
  case True
  obtain q u where run: "run_transaction rn origin gas_limit storage_limit target False config (call_body rn sender target input val) (inc_nonce sender s) = (q, u)"
    by fastforce
  have "r = (case q of Inl e \<Rightarrow> Inl e | Inr x \<Rightarrow> x)" and "t = u"
    using assms(1) True run
    by (auto simp: runner_call_def bindE_def thenE_def getE_def ensure_def okE_def modE_def failE_def split: sum.splits)
  then have "case q of Inl e \<Rightarrow> True | Inr x \<Rightarrow> \<not> call_succeeded x"
    using assms(2) by (auto simp: call_succeeded_def split: sum.splits)
  then have "u = inc_nonce sender s" by (rule run_transaction_reverts[OF call_commits run])
  then show ?thesis using True \<open>t = u\<close> by simp
next
  case False
  then show ?thesis
    using assms(1) by (simp add: runner_call_def bindE_def thenE_def getE_def ensure_def failE_def)
qed

lemma inner_create_reverts:
  assumes "inner_create rn source init val gas_limit storage_limit assigned salt config s = (r, t)" "\<not> create_succeeded r"
  shows "t = s \<or> t = inc_nonce source s"
proof -
  define addressing :: "('a evm_state, evm_address) eff" where
    "addressing = (case assigned of
       Some a \<Rightarrow> okE a
     | None \<Rightarrow> map_errE (\<lambda>_. evE ConflictContractAddress)
         (create_address rn (case salt of
            Some st \<Rightarrow> Create2 source (er_keccak (rn_env rn) init) st | None \<Rightarrow> Legacy source)))"
  have reads: "snd (addressing s) = s"
    by (simp add: addressing_def create_address_def eff_defs split: option.splits)
  show ?thesis
  proof (cases "fst (addressing s)")
    case (Inl e)
    then have "addressing s = (Inl e, s)" using reads by (metis prod.collapse)
    then show ?thesis using assms(1) by (simp add: inner_create_def addressing_def[symmetric] bindE_def)
  next
    case (Inr address)
    then have address: "addressing s = (Inr address, s)" using reads by (metis prod.collapse)
    obtain q u where run: "run_transaction rn source gas_limit storage_limit address False config (create_body rn source address val init) (inc_nonce source s) = (q, u)"
      by fastforce
    have "r = (case q of Inl e \<Rightarrow> Inl e | Inr x \<Rightarrow> x)" and "t = u"
      using assms(1) run address
      by (auto simp: inner_create_def addressing_def[symmetric] bindE_def thenE_def okE_def modE_def failE_def split: sum.splits)
    then have "case q of Inl e \<Rightarrow> True | Inr x \<Rightarrow> \<not> create_succeeded x"
      using assms(2) by (auto simp: create_succeeded_def split: sum.splits)
    then show ?thesis using run_transaction_reverts[OF create_commits run] \<open>t = u\<close> by simp
  qed
qed

text \<open>
  C19. Whatever code runs: a call or creation that fails or ends with anything but success leaves
  nothing behind but the counted nonce of its sender. All it did to balances, storage, code and
  contracts, in nested calls too, and all deposits it reserved are undone.
\<close>

theorem failed_execution_reverts:
  "(runner_call rn sender origin target input val gas_limit storage_limit config s = (r, t) \<and> \<not> call_succeeded r \<longrightarrow>
      t = (if can_call_contract target sender s then inc_nonce sender s else s)) \<and>
   (inner_create rn source init val gas_limit storage_limit assigned salt config s = (r', t') \<and> \<not> create_succeeded r' \<longrightarrow>
      t' = s \<or> t' = inc_nonce source s)"
  by (intro conjI impI; elim conjE; erule (1) runner_call_reverts inner_create_reverts)

text \<open>
  A runner for the witnesses: one account per address, gas that is never used up, and an
  interpreter whose code is the reason it exits with, after it wrote to the storage.
\<close>

definition demo_env :: "unit evm_env" where
  "demo_env = \<lparr>er_mapping = \<lparr>am_get_account_id = (\<lambda>a w. be_number a),
       am_get_evm_address = (\<lambda>a w. Some (drop 12 (be_word a))), am_get_default_evm_address = (\<lambda>a w. zero_address)\<rparr>,
     er_get_or_create_evm_address = (\<lambda>a w. (zero_address, w)),
     er_free_balance = (\<lambda>a w. 100), er_transfer = (\<lambda>a b n. okE ((), [])), er_transfer_all = (\<lambda>a b. okE ((), [])),
     er_reserve = (\<lambda>a n. okE ()), er_unreserve = (\<lambda>a n w. (0, w)), er_repatriate = (\<lambda>a b n st. okE (0, [])),
     er_inc_providers = (\<lambda>a w. w), er_dec_providers = (\<lambda>a. okE ((), [])),
     er_keccak = (\<lambda>bs. take 32 (bs @ replicate 32 0)), er_new_contract_extra_bytes = 100,
     er_storage_deposit_per_byte = 10, er_max_code_size = 1000, er_ethereum_compatibility = False\<rparr>"

definition free_gas :: "unit gas_ops" where
  "free_gas = \<lparr>g_new = (\<lambda>n c. ()), g_gas = (\<lambda>g. 0), g_total_used_gas = (\<lambda>g. 0), g_refunded_gas = (\<lambda>g. 0),
     g_record_cost = (\<lambda>n. okE ()), g_record_stipend = (\<lambda>n. okE ()), g_record_refund = (\<lambda>n. okE ()),
     g_record_deposit = (\<lambda>n. okE ()), g_record_transaction = (\<lambda>bs. okE ()), g_fail = (\<lambda>g. g)\<rparr>"

definition demo_runner :: "exit_reason \<Rightarrow> (unit, unit) runner" where
  "demo_runner reason = \<lparr>rn_env = demo_env, rn_gas = free_gas,
     rn_interpret = (\<lambda>hdl ctx code input f. ((reason, [1, 2, 3]),
        f\<lparr>fr_state := (fr_state f)\<lparr>ev_storages := (\<lambda>a i. replicate 32 7)\<rparr>\<rparr>)),
     rn_precompiles = (\<lambda>a i g c s. None), rn_rlp_caller_nonce = (\<lambda>a n. a), rn_error_text = (\<lambda>e. ''error''),
     rn_chain_id = 1, rn_block_hash = (\<lambda>n w. zero_h256), rn_block_number = (\<lambda>w. 0), rn_now = (\<lambda>w. 0)\<rparr>"

definition empty_evm :: "unit evm_state" where
  "empty_evm = \<lparr>ev_accounts = (\<lambda>a. None), ev_storage_sizes = (\<lambda>a. 0), ev_storages = (\<lambda>a i. zero_h256),
     ev_codes = (\<lambda>h. []), ev_code_infos = (\<lambda>h. None), ev_network_contract_index = 0,
     ev_extrinsic_origin = None, ev_world = (), ev_events = []\<rparr>"

theorem failed_execution_reverts_witness:
  "snd (runner_call (demo_runner Exit_Revert) (replicate 20 1) (replicate 20 1) (replicate 20 2) [] 0 5 0 setheum_config empty_evm)
     = inc_nonce (replicate 20 1) empty_evm \<and>
   \<not> call_succeeded (fst (runner_call (demo_runner Exit_Revert) (replicate 20 1) (replicate 20 1) (replicate 20 2) [] 0 5 0 setheum_config empty_evm))"
proof -
  let ?call = "runner_call (demo_runner Exit_Revert) (replicate 20 1) (replicate 20 1) (replicate 20 2) [] 0 5 0 setheum_config empty_evm"
  have env: "rn_env (demo_runner Exit_Revert) = demo_env" "rn_gas (demo_runner Exit_Revert) = free_gas"
    by (simp_all add: demo_runner_def)
  have allowed: "can_call_contract (replicate 20 2) (replicate 20 1) empty_evm"
    by (simp add: can_call_contract_def contract_at_def empty_evm_def)
  have ran: "execute (demo_runner Exit_Revert) hdl a b v code input f =
      (Inr (Exit_Revert, [1, 2, 3]), f\<lparr>fr_state := (fr_state f)\<lparr>ev_storages := (\<lambda>a i. replicate 32 7)\<rparr>\<rparr>)" for hdl a b v code input f
    by (simp add: execute_def demo_runner_def)
  have body: "\<exists>info f'. call_body (demo_runner Exit_Revert) a b input 0 hdl f = (Inl (Inr info), f') \<and> ci_exit_reason info = Exit_Revert"
    for a b input hdl f
    by (simp add: call_body_def runner_transfer_def on_state_def on_gas_def zoomE_def thenE_def bindE_def map_errE_def okE_def getE_def
        env free_gas_def ensure_def is_succeed_def failE_def ran)
  have "\<exists>info. ?call = (Inr info, inc_nonce (replicate 20 1) empty_evm) \<and> ci_exit_reason info = Exit_Revert"
    using body[of "replicate 20 1" "replicate 20 2" "[]"] allowed
    by (auto simp: runner_call_def run_transaction_def meter_new_def on_handler_def storage_meter_handler_def reserve_storage_def
        zoomE_def thenE_def bindE_def getE_def modE_def okE_def ensure_def Let_def split: prod.splits sum.splits)
      (metis (no_types, lifting) Inl_Inr_False Pair_inject sum.inject(1) sum.inject(2))+
  then obtain info where call: "?call = (Inr info, inc_nonce (replicate 20 1) empty_evm)" "ci_exit_reason info = Exit_Revert"
    by blast
  then have failed: "\<not> call_succeeded (Inr info)" by (simp add: call_succeeded_def is_succeed_def)
  show ?thesis
    using failed_execution_reverts[THEN conjunct1, rule_format, OF conjI[OF call(1) failed]] failed call(1) by simp
qed

section \<open>Setting code\<close>

lemma evm_deposit_event_run [simp, runs]:
  "evm_deposit_event ev s = (Inr x, t) \<longleftrightarrow> t = s\<lparr>ev_events := ev_events s @ [ev]\<rparr>"
  by (simp add: evm_deposit_event_def)

text \<open>
  C20. Setting the code of a contract has no effect on the contract: whoever calls it, after a
  success the contract still has the code hash, the maintainer and the status it had before, because
  the entry read before the new code was created is written back over the new one.
\<close>

theorem set_code_has_no_effect:
  assumes "set_code cfg org contract code s = (Inr (), t)"
  shows "contract_at contract t = contract_at contract s \<and>
    code_hash_at_address (pl_env cfg) contract t = code_hash_at_address (pl_env cfg) contract s"
proof -
  obtain who u where "do_set_code cfg who contract code s = (Inr (), u)" and t: "ev_accounts t = ev_accounts u"
    using assms by (cases org) (auto simp: set_code_def)
  then have "ev_accounts u contract = ev_accounts s contract"
    by (auto simp: do_set_code_def mutate_account_def put_account_def split: prod.splits sum.splits if_splits)
  then show ?thesis by (simp add: contract_at_def code_hash_at_address_def t)
qed

definition demo_pallet :: "(unit, unit) evm_pallet" where
  "demo_pallet = \<lparr>pl_runner = demo_runner (Exit_Succeed Returned), pl_network_contract_origin = (\<lambda>org. org = Root),
     pl_network_contract_source = zero_address, pl_developer_deposit = 7, pl_deployment_fee = 3,
     pl_treasury_account = 0, pl_free_deployment_origin = (\<lambda>org. org = Root), pl_gas_to_weight = (\<lambda>g. g),
     pl_unreserve_and_charge_fee = (\<lambda>a w. okE (0, 0)), pl_refund_fee = (\<lambda>a w b. okE ()),
     pl_deposit_creating = (\<lambda>a b w. w)\<rparr>"

definition one_contract :: "unit evm_state" where
  "one_contract = empty_evm\<lparr>ev_accounts := (\<lambda>a. if a = replicate 20 2 then Some \<lparr>ac_nonce = 0, ac_contract_info =
     Some \<lparr>co_code_hash = replicate 32 9, co_maintainer = replicate 20 1, co_deployed = False\<rparr>, ac_developer_deposit = None\<rparr> else None)\<rparr>"

text \<open>A creation whose interpreter answers \<open>[1, 2, 3]\<close> and changes the state by \<open>G\<close>.\<close>

lemma demo_create:
  assumes env: "rn_env rn = demo_env" "rn_gas rn = free_gas"
    and interp: "\<And>hdl ctx code input f. rn_interpret rn hdl ctx code input f =
      ((Exit_Succeed Returned, [1, 2, 3]), f\<lparr>fr_state := G (cx_caller ctx) (cx_address ctx) (fr_state f)\<rparr>)"
  shows "\<exists>info t. create_at_address rn src init 0 a 2100000 100000 setheum_config s = (Inr info, t) \<and>
    on_contract_initialization demo_env a src [1, 2, 3] (inc_nonce a (G src a (inc_nonce src s))) = (Inr (), t)"
proof -
  let ?hdl = "\<lparr>hd_origin = src, hd_is_static = False, hd_config = setheum_config\<rparr>"
  let ?m = "(fresh_meter a 100000)\<lparr>m_total_used := 103, m_self_used := 103\<rparr>"
  have ran: "execute rn hdl src a v code input f = (Inr (Exit_Succeed Returned, [1, 2, 3]), f\<lparr>fr_state := G src a (fr_state f)\<rparr>)"
    for hdl v code input f
    by (simp add: execute_def interp)
  obtain u where u: "on_contract_initialization demo_env a src [1, 2, 3] (inc_nonce a (G src a (inc_nonce src s))) = (Inr (), u)"
    by (simp add: on_contract_initialization_def thenE_def bindE_def ensure_def okE_def modE_def Let_def demo_env_def)
  moreover have "er_new_contract_extra_bytes demo_env = 100" by (simp add: demo_env_def)
  ultimately obtain info where body: "create_body rn src a 0 init ?hdl \<lparr>fr_gas = (), fr_meters = [fresh_meter a 100000], fr_state = inc_nonce src s\<rparr> =
      (Inr (Inr info), \<lparr>fr_gas = (), fr_meters = [?m], fr_state = u\<rparr>)"
    by (simp add: create_body_def runner_transfer_def on_state_def on_gas_def on_meters_def zoomE_def thenE_def bindE_def map_errE_def
        okE_def getE_def modE_def env free_gas_def ensure_def is_succeed_def ran finish_create_def meter_charge_def meter_handle_def
        put_meter_def fresh_meter_def sat_add_def u32_max_def)
  have finish: "meter_finish (storage_meter_handler demo_env src) ([?m], w) = (Inr (), ([], w))" for w
    by (simp add: meter_finish_def fresh_meter_def thenE_def bindE_def ensure_def okE_def storage_meter_handler_def charge_storage_def
        unreserve_outwards_def on_handler_def zoomE_def unreserve_storage_def reaping_def getE_def modE_def inE_def demo_env_def Let_def
        sat_add_def u32_max_def)
  have new: "meter_new (storage_meter_handler demo_env src) a 100000 ([], w) = (Inr (), ([fresh_meter a 100000], w))" for w
    by (simp add: meter_new_def thenE_def bindE_def on_handler_def zoomE_def storage_meter_handler_def reserve_storage_def inE_def
        getE_def okE_def modE_def demo_env_def)
  have "create_at_address rn src init 0 a 2100000 100000 setheum_config s = (Inr info, u)"
    by (simp add: create_at_address_def inner_create_def run_transaction_def Let_def env new thenE_def bindE_def okE_def modE_def body finish
        free_gas_def)
  with u show ?thesis by blast
qed

lemma demo_runner_interpret: "rn_interpret (demo_runner (Exit_Succeed Returned)) hdl ctx code input f =
    ((Exit_Succeed Returned, [1, 2, 3]), f\<lparr>fr_state := (fr_state f)\<lparr>ev_storages := (\<lambda>a i. replicate 32 7)\<rparr>\<rparr>)"
  by (simp add: demo_runner_def)

theorem set_code_has_no_effect_witness:
  "\<not> isl (fst (set_code demo_pallet Root (replicate 20 2) [5, 5] one_contract)) \<and>
   map_option co_code_hash (contract_at (replicate 20 2) (snd (set_code demo_pallet Root (replicate 20 2) [5, 5] one_contract))) = Some (replicate 32 9)"
proof -
  have env: "rn_env (demo_runner (Exit_Succeed Returned)) = demo_env" "rn_gas (demo_runner (Exit_Succeed Returned)) = free_gas" "rn_env (pl_runner demo_pallet) = demo_env"
    by (simp_all add: demo_runner_def demo_pallet_def)
  note create = demo_create[OF env(1,2) demo_runner_interpret]
  have "\<exists>u. do_set_code demo_pallet None (replicate 20 2) [5, 5] one_contract = (Inr (), u)"
    using create[of zero_address "[5, 5]" "replicate 20 2" one_contract]
    by (auto simp: do_set_code_def mutate_account_def env one_contract_def demo_pallet_def bindE_def thenE_def okE_def ok_or_def ensure_def
        demo_env_def)
  then have "\<exists>t. set_code demo_pallet Root (replicate 20 2) [5, 5] one_contract = (Inr (), t)"
    by (auto simp: set_code_def)
  then obtain t where run: "set_code demo_pallet Root (replicate 20 2) [5, 5] one_contract = (Inr (), t)" by blast
  then show ?thesis
    using set_code_has_no_effect[OF run] by (simp add: one_contract_def contract_at_def)
qed

end
