(* ===== verification/Evm_Code.thy ===== *)
theory Evm_Code
  imports Evm_Properties
begin

text \<open>
  The reference counts of contract code. The operations of the EVM pallet and of its handler that
  create, remove or change contracts and accounts, and \<open>set_code\<close>, form a machine; as long as fewer than \<open>2 ^ 32\<close> of
  them ran, every code that a contract refers to is stored, under its hash and with a count that
  covers all contracts that use it. While \<open>set_code\<close> runs a constructor, the reference of the entry that
  \<open>Accounts::mutate\<close> will write back is promised; a constructor that destroys its own contract breaks the
  promise (\<open>set_code_can_lose_code\<close>).
\<close>

section \<open>Counting references\<close>

text \<open>The code hash of every contract.\<close>

definition code_map :: "'w evm_state \<Rightarrow> evm_address \<Rightarrow> h256 option" where
  "code_map s a = map_option co_code_hash (contract_at a s)"

definition users :: "(evm_address \<Rightarrow> h256 option) \<Rightarrow> h256 \<Rightarrow> evm_address set" where
  "users m h = {a. m a = Some h}"

text \<open>The stored code under a hash, its information and the contracts that use it fit together.\<close>

definition entry_ok :: "(u8 list \<Rightarrow> h256) \<Rightarrow> nat \<Rightarrow> nat \<Rightarrow> evm_address set \<Rightarrow> h256 \<Rightarrow> u8 list \<Rightarrow> code_info option \<Rightarrow> bool" where
  "entry_ok K j n us h code info =
     (case info of
        None \<Rightarrow> us = {} \<and> j = 0
      | Some ci \<Rightarrow> card us + j \<le> cd_ref_count ci \<and> 0 < cd_ref_count ci \<and> cd_ref_count ci \<le> n \<and>
                   K code = h \<and> cd_code_size ci = length code)"

text \<open>
  Besides the contracts, references may be promised: \<open>pm h\<close> is the number of references to \<open>h\<close> that
  are counted without a contract that uses them, as \<open>set_code\<close> has one while it runs.
\<close>

definition refs_ok :: "(u8 list \<Rightarrow> h256) \<Rightarrow> (h256 \<Rightarrow> nat) \<Rightarrow> nat \<Rightarrow> (evm_address \<Rightarrow> h256 option) \<Rightarrow> (h256 \<Rightarrow> u8 list) \<Rightarrow> (h256 \<Rightarrow> code_info option) \<Rightarrow> bool" where
  "refs_ok K pm n m cs infos \<longleftrightarrow> finite (dom m) \<and> (\<forall>h. entry_ok K (pm h) n (users m h) h (cs h) (infos h))"

definition code_ok :: "'w evm_env \<Rightarrow> (h256 \<Rightarrow> nat) \<Rightarrow> nat \<Rightarrow> 'w evm_state \<Rightarrow> bool" where
  "code_ok env pm n s \<longleftrightarrow> refs_ok (er_keccak env) pm n (code_map s) (ev_codes s) (ev_code_infos s)"

lemma users_finite: "finite (dom m) \<Longrightarrow> finite (users m h)"
  by (rule finite_subset[of _ "dom m"]) (auto simp: users_def)

lemma users_update: "users (m(a := v)) h = (if v = Some h then insert a (users m h) else users m h - {a})"
  by (auto simp: users_def)

lemma refs_okD:
  assumes "refs_ok K pm n m cs infos"
  shows "finite (dom m)" "finite (users m h)" "entry_ok K (pm h) n (users m h) h (cs h) (infos h)"
  using assms by (auto simp: refs_ok_def users_finite)

lemma refs_okI:
  "finite (dom m) \<Longrightarrow> (\<And>h. entry_ok K (pm h) n (users m h) h (cs h) (infos h)) \<Longrightarrow> refs_ok K pm n m cs infos"
  by (simp add: refs_ok_def)

lemma entry_ok_mono: "entry_ok K j n us h c i \<Longrightarrow> n \<le> k \<Longrightarrow> entry_ok K j k us h c i"
  by (auto simp: entry_ok_def split: option.splits)

lemma entry_ok_drop: "entry_ok K j n us h c i \<Longrightarrow> finite us \<Longrightarrow> entry_ok K j n (us - {a}) h c i"
  using card_mono[of us "us - {a}"] by (fastforce simp: entry_ok_def split: option.splits)

lemma refs_ok_mono: "refs_ok K pm n m cs infos \<Longrightarrow> n \<le> k \<Longrightarrow> refs_ok K pm k m cs infos"
  unfolding refs_ok_def by (blast intro: entry_ok_mono)

lemma refs_drop: "refs_ok K pm n m cs infos \<Longrightarrow> refs_ok K pm n (m(a := None)) cs infos"
  by (rule refs_okI) (auto simp: users_update intro!: entry_ok_drop dest: refs_okD)

lemma entry_ok_release:
  assumes ok: "entry_ok K j n us h (ev_codes s h) (ev_code_infos s h)" and us: "a \<in> us" "finite us"
  shows "entry_ok K j n (us - {a}) h (ev_codes (release_code h s) h) (ev_code_infos (release_code h s) h)"
proof -
  obtain ci where ci: "ev_code_infos s h = Some ci" and ref: "card us + j \<le> cd_ref_count ci" "cd_ref_count ci \<le> n"
      "K (ev_codes s h) = h" "cd_code_size ci = length (ev_codes s h)"
    using ok us by (auto simp: entry_ok_def split: option.splits)
  have count: "card (us - {a}) = card us - 1" "0 < card us" using us by (simp, metis card_gt_0_iff empty_iff)
  show ?thesis
  proof (cases "cd_ref_count ci - 1 = 0")
    case True
    then have "card (us - {a}) = 0" "j = 0" using ref count by linarith+
    then have "us - {a} = {}" "j = 0" using us by (metis card_0_eq finite_Diff)+
    then show ?thesis using True by (simp add: release_code_def ci entry_ok_def)
  next
    case False
    have "card (us - {a}) + j \<le> cd_ref_count ci - 1" "cd_ref_count ci - 1 \<le> n" using ref count by linarith+
    then show ?thesis using ref False by (simp add: release_code_def ci entry_ok_def)
  qed
qed

lemma release_other: "h' \<noteq> h \<Longrightarrow> ev_codes (release_code h s) h' = ev_codes s h'"
  "h' \<noteq> h \<Longrightarrow> ev_code_infos (release_code h s) h' = ev_code_infos s h'"
  by (auto simp: release_code_def split: option.splits)

lemma refs_release:
  assumes ok: "code_ok env pm n s" and a: "code_map s a = Some h"
  shows "refs_ok (er_keccak env) pm n ((code_map s)(a := None)) (ev_codes (release_code h s)) (ev_code_infos (release_code h s))"
proof (rule refs_okI)
  note okD = refs_okD[OF ok[unfolded code_ok_def]]
  show "finite (dom ((code_map s)(a := None)))" using okD(1) by simp
  show "entry_ok (er_keccak env) (pm h') n (users ((code_map s)(a := None)) h') h' (ev_codes (release_code h s) h')
      (ev_code_infos (release_code h s) h')" for h'
  proof (cases "h' = h")
    case True
    have "a \<in> users (code_map s) h" using a by (simp add: users_def)
    then show ?thesis using entry_ok_release[OF okD(3)] okD(2) True by (simp add: users_update)
  next
    case False
    then show ?thesis using entry_ok_drop[OF okD(3) okD(2)] by (simp add: users_update release_other)
  qed
qed

lemma retain_other: "h' \<noteq> h \<Longrightarrow> ev_codes (retain_code h c s) h' = ev_codes s h'"
  "h' \<noteq> h \<Longrightarrow> ev_code_infos (retain_code h c s) h' = ev_code_infos s h'"
  by (auto simp: retain_code_def split: option.splits)

lemma entry_ok_retain:
  assumes ok: "entry_ok K j n us (K code) (ev_codes s (K code)) (ev_code_infos s (K code))" and n: "n < u32_max"
  shows "entry_ok K j (Suc n) (insert a us) (K code) (ev_codes (retain_code (K code) code s) (K code))
    (ev_code_infos (retain_code (K code) code s) (K code))"
proof (cases "ev_code_infos s (K code)")
  case None
  then show ?thesis using ok by (simp add: retain_code_def entry_ok_def)
next
  case (Some ci)
  have "card (insert a us) \<le> Suc (card us)" by (rule card_insert_le_m1) simp_all
  moreover have "cd_ref_count ci < u32_max" using ok n by (simp add: Some entry_ok_def)
  ultimately show ?thesis using ok by (simp add: retain_code_def Some entry_ok_def)
qed

lemma refs_retain:
  assumes ok: "code_ok env pm n s" and n: "n < u32_max"
  shows "refs_ok (er_keccak env) pm (Suc n) ((code_map s)(a := Some (er_keccak env code)))
    (ev_codes (retain_code (er_keccak env code) code s)) (ev_code_infos (retain_code (er_keccak env code) code s))"
    (is "refs_ok ?K _ _ (?m(a := Some ?h)) ?c ?i")
proof (rule refs_okI)
  note okD = refs_okD[OF ok[unfolded code_ok_def]]
  show "finite (dom (?m(a := Some ?h)))" using okD(1) by simp
  show "entry_ok ?K (pm h) (Suc n) (users (?m(a := Some ?h)) h) h (?c h) (?i h)" for h
  proof (cases "h = ?h")
    case True
    then show ?thesis using entry_ok_retain[OF okD(3) n] by (simp add: users_update)
  next
    case False
    then show ?thesis
      using entry_ok_mono[OF entry_ok_drop[OF okD(3) okD(2)], of "Suc n"] by (simp add: users_update retain_other)
  qed
qed

section \<open>Operations keep the references\<close>

lemma code_map_put [simp]:
  "code_map (put_account a v s) = (code_map s)(a := map_option co_code_hash (Option.bind v ac_contract_info))"
  by (auto simp: code_map_def contract_at_def put_account_def)

lemma put_account_other [simp]: "ev_codes (put_account a v s) = ev_codes s" "ev_code_infos (put_account a v s) = ev_code_infos s"
  by (simp_all add: put_account_def)

lemma code_map_release [simp]: "code_map (release_code h s) = code_map s"
  by (auto simp: code_map_def contract_at_def release_code_def split: option.splits)

lemma code_map_retain [simp]: "code_map (retain_code h c s) = code_map s"
  by (auto simp: code_map_def contract_at_def retain_code_def split: option.splits)

lemma code_ok_same:
  "code_map t = code_map s \<Longrightarrow> ev_codes t = ev_codes s \<Longrightarrow> ev_code_infos t = ev_code_infos s \<Longrightarrow>
   code_ok env pm n t = code_ok env pm n s"
  by (simp add: code_ok_def)

lemma code_ok_put:
  assumes "code_ok env pm n s" "map_option co_code_hash (Option.bind v ac_contract_info) = code_map s a"
  shows "code_ok env pm n (put_account a v s)"
  using assms by (simp add: code_ok_def fun_upd_idem)

lemma code_ok_remove_account: "code_ok env pm n s \<Longrightarrow> code_ok env pm n (remove_account a s)"
proof (cases "contract_at a s")
  case None
  assume "code_ok env pm n s"
  then show ?thesis using None by (simp add: remove_account_def code_ok_def refs_drop)
next
  case (Some c)
  assume "code_ok env pm n s"
  moreover have "code_map s a = Some (co_code_hash c)" using Some by (simp add: code_map_def)
  ultimately show ?thesis using Some by (simp add: remove_account_def code_ok_def refs_release[unfolded code_ok_def])
qed

lemma code_ok_killed: "code_ok env pm n s \<Longrightarrow> code_ok env pm n (evm_killed_account env w who s)"
  by (simp add: evm_killed_account_def code_ok_remove_account split: option.split)

lemma code_ok_killed_all: "code_ok env pm n s \<Longrightarrow> code_ok env pm n (fold (evm_killed_account env w) ks s)"
  by (induction ks arbitrary: s) (simp_all add: code_ok_killed)

lemma code_ok_world [simp]: "code_ok env pm n (s\<lparr>ev_world := w\<rparr>) = code_ok env pm n s"
  by (rule code_ok_same) (simp_all add: code_map_def contract_at_def fun_eq_iff)

lemma code_ok_events [simp]: "code_ok env pm n (s\<lparr>ev_events := es\<rparr>) = code_ok env pm n s"
  by (rule code_ok_same) (simp_all add: code_map_def contract_at_def fun_eq_iff)

lemma keeps_inE [keeps]: "preserves (code_ok env pm n) (inE m)"
  by (simp add: preserves_def inE_def zoomE_def split: prod.split)

lemma keeps_reaping [keeps]: "preserves (code_ok env pm n) (reaping env m)"
  unfolding reaping_def by (auto intro!: keeps keeps_modE code_ok_killed_all split: prod.split)

lemma keeps_event [keeps]: "preserves (code_ok env pm n) (evm_deposit_event ev)"
  unfolding evm_deposit_event_def by (rule keeps_modE) simp

text \<open>
  A contract holds a provider reference of its account, so that moving the balances away reaps
  nobody.
\<close>

definition keeps_contracts_alive :: "'w evm_env \<Rightarrow> bool" where
  "keeps_contracts_alive env \<longleftrightarrow> (\<forall>a b w ks w'. er_transfer_all env a b w = (Inr ((), ks), w') \<longrightarrow> ks = [])"

lemma transfer_all_world:
  assumes "keeps_contracts_alive env" "reaping env (er_transfer_all env a b) s = (Inr u, t)"
  obtains w where "t = s\<lparr>ev_world := w\<rparr>"
proof -
  obtain ks w where pay: "er_transfer_all env a b (ev_world s) = (Inr ((), ks), w)"
    and t: "t = fold (evm_killed_account env (ev_world s)) ks (s\<lparr>ev_world := w\<rparr>)"
    using assms(2) by (auto simp: reaping_def inE_def zoomE_def bindE_def thenE_def getE_def modE_def okE_def
      split: prod.splits sum.splits)
  have "ks = []" using assms(1) pay unfolding keeps_contracts_alive_def by blast
  then show ?thesis using t that by simp
qed

lemma keeps_put_account:
  "(\<And>s. code_ok env pm n s \<Longrightarrow> map_option co_code_hash (Option.bind v ac_contract_info) = code_map s a) \<Longrightarrow>
   preserves (code_ok env pm n) (modE (put_account a v))"
  by (rule keeps_modE) (auto intro: code_ok_put)

lemma code_ok_clear: "code_ok env pm n (s\<lparr>ev_storages := x\<rparr>) = code_ok env pm n s" "code_ok env pm n (s\<lparr>ev_storage_sizes := y\<rparr>) = code_ok env pm n s"
  by (rule code_ok_same; simp add: code_map_def contract_at_def fun_eq_iff)+

lemma code_map_world [simp]: "code_map (s\<lparr>ev_world := w\<rparr>) = code_map s"
  "code_map (s\<lparr>ev_storages := x\<rparr>) = code_map s" "code_map (s\<lparr>ev_storage_sizes := y\<rparr>) = code_map s"
  by (simp_all add: code_map_def contract_at_def fun_eq_iff)

text \<open>What \<open>remove_contract\<close> has done before it gives up the reference to the account.\<close>

definition contract_removed :: "evm_address \<Rightarrow> account_info \<Rightarrow> h256 \<Rightarrow> 'w evm_state \<Rightarrow> 'w evm_state" where
  "contract_removed a info h s = put_account a (Some (info\<lparr>ac_contract_info := None\<rparr>))
     ((release_code h s)\<lparr>ev_storages := (ev_storages (release_code h s))(a := (\<lambda>i. zero_h256)),
        ev_storage_sizes := (ev_storage_sizes (release_code h s))(a := 0)\<rparr>)"

lemma code_ok_contract_removed:
  assumes "code_ok env pm n s" "code_map s a = Some h"
  shows "code_ok env pm n (contract_removed a info h s)"
  using refs_release[OF assms] by (simp add: contract_removed_def code_ok_def)

lemma keeps_remove_contract:
  assumes "keeps_contracts_alive env"
  shows "preserves (code_ok env pm n) (remove_contract env a dest)"
  unfolding remove_contract_def
proof (rule keeps_transactional_ok)
  fix s x t
  assume ok: "code_ok env pm n s" and run: "bindE (getE (\<lambda>s. (account_at env a s, account_at env dest s, ev_accounts s a)))
       (\<lambda>(address_account, dest_account, maybe_account).
     bindE (ok_or maybe_account (evE ContractNotFound)) (\<lambda>info.
     bindE (ok_or (ac_contract_info info) (evE ContractNotFound)) (\<lambda>contract.
     thenE (reaping env (er_transfer_all env address_account dest_account)) (
     thenE (modE (release_code (co_code_hash contract))) (
     thenE (modE (\<lambda>s. s\<lparr>ev_storages := (ev_storages s)(a := (\<lambda>i. zero_h256))\<rparr>)) (
     bindE (getE (\<lambda>s. ev_storage_sizes s a)) (\<lambda>size.
     thenE (modE (\<lambda>s. s\<lparr>ev_storage_sizes := (ev_storage_sizes s)(a := 0)\<rparr>)) (
     thenE (modE (put_account a (Some (info\<lparr>ac_contract_info := None\<rparr>)))) (
     thenE (reaping env (er_dec_providers env address_account))
       (okE size)))))))))) s = (Inr x, t)"
  obtain info c u where info: "ev_accounts s a = Some info" and c: "ac_contract_info info = Some c"
    and pay: "reaping env (er_transfer_all env (account_at env a s) (account_at env dest s)) s = (Inr (), u)"
    and dec: "reaping env (er_dec_providers env (account_at env a s)) (contract_removed a info (co_code_hash c) u) = (Inr (), t)"
    using run by (auto simp: contract_removed_def)
  obtain w where u: "u = s\<lparr>ev_world := w\<rparr>" by (rule transfer_all_world[OF assms pay])
  have "code_map s a = Some (co_code_hash c)" using info c by (simp add: code_map_def contract_at_def)
  then have "code_ok env pm n (contract_removed a info (co_code_hash c) u)"
    using ok by (intro code_ok_contract_removed) (simp_all add: u)
  then show "code_ok env pm n t" by (rule preservesD[OF keeps_reaping _ dec])
qed

lemma code_map_contract: "ev_accounts s a = Some info \<Longrightarrow> code_map s a = map_option co_code_hash (ac_contract_info info)"
  by (simp add: code_map_def contract_at_def)

lemma keeps_transfer_maintainer: "preserves (code_ok env pm n) (do_transfer_maintainer env who a m)"
proof (rule preservesI)
  fix s r t
  assume ok: "code_ok env pm n s" and run: "do_transfer_maintainer env who a m s = (r, t)"
  show "code_ok env pm n t"
  proof (cases r)
    case (Inl e)
    then have "t = s" using run by (auto simp: do_transfer_maintainer_def eff_defs split: option.splits if_splits)
    then show ?thesis using ok by simp
  next
    case (Inr u)
    then obtain info c where "ev_accounts s a = Some info" "ac_contract_info info = Some c"
      "t = put_account a (Some (info\<lparr>ac_contract_info := Some (c\<lparr>co_maintainer := m\<rparr>)\<rparr>)) s"
      using run by (auto simp: do_transfer_maintainer_def)
    then show ?thesis using ok by (simp add: code_ok_put code_map_contract)
  qed
qed

lemma keeps_mark_deployed: "preserves (code_ok env pm n) (mark_deployed a m)"
proof (rule preservesI)
  fix s r t
  assume ok: "code_ok env pm n s" and run: "mark_deployed a m s = (r, t)"
  show "code_ok env pm n t"
  proof (cases r)
    case (Inl e)
    then have "t = s" using run by (auto simp: mark_deployed_def eff_defs split: option.splits if_splits prod.splits)
    then show ?thesis using ok by simp
  next
    case (Inr u)
    then obtain info c where "ev_accounts s a = Some info" "ac_contract_info info = Some c"
      "t = put_account a (Some (info\<lparr>ac_contract_info := Some (c\<lparr>co_deployed := True\<rparr>)\<rparr>)) s"
      using run by (auto simp: mark_deployed_def bind_eq_Some_conv)
    then show ?thesis using ok by (simp add: code_ok_put code_map_contract)
  qed
qed

lemma keeps_selfdestruct:
  "keeps_contracts_alive env \<Longrightarrow> preserves (code_ok env pm n) (do_selfdestruct env who m a)"
  unfolding do_selfdestruct_def by (intro keeps keeps_remove_contract)

lemma code_ok_inc_nonce: "code_ok env pm n s \<Longrightarrow> code_ok env pm n (inc_nonce a s)"
  by (auto simp: inc_nonce_def account_info_new_def code_map_def contract_at_def intro!: code_ok_put split: option.split)

text \<open>Enabling and disabling the development of contracts writes back the entry it read.\<close>

lemma code_ok_deposit:
  assumes "code_ok env pm n s" "info = unwrap_or (ev_accounts s a) (account_info_new 0 None)"
  shows "code_ok env pm n (put_account a (Some (info\<lparr>ac_developer_deposit := d\<rparr>)) s)"
  using assms by (auto simp: account_info_new_def code_map_def contract_at_def intro!: code_ok_put split: option.split)

lemma keeps_evm_address_of [keeps]: "preserves (code_ok env pm n) (evm_address_of cfg who)"
  by (simp add: preserves_def evm_address_of_def split: prod.split)

lemma code_ok_enabled:
  assumes "evm_address_of cfg who s = (Inr a, u1)" "inE m u1 = (Inr x, u2)" "code_ok env pm n s"
  shows "code_ok env pm n (put_account a (Some ((unwrap_or (ev_accounts u2 a) (account_info_new 0 None))\<lparr>ac_developer_deposit := d\<rparr>)) u2)"
  using preservesD[OF keeps_inE preservesD[OF keeps_evm_address_of assms(3,1)] assms(2)] by (rule code_ok_deposit) simp

lemma keeps_enable: "preserves (code_ok (pl_env cfg) pm n) (enable_contract_development cfg org)"
  unfolding enable_contract_development_def
proof (rule keeps_transactional_ok, goal_cases)
  case (1 s x t)
  then show ?case by (auto intro: code_ok_enabled)
qed

lemma keeps_disable: "preserves (code_ok (pl_env cfg) pm n) (disable_contract_development cfg org)"
  unfolding disable_contract_development_def
proof (rule keeps_transactional_ok, goal_cases)
  case (1 s x t)
  then obtain who a info w es where info: "ev_accounts s a = Some info"
    and t: "t = (put_account a (Some (info\<lparr>ac_developer_deposit := None\<rparr>)) s)\<lparr>ev_world := w, ev_events := es\<rparr>"
    by (cases org) (auto simp: ensure_signed_def mapped_address_def evm_deposit_event_def)
  have "code_ok (pl_env cfg) pm n (put_account a (Some (info\<lparr>ac_developer_deposit := None\<rparr>)) s)"
    using 1(1) info by (intro code_ok_deposit) simp_all
  then show ?case by (simp add: t)
qed

text \<open>What a successful initialization leaves of codes and contracts.\<close>

lemma initialized_codes:
  assumes "on_contract_initialization env a m code s = (Inr (), t)"
  shows "code_map t = (code_map s)(a := Some (er_keccak env code)) \<and>
    ev_codes t = ev_codes (retain_code (er_keccak env code) code s) \<and> ev_code_infos t = ev_code_infos (retain_code (er_keccak env code) code s)"
proof -
  define s1 where "s1 = update_contract_storage_size a (sint (word_of_nat (sat_add u32_max (length code) (er_new_contract_extra_bytes env)) :: u32)) s"
  have same: "code_map s1 = code_map s" "ev_codes s1 = ev_codes s" "ev_code_infos s1 = ev_code_infos s"
    by (simp_all add: s1_def update_contract_storage_size_def Let_def)
  let ?contract = "\<lparr>co_code_hash = er_keccak env code, co_maintainer = m, co_deployed = er_ethereum_compatibility env\<rparr>"
  define info where "info = (case ev_accounts (retain_code (er_keccak env code) code s1) a of
      Some i \<Rightarrow> i\<lparr>ac_contract_info := Some ?contract\<rparr> | None \<Rightarrow> account_info_new 0 (Some ?contract))"
  define u where "u = put_account a (Some info) (retain_code (er_keccak env code) code s1)"
  have c: "ac_contract_info info = Some ?contract"
    by (simp add: info_def account_info_new_def split: option.split)
  have t: "t = u\<lparr>ev_world := er_inc_providers env (account_at env a u) (ev_world u)\<rparr>"
    using assms by (auto simp: on_contract_initialization_def Let_def s1_def[symmetric] info_def[symmetric] u_def[symmetric]
        thenE_def bindE_def ensure_def okE_def failE_def modE_def split: if_splits)
  have "ev_codes (retain_code h code s1) = ev_codes (retain_code h code s)" "ev_code_infos (retain_code h code s1) = ev_code_infos (retain_code h code s)" for h
    using same by (simp_all add: retain_code_def split: option.split)
  then show ?thesis using c same(1) by (simp add: t u_def)
qed

lemma initialize_fails: "on_contract_initialization env a m code s = (Inl e, t) \<Longrightarrow> t = s"
  by (simp add: on_contract_initialization_def Let_def thenE_def bindE_def ensure_def okE_def failE_def modE_def split: if_splits)

lemma code_ok_initialize:
  assumes ok: "code_ok env pm n s" and n: "n < u32_max" and run: "on_contract_initialization env a m code s = (r, t)"
  shows "code_ok env pm (Suc n) t"
proof (cases r)
  case (Inl e)
  then have "t = s" using run initialize_fails by blast
  then show ?thesis using ok refs_ok_mono[of _ _ n _ _ _ "Suc n"] by (simp add: code_ok_def)
next
  case (Inr u)
  then show ?thesis using initialized_codes[of env a m code s t] refs_retain[OF ok n, of a code] run by (simp add: code_ok_def)
qed

section \<open>The machine\<close>

text \<open>
  The operations that touch contracts or codes, as the dispatchables, the handler of the
  interpreter and the system run them.
\<close>

datatype code_op =
    Initialize evm_address evm_address "u8 list"
  | Remove evm_address evm_address
  | Killed account_id
  | Maintain account_id evm_address evm_address
  | Deploy evm_address "evm_address option"
  | Count_nonce evm_address
  | Destruct account_id evm_address evm_address
  | Enable_development origin
  | Disable_development origin
  | Pay evm_address evm_address balance

definition code_step :: "('w, 'g) evm_pallet \<Rightarrow> code_op \<Rightarrow> 'w evm_state \<Rightarrow> 'w evm_state" where
  "code_step cfg op s = (let env = pl_env cfg in case op of
     Initialize a m code \<Rightarrow> snd (on_contract_initialization env a m code s)
   | Remove a dest \<Rightarrow> snd (remove_contract env a dest s)
   | Killed who \<Rightarrow> evm_killed_account env (ev_world s) who s
   | Maintain who a m \<Rightarrow> snd (do_transfer_maintainer env who a m s)
   | Deploy a m \<Rightarrow> snd (mark_deployed a m s)
   | Count_nonce a \<Rightarrow> inc_nonce a s
   | Destruct who m a \<Rightarrow> snd (do_selfdestruct env who m a s)
   | Enable_development org \<Rightarrow> snd (enable_contract_development cfg org s)
   | Disable_development org \<Rightarrow> snd (disable_contract_development cfg org s)
   | Pay a b v \<Rightarrow> snd (runner_transfer (pl_runner cfg) a b v s))"

lemma keeps_runner_transfer: "preserves (code_ok (rn_env rn) pm n) (runner_transfer rn a b v)"
  unfolding runner_transfer_def by (intro keeps)

lemma code_ok_mono: "code_ok env pm n s \<Longrightarrow> n \<le> k \<Longrightarrow> code_ok env pm k s"
  unfolding code_ok_def by (rule refs_ok_mono)

lemma preserves_snd: "preserves P m \<Longrightarrow> P s \<Longrightarrow> P (snd (m s))"
  by (simp add: preserves_def)

lemmas code_step_keeps = preserves_snd[OF keeps_transfer_maintainer] preserves_snd[OF keeps_mark_deployed]
  preserves_snd[OF keeps_enable] preserves_snd[OF keeps_disable] preserves_snd[OF keeps_runner_transfer]
  preserves_snd[OF keeps_remove_contract] preserves_snd[OF keeps_selfdestruct] code_ok_inc_nonce code_ok_killed

lemma code_step_ok:
  assumes "keeps_contracts_alive (pl_env cfg)" "code_ok (pl_env cfg) pm n s" "n < u32_max"
  shows "code_ok (pl_env cfg) pm (Suc n) (code_step cfg op s)"
proof (cases op)
  case (Initialize a m code)
  obtain r t where run: "on_contract_initialization (pl_env cfg) a m code s = (r, t)" by fastforce
  show ?thesis using code_ok_initialize[OF assms(2,3) run] run by (simp add: code_step_def Initialize)
qed (rule code_ok_mono[of _ _ n], insert assms(1,2), simp add: code_step_def code_step_keeps, simp)+

definition code_steps :: "('w, 'g) evm_pallet \<Rightarrow> code_op list \<Rightarrow> 'w evm_state \<Rightarrow> 'w evm_state" where
  "code_steps cfg ops s = fold (code_step cfg) ops s"

lemma code_steps_ok:
  assumes "keeps_contracts_alive (pl_env cfg)"
  shows "code_ok (pl_env cfg) pm n s \<Longrightarrow> n + length ops \<le> u32_max \<Longrightarrow> code_ok (pl_env cfg) pm (n + length ops) (code_steps cfg ops s)"
proof (induction ops arbitrary: n s)
  case Nil
  then show ?case by (simp add: code_steps_def)
next
  case (Cons op ops)
  then have "code_ok (pl_env cfg) pm (Suc n) (code_step cfg op s)" by (intro code_step_ok assms) simp_all
  from Cons.IH[OF this] show ?case using Cons.prems(2) by (simp add: code_steps_def)
qed

section \<open>Setting code\<close>

text \<open>
  What is assumed of a constructor that \<open>set_code\<close> runs: the interpreter changes contracts and codes
  only by at most \<open>k\<close> of the operations above, and the contract at whose address it runs has the
  code hash it had (it did not destroy itself).
\<close>

definition same_codes :: "'w evm_state \<Rightarrow> 'w evm_state \<Rightarrow> bool" where
  "same_codes s t \<longleftrightarrow> code_map t = code_map s \<and> ev_codes t = ev_codes s \<and> ev_code_infos t = ev_code_infos s"

definition tame_constructor :: "('w, 'g) evm_pallet \<Rightarrow> nat \<Rightarrow> u8 list \<Rightarrow> bool" where
  "tame_constructor cfg k code \<longleftrightarrow> (\<forall>hdl ctx input f.
     code_map (fr_state (snd (rn_interpret (pl_runner cfg) hdl ctx code input f))) (cx_address ctx) = code_map (fr_state f) (cx_address ctx) \<and>
     (\<exists>ops. length ops \<le> k \<and> same_codes (code_steps cfg ops (fr_state f)) (fr_state (snd (rn_interpret (pl_runner cfg) hdl ctx code input f)))))"

text \<open>The new code takes the place of the old one, whose reference is then promised.\<close>

definition promise :: "h256 \<Rightarrow> (h256 \<Rightarrow> nat) \<Rightarrow> h256 \<Rightarrow> nat" where
  "promise h pm = pm(h := Suc (pm h))"

lemma entry_ok_promise: "entry_ok K j n us h c i \<Longrightarrow> a \<in> us \<Longrightarrow> finite us \<Longrightarrow> entry_ok K (Suc j) n (us - {a}) h c i"
  using card_Suc_Diff1[of us a] by (auto simp: entry_ok_def split: option.splits)

lemma entry_ok_redeem: "entry_ok K (Suc j) n us h c i \<Longrightarrow> finite us \<Longrightarrow> entry_ok K j n (insert a us) h c i"
  using card_insert_le_m1[of "Suc (card us)" us a] by (auto simp: entry_ok_def split: option.splits)

lemma entry_ok_retain_promise:
  assumes "entry_ok K j n us (K code) (ev_codes s (K code)) (ev_code_infos s (K code))" "n < u32_max" "a \<in> us" "finite us"
  shows "entry_ok K (Suc j) (Suc n) us (K code) (ev_codes (retain_code (K code) code s) (K code)) (ev_code_infos (retain_code (K code) code s) (K code))"
proof (cases "ev_code_infos s (K code)")
  case None
  then show ?thesis using assms by (simp add: entry_ok_def)
next
  case (Some ci)
  have "cd_ref_count ci < u32_max" using assms by (simp add: Some entry_ok_def)
  then show ?thesis using assms by (simp add: retain_code_def Some entry_ok_def)
qed

lemma refs_replace:
  assumes ok: "code_ok env pm n s" and n: "n < u32_max" and a: "code_map s a = Some h0"
  shows "refs_ok (er_keccak env) (promise h0 pm) (Suc n) ((code_map s)(a := Some (er_keccak env code)))
    (ev_codes (retain_code (er_keccak env code) code s)) (ev_code_infos (retain_code (er_keccak env code) code s))"
    (is "refs_ok ?K _ _ (?m(a := Some ?h)) ?c ?i")
proof (rule refs_okI)
  note okD = refs_okD[OF ok[unfolded code_ok_def]]
  have in_h0: "a \<in> users ?m h0" using a by (simp add: users_def)
  show "finite (dom (?m(a := Some ?h)))" using okD(1) by simp
  show "entry_ok ?K (promise h0 pm h) (Suc n) (users (?m(a := Some ?h)) h) h (?c h) (?i h)" for h
  proof (cases "h = ?h"; cases "h = h0")
    assume h: "h = ?h" "h = h0"
    then have "users (?m(a := Some ?h)) h = users ?m h" using in_h0 by (auto simp: users_update)
    then show ?thesis using entry_ok_retain_promise[OF okD(3) n _ okD(2)] in_h0 h by (simp add: promise_def)
  next
    assume "h = ?h" "h \<noteq> h0"
    then show ?thesis using entry_ok_retain[OF okD(3) n] by (simp add: users_update promise_def)
  next
    assume h: "h \<noteq> ?h" "h = h0"
    then show ?thesis
      using entry_ok_mono[OF entry_ok_promise[OF okD(3) in_h0[folded h(2)] okD(2)], of "Suc n"] by (simp add: users_update retain_other promise_def)
  next
    assume "h \<noteq> ?h" "h \<noteq> h0"
    then show ?thesis
      using entry_ok_mono[OF entry_ok_drop[OF okD(3) okD(2)], of "Suc n"] by (simp add: users_update retain_other promise_def)
  qed
qed

lemma code_ok_redeem:
  assumes ok: "code_ok env (promise h0 pm) n s" and v: "map_option co_code_hash (Option.bind v ac_contract_info) = Some h0"
  shows "code_ok env pm n (put_account a v s)"
proof -
  note okD = refs_okD[OF ok[unfolded code_ok_def]]
  have "refs_ok (er_keccak env) pm n ((code_map s)(a := Some h0)) (ev_codes s) (ev_code_infos s)"
  proof (rule refs_okI)
    show "finite (dom ((code_map s)(a := Some h0)))" using okD(1) by simp
    show "entry_ok (er_keccak env) (pm h) n (users ((code_map s)(a := Some h0)) h) h (ev_codes s h) (ev_code_infos s h)" for h
    proof (cases "h = h0")
      case True
      then show ?thesis using entry_ok_redeem[OF okD(3)[of h0, unfolded promise_def fun_upd_same] okD(2)] by (simp add: users_update)
    next
      case False
      then have "promise h0 pm h = pm h" by (simp add: promise_def)
      then show ?thesis using entry_ok_drop[OF okD(3) okD(2), of h] False by (simp add: users_update)
    qed
  qed
  then show ?thesis unfolding code_ok_def code_map_put v by simp
qed

lemma on_state_run: "on_state m f = (Inr x, f') \<Longrightarrow> m (fr_state f) = (Inr x, fr_state f')"
  by (auto simp: on_state_def zoomE_def split: prod.splits)

lemma on_gas_state: "on_gas m f = (r, f') \<Longrightarrow> fr_state f' = fr_state f"
  by (auto simp: on_gas_def zoomE_def split: prod.splits)

lemma charge_state: "on_meters (meter_charge n) f = (r, f') \<Longrightarrow> fr_state f' = fr_state f"
  by (auto simp: on_meters_def zoomE_def meter_charge_def meter_handle_def put_meter_def modE_def split: prod.splits list.splits sum.splits)

lemma execute_state:
  assumes "execute rn hdl caller a v code input f = (r, f')"
  shows "fr_state f' = fr_state (snd (rn_interpret rn hdl \<lparr>cx_caller = caller, cx_address = a, cx_apparent_value = v\<rparr> code input f))"
  using assms by (auto simp: execute_def split: prod.splits exit_reason.splits)

text \<open>A successful creation without a value: the constructor runs, then its contract is initialized.\<close>

lemma create_body_run:
  assumes "create_body rn source a 0 code hdl f = (Inr r, f')"
  obtains out m ctx f1 where "cx_address ctx = a"
    "on_contract_initialization (rn_env rn) a m out (inc_nonce a (fr_state (snd (rn_interpret rn hdl ctx code [] f1)))) = (Inr (), fr_state f')"
    "fr_state f1 = fr_state f"
proof -
  obtain f1 f2 f3 f4 f5 f6 g reason out x where steps: "on_state (runner_transfer rn source a 0) f = (Inr (), f1)"
      "on_gas (g_record_transaction (rn_gas rn) code) f1 = (Inr (), f2)"
      "execute rn hdl source a 0 code [] f2 = (Inr (reason, out) :: (dispatch_error + create_info) + _, f3)"
      "on_gas (g_record_deposit (rn_gas rn) (length out)) f3 = (Inr (), f4)"
      "on_state (modE (inc_nonce a)) f4 = (Inr () :: (dispatch_error + create_info) + _, f5)"
      "on_meters (meter_charge x) f5 = (Inr (), f6)"
      "on_state (on_contract_initialization (rn_env rn) a source out) f6 = (Inr (), f')"
    using assms by (auto simp: create_body_def finish_create_def)
  have "fr_state f1 = fr_state f" using on_state_run[OF steps(1)] by (simp add: runner_transfer_def okE_def)
  then have f2: "fr_state f2 = fr_state f" using on_gas_state[OF steps(2)] by simp
  have "fr_state f6 = inc_nonce a (fr_state f3)"
    using charge_state[OF steps(6)] on_state_run[OF steps(5)] on_gas_state[OF steps(4)] by (simp add: modE_def)
  with on_state_run[OF steps(7)] execute_state[OF steps(3)] f2 show thesis
    by (intro that[of "\<lparr>cx_caller = source, cx_address = a, cx_apparent_value = 0\<rparr>" source out f2]) simp_all
qed

text \<open>The end of the outermost meter moves balances, and may reap accounts.\<close>

lemma keeps_charge_storage: "preserves (code_ok env pm n) (charge_storage env origin a used refunded)"
  unfolding charge_storage_def Let_def by (intro keeps keeps_modE) simp_all

lemma charge_outwards_keeps:
  assumes "\<And>a x y. preserves P (h_charge_storage h a x y)"
  shows "P w \<Longrightarrow> P (snd (snd (charge_outwards h a x y (ms, w))))"
proof (induction ms arbitrary: w)
  case Nil
  then show ?case using assms[of a x y] by (simp add: preserves_snd split: prod.split) (metis preserves_snd snd_conv)
next
  case (Cons m ms)
  then show ?case using Cons.IH[of w] by (cases "charge_outwards h a x y (ms, w)") (simp split: sum.split prod.split)
qed

lemma meter_finish_keeps:
  assumes "code_ok env pm n (snd msw)" "meter_finish (storage_meter_handler env origin) msw = (Inr (), (ms, t))"
  shows "code_ok env pm n t"
proof -
  let ?h = "storage_meter_handler env origin"
  obtain m rest w where w: "msw = (m # rest, w)"
    using assms(2) by (cases msw; cases "fst msw") (auto simp: meter_finish_def)
  obtain ms1 t1 x y z where charged: "charge_outwards ?h (m_contract m) (m_self_used m) (m_self_refunded m) (rest, w) = (Inr (), (ms1, t1))"
    and final: "unreserve_outwards ?h x y z (ms1, t1) = (Inr (), (ms, t))"
    using assms(2) by (auto simp: w meter_finish_def split: sum.splits)
  have "code_ok env pm n t1"
    using charge_outwards_keeps[of "code_ok env pm n" ?h w, OF _ ] assms(1) charged keeps_charge_storage
    by (metis snd_conv storage_handler.select_convs(3) storage_meter_handler_def w)
  moreover have "preserves (code_ok env pm n) (unreserve_storage env origin x y z)"
    unfolding unreserve_storage_def Let_def by (intro keeps keeps_modE) simp
  ultimately show ?thesis
    using final by (auto simp: unreserve_outwards_def on_handler_def zoomE_def storage_meter_handler_def preserves_def okE_def
        split: prod.splits if_splits)
qed

lemma code_map_inc_nonce: "code_map (inc_nonce a s) = code_map s" "ev_codes (inc_nonce a s) = ev_codes s" "ev_code_infos (inc_nonce a s) = ev_code_infos s"
  by (auto simp: inc_nonce_def account_info_new_def code_map_def contract_at_def put_account_def fun_eq_iff split: option.split)

lemma meter_new_codes:
  assumes "meter_new (storage_meter_handler env origin) a limit ([], s) = (Inr (), (ms, t))"
  shows "same_codes s t"
  using assms by (auto simp: meter_new_def on_handler_def zoomE_def storage_meter_handler_def reserve_storage_def inE_def same_codes_def
      thenE_def bindE_def getE_def okE_def modE_def split: prod.splits sum.splits if_splits)

lemma transaction_run:
  assumes "run_transaction rn origin gl limit a st conf body s = (Inr r, t)"
  obtains "t = s"
  | hdl f f' ms ms' where "same_codes s (fr_state f)" "body hdl f = (Inr r, f')"
      "meter_finish (storage_meter_handler (rn_env rn) origin) (ms, fr_state f') = (Inr (), (ms', t))"
proof -
  let ?h = "storage_meter_handler (rn_env rn) origin" and ?hdl = "\<lparr>hd_origin = origin, hd_is_static = st, hd_config = conf\<rparr>"
  obtain ms s1 where new: "meter_new ?h a limit ([], s) = (Inr (), (ms, s1))"
    using assms by (auto simp: run_transaction_def Let_def split: prod.splits sum.splits)
  define f where "f = \<lparr>fr_gas = g_new (rn_gas rn) gl conf, fr_meters = ms, fr_state = s1\<rparr>"
  obtain q f' where body: "body ?hdl f = (q, f')" by fastforce
  show thesis
  proof (cases q)
    case (Inl e)
    then show ?thesis using assms new body by (intro that(1)) (simp add: run_transaction_def Let_def f_def)
  next
    case (Inr x)
    then obtain ms' where "x = r" "meter_finish ?h (fr_meters f', fr_state f') = (Inr (), (ms', t))"
      using assms new body by (auto simp: run_transaction_def Let_def f_def split: prod.splits sum.splits)
    then show ?thesis using meter_new_codes[OF new] body Inr by (intro that(2)[of f ?hdl f']) (simp_all add: f_def)
  qed
qed

lemma same_codes_ok: "same_codes s t \<Longrightarrow> code_ok env pm n t = code_ok env pm n s"
  by (simp add: same_codes_def code_ok_def)

lemma create_keeps:
  assumes alive: "keeps_contracts_alive (pl_env cfg)" and tame: "tame_constructor cfg k code"
    and ok: "code_ok (pl_env cfg) pm n s" and n: "n + k < u32_max" and a: "code_map s a = Some h0"
    and run: "create_at_address (pl_runner cfg) source code 0 a gl sl conf s = (Inr info, t)"
  shows "code_ok (pl_env cfg) (promise h0 pm) (n + Suc k) t \<or> code_ok (pl_env cfg) pm (n + Suc k) t \<and> code_map t a = Some h0"
proof -
  let ?rn = "pl_runner cfg"
  define s1 where "s1 = inc_nonce source s"
  have s1: "code_ok (pl_env cfg) pm n s1" "code_map s1 a = Some h0"
    using ok a by (simp_all add: s1_def code_ok_inc_nonce code_map_inc_nonce)
  have "run_transaction ?rn source gl sl a False conf (create_body ?rn source a 0 code) s1 = (Inr (Inr info), t)"
  proof -
    obtain x where x: "run_transaction ?rn source gl sl a False conf (create_body ?rn source a 0 code) s1 = (Inr x, t)"
      and "(case x of Inl e \<Rightarrow> failE e | Inr i \<Rightarrow> okE i) t = (Inr info, t)"
      using run by (auto simp: create_at_address_def inner_create_def s1_def) (metis failE_run okE_run sum.case sum.exhaust)
    then show ?thesis by (cases x) simp_all
  qed
  then show ?thesis
  proof (cases rule: transaction_run)
    case 1
    then show ?thesis using s1 code_ok_mono[of _ pm n s1 "n + Suc k"] by simp
  next
    case (2 hdl f f' ms ms')
    obtain out m ctx f1 where ctx: "cx_address ctx = a" and f1: "fr_state f1 = fr_state f"
      and init: "on_contract_initialization (rn_env ?rn) a m out (inc_nonce a (fr_state (snd (rn_interpret ?rn hdl ctx code [] f1)))) = (Inr (), fr_state f')"
      by (rule create_body_run[OF 2(2)])
    define u where "u = fr_state (snd (rn_interpret ?rn hdl ctx code [] f1))"
    obtain ops where ops: "length ops \<le> k" "same_codes (code_steps cfg ops (fr_state f1)) u" and u: "code_map u a = code_map (fr_state f1) a"
      using tame ctx unfolding tame_constructor_def u_def by blast
    have "code_ok (pl_env cfg) pm n (fr_state f1)" "code_map u a = Some h0"
      using s1 2(1) u f1 by (simp_all add: same_codes_ok) (simp add: same_codes_def)
    then have "code_ok (pl_env cfg) pm (n + length ops) u"
      using code_steps_ok[OF alive, of pm n "fr_state f1" ops] ops n by (simp add: same_codes_ok)
    then have iu: "code_ok (pl_env cfg) pm (n + k) (inc_nonce a u)" "code_map (inc_nonce a u) a = Some h0"
      using code_ok_mono ops(1) \<open>code_map u a = Some h0\<close> by (auto intro!: code_ok_inc_nonce simp: code_map_inc_nonce intro: code_ok_mono[of _ _ "n + length ops"])
    have "code_ok (pl_env cfg) (promise h0 pm) (Suc (n + k)) (fr_state f')"
      using refs_replace[OF iu(1) n iu(2), of out] initialized_codes[OF init[folded u_def]] by (simp add: code_ok_def)
    then show ?thesis using meter_finish_keeps[OF _ 2(3)] by simp
  qed
qed

lemma mutate_run: "mutate_account a f s = (Inr x, u) \<longleftrightarrow> (\<exists>v w. f (ev_accounts s a) s = (Inr (v, x), w) \<and> u = put_account a v w)"
  by (auto simp: mutate_account_def split: prod.split sum.split)

lemma do_set_code_run:
  assumes "do_set_code cfg who a code s = (Inr (), u)"
  obtains info c w where "ev_accounts s a = Some info" "ac_contract_info info = Some c" "u = put_account a (Some info) w"
    "w = s \<or> (\<exists>source cr. create_at_address (pl_runner cfg) source code 0 a 2100000 100000 setheum_config s = (Inr cr, w))"
proof -
  have source: "t = s" if "(case who of Some signer \<Rightarrow> bindE (mapped_address cfg signer) (\<lambda>maintainer.
       thenE (ensure (co_maintainer c = maintainer) (evE Evm_NoPermission)) (
       thenE (ensure (\<not> co_deployed c) (evE ContractAlreadyDeployed)) (okE maintainer)))
     | None \<Rightarrow> okE (pl_network_contract_source cfg)) s = (Inr m, t)" for c m t
    using that by (cases who) (auto simp: mapped_address_def)
  obtain v w where f: "u = put_account a v w" and run: "bindE (ok_or (ev_accounts s a) (evE ContractNotFound)) (\<lambda>info.
     bindE (ok_or (ac_contract_info info) (evE ContractNotFound)) (\<lambda>c.
     bindE (case who of
              Some signer \<Rightarrow>
                bindE (mapped_address cfg signer) (\<lambda>maintainer.
                thenE (ensure (co_maintainer c = maintainer) (evE Evm_NoPermission)) (
                thenE (ensure (\<not> co_deployed c) (evE ContractAlreadyDeployed)) (okE maintainer)))
            | None \<Rightarrow> okE (pl_network_contract_source cfg)) (\<lambda>source.
     if er_keccak (pl_env cfg) code = co_code_hash c then okE (ev_accounts s a, ())
     else
       thenE (ensure (length code \<le> er_max_code_size (pl_env cfg)) (evE ContractExceedsMaxCodeSize)) (
       thenE (create_at_address (pl_runner cfg) source code 0 a 2100000 100000 setheum_config)
         (okE (ev_accounts s a, ())))))) s = (Inr (v, ()), w)"
    using assms unfolding do_set_code_def mutate_run by blast
  obtain info c source t where info: "ev_accounts s a = Some info" "ac_contract_info info = Some c" and t: "t = s"
    and rest: "(if er_keccak (pl_env cfg) code = co_code_hash c then okE (ev_accounts s a, ())
     else
       thenE (ensure (length code \<le> er_max_code_size (pl_env cfg)) (evE ContractExceedsMaxCodeSize)) (
       thenE (create_at_address (pl_runner cfg) source code 0 a 2100000 100000 setheum_config)
         (okE (ev_accounts s a, ())))) t = (Inr (v, ()), w)"
    using run unfolding bindE_run ok_or_run by (elim exE conjE, hypsubst) (rule that, assumption, assumption, erule source, assumption)
  show thesis
    by (rule that[OF info]) (use rest f info(1) in \<open>auto simp: t split: if_splits\<close>)
qed

lemma set_code_keeps:
  assumes alive: "keeps_contracts_alive (pl_env cfg)" and tame: "tame_constructor cfg k code"
    and ok: "code_ok (pl_env cfg) pm n s" and n: "n + k < u32_max" and run: "set_code cfg org a code s = (r, t)"
  shows "code_ok (pl_env cfg) pm (n + Suc k) t"
proof (cases r)
  case (Inl e)
  have "t = s" by (rule transactional_fails[OF run[unfolded set_code_def Inl]])
  then show ?thesis using code_ok_mono[OF ok] by simp
next
  case (Inr x)
  obtain who u where set: "do_set_code cfg who a code s = (Inr (), u)" and t: "t = u\<lparr>ev_events := ev_events u @ [ContractSetCode a]\<rparr>"
    using run Inr by (cases org) (auto simp: set_code_def)
  obtain info c w where info: "ev_accounts s a = Some info" "ac_contract_info info = Some c" and u: "u = put_account a (Some info) w"
    and w: "w = s \<or> (\<exists>source cr. create_at_address (pl_runner cfg) source code 0 a 2100000 100000 setheum_config s = (Inr cr, w))"
    by (rule do_set_code_run[OF set])
  have h0: "code_map s a = Some (co_code_hash c)" "map_option co_code_hash (Option.bind (Some info) ac_contract_info) = Some (co_code_hash c)"
    using info by (simp_all add: code_map_contract)
  from w have "code_ok (pl_env cfg) pm (n + Suc k) u"
  proof (elim disjE exE)
    assume "w = s"
    then have "code_ok (pl_env cfg) pm n u" using code_ok_put[OF ok, of "Some info" a] h0 u by simp
    then show ?thesis by (rule code_ok_mono) simp
  next
    fix source cr
    assume "create_at_address (pl_runner cfg) source code 0 a 2100000 100000 setheum_config s = (Inr cr, w)"
    from create_keeps[OF alive tame ok n h0(1) this] show ?thesis
      using code_ok_redeem[OF _ h0(2)] code_ok_put[of _ pm _ w "Some info" a] h0(2) u by auto
  qed
  then show ?thesis by (simp add: t)
qed

section \<open>All operations together\<close>

datatype code_action = Operation code_op | Set_code origin evm_address "u8 list"

definition code_act :: "('w, 'g) evm_pallet \<Rightarrow> code_action \<Rightarrow> 'w evm_state \<Rightarrow> 'w evm_state" where
  "code_act cfg act s = (case act of Operation op \<Rightarrow> code_step cfg op s | Set_code org a code \<Rightarrow> snd (set_code cfg org a code s))"

definition code_acts :: "('w, 'g) evm_pallet \<Rightarrow> code_action list \<Rightarrow> 'w evm_state \<Rightarrow> 'w evm_state" where
  "code_acts cfg acts s = fold (code_act cfg) acts s"

lemma code_act_ok:
  assumes "keeps_contracts_alive (pl_env cfg)" "\<And>org b code. act = Set_code org b code \<Longrightarrow> tame_constructor cfg k code"
    and "code_ok (pl_env cfg) pm n s" "n + k < u32_max"
  shows "code_ok (pl_env cfg) pm (n + Suc k) (code_act cfg act s)"
proof (cases act)
  case (Operation op)
  have "code_ok (pl_env cfg) pm (Suc n) (code_step cfg op s)" by (rule code_step_ok[OF assms(1,3)]) (use assms(4) in simp)
  then show ?thesis unfolding Operation code_act_def code_action.case by (rule code_ok_mono) simp
next
  case (Set_code org b code)
  obtain r t where run: "set_code cfg org b code s = (r, t)" by fastforce
  show ?thesis using set_code_keeps[OF assms(1) assms(2)[OF Set_code] assms(3,4) run] run by (simp add: Set_code code_act_def)
qed

lemma code_acts_ok:
  assumes "keeps_contracts_alive (pl_env cfg)" "\<And>org b code. Set_code org b code \<in> set acts \<Longrightarrow> tame_constructor cfg k code"
  shows "code_ok (pl_env cfg) pm n s \<Longrightarrow> n + length acts * Suc k \<le> u32_max \<Longrightarrow>
    code_ok (pl_env cfg) pm (n + length acts * Suc k) (code_acts cfg acts s)"
  using assms(2)
proof (induction acts arbitrary: n s)
  case Nil
  then show ?case by (simp add: code_acts_def)
next
  case (Cons act acts)
  have "code_ok (pl_env cfg) pm (n + Suc k) (code_act cfg act s)"
    by (rule code_act_ok[OF assms(1) _ Cons.prems(1)]) (metis Cons.prems(3) list.set_intros(1), use Cons.prems(2) in simp)
  then have "code_ok (pl_env cfg) pm (n + Suc k + length acts * Suc k) (code_acts cfg acts (code_act cfg act s))"
    by (rule Cons.IH) (use Cons.prems(2) in simp, metis Cons.prems(3) list.set_intros(2))
  then show ?case by (simp add: code_acts_def algebra_simps)
qed

text \<open>
  C21. In any run of operations on contracts from a state without contracts (creations, removals, killed
  accounts, changes of the maintainer, the status or the nonce, transfers, and \<open>set_code\<close>), in any order
  and whoever shares a code with whom, every contract's code is stored under its hash, with the
  recorded size and a positive count of references: removing a contract, or the account under it,
  never takes the code of another contract away. The constructors that \<open>set_code\<close> runs change
  contracts only by at most \<open>k\<close> such operations and do not destroy the contract they run for, for
  which the property does not hold (\<open>set_code_can_lose_code\<close>); the run has fewer than \<open>2 ^ 32\<close>
  operations in all.
\<close>

theorem code_stays_available:
  assumes "keeps_contracts_alive (pl_env cfg)" "ev_accounts s = (\<lambda>a. None)" "ev_code_infos s = (\<lambda>h. None)"
    "\<And>org b code. Set_code org b code \<in> set acts \<Longrightarrow> tame_constructor cfg k code" "length acts * Suc k \<le> u32_max"
    "contract_at a (code_acts cfg acts s) = Some c"
  shows "er_keccak (pl_env cfg) (code_at_address (pl_env cfg) a (code_acts cfg acts s)) = co_code_hash c \<and>
    (case ev_code_infos (code_acts cfg acts s) (co_code_hash c) of
       None \<Rightarrow> False
     | Some ci \<Rightarrow> 0 < cd_ref_count ci \<and> cd_code_size ci = length (code_at_address (pl_env cfg) a (code_acts cfg acts s)))"
proof -
  let ?t = "code_acts cfg acts s"
  have "code_map s = (\<lambda>a. None)" using assms(2) by (simp add: code_map_def contract_at_def fun_eq_iff)
  then have "code_ok (pl_env cfg) (\<lambda>h. 0) 0 s"
    using assms(3) by (simp add: code_ok_def refs_ok_def entry_ok_def users_def)
  then have "code_ok (pl_env cfg) (\<lambda>h. 0) (length acts * Suc k) ?t"
    using code_acts_ok[OF assms(1,4), where pm = "\<lambda>h. 0" and n = 0 and s = s] assms(5) by simp
  then have "entry_ok (er_keccak (pl_env cfg)) 0 (length acts * Suc k) (users (code_map ?t) (co_code_hash c)) (co_code_hash c)
      (ev_codes ?t (co_code_hash c)) (ev_code_infos ?t (co_code_hash c))"
    unfolding code_ok_def by (rule refs_okD)
  moreover have "a \<in> users (code_map ?t) (co_code_hash c)" using assms(6) by (simp add: users_def code_map_def)
  moreover have "code_at_address (pl_env cfg) a ?t = ev_codes ?t (co_code_hash c)"
    using assms(6) by (simp add: code_at_address_def code_hash_at_address_def)
  ultimately show ?thesis by (auto simp: entry_ok_def split: option.splits)
qed

text \<open>Two contracts share a code, one of them is removed, and \<open>set_code\<close> is called for the other.\<close>

definition demo_code_ops :: "code_action list" where
  "demo_code_ops = [Operation (Initialize (replicate 20 2) (replicate 20 1) [1, 2]), Operation (Initialize (replicate 20 3) (replicate 20 1) [1, 2]),
     Operation (Remove (replicate 20 2) (replicate 20 1)), Set_code Root (replicate 20 3) [5, 5]]"

lemma contract_after_set_code: "contract_at a (snd (set_code cfg org a code s)) = contract_at a s"
proof -
  obtain r t where run: "set_code cfg org a code s = (r, t)" by fastforce
  show ?thesis
  proof (cases r)
    case (Inl e)
    then show ?thesis using transactional_fails[OF run[unfolded set_code_def Inl]] run by simp
  next
    case (Inr x)
    then obtain who u where set: "do_set_code cfg who a code s = (Inr (), u)" and t: "ev_accounts t = ev_accounts u"
      using run by (cases org) (auto simp: set_code_def)
    obtain info where "ev_accounts s a = Some info" "ev_accounts u a = Some info"
      by (rule do_set_code_run[OF set]) (simp add: put_account_def)
    then show ?thesis using run t by (simp add: contract_at_def)
  qed
qed

theorem code_stays_available_witness:
  "contract_at (replicate 20 2) (code_acts demo_pallet (take 3 demo_code_ops) empty_evm) = None \<and>
   er_keccak demo_env (code_at_address demo_env (replicate 20 3) (code_acts demo_pallet demo_code_ops empty_evm)) = er_keccak demo_env [1, 2]"
proof -
  let ?c = "\<lparr>co_code_hash = er_keccak demo_env [1, 2], co_maintainer = replicate 20 1, co_deployed = False\<rparr>"
  have env: "pl_env demo_pallet = demo_env" and runner: "pl_runner demo_pallet = demo_runner (Exit_Succeed Returned)" by (simp_all add: demo_pallet_def demo_runner_def)
  have alive: "keeps_contracts_alive demo_env" by (simp add: keeps_contracts_alive_def demo_env_def okE_def)
  have "\<exists>ops. length ops \<le> 0 \<and> same_codes (code_steps demo_pallet ops s) (s\<lparr>ev_storages := x\<rparr>)" for s x
    by (rule exI[of _ "[]"]) (simp add: same_codes_def code_steps_def)
  then have tame: "tame_constructor demo_pallet 0 code" for code
    by (simp add: tame_constructor_def runner demo_runner_interpret)
  have step: "ev_accounts (snd (on_contract_initialization demo_env a m [1, 2] s)) =
      (ev_accounts s)(a \<mapsto> (case ev_accounts s a of Some i \<Rightarrow> i\<lparr>ac_contract_info := Some \<lparr>co_code_hash = er_keccak demo_env [1, 2],
        co_maintainer = m, co_deployed = False\<rparr>\<rparr> | None \<Rightarrow> account_info_new 0 (Some \<lparr>co_code_hash = er_keccak demo_env [1, 2],
        co_maintainer = m, co_deployed = False\<rparr>)))" for a m s
    by (simp add: on_contract_initialization_def Let_def thenE_def bindE_def ensure_def okE_def modE_def put_account_def retain_code_def
        update_contract_storage_size_def demo_env_def split: option.split)
  let ?t = "code_acts demo_pallet (take 3 demo_code_ops) empty_evm"
  have "ev_accounts ?t (replicate 20 2) = Some (account_info_new 0 None)"
     "ev_accounts ?t (replicate 20 3) = Some (account_info_new 0 (Some ?c))"
    by (simp_all add: code_acts_def code_act_def demo_code_ops_def code_step_def env step remove_contract_def transactional_def bindE_def thenE_def
        getE_def modE_def okE_def ok_or_def reaping_def inE_def zoomE_def put_account_def release_code_def empty_evm_def account_info_new_def
        demo_env_def[THEN arg_cong[of _ _ er_transfer_all]] demo_env_def[THEN arg_cong[of _ _ er_dec_providers]] split: option.split)
  then have gone: "contract_at (replicate 20 2) ?t = None" and there: "contract_at (replicate 20 3) ?t = Some ?c"
    by (simp_all add: contract_at_def account_info_new_def)
  have "code_acts demo_pallet demo_code_ops empty_evm = snd (set_code demo_pallet Root (replicate 20 3) [5, 5] ?t)"
    by (simp add: code_acts_def demo_code_ops_def code_act_def)
  then have other: "contract_at (replicate 20 3) (code_acts demo_pallet demo_code_ops empty_evm) = Some ?c"
    using there by (simp add: contract_after_set_code)
  have "length demo_code_ops * Suc 0 \<le> u32_max" by (simp add: demo_code_ops_def u32_max_def)
  then show ?thesis
    using code_stays_available[of demo_pallet empty_evm demo_code_ops 0 "replicate 20 3" ?c] alive other gone env tame
    by (simp add: empty_evm_def)
qed

text \<open>A constructor that destroys the contract it runs for: the code that \<open>set_code\<close> leaves in place is no
  longer stored.\<close>

definition destroying_pallet :: "(unit, unit) evm_pallet" where
  "destroying_pallet = demo_pallet\<lparr>pl_runner := (demo_runner (Exit_Succeed Returned))\<lparr>rn_interpret := (\<lambda>hdl ctx code input f.
     ((Exit_Succeed Returned, [1, 2, 3]), f\<lparr>fr_state := snd (remove_contract demo_env (cx_address ctx) (cx_caller ctx) (fr_state f))\<rparr>))\<rparr>\<rparr>"

definition first_contract :: "unit evm_state" where
  "first_contract = snd (on_contract_initialization demo_env (replicate 20 2) (replicate 20 1) [1, 2] empty_evm)"

lemma first_contract_code:
  "ev_accounts first_contract = (\<lambda>b. None)(replicate 20 2 \<mapsto> account_info_new 0
     (Some \<lparr>co_code_hash = er_keccak demo_env [1, 2], co_maintainer = replicate 20 1, co_deployed = False\<rparr>))"
  "ev_code_infos first_contract = (\<lambda>h. None)(er_keccak demo_env [1, 2] \<mapsto> \<lparr>cd_code_size = 2, cd_ref_count = 1\<rparr>)"
  by (simp_all add: first_contract_def on_contract_initialization_def Let_def thenE_def bindE_def ensure_def okE_def modE_def put_account_def
      retain_code_def update_contract_storage_size_def empty_evm_def demo_env_def numeral_2_eq_2)

lemma destroyed_code:
  assumes "on_contract_initialization demo_env (replicate 20 2) zero_address [1, 2, 3] (inc_nonce (replicate 20 2)
    (snd (remove_contract demo_env (replicate 20 2) zero_address (inc_nonce zero_address first_contract)))) = (Inr (), t)"
  shows "ev_code_infos t (er_keccak demo_env [1, 2]) = None" "ev_codes t (er_keccak demo_env [1, 2]) = []"
proof -
  define s where "s = inc_nonce zero_address first_contract"
  have s: "ev_accounts s (replicate 20 2) = ev_accounts first_contract (replicate 20 2)" "ev_code_infos s = ev_code_infos first_contract"
    by (simp_all add: s_def inc_nonce_def put_account_def)
  define r where "r = snd (remove_contract demo_env (replicate 20 2) zero_address s)"
  have r: "ev_code_infos r (er_keccak demo_env [1, 2]) = None" "ev_codes r (er_keccak demo_env [1, 2]) = []"
    by (simp_all add: r_def remove_contract_def transactional_def bindE_def thenE_def getE_def modE_def okE_def ok_or_def reaping_def inE_def
        zoomE_def put_account_def release_code_def s first_contract_code account_info_new_def sat_sub_def
        demo_env_def[THEN arg_cong[of _ _ er_transfer_all]] demo_env_def[THEN arg_cong[of _ _ er_dec_providers]])
  have other: "er_keccak demo_env [1, 2] \<noteq> er_keccak demo_env [1, 2, 3]" using replicate_Suc[of 29 "0 :: u8"] by (simp add: demo_env_def)
  have "ev_code_infos t (er_keccak demo_env [1, 2]) = ev_code_infos r (er_keccak demo_env [1, 2])"
    "ev_codes t (er_keccak demo_env [1, 2]) = ev_codes r (er_keccak demo_env [1, 2])"
    using initialized_codes[OF assms[folded s_def, folded r_def]] other by (simp_all add: retain_code_def inc_nonce_def put_account_def split: option.splits)
  then show "ev_code_infos t (er_keccak demo_env [1, 2]) = None" "ev_codes t (er_keccak demo_env [1, 2]) = []" using r by simp_all
qed

lemma set_code_can_lose_code:
  "\<exists>t c. set_code destroying_pallet Root (replicate 20 2) [5, 5] first_contract = (Inr (), t) \<and>
     contract_at (replicate 20 2) t = Some c \<and> co_code_hash c = er_keccak demo_env [1, 2] \<and>
     ev_code_infos t (co_code_hash c) = None \<and> code_at_address demo_env (replicate 20 2) t = []"
proof -
  let ?rn = "pl_runner destroying_pallet" and ?a = "replicate 20 2 :: evm_address"
  let ?G = "\<lambda>src a s. snd (remove_contract demo_env a src s)"
  have rn: "rn_env ?rn = demo_env" "rn_gas ?rn = free_gas" "pl_network_contract_source destroying_pallet = zero_address"
    "pl_network_contract_origin destroying_pallet = (\<lambda>org. org = Root)"
    by (simp_all add: destroying_pallet_def demo_pallet_def demo_runner_def)
  have interp: "rn_interpret ?rn hdl ctx code input f =
      ((Exit_Succeed Returned, [1, 2, 3]), f\<lparr>fr_state := ?G (cx_caller ctx) (cx_address ctx) (fr_state f)\<rparr>)" for hdl ctx code input f
    by (simp add: destroying_pallet_def)
  obtain info u where create: "create_at_address ?rn zero_address [5, 5] 0 ?a 2100000 100000 setheum_config first_contract = (Inr info, u)"
    and init: "on_contract_initialization demo_env ?a zero_address [1, 2, 3]
      (inc_nonce ?a (?G zero_address ?a (inc_nonce zero_address first_contract))) = (Inr (), u)"
    using demo_create[OF rn(1,2) interp, of zero_address "[5, 5]" ?a first_contract] by blast
  have new: "er_keccak demo_env [5, 5] \<noteq> er_keccak demo_env [1, 2]" "length [5, 5 :: u8] \<le> er_max_code_size demo_env"
    by (simp_all add: demo_env_def)
  have "do_set_code destroying_pallet None ?a [5, 5] first_contract = (Inr (), put_account ?a (ev_accounts first_contract ?a) u)"
    using create new by (simp add: do_set_code_def mutate_account_def rn first_contract_code account_info_new_def bindE_def thenE_def okE_def
        ok_or_def ensure_def)
  then have "\<exists>t. set_code destroying_pallet Root ?a [5, 5] first_contract = (Inr (), t) \<and>
      ev_accounts t ?a = ev_accounts first_contract ?a \<and> ev_code_infos t = ev_code_infos u \<and> ev_codes t = ev_codes u"
    by (auto simp: set_code_def rn put_account_def)
  then show ?thesis using destroyed_code[OF init]
    by (auto simp: contract_at_def code_at_address_def code_hash_at_address_def first_contract_code account_info_new_def)
qed

end
