(* ===== verification/Transaction_Payment.thy ===== *)
theory Transaction_Payment
  imports Precompiles
begin

text \<open>
  The transaction payment pallet, \<open>lib-serml/transaction-payment/src/lib.rs\<close>: the fee of a
  transaction, the fee multiplier of the next block, the charging of fees in any currency by a swap
  on the exchange, and the signed extension and trait through which extrinsics and the EVM pallet
  pay. The fixed-point arithmetic, the polynomial of weights, the imbalances of the native currency
  and the weights of the block are parameters; an imbalance is its amount.
\<close>

section \<open>Configuration and storage\<close>

datatype dispatch_class = Normal | Operational | Mandatory

record dispatch_info =
  di_weight :: nat
  di_class :: dispatch_class
  di_pays_fee :: bool

record inclusion_fee =
  if_base_fee :: balance
  if_len_fee :: balance
  if_adjusted_weight_fee :: balance

record fee_details =
  fd_inclusion_fee :: "inclusion_fee option"
  fd_tip :: balance

datatype withdraw_reason = TRANSACTION_PAYMENT | TIP

datatype validity_error = Invalid_Payment

datatype same_or_other = Same balance | No_imbalance | Opposite balance

text \<open>\<open>FixedU128\<close> with the operations of the multiplier, and a \<open>Perquintill\<close> as a function.\<close>

record multiplier_ops = fixed_ops +
  fx_saturating_from_rational :: "nat \<Rightarrow> nat \<Rightarrow> fixed_u128"
  fx_saturating_add :: "fixed_u128 \<Rightarrow> fixed_u128 \<Rightarrow> fixed_u128"
  fx_saturating_sub :: "fixed_u128 \<Rightarrow> fixed_u128 \<Rightarrow> fixed_u128"
  fx_quotient :: "fixed_u128 \<Rightarrow> fixed_u128 \<Rightarrow> fixed_u128"

record ('w, 'p) txpay_config =
  tp_fixed :: multiplier_ops
  tp_min_multiplier :: fixed_u128
  tp_target_fullness :: "nat \<Rightarrow> nat"
  tp_variability :: fixed_u128
  tp_normal_max_total :: "nat option"
  tp_max_block :: nat
  tp_normal_block_weight :: "'w \<Rightarrow> nat"
  tp_base_extrinsic :: "dispatch_class \<Rightarrow> nat"
  tp_max_block_length :: nat
  tp_all_non_native :: "currency_id list"
  tp_native :: currency_id
  tp_setter :: currency_id
  tp_byte_fee :: balance
  tp_weight_to_fee :: "nat \<Rightarrow> balance"
  tp_final_fee :: "fee_details \<Rightarrow> balance"
  tp_actual_weight :: "'p \<Rightarrow> dispatch_info \<Rightarrow> nat"
  tp_post_pays_fee :: "'p \<Rightarrow> dispatch_info \<Rightarrow> bool"
  tp_max_slippage :: fixed_u128
  tp_dex :: "'w dex_manager"
  tp_multi_free_balance :: "currency_id \<Rightarrow> account_id \<Rightarrow> 'w \<Rightarrow> balance"
  tp_free_balance :: "account_id \<Rightarrow> 'w \<Rightarrow> balance"
  tp_can_withdraw :: "account_id \<Rightarrow> balance \<Rightarrow> withdraw_reason set \<Rightarrow> balance \<Rightarrow> 'w \<Rightarrow> bool"
  tp_withdraw :: "account_id \<Rightarrow> balance \<Rightarrow> withdraw_reason set \<Rightarrow> ('w, balance) eff"
  tp_deposit_into_existing :: "account_id \<Rightarrow> balance \<Rightarrow> ('w, balance) eff"
  tp_reserve :: "account_id \<Rightarrow> balance \<Rightarrow> ('w, unit) eff"
  tp_unreserve :: "account_id \<Rightarrow> balance \<Rightarrow> 'w \<Rightarrow> balance \<times> 'w"
  tp_offset :: "balance \<Rightarrow> balance \<Rightarrow> same_or_other"
  tp_split :: "balance \<Rightarrow> balance \<Rightarrow> balance \<times> balance"
  tp_on_unbalanced :: "balance \<Rightarrow> 'w \<Rightarrow> 'w"
  tp_on_unbalanceds :: "balance list \<Rightarrow> 'w \<Rightarrow> 'w"

record 'w txpay_state =
  next_fee_multiplier :: fixed_u128
  default_fee_currency_id :: "account_id \<Rightarrow> currency_id option"
  tp_world :: 'w

definition inT :: "('e, 'w, 'a) effect \<Rightarrow> ('e, 'w txpay_state, 'a) effect" where
  "inT m = zoomE tp_world (\<lambda>w s. s\<lparr>tp_world := w\<rparr>) m"

text \<open>Observing the result of a call with errors of another type.\<close>

definition attemptE :: "('e, 's, 'a) effect \<Rightarrow> ('f, 's, 'e + 'a) effect" where
  "attemptE m = (\<lambda>s. case m s of (r, t) \<Rightarrow> (Inr r, t))"

section \<open>The fee multiplier\<close>

definition multiplier_convert :: "('w, 'p) txpay_config \<Rightarrow> 'w \<Rightarrow> fixed_u128 \<Rightarrow> fixed_u128" where
  "multiplier_convert cfg w previous0 =
     (let fx = tp_fixed cfg;
          min_multiplier = tp_min_multiplier cfg;
          previous = max previous0 min_multiplier;
          normal_max_weight = unwrap_or (tp_normal_max_total cfg) (tp_max_block cfg);
          block_weight = min (tp_normal_block_weight cfg w) normal_max_weight;
          v = tp_variability cfg;
          target_weight = tp_target_fullness cfg normal_max_weight;
          positive = (block_weight \<ge> target_weight);
          diff_abs = max block_weight target_weight - min block_weight target_weight;
          diff = fx_saturating_from_rational fx diff_abs (max normal_max_weight 1);
          diff_squared = fx_saturating_mul fx diff diff;
          v_squared_2 = fx_quotient fx (fx_saturating_mul fx v v) (fx_saturating_from_integer fx 2);
          first_term = fx_saturating_mul fx v diff;
          second_term = fx_saturating_mul fx v_squared_2 diff_squared
      in if positive
         then (let excess = fx_saturating_mul fx (fx_saturating_add fx first_term second_term) previous
               in max (fx_saturating_add fx previous excess) min_multiplier)
         else (let negative = fx_saturating_mul fx (fx_saturating_sub fx first_term second_term) previous
               in max (fx_saturating_sub fx previous negative) min_multiplier))"

definition txpay_on_finalize :: "('w, 'p) txpay_config \<Rightarrow> 'w txpay_state \<Rightarrow> 'w txpay_state" where
  "txpay_on_finalize cfg s = s\<lparr>next_fee_multiplier := multiplier_convert cfg (tp_world s) (next_fee_multiplier s)\<rparr>"

definition set_default_fee_token ::
  "origin \<Rightarrow> currency_id option \<Rightarrow> ('w txpay_state, unit) eff" where
  "set_default_fee_token org fee_token =
     bindE (ensure_signed org) (\<lambda>who.
     modE (\<lambda>s. s\<lparr>default_fee_currency_id := (default_fee_currency_id s)(who := fee_token)\<rparr>))"

section \<open>Fees\<close>

definition weight_to_fee :: "('w, 'p) txpay_config \<Rightarrow> nat \<Rightarrow> balance" where
  "weight_to_fee cfg weight = tp_weight_to_fee cfg (min weight (tp_max_block cfg))"

definition compute_fee_raw ::
  "('w, 'p) txpay_config \<Rightarrow> nat \<Rightarrow> nat \<Rightarrow> balance \<Rightarrow> bool \<Rightarrow> dispatch_class \<Rightarrow> 'w txpay_state \<Rightarrow> fee_details" where
  "compute_fee_raw cfg len weight tip pays_fee class s =
     (if pays_fee then
        \<lparr>fd_inclusion_fee = Some \<lparr>
           if_base_fee = weight_to_fee cfg (tp_base_extrinsic cfg class),
           if_len_fee = sat_mul u128_max (tp_byte_fee cfg) len,
           if_adjusted_weight_fee = fx_saturating_mul_int (tp_fixed cfg) (next_fee_multiplier s) (weight_to_fee cfg weight)\<rparr>,
         fd_tip = tip\<rparr>
      else \<lparr>fd_inclusion_fee = None, fd_tip = tip\<rparr>)"

definition compute_fee_details ::
  "('w, 'p) txpay_config \<Rightarrow> nat \<Rightarrow> dispatch_info \<Rightarrow> balance \<Rightarrow> 'w txpay_state \<Rightarrow> fee_details" where
  "compute_fee_details cfg len info tip s =
     compute_fee_raw cfg len (di_weight info) tip (di_pays_fee info) (di_class info) s"

definition compute_fee :: "('w, 'p) txpay_config \<Rightarrow> nat \<Rightarrow> dispatch_info \<Rightarrow> balance \<Rightarrow> 'w txpay_state \<Rightarrow> balance" where
  "compute_fee cfg len info tip s = tp_final_fee cfg (compute_fee_details cfg len info tip s)"

definition compute_actual_fee_details ::
  "('w, 'p) txpay_config \<Rightarrow> nat \<Rightarrow> dispatch_info \<Rightarrow> 'p \<Rightarrow> balance \<Rightarrow> 'w txpay_state \<Rightarrow> fee_details" where
  "compute_actual_fee_details cfg len info post_info tip s =
     compute_fee_raw cfg len (tp_actual_weight cfg post_info info) tip (tp_post_pays_fee cfg post_info info) (di_class info) s"

definition compute_actual_fee ::
  "('w, 'p) txpay_config \<Rightarrow> nat \<Rightarrow> dispatch_info \<Rightarrow> 'p \<Rightarrow> balance \<Rightarrow> 'w txpay_state \<Rightarrow> balance" where
  "compute_actual_fee cfg len info post_info tip s = tp_final_fee cfg (compute_actual_fee_details cfg len info post_info tip s)"

record runtime_dispatch_info =
  rd_weight :: nat
  rd_class :: dispatch_class
  rd_partial_fee :: balance

definition query_info :: "('w, 'p) txpay_config \<Rightarrow> dispatch_info \<Rightarrow> nat \<Rightarrow> 'w txpay_state \<Rightarrow> runtime_dispatch_info" where
  "query_info cfg info len s =
     \<lparr>rd_weight = di_weight info, rd_class = di_class info, rd_partial_fee = compute_fee cfg len info 0 s\<rparr>"

definition query_fee_details :: "('w, 'p) txpay_config \<Rightarrow> dispatch_info \<Rightarrow> nat \<Rightarrow> 'w txpay_state \<Rightarrow> fee_details" where
  "query_fee_details cfg info len s = compute_fee_details cfg len info 0 s"

definition convert_weight :: "('w, 'p) txpay_config \<Rightarrow> nat \<Rightarrow> 'w txpay_state \<Rightarrow> balance" where
  "convert_weight cfg weight s = fx_saturating_mul_int (tp_fixed cfg) (next_fee_multiplier s) (weight_to_fee cfg weight)"

section \<open>Charging a fee\<close>

definition charge_fee_order :: "('w, 'p) txpay_config \<Rightarrow> account_id \<Rightarrow> 'w txpay_state \<Rightarrow> currency_id list" where
  "charge_fee_order cfg who s = remdups_adj
     ((case default_fee_currency_id s who of Some c \<Rightarrow> [c, tp_native cfg] | None \<Rightarrow> [tp_native cfg]) @ tp_all_non_native cfg)"

definition native_is_enough ::
  "('w, 'p) txpay_config \<Rightarrow> account_id \<Rightarrow> balance \<Rightarrow> withdraw_reason set \<Rightarrow> 'w \<Rightarrow> bool" where
  "native_is_enough cfg who fee reason w =
     (case chk_sub (tp_free_balance cfg who w) fee of
        None \<Rightarrow> False
      | Some new_free_balance \<Rightarrow> tp_can_withdraw cfg who fee reason new_free_balance w)"

definition fee_path :: "('w, 'p) txpay_config \<Rightarrow> currency_id \<Rightarrow> currency_id list" where
  "fee_path cfg c = (if c = tp_setter cfg then [tp_setter cfg, tp_native cfg] else [c, tp_setter cfg, tp_native cfg])"

definition fee_swap :: "('w, 'p) txpay_config \<Rightarrow> account_id \<Rightarrow> balance \<Rightarrow> currency_id \<Rightarrow> ('w, balance) eff" where
  "fee_swap cfg who fee c w =
     dm_swap_with_exact_target (tp_dex cfg) who (fee_path cfg c) (min fee u128_max)
       (tp_multi_free_balance cfg c who w) (Some (tp_max_slippage cfg)) w"

text \<open>The loop over the currencies, left by \<open>break\<close>; no error is reported.\<close>

fun charge_loop ::
  "('w, 'p) txpay_config \<Rightarrow> account_id \<Rightarrow> balance \<Rightarrow> withdraw_reason set \<Rightarrow> currency_id list \<Rightarrow> 'w \<Rightarrow> 'w" where
  "charge_loop cfg who fee reason [] w = w"
| "charge_loop cfg who fee reason (c # cs) w =
     (if c = tp_native cfg then
        (if native_is_enough cfg who fee reason w then w else charge_loop cfg who fee reason cs w)
      else
        (case fee_swap cfg who fee c w of
           (Inr _, t) \<Rightarrow> t
         | (Inl _, t) \<Rightarrow> charge_loop cfg who fee reason cs t))"

definition ensure_can_charge_fee ::
  "('w, 'p) txpay_config \<Rightarrow> account_id \<Rightarrow> balance \<Rightarrow> withdraw_reason set \<Rightarrow> ('e, 'w txpay_state, unit) effect" where
  "ensure_can_charge_fee cfg who fee reason =
     modE (\<lambda>s. s\<lparr>tp_world := charge_loop cfg who fee reason (charge_fee_order cfg who s) (tp_world s)\<rparr>)"

section \<open>The signed extension\<close>

text \<open>The length is cast to \<open>u32\<close>.\<close>

definition withdraw_fee ::
  "('w, 'p) txpay_config \<Rightarrow> balance \<Rightarrow> account_id \<Rightarrow> dispatch_info \<Rightarrow> nat \<Rightarrow>
   (validity_error, 'w txpay_state, balance \<times> balance option) effect" where
  "withdraw_fee cfg tip who info len =
     bindE (getE (compute_fee cfg (len mod 2 ^ 32) info tip)) (\<lambda>fee.
     if fee = 0 then okE (fee, None)
     else
       (let reason = (if tip = 0 then {TRANSACTION_PAYMENT} else {TRANSACTION_PAYMENT, TIP}) in
        thenE (ensure_can_charge_fee cfg who fee reason) (
        bindE (map_errE (\<lambda>_. Invalid_Payment) (inT (tp_withdraw cfg who fee reason))) (\<lambda>imbalance.
        okE (fee, Some imbalance)))))"

definition get_priority :: "('w, 'p) txpay_config \<Rightarrow> nat \<Rightarrow> dispatch_info \<Rightarrow> balance \<Rightarrow> nat" where
  "get_priority cfg len info final_fee =
     (let weight_saturation = tp_max_block cfg div max (di_weight info) 1;
          len_saturation = tp_max_block_length cfg div max len 1;
          coefficient = min weight_saturation len_saturation
      in min u64_max (sat_mul u128_max final_fee coefficient))"

definition txpay_validate ::
  "('w, 'p) txpay_config \<Rightarrow> balance \<Rightarrow> account_id \<Rightarrow> dispatch_info \<Rightarrow> nat \<Rightarrow> (validity_error, 'w txpay_state, nat) effect" where
  "txpay_validate cfg tip who info len =
     bindE (withdraw_fee cfg tip who info len) (\<lambda>(fee, _). okE (get_priority cfg len info fee))"

type_synonym pre_dispatch = "balance \<times> account_id \<times> balance option \<times> balance"

definition txpay_pre_dispatch ::
  "('w, 'p) txpay_config \<Rightarrow> balance \<Rightarrow> account_id \<Rightarrow> dispatch_info \<Rightarrow> nat \<Rightarrow>
   (validity_error, 'w txpay_state, pre_dispatch) effect" where
  "txpay_pre_dispatch cfg tip who info len =
     bindE (withdraw_fee cfg tip who info len) (\<lambda>(fee, imbalance). okE (tip, who, imbalance, fee))"

text \<open>What remains of a payment after the refund; without an account to refund all of it.\<close>

definition refunded ::
  "('w, 'p) txpay_config \<Rightarrow> account_id \<Rightarrow> balance \<Rightarrow> balance \<Rightarrow> (validity_error, 'w txpay_state, balance) effect" where
  "refunded cfg who refund payed =
     bindE (attemptE (inT (tp_deposit_into_existing cfg who refund))) (\<lambda>r.
     case r of
       Inl _ \<Rightarrow> okE payed
     | Inr refund_imbalance \<Rightarrow>
         (case tp_offset cfg payed refund_imbalance of
            Same actual_payment \<Rightarrow> okE actual_payment
          | No_imbalance \<Rightarrow> okE 0
          | Opposite _ \<Rightarrow> failE Invalid_Payment))"

definition on_unbalanced :: "('w, 'p) txpay_config \<Rightarrow> balance \<Rightarrow> ('e, 'w txpay_state, unit) effect" where
  "on_unbalanced cfg amount = modE (\<lambda>s. s\<lparr>tp_world := tp_on_unbalanced cfg amount (tp_world s)\<rparr>)"

definition on_unbalanceds :: "('w, 'p) txpay_config \<Rightarrow> balance list \<Rightarrow> ('e, 'w txpay_state, unit) effect" where
  "on_unbalanceds cfg amounts = modE (\<lambda>s. s\<lparr>tp_world := tp_on_unbalanceds cfg amounts (tp_world s)\<rparr>)"

definition txpay_post_dispatch ::
  "('w, 'p) txpay_config \<Rightarrow> pre_dispatch \<Rightarrow> dispatch_info \<Rightarrow> 'p \<Rightarrow> nat \<Rightarrow> (validity_error, 'w txpay_state, unit) effect" where
  "txpay_post_dispatch cfg pre info post_info len =
     (case pre of (tip, who, imbalance, fee) \<Rightarrow>
        (case imbalance of
           None \<Rightarrow> okE ()
         | Some payed \<Rightarrow>
             bindE (getE (compute_actual_fee cfg (len mod 2 ^ 32) info post_info tip)) (\<lambda>actual_fee.
             bindE (refunded cfg who (sat_sub fee actual_fee) payed) (\<lambda>actual_payment.
             let (tip, fee) = tp_split cfg actual_payment tip in
             on_unbalanceds cfg [fee, tip]))))"

section \<open>Payments of the EVM pallet\<close>

definition reserve_fee :: "('w, 'p) txpay_config \<Rightarrow> account_id \<Rightarrow> nat \<Rightarrow> ('w txpay_state, balance) eff" where
  "reserve_fee cfg who weight =
     (let fee = weight_to_fee cfg weight in
      thenE (ensure_can_charge_fee cfg who fee {TRANSACTION_PAYMENT}) (
      thenE (inT (tp_reserve cfg who fee)) (okE fee)))"

definition unreserve_fee :: "('w, 'p) txpay_config \<Rightarrow> account_id \<Rightarrow> balance \<Rightarrow> ('e, 'w txpay_state, unit) effect" where
  "unreserve_fee cfg who fee = modE (\<lambda>s. s\<lparr>tp_world := snd (tp_unreserve cfg who fee (tp_world s))\<rparr>)"

definition unreserve_and_charge_fee ::
  "('w, 'p) txpay_config \<Rightarrow> account_id \<Rightarrow> nat \<Rightarrow> (validity_error, 'w txpay_state, balance \<times> balance) effect" where
  "unreserve_and_charge_fee cfg who weight =
     (let fee = weight_to_fee cfg weight in
      thenE (unreserve_fee cfg who fee) (
      bindE (map_errE (\<lambda>_. Invalid_Payment) (inT (tp_withdraw cfg who fee {TRANSACTION_PAYMENT}))) (\<lambda>imbalance.
      okE (fee, imbalance))))"

definition refund_fee ::
  "('w, 'p) txpay_config \<Rightarrow> account_id \<Rightarrow> nat \<Rightarrow> balance \<Rightarrow> (validity_error, 'w txpay_state, unit) effect" where
  "refund_fee cfg who refund_weight payed =
     bindE (refunded cfg who (weight_to_fee cfg refund_weight) payed) (\<lambda>actual_payment.
     on_unbalanced cfg actual_payment)"

definition charge_fee ::
  "('w, 'p) txpay_config \<Rightarrow> account_id \<Rightarrow> nat \<Rightarrow> nat \<Rightarrow> balance \<Rightarrow> bool \<Rightarrow> dispatch_class \<Rightarrow>
   (validity_error, 'w txpay_state, unit) effect" where
  "charge_fee cfg who len weight tip pays_fee class =
     bindE (getE (\<lambda>s. tp_final_fee cfg (compute_fee_raw cfg len weight tip pays_fee class s))) (\<lambda>fee.
     thenE (ensure_can_charge_fee cfg who fee {TRANSACTION_PAYMENT}) (
     bindE (map_errE (\<lambda>_. Invalid_Payment) (inT (tp_withdraw cfg who fee {TRANSACTION_PAYMENT}))) (\<lambda>actual_payment.
     on_unbalanced cfg actual_payment)))"

end
