(* ===== verification/Transaction_Payment_Properties.thy ===== *)
theory Transaction_Payment_Properties
  imports Transaction_Payment Precompiles_Properties
begin

text \<open>
  Properties of transaction payment: the fee multiplier follows the congestion of the blocks and
  never falls below its minimum, a fee is charged in the first currency that suffices and the
  exchange stays solvent meanwhile, and what a transaction finally pays is its actual fee.
\<close>

section \<open>The fee multiplier\<close>

text \<open>Saturating addition does not make smaller, saturating subtraction not larger.\<close>

definition multiplier_laws :: "multiplier_ops \<Rightarrow> bool" where
  "multiplier_laws fx \<longleftrightarrow>
     (\<forall>a b. a \<le> u128_max \<longrightarrow> a \<le> fx_saturating_add fx a b) \<and> (\<forall>a b. fx_saturating_add fx a b \<le> u128_max) \<and>
     (\<forall>a b. fx_saturating_sub fx a b \<le> a)"

text \<open>How full a block is, and how full it should be.\<close>

definition normal_weight :: "('w, 'p) txpay_config \<Rightarrow> 'w \<Rightarrow> nat" where
  "normal_weight cfg w = min (tp_normal_block_weight cfg w) (unwrap_or (tp_normal_max_total cfg) (tp_max_block cfg))"

definition target_weight :: "('w, 'p) txpay_config \<Rightarrow> nat" where
  "target_weight cfg = tp_target_fullness cfg (unwrap_or (tp_normal_max_total cfg) (tp_max_block cfg))"

lemma convert_ge_min: "tp_min_multiplier cfg \<le> multiplier_convert cfg w m"
  by (simp add: multiplier_convert_def Let_def)

text \<open>Above the target something is added, below it something is subtracted.\<close>

lemma convert_cases:
  defines "p m cfg \<equiv> max m (tp_min_multiplier cfg)"
  shows "target_weight cfg \<le> normal_weight cfg w \<Longrightarrow>
      \<exists>b. multiplier_convert cfg w m = max (fx_saturating_add (tp_fixed cfg) (p m cfg) b) (tp_min_multiplier cfg)"
    and "normal_weight cfg w < target_weight cfg \<Longrightarrow>
      \<exists>b. multiplier_convert cfg w m = max (fx_saturating_sub (tp_fixed cfg) (p m cfg) b) (tp_min_multiplier cfg)"
  by (auto simp: p_def multiplier_convert_def Let_def normal_weight_def target_weight_def simp flip: not_le)

lemma convert_full:
  assumes "multiplier_laws (tp_fixed cfg)" "m \<le> u128_max" "tp_min_multiplier cfg \<le> u128_max" "target_weight cfg \<le> normal_weight cfg w"
  shows "max m (tp_min_multiplier cfg) \<le> multiplier_convert cfg w m"
proof -
  obtain b where "multiplier_convert cfg w m = max (fx_saturating_add (tp_fixed cfg) (max m (tp_min_multiplier cfg)) b) (tp_min_multiplier cfg)"
    using convert_cases(1)[OF assms(4)] by blast
  moreover have "max m (tp_min_multiplier cfg) \<le> fx_saturating_add (tp_fixed cfg) (max m (tp_min_multiplier cfg)) b"
    using assms(1-3) unfolding multiplier_laws_def by (metis max.bounded_iff)
  ultimately show ?thesis by (metis max.coboundedI1)
qed

lemma convert_free:
  assumes "multiplier_laws (tp_fixed cfg)" "normal_weight cfg w < target_weight cfg"
  shows "multiplier_convert cfg w m \<le> max m (tp_min_multiplier cfg)"
proof -
  obtain b where "multiplier_convert cfg w m = max (fx_saturating_sub (tp_fixed cfg) (max m (tp_min_multiplier cfg)) b) (tp_min_multiplier cfg)"
    using convert_cases(2)[OF assms(2)] by blast
  moreover have "fx_saturating_sub (tp_fixed cfg) (max m (tp_min_multiplier cfg)) b \<le> max m (tp_min_multiplier cfg)"
    using assms(1) unfolding multiplier_laws_def by blast
  ultimately show ?thesis by (metis max.bounded_iff max.cobounded2)
qed

lemma convert_fits:
  assumes "multiplier_laws (tp_fixed cfg)" "m \<le> u128_max" "tp_min_multiplier cfg \<le> u128_max"
  shows "multiplier_convert cfg w m \<le> u128_max"
proof (cases "target_weight cfg \<le> normal_weight cfg w")
  case True
  then obtain b where "multiplier_convert cfg w m = max (fx_saturating_add (tp_fixed cfg) (max m (tp_min_multiplier cfg)) b) (tp_min_multiplier cfg)"
    using convert_cases(1)[OF True] by blast
  then show ?thesis using assms unfolding multiplier_laws_def by simp
next
  case False
  then show ?thesis using convert_free[OF assms(1), of w m] assms(2,3) by (meson le_trans max.boundedI not_le)
qed

text \<open>The end of a number of blocks, each with the world it left.\<close>

definition txpay_blocks :: "('w, 'p) txpay_config \<Rightarrow> 'w list \<Rightarrow> 'w txpay_state \<Rightarrow> 'w txpay_state" where
  "txpay_blocks cfg ws s = fold (\<lambda>w s. txpay_on_finalize cfg (s\<lparr>tp_world := w\<rparr>)) ws s"

text \<open>
  C24. The fee multiplier never falls below its minimum after any block, does not fall over a row of
  blocks that are all filled to the target, and does not rise over a row of blocks that are all
  below it.
\<close>

theorem fee_multiplier_follows_congestion:
  assumes "multiplier_laws (tp_fixed cfg)" "tp_min_multiplier cfg \<le> next_fee_multiplier s"
    and "tp_min_multiplier cfg \<le> u128_max" "next_fee_multiplier s \<le> u128_max"
  shows "tp_min_multiplier cfg \<le> next_fee_multiplier (txpay_blocks cfg ws s) \<and>
    (list_all (\<lambda>w. target_weight cfg \<le> normal_weight cfg w) ws \<longrightarrow> next_fee_multiplier s \<le> next_fee_multiplier (txpay_blocks cfg ws s)) \<and>
    (list_all (\<lambda>w. normal_weight cfg w < target_weight cfg) ws \<longrightarrow> next_fee_multiplier (txpay_blocks cfg ws s) \<le> next_fee_multiplier s)"
  using assms(2,4)
proof (induction ws arbitrary: s)
  case (Cons w ws)
  define u where "u = txpay_on_finalize cfg (s\<lparr>tp_world := w\<rparr>)"
  have u: "next_fee_multiplier u = multiplier_convert cfg w (next_fee_multiplier s)"
    by (simp add: u_def txpay_on_finalize_def)
  have low: "tp_min_multiplier cfg \<le> next_fee_multiplier u" "next_fee_multiplier u \<le> u128_max"
    using convert_ge_min convert_fits[OF assms(1) Cons.prems(2) assms(3)] by (simp_all add: u)
  have full: "target_weight cfg \<le> normal_weight cfg w \<Longrightarrow> next_fee_multiplier s \<le> next_fee_multiplier u"
    using convert_full[OF assms(1) Cons.prems(2) assms(3), of w] Cons.prems(1) by (simp add: u max_def)
  have free: "normal_weight cfg w < target_weight cfg \<Longrightarrow> next_fee_multiplier u \<le> next_fee_multiplier s"
    using convert_free[OF assms(1), of w "next_fee_multiplier s"] Cons.prems(1) by (simp add: u max_def split: if_splits)
  have step: "txpay_blocks cfg (w # ws) s = txpay_blocks cfg ws u" by (simp add: txpay_blocks_def u_def)
  show ?case
    using Cons.IH[OF low] full free unfolding step by (auto intro: order.trans)
qed (simp add: txpay_blocks_def)

section \<open>Charging a fee\<close>

text \<open>The first currency that suffices, declaratively.\<close>

definition suffices ::
  "('w, 'p) txpay_config \<Rightarrow> account_id \<Rightarrow> balance \<Rightarrow> withdraw_reason set \<Rightarrow> 'w \<Rightarrow> currency_id \<Rightarrow> bool" where
  "suffices cfg who fee reason w c =
     (if c = tp_native cfg then native_is_enough cfg who fee reason w else \<not> isl (fst (fee_swap cfg who fee c w)))"

lemma pallet_swap_atomic:
  "dm_swap_with_exact_target (pallet_dex dcfg) who path n m limit w = (Inl e, t) \<Longrightarrow> t = w"
  unfolding pallet_dex_def do_swap_with_exact_target_def by (auto dest: transactional_fails)

lemma charge_loop_first:
  assumes "\<And>c e t. fee_swap cfg who fee c w = (Inl e, t) \<Longrightarrow> t = w"
  shows "charge_loop cfg who fee reason cs w =
    (case find (suffices cfg who fee reason w) cs of
       Some c \<Rightarrow> if c = tp_native cfg then w else snd (fee_swap cfg who fee c w)
     | None \<Rightarrow> w)"
proof (induction cs)
  case (Cons c cs)
  show ?case
  proof (cases "fee_swap cfg who fee c w")
    case (Pair r t)
    then have "t = w" if "isl r" using assms that by (cases r) auto
    then show ?thesis using Cons Pair by (cases r) (auto simp: suffices_def)
  qed
qed simp

text \<open>
  C23. With the exchange of this chain, charging a fee tries the currencies of the payer in order,
  his default currency first: the native one suffices if enough of it is free, another one if the
  exchange buys the fee with it, within the slippage. The first one that suffices is used, once, and
  the others are left alone; if none suffices nothing changes.
\<close>

theorem fee_charged_in_first_sufficient_currency:
  assumes "tp_dex cfg = pallet_dex dcfg"
  shows "tp_world (snd (ensure_can_charge_fee cfg who fee reason s)) =
    (case find (suffices cfg who fee reason (tp_world s)) (charge_fee_order cfg who s) of
       Some c \<Rightarrow> if c = tp_native cfg then tp_world s else snd (fee_swap cfg who fee c (tp_world s))
     | None \<Rightarrow> tp_world s)"
proof -
  have "fee_swap cfg who fee c (tp_world s) = (Inl e, t) \<Longrightarrow> t = tp_world s" for c e t
    unfolding fee_swap_def assms by (rule pallet_swap_atomic)
  then show ?thesis by (simp add: ensure_can_charge_fee_def modE_def charge_loop_first)
qed

context exchange_service
begin

lemma charge_loop_keeps:
  assumes "tp_dex cfg = dm" "who \<noteq> own"
  shows "inv w \<Longrightarrow> inv (charge_loop cfg who fee reason cs w)"
proof (induction cs arbitrary: w)
  case (Cons c cs)
  have "inv t" if "fee_swap cfg who fee c w = (r, t)" for r t
    using preservesD[OF swap_target_keeps[OF assms(2)] Cons.prems] that by (simp add: fee_swap_def assms(1))
  then show ?case using Cons by (auto split: prod.splits sum.splits)
qed simp

end

text \<open>Whoever pays, in whatever currency: the swap for the fee keeps the exchange solvent.\<close>

lemma fee_swaps_keep_exchange_solvent:
  assumes "tp_dex cfg = pallet_dex dcfg" "who \<noteq> dex_account dcfg" "dex_sound dcfg (tp_world s)"
  shows "dex_sound dcfg (tp_world (snd (ensure_can_charge_fee cfg who fee reason s)))"
  using pallet_exchange.charge_loop_keeps[OF assms] by (simp add: ensure_can_charge_fee_def modE_def)

section \<open>Settling a fee\<close>

text \<open>Imbalances of the native currency by their amounts, and what paying in and out returns.\<close>

definition imbalance_laws :: "('w, 'p) txpay_config \<Rightarrow> bool" where
  "imbalance_laws cfg \<longleftrightarrow>
     (\<forall>a b. b < a \<longrightarrow> tp_offset cfg a b = Same (a - b)) \<and> (\<forall>a. tp_offset cfg a a = No_imbalance) \<and>
     (\<forall>a b. tp_split cfg a b = (min b a, a - min b a)) \<and>
     (\<forall>who n reason w i t. tp_withdraw cfg who n reason w = (Inr i, t) \<longrightarrow> i = n) \<and>
     (\<forall>who n w i t. tp_deposit_into_existing cfg who n w = (Inr i, t) \<longrightarrow> i = n)"

lemma imbalance_lawsD:
  assumes "imbalance_laws cfg"
  shows "tp_offset cfg a b = (if b < a then Same (a - b) else if b = a then No_imbalance else tp_offset cfg a b)"
    "tp_split cfg a b = (min b a, a - min b a)"
    "tp_withdraw cfg who n reason w = (Inr i, t) \<Longrightarrow> i = n"
    "tp_deposit_into_existing cfg who n w = (Inr i, t) \<Longrightarrow> i = n"
  using assms unfolding imbalance_laws_def by (auto; metis)+

lemma refunded_amount:
  assumes "imbalance_laws cfg" "refund \<le> payed" "tp_deposit_into_existing cfg who refund (tp_world s) = (d, w)"
  shows "refunded cfg who refund payed s = (Inr (if isl d then payed else payed - refund), s\<lparr>tp_world := w\<rparr>)"
proof (cases d)
  case (Inl e)
  then show ?thesis using assms(3) by (simp add: refunded_def attemptE_def inT_def zoomE_def bindE_def okE_def)
next
  case (Inr i)
  then have "i = refund" using imbalance_lawsD(4)[OF assms(1)] assms(3) by blast
  then show ?thesis
    using Inr assms(2,3) imbalance_lawsD(1)[OF assms(1), of payed refund]
    by (auto simp: refunded_def attemptE_def inT_def zoomE_def bindE_def okE_def failE_def split: if_splits)
qed

lemma withdraw_fee_imbalance:
  assumes "imbalance_laws cfg" "withdraw_fee cfg tip who info len s = (Inr (fee, imbalance), t)"
  shows "fee = compute_fee cfg (len mod 2 ^ 32) info tip s \<and> imbalance = (if fee = 0 then None else Some fee)"
  using assms(2) imbalance_lawsD(3)[OF assms(1)]
  by (auto simp: withdraw_fee_def inT_def Let_def zoomE_run split: if_splits)

text \<open>
  C22. What a transaction pays. Once the fee was taken beforehand, settling it after the dispatch
  cannot fail, whatever the dispatch did: the payer gets back what the fee exceeds the actual fee
  by, and exactly the rest is handed over, the tip as far as it reaches and the fee apart. If the
  payer's account is gone, the whole fee is handed over.
\<close>

theorem transaction_pays_actual_fee:
  assumes "imbalance_laws cfg" "txpay_pre_dispatch cfg tip who info len s = (Inr pre, t)"
    and "fee = compute_fee cfg (len mod 2 ^ 32) info tip s" "actual = compute_actual_fee cfg (len mod 2 ^ 32) info post_info tip u"
    and "tp_deposit_into_existing cfg who (fee - actual) (tp_world u) = (d, w)"
    and "paid = (if isl d then fee else min fee actual)"
  shows "txpay_post_dispatch cfg pre info post_info len u =
    (Inr (), if fee = 0 then u else u\<lparr>tp_world := tp_on_unbalanceds cfg [paid - min tip paid, min tip paid] w\<rparr>)"
proof -
  obtain imbalance fee' where run: "withdraw_fee cfg tip who info len s = (Inr (fee', imbalance), t)" "pre = (tip, who, imbalance, fee')"
    using assms(2) by (auto simp: txpay_pre_dispatch_def)
  have pre: "pre = (tip, who, imbalance, fee)" "imbalance = (if fee = 0 then None else Some fee)"
    using withdraw_fee_imbalance[OF assms(1) run(1)] run(2) assms(3) by auto
  have "refunded cfg who (fee - actual) fee u = (Inr paid, u\<lparr>tp_world := w\<rparr>)"
    using refunded_amount[OF assms(1) _ assms(5), of fee] assms(6) by (auto simp: min_def)
  then show ?thesis
    using pre assms(4) by (simp add: txpay_post_dispatch_def bindE_def getE_def okE_def imbalance_lawsD(2)[OF assms(1)]
        on_unbalanceds_def modE_def)
qed

section \<open>Witnesses\<close>

text \<open>
  A configuration on the ledger of the exchange's witness: fees in the first currency of the demo
  pair, payments to account 7, and saturating numbers.
\<close>

definition plain_multiplier :: multiplier_ops where
  "plain_multiplier = \<lparr>fx_checked_from_rational = (\<lambda>n d. if d = 0 then None else Some (n * fx_div div d)),
     fx_saturating_mul_int = (\<lambda>q n. min u128_max (q * n div fx_div)), fx_checked_mul_int = (\<lambda>q n. Some (q * n div fx_div)),
     fx_saturating_mul = (\<lambda>a b. min u128_max (a * b div fx_div)), fx_saturating_from_integer = (\<lambda>n. min u128_max (n * fx_div)),
     fx_saturating_from_rational = (\<lambda>n d. min u128_max (n * fx_div div d)), fx_saturating_add = sat_add u128_max,
     fx_saturating_sub = sat_sub, fx_quotient = (\<lambda>a b. a * fx_div div b)\<rparr>"

lemma plain_multiplier_laws: "multiplier_laws plain_multiplier"
  by (simp add: multiplier_laws_def plain_multiplier_def sat_add_def)

definition demo_txpay :: "(ledger dex_state, unit) txpay_config" where
  "demo_txpay = \<lparr>tp_fixed = plain_multiplier, tp_min_multiplier = 1, tp_target_fullness = (\<lambda>n. n div 4), tp_variability = 10 ^ 13,
     tp_normal_max_total = Some 1000, tp_max_block = 2000, tp_normal_block_weight = (\<lambda>w. 0), tp_base_extrinsic = (\<lambda>c. 5),
     tp_max_block_length = 100, tp_all_non_native = [], tp_native = Token DNAR, tp_setter = Token SETT, tp_byte_fee = 1,
     tp_weight_to_fee = (\<lambda>n. n),
     tp_final_fee = (\<lambda>d. case fd_inclusion_fee d of None \<Rightarrow> fd_tip d
        | Some i \<Rightarrow> if_base_fee i + if_len_fee i + if_adjusted_weight_fee i + fd_tip d),
     tp_actual_weight = (\<lambda>p i. di_weight i - 2), tp_post_pays_fee = (\<lambda>p i. di_pays_fee i), tp_max_slippage = fx_div,
     tp_dex = pallet_dex ledger_dex, tp_multi_free_balance = (\<lambda>c a w. 100), tp_free_balance = (\<lambda>a w. 100),
     tp_can_withdraw = (\<lambda>a n r m w. True), tp_withdraw = (\<lambda>a n r. okE n), tp_deposit_into_existing = (\<lambda>a n. okE n),
     tp_reserve = (\<lambda>a n. okE ()), tp_unreserve = (\<lambda>a n w. (0, w)),
     tp_offset = (\<lambda>a b. if b < a then Same (a - b) else if a = b then No_imbalance else Opposite (b - a)),
     tp_split = (\<lambda>a b. (min b a, a - min b a)), tp_on_unbalanced = (\<lambda>n w. w), tp_on_unbalanceds = (\<lambda>ns w. w)\<rparr>"

definition demo_payment :: "ledger dex_state txpay_state" where
  "demo_payment = \<lparr>next_fee_multiplier = fx_div, default_fee_currency_id = (\<lambda>a. None), tp_world = demo_dex\<rparr>"

theorem fee_multiplier_follows_congestion_witness:
  "1 \<le> next_fee_multiplier (txpay_blocks demo_txpay [demo_dex, demo_dex] demo_payment) \<and>
   next_fee_multiplier (txpay_blocks demo_txpay [demo_dex, demo_dex] demo_payment) \<le> fx_div"
proof -
  have "fx_div \<le> u128_max" "1 \<le> u128_max" "1 \<le> fx_div" by (simp_all add: fx_div_def u128_max_def)
  then have "tp_min_multiplier demo_txpay \<le> next_fee_multiplier demo_payment" "tp_min_multiplier demo_txpay \<le> u128_max"
      "next_fee_multiplier demo_payment \<le> u128_max" "multiplier_laws (tp_fixed demo_txpay)"
    using plain_multiplier_laws by (simp_all add: demo_txpay_def demo_payment_def)
  from fee_multiplier_follows_congestion[OF this(4,1,2,3), of "[demo_dex, demo_dex]"] show ?thesis
    by (simp add: demo_txpay_def demo_payment_def normal_weight_def target_weight_def)
qed

theorem fee_charged_in_first_sufficient_currency_witness:
  "tp_world (snd (ensure_can_charge_fee demo_txpay 3 40 {TRANSACTION_PAYMENT} demo_payment)) = demo_dex"
  using fee_charged_in_first_sufficient_currency[of demo_txpay ledger_dex 3 40 "{TRANSACTION_PAYMENT}" demo_payment]
  by (simp add: demo_txpay_def demo_payment_def charge_fee_order_def suffices_def native_is_enough_def chk_sub_def)

definition demo_call :: dispatch_info where
  "demo_call = \<lparr>di_weight = 10, di_class = Normal, di_pays_fee = True\<rparr>"

theorem transaction_pays_actual_fee_witness:
  "fst (txpay_post_dispatch demo_txpay (1, 3, Some 19, 19) demo_call () 3 demo_payment) = (Inr () :: validity_error + unit) \<and>
   compute_fee demo_txpay 3 demo_call 1 demo_payment = 19"
proof -
  have fee: "compute_fee demo_txpay (3 mod 2 ^ 32) demo_call 1 demo_payment = 19"
    by (simp add: compute_fee_def compute_fee_details_def compute_fee_raw_def demo_txpay_def demo_call_def demo_payment_def
        weight_to_fee_def plain_multiplier_def fx_div_def u128_max_def sat_mul_def)
  have laws: "imbalance_laws demo_txpay" by (simp add: imbalance_laws_def demo_txpay_def okE_def)
  have "charge_loop demo_txpay 3 19 r (charge_fee_order demo_txpay 3 demo_payment) demo_dex = demo_dex" for r
    by (simp add: demo_txpay_def demo_payment_def charge_fee_order_def native_is_enough_def chk_sub_def)
  then have pre: "txpay_pre_dispatch demo_txpay 1 3 demo_call 3 demo_payment = (Inr (1, 3, Some 19, 19), demo_payment)"
    using fee by (simp add: txpay_pre_dispatch_def withdraw_fee_def Let_def inT_def zoomE_def ensure_can_charge_fee_def bindE_def thenE_def
        getE_def modE_def okE_def map_errE_def demo_payment_def demo_txpay_def[THEN arg_cong[of _ _ tp_withdraw]])
  show ?thesis
    using transaction_pays_actual_fee[OF laws pre fee[symmetric] refl surjective_pairing refl, of "()" demo_payment] fee by simp
qed

end
