(* ===== verification/Incentives.thy ===== *)
theory Incentives
  imports Currency_Interface
begin

text \<open>
  The incentives pallet, \<open>lib-serml/dex/incentives/src/lib.rs\<close>: liquidity providers lock their LP
  tokens with the pallet and share rewards. The shares are kept by the rewards library, whose state
  is \<open>'r\<close>; where the library pays a reward it calls back the handler of this pallet, so that an
  operation of the library returns the list of the payouts it asked for. The currency is a parameter
  on the world \<open>'w\<close>. The update of the accumulation period is not modelled: its storage has no value
  type and its loop runs over a name that is not bound.
\<close>

datatype pool_id = DexIncentive currency_id | DexPremium currency_id

datatype incentives_event =
    DepositDexShare account_id currency_id balance
  | WithdrawDexShare account_id currency_id balance
  | ClaimRewards account_id pool_id

type_synonym payouts = "(account_id \<times> pool_id \<times> balance) list"

text \<open>The library: \<open>share_and_withdrawn_reward\<close>, its operations, and the total shares of its pools.\<close>

record 'r rewards_ops =
  rw_share :: "pool_id \<Rightarrow> account_id \<Rightarrow> 'r \<Rightarrow> balance \<times> balance"
  rw_add_share :: "account_id \<Rightarrow> pool_id \<Rightarrow> balance \<Rightarrow> 'r \<Rightarrow> 'r"
  rw_remove_share :: "account_id \<Rightarrow> pool_id \<Rightarrow> balance \<Rightarrow> 'r \<Rightarrow> payouts \<times> 'r"
  rw_claim :: "account_id \<Rightarrow> pool_id \<Rightarrow> 'r \<Rightarrow> payouts \<times> 'r"
  rw_pools :: "'r \<Rightarrow> (pool_id \<times> balance) list"

record ('w, 'r) incentives_config =
  ic_currency :: "'w multi_currency"
  ic_rewards :: "'r rewards_ops"
  ic_account :: account_id
  ic_incentive_pool :: account_id
  ic_premium_pool :: account_id
  ic_stable_currency_ids :: "currency_id list"
  ic_incentive_currency_id :: currency_id
  ic_premium_currency_id :: currency_id
  ic_update_origin :: "origin \<Rightarrow> bool"

record ('w, 'r) incentives_state =
  dex_incentive_rewards :: "currency_id \<Rightarrow> balance"
  dex_premium_rewards :: "currency_id \<Rightarrow> balance"
  accumulate_period :: block_number
  ic_library :: 'r
  ic_world :: 'w
  ic_events :: "incentives_event list"

definition inI :: "('e, 'w, 'a) effect \<Rightarrow> ('e, ('w, 'r) incentives_state, 'a) effect" where
  "inI m = zoomE ic_world (\<lambda>w s. s\<lparr>ic_world := w\<rparr>) m"

definition ic_deposit_event :: "incentives_event \<Rightarrow> ('e, ('w, 'r) incentives_state, unit) effect" where
  "ic_deposit_event ev = modE (\<lambda>s. s\<lparr>ic_events := ic_events s @ [ev]\<rparr>)"

section \<open>The handler of rewards\<close>

text \<open>The error of a failing payout is ignored.\<close>

definition payout :: "('w, 'r) incentives_config \<Rightarrow> account_id \<times> pool_id \<times> balance \<Rightarrow> 'w \<Rightarrow> 'w" where
  "payout cfg = (\<lambda>(who, pool, amount) w.
     let (pool_account, c) = (case pool of
           DexIncentive _ \<Rightarrow> (ic_incentive_pool cfg, ic_incentive_currency_id cfg)
         | DexPremium _ \<Rightarrow> (ic_premium_pool cfg, ic_premium_currency_id cfg))
     in snd (mc_transfer (ic_currency cfg) c pool_account who amount w))"

text \<open>An operation of the library with the payouts it asks for.\<close>

definition in_rewards :: "('w, 'r) incentives_config \<Rightarrow> ('r \<Rightarrow> payouts \<times> 'r) \<Rightarrow> ('e, ('w, 'r) incentives_state, unit) effect" where
  "in_rewards cfg f = modE (\<lambda>s. case f (ic_library s) of (ps, r) \<Rightarrow>
     s\<lparr>ic_library := r, ic_world := fold (payout cfg) ps (ic_world s)\<rparr>)"

text \<open>One pool of a round of accumulation: the reward of its currency is issued and credited.\<close>

definition accumulate_pool ::
  "('w, 'r) incentives_config \<Rightarrow> (pool_id \<Rightarrow> balance \<Rightarrow> 'r \<Rightarrow> 'r) \<Rightarrow> pool_id \<times> balance \<Rightarrow>
   ('w, 'r) incentives_state \<times> balance \<times> balance \<Rightarrow> ('w, 'r) incentives_state \<times> balance \<times> balance" where
  "accumulate_pool cfg callback = (\<lambda>(pool, total_shares) (s, incentive, premium).
     if total_shares = 0 then (s, incentive, premium)
     else
       (let (reward, c, account) = (case pool of
              DexIncentive x \<Rightarrow> (dex_incentive_rewards s x, ic_incentive_currency_id cfg, ic_incentive_pool cfg)
            | DexPremium x \<Rightarrow> (dex_premium_rewards s x, ic_premium_currency_id cfg, ic_premium_pool cfg))
        in if reward = 0 then (s, incentive, premium)
           else case mc_deposit (ic_currency cfg) c account reward (ic_world s) of
                  (Inl _, w) \<Rightarrow> (s\<lparr>ic_world := w\<rparr>, incentive, premium)
                | (Inr _, w) \<Rightarrow>
                    (s\<lparr>ic_world := w, ic_library := callback pool reward (ic_library s)\<rparr>,
                     (case pool of DexIncentive _ \<Rightarrow> sat_add u128_max incentive reward | DexPremium _ \<Rightarrow> incentive),
                     (case pool of DexIncentive _ \<Rightarrow> premium | DexPremium _ \<Rightarrow> sat_add u128_max premium reward))))"

text \<open>The remainder panics for a period of 0, which is the default.\<close>

definition accumulate_reward ::
  "('w, 'r) incentives_config \<Rightarrow> block_number \<Rightarrow> (pool_id \<Rightarrow> balance \<Rightarrow> 'r \<Rightarrow> 'r) \<Rightarrow>
   (('w, 'r) incentives_state, (currency_id \<times> balance) list) eff" where
  "accumulate_reward cfg now callback s =
     (if accumulate_period s = 0 then (Inl Panic, s)
      else if now mod accumulate_period s \<noteq> 0 then (Inr [], s)
      else
        (case fold (accumulate_pool cfg callback) (rw_pools (ic_rewards cfg) (ic_library s)) (s, 0, 0) of
           (t, incentive, premium) \<Rightarrow>
             (Inr ((if incentive \<noteq> 0 then [(ic_incentive_currency_id cfg, incentive)] else []) @
                   (if premium \<noteq> 0 then [(ic_premium_currency_id cfg, premium)] else [])), t)))"

section \<open>Shares\<close>

definition do_deposit_dex_share ::
  "('w, 'r) incentives_config \<Rightarrow> account_id \<Rightarrow> currency_id \<Rightarrow> balance \<Rightarrow> (('w, 'r) incentives_state, unit) eff" where
  "do_deposit_dex_share cfg who c amount =
     thenE (ensure (is_dex_share_currency_id c) (Incentives_Error Incentives_InvalidCurrencyId)) (
     thenE (inI (mc_transfer (ic_currency cfg) c who (ic_account cfg) amount)) (
     thenE (in_rewards cfg (\<lambda>r. ([], rw_add_share (ic_rewards cfg) who (DexIncentive c) amount r))) (
     thenE (in_rewards cfg (\<lambda>r. ([], rw_add_share (ic_rewards cfg) who (DexPremium c) amount r)))
       (ic_deposit_event (DepositDexShare who c amount)))))"

definition do_withdraw_dex_share ::
  "('w, 'r) incentives_config \<Rightarrow> account_id \<Rightarrow> currency_id \<Rightarrow> balance \<Rightarrow> (('w, 'r) incentives_state, unit) eff" where
  "do_withdraw_dex_share cfg who c amount =
     thenE (ensure (is_dex_share_currency_id c) (Incentives_Error Incentives_InvalidCurrencyId)) (
     bindE (getE (\<lambda>s. (fst (rw_share (ic_rewards cfg) (DexIncentive c) who (ic_library s)),
                       fst (rw_share (ic_rewards cfg) (DexPremium c) who (ic_library s))))) (\<lambda>(incentive, premium).
     thenE (ensure (incentive \<ge> amount \<and> premium \<ge> amount) (Incentives_Error NotEnough)) (
     thenE (inI (mc_transfer (ic_currency cfg) c (ic_account cfg) who amount)) (
     thenE (in_rewards cfg (rw_remove_share (ic_rewards cfg) who (DexIncentive c) amount)) (
     thenE (in_rewards cfg (rw_remove_share (ic_rewards cfg) who (DexPremium c) amount))
       (ic_deposit_event (WithdrawDexShare who c amount)))))))"

section \<open>Dispatchables\<close>

definition deposit_dex_share ::
  "('w, 'r) incentives_config \<Rightarrow> origin \<Rightarrow> currency_id \<Rightarrow> balance \<Rightarrow> (('w, 'r) incentives_state, unit) eff" where
  "deposit_dex_share cfg org c amount = transactional (
     bindE (ensure_signed org) (\<lambda>who. do_deposit_dex_share cfg who c amount))"

definition withdraw_dex_share ::
  "('w, 'r) incentives_config \<Rightarrow> origin \<Rightarrow> currency_id \<Rightarrow> balance \<Rightarrow> (('w, 'r) incentives_state, unit) eff" where
  "withdraw_dex_share cfg org c amount = transactional (
     bindE (ensure_signed org) (\<lambda>who. do_withdraw_dex_share cfg who c amount))"

definition claim_rewards :: "('w, 'r) incentives_config \<Rightarrow> origin \<Rightarrow> pool_id \<Rightarrow> (('w, 'r) incentives_state, unit) eff" where
  "claim_rewards cfg org pool = transactional (
     bindE (ensure_signed org) (\<lambda>who.
     thenE (in_rewards cfg (rw_claim (ic_rewards cfg) who pool))
       (ic_deposit_event (ClaimRewards who pool))))"

definition update_dex_incentive_rewards ::
  "('w, 'r) incentives_config \<Rightarrow> origin \<Rightarrow> (currency_id \<times> balance) list \<Rightarrow> (('w, 'r) incentives_state, unit) eff" where
  "update_dex_incentive_rewards cfg org updates = transactional (
     thenE (ensure (ic_update_origin cfg org) BadOrigin)
       (forE updates (\<lambda>(c, amount).
          thenE (ensure (is_dex_share_currency_id c) (Incentives_Error Incentives_InvalidCurrencyId))
            (modE (\<lambda>s. s\<lparr>dex_incentive_rewards := (dex_incentive_rewards s)(c := amount)\<rparr>)))))"

definition update_dex_premium_rewards ::
  "('w, 'r) incentives_config \<Rightarrow> origin \<Rightarrow> (currency_id \<times> balance) list \<Rightarrow> (('w, 'r) incentives_state, unit) eff" where
  "update_dex_premium_rewards cfg org updates = transactional (
     thenE (ensure (ic_update_origin cfg org) BadOrigin)
       (forE updates (\<lambda>(c, amount).
          thenE (ensure (is_dex_share_currency_id c) (Incentives_Error Incentives_InvalidCurrencyId)) (
          thenE (ensure (c \<in> set (ic_stable_currency_ids cfg)) (Incentives_Error Incentives_InvalidCurrencyId))
            (modE (\<lambda>s. s\<lparr>dex_premium_rewards := (dex_premium_rewards s)(c := amount)\<rparr>))))))"

end
