(* ===== verification/Incentives_Properties.thy ===== *)
theory Incentives_Properties
  imports Incentives Ledger
begin

text \<open>
  Properties of the incentives pallet: staked LP tokens are always backed by the pallet's account
  and both pools of a pair know the same shares, over every run of calls and rounds of rewards; and
  premium rewards cannot be configured while the stable currencies are tokens.
\<close>

section \<open>What is assumed of the rewards library\<close>

definition share_of :: "('w, 'r) incentives_config \<Rightarrow> pool_id \<Rightarrow> account_id \<Rightarrow> 'r \<Rightarrow> balance" where
  "share_of cfg p who r = fst (rw_share (ic_rewards cfg) p who r)"

definition add_share_law :: "('w, 'r) incentives_config \<Rightarrow> bool" where
  "add_share_law cfg \<longleftrightarrow> (\<forall>q x who p n r. share_of cfg q x (rw_add_share (ic_rewards cfg) who p n r) =
     (if q = p \<and> x = who then sat_add u128_max (share_of cfg q x r) n else share_of cfg q x r))"

definition remove_share_law :: "('w, 'r) incentives_config \<Rightarrow> bool" where
  "remove_share_law cfg \<longleftrightarrow> (\<forall>q x who p n r. share_of cfg q x (snd (rw_remove_share (ic_rewards cfg) who p n r)) =
     (if q = p \<and> x = who then share_of cfg q x r - n else share_of cfg q x r))"

definition claim_law :: "('w, 'r) incentives_config \<Rightarrow> bool" where
  "claim_law cfg \<longleftrightarrow> (\<forall>q x who p r. share_of cfg q x (snd (rw_claim (ic_rewards cfg) who p r)) = share_of cfg q x r)"

definition callback_law :: "('w, 'r) incentives_config \<Rightarrow> (pool_id \<Rightarrow> balance \<Rightarrow> 'r \<Rightarrow> 'r) \<Rightarrow> bool" where
  "callback_law cfg callback \<longleftrightarrow> (\<forall>q x p n r. share_of cfg q x (callback p n r) = share_of cfg q x r)"

text \<open>The pallet's account holds no rewards, and failing transfers leave the balances alone.\<close>

definition incentives_env :: "('w, 'r) incentives_config \<Rightarrow> (pool_id \<Rightarrow> balance \<Rightarrow> 'r \<Rightarrow> 'r) \<Rightarrow> bool" where
  "incentives_env cfg callback \<longleftrightarrow> custody (ic_currency cfg) (ic_account cfg) \<and>
     (\<forall>c a b n w e w'. mc_transfer (ic_currency cfg) c a b n w = (Inl e, w') \<longrightarrow> w' = w) \<and>
     ic_incentive_pool cfg \<noteq> ic_account cfg \<and> ic_premium_pool cfg \<noteq> ic_account cfg \<and>
     add_share_law cfg \<and> remove_share_law cfg \<and> claim_law cfg \<and> callback_law cfg callback"

abbreviation held_by :: "('w, 'r) incentives_config \<Rightarrow> 'w \<Rightarrow> currency_id \<Rightarrow> balance" where
  "held_by cfg w c \<equiv> mc_free_balance (ic_currency cfg) c (ic_account cfg) w"

lemma incentives_envD:
  assumes "incentives_env cfg callback"
  shows "custody (ic_currency cfg) (ic_account cfg)"
    "mc_transfer (ic_currency cfg) c a b n w = (Inl e, w') \<Longrightarrow> w' = w"
    "ic_incentive_pool cfg \<noteq> ic_account cfg" "ic_premium_pool cfg \<noteq> ic_account cfg"
    "share_of cfg q x (rw_add_share (ic_rewards cfg) who p n r) =
      (if q = p \<and> x = who then sat_add u128_max (share_of cfg q x r) n else share_of cfg q x r)"
    "share_of cfg q x (snd (rw_remove_share (ic_rewards cfg) who p n r)) =
      (if q = p \<and> x = who then share_of cfg q x r - n else share_of cfg q x r)"
    "share_of cfg q x (snd (rw_claim (ic_rewards cfg) who p r)) = share_of cfg q x r"
    "share_of cfg q x (callback p n r) = share_of cfg q x r"
  using assms
  by (auto simp only: incentives_env_def add_share_law_def remove_share_law_def claim_law_def callback_law_def)

section \<open>Backed shares\<close>

definition shares_backed :: "('w, 'r) incentives_config \<Rightarrow> 'r \<Rightarrow> (currency_id \<Rightarrow> balance) \<Rightarrow> bool" where
  "shares_backed cfg r h \<longleftrightarrow> (\<forall>c. sums_below (\<lambda>who. share_of cfg (DexIncentive c) who r) (h c) \<and>
     (\<forall>who. share_of cfg (DexPremium c) who r = share_of cfg (DexIncentive c) who r))"

definition incentives_inv :: "('w, 'r) incentives_config \<Rightarrow> ('w, 'r) incentives_state \<Rightarrow> bool" where
  "incentives_inv cfg s \<longleftrightarrow> shares_backed cfg (ic_library s) (held_by cfg (ic_world s))"

lemma shares_backed_same:
  assumes "shares_backed cfg r h" "\<And>q x. share_of cfg q x r' = share_of cfg q x r" "\<And>c. h c \<le> h' c"
  shows "shares_backed cfg r' h'"
  using assms(1,3) unfolding shares_backed_def assms(2) by (blast intro: sums_below_mono)

lemma payout_keeps:
  assumes "incentives_env cfg callback"
  shows "held_by cfg w c \<le> held_by cfg (payout cfg p w) c"
proof -
  obtain who pool n where p: "p = (who, pool, n)" by (cases p)
  define a where "a = (case pool of DexIncentive _ \<Rightarrow> ic_incentive_pool cfg | DexPremium _ \<Rightarrow> ic_premium_pool cfg)"
  define d where "d = (case pool of DexIncentive _ \<Rightarrow> ic_incentive_currency_id cfg | DexPremium _ \<Rightarrow> ic_premium_currency_id cfg)"
  have a: "a \<noteq> ic_account cfg" using incentives_envD(3,4)[OF assms] by (simp add: a_def split: pool_id.split)
  have out: "payout cfg p w = snd (mc_transfer (ic_currency cfg) d a who n w)"
    by (simp add: payout_def p a_def d_def split: pool_id.split)
  obtain r t where run: "mc_transfer (ic_currency cfg) d a who n w = (r, t)" by fastforce
  show ?thesis
  proof (cases r)
    case (Inl e)
    then show ?thesis using incentives_envD(2)[OF assms] run out by fastforce
  next
    case (Inr u)
    then have run: "mc_transfer (ic_currency cfg) d a who n w = (Inr (), t)" using run by simp
    have "held_by cfg w c \<le> held_by cfg t c"
    proof (cases "who = ic_account cfg")
      case True
      then show ?thesis using custody_in[OF incentives_envD(1)[OF assms] a, of d n w t c] run by simp
    next
      case False
      then show ?thesis
        using incentives_envD(1)[OF assms] run a unfolding custody_def custody_others_law_def by blast
    qed
    then show ?thesis using run out by simp
  qed
qed

lemma payouts_keep:
  assumes "incentives_env cfg callback"
  shows "held_by cfg w c \<le> held_by cfg (fold (payout cfg) ps w) c"
proof (induction ps arbitrary: w)
  case (Cons p ps)
  then show ?case using payout_keeps[OF assms, where w = w and c = c and p = p] le_trans by fastforce
qed simp

lemma in_rewards_run [simp, runs]:
  "in_rewards cfg f s = (Inr x, t) \<longleftrightarrow>
   t = s\<lparr>ic_library := snd (f (ic_library s)), ic_world := fold (payout cfg) (fst (f (ic_library s))) (ic_world s)\<rparr>"
  by (auto simp: in_rewards_def split: prod.splits)

lemma inI_run [simp, runs]: "inI m s = (Inr x, t) \<longleftrightarrow> (\<exists>w. m (ic_world s) = (Inr x, w) \<and> t = s\<lparr>ic_world := w\<rparr>)"
  by (simp add: inI_def zoomE_run)

lemma ic_deposit_event_run [simp, runs]: "ic_deposit_event ev s = (Inr x, t) \<longleftrightarrow> t = s\<lparr>ic_events := ic_events s @ [ev]\<rparr>"
  by (simp add: ic_deposit_event_def)

lemma deposit_backed:
  assumes env: "incentives_env cfg callback" and inv: "shares_backed cfg r h" and h: "\<And>d. h' d = h d + (if d = c then n else 0)"
  shows "shares_backed cfg (rw_add_share (ic_rewards cfg) who (DexPremium c) n (rw_add_share (ic_rewards cfg) who (DexIncentive c) n r)) h'"
    (is "shares_backed cfg ?r h'")
  unfolding shares_backed_def
proof (intro allI conjI)
  fix d
  have old: "sums_below (\<lambda>x. share_of cfg (DexIncentive d) x r) (h d)" using inv by (simp add: shares_backed_def)
  show "sums_below (\<lambda>x. share_of cfg (DexIncentive d) x ?r) (h' d)"
    by (rule sums_below_update[OF old, where i = who]) (auto simp: incentives_envD(5)[OF env] h sat_add_def)
  fix x
  show "share_of cfg (DexPremium d) x ?r = share_of cfg (DexIncentive d) x ?r"
    using inv by (simp add: shares_backed_def incentives_envD(5)[OF env])
qed

lemma withdraw_backed:
  assumes env: "incentives_env cfg callback" and inv: "shares_backed cfg r h"
    and h: "h' c + n = h c" "\<And>d. d \<noteq> c \<Longrightarrow> h' d = h d" and n: "n \<le> share_of cfg (DexIncentive c) who r"
  shows "shares_backed cfg (snd (rw_remove_share (ic_rewards cfg) who (DexPremium c) n
    (snd (rw_remove_share (ic_rewards cfg) who (DexIncentive c) n r)))) h'" (is "shares_backed cfg ?r h'")
  unfolding shares_backed_def
proof (intro allI conjI)
  fix d
  have old: "sums_below (\<lambda>x. share_of cfg (DexIncentive d) x r) (h d)" using inv by (simp add: shares_backed_def)
  show "sums_below (\<lambda>x. share_of cfg (DexIncentive d) x ?r) (h' d)"
    by (rule sums_below_update[OF old, where i = who])
      (use n h in \<open>cases "d = c"; auto simp: incentives_envD(6)[OF env]\<close>)+
  fix x
  show "share_of cfg (DexPremium d) x ?r = share_of cfg (DexIncentive d) x ?r"
    using inv by (simp add: shares_backed_def incentives_envD(6)[OF env])
qed

section \<open>Calls\<close>

datatype incentives_call =
    Deposit_share currency_id balance
  | Withdraw_share currency_id balance
  | Claim pool_id
  | Update_incentive "(currency_id \<times> balance) list"
  | Update_premium "(currency_id \<times> balance) list"
  | Accumulate block_number

definition incentives_exec ::
  "('w, 'r) incentives_config \<Rightarrow> (pool_id \<Rightarrow> balance \<Rightarrow> 'r \<Rightarrow> 'r) \<Rightarrow> origin \<times> incentives_call \<Rightarrow>
   (('w, 'r) incentives_state, unit) eff" where
  "incentives_exec cfg callback = (\<lambda>(org, call). case call of
     Deposit_share c n \<Rightarrow> deposit_dex_share cfg org c n
   | Withdraw_share c n \<Rightarrow> withdraw_dex_share cfg org c n
   | Claim p \<Rightarrow> claim_rewards cfg org p
   | Update_incentive us \<Rightarrow> update_dex_incentive_rewards cfg org us
   | Update_premium us \<Rightarrow> update_dex_premium_rewards cfg org us
   | Accumulate now \<Rightarrow> thenE (accumulate_reward cfg now callback) (okE ()))"

text \<open>Nobody signs for the pallet's account.\<close>

definition incentives_admissible ::
  "('w, 'r) incentives_config \<Rightarrow> (pool_id \<Rightarrow> balance \<Rightarrow> 'r \<Rightarrow> 'r) \<Rightarrow> origin \<times> incentives_call \<Rightarrow> bool" where
  "incentives_admissible cfg callback call \<longleftrightarrow> incentives_env cfg callback \<and> fst call \<noteq> Signed (ic_account cfg)"

lemma incentives_inv_same:
  "incentives_inv cfg s \<Longrightarrow> ic_library t = ic_library s \<Longrightarrow> ic_world t = ic_world s \<Longrightarrow> incentives_inv cfg t"
  by (simp add: incentives_inv_def)

lemma do_deposit_inv:
  assumes env: "incentives_env cfg callback" and inv: "incentives_inv cfg s" and who: "who \<noteq> ic_account cfg"
    and run: "do_deposit_dex_share cfg who c n s = (Inr (), t)"
  shows "incentives_inv cfg t"
proof -
  obtain w where pay: "mc_transfer (ic_currency cfg) c who (ic_account cfg) n (ic_world s) = (Inr (), w)"
    and t: "ic_world t = w" "ic_library t = rw_add_share (ic_rewards cfg) who (DexPremium c) n
        (rw_add_share (ic_rewards cfg) who (DexIncentive c) n (ic_library s))"
    using run by (auto simp: do_deposit_dex_share_def)
  show ?thesis
    unfolding incentives_inv_def t
    by (rule deposit_backed[OF env inv[unfolded incentives_inv_def]]) (rule custody_in[OF incentives_envD(1)[OF env] who pay])
qed

lemma do_withdraw_inv:
  assumes env: "incentives_env cfg callback" and inv: "incentives_inv cfg s" and who: "who \<noteq> ic_account cfg"
    and run: "do_withdraw_dex_share cfg who c n s = (Inr (), t)"
  shows "incentives_inv cfg t"
proof -
  define r1 where "r1 = rw_remove_share (ic_rewards cfg) who (DexIncentive c) n (ic_library s)"
  define r2 where "r2 = rw_remove_share (ic_rewards cfg) who (DexPremium c) n (snd r1)"
  obtain w where pay: "mc_transfer (ic_currency cfg) c (ic_account cfg) who n (ic_world s) = (Inr (), w)"
    and n: "n \<le> share_of cfg (DexIncentive c) who (ic_library s)"
    and t: "ic_library t = snd r2" "ic_world t = fold (payout cfg) (fst r2) (fold (payout cfg) (fst r1) w)"
    using run by (auto simp: do_withdraw_dex_share_def r1_def r2_def share_of_def)
  have moved: "held_by cfg w d + (if d = c then n else 0) = held_by cfg (ic_world s) d" for d
    by (rule custody_out[OF incentives_envD(1)[OF env] who pay])
  have backed: "shares_backed cfg (snd r2) (held_by cfg w)"
    unfolding r2_def r1_def
  proof (rule withdraw_backed[OF env inv[unfolded incentives_inv_def] _ _ n])
    show "held_by cfg w c + n = held_by cfg (ic_world s) c" using moved[of c] by simp
    show "held_by cfg w d = held_by cfg (ic_world s) d" if "d \<noteq> c" for d using moved[of d] that by simp
  qed
  have "held_by cfg w d \<le> held_by cfg (ic_world t) d" for d
    unfolding t using payouts_keep[OF env] le_trans by blast
  then show ?thesis
    unfolding incentives_inv_def t(1) by (rule shares_backed_same[OF backed refl])
qed

lemma claim_inv:
  assumes env: "incentives_env cfg callback" and inv: "incentives_inv cfg s"
  shows "incentives_inv cfg (s\<lparr>ic_library := snd (rw_claim (ic_rewards cfg) who p (ic_library s)),
    ic_world := fold (payout cfg) (fst (rw_claim (ic_rewards cfg) who p (ic_library s))) (ic_world s), ic_events := es\<rparr>)"
  using shares_backed_same[OF inv[unfolded incentives_inv_def], of "snd (rw_claim (ic_rewards cfg) who p (ic_library s))"]
    incentives_envD(7)[OF env] payouts_keep[OF env] by (simp add: incentives_inv_def)

lemma accumulate_pool_inv:
  assumes env: "incentives_env cfg callback" and inv: "incentives_inv cfg s"
  shows "incentives_inv cfg (fst (accumulate_pool cfg callback p (s, i, j)))"
proof -
  have grow: "held_by cfg (ic_world s) d \<le> held_by cfg w d" if "mc_deposit (ic_currency cfg) c a n (ic_world s) = (r, w)" for c a n r w d
    by (rule custody_deposit[OF incentives_envD(1)[OF env] that])
  have same: "incentives_inv cfg (s\<lparr>ic_world := w\<rparr>)" "incentives_inv cfg (s\<lparr>ic_world := w, ic_library := callback p' n' (ic_library s)\<rparr>)"
    if "mc_deposit (ic_currency cfg) c a n (ic_world s) = (r, w)" for c a n r w p' n'
    using shares_backed_same[OF inv[unfolded incentives_inv_def]] grow[OF that] incentives_envD(8)[OF env]
    by (simp_all add: incentives_inv_def)
  show ?thesis
    using inv same by (auto simp: accumulate_pool_def Let_def split: prod.split sum.split pool_id.split)
qed

lemma accumulate_inv:
  assumes "incentives_env cfg callback"
  shows "preserves (incentives_inv cfg) (accumulate_reward cfg now callback)"
proof (rule preservesI)
  fix s r t
  assume inv: "incentives_inv cfg s" and run: "accumulate_reward cfg now callback s = (r, t)"
  have "incentives_inv cfg (fst (fold (accumulate_pool cfg callback) ps (u, i, j)))" if "incentives_inv cfg u" for ps u i j
    using that
  proof (induction ps arbitrary: u i j)
    case (Cons p ps)
    then show ?case using accumulate_pool_inv[OF assms Cons.prems, of p i j] by (cases "accumulate_pool cfg callback p (u, i, j)") simp
  qed simp
  from this[OF inv, of "rw_pools (ic_rewards cfg) (ic_library s)" 0 0] show "incentives_inv cfg t"
    using run inv by (auto simp: accumulate_reward_def split: if_splits prod.splits)
qed

lemma updates_inv:
  assumes "\<And>u. preserves (incentives_inv cfg) (f u)"
  shows "preserves (incentives_inv cfg) (transactional (thenE (ensure b e) (forE us f)))"
  by (intro keeps assms)

lemma incentives_exec_keeps:
  assumes "incentives_admissible cfg callback call"
  shows "preserves (incentives_inv cfg) (incentives_exec cfg callback call)"
proof -
  obtain org op where call: "call = (org, op)" by (cases call)
  have env: "incentives_env cfg callback" and org: "\<And>who. org = Signed who \<Longrightarrow> who \<noteq> ic_account cfg"
    using assms by (auto simp: incentives_admissible_def call)
  show ?thesis
  proof (cases op)
    case (Deposit_share c n)
    show ?thesis unfolding call Deposit_share incentives_exec_def prod.case incentives_call.case deposit_dex_share_def
      by (intro keeps_transactional_ok) (auto intro: do_deposit_inv[OF env _ org])
  next
    case (Withdraw_share c n)
    show ?thesis unfolding call Withdraw_share incentives_exec_def prod.case incentives_call.case withdraw_dex_share_def
      by (intro keeps_transactional_ok) (auto intro: do_withdraw_inv[OF env _ org])
  next
    case (Claim p)
    show ?thesis unfolding call Claim incentives_exec_def prod.case incentives_call.case claim_rewards_def
      by (intro keeps_transactional_ok) (auto intro: claim_inv[OF env])
  next
    case (Update_incentive us)
    show ?thesis unfolding call Update_incentive incentives_exec_def prod.case incentives_call.case update_dex_incentive_rewards_def
      by (auto intro!: updates_inv keeps keeps_modE intro: incentives_inv_same split: prod.split)
  next
    case (Update_premium us)
    show ?thesis unfolding call Update_premium incentives_exec_def prod.case incentives_call.case update_dex_premium_rewards_def
      by (auto intro!: updates_inv keeps keeps_modE intro: incentives_inv_same split: prod.split)
  next
    case (Accumulate now)
    show ?thesis unfolding call Accumulate incentives_exec_def prod.case incentives_call.case
      by (auto intro!: keeps accumulate_inv[OF env])
  qed
qed

interpretation incentives_machine: pallet_machine "incentives_exec cfg callback" "incentives_admissible cfg callback" "incentives_inv cfg" for cfg callback
  by unfold_locales (rule incentives_exec_keeps)

text \<open>
  C27. Staked LP tokens are safe: after every run of deposits, withdrawals, claims, updates and rounds
  of rewards, whoever made them, the shares of any accounts in a pool of a currency are together
  backed by what the pallet's account holds of it, and both pools of a currency know the same shares,
  so that nobody's withdrawal is refused because the pools disagree.
\<close>

theorem staked_shares_backed:
  assumes "incentives_inv cfg s" "list_all (incentives_admissible cfg callback) calls" "finite accounts"
    and "t = run_calls (incentives_exec cfg callback) calls s"
  shows "(\<Sum>who\<in>accounts. share_of cfg (DexIncentive c) who (ic_library t)) \<le> mc_free_balance (ic_currency cfg) c (ic_account cfg) (ic_world t) \<and>
    share_of cfg (DexPremium c) who (ic_library t) = share_of cfg (DexIncentive c) who (ic_library t)"
proof -
  have "incentives_inv cfg t" using assms(1,2,4) by (simp add: incentives_machine.run_calls_inv)
  then show ?thesis using assms(3) by (simp add: incentives_inv_def shares_backed_def sums_below_def)
qed

section \<open>Premium rewards\<close>

text \<open>
  Premium rewards cannot be set while the stable currencies are no liquidity shares, as in the
  runtimes, where they are tokens: every update that names a currency is refused, since the code asks
  for a currency that is both, and nothing changes.
\<close>

theorem premium_rewards_cannot_be_set:
  assumes "list_all (\<lambda>c. \<not> is_dex_share_currency_id c) (ic_stable_currency_ids cfg)" "updates \<noteq> []"
  shows "update_dex_premium_rewards cfg org updates s =
    (Inl (if ic_update_origin cfg org then Incentives_Error Incentives_InvalidCurrencyId else BadOrigin), s)"
proof -
  obtain c n us where "updates = (c, n) # us" using assms(2) by (cases updates) auto
  then show ?thesis
    using assms(1) by (auto simp: update_dex_premium_rewards_def eff_defs list_all_iff)
qed

section \<open>Witnesses\<close>

text \<open>A rewards library that keeps shares and pays one unit of reward on every claim.\<close>

type_synonym plain_rewards = "pool_id \<Rightarrow> account_id \<Rightarrow> balance"

definition plain_rewards_ops :: "plain_rewards rewards_ops" where
  "plain_rewards_ops = \<lparr>
     rw_share = (\<lambda>p who r. (r p who, 0)),
     rw_add_share = (\<lambda>who p n r. r(p := (r p)(who := sat_add u128_max (r p who) n))),
     rw_remove_share = (\<lambda>who p n r. ([(who, p, 1)], r(p := (r p)(who := r p who - n)))),
     rw_claim = (\<lambda>who p r. ([(who, p, 1)], r)),
     rw_pools = (\<lambda>r. [])\<rparr>"

definition lp_token :: currency_id where
  "lp_token = DexShare (DexShare_Token DNAR) (DexShare_Token SETT)"

definition demo_incentives :: "(ledger, plain_rewards) incentives_config" where
  "demo_incentives = \<lparr>ic_currency = ledger_multi, ic_rewards = plain_rewards_ops, ic_account = 90, ic_incentive_pool = 91,
     ic_premium_pool = 92, ic_stable_currency_ids = [Token SETT, Token USDJ], ic_incentive_currency_id = Token DRAM,
     ic_premium_currency_id = Token SETT, ic_update_origin = (\<lambda>org. org = Root)\<rparr>"

lemma demo_incentives_env: "incentives_env demo_incentives (\<lambda>p n r. r)"
  by (auto simp: incentives_env_def add_share_law_def remove_share_law_def claim_law_def callback_law_def share_of_def
      demo_incentives_def plain_rewards_ops_def ledger_custody ledger_transfer_def ledger_move_def okE_def split: if_splits)

definition empty_incentives :: "(ledger, plain_rewards) incentives_state" where
  "empty_incentives = \<lparr>dex_incentive_rewards = (\<lambda>c. 0), dex_premium_rewards = (\<lambda>c. 0), accumulate_period = 10,
     ic_library = (\<lambda>p x. 0), ic_world = (\<lambda>c e. 500), ic_events = []\<rparr>"

theorem staked_shares_backed_witness:
  "let t = run_calls (incentives_exec demo_incentives (\<lambda>p n r. r))
      [(Signed 1, Deposit_share lp_token 100), (Signed 2, Deposit_share lp_token 20), (Signed 1, Withdraw_share lp_token 30)] empty_incentives in
   ic_library t (DexIncentive lp_token) 1 = 70 \<and>
   ic_library t (DexIncentive lp_token) 1 + ic_library t (DexIncentive lp_token) 2 \<le> ledger_free lp_token 90 (ic_world t)"
proof -
  define t where "t = run_calls (incentives_exec demo_incentives (\<lambda>p n r. r))
      [(Signed 1, Deposit_share lp_token 100), (Signed 2, Deposit_share lp_token 20), (Signed 1, Withdraw_share lp_token 30)] empty_incentives"
  have inv: "incentives_inv demo_incentives empty_incentives"
    by (simp add: incentives_inv_def shares_backed_def sums_below_def share_of_def demo_incentives_def plain_rewards_ops_def empty_incentives_def)
  have calls: "list_all (incentives_admissible demo_incentives (\<lambda>p n r. r))
      [(Signed 1, Deposit_share lp_token 100), (Signed 2, Deposit_share lp_token 20), (Signed 1, Withdraw_share lp_token 30)]"
    using demo_incentives_env by (simp add: incentives_admissible_def) (simp add: demo_incentives_def)
  have "ic_library t (DexIncentive lp_token) 1 = 70"
    by (simp add: t_def incentives_exec_def deposit_dex_share_def withdraw_dex_share_def do_deposit_dex_share_def do_withdraw_dex_share_def
        eff_defs ensure_signed_def inI_def in_rewards_def ic_deposit_event_def demo_incentives_def plain_rewards_ops_def empty_incentives_def
        lp_token_def ledger_transfer_def ledger_move_def u128_max_def sat_add_def payout_def)
  then show ?thesis
    unfolding t_def[symmetric] Let_def
    using staked_shares_backed[OF inv calls _ t_def, of "{1, 2}" lp_token 1]
    by (simp add: share_of_def demo_incentives_def plain_rewards_ops_def)
qed

theorem premium_rewards_cannot_be_set_witness:
  "update_dex_premium_rewards demo_incentives Root [(Token SETT, 5)] empty_incentives =
     (Inl (Incentives_Error Incentives_InvalidCurrencyId), empty_incentives)"
  using premium_rewards_cannot_be_set[of demo_incentives "[(Token SETT, 5)]" Root empty_incentives]
  by (simp add: demo_incentives_def)

end
