(* ===== verification/Renvm_Bridge.thy ===== *)
theory Renvm_Bridge
  imports Precompile_Input Currency_Interface
begin

text \<open>
  The RenVM bridge pallet, \<open>lib-serml/bridges/renvm-bridge/src/lib.rs\<close>: a bridged currency is
  minted by unsigned extrinsics that carry a signature of RenVM, burnt by its owners, and the key of
  RenVM is rotated with a signature of the old key. Hashing, key recovery, the encoding of accounts,
  the currency and the payment of fees are parameters.
\<close>

type_synonym signature = "u8 list"

record 'w renvm_config =
  rv_currency :: "'w basic_currency"
  rv_currency_identifier :: "u8 list"
  rv_unsigned_priority :: nat
  rv_charge_fee :: "account_id \<Rightarrow> nat \<Rightarrow> nat \<Rightarrow> 'w \<Rightarrow> 'w"
  rv_encode :: "account_id \<Rightarrow> u8 list"
  rv_keccak_256 :: "u8 list \<Rightarrow> u8 list"
  rv_recover :: "signature \<Rightarrow> u8 list \<Rightarrow> u8 list option"
  rv_block_number :: "'w \<Rightarrow> block_number"

datatype renvm_event =
    Minted account_id balance
  | Burnt account_id "u8 list" balance
  | RotatedKey "u8 list"

record 'w renvm_state =
  ren_vm_public_key :: "u8 list option"
  signatures :: "signature \<Rightarrow> bool"
  burn_events :: "nat \<Rightarrow> (block_number \<times> u8 list \<times> balance) option"
  next_burn_event_id :: nat
  rv_world :: 'w
  rv_events :: "renvm_event list"

definition mint_tx_length :: nat where "mint_tx_length = 168"

definition inR :: "('w, 'a) eff \<Rightarrow> ('w renvm_state, 'a) eff" where
  "inR m = zoomE rv_world (\<lambda>w s. s\<lparr>rv_world := w\<rparr>) m"

definition rv_deposit_event :: "renvm_event \<Rightarrow> ('w renvm_state, unit) eff" where
  "rv_deposit_event ev = modE (\<lambda>s. s\<lparr>rv_events := rv_events s @ [ev]\<rparr>)"

definition renvm_genesis_build :: "u8 list \<Rightarrow> 'w renvm_state \<Rightarrow> 'w renvm_state" where
  "renvm_genesis_build key s = s\<lparr>ren_vm_public_key := Some key\<rparr>"

section \<open>Signed messages\<close>

definition signable_mint_message :: "u8 list \<Rightarrow> balance \<Rightarrow> u8 list \<Rightarrow> u8 list \<Rightarrow> u8 list \<Rightarrow> u8 list" where
  "signable_mint_message p_hash amount to n_hash token =
     p_hash @ replicate 16 0 @ drop 16 (be_word amount) @ token @ to @ n_hash"

definition signable_rotate_key_message :: "u8 list \<Rightarrow> u8 list" where
  "signable_rotate_key_message new_key = new_key"

text \<open>The end of both verifications: the address recovered from the message is the key.\<close>

definition verify_message :: "'w renvm_config \<Rightarrow> u8 list \<Rightarrow> signature \<Rightarrow> ('w renvm_state, unit) eff" where
  "verify_message cfg message sig =
     bindE (ok_or (rv_recover cfg sig (rv_keccak_256 cfg message)) (Renvm_Error InvalidMintSignature)) (\<lambda>recovered.
     bindE (getE ren_vm_public_key) (\<lambda>key.
     bindE (ok_or key (Renvm_Error InvalidRenVmPublicKey)) (\<lambda>pubkey.
     ensure (drop 12 (rv_keccak_256 cfg recovered) = pubkey) (Renvm_Error InvalidMintSignature))))"

definition verify_mint_signature ::
  "'w renvm_config \<Rightarrow> u8 list \<Rightarrow> balance \<Rightarrow> u8 list \<Rightarrow> u8 list \<Rightarrow> signature \<Rightarrow> ('w renvm_state, unit) eff" where
  "verify_mint_signature cfg p_hash amount to n_hash sig =
     verify_message cfg (signable_mint_message p_hash amount to n_hash (rv_currency_identifier cfg)) sig"

definition verify_rotate_key_signature :: "'w renvm_config \<Rightarrow> u8 list \<Rightarrow> signature \<Rightarrow> ('w renvm_state, unit) eff" where
  "verify_rotate_key_signature cfg new_key sig = verify_message cfg (signable_rotate_key_message new_key) sig"

section \<open>Dispatchables\<close>

definition ensure_none :: "origin \<Rightarrow> ('s, unit) eff" where
  "ensure_none org = ensure (org = Unsigned) BadOrigin"

definition do_mint :: "'w renvm_config \<Rightarrow> account_id \<Rightarrow> balance \<Rightarrow> signature \<Rightarrow> ('w renvm_state, unit) eff" where
  "do_mint cfg sender amount sig =
     thenE (inR (bc_deposit (rv_currency cfg) sender amount))
       (modE (\<lambda>s. s\<lparr>signatures := (signatures s)(sig := True)\<rparr>))"

definition renvm_mint ::
  "'w renvm_config \<Rightarrow> origin \<Rightarrow> account_id \<Rightarrow> u8 list \<Rightarrow> balance \<Rightarrow> u8 list \<Rightarrow> signature \<Rightarrow> ('w renvm_state, unit) eff" where
  "renvm_mint cfg org who p_hash amount n_hash sig =
     thenE (ensure_none org) (
     thenE (do_mint cfg who amount sig) (
     thenE (modE (\<lambda>s. s\<lparr>rv_world := rv_charge_fee cfg who mint_tx_length 10000 (rv_world s)\<rparr>))
       (rv_deposit_event (Minted who amount))))"

text \<open>\<open>try_mutate\<close> of the next id writes it back only when its closure succeeds.\<close>

definition renvm_burn :: "'w renvm_config \<Rightarrow> origin \<Rightarrow> u8 list \<Rightarrow> balance \<Rightarrow> ('w renvm_state, unit) eff" where
  "renvm_burn cfg org to amount =
     bindE (ensure_signed org) (\<lambda>sender.
     bindE (getE next_burn_event_id) (\<lambda>this_id.
     bindE (ok_or (chk_add u32_max this_id 1) Arithmetic_Overflow) (\<lambda>next_id.
     thenE (inR (bc_withdraw (rv_currency cfg) sender amount)) (
     thenE (modE (\<lambda>s. s\<lparr>burn_events := (burn_events s)(this_id := Some (rv_block_number cfg (rv_world s), to, amount))\<rparr>)) (
     thenE (rv_deposit_event (Burnt sender to amount))
       (modE (\<lambda>s. s\<lparr>next_burn_event_id := next_id\<rparr>)))))))"

definition do_rotate_key :: "u8 list \<Rightarrow> signature \<Rightarrow> ('w renvm_state, unit) eff" where
  "do_rotate_key new_key sig =
     modE (\<lambda>s. s\<lparr>ren_vm_public_key := Some new_key, signatures := (signatures s)(sig := True)\<rparr>)"

definition rotate_key :: "origin \<Rightarrow> u8 list \<Rightarrow> signature \<Rightarrow> ('w renvm_state, unit) eff" where
  "rotate_key org new_key sig =
     thenE (ensure_none org) (
     thenE (do_rotate_key new_key sig)
       (rv_deposit_event (RotatedKey new_key)))"

section \<open>The validation of unsigned extrinsics\<close>

datatype renvm_call =
    Mint account_id "u8 list" balance "u8 list" signature
  | Burn "u8 list" balance
  | Rotate_key "u8 list" signature

datatype invalid_transaction = Stale | BadProof | Invalid_Call

record valid_transaction =
  vt_priority :: nat
  vt_provides :: signature
  vt_longevity :: nat
  vt_propagate :: bool

text \<open>What the validations of both calls share: the signature is new and verifies.\<close>

definition check_signature ::
  "'w renvm_config \<Rightarrow> ('w renvm_state, unit) eff \<Rightarrow> signature \<Rightarrow> 'w renvm_state \<Rightarrow> invalid_transaction + valid_transaction" where
  "check_signature cfg verify sig s =
     (if signatures s sig then Inl Stale
      else if isl (fst (verify s)) then Inl BadProof
      else Inr \<lparr>vt_priority = rv_unsigned_priority cfg, vt_provides = sig, vt_longevity = 64, vt_propagate = True\<rparr>)"

definition validate_unsigned ::
  "'w renvm_config \<Rightarrow> renvm_call \<Rightarrow> 'w renvm_state \<Rightarrow> invalid_transaction + valid_transaction" where
  "validate_unsigned cfg call s =
     (case call of
        Mint who p_hash amount n_hash sig \<Rightarrow>
          check_signature cfg (verify_mint_signature cfg p_hash amount (rv_encode cfg who) n_hash sig) sig s
      | Rotate_key new_key sig \<Rightarrow> check_signature cfg (verify_rotate_key_signature cfg new_key sig) sig s
      | Burn to amount \<Rightarrow> Inl Invalid_Call)"

end
