(* ===== verification/Renvm_Bridge_Properties.thy ===== *)
theory Renvm_Bridge_Properties
  imports Renvm_Bridge
begin

text \<open>
  Properties of the RenVM bridge: what was signed determines what is minted, a signature mints at
  most once, the issuance is what was minted less what was burnt, and why the list of used
  signatures does not prevent that one message is claimed twice.
\<close>

section \<open>Messages\<close>

lemma amount_bytes_inj:
  assumes "drop 16 (be_word a) = drop 16 (be_word b)" "a \<le> u128_max" "b \<le> u128_max"
  shows "a = b"
proof -
  have ab: "a < 256 ^ (32 - 16)" "b < 256 ^ (32 - 16)" using assms(2,3) by (simp_all add: u128_max_def)
  have "be_number (drop 16 (be_word a)) = a" by (rule be_number_drop_word[OF _ ab(1)]) simp
  moreover have "be_number (drop 16 (be_word b)) = b" by (rule be_number_drop_word[OF _ ab(2)]) simp
  ultimately show ?thesis using assms(1) by metis
qed

text \<open>
  What RenVM signed determines what is minted: mint messages with the same bytes agree in every
  part, and the message of a key rotation is no mint message.
\<close>

theorem mint_message_determines_mint:
  assumes "length p = 32" "length p' = 32" "length n = 32" "length n' = 32" "length token = 32" "length token' = 32"
    and "length to = 32" "length to' = 32" "a \<le> u128_max" "a' \<le> u128_max" "length key = 20"
  shows "(signable_mint_message p a to n token = signable_mint_message p' a' to' n' token' \<longleftrightarrow>
      p = p' \<and> a = a' \<and> to = to' \<and> n = n' \<and> token = token') \<and>
    signable_mint_message p a to n token \<noteq> signable_rotate_key_message key"
proof -
  have "length (signable_mint_message p a to n token) = 160"
    using assms by (simp add: signable_mint_message_def)
  moreover have "signable_mint_message p a to n token = signable_mint_message p' a' to' n' token' \<Longrightarrow>
      p = p' \<and> drop 16 (be_word a) = drop 16 (be_word a') \<and> to = to' \<and> n = n' \<and> token = token'"
    using assms by (simp add: signable_mint_message_def)
  ultimately show ?thesis
    using amount_bytes_inj[OF _ assms(9,10)] assms(11) by (auto simp: signable_rotate_key_message_def)
qed

section \<open>Extrinsics\<close>

definition renvm_dispatch :: "'w renvm_config \<Rightarrow> origin \<Rightarrow> renvm_call \<Rightarrow> ('w renvm_state, unit) eff" where
  "renvm_dispatch cfg org call =
     (case call of
        Mint who p_hash amount n_hash sig \<Rightarrow> renvm_mint cfg org who p_hash amount n_hash sig
      | Burn to amount \<Rightarrow> renvm_burn cfg org to amount
      | Rotate_key new_key sig \<Rightarrow> rotate_key org new_key sig)"

text \<open>An unsigned extrinsic is validated before it is dispatched.\<close>

definition renvm_allowed :: "'w renvm_config \<Rightarrow> origin \<times> renvm_call \<Rightarrow> 'w renvm_state \<Rightarrow> bool" where
  "renvm_allowed cfg = (\<lambda>(org, call) s. org = Unsigned \<longrightarrow> \<not> isl (validate_unsigned cfg call s))"

definition renvm_apply :: "'w renvm_config \<Rightarrow> origin \<times> renvm_call \<Rightarrow> 'w renvm_state \<Rightarrow> 'w renvm_state" where
  "renvm_apply cfg x s = (if renvm_allowed cfg x s then snd (renvm_dispatch cfg (fst x) (snd x) s) else s)"

record renvm_minting =
  mi_signature :: signature
  mi_message :: "u8 list"
  mi_amount :: balance
  mi_key :: "u8 list option"

text \<open>The mint an extrinsic achieves, if it does, with the key of RenVM at that time.\<close>

definition minting :: "'w renvm_config \<Rightarrow> origin \<times> renvm_call \<Rightarrow> 'w renvm_state \<Rightarrow> renvm_minting list" where
  "minting cfg x s =
     (case snd x of
        Mint who p_hash amount n_hash sig \<Rightarrow>
          if renvm_allowed cfg x s \<and> \<not> isl (fst (renvm_dispatch cfg (fst x) (snd x) s))
          then [\<lparr>mi_signature = sig, mi_message = signable_mint_message p_hash amount (rv_encode cfg who) n_hash (rv_currency_identifier cfg),
                 mi_amount = amount, mi_key = ren_vm_public_key s\<rparr>]
          else []
      | _ \<Rightarrow> [])"

primrec mintings :: "'w renvm_config \<Rightarrow> (origin \<times> renvm_call) list \<Rightarrow> 'w renvm_state \<Rightarrow> renvm_minting list" where
  "mintings cfg [] s = []"
| "mintings cfg (x # xs) s = minting cfg x s @ mintings cfg xs (renvm_apply cfg x s)"

definition renvm_run :: "'w renvm_config \<Rightarrow> (origin \<times> renvm_call) list \<Rightarrow> 'w renvm_state \<Rightarrow> 'w renvm_state" where
  "renvm_run cfg xs s = fold (renvm_apply cfg) xs s"

lemma renvm_run_Cons [simp]: "renvm_run cfg (x # xs) s = renvm_run cfg xs (renvm_apply cfg x s)"
  "renvm_run cfg [] s = s"
  by (simp_all add: renvm_run_def)

section \<open>One signature, one mint\<close>

definition signed_by_renvm :: "'w renvm_config \<Rightarrow> renvm_minting \<Rightarrow> bool" where
  "signed_by_renvm cfg m \<longleftrightarrow>
     (case rv_recover cfg (mi_signature m) (rv_keccak_256 cfg (mi_message m)) of
        None \<Rightarrow> False
      | Some recovered \<Rightarrow> mi_key m = Some (drop 12 (rv_keccak_256 cfg recovered)))"

lemma verify_message_ok:
  "\<not> isl (fst (verify_message cfg message sig s)) \<Longrightarrow>
   signed_by_renvm cfg \<lparr>mi_signature = sig, mi_message = message, mi_amount = a, mi_key = ren_vm_public_key s\<rparr>"
  by (auto simp: verify_message_def signed_by_renvm_def eff_defs split: option.splits if_splits)

lemma dispatch_keeps_signatures: "signatures s sig \<Longrightarrow> signatures (snd (renvm_dispatch cfg org call s)) sig"
  by (cases call) (auto simp: renvm_dispatch_def renvm_mint_def renvm_burn_def rotate_key_def do_mint_def do_rotate_key_def ensure_none_def
      ensure_signed_def inR_def rv_deposit_event_def eff_defs chk_add_def split: prod.split sum.split option.split origin.split)

lemma apply_keeps_signatures: "signatures s sig \<Longrightarrow> signatures (renvm_apply cfg x s) sig"
  by (simp add: renvm_apply_def dispatch_keeps_signatures)

lemma minting_step:
  assumes "m \<in> set (minting cfg x s)"
  shows "minting cfg x s = [m]" "signed_by_renvm cfg m" "\<not> signatures s (mi_signature m)"
    "signatures (renvm_apply cfg x s) (mi_signature m)"
proof -
  obtain org who p_hash amount n_hash sig where x: "x = (org, Mint who p_hash amount n_hash sig)"
    using assms by (cases x; cases "snd x") (auto simp: minting_def)
  define message where "message = signable_mint_message p_hash amount (rv_encode cfg who) n_hash (rv_currency_identifier cfg)"
  have allowed: "renvm_allowed cfg x s" and ran: "\<not> isl (fst (renvm_mint cfg org who p_hash amount n_hash sig s))"
    and m: "m = \<lparr>mi_signature = sig, mi_message = message, mi_amount = amount, mi_key = ren_vm_public_key s\<rparr>"
    using assms by (auto simp: minting_def x renvm_dispatch_def message_def split: if_splits)
  obtain t where run: "renvm_mint cfg org who p_hash amount n_hash sig s = (Inr (), t)"
    using ran by (metis isl_def old.unit.exhaust prod.collapse sum.collapse(2))
  have org: "org = Unsigned" and used: "signatures t sig"
    using run by (auto simp: renvm_mint_def ensure_none_def do_mint_def rv_deposit_event_def inR_def zoomE_run)
  then have valid: "\<not> isl (check_signature cfg (verify_message cfg message sig) sig s)"
    using allowed by (simp add: renvm_allowed_def x validate_unsigned_def verify_mint_signature_def message_def)
  show "minting cfg x s = [m]" using allowed ran m by (simp add: minting_def x renvm_dispatch_def message_def)
  show "signed_by_renvm cfg m" "\<not> signatures s (mi_signature m)"
    using valid by (auto simp: m check_signature_def intro: verify_message_ok split: if_splits)
  show "signatures (renvm_apply cfg x s) (mi_signature m)"
    using allowed run used by (simp add: m renvm_apply_def x renvm_dispatch_def)
qed

lemma mintings_fresh: "m \<in> set (mintings cfg xs s) \<Longrightarrow> \<not> signatures s (mi_signature m)"
proof (induction xs arbitrary: s)
  case (Cons x xs)
  show ?case
  proof (cases "m \<in> set (minting cfg x s)")
    case True
    then show ?thesis by (rule minting_step(3))
  next
    case False
    then have "\<not> signatures (renvm_apply cfg x s) (mi_signature m)" using Cons by simp
    then show ?thesis using apply_keeps_signatures[of s "mi_signature m" cfg x] by blast
  qed
qed simp

text \<open>
  C26. A signature mints at most once, and only what RenVM signed: over every run of extrinsics the
  accepted mints carry different signatures that were not used before, and each recovers the key that
  RenVM had at that time from the message of its own amount and receiver.
\<close>

theorem signature_mints_once:
  "distinct (map mi_signature (mintings cfg xs s)) \<and> list_all (signed_by_renvm cfg) (mintings cfg xs s) \<and>
   list_all (\<lambda>m. \<not> signatures s (mi_signature m)) (mintings cfg xs s)"
proof (induction xs arbitrary: s)
  case (Cons x xs)
  have late: "\<not> signatures (renvm_apply cfg x s) (mi_signature m)" if "m \<in> set (mintings cfg xs (renvm_apply cfg x s))" for m
    using that by (rule mintings_fresh)
  have early: "\<not> signatures s (mi_signature m)" if "m \<in> set (mintings cfg xs (renvm_apply cfg x s))" for m
    using late[OF that] apply_keeps_signatures[of s "mi_signature m" cfg x] by blast
  show ?case
  proof (cases "minting cfg x s")
    case Nil
    then show ?thesis using Cons.IH early by (simp add: list_all_iff)
  next
    case (Cons m ms)
    then have m: "m \<in> set (minting cfg x s)" by simp
    note step = minting_step[OF m]
    show ?thesis using step Cons.IH early late by (auto simp: list_all_iff)
  qed
qed simp

section \<open>One message, two mints\<close>

text \<open>
  The list of used signatures does not prevent a double claim: ECDSA signatures come in pairs
  that recover the same key, and the other signature of a pair is accepted for the same message after
  the first one minted. The currency takes the deposits and the charge of the fee keeps the rest.
\<close>

theorem other_signature_mints_again:
  assumes "\<not> isl (validate_unsigned cfg (Mint who p_hash amount n_hash sig) s)"
    and "rv_recover cfg sig' = rv_recover cfg sig" "sig' \<noteq> sig" "\<not> signatures s sig'"
    and "\<And>w. bc_deposit (rv_currency cfg) who amount w = (Inr (), f w)"
    and "t = renvm_apply cfg (Unsigned, Mint who p_hash amount n_hash sig) s"
  shows "\<not> isl (validate_unsigned cfg (Mint who p_hash amount n_hash sig') t) \<and>
    map mi_amount (mintings cfg [(Unsigned, Mint who p_hash amount n_hash sig), (Unsigned, Mint who p_hash amount n_hash sig')] s) = [amount, amount]"
proof -
  let ?c1 = "Mint who p_hash amount n_hash sig" and ?c2 = "Mint who p_hash amount n_hash sig'"
  have run: "\<exists>u. renvm_dispatch cfg Unsigned (Mint who p_hash amount n_hash x) v = (Inr (), u) \<and>
      ren_vm_public_key u = ren_vm_public_key v \<and> signatures u = (signatures v)(x := True)" for x v
    by (simp add: renvm_dispatch_def renvm_mint_def ensure_none_def do_mint_def inR_def rv_deposit_event_def eff_defs assms(5))
  have allowed: "renvm_allowed cfg (Unsigned, ?c1) s" using assms(1) by (simp add: renvm_allowed_def)
  obtain u where u: "renvm_dispatch cfg Unsigned ?c1 s = (Inr (), u)" "ren_vm_public_key u = ren_vm_public_key s"
      "signatures u = (signatures s)(sig := True)" using run by blast
  then have t: "t = u" using allowed assms(6) by (simp add: renvm_apply_def)
  have same: "isl (fst (verify_mint_signature cfg p_hash amount (rv_encode cfg who) n_hash sig' u)) =
      isl (fst (verify_mint_signature cfg p_hash amount (rv_encode cfg who) n_hash sig s))"
    using assms(2) u(2) by (auto simp: verify_mint_signature_def verify_message_def eff_defs split: option.split)
  have second: "\<not> isl (validate_unsigned cfg ?c2 u)"
    using assms(1,3,4) u(3) by (auto simp: validate_unsigned_def check_signature_def same split: if_splits)
  obtain v where v: "renvm_dispatch cfg Unsigned ?c2 u = (Inr (), v)" using run by blast
  have "minting cfg (Unsigned, ?c1) s = [\<lparr>mi_signature = sig, mi_message = signable_mint_message p_hash amount (rv_encode cfg who) n_hash (rv_currency_identifier cfg), mi_amount = amount, mi_key = ren_vm_public_key s\<rparr>]"
    "minting cfg (Unsigned, ?c2) u = [\<lparr>mi_signature = sig', mi_message = signable_mint_message p_hash amount (rv_encode cfg who) n_hash (rv_currency_identifier cfg), mi_amount = amount, mi_key = ren_vm_public_key u\<rparr>]"
    using allowed second u(1) v by (simp_all add: minting_def renvm_allowed_def)
  then show ?thesis using second t assms(6) by simp
qed

section \<open>The books\<close>

text \<open>The currency: paying in and out changes the issuance by the amount, fees do not.\<close>

definition bridged_issuance :: "'w renvm_config \<Rightarrow> 'w renvm_state \<Rightarrow> balance" where
  "bridged_issuance cfg s = bc_total_issuance (rv_currency cfg) (rv_world s)"

definition renvm_env :: "'w renvm_config \<Rightarrow> bool" where
  "renvm_env cfg \<longleftrightarrow>
     (\<forall>a n w r w'. bc_deposit (rv_currency cfg) a n w = (r, w') \<longrightarrow>
        bc_total_issuance (rv_currency cfg) w' = bc_total_issuance (rv_currency cfg) w + (if isl r then 0 else n)) \<and>
     (\<forall>a n w r w'. bc_withdraw (rv_currency cfg) a n w = (r, w') \<longrightarrow>
        bc_total_issuance (rv_currency cfg) w' + (if isl r then 0 else n) = bc_total_issuance (rv_currency cfg) w) \<and>
     (\<forall>a len weight w. bc_total_issuance (rv_currency cfg) (rv_charge_fee cfg a len weight w) = bc_total_issuance (rv_currency cfg) w)"

lemma renvm_envD:
  assumes "renvm_env cfg"
  shows "bc_deposit (rv_currency cfg) a n w = (r, w') \<Longrightarrow>
      bc_total_issuance (rv_currency cfg) w' = bc_total_issuance (rv_currency cfg) w + (if isl r then 0 else n)"
    "bc_withdraw (rv_currency cfg) a n w = (r, w') \<Longrightarrow>
      bc_total_issuance (rv_currency cfg) w' + (if isl r then 0 else n) = bc_total_issuance (rv_currency cfg) w"
    "bc_total_issuance (rv_currency cfg) (rv_charge_fee cfg a len weight w) = bc_total_issuance (rv_currency cfg) w"
  using assms by (auto simp only: renvm_env_def)

text \<open>What the recorded events burnt; there is one for every number below the next one.\<close>

definition burnt_amount :: "'w renvm_state \<Rightarrow> nat \<Rightarrow> balance" where
  "burnt_amount s i = (case burn_events s i of None \<Rightarrow> 0 | Some (_, _, n) \<Rightarrow> n)"

definition burnt_total :: "'w renvm_state \<Rightarrow> balance" where
  "burnt_total s = (\<Sum>i<next_burn_event_id s. burnt_amount s i)"

definition events_numbered :: "'w renvm_state \<Rightarrow> bool" where
  "events_numbered s \<longleftrightarrow> next_burn_event_id s \<le> u32_max \<and> (\<forall>i. burn_events s i \<noteq> None \<longleftrightarrow> i < next_burn_event_id s)"

definition minted_amount :: "renvm_minting list \<Rightarrow> balance" where
  "minted_amount ms = sum_list (map mi_amount ms)"

lemma burn_books:
  assumes "renvm_env cfg" "events_numbered s" "renvm_burn cfg org to n s = (r, t)"
  shows "events_numbered t \<and> bridged_issuance cfg t + burnt_total t = bridged_issuance cfg s + burnt_total s"
proof (cases "\<exists>who. org = Signed who \<and> next_burn_event_id s < u32_max")
  case True
  then obtain who where org: "org = Signed who" "next_burn_event_id s < u32_max" by blast
  obtain q w where pay: "bc_withdraw (rv_currency cfg) who n (rv_world s) = (q, w)" by fastforce
  note paid = renvm_envD(2)[OF assms(1) pay]
  show ?thesis
  proof (cases q)
    case (Inl e)
    then have "t = s\<lparr>rv_world := w\<rparr>"
      using assms(3) org pay by (auto simp: renvm_burn_def ensure_signed_def inR_def eff_defs chk_add_def)
    then show ?thesis using assms(2) paid Inl
      by (simp add: events_numbered_def bridged_issuance_def burnt_total_def burnt_amount_def)
  next
    case (Inr u)
    define s1 where "s1 = s\<lparr>rv_world := w\<rparr>"
    have t: "t = s1\<lparr>burn_events := (burn_events s)(next_burn_event_id s := Some (rv_block_number cfg w, to, n)),
        rv_events := rv_events s @ [Burnt who to n], next_burn_event_id := Suc (next_burn_event_id s)\<rparr>"
      using assms(3) org pay Inr by (auto simp: renvm_burn_def ensure_signed_def inR_def eff_defs chk_add_def rv_deposit_event_def s1_def)
    have "burnt_amount t i = burnt_amount s i" if "i < next_burn_event_id s" for i
      using that by (simp add: t burnt_amount_def)
    then have "burnt_total t = burnt_total s + n" by (simp add: t burnt_total_def) (simp add: burnt_amount_def)
    then show ?thesis using assms(2) org paid Inr
      by (auto simp: t s1_def events_numbered_def bridged_issuance_def)
  qed
next
  case False
  then have "t = s"
    using assms(3) by (cases org) (auto simp: renvm_burn_def ensure_signed_def eff_defs chk_add_def)
  then show ?thesis using assms(2) by simp
qed

lemma apply_books:
  assumes "renvm_env cfg" "events_numbered s"
  shows "events_numbered (renvm_apply cfg x s) \<and>
    bridged_issuance cfg (renvm_apply cfg x s) + burnt_total (renvm_apply cfg x s) =
    bridged_issuance cfg s + burnt_total s + minted_amount (minting cfg x s)"
proof (cases "renvm_allowed cfg x s")
  case True
  obtain org call where x: "x = (org, call)" by (cases x)
  show ?thesis
  proof (cases call)
    case (Burn to n)
    then show ?thesis using burn_books[OF assms] True
      by (cases "renvm_burn cfg org to n s") (simp add: x renvm_apply_def renvm_dispatch_def minting_def minted_amount_def)
  next
    case (Rotate_key key sig)
    have "burn_events (snd (rotate_key org key sig s)) = burn_events s \<and> next_burn_event_id (snd (rotate_key org key sig s)) = next_burn_event_id s
        \<and> rv_world (snd (rotate_key org key sig s)) = rv_world s"
      by (simp add: rotate_key_def ensure_none_def do_rotate_key_def rv_deposit_event_def eff_defs)
    then show ?thesis using True assms(2)
      by (simp add: x Rotate_key renvm_apply_def renvm_dispatch_def minting_def minted_amount_def events_numbered_def bridged_issuance_def
          burnt_total_def burnt_amount_def)
  next
    case (Mint who p_hash amount n_hash sig)
    obtain q w where pay: "bc_deposit (rv_currency cfg) who amount (rv_world s) = (q, w)" by fastforce
    note paid = renvm_envD(1)[OF assms(1) pay]
    obtain r t where run: "renvm_mint cfg org who p_hash amount n_hash sig s = (r, t)" by fastforce
    have "burn_events t = burn_events s \<and> next_burn_event_id t = next_burn_event_id s \<and>
        bridged_issuance cfg t = bridged_issuance cfg s + (if isl r then 0 else amount)"
      using run pay paid renvm_envD(3)[OF assms(1)]
      by (cases q) (auto simp: renvm_mint_def ensure_none_def do_mint_def inR_def rv_deposit_event_def eff_defs bridged_issuance_def split: if_splits)
    then show ?thesis using True assms(2) run
      by (simp add: x Mint renvm_apply_def renvm_dispatch_def minting_def minted_amount_def events_numbered_def
          burnt_total_def burnt_amount_def)
  qed
next
  case False
  then show ?thesis using assms(2) by (cases "snd x") (simp_all add: renvm_apply_def minting_def minted_amount_def)
qed

text \<open>
  C25. The books of the RenVM bridge balance: over every run of extrinsics the issuance of the bridged
  currency is what it was before plus what was minted less what was burnt, and the burns are recorded
  under consecutive numbers, none of them overwritten.
\<close>

theorem renvm_books_balance:
  assumes "renvm_env cfg" "events_numbered s" "t = renvm_run cfg xs s"
  shows "events_numbered t \<and>
    bridged_issuance cfg t + burnt_total t = bridged_issuance cfg s + burnt_total s + minted_amount (mintings cfg xs s)"
  using assms(2,3)
proof (induction xs arbitrary: s)
  case (Cons x xs)
  define u where "u = renvm_apply cfg x s"
  have "events_numbered t \<and> bridged_issuance cfg t + burnt_total t = bridged_issuance cfg u + burnt_total u + minted_amount (mintings cfg xs u)"
    using Cons apply_books[OF assms(1), of s x] by (simp add: u_def)
  then show ?case using apply_books[OF assms(1) Cons.prems(1), of x] by (simp add: u_def minted_amount_def)
qed (simp add: minted_amount_def)

section \<open>Witnesses\<close>

text \<open>A currency that only counts its issuance, and a recovery that accepts signatures by their length.\<close>

definition counted_currency :: "nat basic_currency" where
  "counted_currency = \<lparr>bc_minimum_balance = (\<lambda>w. 0), bc_total_issuance = (\<lambda>w. w), bc_total_balance = (\<lambda>a w. w),
     bc_free_balance = (\<lambda>a w. w), bc_ensure_can_withdraw = (\<lambda>a n. okE ()), bc_transfer = (\<lambda>a b n. okE ()),
     bc_deposit = (\<lambda>a n w. (Inr (), w + n)), bc_withdraw = (\<lambda>a n w. if n \<le> w then (Inr (), w - n) else (Inl (External 2), w)),
     bc_can_slash = (\<lambda>a n w. True), bc_slash = (\<lambda>a n w. (0, w)), bc_update_balance = (\<lambda>a n. okE ()),
     bc_set_lock = (\<lambda>i a n. okE ()), bc_extend_lock = (\<lambda>i a n. okE ()), bc_remove_lock = (\<lambda>i a. okE ()),
     bc_can_reserve = (\<lambda>a n w. True), bc_slash_reserved = (\<lambda>a n w. (0, w)), bc_reserved_balance = (\<lambda>a w. 0),
     bc_reserve = (\<lambda>a n. okE ()), bc_unreserve = (\<lambda>a n w. (0, w)), bc_repatriate_reserved = (\<lambda>a b n st. okE 0)\<rparr>"

definition demo_renvm :: "nat renvm_config" where
  "demo_renvm = \<lparr>rv_currency = counted_currency, rv_currency_identifier = replicate 32 3, rv_unsigned_priority = 9,
     rv_charge_fee = (\<lambda>a len weight w. w), rv_encode = (\<lambda>a. replicate 32 0), rv_keccak_256 = (\<lambda>bs. replicate 32 5),
     rv_recover = (\<lambda>sig h. if length sig = 65 then Some h else None), rv_block_number = (\<lambda>w. 8)\<rparr>"

definition renvm_start :: "nat renvm_state" where
  "renvm_start = \<lparr>ren_vm_public_key = Some (replicate 20 5), signatures = (\<lambda>sig. False), burn_events = (\<lambda>i. None),
     next_burn_event_id = 0, rv_world = 1000, rv_events = []\<rparr>"

theorem mint_message_determines_mint_witness:
  "signable_mint_message (replicate 32 1) 5 (replicate 32 2) (replicate 32 3) (replicate 32 4) \<noteq>
   signable_mint_message (replicate 32 1) 6 (replicate 32 2) (replicate 32 3) (replicate 32 4)"
  using mint_message_determines_mint[of "replicate 32 1" "replicate 32 1" "replicate 32 3" "replicate 32 3" "replicate 32 4"
      "replicate 32 4" "replicate 32 2" "replicate 32 2" 5 6 "replicate 20 0"] by (simp add: u128_max_def)

theorem other_signature_mints_again_witness:
  "map mi_amount (mintings demo_renvm [(Unsigned, Mint 7 (replicate 32 1) 50 (replicate 32 2) (replicate 65 1)),
     (Unsigned, Mint 7 (replicate 32 1) 50 (replicate 32 2) (replicate 65 2))] renvm_start) = [50, 50]"
proof -
  have first: "\<not> isl (validate_unsigned demo_renvm (Mint 7 (replicate 32 1) 50 (replicate 32 2) (replicate 65 1)) renvm_start)"
    by (simp add: validate_unsigned_def check_signature_def verify_mint_signature_def verify_message_def eff_defs demo_renvm_def renvm_start_def)
  have deposit: "bc_deposit (rv_currency demo_renvm) 7 50 w = (Inr (), w + 50)" for w
    by (simp add: demo_renvm_def counted_currency_def)
  show ?thesis
    using other_signature_mints_again[OF first _ _ _ deposit refl, of "replicate 65 2"]
    by (simp add: demo_renvm_def[THEN arg_cong[of _ _ rv_recover]] renvm_start_def fun_eq_iff)
qed

theorem renvm_books_balance_witness:
  "let xs = [(Unsigned, Mint 7 (replicate 32 1) 50 (replicate 32 2) (replicate 65 1)), (Signed 7, Burn [1, 2] 20)];
       t = renvm_run demo_renvm xs renvm_start in
   bridged_issuance demo_renvm t + burnt_total t = 1000 + minted_amount (mintings demo_renvm xs renvm_start) \<and> events_numbered t"
proof -
  have "renvm_env demo_renvm" by (auto simp: renvm_env_def demo_renvm_def counted_currency_def split: if_splits)
  moreover have "events_numbered renvm_start" by (simp add: events_numbered_def renvm_start_def)
  moreover have "bridged_issuance demo_renvm renvm_start + burnt_total renvm_start = 1000"
    by (simp add: bridged_issuance_def burnt_total_def renvm_start_def demo_renvm_def counted_currency_def)
  ultimately show ?thesis unfolding Let_def using renvm_books_balance[OF _ _ refl, of demo_renvm renvm_start]
    by (simp del: renvm_run_Cons mintings.simps)
qed

end
