(* ===== verification/Staking_Ledger.thy ===== *)
theory Staking_Ledger
  imports Prelude "HOL-Library.While_Combinator"
begin

text \<open>
  The ledger of a bonded stash in the staking pallet, \<open>StakingLedger\<close> of
  \<open>lib-serml/serp/serp-staking/src/lib.rs\<close>, with its three operations: releasing what has been
  unlocked for long enough, rebonding what is being unlocked, and slashing. The total of a ledger is
  what is active and what is being unlocked; every operation keeps it so.
\<close>

section \<open>The ledger\<close>

record unlock_chunk =
  uc_value :: balance
  uc_era :: nat

record staking_ledger =
  sl_stash :: account_id
  sl_total :: balance
  sl_active :: balance
  sl_unlocking :: "unlock_chunk list"
  sl_claimed_rewards :: "nat list"

text \<open>Chunks whose era has come are dropped, and the total falls by their values.\<close>

definition consolidate_unlocked :: "nat \<Rightarrow> staking_ledger \<Rightarrow> staking_ledger" where
  "consolidate_unlocked current_era l =
     l\<lparr>sl_total := foldl (\<lambda>t c. if uc_era c > current_era then t else sat_sub t (uc_value c)) (sl_total l) (sl_unlocking l),
       sl_unlocking := filter (\<lambda>c. uc_era c > current_era) (sl_unlocking l)\<rparr>"

subsection \<open>Rebonding\<close>

text \<open>
  The loop of \<open>rebond\<close>, from the last chunk backwards. It is left by \<open>break\<close> or when no chunk is
  left; a loop that never ended would be \<open>None\<close>.
\<close>

record rebond_state =
  rb_ledger :: staking_ledger
  rb_balance :: balance
  rb_break :: bool

definition rebond_step :: "balance \<Rightarrow> rebond_state \<Rightarrow> rebond_state" where
  "rebond_step value st =
     (let l = rb_ledger st; unlocking_balance = rb_balance st; c = last (sl_unlocking l);
          (balance', l') =
            (if wrap_add u128_max unlocking_balance (uc_value c) \<le> value then
               (wrap_add u128_max unlocking_balance (uc_value c),
                l\<lparr>sl_active := wrap_add u128_max (sl_active l) (uc_value c), sl_unlocking := butlast (sl_unlocking l)\<rparr>)
             else
               (let diff = wrap_sub u128_max value unlocking_balance in
                (wrap_add u128_max unlocking_balance diff,
                 l\<lparr>sl_active := wrap_add u128_max (sl_active l) diff,
                   sl_unlocking := butlast (sl_unlocking l) @ [c\<lparr>uc_value := wrap_sub u128_max (uc_value c) diff\<rparr>]\<rparr>)))
      in \<lparr>rb_ledger = l', rb_balance = balance', rb_break = (balance' \<ge> value)\<rparr>)"

definition rebond_goes_on :: "rebond_state \<Rightarrow> bool" where
  "rebond_goes_on st \<longleftrightarrow> sl_unlocking (rb_ledger st) \<noteq> [] \<and> \<not> rb_break st"

definition rebond :: "balance \<Rightarrow> staking_ledger \<Rightarrow> staking_ledger option" where
  "rebond value l = map_option rb_ledger
     (while_option rebond_goes_on (rebond_step value) \<lparr>rb_ledger = l, rb_balance = 0, rb_break = False\<rparr>)"

subsection \<open>Slashing\<close>

text \<open>The closure \<open>slash_out_of\<close>: what is left of the total, of the target and of the value.\<close>

definition slash_out_of :: "balance \<Rightarrow> balance \<Rightarrow> balance \<Rightarrow> balance \<Rightarrow> balance \<times> balance \<times> balance" where
  "slash_out_of minimum_balance total_remaining target value =
     (let slash_from_target = min value target in
      if slash_from_target = 0 then (total_remaining, target, value)
      else
        (let target' = target - slash_from_target;
             (slashed, value', left) =
               (if target' \<le> minimum_balance
                then (wrap_add u128_max slash_from_target target', wrap_add u128_max value target', 0)
                else (slash_from_target, value, target'))
         in (sat_sub total_remaining slashed, left, wrap_sub u128_max value' slashed)))"

text \<open>The chunks from the front; the first one that is not used up ends the iteration.\<close>

fun slash_chunks :: "balance \<Rightarrow> balance \<Rightarrow> unlock_chunk list \<Rightarrow> balance \<Rightarrow> balance \<times> unlock_chunk list" where
  "slash_chunks minimum_balance t [] v = (t, [])"
| "slash_chunks minimum_balance t (c # cs) v =
     (case slash_out_of minimum_balance t (uc_value c) v of (t', left, v') \<Rightarrow>
        if left = 0 then slash_chunks minimum_balance t' cs v' else (t', c\<lparr>uc_value := left\<rparr> # cs))"

definition ledger_slash :: "balance \<Rightarrow> balance \<Rightarrow> staking_ledger \<Rightarrow> balance \<times> staking_ledger" where
  "ledger_slash value minimum_balance l =
     (case slash_out_of minimum_balance (sl_total l) (sl_active l) value of (t, active, v) \<Rightarrow>
      case slash_chunks minimum_balance t (sl_unlocking l) v of (t', cs) \<Rightarrow>
        (sat_sub (sl_total l) t', l\<lparr>sl_total := t', sl_active := active, sl_unlocking := cs\<rparr>))"

section \<open>Well-formed ledgers\<close>

definition unlocking_sum :: "unlock_chunk list \<Rightarrow> balance" where
  "unlocking_sum cs = sum_list (map uc_value cs)"

definition ledger_ok :: "staking_ledger \<Rightarrow> bool" where
  "ledger_ok l \<longleftrightarrow> sl_total l = sl_active l + unlocking_sum (sl_unlocking l) \<and> sl_total l \<le> u128_max"

lemma unlocking_sum_simps [simp]:
  "unlocking_sum [] = 0" "unlocking_sum (c # cs) = uc_value c + unlocking_sum cs"
  "unlocking_sum (cs @ ds) = unlocking_sum cs + unlocking_sum ds"
  by (simp_all add: unlocking_sum_def)

lemma unlocking_sum_last:
  "cs \<noteq> [] \<Longrightarrow> unlocking_sum cs = unlocking_sum (butlast cs) + uc_value (last cs)"
  by (metis append_butlast_last_id unlocking_sum_simps add_0_right)

text \<open>Releasing: the total falls by what is released, and what stays active is untouched.\<close>

lemma released_fold:
  "foldl (\<lambda>t c. if uc_era c > e then t else sat_sub t (uc_value c)) t cs = t - unlocking_sum (filter (\<lambda>c. uc_era c \<le> e) cs)"
  by (induction cs arbitrary: t) auto

lemma unlocking_sum_filter:
  "unlocking_sum cs = unlocking_sum (filter (\<lambda>c. uc_era c \<le> e) cs) + unlocking_sum (filter (\<lambda>c. uc_era c > e) cs)"
  by (induction cs) auto

lemma consolidate_ok:
  assumes "ledger_ok l"
  shows "ledger_ok (consolidate_unlocked e l)" "sl_active (consolidate_unlocked e l) = sl_active l"
    "sl_stash (consolidate_unlocked e l) = sl_stash l"
    "sl_unlocking (consolidate_unlocked e l) = filter (\<lambda>c. uc_era c > e) (sl_unlocking l)"
  using assms unlocking_sum_filter[of "sl_unlocking l" e]
  by (auto simp: ledger_ok_def consolidate_unlocked_def released_fold)

section \<open>Rebonding returns\<close>

text \<open>A round of the loop takes the last chunk off or is the last one.\<close>

lemma rebond_step_shrinks:
  assumes "value \<le> u128_max" "rb_balance st \<le> u128_max" "rebond_goes_on st" "\<not> rb_break (rebond_step value st)"
  shows "length (sl_unlocking (rb_ledger (rebond_step value st))) < length (sl_unlocking (rb_ledger st))"
  using assms wrap_add_sub[of "rb_balance st" u128_max "value"]
  by (auto simp: rebond_step_def rebond_goes_on_def Let_def split: if_splits)

lemma rebond_step_balance: "rb_balance (rebond_step value st) \<le> u128_max"
  by (auto simp: rebond_step_def Let_def wrap_add_le)

definition rebond_rounds :: "rebond_state \<Rightarrow> nat" where
  "rebond_rounds st = (if rb_break st then 0 else length (sl_unlocking (rb_ledger st)))"

lemma rebond_loop_returns:
  assumes "value \<le> u128_max" "rb_balance st \<le> u128_max"
  shows "\<exists>t. while_option rebond_goes_on (rebond_step value) st = Some t"
proof (rule measure_while_option_Some[where P = "\<lambda>st. rb_balance st \<le> u128_max" and f = rebond_rounds])
  fix s assume s: "rb_balance s \<le> u128_max" "rebond_goes_on s"
  show "rb_balance (rebond_step value s) \<le> u128_max \<and> rebond_rounds (rebond_step value s) < rebond_rounds s"
    using rebond_step_shrinks[OF assms(1) s] s rebond_step_balance[of "value" s]
    by (auto simp: rebond_rounds_def rebond_goes_on_def)
qed (rule assms)

text \<open>What the loop keeps: what left the chunks became active.\<close>

definition rebonding :: "balance \<Rightarrow> staking_ledger \<Rightarrow> rebond_state \<Rightarrow> bool" where
  "rebonding value l st \<longleftrightarrow>
     ledger_ok (rb_ledger st) \<and> sl_active (rb_ledger st) = sl_active l + rb_balance st \<and> rb_balance st \<le> value \<and>
     sl_total (rb_ledger st) = sl_total l \<and> sl_stash (rb_ledger st) = sl_stash l \<and>
     sl_claimed_rewards (rb_ledger st) = sl_claimed_rewards l \<and>
     (rb_break st \<longrightarrow> rb_balance st = value)"

lemma rebonding_step:
  assumes "value \<le> u128_max" "rebonding value l st" "rebond_goes_on st"
  shows "rebonding value l (rebond_step value st)"
proof -
  define m where "m = rb_ledger st"
  define c where "c = last (sl_unlocking m)"
  have ok: "sl_total m = sl_active m + unlocking_sum (butlast (sl_unlocking m)) + uc_value c" "sl_total m \<le> u128_max"
    and st: "sl_active m = sl_active l + rb_balance st" "rb_balance st \<le> value" "sl_total m = sl_total l"
      "sl_stash m = sl_stash l" "sl_claimed_rewards m = sl_claimed_rewards l"
    using assms unlocking_sum_last[of "sl_unlocking m"]
    by (auto simp: rebonding_def ledger_ok_def m_def c_def rebond_goes_on_def)
  have fits: "sl_active m + uc_value c \<le> u128_max" "rb_balance st + uc_value c \<le> u128_max" using ok st by auto
  show ?thesis
  proof (cases "rb_balance st + uc_value c \<le> value")
    case True
    have "rebond_step value st = \<lparr>rb_ledger = m\<lparr>sl_active := sl_active m + uc_value c, sl_unlocking := butlast (sl_unlocking m)\<rparr>,
        rb_balance = rb_balance st + uc_value c, rb_break = (value \<le> rb_balance st + uc_value c)\<rparr>"
      using True fits unfolding rebond_step_def Let_def m_def[symmetric] c_def[symmetric] by simp
    then show ?thesis using ok st True by (simp add: rebonding_def ledger_ok_def)
  next
    case False
    let ?d = "value - rb_balance st"
    have d: "sl_active m + ?d \<le> u128_max" "wrap_sub u128_max (uc_value c) ?d = uc_value c - ?d" "?d \<le> uc_value c"
      "wrap_sub u128_max value (rb_balance st) = ?d" "wrap_add u128_max (rb_balance st) ?d = value"
      using False fits st assms(1) by auto
    have "rebond_step value st = \<lparr>rb_ledger = m\<lparr>sl_active := sl_active m + ?d,
        sl_unlocking := butlast (sl_unlocking m) @ [c\<lparr>uc_value := uc_value c - ?d\<rparr>]\<rparr>, rb_balance = value, rb_break = True\<rparr>"
      using False fits d unfolding rebond_step_def Let_def m_def[symmetric] c_def[symmetric] by simp
    then show ?thesis using ok st d False by (simp add: rebonding_def ledger_ok_def)
  qed
qed

lemma rebond_result:
  assumes "ledger_ok l" "value \<le> u128_max"
  shows "\<exists>l'. rebond value l = Some l' \<and> ledger_ok l' \<and> sl_total l' = sl_total l \<and> sl_stash l' = sl_stash l \<and>
    sl_active l' = sl_active l + min value (unlocking_sum (sl_unlocking l))"
proof -
  let ?st = "\<lparr>rb_ledger = l, rb_balance = 0, rb_break = False\<rparr>"
  obtain t where t: "while_option rebond_goes_on (rebond_step value) ?st = Some t"
    using rebond_loop_returns[of "value" ?st] assms(2) by auto
  have "rebonding value l ?st" using assms(1) by (simp add: rebonding_def)
  then have inv: "rebonding value l t"
    using while_option_rule[where P = "rebonding value l", OF rebonding_step[OF assms(2)] t] by blast
  have "\<not> rebond_goes_on t" using while_option_stop[OF t] .
  then have "rb_balance t = min value (unlocking_sum (sl_unlocking l))"
    using inv assms(1) by (auto simp: rebond_goes_on_def rebonding_def ledger_ok_def)
  then show ?thesis using t inv by (simp add: rebond_def rebonding_def)
qed

lemma rebond_sound:
  assumes "ledger_ok l" "value \<le> u128_max" "rebond value l = Some l'"
  shows "ledger_ok l'" "sl_stash l' = sl_stash l"
  using rebond_result[OF assms(1,2)] assms(3) by auto

text \<open>
  C39. Rebonding always returns: the loop over the chunks ends, and then as much as asked for has
  become active again, or all that was being unlocked; total and stash are as before and the ledger
  is well-formed.
\<close>

theorem rebond_returns:
  assumes "ledger_ok l" "value \<le> u128_max"
  shows "\<exists>l'. rebond value l = Some l' \<and> ledger_ok l' \<and> sl_total l' = sl_total l \<and> sl_stash l' = sl_stash l \<and>
    sl_active l' = sl_active l + min value (unlocking_sum (sl_unlocking l))"
  by (rule rebond_result[OF assms])

section \<open>Slashing is bounded\<close>

lemma slash_out_of_cases:
  assumes "target \<le> u128_max" "value \<le> u128_max"
  shows "slash_out_of m t target value =
    (if value = 0 \<or> target = 0 then (t, target, value)
     else if target - value \<le> m then (t - target, 0, value - target) else (t - value, target - value, 0))"
  using assms by (auto simp: slash_out_of_def Let_def min_def)

text \<open>What goes through slashing from one target: at most the value and, at the end of it, dust.\<close>

definition slash_limit :: "balance \<Rightarrow> balance \<Rightarrow> balance" where
  "slash_limit m value = (if value = 0 then 0 else value + m)"

lemma min_split: "min v (c + r) \<le> c + min (v - c) (r :: nat)"
  by simp

lemma slash_chunks_spec:
  assumes "slash_chunks m t cs v = (t', cs')" "unlocking_sum cs \<le> t" "t \<le> u128_max" "v \<le> u128_max"
  shows "t' + unlocking_sum cs = t + unlocking_sum cs' \<and> unlocking_sum cs' \<le> unlocking_sum cs \<and>
    min v (unlocking_sum cs) \<le> t - t' \<and> t - t' \<le> slash_limit m v"
  using assms
proof (induction cs arbitrary: t v)
  case (Cons c cs)
  have le: "uc_value c \<le> u128_max" using Cons.prems(2,3) by simp
  note cases = slash_out_of_cases[OF le Cons.prems(4), of m t]
  show ?case
  proof (cases "v = 0 \<or> uc_value c = 0")
    case True
    then show ?thesis
      using Cons.prems Cons.IH[of t v] cases by (cases "uc_value c = 0") (auto simp: slash_limit_def)
  next
    case False
    show ?thesis
    proof (cases "uc_value c - v \<le> m")
      case True
      then have "slash_chunks m (t - uc_value c) cs (v - uc_value c) = (t', cs')"
        using Cons.prems(1) cases False by simp
      from Cons.IH[OF this] have "t' + unlocking_sum cs = t - uc_value c + unlocking_sum cs' \<and> unlocking_sum cs' \<le> unlocking_sum cs \<and>
          min (v - uc_value c) (unlocking_sum cs) \<le> t - uc_value c - t' \<and> t - uc_value c - t' \<le> slash_limit m (v - uc_value c)"
        using Cons.prems(2-4) by simp
      moreover have "slash_limit m (v - uc_value c) + uc_value c \<le> slash_limit m v"
        using True False by (auto simp: slash_limit_def)
      moreover have "min v (uc_value c + unlocking_sum cs) \<le> uc_value c + min (v - uc_value c) (unlocking_sum cs)"
        by (rule min_split)
      ultimately show ?thesis using Cons.prems(2) unfolding unlocking_sum_simps by linarith
    next
      case F: False
      then have "v < uc_value c" by simp
      then show ?thesis using Cons.prems cases False F by (auto simp: slash_limit_def)
    qed
  qed
qed (simp add: slash_limit_def)

text \<open>
  C40. Slashing a ledger takes at least the value asked for, or everything that is bonded, and at
  most the minimum balance more than asked for, which is the dust that must not remain; the total
  falls by exactly what the operation returns, and it is still what is active and being unlocked.
\<close>

theorem ledger_slash_bounded:
  assumes "ledger_ok l" "value \<le> u128_max" "ledger_slash value m l = (slashed, l')"
  shows "ledger_ok l' \<and> sl_total l' + slashed = sl_total l \<and> sl_stash l' = sl_stash l \<and>
    min value (sl_total l) \<le> slashed \<and> slashed \<le> slash_limit m value"
proof -
  let ?S = "unlocking_sum (sl_unlocking l)"
  have l: "sl_total l = sl_active l + ?S" "sl_total l \<le> u128_max" using assms(1) by (auto simp: ledger_ok_def)
  then have active: "sl_active l \<le> u128_max" by simp
  obtain t a v where first: "slash_out_of m (sl_total l) (sl_active l) value = (t, a, v)" by (metis prod_cases3)
  obtain t' cs where rest: "slash_chunks m t (sl_unlocking l) v = (t', cs)" by (metis prod.exhaust)
  have l': "l' = l\<lparr>sl_total := t', sl_active := a, sl_unlocking := cs\<rparr>" "slashed = sl_total l - t'"
    using assms(3) by (auto simp: ledger_slash_def first rest)
  have head: "t = a + ?S" "v \<le> value" "a \<le> sl_active l" "min value (sl_active l) \<le> sl_active l - a"
      "sl_active l - a + slash_limit m v \<le> slash_limit m value" "value - v \<le> sl_active l - a" "v = 0 \<or> a = 0"
    using first[unfolded slash_out_of_cases[OF active assms(2)]] l by (auto simp: slash_limit_def split: if_splits)
  have "t' + ?S = t + unlocking_sum cs \<and> unlocking_sum cs \<le> ?S \<and> min v ?S \<le> t - t' \<and> t - t' \<le> slash_limit m v"
    using slash_chunks_spec[OF rest] head l assms(2) by linarith
  moreover have "min value (sl_active l + ?S) \<le> sl_active l - a + min v ?S"
    using head l by auto
  ultimately show ?thesis
    using head l unfolding l' ledger_ok_def by simp linarith
qed

section \<open>Witnesses\<close>

definition demo_ledger :: staking_ledger where
  "demo_ledger = \<lparr>sl_stash = 1, sl_total = 100, sl_active = 50,
     sl_unlocking = [\<lparr>uc_value = 20, uc_era = 3\<rparr>, \<lparr>uc_value = 30, uc_era = 4\<rparr>], sl_claimed_rewards = []\<rparr>"

lemma demo_ledger_ok: "ledger_ok demo_ledger"
  by (simp add: demo_ledger_def ledger_ok_def u128_max_def)

theorem rebond_returns_witness:
  "\<exists>l'. rebond 35 demo_ledger = Some l' \<and> sl_total l' = 100 \<and> sl_active l' = 85"
  using rebond_returns[OF demo_ledger_ok, of 35] by (auto simp: demo_ledger_def u128_max_def)

text \<open>A slash of 65 leaves dust of 5 in the first chunk, which is slashed too.\<close>

theorem ledger_slash_bounded_witness:
  "ledger_slash 65 10 demo_ledger = (70, demo_ledger\<lparr>sl_total := 30, sl_active := 0, sl_unlocking := [\<lparr>uc_value = 30, uc_era = 4\<rparr>]\<rparr>) \<and>
   70 \<le> slash_limit 10 65"
proof -
  have run: "ledger_slash 65 10 demo_ledger =
      (70, demo_ledger\<lparr>sl_total := 30, sl_active := 0, sl_unlocking := [\<lparr>uc_value = 30, uc_era = 4\<rparr>]\<rparr>)"
    by (simp add: ledger_slash_def demo_ledger_def slash_out_of_cases u128_max_def)
  then show ?thesis
    using ledger_slash_bounded[OF demo_ledger_ok _ run] by (simp add: u128_max_def)
qed

end
