(* ===== verification/Staking_State.thy ===== *)
theory Staking_State
  imports Staking_Ledger
begin

text \<open>
  The staking pallet, \<open>lib-serml/serp/serp-staking/src/lib.rs\<close>, first part: its types, its storage,
  the parameters it is configured with, and the small operations that the dispatchables, the eras
  and the slashing share. Storage maps the code iterates over (validators and nominators) are
  association lists, the others functions, with the default value of the storage item where it has
  one. A \<open>Perbill\<close> and a \<open>Percent\<close> are their number of parts; multiplying with them is the operation of
  a library. The currency, the consumer counters, the sessions, the election and the lookup of
  accounts are parameters on a world \<open>'w\<close>.
\<close>

section \<open>Types\<close>

type_synonym era_index = nat
type_synonym session_index = nat
type_synonym perbill = nat

record active_era_info =
  ae_index :: era_index
  ae_start :: "nat option"

record era_reward_points =
  rp_total :: nat
  rp_individual :: "account_id \<Rightarrow> nat option"

datatype staker_status = Idle | Validator | Nominator "account_id list"

datatype reward_destination = Staked | Stash | Controller | Account account_id | Nobody

record validator_prefs =
  vp_commission :: perbill
  vp_blocked :: bool

definition default_prefs :: validator_prefs where
  "default_prefs = \<lparr>vp_commission = 0, vp_blocked = False\<rparr>"

record nominations =
  nm_targets :: "account_id list"
  nm_submitted_in :: era_index
  nm_suppressed :: bool

record individual_exposure =
  ie_who :: account_id
  ie_value :: balance

record exposure =
  ex_total :: balance
  ex_own :: balance
  ex_others :: "individual_exposure list"

definition default_exposure :: exposure where
  "default_exposure = \<lparr>ex_total = 0, ex_own = 0, ex_others = []\<rparr>"

record unapplied_slash =
  us_validator :: account_id
  us_own :: balance
  us_others :: "(account_id \<times> balance) list"
  us_reporters :: "account_id list"
  us_payout :: balance

datatype forcing = NotForcing | ForceNew | ForceNone | ForceAlways

datatype staking_event =
    Era_Payout era_index balance balance balance
  | Reward account_id balance
  | Slash account_id balance
  | OldSlashingReportDiscarded session_index
  | StakingElection
  | StakingElectionFailed
  | Bonded account_id balance
  | Unbonded account_id balance
  | Withdrawn account_id balance
  | Kicked account_id account_id
  | Chilled account_id

text \<open>The slashing spans of a stash, and what was slashed and paid out in one of them.\<close>

record slashing_spans =
  sp_span_index :: nat
  sp_last_start :: era_index
  sp_last_nonzero_slash :: era_index
  sp_prior :: "nat list"

record span_record =
  sr_slashed :: balance
  sr_paid_out :: balance

section \<open>Storage\<close>

record 'w staking_state =
  history_depth :: nat
  validator_count :: nat
  minimum_validator_count :: nat
  invulnerables :: "account_id list"
  bonded :: "account_id \<Rightarrow> account_id option"
  min_nominator_bond :: balance
  min_validator_bond :: balance
  stake_ledger :: "account_id \<Rightarrow> staking_ledger option"
  payee :: "account_id \<Rightarrow> reward_destination"
  validators :: "(account_id \<times> validator_prefs) list"
  counter_for_validators :: nat
  max_validators_count :: "nat option"
  nominators :: "(account_id \<times> nominations) list"
  counter_for_nominators :: nat
  max_nominators_count :: "nat option"
  current_era :: "era_index option"
  active_era :: "active_era_info option"
  eras_start_session_index :: "era_index \<Rightarrow> session_index option"
  eras_stakers :: "era_index \<Rightarrow> account_id \<Rightarrow> exposure"
  eras_stakers_clipped :: "era_index \<Rightarrow> account_id \<Rightarrow> exposure"
  eras_validator_prefs :: "era_index \<Rightarrow> account_id \<Rightarrow> validator_prefs"
  eras_validator_reward :: "era_index \<Rightarrow> balance option"
  eras_reward_points :: "era_index \<Rightarrow> era_reward_points"
  eras_total_stake :: "era_index \<Rightarrow> balance"
  force_era :: forcing
  slash_reward_fraction :: perbill
  canceled_slash_payout :: balance
  unapplied_slashes :: "era_index \<Rightarrow> unapplied_slash list"
  bonded_eras :: "(era_index \<times> session_index) list"
  validator_slash_in_era :: "era_index \<Rightarrow> account_id \<Rightarrow> (perbill \<times> balance) option"
  nominator_slash_in_era :: "era_index \<Rightarrow> account_id \<Rightarrow> balance option"
  spans_of :: "account_id \<Rightarrow> slashing_spans option"
  span_slash :: "account_id \<Rightarrow> nat \<Rightarrow> span_record"
  earliest_unapplied_slash :: "era_index option"
  current_planned_session :: session_index
  chill_threshold :: "nat option"
  stk_world :: 'w
  stk_events :: "staking_event list"

text \<open>
  What an election returns: for every elected validator the voters behind it with their weights. The
  provider of the election reads the storage of this pallet.
\<close>

type_synonym supports = "(account_id \<times> (account_id \<times> nat) list) list"

record 'w staking_config =
  sk_perbill_mul :: "perbill \<Rightarrow> balance \<Rightarrow> balance"
  sk_percent_mul :: "nat \<Rightarrow> nat \<Rightarrow> nat"
  sk_minimum_balance :: balance
  sk_free_balance :: "account_id \<Rightarrow> 'w \<Rightarrow> balance"
  sk_total_balance :: "account_id \<Rightarrow> 'w \<Rightarrow> balance"
  sk_total_issuance :: "'w \<Rightarrow> balance"
  sk_set_lock :: "account_id \<Rightarrow> balance \<Rightarrow> 'w \<Rightarrow> 'w"
  sk_remove_lock :: "account_id \<Rightarrow> 'w \<Rightarrow> 'w"
  sk_slash :: "account_id \<Rightarrow> balance \<Rightarrow> 'w \<Rightarrow> (balance \<times> balance) \<times> 'w"
  sk_on_slash :: "balance \<Rightarrow> 'w \<Rightarrow> 'w"
  sk_split :: "balance \<Rightarrow> balance \<Rightarrow> balance \<times> balance"
  sk_subsume :: "balance \<Rightarrow> balance \<Rightarrow> balance"
  sk_resolve_creating :: "account_id \<Rightarrow> balance \<Rightarrow> 'w \<Rightarrow> 'w"
  sk_inc_consumers :: "account_id \<Rightarrow> ('w, unit) eff"
  sk_dec_consumers :: "account_id \<Rightarrow> 'w \<Rightarrow> 'w"
  sk_lookup :: "nat \<Rightarrow> account_id option"
  sk_unlookup :: "account_id \<Rightarrow> nat"
  sk_disable_validator :: "account_id \<Rightarrow> 'w \<Rightarrow> bool option \<times> 'w"
  sk_prune_historical :: "session_index \<Rightarrow> 'w \<Rightarrow> 'w"
  sk_now :: "'w \<Rightarrow> nat"
  sk_elect :: "bool \<Rightarrow> 'w staking_state \<Rightarrow> supports option \<times> 'w"
  sk_to_currency :: "nat \<Rightarrow> balance \<Rightarrow> balance"
  sk_to_vote :: "balance \<Rightarrow> balance \<Rightarrow> nat"
  sk_slash_cancel_origin :: "origin \<Rightarrow> bool"
  sk_bonding_duration :: era_index
  sk_slash_defer_duration :: era_index
  sk_sessions_per_era :: session_index
  sk_max_nominations :: nat
  sk_max_nominator_rewarded :: nat
  sk_author :: "'w \<Rightarrow> account_id"
  sk_next_session :: "'w \<Rightarrow> block_number \<Rightarrow> block_number option"
  sk_average_session_length :: "'w \<Rightarrow> block_number"

definition inK :: "('e, 'w, 'a) effect \<Rightarrow> ('e, 'w staking_state, 'a) effect" where
  "inK m = zoomE stk_world (\<lambda>w s. s\<lparr>stk_world := w\<rparr>) m"

definition on_world :: "('w \<Rightarrow> 'w) \<Rightarrow> 'w staking_state \<Rightarrow> 'w staking_state" where
  "on_world f s = s\<lparr>stk_world := f (stk_world s)\<rparr>"

definition stk_event :: "staking_event \<Rightarrow> 'w staking_state \<Rightarrow> 'w staking_state" where
  "stk_event ev s = s\<lparr>stk_events := stk_events s @ [ev]\<rparr>"

section \<open>Shared operations\<close>

definition slashable_balance_of :: "account_id \<Rightarrow> 'w staking_state \<Rightarrow> balance" where
  "slashable_balance_of stash s =
     (case Option.bind (bonded s stash) (stake_ledger s) of None \<Rightarrow> 0 | Some l \<Rightarrow> sl_active l)"

definition slashable_balance_of_vote_weight :: "'w staking_config \<Rightarrow> account_id \<Rightarrow> balance \<Rightarrow> 'w staking_state \<Rightarrow> nat" where
  "slashable_balance_of_vote_weight cfg stash issuance s = sk_to_vote cfg (slashable_balance_of stash s) issuance"

text \<open>The lock on the stash follows the total of its ledger.\<close>

definition update_ledger :: "'w staking_config \<Rightarrow> account_id \<Rightarrow> staking_ledger \<Rightarrow> 'w staking_state \<Rightarrow> 'w staking_state" where
  "update_ledger cfg controller l s =
     (on_world (sk_set_lock cfg (sl_stash l) (sl_total l)) s)\<lparr>stake_ledger := (stake_ledger s)(controller \<mapsto> l)\<rparr>"

definition do_add_nominator :: "account_id \<Rightarrow> nominations \<Rightarrow> 'w staking_state \<Rightarrow> 'w staking_state" where
  "do_add_nominator who n s = s\<lparr>
     counter_for_nominators := (if alist_contains who (nominators s) then counter_for_nominators s
                                else sat_add u32_max (counter_for_nominators s) 1),
     nominators := alist_put who n (nominators s)\<rparr>"

definition do_remove_nominator :: "account_id \<Rightarrow> 'w staking_state \<Rightarrow> bool \<times> 'w staking_state" where
  "do_remove_nominator who s =
     (if alist_contains who (nominators s)
      then (True, s\<lparr>nominators := alist_remove who (nominators s), counter_for_nominators := sat_sub (counter_for_nominators s) 1\<rparr>)
      else (False, s))"

definition do_add_validator :: "account_id \<Rightarrow> validator_prefs \<Rightarrow> 'w staking_state \<Rightarrow> 'w staking_state" where
  "do_add_validator who p s = s\<lparr>
     counter_for_validators := (if alist_contains who (validators s) then counter_for_validators s
                                else sat_add u32_max (counter_for_validators s) 1),
     validators := alist_put who p (validators s)\<rparr>"

definition do_remove_validator :: "account_id \<Rightarrow> 'w staking_state \<Rightarrow> bool \<times> 'w staking_state" where
  "do_remove_validator who s =
     (if alist_contains who (validators s)
      then (True, s\<lparr>validators := alist_remove who (validators s), counter_for_validators := sat_sub (counter_for_validators s) 1\<rparr>)
      else (False, s))"

definition chill_stash :: "account_id \<Rightarrow> 'w staking_state \<Rightarrow> 'w staking_state" where
  "chill_stash stash s0 =
     (let (chilled_as_validator, s1) = do_remove_validator stash s0;
          (chilled_as_nominator, s2) = do_remove_nominator stash s1
      in if chilled_as_validator \<or> chilled_as_nominator then stk_event (Chilled stash) s2 else s2)"

definition ensure_new_era :: "'w staking_state \<Rightarrow> 'w staking_state" where
  "ensure_new_era s = (case force_era s of
     ForceAlways \<Rightarrow> s | ForceNew \<Rightarrow> s | _ \<Rightarrow> s\<lparr>force_era := ForceNew\<rparr>)"

text \<open>The voters and targets of an election, as the provider asks for them.\<close>

definition get_npos_voters :: "'w staking_config \<Rightarrow> 'w staking_state \<Rightarrow> (account_id \<times> nat \<times> account_id list) list" where
  "get_npos_voters cfg s =
     (let weight_of = (\<lambda>who. slashable_balance_of_vote_weight cfg who (sk_total_issuance cfg (stk_world s)) s);
          kept = (\<lambda>n. filter (\<lambda>stash. case spans_of s stash of None \<Rightarrow> True
                     | Some sp \<Rightarrow> nm_submitted_in n \<ge> sp_last_nonzero_slash sp) (nm_targets n))
      in map (\<lambda>(v, _). (v, weight_of v, [v])) (validators s) @
         map (\<lambda>(n, ns). (n, weight_of n, kept ns)) (filter (\<lambda>(n, ns). kept ns \<noteq> []) (nominators s)))"

definition get_npos_targets :: "'w staking_state \<Rightarrow> account_id list" where
  "get_npos_targets s = map fst (validators s)"

end
