(* ===== verification/Slashing_Spans.thy ===== *)
theory Slashing_Spans
  imports Staking_State
begin

text \<open>
  The slashing spans of a stash, \<open>SlashingSpan\<close> and \<open>SlashingSpans\<close> of
  \<open>lib-serml/serp/serp-staking/src/slashing.rs\<close>: the ongoing span and, as lengths, the spans before
  it. The theory shows that the spans a stash can reach are consecutive, so that every era lies in at
  most one of them, and what pruning them removes. Era and span indices are \<open>u32\<close>.
\<close>

record slashing_span =
  ss_index :: nat
  ss_start :: era_index
  ss_length :: "nat option"

definition contains_era :: "slashing_span \<Rightarrow> era_index \<Rightarrow> bool" where
  "contains_era span era \<longleftrightarrow> ss_start span \<le> era \<and>
     (case ss_length span of None \<Rightarrow> True | Some l \<Rightarrow> wrap_add u32_max (ss_start span) l > era)"

definition new_spans :: "era_index \<Rightarrow> slashing_spans" where
  "new_spans window_start = \<lparr>sp_span_index = 0, sp_last_start = window_start, sp_last_nonzero_slash = 0, sp_prior = []\<rparr>"

text \<open>Ending the ongoing span at the era \<open>now\<close>; the flag says whether there was anything to end.\<close>

definition end_span :: "era_index \<Rightarrow> slashing_spans \<Rightarrow> bool \<times> slashing_spans" where
  "end_span now sp =
     (let next_start = wrap_add u32_max now 1 in
      if next_start \<le> sp_last_start sp then (False, sp)
      else
        (let last_length = wrap_sub u32_max next_start (sp_last_start sp) in
         (True, sp\<lparr>sp_prior := last_length # sp_prior sp, sp_last_start := next_start,
                   sp_span_index := wrap_add u32_max (sp_span_index sp) 1\<rparr>)))"

fun prior_spans :: "era_index \<Rightarrow> nat \<Rightarrow> nat list \<Rightarrow> slashing_span list" where
  "prior_spans last_start index [] = []"
| "prior_spans last_start index (l # ls) =
     (let start = wrap_sub u32_max last_start l; index' = wrap_sub u32_max index 1 in
      \<lparr>ss_index = index', ss_start = start, ss_length = Some l\<rparr> # prior_spans start index' ls)"

definition iter_spans :: "slashing_spans \<Rightarrow> slashing_span list" where
  "iter_spans sp = \<lparr>ss_index = sp_span_index sp, ss_start = sp_last_start sp, ss_length = None\<rparr> #
     prior_spans (sp_last_start sp) (sp_span_index sp) (sp_prior sp)"

definition over_before :: "era_index \<Rightarrow> slashing_span \<Rightarrow> bool" where
  "over_before window_start span =
     (case ss_length span of None \<Rightarrow> False | Some l \<Rightarrow> wrap_add u32_max (ss_start span) l \<le> window_start)"

text \<open>Pruning: the range of the indices that go, and what stays.\<close>

definition prune_spans :: "era_index \<Rightarrow> slashing_spans \<Rightarrow> (nat \<times> nat) option \<times> slashing_spans" where
  "prune_spans window_start sp =
     (let old_idx = position (over_before window_start) (tl (iter_spans sp));
          earliest_span_index = wrap_sub u32_max (sp_span_index sp) (length (sp_prior sp));
          (pruned, sp') = (case old_idx of
             None \<Rightarrow> (None, sp)
           | Some i \<Rightarrow>
               (let sp1 = sp\<lparr>sp_prior := take i (sp_prior sp)\<rparr> in
                (Some (earliest_span_index, wrap_sub u32_max (sp_span_index sp) (length (sp_prior sp1))), sp1)))
      in (pruned, sp'\<lparr>sp_last_start := max (sp_last_start sp') window_start\<rparr>))"

definition era_span :: "era_index \<Rightarrow> slashing_spans \<Rightarrow> slashing_span option" where
  "era_span era sp = find (\<lambda>span. contains_era span era) (iter_spans sp)"

section \<open>Consecutive spans\<close>

text \<open>
  The spans a stash can reach: the lengths are positive, fit before the ongoing span and are no
  more than there are indices for.
\<close>

definition spans_ok :: "slashing_spans \<Rightarrow> bool" where
  "spans_ok sp \<longleftrightarrow> (\<forall>l \<in> set (sp_prior sp). 0 < l) \<and> sum_list (sp_prior sp) \<le> sp_last_start sp \<and>
     length (sp_prior sp) \<le> sp_span_index sp \<and> sp_span_index sp \<le> sp_last_start sp \<and> sp_last_start sp \<le> u32_max"

lemma spans_ok_new: "w \<le> u32_max \<Longrightarrow> spans_ok (new_spans w)"
  by (simp add: spans_ok_def new_spans_def)

lemma end_span_eq:
  assumes "now < u32_max" "spans_ok sp"
  shows "end_span now sp = (if now < sp_last_start sp then (False, sp)
    else (True, sp\<lparr>sp_prior := (now + 1 - sp_last_start sp) # sp_prior sp, sp_last_start := now + 1,
                   sp_span_index := sp_span_index sp + 1\<rparr>))"
  using assms by (auto simp: end_span_def spans_ok_def Let_def)

lemma spans_ok_end:
  "now < u32_max \<Longrightarrow> spans_ok sp \<Longrightarrow> spans_ok (snd (end_span now sp))"
  by (simp add: end_span_eq) (auto simp: spans_ok_def)

text \<open>The prior spans without wrap-around, as eras \<open>start..<start + length\<close>.\<close>

lemma prior_spans_exact:
  assumes "sum_list ls \<le> t" "length ls \<le> i" "t \<le> u32_max" "i \<le> u32_max"
  shows "prior_spans t i ls = map (\<lambda>k. \<lparr>ss_index = i - Suc k, ss_start = t - sum_list (take (Suc k) ls),
    ss_length = Some (ls ! k)\<rparr>) [0..<length ls]"
  using assms
proof (induction ls arbitrary: t i)
  case (Cons l ls)
  have eqs: "wrap_sub u32_max t l = t - l" "wrap_sub u32_max i 1 = i - 1" using Cons.prems by auto
  have "prior_spans (t - l) (i - 1) ls = map (\<lambda>k. \<lparr>ss_index = i - 1 - Suc k, ss_start = t - l - sum_list (take (Suc k) ls),
      ss_length = Some (ls ! k)\<rparr>) [0..<length ls]"
    using Cons.IH[of "t - l" "i - 1"] Cons.prems by simp
  also have "\<dots> = map (\<lambda>k. \<lparr>ss_index = i - Suc k, ss_start = t - sum_list (take (Suc k) (l # ls)),
      ss_length = Some ((l # ls) ! k)\<rparr>) (map Suc [0..<length ls])"
    by (simp add: comp_def)
  finally show ?case
    using eqs by (simp add: upt_conv_Cons map_Suc_upt Let_def del: upt_Suc)
qed simp

lemma prior_spans_before:
  assumes "x \<in> set (prior_spans t i ls)" "sum_list ls \<le> t" "t \<le> u32_max" "\<forall>l \<in> set ls. 0 < l"
  shows "\<exists>l. ss_length x = Some l \<and> t - sum_list ls \<le> ss_start x \<and> ss_start x + l \<le> t \<and> ss_start x < t \<and> 0 < l"
  using assms
proof (induction ls arbitrary: t i)
  case (Cons l ls)
  have eq: "wrap_sub u32_max t l = t - l" using Cons.prems by simp
  show ?case
  proof (cases "x \<in> set (prior_spans (t - l) (wrap_sub u32_max i 1) ls)")
    case True
    then show ?thesis using Cons.IH[OF True] Cons.prems by fastforce
  next
    case False
    then have "x = \<lparr>ss_index = wrap_sub u32_max i 1, ss_start = t - l, ss_length = Some l\<rparr>"
      using Cons.prems(1) eq by (simp add: Let_def)
    then show ?thesis using Cons.prems by simp
  qed
qed simp

lemma prior_contains_before:
  assumes "x \<in> set (prior_spans t i ls)" "contains_era x era" "sum_list ls \<le> t" "t \<le> u32_max" "\<forall>l \<in> set ls. 0 < l"
  shows "t - sum_list ls \<le> era \<and> era < t"
  using prior_spans_before[OF assms(1,3-5)] assms(2,4) by (auto simp: contains_era_def)

lemma prior_spans_unique:
  assumes "sum_list ls \<le> t" "t \<le> u32_max" "\<forall>l \<in> set ls. 0 < l"
    and "x \<in> set (prior_spans t i ls)" "y \<in> set (prior_spans t i ls)" "contains_era x era" "contains_era y era"
  shows "x = y"
  using assms
proof (induction ls arbitrary: t i)
  case (Cons l ls)
  have eq: "wrap_sub u32_max t l = t - l" using Cons.prems by simp
  define z where "z = \<lparr>ss_index = wrap_sub u32_max i 1, ss_start = t - l, ss_length = Some l\<rparr>"
  have z: "contains_era z e \<Longrightarrow> t - l \<le> e" for e by (simp add: z_def contains_era_def)
  have rest: "w \<in> set (prior_spans (t - l) (wrap_sub u32_max i 1) ls) \<Longrightarrow> contains_era w era \<Longrightarrow> era < t - l" for w
    using prior_contains_before[of w "t - l" "wrap_sub u32_max i 1" ls era] Cons.prems(1-3) by simp
  have mem: "x = z \<or> x \<in> set (prior_spans (t - l) (wrap_sub u32_max i 1) ls)" "y = z \<or> y \<in> set (prior_spans (t - l) (wrap_sub u32_max i 1) ls)"
    using Cons.prems(4,5) eq by (auto simp: Let_def z_def)
  show ?case
    using mem rest[of x] rest[of y] z[of era] Cons.prems Cons.IH[of "t - l" "wrap_sub u32_max i 1"] by fastforce
qed simp

lemma prior_spans_cover:
  assumes "sum_list ls \<le> t" "t \<le> u32_max" "t - sum_list ls \<le> era" "era < t"
  shows "\<exists>x \<in> set (prior_spans t i ls). contains_era x era"
  using assms
proof (induction ls arbitrary: t i)
  case (Cons l ls)
  have eq: "wrap_sub u32_max t l = t - l" using Cons.prems by simp
  show ?case
  proof (cases "t - l \<le> era")
    case True
    then show ?thesis using Cons.prems eq by (simp add: Let_def contains_era_def)
  next
    case False
    then show ?thesis using Cons.IH[of "t - l" "wrap_sub u32_max i 1"] Cons.prems eq by (auto simp: Let_def)
  qed
qed simp

text \<open>
  The spans of a stash are consecutive: looking an era up finds the one span that contains it,
  and it finds none only for the eras before the first span.
\<close>

theorem eras_in_one_span:
  assumes "spans_ok sp"
  shows "(era_span era sp = Some x) = (x \<in> set (iter_spans sp) \<and> contains_era x era) \<and>
    (era_span era sp = None) = (era < sp_last_start sp - sum_list (sp_prior sp))"
proof -
  let ?t = "sp_last_start sp" and ?ls = "sp_prior sp" and ?i = "sp_span_index sp"
  let ?on = "\<lparr>ss_index = ?i, ss_start = ?t, ss_length = None\<rparr>"
  have ok: "sum_list ?ls \<le> ?t" "?t \<le> u32_max" "\<forall>l \<in> set ?ls. 0 < l" using assms by (auto simp: spans_ok_def)
  have set: "set (iter_spans sp) = insert ?on (set (prior_spans ?t ?i ?ls))" by (simp add: iter_spans_def)
  have on: "contains_era ?on e \<longleftrightarrow> ?t \<le> e" for e by (simp add: contains_era_def)
  have before: "y \<in> set (prior_spans ?t ?i ?ls) \<Longrightarrow> contains_era y era \<Longrightarrow> ?t - sum_list ?ls \<le> era \<and> era < ?t" for y
    using prior_contains_before[OF _ _ ok] .
  have unique: "y = z" if "y \<in> set (iter_spans sp)" "contains_era y era" "z \<in> set (iter_spans sp)" "contains_era z era" for y z
    using that before on[of era] prior_spans_unique[OF ok, of y ?i z era] unfolding set by fastforce
  have some: "era_span era sp = Some y \<Longrightarrow> y \<in> set (iter_spans sp) \<and> contains_era y era" for y
    by (auto simp: era_span_def find_Some_iff)
  have none: "era_span era sp = None \<longleftrightarrow> \<not> (\<exists>y \<in> set (iter_spans sp). contains_era y era)"
    by (auto simp: era_span_def find_None_iff)
  have "(\<exists>y \<in> set (iter_spans sp). contains_era y era) \<longleftrightarrow> ?t - sum_list ?ls \<le> era"
    using before on[of era] prior_spans_cover[OF ok(1,2), of era ?i] unfolding set by fastforce
  then have "(era_span era sp = None) = (era < ?t - sum_list ?ls)" using none by auto
  moreover have "era_span era sp = Some x" if "x \<in> set (iter_spans sp)" "contains_era x era"
    using that some unique none by (cases "era_span era sp") blast+
  ultimately show ?thesis using some by blast
qed

text \<open>Two spans have ended, with lengths 3 and 4, and the current one started in era 10.\<close>

lemma eras_in_one_span_witness:
  "(era_span 8 \<lparr>sp_span_index = 2, sp_last_start = 10, sp_last_nonzero_slash = 9, sp_prior = [3, 4]\<rparr> =
      Some \<lparr>ss_index = 1, ss_start = 7, ss_length = Some 3\<rparr>) \<and>
   era_span 2 \<lparr>sp_span_index = 2, sp_last_start = 10, sp_last_nonzero_slash = 9, sp_prior = [3, 4]\<rparr> = None"
proof -
  let ?sp = "\<lparr>sp_span_index = 2, sp_last_start = 10, sp_last_nonzero_slash = 9, sp_prior = [3, 4]\<rparr>"
  have ok: "spans_ok ?sp" by (simp add: spans_ok_def u32_max_def)
  have "(\<lparr>ss_index = 1, ss_start = 7, ss_length = Some 3\<rparr> \<in> set (iter_spans ?sp) \<and>
      contains_era \<lparr>ss_index = 1, ss_start = 7, ss_length = Some 3\<rparr> 8)"
    by (simp add: iter_spans_def contains_era_def Let_def u32_max_def)
  then show ?thesis
    using eras_in_one_span[OF ok, of 8 "\<lparr>ss_index = 1, ss_start = 7, ss_length = Some 3\<rparr>"]
      eras_in_one_span[OF ok, of 2 "\<lparr>ss_index = 1, ss_start = 7, ss_length = Some 3\<rparr>"] by simp
qed

section \<open>Pruning\<close>

lemma prior_spans_take: "prior_spans t i (take k ls) = take k (prior_spans t i ls)"
  by (induction ls arbitrary: t i k) (auto simp: take_Cons Let_def split: nat.splits)

lemma prior_spans_length [simp]: "length (prior_spans t i ls) = length ls"
  by (induction ls arbitrary: t i) (simp_all add: Let_def)

lemma prior_over_mono:
  assumes "sum_list ls \<le> t" "t \<le> u32_max" "\<forall>l \<in> set ls. 0 < l" "t \<le> w"
  shows "list_all (over_before w) (prior_spans t i ls)"
  using prior_spans_before[OF _ assms(1-3)] assms(2,4) by (fastforce simp: list_all_iff over_before_def)

lemma prior_spans_filter:
  assumes "sum_list ls \<le> t" "t \<le> u32_max" "\<forall>l \<in> set ls. 0 < l"
  shows "takeWhile (\<lambda>x. \<not> over_before w x) (prior_spans t i ls) = filter (\<lambda>x. \<not> over_before w x) (prior_spans t i ls)"
  using assms
proof (induction ls arbitrary: t i)
  case (Cons l ls)
  have eq: "wrap_sub u32_max t l = t - l" using Cons.prems by simp
  define z where "z = \<lparr>ss_index = wrap_sub u32_max i 1, ss_start = t - l, ss_length = Some l\<rparr>"
  let ?rest = "prior_spans (t - l) (wrap_sub u32_max i 1) ls"
  have step: "prior_spans t i (l # ls) = z # ?rest" by (simp add: z_def eq Let_def)
  show ?case
  proof (cases "over_before w z")
    case True
    then have "t \<le> w" using Cons.prems by (simp add: z_def over_before_def)
    then have "list_all (over_before w) ?rest"
      using prior_over_mono[of ls "t - l" w "wrap_sub u32_max i 1"] Cons.prems by simp
    then show ?thesis using True unfolding step by (simp add: list_all_iff)
  next
    case False
    then show ?thesis using Cons.IH[of "t - l" "wrap_sub u32_max i 1"] Cons.prems unfolding step by simp
  qed
qed simp

lemma prune_spans_eq:
  assumes "spans_ok sp" "prune_spans w sp = (r, sp')"
  shows "sp_prior sp' = take (length (sp_prior sp')) (sp_prior sp)" "sp_last_start sp' = max (sp_last_start sp) w"
    "sp_span_index sp' = sp_span_index sp" "sp_last_nonzero_slash sp' = sp_last_nonzero_slash sp"
    "r = (if length (sp_prior sp') = length (sp_prior sp) then None
      else Some (sp_span_index sp - length (sp_prior sp), sp_span_index sp - length (sp_prior sp')))"
    "tl (iter_spans sp') = filter (\<lambda>x. \<not> over_before w x) (tl (iter_spans sp))"
proof -
  let ?t = "sp_last_start sp" and ?ls = "sp_prior sp" and ?i = "sp_span_index sp"
  have ok: "sum_list ?ls \<le> ?t" "?t \<le> u32_max" "\<forall>l \<in> set ?ls. 0 < l" and len: "length ?ls \<le> ?i" "?i \<le> u32_max"
    using assms(1) by (auto simp: spans_ok_def)
  have tail: "tl (iter_spans sp) = prior_spans ?t ?i ?ls" by (simp add: iter_spans_def)
  define k where "k = (case position (over_before w) (prior_spans ?t ?i ?ls) of None \<Rightarrow> length ?ls | Some i \<Rightarrow> i)"
  have pos: "position P xs = Some j \<Longrightarrow> j < length xs" for P and xs :: "slashing_span list" and j
    by (induction xs arbitrary: j) (auto split: if_splits)
  have k: "k \<le> length ?ls" "position (over_before w) (prior_spans ?t ?i ?ls) = None \<longleftrightarrow> k = length ?ls"
    using pos[of "over_before w" "prior_spans ?t ?i ?ls"] by (auto simp: k_def split: option.splits)
  have whole: "wrap_sub u32_max ?i (length ?ls) = ?i - length ?ls" using len by simp
  have part: "j < length ?ls \<Longrightarrow> wrap_sub u32_max ?i (length (take j ?ls)) = ?i - j" for j using len by simp
  have sp': "sp' = sp\<lparr>sp_prior := take k ?ls, sp_last_start := max ?t w\<rparr> \<and>
    r = (if k = length ?ls then None else Some (?i - length ?ls, ?i - k))"
  proof (cases "position (over_before w) (prior_spans ?t ?i ?ls)")
    case None
    then have "k = length ?ls" by (simp add: k_def)
    then show ?thesis using assms(2) unfolding prune_spans_def tail Let_def None by auto
  next
    case (Some j)
    then have "k = j" "j < length ?ls" using pos[OF Some] by (auto simp: k_def)
    then show ?thesis using assms(2) part[of j] whole unfolding prune_spans_def tail Let_def Some by auto
  qed
  show "sp_prior sp' = take (length (sp_prior sp')) (sp_prior sp)" "sp_last_start sp' = max (sp_last_start sp) w"
    "sp_span_index sp' = sp_span_index sp" "sp_last_nonzero_slash sp' = sp_last_nonzero_slash sp"
    "r = (if length (sp_prior sp') = length (sp_prior sp) then None
      else Some (sp_span_index sp - length (sp_prior sp), sp_span_index sp - length (sp_prior sp')))"
    using k by (simp_all add: sp'[THEN conjunct1] sp'[THEN conjunct2] min_def)
  have kept: "take k (prior_spans ?t ?i ?ls) = filter (\<lambda>x. \<not> over_before w x) (prior_spans ?t ?i ?ls)"
    using position_take[where P = "over_before w" and xs = "prior_spans ?t ?i ?ls"]
    unfolding prior_spans_length k_def[symmetric] prior_spans_filter[OF ok] .
  have "prior_spans (max ?t w) ?i (take k ?ls) = prior_spans ?t ?i (take k ?ls)"
  proof (cases "w \<le> ?t")
    case False
    then have "list_all (over_before w) (prior_spans ?t ?i ?ls)" using prior_over_mono[OF ok, of w] by simp
    then have "take k (prior_spans ?t ?i ?ls) = []" unfolding kept by (simp add: list_all_iff filter_empty_conv)
    then have "take k ?ls = []" by (metis take_eq_Nil prior_spans_length length_0_conv)
    then show ?thesis by (simp only: prior_spans.simps)
  qed simp
  then show "tl (iter_spans sp') = filter (\<lambda>x. \<not> over_before w x) (tl (iter_spans sp))"
    unfolding tail by (simp add: iter_spans_def sp'[THEN conjunct1] prior_spans_take kept)
qed

lemma spans_ok_prune:
  assumes "spans_ok sp" "w \<le> u32_max" "prune_spans w sp = (r, sp')"
  shows "spans_ok sp'"
proof -
  let ?n = "length (sp_prior sp')"
  note eq = prune_spans_eq[OF assms(1,3)]
  have "sum_list (take ?n (sp_prior sp)) \<le> sum_list (sp_prior sp)"
    by (metis append_take_drop_id sum_list_append le_add1)
  moreover have "?n \<le> length (sp_prior sp)" by (metis eq(1) length_take min.cobounded1)
  moreover have "set (sp_prior sp') \<subseteq> set (sp_prior sp)" by (metis eq(1) set_take_subset)
  ultimately show ?thesis using assms(1,2) eq(1-3) by (auto simp: spans_ok_def)
qed

end
