(* ===== verification/Slashing.thy ===== *)
theory Slashing
  imports Slashing_Spans
begin

text \<open>
  Slashing, \<open>lib-serml/serp/serp-staking/src/slashing.rs\<close>: computing the slash of a validator and its
  nominators, with the highest slash per era and per slashing span as the books, and applying it to
  the ledgers. The structure \<open>InspectingSpans\<close> is a record next to the storage; what its destructor
  writes is \<open>drop_spans\<close>.
\<close>

definition reward_f1 :: perbill where "reward_f1 = 500000000"

section \<open>Inspecting the spans of a stash\<close>

record inspecting =
  in_dirty :: bool
  in_spans :: slashing_spans
  in_paid_out :: balance
  in_slash_of :: balance

definition fetch_spans ::
  "account_id \<Rightarrow> era_index \<Rightarrow> balance \<Rightarrow> balance \<Rightarrow> 'w staking_state \<Rightarrow> inspecting \<times> 'w staking_state" where
  "fetch_spans stash window_start paid_out slash_of s =
     (case spans_of s stash of
        Some sp \<Rightarrow> (\<lparr>in_dirty = False, in_spans = sp, in_paid_out = paid_out, in_slash_of = slash_of\<rparr>, s)
      | None \<Rightarrow>
          (let sp = new_spans window_start in
           (\<lparr>in_dirty = False, in_spans = sp, in_paid_out = paid_out, in_slash_of = slash_of\<rparr>,
            s\<lparr>spans_of := (spans_of s)(stash \<mapsto> sp)\<rparr>)))"

definition inspecting_end_span :: "era_index \<Rightarrow> inspecting \<Rightarrow> inspecting" where
  "inspecting_end_span now i =
     (case end_span now (in_spans i) of (ended, sp) \<Rightarrow> i\<lparr>in_dirty := (ended \<or> in_dirty i), in_spans := sp\<rparr>)"

definition add_slash :: "balance \<Rightarrow> era_index \<Rightarrow> inspecting \<Rightarrow> inspecting" where
  "add_slash amount slash_era i = i\<lparr>in_slash_of := wrap_add u128_max (in_slash_of i) amount,
     in_spans := (in_spans i)\<lparr>sp_last_nonzero_slash := max (sp_last_nonzero_slash (in_spans i)) slash_era\<rparr>\<rparr>"

text \<open>The reward for a report of a slash that is at least the highest of its span.\<close>

definition span_reward :: "'w staking_config \<Rightarrow> perbill \<Rightarrow> balance \<Rightarrow> span_record \<Rightarrow> balance" where
  "span_reward cfg reward_proportion slash r =
     sk_perbill_mul cfg reward_f1 (sat_sub (sk_perbill_mul cfg reward_proportion slash) (sr_paid_out r))"

text \<open>The record of the span after the comparison, and whether it changed.\<close>

definition compare_span ::
  "'w staking_config \<Rightarrow> perbill \<Rightarrow> era_index \<Rightarrow> balance \<Rightarrow> span_record \<Rightarrow> inspecting \<Rightarrow> span_record \<times> inspecting \<times> bool" where
  "compare_span cfg reward_proportion slash_era slash r i =
     (let (reward, r1, i1, changed) =
            (if sr_slashed r < slash then
               (span_reward cfg reward_proportion slash r, r\<lparr>sr_slashed := slash\<rparr>,
                add_slash (slash - sr_slashed r) slash_era i, True)
             else if sr_slashed r = slash then (span_reward cfg reward_proportion slash r, r, i, False)
             else (0, r, i, False))
      in if reward \<noteq> 0 then
           (r1\<lparr>sr_paid_out := wrap_add u128_max (sr_paid_out r1) reward\<rparr>,
            i1\<lparr>in_paid_out := wrap_add u128_max (in_paid_out i1) reward\<rparr>, True)
         else (r1, i1, changed))"

definition compare_and_update_span_slash ::
  "'w staking_config \<Rightarrow> account_id \<Rightarrow> perbill \<Rightarrow> era_index \<Rightarrow> balance \<Rightarrow> inspecting \<times> 'w staking_state \<Rightarrow>
   nat option \<times> inspecting \<times> 'w staking_state" where
  "compare_and_update_span_slash cfg stash reward_proportion slash_era slash = (\<lambda>(i, s).
     case era_span slash_era (in_spans i) of
       None \<Rightarrow> (None, i, s)
     | Some target_span \<Rightarrow>
         (case compare_span cfg reward_proportion slash_era slash (span_slash s stash (ss_index target_span)) i of
            (r, i', changed) \<Rightarrow>
              (Some (ss_index target_span), if changed then i'\<lparr>in_dirty := True\<rparr> else i',
               if changed
               then s\<lparr>span_slash := (span_slash s)(stash := (span_slash s stash)(ss_index target_span := r))\<rparr>
               else s)))"

definition no_record :: span_record where
  "no_record = \<lparr>sr_slashed = 0, sr_paid_out = 0\<rparr>"

text \<open>The destructor: nothing is written unless something was slashed or ended.\<close>

definition drop_spans :: "account_id \<Rightarrow> era_index \<Rightarrow> inspecting \<times> 'w staking_state \<Rightarrow> 'w staking_state" where
  "drop_spans stash window_start = (\<lambda>(i, s).
     if \<not> in_dirty i then s
     else
       (case prune_spans window_start (in_spans i) of (pruned, sp) \<Rightarrow>
          (let s1 = (case pruned of
                None \<Rightarrow> s
              | Some (start, stop) \<Rightarrow> s\<lparr>span_slash := (span_slash s)(stash :=
                  fold (\<lambda>k f. f(k := no_record)) [start..<stop] (span_slash s stash))\<rparr>)
           in s1\<lparr>spans_of := (spans_of s1)(stash \<mapsto> sp)\<rparr>)))"

section \<open>Computing a slash\<close>

text \<open>The spans of a validator that misbehaved in its current span end, and it leaves the set.\<close>

definition chill_in_current_span ::
  "'w staking_config \<Rightarrow> account_id \<Rightarrow> era_index \<Rightarrow> inspecting \<times> 'w staking_state \<Rightarrow> inspecting \<times> 'w staking_state" where
  "chill_in_current_span cfg stash now = (\<lambda>(i, s).
     (let s1 = chill_stash stash s;
          (disabled, w) = sk_disable_validator cfg stash (stk_world s1);
          s2 = s1\<lparr>stk_world := w\<rparr>
      in (inspecting_end_span now i, if unwrap_or disabled False then ensure_new_era s2 else s2)))"

record slash_params =
  spm_stash :: account_id
  spm_slash :: perbill
  spm_exposure :: exposure
  spm_slash_era :: era_index
  spm_window_start :: era_index
  spm_now :: era_index
  spm_reward_proportion :: perbill

definition kick_out_if_recent :: "'w staking_config \<Rightarrow> slash_params \<Rightarrow> 'w staking_state \<Rightarrow> 'w staking_state" where
  "kick_out_if_recent cfg p s =
     (let stash = spm_stash p; (i, s1) = fetch_spans stash (spm_window_start p) 0 0 s
      in drop_spans stash (spm_window_start p)
           (if map_option ss_index (era_span (spm_slash_era p) (in_spans i)) = Some (sp_span_index (in_spans i))
            then chill_in_current_span cfg stash (spm_now p) (i, s1) else (i, s1)))"

text \<open>One nominator: its slash of the era grows by its share of what the validator's grew by.\<close>

definition slash_nominator ::
  "'w staking_config \<Rightarrow> slash_params \<Rightarrow> perbill \<Rightarrow> individual_exposure \<Rightarrow>
   balance \<times> (account_id \<times> balance) list \<times> 'w staking_state \<Rightarrow> balance \<times> (account_id \<times> balance) list \<times> 'w staking_state" where
  "slash_nominator cfg p prior_slash_p nominator = (\<lambda>(reward_payout, slashed, s).
     (let stash = ie_who nominator;
          own_slash_prior = sk_perbill_mul cfg prior_slash_p (ie_value nominator);
          own_slash_by_validator = sk_perbill_mul cfg (spm_slash p) (ie_value nominator);
          own_slash_difference = sat_sub own_slash_by_validator own_slash_prior;
          era_slash = wrap_add u128_max (unwrap_or (nominator_slash_in_era s (spm_slash_era p) stash) 0) own_slash_difference;
          s1 = s\<lparr>nominator_slash_in_era := (nominator_slash_in_era s)(spm_slash_era p :=
                 (nominator_slash_in_era s (spm_slash_era p))(stash \<mapsto> era_slash))\<rparr>;
          (i0, s2) = fetch_spans stash (spm_window_start p) reward_payout 0 s1;
          (target_span, i1, s3) = compare_and_update_span_slash cfg stash (spm_reward_proportion p) (spm_slash_era p) era_slash (i0, s2);
          i2 = (if target_span = Some (sp_span_index (in_spans i1)) then inspecting_end_span (spm_now p) i1 else i1)
      in (in_paid_out i2, slashed @ [(stash, in_slash_of i2)], drop_spans stash (spm_window_start p) (i2, s3))))"

definition slash_nominators ::
  "'w staking_config \<Rightarrow> slash_params \<Rightarrow> perbill \<Rightarrow> 'w staking_state \<Rightarrow> balance \<times> (account_id \<times> balance) list \<times> 'w staking_state" where
  "slash_nominators cfg p prior_slash_p s =
     fold (slash_nominator cfg p prior_slash_p) (ex_others (spm_exposure p)) (0, [], s)"

text \<open>The validator itself.\<close>

definition slash_validator ::
  "'w staking_config \<Rightarrow> slash_params \<Rightarrow> balance \<Rightarrow> 'w staking_state \<Rightarrow> balance \<times> balance \<times> 'w staking_state" where
  "slash_validator cfg p own_slash s =
     (let stash = spm_stash p;
          (i0, s1) = fetch_spans stash (spm_window_start p) 0 0 s;
          (target_span, i1, s2) = compare_and_update_span_slash cfg stash (spm_reward_proportion p) (spm_slash_era p) own_slash (i0, s1);
          (i2, s3) = (if target_span = Some (sp_span_index (in_spans i1))
                      then chill_in_current_span cfg stash (spm_now p) (i1, s2) else (i1, s2))
      in (in_paid_out i2, in_slash_of i2, drop_spans stash (spm_window_start p) (i2, s3)))"

definition compute_slash ::
  "'w staking_config \<Rightarrow> slash_params \<Rightarrow> 'w staking_state \<Rightarrow> unapplied_slash option \<times> 'w staking_state" where
  "compute_slash cfg p s =
     (let stash = spm_stash p; own_slash = sk_perbill_mul cfg (spm_slash p) (ex_own (spm_exposure p)) in
      if sk_perbill_mul cfg (spm_slash p) (ex_total (spm_exposure p)) = 0 then (None, kick_out_if_recent cfg p s)
      else
        (let (prior_slash_p, _) = unwrap_or (validator_slash_in_era s (spm_slash_era p) stash) (0, 0) in
         if spm_slash p \<le> prior_slash_p then (None, s)
         else
           (let s1 = s\<lparr>validator_slash_in_era := (validator_slash_in_era s)(spm_slash_era p :=
                  (validator_slash_in_era s (spm_slash_era p))(stash \<mapsto> (spm_slash p, own_slash)))\<rparr>;
                (reward_payout, val_slashed, s2) = slash_validator cfg p own_slash s1;
                (nominators_payout, nominators_slashed, s3) = slash_nominators cfg p prior_slash_p s2
            in (Some \<lparr>us_validator = stash, us_own = val_slashed, us_others = nominators_slashed, us_reporters = [],
                      us_payout = wrap_add u128_max reward_payout nominators_payout\<rparr>, s3))))"

section \<open>Clearing\<close>

definition clear_era_metadata :: "era_index \<Rightarrow> 'w staking_state \<Rightarrow> 'w staking_state" where
  "clear_era_metadata obsolete_era s = s\<lparr>
     validator_slash_in_era := (validator_slash_in_era s)(obsolete_era := Map.empty),
     nominator_slash_in_era := (nominator_slash_in_era s)(obsolete_era := Map.empty)\<rparr>"

definition clear_stash_metadata :: "account_id \<Rightarrow> nat \<Rightarrow> ('w staking_state, unit) eff" where
  "clear_stash_metadata stash num_slashing_spans =
     bindE (getE (\<lambda>s. spans_of s stash)) (\<lambda>found.
     case found of
       None \<Rightarrow> okE ()
     | Some sp \<Rightarrow>
         thenE (ensure (num_slashing_spans \<ge> length (iter_spans sp)) (Staking_Error IncorrectSlashingSpans))
           (modE (\<lambda>s. s\<lparr>spans_of := (spans_of s)(stash := None),
              span_slash := (span_slash s)(stash :=
                fold (\<lambda>k f. f(k := no_record)) (map ss_index (iter_spans sp)) (span_slash s stash))\<rparr>)))"

section \<open>Applying a slash\<close>

definition do_slash ::
  "'w staking_config \<Rightarrow> account_id \<Rightarrow> balance \<Rightarrow> balance \<times> balance \<times> 'w staking_state \<Rightarrow> balance \<times> balance \<times> 'w staking_state" where
  "do_slash cfg stash value0 = (\<lambda>(reward_payout, slashed_imbalance, s).
     case bonded s stash of
       None \<Rightarrow> (reward_payout, slashed_imbalance, s)
     | Some controller \<Rightarrow>
         (case stake_ledger s controller of
            None \<Rightarrow> (reward_payout, slashed_imbalance, s)
          | Some l0 \<Rightarrow>
              (let (value, l) = ledger_slash value0 (sk_minimum_balance cfg) l0 in
               if value = 0 then (reward_payout, slashed_imbalance, s)
               else
                 (let ((imbalance, missing), w) = sk_slash cfg stash value (stk_world s);
                      s1 = s\<lparr>stk_world := w\<rparr>
                  in (if missing \<noteq> 0 then sat_sub reward_payout missing else reward_payout,
                      sk_subsume cfg slashed_imbalance imbalance,
                      stk_event (Slash stash value) (update_ledger cfg controller l s1))))))"

text \<open>The payout comes out of what was slashed; the rest goes to the handler of slashes.\<close>

definition pay_reporters ::
  "'w staking_config \<Rightarrow> balance \<Rightarrow> balance \<Rightarrow> account_id list \<Rightarrow> 'w staking_state \<Rightarrow> 'w staking_state" where
  "pay_reporters cfg reward_payout0 slashed_imbalance reporters s =
     (if reward_payout0 = 0 \<or> reporters = [] then on_world (sk_on_slash cfg slashed_imbalance) s
      else
        (let (reward_payout, value_slashed) = sk_split cfg slashed_imbalance (min reward_payout0 slashed_imbalance);
             per_reporter = reward_payout div length reporters;
             (rest, w) = fold (\<lambda>reporter (rest, w).
                 let (reporter_reward, rest') = sk_split cfg rest per_reporter
                 in (rest', sk_resolve_creating cfg reporter reporter_reward w)) reporters (reward_payout, stk_world s)
         in on_world (sk_on_slash cfg (sk_subsume cfg value_slashed rest)) (s\<lparr>stk_world := w\<rparr>)))"

definition apply_slash :: "'w staking_config \<Rightarrow> unapplied_slash \<Rightarrow> 'w staking_state \<Rightarrow> 'w staking_state" where
  "apply_slash cfg u s =
     (let (reward_payout, slashed_imbalance, t) =
            fold (\<lambda>(who, amount). do_slash cfg who amount) ((us_validator u, us_own u) # us_others u) (us_payout u, 0, s)
      in pay_reporters cfg reward_payout slashed_imbalance (us_reporters u) t)"

end
