(* ===== verification/Staking.thy ===== *)
theory Staking
  imports Slashing
begin

text \<open>
  The staking pallet, \<open>lib-serml/serp/serp-staking/src/lib.rs\<close>, second part: its dispatchables, the
  eras and sessions, the data it gives the election, and the offences reported to it. The payouts
  (\<open>do_payout_stakers\<close>, \<open>make_payout\<close>, \<open>end_era\<close>) are not modelled: they call functions with arguments
  these functions do not take and do not type check. The dispatchables of this pallet are not
  transactional.
\<close>

definition max_unlocking_chunks :: nat where "max_unlocking_chunks = 32"

definition sk_fail :: "staking_error \<Rightarrow> ('s, 'a) eff" where
  "sk_fail e = failE (Staking_Error e)"

definition lookupE :: "'w staking_config \<Rightarrow> nat \<Rightarrow> ('s, account_id) eff" where
  "lookupE cfg source = ok_or (sk_lookup cfg source) CannotLookup"

text \<open>The ledger a controller controls, or \<open>NotController\<close>.\<close>

definition ledgerE :: "account_id \<Rightarrow> ('w staking_state, staking_ledger) eff" where
  "ledgerE controller = bindE (getE (\<lambda>s. stake_ledger s controller)) (\<lambda>l. ok_or l (Staking_Error NotController))"

definition bondedE :: "account_id \<Rightarrow> ('w staking_state, account_id) eff" where
  "bondedE stash = bindE (getE (\<lambda>s. bonded s stash)) (\<lambda>c. ok_or c (Staking_Error NotStash))"

section \<open>Bonding\<close>

definition bond :: "'w staking_config \<Rightarrow> origin \<Rightarrow> nat \<Rightarrow> balance \<Rightarrow> reward_destination \<Rightarrow> ('w staking_state, unit) eff" where
  "bond cfg org controller_source value dest =
     bindE (ensure_signed org) (\<lambda>stash.
     bindE (getE (\<lambda>s. bonded s stash)) (\<lambda>already.
     thenE (ensure (already = None) (Staking_Error AlreadyBonded)) (
     bindE (lookupE cfg controller_source) (\<lambda>controller.
     bindE (getE (\<lambda>s. stake_ledger s controller)) (\<lambda>paired.
     thenE (ensure (paired = None) (Staking_Error AlreadyPaired)) (
     thenE (ensure (sk_minimum_balance cfg \<le> value) (Staking_Error InsufficientBond)) (
     thenE (map_errE (\<lambda>_. Staking_Error BadState) (inK (sk_inc_consumers cfg stash))) (
     modE (\<lambda>s.
       let era = unwrap_or (current_era s) 0;
           last_reward_era = sat_sub era (history_depth s);
           v = min value (sk_free_balance cfg stash (stk_world s));
           s1 = s\<lparr>bonded := (bonded s)(stash \<mapsto> controller), payee := (payee s)(stash := dest)\<rparr>
       in update_ledger cfg controller \<lparr>sl_stash = stash, sl_total = v, sl_active = v, sl_unlocking = [],
              sl_claimed_rewards = [last_reward_era..<era]\<rparr> (stk_event (Bonded stash v) s1))))))))))"

definition bond_extra :: "'w staking_config \<Rightarrow> origin \<Rightarrow> balance \<Rightarrow> ('w staking_state, unit) eff" where
  "bond_extra cfg org max_additional =
     bindE (ensure_signed org) (\<lambda>stash.
     bindE (bondedE stash) (\<lambda>controller.
     bindE (ledgerE controller) (\<lambda>l.
     bindE (getE (\<lambda>s. chk_sub (sk_free_balance cfg stash (stk_world s)) (sl_total l))) (\<lambda>free.
     case free of
       None \<Rightarrow> okE ()
     | Some room \<Rightarrow>
         (let extra = min room max_additional;
              l' = l\<lparr>sl_total := wrap_add u128_max (sl_total l) extra, sl_active := wrap_add u128_max (sl_active l) extra\<rparr>
          in thenE (ensure (sl_active l' \<ge> sk_minimum_balance cfg) (Staking_Error InsufficientBond))
               (modE (\<lambda>s. update_ledger cfg controller l' (stk_event (Bonded stash extra) s))))))))"

text \<open>The least active bond a stash needs in its role.\<close>

definition min_active_bond :: "account_id \<Rightarrow> 'w staking_state \<Rightarrow> balance" where
  "min_active_bond stash s =
     (if alist_contains stash (nominators s) then min_nominator_bond s
      else if alist_contains stash (validators s) then min_validator_bond s else 0)"

definition unbond :: "'w staking_config \<Rightarrow> origin \<Rightarrow> balance \<Rightarrow> ('w staking_state, unit) eff" where
  "unbond cfg org value0 =
     bindE (ensure_signed org) (\<lambda>controller.
     bindE (ledgerE controller) (\<lambda>l.
     thenE (ensure (length (sl_unlocking l) < max_unlocking_chunks) (Staking_Error NoMoreChunks)) (
     let asked = min value0 (sl_active l) in
     if asked = 0 then okE ()
     else
       (let rest = sl_active l - asked;
            (value, active) = (if rest < sk_minimum_balance cfg then (wrap_add u128_max asked rest, 0) else (asked, rest))
        in bindE (getE (min_active_bond (sl_stash l))) (\<lambda>needed.
           thenE (ensure (active \<ge> needed) (Staking_Error InsufficientBond))
             (modE (\<lambda>s.
                let era = wrap_add u32_max (unwrap_or (current_era s) 0) (sk_bonding_duration cfg)
                in stk_event (Unbonded (sl_stash l) value)
                     (update_ledger cfg controller
                        (l\<lparr>sl_active := active, sl_unlocking := sl_unlocking l @ [\<lparr>uc_value = value, uc_era = era\<rparr>]\<rparr>) s))))))))"

text \<open>Removing a stash with everything the pallet knows of it.\<close>

definition kill_stash :: "'w staking_config \<Rightarrow> account_id \<Rightarrow> nat \<Rightarrow> ('w staking_state, unit) eff" where
  "kill_stash cfg stash num_slashing_spans =
     bindE (bondedE stash) (\<lambda>controller.
     thenE (clear_stash_metadata stash num_slashing_spans)
       (modE (\<lambda>s.
          let s1 = s\<lparr>bonded := (bonded s)(stash := None), stake_ledger := (stake_ledger s)(controller := None),
                     payee := (payee s)(stash := Staked)\<rparr>;
              s2 = snd (do_remove_validator stash s1);
              s3 = snd (do_remove_nominator stash s2)
          in on_world (sk_dec_consumers cfg stash) s3)))"

definition withdraw_unbonded :: "'w staking_config \<Rightarrow> origin \<Rightarrow> nat \<Rightarrow> ('w staking_state, unit) eff" where
  "withdraw_unbonded cfg org num_slashing_spans =
     bindE (ensure_signed org) (\<lambda>controller.
     bindE (ledgerE controller) (\<lambda>l0.
     bindE (getE current_era) (\<lambda>era.
     let l = (case era of None \<Rightarrow> l0 | Some e \<Rightarrow> consolidate_unlocked e l0) in
     thenE (if sl_unlocking l = [] \<and> sl_active l < sk_minimum_balance cfg
            then thenE (kill_stash cfg (sl_stash l0) num_slashing_spans) (modE (on_world (sk_remove_lock cfg (sl_stash l0))))
            else modE (update_ledger cfg controller l))
       (whenE (sl_total l < sl_total l0) (modE (stk_event (Withdrawn (sl_stash l0) (sl_total l0 - sl_total l))))))))"

definition rebond_call :: "'w staking_config \<Rightarrow> origin \<Rightarrow> balance \<Rightarrow> ('w staking_state, unit) eff" where
  "rebond_call cfg org value =
     bindE (ensure_signed org) (\<lambda>controller.
     bindE (ledgerE controller) (\<lambda>l0.
     thenE (ensure (sl_unlocking l0 \<noteq> []) (Staking_Error NoUnlockChunk)) (
     bindE (ok_or (rebond value l0) Panic) (\<lambda>l.
     thenE (ensure (sl_active l \<ge> sk_minimum_balance cfg) (Staking_Error InsufficientBond))
       (modE (\<lambda>s. update_ledger cfg controller l (stk_event (Bonded (sl_stash l) value) s)))))))"

section \<open>Roles\<close>

definition staking_validate :: "origin \<Rightarrow> validator_prefs \<Rightarrow> ('w staking_state, unit) eff" where
  "staking_validate org prefs =
     bindE (ensure_signed org) (\<lambda>controller.
     bindE (ledgerE controller) (\<lambda>l.
     bindE (getE min_validator_bond) (\<lambda>least.
     thenE (ensure (sl_active l \<ge> least) (Staking_Error InsufficientBond)) (
     let stash = sl_stash l in
     bindE (getE (\<lambda>s. alist_contains stash (validators s) \<or>
                      (case max_validators_count s of None \<Rightarrow> True | Some m \<Rightarrow> counter_for_validators s < m))) (\<lambda>room.
     thenE (ensure room (Staking_Error TooManyValidators))
       (modE (\<lambda>s. do_add_validator stash prefs (snd (do_remove_nominator stash s)))))))))"

fun collectE :: "('a \<Rightarrow> ('e, 's, 'b) effect) \<Rightarrow> 'a list \<Rightarrow> ('e, 's, 'b list) effect" where
  "collectE f [] = okE []"
| "collectE f (x # xs) = bindE (f x) (\<lambda>y. bindE (collectE f xs) (\<lambda>ys. okE (y # ys)))"

definition prefs_of :: "account_id \<Rightarrow> 'w staking_state \<Rightarrow> validator_prefs" where
  "prefs_of who s = unwrap_or (map_of (validators s) who) default_prefs"

text \<open>A target has to accept nominations, unless it was nominated before.\<close>

definition nominate_target :: "'w staking_config \<Rightarrow> account_id list \<Rightarrow> nat \<Rightarrow> ('w staking_state, account_id) eff" where
  "nominate_target cfg old t =
     bindE (lookupE cfg t) (\<lambda>n.
     bindE (getE (\<lambda>s. n \<in> set old \<or> \<not> vp_blocked (prefs_of n s))) (\<lambda>open_for.
     thenE (ensure open_for (Staking_Error BadTarget)) (okE n)))"

definition nominate :: "'w staking_config \<Rightarrow> origin \<Rightarrow> nat list \<Rightarrow> ('w staking_state, unit) eff" where
  "nominate cfg org targets =
     bindE (ensure_signed org) (\<lambda>controller.
     bindE (ledgerE controller) (\<lambda>l.
     bindE (getE min_nominator_bond) (\<lambda>least.
     thenE (ensure (sl_active l \<ge> least) (Staking_Error InsufficientBond)) (
     let stash = sl_stash l in
     bindE (getE (\<lambda>s. alist_contains stash (nominators s) \<or>
                      (case max_nominators_count s of None \<Rightarrow> True | Some m \<Rightarrow> counter_for_nominators s < m))) (\<lambda>room.
     thenE (ensure room (Staking_Error TooManyNominators)) (
     thenE (ensure (targets \<noteq> []) (Staking_Error EmptyTargets)) (
     thenE (ensure (length targets \<le> sk_max_nominations cfg) (Staking_Error TooManyTargets)) (
     bindE (getE (\<lambda>s. case map_of (nominators s) stash of None \<Rightarrow> [] | Some n \<Rightarrow> nm_targets n)) (\<lambda>old.
     bindE (collectE (nominate_target cfg old) targets) (\<lambda>ts.
     modE (\<lambda>s. do_add_nominator stash
             \<lparr>nm_targets = ts, nm_submitted_in = unwrap_or (current_era s) 0, nm_suppressed = False\<rparr>
             (snd (do_remove_validator stash s)))))))))))))"

definition chill :: "origin \<Rightarrow> ('w staking_state, unit) eff" where
  "chill org =
     bindE (ensure_signed org) (\<lambda>controller.
     bindE (ledgerE controller) (\<lambda>l. modE (chill_stash (sl_stash l))))"

definition chill_other :: "'w staking_config \<Rightarrow> origin \<Rightarrow> account_id \<Rightarrow> ('w staking_state, unit) eff" where
  "chill_other cfg org controller =
     bindE (ensure_signed org) (\<lambda>caller.
     bindE (ledgerE controller) (\<lambda>l.
     let stash = sl_stash l in
     thenE (whenE (caller \<noteq> controller) (
       bindE (getE id) (\<lambda>s.
       bindE (ok_or (chill_threshold s) (Staking_Error CannotChillOther)) (\<lambda>threshold.
       bindE (if alist_contains stash (nominators s) then
                bindE (ok_or (max_nominators_count s) (Staking_Error CannotChillOther)) (\<lambda>m.
                thenE (ensure (sk_percent_mul cfg threshold m < counter_for_nominators s) (Staking_Error CannotChillOther))
                  (okE (min_nominator_bond s)))
              else if alist_contains stash (validators s) then
                bindE (ok_or (max_validators_count s) (Staking_Error CannotChillOther)) (\<lambda>m.
                thenE (ensure (sk_percent_mul cfg threshold m < counter_for_validators s) (Staking_Error CannotChillOther))
                  (okE (min_validator_bond s)))
              else okE 0) (\<lambda>needed.
       ensure (sl_active l < needed) (Staking_Error CannotChillOther))))))
     (modE (chill_stash stash))))"

definition set_payee :: "origin \<Rightarrow> reward_destination \<Rightarrow> ('w staking_state, unit) eff" where
  "set_payee org dest =
     bindE (ensure_signed org) (\<lambda>controller.
     bindE (ledgerE controller) (\<lambda>l. modE (\<lambda>s. s\<lparr>payee := (payee s)(sl_stash l := dest)\<rparr>)))"

definition set_controller :: "'w staking_config \<Rightarrow> origin \<Rightarrow> nat \<Rightarrow> ('w staking_state, unit) eff" where
  "set_controller cfg org controller_source =
     bindE (ensure_signed org) (\<lambda>stash.
     bindE (bondedE stash) (\<lambda>old_controller.
     bindE (lookupE cfg controller_source) (\<lambda>controller.
     bindE (getE (\<lambda>s. stake_ledger s controller)) (\<lambda>paired.
     thenE (ensure (paired = None) (Staking_Error AlreadyPaired))
       (whenE (controller \<noteq> old_controller)
         (modE (\<lambda>s.
            let s1 = s\<lparr>bonded := (bonded s)(stash \<mapsto> controller)\<rparr> in
            case stake_ledger s1 old_controller of
              None \<Rightarrow> s1
            | Some l \<Rightarrow> s1\<lparr>stake_ledger := ((stake_ledger s1)(old_controller := None))(controller \<mapsto> l)\<rparr>)))))))"

definition kick_nominator :: "account_id \<Rightarrow> account_id \<Rightarrow> 'w staking_state \<Rightarrow> 'w staking_state" where
  "kick_nominator stash nom_stash s =
     (case map_of (nominators s) nom_stash of
        None \<Rightarrow> s
      | Some n \<Rightarrow>
          (case position (\<lambda>v. v = stash) (nm_targets n) of
             None \<Rightarrow> s
           | Some pos \<Rightarrow> stk_event (Kicked nom_stash stash)
               (s\<lparr>nominators := alist_put nom_stash (n\<lparr>nm_targets := swap_remove pos (nm_targets n)\<rparr>) (nominators s)\<rparr>)))"

definition kick :: "'w staking_config \<Rightarrow> origin \<Rightarrow> nat list \<Rightarrow> ('w staking_state, unit) eff" where
  "kick cfg org who =
     bindE (ensure_signed org) (\<lambda>controller.
     bindE (ledgerE controller) (\<lambda>l.
     bindE (collectE (lookupE cfg) who) (\<lambda>noms.
     forE noms (\<lambda>nom_stash. modE (kick_nominator (sl_stash l) nom_stash)))))"

section \<open>Calls of the root\<close>

definition set_validator_count :: "origin \<Rightarrow> nat \<Rightarrow> ('w staking_state, unit) eff" where
  "set_validator_count org n = thenE (ensure_root org) (modE (\<lambda>s. s\<lparr>validator_count := n\<rparr>))"

definition increase_validator_count :: "origin \<Rightarrow> nat \<Rightarrow> ('w staking_state, unit) eff" where
  "increase_validator_count org additional =
     thenE (ensure_root org) (modE (\<lambda>s. s\<lparr>validator_count := wrap_add u32_max (validator_count s) additional\<rparr>))"

definition scale_validator_count :: "'w staking_config \<Rightarrow> origin \<Rightarrow> nat \<Rightarrow> ('w staking_state, unit) eff" where
  "scale_validator_count cfg org factor =
     thenE (ensure_root org) (modE (\<lambda>s. s\<lparr>validator_count :=
       wrap_add u32_max (validator_count s) (sk_percent_mul cfg factor (validator_count s))\<rparr>))"

definition force_no_eras :: "origin \<Rightarrow> ('w staking_state, unit) eff" where
  "force_no_eras org = thenE (ensure_root org) (modE (\<lambda>s. s\<lparr>force_era := ForceNone\<rparr>))"

definition force_new_era :: "origin \<Rightarrow> ('w staking_state, unit) eff" where
  "force_new_era org = thenE (ensure_root org) (modE (\<lambda>s. s\<lparr>force_era := ForceNew\<rparr>))"

definition force_new_era_always :: "origin \<Rightarrow> ('w staking_state, unit) eff" where
  "force_new_era_always org = thenE (ensure_root org) (modE (\<lambda>s. s\<lparr>force_era := ForceAlways\<rparr>))"

definition set_invulnerables :: "origin \<Rightarrow> account_id list \<Rightarrow> ('w staking_state, unit) eff" where
  "set_invulnerables org who = thenE (ensure_root org) (modE (\<lambda>s. s\<lparr>invulnerables := who\<rparr>))"

definition force_unstake :: "'w staking_config \<Rightarrow> origin \<Rightarrow> account_id \<Rightarrow> nat \<Rightarrow> ('w staking_state, unit) eff" where
  "force_unstake cfg org stash num_slashing_spans =
     thenE (ensure_root org) (
     thenE (kill_stash cfg stash num_slashing_spans) (modE (on_world (sk_remove_lock cfg stash))))"

definition reap_stash :: "'w staking_config \<Rightarrow> account_id \<Rightarrow> nat \<Rightarrow> ('w staking_state, unit) eff" where
  "reap_stash cfg stash num_slashing_spans =
     bindE (getE (\<lambda>s. sk_total_balance cfg stash (stk_world s) = sk_minimum_balance cfg)) (\<lambda>at_minimum.
     thenE (ensure at_minimum (Staking_Error FundedTarget)) (
     thenE (kill_stash cfg stash num_slashing_spans) (modE (on_world (sk_remove_lock cfg stash)))))"

definition is_sorted_and_unique :: "nat list \<Rightarrow> bool" where
  "is_sorted_and_unique xs = list_all (\<lambda>i. xs ! i < xs ! Suc i) [0..<length xs - 1]"

definition cancel_deferred_slash :: "'w staking_config \<Rightarrow> origin \<Rightarrow> era_index \<Rightarrow> nat list \<Rightarrow> ('w staking_state, unit) eff" where
  "cancel_deferred_slash cfg org era slash_indices =
     thenE (ensure (sk_slash_cancel_origin cfg org) BadOrigin) (
     thenE (ensure (slash_indices \<noteq> []) (Staking_Error EmptyTargets)) (
     thenE (ensure (is_sorted_and_unique slash_indices) (Staking_Error NotSortedAndUnique)) (
     bindE (getE (\<lambda>s. unapplied_slashes s era)) (\<lambda>unapplied.
     thenE (ensure (last slash_indices < length unapplied) (Staking_Error InvalidSlashIndex))
       (modE (\<lambda>s. s\<lparr>unapplied_slashes := (unapplied_slashes s)(era :=
          fold (\<lambda>(removed, index) us. remove_at (index - removed) us) (enumerate 0 slash_indices) unapplied)\<rparr>))))))"

definition clear_era_information :: "era_index \<Rightarrow> 'w staking_state \<Rightarrow> 'w staking_state" where
  "clear_era_information era s = s\<lparr>
     eras_stakers := (eras_stakers s)(era := \<lambda>_. default_exposure),
     eras_stakers_clipped := (eras_stakers_clipped s)(era := \<lambda>_. default_exposure),
     eras_validator_prefs := (eras_validator_prefs s)(era := \<lambda>_. default_prefs),
     eras_validator_reward := (eras_validator_reward s)(era := None),
     eras_reward_points := (eras_reward_points s)(era := \<lparr>rp_total = 0, rp_individual = Map.empty\<rparr>),
     eras_total_stake := (eras_total_stake s)(era := 0),
     eras_start_session_index := (eras_start_session_index s)(era := None)\<rparr>"

definition set_history_depth :: "origin \<Rightarrow> nat \<Rightarrow> ('w staking_state, unit) eff" where
  "set_history_depth org new_history_depth =
     thenE (ensure_root org) (modE (\<lambda>s.
       case current_era s of
         None \<Rightarrow> s
       | Some era \<Rightarrow>
           (let last_kept = unwrap_or (chk_sub era (history_depth s)) 0;
                new_last_kept = unwrap_or (chk_sub era new_history_depth) 0
            in (fold clear_era_information [last_kept..<new_last_kept] s)\<lparr>history_depth := new_history_depth\<rparr>)))"

definition set_staking_limits ::
  "origin \<Rightarrow> balance \<Rightarrow> balance \<Rightarrow> nat option \<Rightarrow> nat option \<Rightarrow> nat option \<Rightarrow> ('w staking_state, unit) eff" where
  "set_staking_limits org nominator_bond validator_bond max_nominator_count max_validator_count threshold =
     thenE (ensure_root org) (modE (\<lambda>s. s\<lparr>min_nominator_bond := nominator_bond, min_validator_bond := validator_bond,
       max_nominators_count := max_nominator_count, max_validators_count := max_validator_count, chill_threshold := threshold\<rparr>))"

end
