(* ===== verification/Staking_Eras.thy ===== *)
theory Staking_Eras
  imports Staking
begin

text \<open>
  The staking pallet, \<open>lib-serml/serp/serp-staking/src/lib.rs\<close>, third part: the genesis build, the
  planning and starting of eras at the boundaries of sessions, the data it gives the election and
  the handling of offences. Of the end of a session only \<open>end_era\<close> writes storage, which does not
  type check; it is left out.
\<close>

section \<open>Genesis\<close>

definition staking_genesis_staker ::
  "'w staking_config \<Rightarrow> account_id \<times> account_id \<times> balance \<times> staker_status \<Rightarrow> ('w staking_state, unit) eff" where
  "staking_genesis_staker cfg = (\<lambda>(stash, controller, value, status).
     bindE (getE (\<lambda>s. sk_free_balance cfg stash (stk_world s) \<ge> value)) (\<lambda>enough.
     thenE (ensure enough Panic) (
     thenE (bindE (resultE (bond cfg (Signed stash) (sk_unlookup cfg controller) value Staked)) (\<lambda>_. okE ()))
       (case status of
          Validator \<Rightarrow> bindE (resultE (staking_validate (Signed controller) default_prefs)) (\<lambda>_. okE ())
        | Nominator votes \<Rightarrow> bindE (resultE (nominate cfg (Signed controller) (map (sk_unlookup cfg) votes))) (\<lambda>_. okE ())
        | Idle \<Rightarrow> okE ()))))"

record staking_genesis =
  sg_history_depth :: nat
  sg_validator_count :: nat
  sg_minimum_validator_count :: nat
  sg_invulnerables :: "account_id list"
  sg_force_era :: forcing
  sg_slash_reward_fraction :: perbill
  sg_canceled_payout :: balance
  sg_stakers :: "(account_id \<times> account_id \<times> balance \<times> staker_status) list"
  sg_min_nominator_bond :: balance
  sg_min_validator_bond :: balance

definition staking_genesis_build :: "'w staking_config \<Rightarrow> staking_genesis \<Rightarrow> ('w staking_state, unit) eff" where
  "staking_genesis_build cfg g =
     thenE (modE (\<lambda>s. s\<lparr>history_depth := sg_history_depth g, validator_count := sg_validator_count g,
       minimum_validator_count := sg_minimum_validator_count g, invulnerables := sg_invulnerables g,
       force_era := sg_force_era g, canceled_slash_payout := sg_canceled_payout g,
       slash_reward_fraction := sg_slash_reward_fraction g, min_nominator_bond := sg_min_nominator_bond g,
       min_validator_bond := sg_min_validator_bond g\<rparr>))
     (forE (sg_stakers g) (staking_genesis_staker cfg))"

definition staking_on_finalize :: "'w staking_config \<Rightarrow> 'w staking_state \<Rightarrow> 'w staking_state" where
  "staking_on_finalize cfg s =
     (case active_era s of
        None \<Rightarrow> s
      | Some a \<Rightarrow> if ae_start a = None then s\<lparr>active_era := Some (a\<lparr>ae_start := Some (min u64_max (sk_now cfg (stk_world s)))\<rparr>)\<rparr> else s)"

section \<open>Planning an era\<close>

text \<open>The exposure of an elected validator: the votes for itself and those of its nominators.\<close>

definition collect_exposure :: "'w staking_config \<Rightarrow> balance \<Rightarrow> account_id \<Rightarrow> (account_id \<times> nat) list \<Rightarrow> exposure" where
  "collect_exposure cfg issuance validator voters =
     foldl (\<lambda>ex (nominator, weight).
        let stake = sk_to_currency cfg weight issuance in
        (if nominator = validator then ex\<lparr>ex_own := sat_add u128_max (ex_own ex) stake\<rparr>
         else ex\<lparr>ex_others := ex_others ex @ [\<lparr>ie_who = nominator, ie_value = stake\<rparr>]\<rparr>)
        \<lparr>ex_total := sat_add u128_max (ex_total ex) stake\<rparr>) default_exposure voters"

definition collect_exposures :: "'w staking_config \<Rightarrow> supports \<Rightarrow> 'w staking_state \<Rightarrow> (account_id \<times> exposure) list" where
  "collect_exposures cfg supports s =
     map (\<lambda>(v, voters). (v, collect_exposure cfg (sk_total_issuance cfg (stk_world s)) v voters)) supports"

text \<open>Only the largest nominators are rewarded.\<close>

definition clip_exposure :: "nat \<Rightarrow> exposure \<Rightarrow> exposure" where
  "clip_exposure max_len ex =
     (if length (ex_others ex) > max_len
      then ex\<lparr>ex_others := take max_len (sort_key (\<lambda>e. - int (ie_value e)) (ex_others ex))\<rparr> else ex)"

definition store_staker :: "'w staking_config \<Rightarrow> era_index \<Rightarrow> account_id \<times> exposure \<Rightarrow> 'w staking_state \<Rightarrow> 'w staking_state" where
  "store_staker cfg era = (\<lambda>(stash, ex) s. s\<lparr>
     eras_stakers := (eras_stakers s)(era := (eras_stakers s era)(stash := ex)),
     eras_stakers_clipped := (eras_stakers_clipped s)(era :=
       (eras_stakers_clipped s era)(stash := clip_exposure (sk_max_nominator_rewarded cfg) ex))\<rparr>)"

definition store_stakers_info ::
  "'w staking_config \<Rightarrow> (account_id \<times> exposure) list \<Rightarrow> era_index \<Rightarrow> 'w staking_state \<Rightarrow> account_id list \<times> 'w staking_state" where
  "store_stakers_info cfg exposures era s =
     (let elected_stashes = map fst exposures;
          total_stake = foldl (\<lambda>t (_, ex). sat_add u128_max t (ex_total ex)) 0 exposures;
          s1 = fold (store_staker cfg era) exposures s;
          s2 = s1\<lparr>eras_total_stake := (eras_total_stake s1)(era := total_stake)\<rparr>;
          s3 = fold (\<lambda>stash t. t\<lparr>eras_validator_prefs := (eras_validator_prefs t)(era :=
                 (eras_validator_prefs t era)(stash := prefs_of stash t))\<rparr>) elected_stashes s2
      in (elected_stashes, s3))"

definition trigger_new_era ::
  "'w staking_config \<Rightarrow> session_index \<Rightarrow> (account_id \<times> exposure) list \<Rightarrow> 'w staking_state \<Rightarrow> account_id list \<times> 'w staking_state" where
  "trigger_new_era cfg start_session exposures s =
     (let new_planned_era = (case current_era s of None \<Rightarrow> 0 | Some e \<Rightarrow> wrap_add u32_max e 1);
          s1 = s\<lparr>current_era := Some new_planned_era,
                 eras_start_session_index := (eras_start_session_index s)(new_planned_era \<mapsto> start_session)\<rparr>;
          s2 = (case chk_sub new_planned_era (wrap_add u32_max (history_depth s1) 1) of
                  None \<Rightarrow> s1 | Some old_era \<Rightarrow> clear_era_information old_era s1)
      in store_stakers_info cfg exposures new_planned_era s2)"

definition try_trigger_new_era ::
  "'w staking_config \<Rightarrow> session_index \<Rightarrow> bool \<Rightarrow> 'w staking_state \<Rightarrow> account_id list option \<times> 'w staking_state" where
  "try_trigger_new_era cfg start_session is_genesis s =
     (let (election, w) = sk_elect cfg is_genesis s; s1 = s\<lparr>stk_world := w\<rparr> in
      case election of
        None \<Rightarrow> (None, stk_event StakingElectionFailed s1)
      | Some supports \<Rightarrow>
          (let exposures = collect_exposures cfg supports s1 in
           if length exposures < max (minimum_validator_count s1) 1 then
             (let s2 = (if current_era s1 = None
                        then s1\<lparr>current_era := Some 0, eras_start_session_index := (eras_start_session_index s1)(0 \<mapsto> start_session)\<rparr>
                        else s1)
              in (None, stk_event StakingElectionFailed s2))
           else
             (case trigger_new_era cfg start_session exposures (stk_event StakingElection s1) of (vs, t) \<Rightarrow> (Some vs, t))))"

definition plan_session ::
  "'w staking_config \<Rightarrow> session_index \<Rightarrow> bool \<Rightarrow> 'w staking_state \<Rightarrow> account_id list option \<times> 'w staking_state" where
  "plan_session cfg session is_genesis s =
     (case current_era s of
        None \<Rightarrow> try_trigger_new_era cfg session is_genesis s
      | Some era \<Rightarrow>
          (let start = unwrap_or (eras_start_session_index s era) 0;
               era_length = unwrap_or (chk_sub session start) 0;
               due = (case force_era s of
                        ForceNew \<Rightarrow> True | ForceAlways \<Rightarrow> True
                      | NotForcing \<Rightarrow> era_length \<ge> sk_sessions_per_era cfg | ForceNone \<Rightarrow> False)
           in if \<not> due then (None, s)
              else
                (case try_trigger_new_era cfg session is_genesis s of
                   (vs, t) \<Rightarrow> (vs, if vs \<noteq> None \<and> force_era t = ForceNew then t\<lparr>force_era := NotForcing\<rparr> else t))))"

text \<open>The session manager, as the session pallet and its history call it.\<close>

definition new_session ::
  "'w staking_config \<Rightarrow> session_index \<Rightarrow> bool \<Rightarrow> 'w staking_state \<Rightarrow> account_id list option \<times> 'w staking_state" where
  "new_session cfg new_index is_genesis s = plan_session cfg new_index is_genesis (s\<lparr>current_planned_session := new_index\<rparr>)"

definition historical_new_session ::
  "'w staking_config \<Rightarrow> session_index \<Rightarrow> bool \<Rightarrow> 'w staking_state \<Rightarrow> (account_id \<times> exposure) list option \<times> 'w staking_state" where
  "historical_new_session cfg new_index is_genesis s =
     (case new_session cfg new_index is_genesis s of
        (vs, t) \<Rightarrow> (map_option (map (\<lambda>v. (v, eras_stakers t (unwrap_or (current_era t) 0) v))) vs, t))"

section \<open>Starting an era\<close>

definition apply_unapplied_slashes :: "'w staking_config \<Rightarrow> era_index \<Rightarrow> 'w staking_state \<Rightarrow> 'w staking_state" where
  "apply_unapplied_slashes cfg era s =
     (case earliest_unapplied_slash s of
        None \<Rightarrow> s
      | Some first \<Rightarrow>
          (let keep_from = sat_sub era (sk_slash_defer_duration cfg);
               t = fold (\<lambda>e s. fold (apply_slash cfg) (unapplied_slashes s e)
                        (s\<lparr>unapplied_slashes := (unapplied_slashes s)(e := [])\<rparr>)) [first..<keep_from] s
           in t\<lparr>earliest_unapplied_slash := Some (max first keep_from)\<rparr>))"

definition prune_bonded_eras :: "'w staking_config \<Rightarrow> era_index \<Rightarrow> 'w staking_state \<Rightarrow> 'w staking_state" where
  "prune_bonded_eras cfg era s =
     (if era > sk_bonding_duration cfg then
        (let first_kept = era - sk_bonding_duration cfg;
             pruned = takeWhile (\<lambda>(e, _). e < first_kept) (bonded_eras s);
             kept = dropWhile (\<lambda>(e, _). e < first_kept) (bonded_eras s);
             t = fold clear_era_metadata (map fst pruned) (s\<lparr>bonded_eras := kept\<rparr>)
         in case kept of [] \<Rightarrow> t | (_, first_session) # _ \<Rightarrow> on_world (sk_prune_historical cfg first_session) t)
      else s)"

definition start_era :: "'w staking_config \<Rightarrow> session_index \<Rightarrow> 'w staking_state \<Rightarrow> 'w staking_state" where
  "start_era cfg session s =
     (let new_index = (case active_era s of None \<Rightarrow> 0 | Some a \<Rightarrow> wrap_add u32_max (ae_index a) 1);
          s1 = s\<lparr>active_era := Some \<lparr>ae_index = new_index, ae_start = None\<rparr>, bonded_eras := bonded_eras s @ [(new_index, session)]\<rparr>
      in apply_unapplied_slashes cfg new_index (prune_bonded_eras cfg new_index s1))"

definition start_session :: "'w staking_config \<Rightarrow> session_index \<Rightarrow> 'w staking_state \<Rightarrow> 'w staking_state" where
  "start_session cfg session s =
     (let next_active_era = (case active_era s of None \<Rightarrow> 0 | Some a \<Rightarrow> wrap_add u32_max (ae_index a) 1) in
      case eras_start_session_index s next_active_era of
        None \<Rightarrow> s
      | Some start \<Rightarrow> if start = session then start_era cfg session s else if start < session then start_era cfg session s else s)"

section \<open>Reward points\<close>

definition reward_by_ids :: "(account_id \<times> nat) list \<Rightarrow> 'w staking_state \<Rightarrow> 'w staking_state" where
  "reward_by_ids validators_points s =
     (case active_era s of
        None \<Rightarrow> s
      | Some a \<Rightarrow> s\<lparr>eras_reward_points := (eras_reward_points s)(ae_index a :=
          fold (\<lambda>(v, points) r. \<lparr>rp_total = wrap_add u32_max (rp_total r) points,
              rp_individual = (rp_individual r)(v \<mapsto> wrap_add u32_max (unwrap_or (rp_individual r v) 0) points)\<rparr>)
            validators_points (eras_reward_points s (ae_index a)))\<rparr>)"

definition note_author :: "account_id \<Rightarrow> 'w staking_state \<Rightarrow> 'w staking_state" where
  "note_author author = reward_by_ids [(author, 20)]"

definition note_uncle :: "'w staking_config \<Rightarrow> account_id \<Rightarrow> 'w staking_state \<Rightarrow> 'w staking_state" where
  "note_uncle cfg author s = reward_by_ids [(sk_author cfg (stk_world s), 2), (author, 1)] s"

section \<open>The data of the election\<close>

definition desired_targets :: "'w staking_state \<Rightarrow> nat" where
  "desired_targets s = validator_count s"

definition voters :: "'w staking_config \<Rightarrow> nat option \<Rightarrow> 'w staking_state \<Rightarrow> (account_id \<times> nat \<times> account_id list) list option" where
  "voters cfg maybe_max_len s =
     (let voter_count = sat_add u32_max (counter_for_nominators s) (counter_for_validators s) in
      if (case maybe_max_len of None \<Rightarrow> False | Some m \<Rightarrow> voter_count > m) then None else Some (get_npos_voters cfg s))"

definition targets :: "nat option \<Rightarrow> 'w staking_state \<Rightarrow> account_id list option" where
  "targets maybe_max_len s =
     (if (case maybe_max_len of None \<Rightarrow> False | Some m \<Rightarrow> counter_for_validators s > m) then None else Some (get_npos_targets s))"

definition next_election_prediction :: "'w staking_config \<Rightarrow> block_number \<Rightarrow> 'w staking_state \<Rightarrow> block_number" where
  "next_election_prediction cfg now s =
     (let era_start = unwrap_or (eras_start_session_index s (unwrap_or (current_era s) 0)) 0;
          era_progress = min (sat_sub (current_planned_session s) era_start) (sk_sessions_per_era cfg);
          until_this_session_end = sat_sub (unwrap_or (sk_next_session cfg (stk_world s) now) 0) now;
          sessions_left = (case force_era s of
              ForceNone \<Rightarrow> u32_max | ForceNew \<Rightarrow> 0 | ForceAlways \<Rightarrow> 0
            | NotForcing \<Rightarrow> if era_progress \<ge> sk_sessions_per_era cfg then 0
                            else sat_sub (sat_sub (sk_sessions_per_era cfg) era_progress) 1)
      in sat_add u32_max now (sat_add u32_max until_this_session_end
           (sat_mul u32_max sessions_left (sk_average_session_length cfg (stk_world s)))))"

definition stash_of :: "account_id \<Rightarrow> 'w staking_state \<Rightarrow> account_id option" where
  "stash_of controller s = map_option sl_stash (stake_ledger s controller)"

definition exposure_of :: "account_id \<Rightarrow> 'w staking_state \<Rightarrow> exposure option" where
  "exposure_of validator s = map_option (\<lambda>a. eras_stakers s (ae_index a) validator) (active_era s)"

section \<open>Offences\<close>

record offence_details =
  od_offender :: account_id
  od_exposure :: exposure
  od_reporters :: "account_id list"

text \<open>The era an offence of the session belongs to.\<close>

definition slash_era_of :: "session_index \<Rightarrow> era_index \<Rightarrow> 'w staking_state \<Rightarrow> era_index option" where
  "slash_era_of slash_session era s =
     (if slash_session \<ge> unwrap_or (eras_start_session_index s era) 0 then Some era
      else map_option fst (find (\<lambda>(_, session). session \<le> slash_session) (rev (bonded_eras s))))"

definition handle_offender ::
  "'w staking_config \<Rightarrow> era_index \<Rightarrow> era_index \<Rightarrow> perbill \<Rightarrow> account_id list \<Rightarrow> offence_details \<times> perbill \<Rightarrow>
   'w staking_state \<Rightarrow> 'w staking_state" where
  "handle_offender cfg era slash_era reward_proportion invulnerable_stashes = (\<lambda>(details, slash_fraction) s.
     if od_offender details \<in> set invulnerable_stashes then s
     else
       (case compute_slash cfg \<lparr>spm_stash = od_offender details, spm_slash = slash_fraction, spm_exposure = od_exposure details,
               spm_slash_era = slash_era, spm_window_start = sat_sub era (sk_bonding_duration cfg), spm_now = era,
               spm_reward_proportion = reward_proportion\<rparr> s of
          (None, t) \<Rightarrow> t
        | (Some u, t) \<Rightarrow>
            (let unapplied = u\<lparr>us_reporters := od_reporters details\<rparr> in
             if sk_slash_defer_duration cfg = 0 then apply_slash cfg unapplied t
             else t\<lparr>unapplied_slashes := (unapplied_slashes t)(era := unapplied_slashes t era @ [unapplied])\<rparr>)))"

definition on_offence ::
  "'w staking_config \<Rightarrow> offence_details list \<Rightarrow> perbill list \<Rightarrow> session_index \<Rightarrow> 'w staking_state \<Rightarrow> 'w staking_state" where
  "on_offence cfg offenders slash_fraction slash_session s =
     (case active_era s of
        None \<Rightarrow> s
      | Some a \<Rightarrow>
          (case slash_era_of slash_session (ae_index a) s of
             None \<Rightarrow> s
           | Some slash_era \<Rightarrow>
               (let s1 = (if earliest_unapplied_slash s = None then s\<lparr>earliest_unapplied_slash := Some (ae_index a)\<rparr> else s)
                in fold (handle_offender cfg (ae_index a) slash_era (slash_reward_fraction s) (invulnerables s1))
                     (zip offenders slash_fraction) s1)))"

text \<open>Reports from before the bonding period are dropped, the others are passed on to \<open>report\<close>.\<close>

definition filter_report_offence ::
  "('w staking_state \<Rightarrow> 'r \<times> 'w staking_state) \<Rightarrow> 'r \<Rightarrow> session_index \<Rightarrow> 'w staking_state \<Rightarrow> 'r \<times> 'w staking_state" where
  "filter_report_offence report ok offence_session s =
     (case bonded_eras s of
        (_, start) # _ \<Rightarrow>
          if offence_session \<ge> start then report s else (ok, stk_event (OldSlashingReportDiscarded offence_session) s)
      | [] \<Rightarrow> (ok, stk_event (OldSlashingReportDiscarded offence_session) s))"

end
