(* ===== verification/Staking_Demo.thy ===== *)
theory Staking_Demo
  imports Staking_State
begin

text \<open>
  An implementation of what the staking pallet is configured with: the locks of the accounts are the
  world, every account has a free balance of 1000, and an election elects every validator with its
  own vote. It shows that what is assumed of the world can hold, and concrete runs use it.
\<close>

definition demo_staking :: "(account_id \<Rightarrow> balance option) staking_config" where
  "demo_staking = \<lparr>
     sk_perbill_mul = (\<lambda>p b. p * b div 1000000000), sk_percent_mul = (\<lambda>p n. p * n div 100),
     sk_minimum_balance = 10, sk_free_balance = (\<lambda>_ _. 1000), sk_total_balance = (\<lambda>_ _. 1000),
     sk_total_issuance = (\<lambda>_. 100000),
     sk_set_lock = (\<lambda>a v w. if v = 0 then w else w(a \<mapsto> v)), sk_remove_lock = (\<lambda>a w. w(a := None)),
     sk_slash = (\<lambda>a v w. ((v, 0), w)), sk_on_slash = (\<lambda>_ w. w),
     sk_split = (\<lambda>v x. (min x v, v - min x v)), sk_subsume = (+), sk_resolve_creating = (\<lambda>_ _ w. w),
     sk_inc_consumers = (\<lambda>_. okE ()), sk_dec_consumers = (\<lambda>_ w. w),
     sk_lookup = Some, sk_unlookup = id, sk_disable_validator = (\<lambda>_ w. (Some False, w)),
     sk_prune_historical = (\<lambda>_ w. w), sk_now = (\<lambda>_. 0),
     sk_elect = (\<lambda>_ s. (Some (map (\<lambda>(v, _). (v, [(v, 100)])) (validators s)), stk_world s)),
     sk_to_currency = (\<lambda>v _. v), sk_to_vote = (\<lambda>v _. v), sk_slash_cancel_origin = (\<lambda>org. org = Root),
     sk_bonding_duration = 3, sk_slash_defer_duration = 2, sk_sessions_per_era = 2, sk_max_nominations = 16,
     sk_max_nominator_rewarded = 64, sk_author = (\<lambda>_. 0), sk_next_session = (\<lambda>_ _. None),
     sk_average_session_length = (\<lambda>_. 10)\<rparr>"

definition no_staking :: "'w \<Rightarrow> 'w staking_state" where
  "no_staking w = \<lparr>
     history_depth = 84, validator_count = 10, minimum_validator_count = 1, invulnerables = [],
     bonded = Map.empty, min_nominator_bond = 0, min_validator_bond = 0, stake_ledger = Map.empty,
     payee = (\<lambda>_. Staked), validators = [], counter_for_validators = 0, max_validators_count = None,
     nominators = [], counter_for_nominators = 0, max_nominators_count = None, current_era = None,
     active_era = None, eras_start_session_index = Map.empty, eras_stakers = (\<lambda>_ _. default_exposure),
     eras_stakers_clipped = (\<lambda>_ _. default_exposure), eras_validator_prefs = (\<lambda>_ _. default_prefs),
     eras_validator_reward = Map.empty, eras_reward_points = (\<lambda>_. \<lparr>rp_total = 0, rp_individual = Map.empty\<rparr>),
     eras_total_stake = (\<lambda>_. 0), force_era = NotForcing, slash_reward_fraction = 100000000,
     canceled_slash_payout = 0, unapplied_slashes = (\<lambda>_. []), bonded_eras = [],
     validator_slash_in_era = (\<lambda>_. Map.empty), nominator_slash_in_era = (\<lambda>_. Map.empty), spans_of = Map.empty,
     span_slash = (\<lambda>_ _. \<lparr>sr_slashed = 0, sr_paid_out = 0\<rparr>), earliest_unapplied_slash = None,
     current_planned_session = 0, chill_threshold = None, stk_world = w, stk_events = []\<rparr>"

end
