(* ===== verification/Staking_Properties.thy ===== *)
theory Staking_Properties
  imports Staking_Bonds Staking_Demo
begin

text \<open>
  The staking pallet as a machine: its dispatchables, the sessions and the offences, and the
  invariant of the bonds over all its runs. Unbonded funds can be withdrawn when the bonding duration
  is over.
\<close>

section \<open>Calls that leave the bonds alone\<close>

lemma same_call:
  assumes "fails_clean lk m" "staking_inv lk n s" "\<And>x t. m s = (Inr x, t) \<Longrightarrow> same_bonds lk s t"
  shows "staking_inv lk n (snd (m s))"
  by (rule call_inv[OF assms(1,2) order.refl]) (use assms(3) same_bonds_inv assms(2) in blast)

lemma ensure_root_run [simp, runs]: "ensure_root org s = (Inr x, t) \<longleftrightarrow> org = Root \<and> t = s"
  by (simp add: ensure_root_def)

lemma clear_era_same [simp]: "same_bonds lk s (clear_era_information e s)" "same_bonds lk s (clear_era_metadata e s)"
  by (simp_all add: same_bonds_def clear_era_information_def clear_era_metadata_def)

lemma setters_inv:
  assumes "staking_inv lk n s"
  shows "staking_inv lk n (snd (set_payee org dest s))" "staking_inv lk n (snd (set_validator_count org k s))"
    "staking_inv lk n (snd (increase_validator_count org k s))" "staking_inv lk n (snd (scale_validator_count cfg org k s))"
    "staking_inv lk n (snd (force_no_eras org s))" "staking_inv lk n (snd (force_new_era org s))"
    "staking_inv lk n (snd (force_new_era_always org s))" "staking_inv lk n (snd (set_invulnerables org who s))"
    "staking_inv lk n (snd (set_staking_limits org a b c d e s))" "staking_inv lk n (snd (cancel_deferred_slash cfg org era ks s))"
  by (rule same_call[OF _ assms];
      (unfold set_payee_def set_validator_count_def increase_validator_count_def scale_validator_count_def force_no_eras_def
        force_new_era_def force_new_era_always_def set_invulnerables_def set_staking_limits_def cancel_deferred_slash_def,
       intro clean reading | auto simp: set_payee_def set_validator_count_def increase_validator_count_def scale_validator_count_def
        force_no_eras_def force_new_era_def force_new_era_always_def set_invulnerables_def set_staking_limits_def
        cancel_deferred_slash_def same_bonds_def))+

lemma set_history_depth_inv:
  assumes "staking_inv lk n s"
  shows "staking_inv lk n (snd (set_history_depth org k s))"
proof (rule same_call[OF _ assms])
  show "fails_clean lk (set_history_depth org k)" unfolding set_history_depth_def by (intro clean reading)
  have "same_bonds lk s (fold clear_era_information es s)" for es by (rule same_bonds_fold) simp
  then show "set_history_depth org k s = (Inr x, t) \<Longrightarrow> same_bonds lk s t" for x t
    by (auto simp: set_history_depth_def Let_def same_bonds_def split: option.splits)
qed

lemma chill_calls_inv:
  assumes "staking_inv lk n s"
  shows "staking_inv lk n (snd (chill org s))" "staking_inv lk n (snd (chill_other cfg org c s))"
proof -
  show "staking_inv lk n (snd (chill org s))"
  proof (rule call_inv[OF _ assms order.refl])
    show "fails_clean lk (chill org)" unfolding chill_def by (intro clean reading)
  qed (auto simp: chill_def intro: chill_inv[OF assms])
  show "staking_inv lk n (snd (chill_other cfg org c s))"
  proof (rule call_inv[OF _ assms order.refl])
    show "fails_clean lk (chill_other cfg org c)"
      unfolding chill_other_def Let_def by (intro clean reading)
    fix x t
    assume run: "chill_other cfg org c s = (Inr x, t)"
    have "\<exists>a. t = chill_stash a s"
      using run unfolding chill_other_def Let_def by (auto split: if_splits)
    then show "staking_inv lk n t" using chill_inv[OF assms] by auto
  qed
qed

lemma alist_put_present: "alist_contains k xs \<Longrightarrow> map fst (alist_put k v xs) = map fst xs"
  by (simp add: alist_put_keys)

lemma map_of_contains: "map_of xs k = Some v \<Longrightarrow> alist_contains k xs"
  by (induction xs) (auto simp: alist_contains_def split: if_splits)

lemma kick_nominator_same: "same_bonds lk s (kick_nominator a b s)"
  by (auto simp: kick_nominator_def same_bonds_def stk_event_def alist_put_present[OF map_of_contains] split: option.splits)

lemma forE_modE_run: "forE xs (\<lambda>x. modE (f x)) s = (Inr (), fold f xs s)"
  by (induction xs arbitrary: s) (simp_all add: eff_defs)

lemma kick_inv:
  assumes "staking_inv lk n s"
  shows "staking_inv lk n (snd (kick cfg org who s))"
proof (rule same_call[OF _ assms])
  show "fails_clean lk (kick cfg org who)" unfolding kick_def by (intro clean reading)
  fix x t
  assume run: "kick cfg org who s = (Inr x, t)"
  have collect: "u = s" if "collectE (lookupE cfg) xs s = (Inr ys, u)" for xs ys u
    using that reads_collect[of "lookupE cfg" xs] reads_lookups(1)[of cfg] by (metis reads_def snd_conv)
  obtain a noms where "t = fold (kick_nominator a) noms s"
    using run by (auto simp: kick_def forE_modE_run dest!: collect)
  then show "same_bonds lk s t" using same_bonds_fold[OF kick_nominator_same] by simp
qed

section \<open>Slashing\<close>

lemma slashing_same:
  "same_bonds lk s (snd (fetch_spans a w p q s))"
  "same_bonds lk s (snd (snd (compare_and_update_span_slash cfg a p e x (i, s))))"
  "same_bonds lk s (drop_spans a w (i, s))"
  by (auto simp: fetch_spans_def compare_and_update_span_slash_def drop_spans_def same_bonds_def Let_def split: option.splits prod.splits)

lemma ensure_new_era_same: "same_bonds lk s (ensure_new_era s)"
  by (auto simp: ensure_new_era_def same_bonds_def split: forcing.splits)

lemma chill_in_span_inv:
  assumes "staking_env cfg lk" "staking_inv lk n s"
  shows "staking_inv lk n (snd (chill_in_current_span cfg a now (i, s)))"
proof -
  have "staking_inv lk n ((chill_stash a s)\<lparr>stk_world := snd (sk_disable_validator cfg a (stk_world (chill_stash a s)))\<rparr>)"
    by (rule same_bonds_inv[OF same_bonds_world chill_inv[OF assms(2)]]) (rule staking_envD(9)[OF assms(1)])
  then show ?thesis
    using same_bonds_inv[OF ensure_new_era_same] by (auto simp: chill_in_current_span_def Let_def case_prod_beta)
qed

lemma slash_validator_inv:
  assumes env: "staking_env cfg lk" and inv: "staking_inv lk n s"
  shows "staking_inv lk n (snd (snd (slash_validator cfg p x s)))"
proof -
  obtain i0 s1 where f: "fetch_spans (spm_stash p) (spm_window_start p) 0 0 s = (i0, s1)" by fastforce
  obtain t i1 s2 where c: "compare_and_update_span_slash cfg (spm_stash p) (spm_reward_proportion p) (spm_slash_era p) x (i0, s1) = (t, i1, s2)"
    by (metis prod_cases3)
  have "same_bonds lk s s2"
    using slashing_same(1)[of lk s "spm_stash p" "spm_window_start p" 0 0]
      slashing_same(2)[of lk s1 cfg "spm_stash p" "spm_reward_proportion p" "spm_slash_era p" x i0] same_bonds_trans by (auto simp: f c)
  then have s2: "staking_inv lk n s2" using same_bonds_inv inv by blast
  obtain j u where k: "(if t = Some (sp_span_index (in_spans i1)) then chill_in_current_span cfg (spm_stash p) (spm_now p) (i1, s2)
      else (i1, s2)) = (j, u)" by fastforce
  have "staking_inv lk n u"
    using k chill_in_span_inv[OF env s2, of "spm_stash p" "spm_now p" i1] s2 by (auto split: if_splits)
  then show ?thesis
    unfolding slash_validator_def Let_def f prod.case c k snd_conv by (rule same_bonds_inv[OF slashing_same(3)])
qed

lemma kick_out_inv:
  assumes env: "staking_env cfg lk" and inv: "staking_inv lk n s"
  shows "staking_inv lk n (kick_out_if_recent cfg p s)"
proof -
  obtain i s1 where f: "fetch_spans (spm_stash p) (spm_window_start p) 0 0 s = (i, s1)" by fastforce
  have s1: "staking_inv lk n s1"
    using same_bonds_inv[OF slashing_same(1) inv, of "spm_stash p" "spm_window_start p" 0 0] by (simp add: f)
  obtain j u where k: "(if map_option ss_index (era_span (spm_slash_era p) (in_spans i)) = Some (sp_span_index (in_spans i))
      then chill_in_current_span cfg (spm_stash p) (spm_now p) (i, s1) else (i, s1)) = (j, u)" by fastforce
  have "staking_inv lk n u"
    using k chill_in_span_inv[OF env s1, of "spm_stash p" "spm_now p" i] s1 by (auto split: if_splits)
  then show ?thesis
    unfolding kick_out_if_recent_def Let_def f prod.case k by (rule same_bonds_inv[OF slashing_same(3)])
qed

lemma slash_nominator_same: "same_bonds lk s (snd (snd (slash_nominator cfg p q e (r, xs, s))))"
proof -
  obtain es s1 where s1: "s1 = s\<lparr>nominator_slash_in_era := es\<rparr>"
      "es = (nominator_slash_in_era s)(spm_slash_era p := (nominator_slash_in_era s (spm_slash_era p))(ie_who e \<mapsto>
        wrap_add u128_max (unwrap_or (nominator_slash_in_era s (spm_slash_era p) (ie_who e)) 0)
          (sat_sub (sk_perbill_mul cfg (spm_slash p) (ie_value e)) (sk_perbill_mul cfg q (ie_value e)))))" by blast
  define v where "v = wrap_add u128_max (unwrap_or (nominator_slash_in_era s (spm_slash_era p) (ie_who e)) 0)
          (sat_sub (sk_perbill_mul cfg (spm_slash p) (ie_value e)) (sk_perbill_mul cfg q (ie_value e)))"
  obtain i0 s2 where f: "fetch_spans (ie_who e) (spm_window_start p) r 0 s1 = (i0, s2)" by fastforce
  obtain t i1 s3 where c: "compare_and_update_span_slash cfg (ie_who e) (spm_reward_proportion p) (spm_slash_era p) v (i0, s2) = (t, i1, s3)"
    by (metis prod_cases3)
  have "same_bonds lk s s1" by (simp add: s1 same_bonds_def)
  moreover have "same_bonds lk s1 s2"
    using slashing_same(1)[of lk s1 "ie_who e" "spm_window_start p" r 0] by (simp add: f)
  moreover have "same_bonds lk s2 s3"
    using slashing_same(2)[of lk s2 cfg "ie_who e" "spm_reward_proportion p" "spm_slash_era p" v i0] by (simp add: c)
  ultimately have "same_bonds lk s (drop_spans (ie_who e) (spm_window_start p) (j, s3))" for j
    using slashing_same(3) same_bonds_trans by metis
  then show ?thesis
    unfolding slash_nominator_def Let_def prod.case s1(2)[symmetric] v_def[symmetric]
    using f c by (simp add: s1 v_def)
qed

lemma slash_nominators_same: "same_bonds lk s (snd (snd (slash_nominators cfg p q s)))"
proof -
  have "same_bonds lk s (snd (snd (fold (slash_nominator cfg p q) es (r, xs, s))))" for es r xs
  proof (induction es arbitrary: r xs s)
    case (Cons e es)
    obtain r' xs' s' where step: "slash_nominator cfg p q e (r, xs, s) = (r', xs', s')" by (metis prod_cases3)
    have "same_bonds lk s s'" using slash_nominator_same[of lk s cfg p q e r xs] by (simp add: step)
    then show ?case using Cons.IH[of s' r' xs'] same_bonds_trans by (auto simp: step)
  qed simp
  then show ?thesis by (simp add: slash_nominators_def)
qed

lemma compute_slash_inv:
  assumes env: "staking_env cfg lk" and inv: "staking_inv lk n s"
  shows "staking_inv lk n (snd (compute_slash cfg p s))"
proof (cases "sk_perbill_mul cfg (spm_slash p) (ex_total (spm_exposure p)) = 0 \<or>
    spm_slash p \<le> fst (unwrap_or (validator_slash_in_era s (spm_slash_era p) (spm_stash p)) (0, 0))")
  case True
  then show ?thesis using inv kick_out_inv[OF env inv] by (auto simp: compute_slash_def Let_def case_prod_beta)
next
  case False
  define q where "q = fst (unwrap_or (validator_slash_in_era s (spm_slash_era p) (spm_stash p)) (0, 0))"
  define own where "own = sk_perbill_mul cfg (spm_slash p) (ex_own (spm_exposure p))"
  define s1 where "s1 = s\<lparr>validator_slash_in_era := (validator_slash_in_era s)(spm_slash_era p :=
                  (validator_slash_in_era s (spm_slash_era p))(spm_stash p \<mapsto> (spm_slash p, own)))\<rparr>"
  have "staking_inv lk n s1" by (rule same_bonds_inv[OF _ inv]) (simp add: s1_def same_bonds_def)
  then have "staking_inv lk n (snd (snd (slash_validator cfg p own s1)))" by (rule slash_validator_inv[OF env])
  then have "staking_inv lk n (snd (snd (slash_nominators cfg p q (snd (snd (slash_validator cfg p own s1))))))"
    by (rule same_bonds_inv[OF slash_nominators_same])
  moreover have "snd (compute_slash cfg p s) = snd (snd (slash_nominators cfg p q (snd (snd (slash_validator cfg p own s1)))))"
    using False unfolding compute_slash_def Let_def case_prod_beta q_def own_def s1_def by simp
  ultimately show ?thesis by simp
qed

lemma do_slash_inv:
  assumes env: "staking_env cfg lk" and inv: "staking_inv lk n s"
  shows "staking_inv lk n (snd (snd (do_slash cfg a v (r, x, s))))"
proof (cases "Option.bind (bonded s a) (stake_ledger s)")
  case None
  then show ?thesis using inv by (auto simp: do_slash_def split: option.splits)
next
  case (Some l)
  then obtain c where c: "bonded s a = Some c" "stake_ledger s c = Some l" by (cases "bonded s a") auto
  obtain y l' where l': "ledger_slash v (sk_minimum_balance cfg) l = (y, l')" by fastforce
  obtain im missing w where w: "sk_slash cfg a y (stk_world s) = ((im, missing), w)" by (metis prod_cases3 prod.collapse)
  have ok: "ledger_ok l' \<and> sl_stash l' = sl_stash l" using ledger_slash_ok[OF bonds_okD(2)[OF inv c(2)] l'] .
  have "staking_inv lk n (s\<lparr>stk_world := w\<rparr>)"
    by (rule same_bonds_inv[OF same_bonds_world inv]) (use staking_envD(4)[OF env, of _ a y "stk_world s"] in \<open>simp add: w\<close>)
  then have "staking_inv lk n (stk_event (Slash a y) (update_ledger cfg c l' (s\<lparr>stk_world := w\<rparr>)))"
    by (rule update_call(2)[OF env]) (use ok c in auto)
  then show ?thesis using inv by (simp add: do_slash_def c l' w)
qed

lemma resolve_fold_locks:
  assumes "staking_env cfg lk"
  shows "lk b (snd (fold (\<lambda>reporter (rest, w). let (rr, rest') = sk_split cfg rest per in (rest', sk_resolve_creating cfg reporter rr w)) rs (x, w))) = lk b w"
  by (induction rs arbitrary: x w) (simp_all add: case_prod_beta staking_envD(6)[OF assms])

lemma on_slash_same: "staking_env cfg lk \<Longrightarrow> same_bonds lk s (on_world (sk_on_slash cfg x) s)"
  by (simp add: same_bonds_def on_world_def staking_envD(5))

lemma pay_reporters_same:
  assumes env: "staking_env cfg lk"
  shows "same_bonds lk s (pay_reporters cfg r x rs s)"
proof (cases "r = 0 \<or> rs = []")
  case False
  obtain rp vs where sp: "sk_split cfg x (min r x) = (rp, vs)" by fastforce
  define per where "per = rp div length rs"
  obtain rest w where f: "fold (\<lambda>reporter (rest, w). let (rr, rest') = sk_split cfg rest per in (rest', sk_resolve_creating cfg reporter rr w)) rs
      (rp, stk_world s) = (rest, w)" by fastforce
  have "same_bonds lk s (s\<lparr>stk_world := w\<rparr>)"
    by (rule same_bonds_world) (use resolve_fold_locks[OF env, of _ per rs rp "stk_world s"] f in simp)
  then show ?thesis
    using False same_bonds_trans[OF _ on_slash_same[OF env]] by (simp add: pay_reporters_def sp per_def[symmetric] f[unfolded Let_def])
qed (simp add: pay_reporters_def on_slash_same[OF env])

lemma apply_slash_inv:
  assumes env: "staking_env cfg lk" and inv: "staking_inv lk n s"
  shows "staking_inv lk n (apply_slash cfg u s)"
proof -
  have "staking_inv lk n (snd (snd (fold (\<lambda>(who, amount). do_slash cfg who amount) xs (r, x, s))))" if "staking_inv lk n s" for xs r x s
    using that
  proof (induction xs arbitrary: r x s)
    case (Cons y ys)
    obtain a v where y: "y = (a, v)" by fastforce
    obtain r' x' s' where step: "do_slash cfg a v (r, x, s) = (r', x', s')" by (metis prod_cases3)
    show ?case using Cons.IH[of s' r' x'] do_slash_inv[OF env Cons.prems, of a v r x] by (simp add: y step)
  qed simp
  from this[OF inv, of "(us_validator u, us_own u) # us_others u" "us_payout u" 0] show ?thesis
    using same_bonds_inv[OF pay_reporters_same[OF env]] by (simp add: apply_slash_def case_prod_beta)
qed

lemma inv_fold: "staking_inv lk n s \<Longrightarrow> (\<And>x s. staking_inv lk n s \<Longrightarrow> staking_inv lk n (f x s)) \<Longrightarrow> staking_inv lk n (fold f xs s)"
  by (induction xs arbitrary: s) auto

lemma handle_offender_inv:
  assumes env: "staking_env cfg lk" and inv: "staking_inv lk n s"
  shows "staking_inv lk n (handle_offender cfg e se rp is d s)"
proof -
  obtain od f where d: "d = (od, f)" by fastforce
  let ?p = "\<lparr>spm_stash = od_offender od, spm_slash = f, spm_exposure = od_exposure od, spm_slash_era = se,
    spm_window_start = sat_sub e (sk_bonding_duration cfg), spm_now = e, spm_reward_proportion = rp\<rparr>"
  obtain u t where c: "compute_slash cfg ?p s = (u, t)" by fastforce
  have t: "staking_inv lk n t" using compute_slash_inv[OF env inv, of ?p] by (simp add: c del: sat_sub_nat)
  have "staking_inv lk n (t\<lparr>unapplied_slashes := g\<rparr>)" for g
    by (rule same_bonds_inv[OF _ t]) (simp add: same_bonds_def)
  then show ?thesis
    unfolding handle_offender_def d prod.case c Let_def
    using inv t apply_slash_inv[OF env t] by (simp split: option.splits)
qed

lemma on_offence_inv:
  assumes env: "staking_env cfg lk" and inv: "staking_inv lk n s"
  shows "staking_inv lk n (on_offence cfg offenders fs session s)"
proof -
  have "staking_inv lk n (s\<lparr>earliest_unapplied_slash := x\<rparr>)" for x
    by (rule same_bonds_inv[OF _ inv]) (simp add: same_bonds_def)
  then show ?thesis
    using inv by (auto simp: on_offence_def Let_def intro!: inv_fold handle_offender_inv[OF env] split: option.splits)
qed

section \<open>Sessions and eras\<close>

lemma store_stakers_same: "same_bonds lk s (snd (store_stakers_info cfg xs era s))"
proof -
  have 1: "same_bonds lk s (store_staker cfg era x s)" for x s by (cases x) (simp add: store_staker_def same_bonds_def)
  have 2: "same_bonds lk (s::'a staking_state) (s\<lparr>eras_validator_prefs := f\<rparr>)" for f s by (simp add: same_bonds_def)
  have 3: "same_bonds lk (s::'a staking_state) (s\<lparr>eras_total_stake := f\<rparr>)" for f s by (simp add: same_bonds_def)
  show ?thesis unfolding store_stakers_info_def Let_def snd_conv
    by (rule same_bonds_trans[OF same_bonds_trans[OF same_bonds_fold[OF 1] 3] same_bonds_fold[OF 2]])
qed

lemma trigger_same: "same_bonds lk s (snd (trigger_new_era cfg st xs s))"
proof -
  have 1: "same_bonds lk s (s\<lparr>current_era := a, eras_start_session_index := b\<rparr>)" for a b by (simp add: same_bonds_def)
  have 2: "same_bonds lk s (snd (store_stakers_info cfg xs e t))" if "same_bonds lk s t" for t e
    using same_bonds_trans[OF that store_stakers_same] .
  show ?thesis unfolding trigger_new_era_def Let_def
    by (rule 2) (auto split: option.split intro: same_bonds_trans[OF 1] 1 clear_era_same)
qed

lemma try_trigger_same:
  assumes env: "staking_env cfg lk"
  shows "same_bonds lk s (snd (try_trigger_new_era cfg st g s))"
proof -
  obtain el w where w: "sk_elect cfg g s = (el, w)" by fastforce
  define s1 where "s1 = s\<lparr>stk_world := w\<rparr>"
  have 1: "same_bonds lk s s1" unfolding s1_def by (rule same_bonds_world) (use staking_envD(11)[OF env, of _ g s] w in simp)
  have 2: "same_bonds lk s (stk_event ev s1)" for ev using same_bonds_trans[OF 1 stk_event_same] .
  have 3: "same_bonds lk s (stk_event ev (s1\<lparr>current_era := a, eras_start_session_index := b\<rparr>))" for ev a b
    using 1 by (simp add: same_bonds_def stk_event_def)
  have 4: "same_bonds lk s (snd (trigger_new_era cfg st xs (stk_event ev s1)))" for ev xs
    using same_bonds_trans[OF 2 trigger_same] .
  show ?thesis unfolding try_trigger_new_era_def w prod.case s1_def[symmetric] Let_def
    using 2 3 4 by (auto split: option.split prod.split) (metis snd_conv)+
qed

lemma session_same:
  assumes env: "staking_env cfg lk"
  shows "same_bonds lk s (snd (new_session cfg i g s))"
proof -
  have 1: "same_bonds lk s (s\<lparr>current_planned_session := i\<rparr>)" by (simp add: same_bonds_def)
  have 2: "same_bonds lk t (snd (plan_session cfg i g t))" for t
  proof -
    obtain vs u where u: "try_trigger_new_era cfg i g t = (vs, u)" by fastforce
    have tu: "same_bonds lk t u" using try_trigger_same[OF env, of t i g] by (simp add: u)
    then have tf: "same_bonds lk t (u\<lparr>force_era := f\<rparr>)" for f by (simp add: same_bonds_def)
    show ?thesis using tu tf by (simp add: plan_session_def u Let_def split: option.split)
  qed
  show ?thesis unfolding new_session_def using same_bonds_trans[OF 1 2] .
qed

lemma historical_same: "staking_env cfg lk \<Longrightarrow> same_bonds lk s (snd (historical_new_session cfg i g s))"
  using session_same by (simp add: historical_new_session_def case_prod_beta)

lemma apply_unapplied_inv:
  assumes env: "staking_env cfg lk" and inv: "staking_inv lk n s"
  shows "staking_inv lk n (apply_unapplied_slashes cfg era s)"
proof -
  have same: "staking_inv lk n (s\<lparr>unapplied_slashes := f\<rparr>)" "staking_inv lk n (s\<lparr>earliest_unapplied_slash := x\<rparr>)" if "staking_inv lk n s" for s f x
    by (rule same_bonds_inv[OF _ that], simp add: same_bonds_def)+
  show ?thesis unfolding apply_unapplied_slashes_def Let_def
    by (auto split: option.split intro!: inv same inv_fold apply_slash_inv[OF env])
qed

lemma prune_same:
  assumes env: "staking_env cfg lk"
  shows "same_bonds lk s (prune_bonded_eras cfg era s)"
proof -
  have 1: "same_bonds lk s (fold clear_era_metadata es (s\<lparr>bonded_eras := b\<rparr>))" for es b
    by (rule same_bonds_trans[OF _ same_bonds_fold]) (simp_all add: same_bonds_def clear_era_metadata_def)
  have 2: "same_bonds lk s (on_world (sk_prune_historical cfg x) t)" if "same_bonds lk s t" for x t
    by (rule same_bonds_trans[OF that]) (simp add: same_bonds_def on_world_def staking_envD(10)[OF env])
  show ?thesis unfolding prune_bonded_eras_def Let_def by (auto split: list.split intro: 1 2)
qed

lemma start_session_inv:
  assumes env: "staking_env cfg lk" and inv: "staking_inv lk n s"
  shows "staking_inv lk n (start_session cfg i s)"
proof -
  have "staking_inv lk n (s\<lparr>active_era := a, bonded_eras := b\<rparr>)" for a b
    by (rule same_bonds_inv[OF _ inv]) (simp add: same_bonds_def)
  then have "staking_inv lk n (start_era cfg i s)"
    unfolding start_era_def Let_def by (intro apply_unapplied_inv[OF env] same_bonds_inv[OF prune_same[OF env]])
  then show ?thesis using inv by (simp add: start_session_def Let_def split: option.split)
qed

lemma small_steps_same:
  "same_bonds lk s (staking_on_finalize cfg s)" "same_bonds lk s (reward_by_ids vps s)" "same_bonds lk s (note_author a s)"
  "same_bonds lk s (note_uncle cfg a s)"
  by (auto simp: same_bonds_def staking_on_finalize_def reward_by_ids_def note_author_def note_uncle_def split: option.splits)

section \<open>The machine\<close>

text \<open>What can happen to the pallet: calls of accounts, the session pallet, reports of offences, blocks.\<close>

datatype staking_action =
    Call_Bond origin nat balance reward_destination
  | Call_Bond_Extra origin balance
  | Call_Unbond origin balance
  | Call_Withdraw origin nat
  | Call_Rebond origin balance
  | Call_Validate origin validator_prefs
  | Call_Nominate origin "nat list"
  | Call_Chill origin
  | Call_Chill_Other origin account_id
  | Call_Kick origin "nat list"
  | Call_Set_Payee origin reward_destination
  | Call_Set_Controller origin nat
  | Call_Validator_Count origin nat
  | Call_Increase_Count origin nat
  | Call_Scale_Count origin nat
  | Call_Force origin forcing
  | Call_Invulnerables origin "account_id list"
  | Call_Force_Unstake origin account_id nat
  | Call_Reap account_id nat
  | Call_Cancel_Slash origin era_index "nat list"
  | Call_History_Depth origin nat
  | Call_Limits origin balance balance "nat option" "nat option" "nat option"
  | New_Session session_index bool
  | Start_Session session_index
  | Offence "offence_details list" "perbill list" session_index
  | Reward_Points "(account_id \<times> nat) list"
  | Block_Ends

fun exec_staking :: "'w staking_config \<Rightarrow> staking_action \<Rightarrow> 'w staking_state \<Rightarrow> 'w staking_state" where
  "exec_staking cfg (Call_Bond org c v d) s = snd (bond cfg org c v d s)"
| "exec_staking cfg (Call_Bond_Extra org v) s = snd (bond_extra cfg org v s)"
| "exec_staking cfg (Call_Unbond org v) s = snd (unbond cfg org v s)"
| "exec_staking cfg (Call_Withdraw org k) s = snd (withdraw_unbonded cfg org k s)"
| "exec_staking cfg (Call_Rebond org v) s = snd (rebond_call cfg org v s)"
| "exec_staking cfg (Call_Validate org p) s = snd (staking_validate org p s)"
| "exec_staking cfg (Call_Nominate org ts) s = snd (nominate cfg org ts s)"
| "exec_staking cfg (Call_Chill org) s = snd (chill org s)"
| "exec_staking cfg (Call_Chill_Other org c) s = snd (chill_other cfg org c s)"
| "exec_staking cfg (Call_Kick org who) s = snd (kick cfg org who s)"
| "exec_staking cfg (Call_Set_Payee org d) s = snd (set_payee org d s)"
| "exec_staking cfg (Call_Set_Controller org c) s = snd (set_controller cfg org c s)"
| "exec_staking cfg (Call_Validator_Count org n) s = snd (set_validator_count org n s)"
| "exec_staking cfg (Call_Increase_Count org n) s = snd (increase_validator_count org n s)"
| "exec_staking cfg (Call_Scale_Count org n) s = snd (scale_validator_count cfg org n s)"
| "exec_staking cfg (Call_Force org f) s = snd ((case f of ForceNone \<Rightarrow> force_no_eras org | ForceNew \<Rightarrow> force_new_era org
     | ForceAlways \<Rightarrow> force_new_era_always org | NotForcing \<Rightarrow> okE ()) s)"
| "exec_staking cfg (Call_Invulnerables org who) s = snd (set_invulnerables org who s)"
| "exec_staking cfg (Call_Force_Unstake org a k) s = snd (force_unstake cfg org a k s)"
| "exec_staking cfg (Call_Reap a k) s = snd (reap_stash cfg a k s)"
| "exec_staking cfg (Call_Cancel_Slash org e ks) s = snd (cancel_deferred_slash cfg org e ks s)"
| "exec_staking cfg (Call_History_Depth org n) s = snd (set_history_depth org n s)"
| "exec_staking cfg (Call_Limits org a b c d e) s = snd (set_staking_limits org a b c d e s)"
| "exec_staking cfg (New_Session i g) s = snd (historical_new_session cfg i g s)"
| "exec_staking cfg (Start_Session i) s = start_session cfg i s"
| "exec_staking cfg (Offence ods fs i) s = on_offence cfg ods fs i s"
| "exec_staking cfg (Reward_Points vps) s = reward_by_ids vps s"
| "exec_staking cfg Block_Ends s = staking_on_finalize cfg s"

text \<open>The argument of a rebond is a \<open>u128\<close>.\<close>

fun action_ok :: "staking_action \<Rightarrow> bool" where
  "action_ok (Call_Rebond org v) = (v \<le> u128_max)"
| "action_ok _ = True"

lemma exec_staking_inv:
  assumes env: "staking_env cfg lk" and inv: "staking_inv lk n s" and n: "n < u32_max" and ok: "action_ok a"
  shows "staking_inv lk (Suc n) (exec_staking cfg a s)"
proof -
  note mono = staking_inv_mono[OF _ le_SucI[OF order.refl]]
  note calls = bond_call_inv[OF env inv] bond_extra_inv[OF env inv] unbond_inv[OF env inv] withdraw_unbonded_inv[OF env inv]
    chill_calls_inv[OF inv] kick_inv[OF inv] setters_inv[OF inv] set_history_depth_inv[OF inv] set_controller_inv[OF inv]
    force_unstake_inv[OF env inv] reap_stash_inv[OF env inv]
  show ?thesis
  proof (cases a)
    case (Call_Rebond org v)
    then show ?thesis using rebond_call_inv[OF env inv, of v] ok by (simp add: mono)
  next
    case (Call_Force org f)
    then show ?thesis using calls mono[OF inv] by (cases f) (simp_all add: mono okE_def)
  next
    case (New_Session i g)
    then show ?thesis using same_bonds_inv[OF historical_same[OF env] inv] by (simp add: mono)
  next
    case (Start_Session i)
    then show ?thesis using start_session_inv[OF env inv] by (simp add: mono)
  next
    case (Offence ods fs i)
    then show ?thesis using on_offence_inv[OF env inv] by (simp add: mono)
  next
    case (Reward_Points vps)
    then show ?thesis using same_bonds_inv[OF small_steps_same(2) inv] by (simp add: mono)
  next
    case Block_Ends
    then show ?thesis using same_bonds_inv[OF small_steps_same(1) inv] by (simp add: mono)
  qed (use calls validate_inv[OF inv n] nominate_inv[OF inv n] in \<open>simp_all add: mono\<close>)
qed

lemma run_staking_inv:
  assumes env: "staking_env cfg lk" and "staking_inv lk n s" "list_all action_ok as" "n + length as \<le> u32_max"
  shows "staking_inv lk (n + length as) (fold (exec_staking cfg) as s)"
  using assms(2-)
proof (induction as arbitrary: n s)
  case (Cons a as)
  then show ?case using Cons.IH[OF exec_staking_inv[OF env Cons.prems(1)]] by simp
qed simp

text \<open>The genesis bonds its stakers and gives them their roles by the calls themselves.\<close>

lemma genesis_staker_inv:
  assumes env: "staking_env cfg lk" and inv: "staking_inv lk n s" and n: "n < u32_max"
    and run: "staking_genesis_staker cfg x s = (Inr y, t)"
  shows "staking_inv lk (Suc n) t"
proof -
  obtain a c v st where x: "x = (a, c, v, st)" by (metis prod_cases4)
  obtain r u where bnd: "bond cfg (Signed a) (sk_unlookup cfg c) v Staked s = (r, u)" by fastforce
  have u: "staking_inv lk n u" using bond_call_inv[OF env inv, of "Signed a" "sk_unlookup cfg c" v Staked] bnd by simp
  have "t = u \<or> (\<exists>p. t = snd (staking_validate (Signed c) p u)) \<or> (\<exists>ts. t = snd (nominate cfg (Signed c) ts u))"
    using run bnd unfolding staking_genesis_staker_def x by (auto split: staker_status.splits) (metis snd_conv)+
  then show ?thesis
    using staking_inv_mono[OF u le_SucI[OF order.refl]] validate_inv[OF u n] nominate_inv[OF u n] by metis
qed

lemma genesis_inv:
  assumes env: "staking_env cfg lk" and inv: "staking_inv lk 0 s"
    and n: "length (sg_stakers g) \<le> u32_max" and run: "staking_genesis_build cfg g s = (Inr (), t)"
  shows "staking_inv lk (length (sg_stakers g)) t"
proof -
  have stakers: "staking_inv lk (n + length xs) t"
    if "staking_inv lk n s" "forE xs (staking_genesis_staker cfg) s = (Inr (), t)" "n + length xs \<le> u32_max" for xs n s
    using that
  proof (induction xs arbitrary: n s)
    case (Cons x xs)
    then obtain u where u: "staking_genesis_staker cfg x s = (Inr (), u)" "forE xs (staking_genesis_staker cfg) u = (Inr (), t)" by auto
    show ?case using Cons.IH[OF genesis_staker_inv[OF env Cons.prems(1) _ u(1)] u(2)] Cons.prems(3) by simp
  qed simp
  define s0 where "s0 = s\<lparr>history_depth := sg_history_depth g, validator_count := sg_validator_count g,
       minimum_validator_count := sg_minimum_validator_count g, invulnerables := sg_invulnerables g,
       force_era := sg_force_era g, canceled_slash_payout := sg_canceled_payout g,
       slash_reward_fraction := sg_slash_reward_fraction g, min_nominator_bond := sg_min_nominator_bond g,
       min_validator_bond := sg_min_validator_bond g\<rparr>"
  have "staking_inv lk 0 s0" by (rule same_bonds_inv[OF _ inv]) (simp add: s0_def same_bonds_def)
  moreover have "forE (sg_stakers g) (staking_genesis_staker cfg) s0 = (Inr (), t)"
    using run unfolding staking_genesis_build_def s0_def by simp
  ultimately show ?thesis using stakers[of 0 s0] n by simp
qed

text \<open>
  C33. Bonds stay consistent from the genesis on, over every run of calls, sessions, offences and
  blocks: stashes and controllers are paired one to one through the ledgers; every ledger adds up
  (its total is what is active and what is being unlocked); the lock on a stash is the total of its
  ledger, and whoever is not bonded has no lock; validators and nominators are bonded stashes, nobody
  is both, and the counters count them. The bound is on the number of stakers and steps, for the
  counters saturate.
\<close>

theorem bonds_stay_consistent:
  assumes "staking_env cfg lk" "\<And>a. lk a w = None" "staking_genesis_build cfg g (no_staking w) = (Inr (), s)"
    and "list_all action_ok as" "length (sg_stakers g) + length as \<le> u32_max"
  shows "staking_inv lk (length (sg_stakers g) + length as) (fold (exec_staking cfg) as s)"
proof -
  have "staking_inv lk 0 (no_staking w)"
    using assms(2) by (simp add: staking_inv_def bonds_ok_def roles_ok_def no_staking_def)
  then have "staking_inv lk (length (sg_stakers g)) s"
    using genesis_inv[OF assms(1) _ _ assms(3)] assms(5) by simp
  then show ?thesis by (rule run_staking_inv[OF assms(1) _ assms(4,5)])
qed

definition demo_staking_genesis :: staking_genesis where
  "demo_staking_genesis = \<lparr>sg_history_depth = 84, sg_validator_count = 10, sg_minimum_validator_count = 1, sg_invulnerables = [],
     sg_force_era = NotForcing, sg_slash_reward_fraction = 100000000, sg_canceled_payout = 0,
     sg_stakers = [(1, 2, 100, Validator)], sg_min_nominator_bond = 0, sg_min_validator_bond = 0\<rparr>"

lemma demo_staking_env: "staking_env demo_staking (\<lambda>a w. w a)"
  by (simp add: staking_env_def demo_staking_def okE_def u128_max_def)

text \<open>The genesis only panics for a stake that is not there.\<close>

lemma genesis_staker_ok:
  assumes "v \<le> sk_free_balance cfg a (stk_world s)"
  shows "\<exists>t. staking_genesis_staker cfg (a, c, v, st) s = (Inr (), t)"
proof -
  obtain r u where b: "bond cfg (Signed a) (sk_unlookup cfg c) v Staked s = (r, u)" by fastforce
  show ?thesis
  proof (cases st)
    case Validator
    then show ?thesis
      using assms by (cases "staking_validate (Signed c) default_prefs u") (simp add: staking_genesis_staker_def eff_defs b)
  next
    case (Nominator ts)
    then show ?thesis
      using assms by (cases "nominate cfg (Signed c) (map (sk_unlookup cfg) ts) u") (simp add: staking_genesis_staker_def eff_defs b)
  qed (use assms in \<open>simp add: staking_genesis_staker_def eff_defs b\<close>)
qed

lemma bonds_stay_consistent_witness:
  "staking_inv (\<lambda>a w. w a) 4 (fold (exec_staking demo_staking)
     [Call_Bond (Signed 3) 4 50 Staked, Call_Nominate (Signed 4) [1], Call_Unbond (Signed 4) 20]
     (snd (staking_genesis_build demo_staking demo_staking_genesis (no_staking Map.empty))))"
proof -
  let ?s = "staking_genesis_build demo_staking demo_staking_genesis (no_staking Map.empty)"
  have free: "sk_free_balance demo_staking a x = 1000" for a x by (simp add: demo_staking_def)
  have "\<exists>t. ?s = (Inr (), t)"
    using genesis_staker_ok[of 100 demo_staking 1 _ 2 Validator] free
    by (simp add: staking_genesis_build_def demo_staking_genesis_def)
  then have "?s = (Inr (), snd ?s)" by auto
  note run = bonds_stay_consistent[where w = Map.empty, OF demo_staking_env refl this]
  let ?as = "[Call_Bond (Signed 3) 4 50 Staked, Call_Nominate (Signed 4) [1], Call_Unbond (Signed 4) 20]"
  have n: "length (sg_stakers demo_staking_genesis) + length ?as = 4" by (simp add: demo_staking_genesis_def)
  have "list_all action_ok ?as" "4 \<le> u32_max" by (simp_all add: u32_max_def)
  then show ?thesis using run[of ?as] unfolding n by blast
qed

section \<open>Unbonded funds come back\<close>

text \<open>All chunks of a ledger have come to their era: nothing is left unlocking.\<close>

lemma consolidate_all:
  assumes "ledger_ok l" "list_all (\<lambda>c. uc_era c \<le> e) (sl_unlocking l)"
  shows "sl_unlocking (consolidate_unlocked e l) = []" "sl_active (consolidate_unlocked e l) = sl_active l"
  using assms(2) by (simp_all add: consolidate_unlocked_def filter_empty_conv list_all_iff not_less)

lemma withdraw_when_due:
  assumes env: "staking_env cfg lk" and inv: "staking_inv lk n s" and l: "stake_ledger s c = Some l"
    and due: "current_era s = Some e" "list_all (\<lambda>x. uc_era x \<le> e) (sl_unlocking l)" "sl_active l < sk_minimum_balance cfg"
    and spans: "case spans_of s (sl_stash l) of None \<Rightarrow> True | Some sp \<Rightarrow> length (iter_spans sp) \<le> k"
  shows "\<exists>t. withdraw_unbonded cfg (Signed c) k s = (Inr (), t) \<and> bonded t (sl_stash l) = None \<and> stake_ledger t c = None \<and>
    lk (sl_stash l) (stk_world t) = None \<and> \<not> alist_contains (sl_stash l) (validators t) \<and> \<not> alist_contains (sl_stash l) (nominators t)"
proof -
  let ?a = "sl_stash l" and ?l = "consolidate_unlocked e l"
  have ok: "ledger_ok l" "bonded s ?a = Some c" using bonds_okD(2,3)[OF inv l] by auto
  note gone = consolidate_all[OF ok(1) due(2)]
  obtain u where u: "clear_stash_metadata ?a k s = (Inr (), u)" "bonded u = bonded s"
    using spans by (auto simp: clear_stash_metadata_def eff_defs split: option.splits)
  have kill: "kill_stash cfg ?a k s = (Inr (), left_stash cfg ?a c u)"
    using u ok(2) by (simp add: kill_stash_def left_stash_def Let_def bondedE_def eff_defs)
  define v where "v = on_world (sk_remove_lock cfg ?a) (left_stash cfg ?a c u)"
  have v: "staking_inv lk n v" using kill_stash_inv[OF env inv kill] by (simp add: v_def)
  have bv: "bonded v ?a = None" "stake_ledger v c = None"
    by (simp_all add: v_def left_stash_def on_world_def removed_roles removed_fields Let_def)
  define t where "t = (if sl_total ?l < sl_total l then stk_event (Withdrawn ?a (sl_total l - sl_total ?l)) v else v)"
  have t: "withdraw_unbonded cfg (Signed c) k s = (Inr (), t)"
    using l due(1,3) kill gone
    by (simp add: withdraw_unbonded_def ledgerE_def v_def t_def eff_defs Let_def ensure_signed_def whenE_def)
  have same: "same_bonds lk v t" by (simp add: t_def)
  have tinv: "staking_inv lk n t" by (rule same_bonds_inv[OF same v])
  have bt: "bonded t ?a = None" "stake_ledger t c = None" using same bv by (auto simp: same_bonds_def)
  have "lk ?a (stk_world t) = None" using bonds_okD(5)[OF tinv bt(1)] .
  moreover have roles: "\<forall>a \<in> set (map fst (validators t)) \<union> set (map fst (nominators t)). bonded t a \<noteq> None"
    using tinv unfolding staking_inv_def roles_ok_def by blast
  then have "\<not> alist_contains ?a (validators t)" "\<not> alist_contains ?a (nominators t)"
    using roles bt(1) unfolding alist_contains_keys by blast+
  ultimately show ?thesis using t bt by blast
qed

text \<open>
  C34. Unbonded funds come back: if a controller unbonds all that is active, and in a later state the
  ledger has not been changed and the bonding duration is over, then withdrawing succeeds, for the
  number of slashing spans the stash has; the stash is no longer bonded, has no ledger, no role and
  no lock.
\<close>

theorem unbonded_funds_come_back:
  assumes "staking_env cfg lk" "0 < sk_minimum_balance cfg" "staking_inv lk n s"
    and "stake_ledger s c = Some l" "sl_active l \<le> v" "sl_active l \<noteq> 0"
    and "unbond cfg (Signed c) v s = (Inr (), t)"
    and "staking_inv lk m u" "stake_ledger u c = stake_ledger t c"
    and "current_era u = Some e" "unwrap_or (current_era s) 0 + sk_bonding_duration cfg \<le> e"
    and "list_all (\<lambda>x. uc_era x \<le> e) (sl_unlocking l)"
    and "case spans_of u (sl_stash l) of None \<Rightarrow> True | Some sp \<Rightarrow> length (iter_spans sp) \<le> k"
  shows "\<exists>w. withdraw_unbonded cfg (Signed c) k u = (Inr (), w) \<and> bonded w (sl_stash l) = None \<and> stake_ledger w c = None \<and>
    lk (sl_stash l) (stk_world w) = None \<and> \<not> alist_contains (sl_stash l) (validators w) \<and> \<not> alist_contains (sl_stash l) (nominators w)"
proof -
  let ?era = "wrap_add u32_max (unwrap_or (current_era s) 0) (sk_bonding_duration cfg)"
  have "stake_ledger t c = Some (l\<lparr>sl_active := 0, sl_unlocking := sl_unlocking l @ [\<lparr>uc_value = wrap_add u128_max (sl_active l) 0, uc_era = ?era\<rparr>]\<rparr>)"
    using assms(2,4,6,7) unfolding unbond_def Let_def
    by (auto simp: min_absorb2[OF assms(5)] update_ledger_def on_world_def stk_event_def)
  then obtain l' where l': "stake_ledger u c = Some l'" "sl_stash l' = sl_stash l" "sl_active l' = 0"
    "sl_unlocking l' = sl_unlocking l @ [\<lparr>uc_value = wrap_add u128_max (sl_active l) 0, uc_era = ?era\<rparr>]"
    using assms(9) by auto
  have "?era \<le> e" using assms(11) mod_less_eq_dividend le_trans unfolding wrap_add_def by blast
  then show ?thesis
    using withdraw_when_due[OF assms(1,8) l'(1) assms(10)] assms(2,12,13) l'(2-4) by simp
qed

definition demo_bonded :: "(account_id \<Rightarrow> balance option) staking_state" where
  "demo_bonded = (no_staking [1 \<mapsto> 100])\<lparr>bonded := [1 \<mapsto> 2], current_era := Some 5,
     stake_ledger := [2 \<mapsto> \<lparr>sl_stash = 1, sl_total = 100, sl_active = 100, sl_unlocking = [], sl_claimed_rewards = []\<rparr>]\<rparr>"

lemma demo_bonded_inv: "staking_inv (\<lambda>a w. w a) 0 demo_bonded"
  by (auto simp: staking_inv_def bonds_ok_def roles_ok_def demo_bonded_def no_staking_def ledger_ok_def u128_max_def)

text \<open>Everything is unbonded in era 5 and withdrawn in era 8.\<close>

lemma unbonded_funds_come_back_witness:
  "\<exists>w. withdraw_unbonded demo_staking (Signed 2) 0 ((snd (unbond demo_staking (Signed 2) 100 demo_bonded))\<lparr>current_era := Some 8\<rparr>) = (Inr (), w) \<and>
     bonded w 1 = None \<and> stake_ledger w 2 = None \<and> stk_world w 1 = None \<and>
     \<not> alist_contains 1 (validators w) \<and> \<not> alist_contains 1 (nominators w)"
proof -
  let ?l = "\<lparr>sl_stash = 1, sl_total = 100, sl_active = 100, sl_unlocking = [], sl_claimed_rewards = []\<rparr>"
  let ?t = "snd (unbond demo_staking (Signed 2) 100 demo_bonded)"
  have demo: "sk_minimum_balance demo_staking = 10" "sk_bonding_duration demo_staking = 3" by (simp_all add: demo_staking_def)
  have s: "stake_ledger demo_bonded 2 = Some ?l" "current_era demo_bonded = Some 5" "spans_of demo_bonded = Map.empty"
    "validators demo_bonded = []" "nominators demo_bonded = []"
    by (simp_all add: demo_bonded_def no_staking_def)
  have "unbond demo_staking (Signed 2) 100 demo_bonded = (Inr (), ?t) \<and> spans_of ?t = Map.empty"
    using s by (simp add: unbond_def ledgerE_def ensure_signed_def eff_defs demo Let_def max_unlocking_chunks_def min_active_bond_def
        alist_contains_def update_ledger_def on_world_def stk_event_def)
  moreover have "staking_inv (\<lambda>a w. w a) 0 ?t" by (rule unbond_inv[OF demo_staking_env demo_bonded_inv])
  then have "staking_inv (\<lambda>a w. w a) 0 (?t\<lparr>current_era := Some 8\<rparr>)" by (rule same_bonds_inv[rotated]) (simp add: same_bonds_def)
  ultimately show ?thesis
    using unbonded_funds_come_back[OF demo_staking_env _ demo_bonded_inv s(1), where v = 100 and t = ?t and u = "?t\<lparr>current_era := Some 8\<rparr>" and e = 8 and k = 0 and m = 0]
    by (simp add: demo s)
qed

end
