(* ===== verification/Staking_Time.thy ===== *)
theory Staking_Time
  imports Staking_Properties
begin

text \<open>
  Eras as time: slashes that are deferred are applied when their time has come, the eras in which
  stakes are still bonded are exactly those of the bonding duration, and under successful elections
  eras go on.
\<close>

section \<open>What no call touches\<close>

definition time_of :: "'w staking_state \<Rightarrow> active_era_info option \<times> era_index option \<times> (era_index \<Rightarrow> session_index option) \<times>
    (era_index \<Rightarrow> unapplied_slash list) \<times> era_index option \<times> (era_index \<times> session_index) list" where
  "time_of s = (active_era s, current_era s, eras_start_session_index s, unapplied_slashes s, earliest_unapplied_slash s, bonded_eras s)"

named_theorems timeless \<open>operations that leave the eras alone\<close>

lemma timeless_basic [timeless]:
  "time_of (stk_event ev s) = time_of s" "time_of (on_world f s) = time_of s" "time_of (update_ledger cfg c l s) = time_of s"
  "time_of (do_add_validator a p s) = time_of s" "time_of (do_add_nominator a q s) = time_of s"
  "time_of (snd (do_remove_validator a s)) = time_of s" "time_of (snd (do_remove_nominator a s)) = time_of s"
  "time_of (ensure_new_era s) = time_of s" "time_of (clear_era_metadata e s) = time_of s"
  "time_of (kick_nominator a b s) = time_of s"
  by (simp_all add: time_of_def stk_event_def on_world_def update_ledger_def do_add_validator_def do_add_nominator_def
      do_remove_validator_def do_remove_nominator_def ensure_new_era_def clear_era_metadata_def kick_nominator_def
      split: forcing.splits option.splits)

lemma timeless_fields [timeless]:
  "time_of (s\<lparr>bonded := b\<rparr>) = time_of s" "time_of (s\<lparr>stake_ledger := l\<rparr>) = time_of s" "time_of (s\<lparr>payee := p\<rparr>) = time_of s"
  "time_of (s\<lparr>stk_world := w\<rparr>) = time_of s" "time_of (s\<lparr>spans_of := sp\<rparr>) = time_of s" "time_of (s\<lparr>span_slash := x\<rparr>) = time_of s"
  "time_of (s\<lparr>validator_slash_in_era := y\<rparr>) = time_of s" "time_of (s\<lparr>nominator_slash_in_era := z\<rparr>) = time_of s"
  "time_of (s\<lparr>validator_count := v\<rparr>) = time_of s" "time_of (s\<lparr>force_era := f\<rparr>) = time_of s" "time_of (s\<lparr>invulnerables := i\<rparr>) = time_of s"
  "time_of (s\<lparr>min_nominator_bond := mn\<rparr>) = time_of s" "time_of (s\<lparr>min_validator_bond := mv\<rparr>) = time_of s"
  "time_of (s\<lparr>max_nominators_count := xn\<rparr>) = time_of s" "time_of (s\<lparr>max_validators_count := xv\<rparr>) = time_of s"
  "time_of (s\<lparr>chill_threshold := ct\<rparr>) = time_of s" "time_of (s\<lparr>eras_reward_points := rp\<rparr>) = time_of s"
  "time_of (s\<lparr>current_planned_session := ps\<rparr>) = time_of s"
  by (simp_all add: time_of_def)

lemma timeless_chill [timeless]: "time_of (chill_stash a s) = time_of s"
  by (simp add: chill_stash_def Let_def case_prod_beta timeless)

section \<open>Slashing\<close>

lemma timeless_fold: "(\<And>x s. time_of (f x s) = time_of s) \<Longrightarrow> time_of (fold f xs s) = time_of s"
  by (induction xs arbitrary: s) simp_all

lemma timeless_spans [timeless]:
  "time_of (snd (fetch_spans a w p q s)) = time_of s"
  "time_of (snd (snd (compare_and_update_span_slash cfg a p e x y))) = time_of (snd y)"
  "time_of (drop_spans a w y) = time_of (snd y)"
  "time_of (snd (chill_in_current_span cfg a now y)) = time_of (snd y)"
  by (simp_all add: fetch_spans_def compare_and_update_span_slash_def drop_spans_def chill_in_current_span_def Let_def timeless
      case_prod_beta split: option.split)

lemma timeless_kick_out [timeless]: "time_of (kick_out_if_recent cfg p s) = time_of s"
  by (simp add: kick_out_if_recent_def Let_def case_prod_beta timeless)

lemma timeless_slash_validator [timeless]: "time_of (snd (snd (slash_validator cfg p x s))) = time_of s"
  by (simp add: slash_validator_def Let_def case_prod_beta timeless)

lemma timeless_slash_nominator: "time_of (snd (snd (slash_nominator cfg p q e y))) = time_of (snd (snd y))"
  by (simp add: slash_nominator_def Let_def case_prod_beta timeless)

lemma timeless_slash_nominators [timeless]: "time_of (snd (snd (slash_nominators cfg p q s))) = time_of s"
proof -
  have "time_of (snd (snd (fold (slash_nominator cfg p q) es y))) = time_of (snd (snd y))" for es y
    by (induction es arbitrary: y) (simp_all add: timeless_slash_nominator)
  then show ?thesis by (simp add: slash_nominators_def)
qed

lemma timeless_compute [timeless]: "time_of (snd (compute_slash cfg p s)) = time_of s"
  by (simp add: compute_slash_def Let_def case_prod_beta timeless)

lemma timeless_do_slash: "time_of (snd (snd (do_slash cfg a v y))) = time_of (snd (snd y))"
  by (simp add: do_slash_def Let_def case_prod_beta timeless split: option.split)

lemma timeless_pay [timeless]: "time_of (pay_reporters cfg r x rs s) = time_of s"
  by (simp add: pay_reporters_def Let_def case_prod_beta timeless)

lemma timeless_apply [timeless]: "time_of (apply_slash cfg u s) = time_of s"
proof -
  have "time_of (snd (snd (fold (\<lambda>(a, v). do_slash cfg a v) xs y))) = time_of (snd (snd y))" for xs y
    by (induction xs arbitrary: y) (auto simp: timeless_do_slash)
  then show ?thesis by (simp add: apply_slash_def Let_def case_prod_beta timeless timeless_do_slash)
qed

section \<open>Calls\<close>

lemma keeps_time_modE: "(\<And>s. time_of (f s) = time_of s) \<Longrightarrow> preserves (\<lambda>s. time_of s = v) (modE f)"
  by (rule keeps_modE) simp

lemma keeps_time_basic [keeps]:
  "preserves P (ensure_signed org)" "preserves P (ensure_root org)" "preserves P (lookupE cfg source)"
  "preserves P (ledgerE c)" "preserves P (bondedE a)"
  by (auto simp: preserves_def ensure_signed_def ensure_root_def lookupE_def ledgerE_def bondedE_def eff_defs split: origin.splits option.splits)

lemma keeps_time_inK [keeps]: "preserves (\<lambda>s. time_of s = v) (inK m)"
  by (auto simp: preserves_def inK_def zoomE_def timeless split: prod.splits)

lemma keeps_collect [keeps]: "(\<And>x. preserves P (f x)) \<Longrightarrow> preserves P (collectE f xs)"
  by (induction xs) (simp_all add: keeps)

lemma keeps_time_kill [keeps]: "preserves (\<lambda>s. time_of s = v) (kill_stash cfg a k)"
  unfolding kill_stash_def clear_stash_metadata_def
  by (intro keeps keeps_time_modE) (simp_all add: Let_def timeless)

lemma calls_time:
  "preserves (\<lambda>s. time_of s = v) (bond cfg org src x dest)" "preserves (\<lambda>s. time_of s = v) (bond_extra cfg org x)"
  "preserves (\<lambda>s. time_of s = v) (unbond cfg org x)" "preserves (\<lambda>s. time_of s = v) (withdraw_unbonded cfg org k)"
  "preserves (\<lambda>s. time_of s = v) (rebond_call cfg org x)" "preserves (\<lambda>s. time_of s = v) (staking_validate org p)"
  "preserves (\<lambda>s. time_of s = v) (nominate cfg org ts)" "preserves (\<lambda>s. time_of s = v) (chill org)"
  "preserves (\<lambda>s. time_of s = v) (chill_other cfg org c)" "preserves (\<lambda>s. time_of s = v) (kick cfg org who)"
  "preserves (\<lambda>s. time_of s = v) (set_payee org dest)" "preserves (\<lambda>s. time_of s = v) (set_controller cfg org src)"
  "preserves (\<lambda>s. time_of s = v) (set_validator_count org n)" "preserves (\<lambda>s. time_of s = v) (increase_validator_count org n)"
  "preserves (\<lambda>s. time_of s = v) (scale_validator_count cfg org n)" "preserves (\<lambda>s. time_of s = v) (force_no_eras org)"
  "preserves (\<lambda>s. time_of s = v) (force_new_era org)" "preserves (\<lambda>s. time_of s = v) (force_new_era_always org)"
  "preserves (\<lambda>s. time_of s = v) (set_invulnerables org who)" "preserves (\<lambda>s. time_of s = v) (force_unstake cfg org a k)"
  "preserves (\<lambda>s. time_of s = v) (reap_stash cfg a k)" "preserves (\<lambda>s. time_of s = v) (set_staking_limits org b1 b2 m1 m2 th)"
  unfolding bond_def bond_extra_def unbond_def withdraw_unbonded_def rebond_call_def staking_validate_def nominate_def nominate_target_def
    chill_def chill_other_def kick_def set_payee_def set_controller_def set_validator_count_def increase_validator_count_def
    scale_validator_count_def force_no_eras_def force_new_era_def force_new_era_always_def set_invulnerables_def force_unstake_def
    reap_stash_def set_staking_limits_def
  by (intro keeps keeps_time_modE; (simp add: timeless Let_def split: option.split)?)+

lemma reward_time: "time_of (reward_by_ids vps s) = time_of s"
  by (simp add: reward_by_ids_def timeless split: option.split)

section \<open>Planning touches only the current era and the starts of eras\<close>

definition slash_view :: "'w staking_state \<Rightarrow> active_era_info option \<times> (era_index \<Rightarrow> unapplied_slash list) \<times> era_index option \<times> (era_index \<times> session_index) list" where
  "slash_view s = (active_era s, unapplied_slashes s, earliest_unapplied_slash s, bonded_eras s)"

lemma view_of_time: "time_of t = time_of s \<Longrightarrow> slash_view t = slash_view s"
  by (simp add: time_of_def slash_view_def)

lemma view_basic:
  "slash_view (clear_era_information e s) = slash_view s" "slash_view (store_staker cfg e x s) = slash_view s"
  "slash_view (s\<lparr>eras_total_stake := ts\<rparr>) = slash_view s" "slash_view (s\<lparr>eras_validator_prefs := vp\<rparr>) = slash_view s"
  "slash_view (s\<lparr>current_era := ce\<rparr>) = slash_view s" "slash_view (s\<lparr>eras_start_session_index := si\<rparr>) = slash_view s"
  "slash_view (s\<lparr>history_depth := dep\<rparr>) = slash_view s" "slash_view (s\<lparr>stk_world := w\<rparr>) = slash_view s"
  "slash_view (s\<lparr>force_era := f\<rparr>) = slash_view s" "slash_view (s\<lparr>current_planned_session := ps\<rparr>) = slash_view s"
  "slash_view (stk_event ev s) = slash_view s"
  by (simp_all add: slash_view_def clear_era_information_def store_staker_def stk_event_def case_prod_beta)

lemma view_fold: "(\<And>x s. slash_view (f x s) = slash_view s) \<Longrightarrow> slash_view (fold f xs s) = slash_view s"
  by (induction xs arbitrary: s) simp_all

lemma view_store: "slash_view (snd (store_stakers_info cfg xs e s)) = slash_view s"
  unfolding store_stakers_info_def Let_def snd_conv by (simp add: view_fold view_basic)

lemma view_trigger: "slash_view (snd (trigger_new_era cfg st xs s)) = slash_view s"
  unfolding trigger_new_era_def Let_def by (simp add: view_store view_basic split: option.split)

lemma view_try: "slash_view (snd (try_trigger_new_era cfg st g s)) = slash_view s"
  unfolding try_trigger_new_era_def Let_def case_prod_beta by (simp add: view_trigger view_basic split: option.split)

lemma view_session: "slash_view (snd (historical_new_session cfg i g s)) = slash_view s"
  unfolding historical_new_session_def new_session_def plan_session_def Let_def case_prod_beta
  by (simp add: view_try view_basic split: option.split)

lemma view_history_depth: "slash_view (snd (set_history_depth org k s)) = slash_view s"
  by (simp add: set_history_depth_def ensure_root_def eff_defs Let_def view_basic view_fold split: option.split origin.split)

section \<open>The window of eras\<close>

text \<open>
  The eras that are kept are those of the bonding duration; a deferred slash is of an era that is not
  older than the defer duration, and the earliest one is known. \<open>n\<close> bounds the active era.
\<close>

definition pending_ok :: "era_index \<Rightarrow> era_index \<Rightarrow> era_index option \<Rightarrow> (era_index \<Rightarrow> unapplied_slash list) \<Rightarrow> bool" where
  "pending_ok d a earliest pending \<longleftrightarrow> (\<forall>f. earliest = Some f \<longrightarrow> f \<le> a) \<and>
     (\<forall>e. pending e \<noteq> [] \<longrightarrow> (\<exists>f. earliest = Some f \<and> f \<le> e) \<and> e \<le> a \<and> a \<le> e + d)"

definition window_ok :: "'w staking_config \<Rightarrow> nat \<Rightarrow> 'w staking_state \<Rightarrow> bool" where
  "window_ok cfg n s \<longleftrightarrow> (case active_era s of
       None \<Rightarrow> bonded_eras s = [] \<and> earliest_unapplied_slash s = None \<and> (\<forall>e. unapplied_slashes s e = [])
     | Some a \<Rightarrow> ae_index a < n \<and> map fst (bonded_eras s) = [ae_index a - sk_bonding_duration cfg..<Suc (ae_index a)] \<and>
         pending_ok (sk_slash_defer_duration cfg) (ae_index a) (earliest_unapplied_slash s) (unapplied_slashes s))"

lemma window_view: "slash_view t = slash_view s \<Longrightarrow> window_ok cfg n s \<Longrightarrow> window_ok cfg n t"
  by (simp add: window_ok_def slash_view_def split: option.splits)

lemma window_mono: "window_ok cfg n s \<Longrightarrow> n \<le> m \<Longrightarrow> window_ok cfg m s"
  by (auto simp: window_ok_def split: option.splits)

lemma dropWhile_upt: "i \<le> j \<Longrightarrow> dropWhile (\<lambda>e. e < k) [i..<j] = [max i (min j k)..<j]"
proof (induction "j - i" arbitrary: i)
  case (Suc d)
  then have "[i..<j] = i # [Suc i..<j]" by (simp add: upt_rec)
  then show ?case using Suc by (auto simp: max_def min_def)
qed simp

lemma prune_window:
  assumes "map fst (bonded_eras s) = [i..<Suc a]" "i \<le> a" "a - sk_bonding_duration cfg \<le> Suc i" "i \<le> a - sk_bonding_duration cfg"
  shows "map fst (bonded_eras (prune_bonded_eras cfg a s)) = [a - sk_bonding_duration cfg..<Suc a]"
    "active_era (prune_bonded_eras cfg a s) = active_era s" "unapplied_slashes (prune_bonded_eras cfg a s) = unapplied_slashes s"
    "earliest_unapplied_slash (prune_bonded_eras cfg a s) = earliest_unapplied_slash s"
proof -
  let ?kept = "if a > sk_bonding_duration cfg then dropWhile (\<lambda>(e, _). e < a - sk_bonding_duration cfg) (bonded_eras s) else bonded_eras s"
  have "time_of (prune_bonded_eras cfg a s) = time_of (s\<lparr>bonded_eras := ?kept\<rparr>)"
    by (simp add: prune_bonded_eras_def Let_def timeless timeless_fold split: list.split)
  then have eq: "bonded_eras (prune_bonded_eras cfg a s) = ?kept" and rest: "active_era (prune_bonded_eras cfg a s) = active_era s"
    "unapplied_slashes (prune_bonded_eras cfg a s) = unapplied_slashes s"
    "earliest_unapplied_slash (prune_bonded_eras cfg a s) = earliest_unapplied_slash s"
    by (simp_all add: time_of_def)
  have "map fst (dropWhile (\<lambda>(e, _). e < k) xs) = dropWhile (\<lambda>e. e < k) (map fst xs)" for k and xs :: "(nat \<times> nat) list"
    by (induction xs) auto
  then show "map fst (bonded_eras (prune_bonded_eras cfg a s)) = [a - sk_bonding_duration cfg..<Suc a]"
    using assms dropWhile_upt[of i "Suc a" "a - sk_bonding_duration cfg"] unfolding eq
    by (cases "a > sk_bonding_duration cfg") (auto simp: max_def min_def simp del: upt_Suc)
  show "active_era (prune_bonded_eras cfg a s) = active_era s" "unapplied_slashes (prune_bonded_eras cfg a s) = unapplied_slashes s"
    "earliest_unapplied_slash (prune_bonded_eras cfg a s) = earliest_unapplied_slash s" by (rule rest)+
qed

text \<open>Applying what is due.\<close>

lemma apply_due:
  shows "unapplied_slashes (fold (\<lambda>e s. fold (apply_slash cfg) (unapplied_slashes s e) (s\<lparr>unapplied_slashes := (unapplied_slashes s)(e := [])\<rparr>)) es s) =
      (\<lambda>e. if e \<in> set es then [] else unapplied_slashes s e)"
    "active_era (fold (\<lambda>e s. fold (apply_slash cfg) (unapplied_slashes s e) (s\<lparr>unapplied_slashes := (unapplied_slashes s)(e := [])\<rparr>)) es s) = active_era s"
    "bonded_eras (fold (\<lambda>e s. fold (apply_slash cfg) (unapplied_slashes s e) (s\<lparr>unapplied_slashes := (unapplied_slashes s)(e := [])\<rparr>)) es s) = bonded_eras s"
proof -
  have step: "time_of (fold (apply_slash cfg) us (s\<lparr>unapplied_slashes := p\<rparr>)) = time_of (s\<lparr>unapplied_slashes := p\<rparr>)" for us p s
    by (rule timeless_fold) (rule timeless_apply)
  then have fields: "unapplied_slashes (fold (apply_slash cfg) us (s\<lparr>unapplied_slashes := p\<rparr>)) = p"
      "active_era (fold (apply_slash cfg) us (s\<lparr>unapplied_slashes := p\<rparr>)) = active_era s"
      "bonded_eras (fold (apply_slash cfg) us (s\<lparr>unapplied_slashes := p\<rparr>)) = bonded_eras s" for us p s
    by (simp_all add: time_of_def)
  show "unapplied_slashes (fold (\<lambda>e s. fold (apply_slash cfg) (unapplied_slashes s e) (s\<lparr>unapplied_slashes := (unapplied_slashes s)(e := [])\<rparr>)) es s) =
      (\<lambda>e. if e \<in> set es then [] else unapplied_slashes s e)"
    "active_era (fold (\<lambda>e s. fold (apply_slash cfg) (unapplied_slashes s e) (s\<lparr>unapplied_slashes := (unapplied_slashes s)(e := [])\<rparr>)) es s) = active_era s"
    "bonded_eras (fold (\<lambda>e s. fold (apply_slash cfg) (unapplied_slashes s e) (s\<lparr>unapplied_slashes := (unapplied_slashes s)(e := [])\<rparr>)) es s) = bonded_eras s"
    by (induction es arbitrary: s) (auto simp: fields)
qed

lemma apply_unapplied_window:
  assumes "pending_ok d a (earliest_unapplied_slash s) (unapplied_slashes s)" "d = sk_slash_defer_duration cfg"
  shows "pending_ok d (Suc a) (earliest_unapplied_slash (apply_unapplied_slashes cfg (Suc a) s)) (unapplied_slashes (apply_unapplied_slashes cfg (Suc a) s))"
    "active_era (apply_unapplied_slashes cfg (Suc a) s) = active_era s" "bonded_eras (apply_unapplied_slashes cfg (Suc a) s) = bonded_eras s"
  using assms by (auto simp: apply_unapplied_slashes_def Let_def apply_due pending_ok_def split: option.split)

lemma start_session_window:
  assumes ok: "window_ok cfg n s" and n: "n \<le> u32_max"
  shows "window_ok cfg (Suc n) (start_session cfg i s)"
proof -
  have "window_ok cfg (Suc n) (start_era cfg i s)"
  proof (cases "active_era s")
    case None
    let ?s = "s\<lparr>active_era := Some \<lparr>ae_index = 0, ae_start = None\<rparr>, bonded_eras := bonded_eras s @ [(0, i)]\<rparr>"
    have "start_era cfg i s = ?s" using ok None
      by (simp add: start_era_def window_ok_def prune_bonded_eras_def apply_unapplied_slashes_def)
    then show ?thesis using ok None by (simp add: window_ok_def pending_ok_def)
  next
    case (Some x)
    define a where "a = ae_index x"
    let ?s = "s\<lparr>active_era := Some \<lparr>ae_index = Suc a, ae_start = None\<rparr>, bonded_eras := bonded_eras s @ [(Suc a, i)]\<rparr>"
    have w: "a < n" "map fst (bonded_eras s) = [a - sk_bonding_duration cfg..<Suc a]"
      "pending_ok (sk_slash_defer_duration cfg) a (earliest_unapplied_slash s) (unapplied_slashes s)"
      using ok Some by (auto simp: window_ok_def a_def)
    have b: "map fst (bonded_eras ?s) = [a - sk_bonding_duration cfg..<Suc (Suc a)]" using w(2) by simp
    have eq: "start_era cfg i s = apply_unapplied_slashes cfg (Suc a) (prune_bonded_eras cfg (Suc a) ?s)"
      using Some w(1) n by (simp add: start_era_def a_def[symmetric])
    note pruned = prune_window[where cfg = cfg, OF b]
    show ?thesis
      unfolding eq window_ok_def
      using pruned apply_unapplied_window[where s = "prune_bonded_eras cfg (Suc a) ?s" and cfg = cfg and a = a, OF _ refl] w
      by (simp del: upt_Suc)
  qed
  then show ?thesis using window_mono[OF ok] by (simp add: start_session_def Let_def split: option.split)
qed

subsection \<open>Offences\<close>

lemma handle_offender_window:
  assumes ok: "window_ok cfg n s" and a: "active_era s = Some a" "era = ae_index a" "earliest_unapplied_slash s \<noteq> None"
  shows "window_ok cfg n (handle_offender cfg era se rp is d s)" "active_era (handle_offender cfg era se rp is d s) = Some a"
    "earliest_unapplied_slash (handle_offender cfg era se rp is d s) = earliest_unapplied_slash s"
proof -
  obtain od f where d: "d = (od, f)" by fastforce
  let ?p = "\<lparr>spm_stash = od_offender od, spm_slash = f, spm_exposure = od_exposure od, spm_slash_era = se,
    spm_window_start = sat_sub era (sk_bonding_duration cfg), spm_now = era, spm_reward_proportion = rp\<rparr>"
  obtain u t where c: "compute_slash cfg ?p s = (u, t)" by fastforce
  have t: "time_of t = time_of s" using timeless_compute[of cfg ?p s] by (simp add: c del: sat_sub_nat)
  then have applied: "time_of (apply_slash cfg x t) = time_of s" for x by (simp add: timeless)
  have "handle_offender cfg era se rp is d s \<in> {s, t} \<union> range (\<lambda>x. apply_slash cfg x t) \<union>
      range (\<lambda>x. t\<lparr>unapplied_slashes := (unapplied_slashes t)(era := unapplied_slashes t era @ [x])\<rparr>)"
    unfolding handle_offender_def d prod.case c Let_def by (auto split: option.splits)
  then consider "time_of (handle_offender cfg era se rp is d s) = time_of s"
    | x where "handle_offender cfg era se rp is d s = t\<lparr>unapplied_slashes := (unapplied_slashes t)(era := unapplied_slashes t era @ [x])\<rparr>"
    using t applied by auto
  then have "window_ok cfg n (handle_offender cfg era se rp is d s) \<and> active_era (handle_offender cfg era se rp is d s) = Some a \<and>
    earliest_unapplied_slash (handle_offender cfg era se rp is d s) = earliest_unapplied_slash s"
  proof cases
    case 1
    then show ?thesis using window_view[OF view_of_time[OF 1] ok] a by (simp add: time_of_def)
  next
    case (2 x)
    then show ?thesis using ok a t by (auto simp: window_ok_def pending_ok_def time_of_def)
  qed
  then show "window_ok cfg n (handle_offender cfg era se rp is d s)" "active_era (handle_offender cfg era se rp is d s) = Some a"
    "earliest_unapplied_slash (handle_offender cfg era se rp is d s) = earliest_unapplied_slash s" by auto
qed

lemma on_offence_window:
  assumes ok: "window_ok cfg n s"
  shows "window_ok cfg n (on_offence cfg offenders fs session s)"
proof -
  have offenders: "window_ok cfg n (fold (handle_offender cfg (ae_index a) se rp is) ds s)"
    if "window_ok cfg n s" "active_era s = Some a" "earliest_unapplied_slash s \<noteq> None" for s a se rp "is" ds
    using that
  proof (induction ds arbitrary: s)
    case (Cons d ds)
    show ?case using Cons.IH[of "handle_offender cfg (ae_index a) se rp is d s"] handle_offender_window[OF Cons.prems(1,2) refl Cons.prems(3)]
        Cons.prems(3) by simp
  qed simp
  have "window_ok cfg n (s\<lparr>earliest_unapplied_slash := Some (ae_index a)\<rparr>)" if "active_era s = Some a" "earliest_unapplied_slash s = None" for a
    using ok that by (auto simp: window_ok_def pending_ok_def)
  then show ?thesis
    using ok by (auto simp: on_offence_def Let_def intro!: offenders split: option.split)
qed

lemma cancel_window:
  assumes ok: "window_ok cfg n s"
  shows "window_ok cfg n (snd (cancel_deferred_slash cfg org era ks s))"
proof (cases "cancel_deferred_slash cfg org era ks s")
  case (Pair r t)
  show ?thesis
  proof (cases r)
    case (Inl e)
    then have "t = s" using Pair
      by (simp add: cancel_deferred_slash_def ensure_def okE_def failE_def getE_def modE_def thenE_def bindE_def split: if_splits)
    then show ?thesis using ok Pair by simp
  next
    case (Inr x)
    then have "unapplied_slashes s era \<noteq> [] \<and> (\<exists>us. t = s\<lparr>unapplied_slashes := (unapplied_slashes s)(era := us)\<rparr>)"
      using Pair by (auto simp: cancel_deferred_slash_def)
    then show ?thesis using ok Pair by (auto simp: window_ok_def pending_ok_def split: option.splits)
  qed
qed

lemma exec_window:
  assumes ok: "window_ok cfg n s" and n: "n \<le> u32_max"
  shows "window_ok cfg (Suc n) (exec_staking cfg a s)"
proof -
  have calls: "window_ok cfg (Suc n) (snd (m s))" if "preserves (\<lambda>s'. time_of s' = time_of s) m" for m :: "('a staking_state, unit) eff"
    using that window_mono[OF window_view[OF view_of_time ok]] by (simp add: preserves_def)
  have view: "window_ok cfg (Suc n) t" if "slash_view t = slash_view s" for t
    using window_mono[OF window_view[OF that ok]] by simp
  show ?thesis
  proof (cases a)
    case (Call_Force org f)
    then show ?thesis by (cases f) (simp_all, (rule calls, rule calls_time keeps)+)
  next
    case (Call_Cancel_Slash org e ks)
    then show ?thesis using window_mono[OF cancel_window[OF ok]] by simp
  next
    case (Start_Session i)
    then show ?thesis using start_session_window[OF ok n] by simp
  next
    case (Offence ods fs i)
    then show ?thesis using window_mono[OF on_offence_window[OF ok]] by simp
  next
    case Block_Ends
    have "window_ok cfg n (s\<lparr>active_era := Some (x\<lparr>ae_start := st\<rparr>)\<rparr>)" if "active_era s = Some x" for x st
      using ok that by (simp add: window_ok_def)
    then have "window_ok cfg n (staking_on_finalize cfg s)" using ok by (simp add: staking_on_finalize_def split: option.split)
    then show ?thesis using window_mono Block_Ends by fastforce
  qed (simp_all add: calls calls_time view view_session view_history_depth view_of_time[OF reward_time])
qed

lemma run_window:
  assumes "window_ok cfg n s" "n + length as \<le> Suc u32_max"
  shows "window_ok cfg (n + length as) (fold (exec_staking cfg) as s)"
  using assms
proof (induction as arbitrary: n s)
  case (Cons a as)
  then show ?case using Cons.IH[OF exec_window[OF Cons.prems(1)]] by simp
qed simp

text \<open>
  C36. Deferred slashes do not stay: after every run, with any offences, cancellations and sessions
  in it, a slash that is still pending is of an era that lies at most the defer duration back (and
  not ahead); without a deferral nothing is pending for a past era.
\<close>

theorem deferred_slashes_are_applied:
  assumes "length as \<le> u32_max" "unapplied_slashes (fold (exec_staking cfg) as (no_staking w)) e \<noteq> []"
  shows "\<exists>a. active_era (fold (exec_staking cfg) as (no_staking w)) = Some a \<and> e \<le> ae_index a \<and> ae_index a \<le> e + sk_slash_defer_duration cfg"
proof -
  have "window_ok cfg 0 (no_staking w)" by (simp add: window_ok_def no_staking_def)
  then have "window_ok cfg (length as) (fold (exec_staking cfg) as (no_staking w))" using run_window[of cfg 0 _ as] assms(1) by simp
  then show ?thesis using assms(2) by (auto simp: window_ok_def pending_ok_def split: option.splits)
qed

text \<open>An offence in the first era, before it ends: with a deferral of two eras it is pending.\<close>

lemma offence_pends:
  assumes "active_era s = Some a" "unwrap_or (eras_start_session_index s (ae_index a)) 0 \<le> session" "sk_slash_defer_duration cfg \<noteq> 0"
    and "od_offender od \<notin> set (invulnerables s)" "validator_slash_in_era s (ae_index a) (od_offender od) = None" "0 < p"
    and "sk_perbill_mul cfg p (ex_total (od_exposure od)) \<noteq> 0"
  shows "unapplied_slashes (on_offence cfg [od] [p] session s) (ae_index a) \<noteq> []"
proof -
  define s1 where "s1 = (if earliest_unapplied_slash s = None then s\<lparr>earliest_unapplied_slash := Some (ae_index a)\<rparr> else s)"
  have s1: "invulnerables s1 = invulnerables s" "validator_slash_in_era s1 = validator_slash_in_era s" by (simp_all add: s1_def)
  have "\<exists>u t. compute_slash cfg q s1 = (Some u, t)"
    if "spm_stash q = od_offender od" "spm_slash q = p" "spm_exposure q = od_exposure od" "spm_slash_era q = ae_index a" for q
    using assms(5-7) that s1 by (simp add: compute_slash_def Let_def case_prod_beta)
  then obtain u t where c: "compute_slash cfg \<lparr>spm_stash = od_offender od, spm_slash = p, spm_exposure = od_exposure od, spm_slash_era = ae_index a,
      spm_window_start = sat_sub (ae_index a) (sk_bonding_duration cfg), spm_now = ae_index a, spm_reward_proportion = slash_reward_fraction s\<rparr> s1 = (Some u, t)"
    by (metis slash_params.select_convs(1-4))
  have "on_offence cfg [od] [p] session s = handle_offender cfg (ae_index a) (ae_index a) (slash_reward_fraction s) (invulnerables s1) (od, p) s1"
    using assms(1,2) by (simp add: on_offence_def slash_era_of_def s1_def[symmetric])
  then show ?thesis
    using assms(3,4) s1 c by (simp add: handle_offender_def Let_def del: sat_sub_nat)
qed

lemma deferred_slashes_are_applied_witness:
  "\<exists>a. active_era (fold (exec_staking demo_staking) [New_Session 0 True, Start_Session 0,
       Offence [\<lparr>od_offender = 1, od_exposure = \<lparr>ex_total = 100, ex_own = 100, ex_others = []\<rparr>, od_reporters = []\<rparr>] [500000000] 0]
       (no_staking Map.empty)) = Some a \<and> 0 \<le> ae_index a \<and> ae_index a \<le> 0 + sk_slash_defer_duration demo_staking"
proof -
  let ?od = "\<lparr>od_offender = 1, od_exposure = \<lparr>ex_total = 100, ex_own = 100, ex_others = []\<rparr>, od_reporters = []\<rparr>"
  define s where "s = start_session demo_staking 0 (snd (historical_new_session demo_staking 0 True (no_staking Map.empty)))"
  have "s = (no_staking Map.empty)\<lparr>current_planned_session := 0, current_era := Some 0, eras_start_session_index := [0 \<mapsto> 0],
      stk_events := [StakingElectionFailed], active_era := Some \<lparr>ae_index = 0, ae_start = None\<rparr>, bonded_eras := [(0, 0)]\<rparr>"
    unfolding s_def by (simp add: historical_new_session_def new_session_def plan_session_def try_trigger_new_era_def collect_exposures_def
        demo_staking_def no_staking_def stk_event_def start_session_def start_era_def prune_bonded_eras_def apply_unapplied_slashes_def)
  then have s: "active_era s = Some \<lparr>ae_index = 0, ae_start = None\<rparr>" "eras_start_session_index s 0 = Some 0" "invulnerables s = []"
    "validator_slash_in_era s 0 1 = None" by (simp_all add: no_staking_def)
  have "unapplied_slashes (on_offence demo_staking [?od] [500000000] 0 s) 0 \<noteq> []"
    using offence_pends[OF s(1), of 0 demo_staking ?od 500000000] s by (simp add: demo_staking_def)
  then show ?thesis
    using deferred_slashes_are_applied[of "[New_Session 0 True, Start_Session 0, Offence [?od] [500000000] 0]" demo_staking "Map.empty" 0]
    by (simp add: s_def u32_max_def)
qed

text \<open>
  C38. The eras in which stakes can still be slashed are exactly those of the bonding duration: after
  every run they are the consecutive eras from the active one back by the bonding duration, and
  there are none before the first era.
\<close>

theorem bonded_eras_are_the_bonding_duration:
  assumes "length as \<le> u32_max"
  shows "map fst (bonded_eras (fold (exec_staking cfg) as (no_staking w))) =
    (case active_era (fold (exec_staking cfg) as (no_staking w)) of
       None \<Rightarrow> [] | Some a \<Rightarrow> [ae_index a - sk_bonding_duration cfg..<Suc (ae_index a)])"
proof -
  have "window_ok cfg 0 (no_staking w)" by (simp add: window_ok_def no_staking_def)
  then have "window_ok cfg (length as) (fold (exec_staking cfg) as (no_staking w))" using run_window[of cfg 0 _ as] assms by simp
  then show ?thesis by (auto simp: window_ok_def split: option.splits)
qed

lemma bonded_eras_are_the_bonding_duration_witness:
  "map fst (bonded_eras (fold (exec_staking demo_staking) [New_Session 0 True, Start_Session 0, Block_Ends] (no_staking Map.empty))) =
    (case active_era (fold (exec_staking demo_staking) [New_Session 0 True, Start_Session 0, Block_Ends] (no_staking Map.empty)) of
       None \<Rightarrow> [] | Some a \<Rightarrow> [ae_index a - sk_bonding_duration demo_staking..<Suc (ae_index a)])"
  by (rule bonded_eras_are_the_bonding_duration) (simp add: u32_max_def)

section \<open>Eras go on\<close>

definition era_view :: "'w staking_state \<Rightarrow> active_era_info option \<times> era_index option \<times> (era_index \<Rightarrow> session_index option) \<times> forcing \<times> nat" where
  "era_view s = (active_era s, current_era s, eras_start_session_index s, force_era s, history_depth s)"

lemma era_view_basic:
  "era_view (stk_event ev s) = era_view s" "era_view (on_world f s) = era_view s" "era_view (update_ledger cfg c l s) = era_view s"
  "era_view (clear_era_metadata e s) = era_view s" "era_view (s\<lparr>stk_world := w\<rparr>) = era_view s" "era_view (s\<lparr>bonded_eras := b\<rparr>) = era_view s"
  "era_view (s\<lparr>unapplied_slashes := u\<rparr>) = era_view s" "era_view (s\<lparr>earliest_unapplied_slash := x\<rparr>) = era_view s"
  "era_view (s\<lparr>current_planned_session := ps\<rparr>) = era_view s" "era_view (store_staker cfg e y s) = era_view s"
  "era_view (s\<lparr>eras_total_stake := ts\<rparr>) = era_view s" "era_view (s\<lparr>eras_validator_prefs := vp\<rparr>) = era_view s"
  by (simp_all add: era_view_def stk_event_def on_world_def update_ledger_def clear_era_metadata_def store_staker_def case_prod_beta)

lemma era_view_fold: "(\<And>x s. era_view (f x s) = era_view s) \<Longrightarrow> era_view (fold f xs s) = era_view s"
  by (induction xs arbitrary: s) simp_all

lemma era_view_do_slash: "era_view (snd (snd (do_slash cfg a v y))) = era_view (snd (snd y))"
  by (simp add: do_slash_def Let_def case_prod_beta era_view_basic split: option.split)

lemma era_view_apply: "era_view (apply_slash cfg u s) = era_view s"
proof -
  have "era_view (snd (snd (fold (\<lambda>(a, v). do_slash cfg a v) xs y))) = era_view (snd (snd y))" for xs y
    by (induction xs arbitrary: y) (auto simp: era_view_do_slash)
  then show ?thesis by (simp add: apply_slash_def pay_reporters_def Let_def case_prod_beta era_view_basic era_view_do_slash)
qed

lemma era_view_start_era:
  "era_view (start_era cfg i s) =
     (Some \<lparr>ae_index = (case active_era s of None \<Rightarrow> 0 | Some a \<Rightarrow> wrap_add u32_max (ae_index a) 1), ae_start = None\<rparr>,
      current_era s, eras_start_session_index s, force_era s, history_depth s)"
proof -
  have "era_view (prune_bonded_eras cfg e t) = era_view t" for e t
    by (simp add: prune_bonded_eras_def Let_def era_view_basic era_view_fold split: list.split)
  moreover have "era_view (apply_unapplied_slashes cfg e t) = era_view t" for e t
    by (simp add: apply_unapplied_slashes_def Let_def era_view_basic era_view_fold era_view_apply split: option.split)
  ultimately show ?thesis by (simp add: start_era_def Let_def) (simp add: era_view_def)
qed

lemma era_view_store: "era_view (snd (store_stakers_info cfg xs e s)) = era_view s"
  unfolding store_stakers_info_def Let_def snd_conv by (simp add: era_view_fold era_view_basic)

text \<open>
  That elections succeed is asked of the provider of elections: it finds at least the minimum of
  validators, and one.
\<close>

definition elections_succeed :: "'w staking_config \<Rightarrow> bool" where
  "elections_succeed cfg \<longleftrightarrow> (\<forall>g s. \<exists>supports. fst (sk_elect cfg g s) = Some supports \<and> max (minimum_validator_count s) 1 \<le> length supports)"

text \<open>When the next era is due.\<close>

definition era_due :: "'w staking_config \<Rightarrow> session_index \<Rightarrow> era_index \<Rightarrow> 'w staking_state \<Rightarrow> bool" where
  "era_due cfg i c s \<longleftrightarrow> force_era s \<noteq> NotForcing \<or> sk_sessions_per_era cfg \<le> i - unwrap_or (eras_start_session_index s c) 0"

lemma trigger_fields:
  assumes "current_era s = Some c" "c < u32_max" "history_depth s < u32_max"
  shows "active_era (snd (trigger_new_era cfg i xs s)) = active_era s" "current_era (snd (trigger_new_era cfg i xs s)) = Some (Suc c)"
    "eras_start_session_index (snd (trigger_new_era cfg i xs s)) (Suc c) = Some i" "force_era (snd (trigger_new_era cfg i xs s)) = force_era s"
    "history_depth (snd (trigger_new_era cfg i xs s)) = history_depth s"
proof -
  define s1 where "s1 = s\<lparr>current_era := Some (Suc c), eras_start_session_index := (eras_start_session_index s)(Suc c \<mapsto> i)\<rparr>"
  define s2 where "s2 = (case chk_sub (Suc c) (Suc (history_depth s)) of None \<Rightarrow> s1 | Some old \<Rightarrow> clear_era_information old s1)"
  have new: "(case current_era s of None \<Rightarrow> 0 | Some e \<Rightarrow> wrap_add u32_max e 1) = Suc c" using assms(1,2) by simp
  have t: "snd (trigger_new_era cfg i xs s) = snd (store_stakers_info cfg xs (Suc c) s2)"
    unfolding trigger_new_era_def s2_def s1_def new Let_def using assms(3) by simp
  have "s2 = s1 \<or> (\<exists>old < Suc c. s2 = clear_era_information old s1)"
    by (cases "history_depth s \<le> c") (auto simp: s2_def chk_sub_def intro!: disjI2 exI[of _ "c - history_depth s"])
  then have "active_era s2 = active_era s \<and> current_era s2 = Some (Suc c) \<and> eras_start_session_index s2 (Suc c) = Some i \<and>
      force_era s2 = force_era s \<and> history_depth s2 = history_depth s"
    by (auto simp: s1_def clear_era_information_def)
  then show "active_era (snd (trigger_new_era cfg i xs s)) = active_era s" "current_era (snd (trigger_new_era cfg i xs s)) = Some (Suc c)"
    "eras_start_session_index (snd (trigger_new_era cfg i xs s)) (Suc c) = Some i" "force_era (snd (trigger_new_era cfg i xs s)) = force_era s"
    "history_depth (snd (trigger_new_era cfg i xs s)) = history_depth s"
    using era_view_store[of cfg xs "Suc c" s2] unfolding t by (simp_all add: era_view_def)
qed

lemma try_trigger_succeeds:
  assumes "elections_succeed cfg"
  shows "\<exists>vs u xs. era_view u = era_view s \<and> try_trigger_new_era cfg i g s = (Some vs, snd (trigger_new_era cfg i xs u))"
proof -
  obtain sup w where e: "sk_elect cfg g s = (Some sup, w)" "max (minimum_validator_count s) 1 \<le> length sup"
    using assms unfolding elections_succeed_def by (metis prod.collapse)
  then show ?thesis
    by (intro exI[of _ "fst (trigger_new_era cfg i (collect_exposures cfg sup (s\<lparr>stk_world := w\<rparr>)) (stk_event StakingElection (s\<lparr>stk_world := w\<rparr>)))"]
        exI[of _ "stk_event StakingElection (s\<lparr>stk_world := w\<rparr>)"] exI[of _ "collect_exposures cfg sup (s\<lparr>stk_world := w\<rparr>)"])
      (auto simp: try_trigger_new_era_def collect_exposures_def era_view_basic case_prod_beta Let_def)
qed

lemma plan_fields:
  assumes "elections_succeed cfg" "current_era s = Some c" "c < u32_max" "history_depth s < u32_max" "force_era s \<noteq> ForceNone"
    and "t = snd (historical_new_session cfg i g s)"
  shows "\<not> era_due cfg i c s \<Longrightarrow> era_view t = era_view s"
    "era_due cfg i c s \<Longrightarrow> active_era t = active_era s \<and> current_era t = Some (Suc c) \<and> eras_start_session_index t (Suc c) = Some i \<and>
       force_era t \<noteq> ForceNone \<and> history_depth t = history_depth s"
proof -
  define s0 where "s0 = s\<lparr>current_planned_session := i\<rparr>"
  have s0: "era_view s0 = era_view s" "current_era s0 = Some c" "history_depth s0 < u32_max"
    using assms by (simp_all add: s0_def era_view_basic)
  obtain vs u xs where u: "era_view u = era_view s0" "try_trigger_new_era cfg i g s0 = (Some vs, snd (trigger_new_era cfg i xs u))"
    using try_trigger_succeeds[OF assms(1)] by blast
  have len: "unwrap_or (chk_sub i x) 0 = i - x" for x by (simp add: chk_sub_def)
  have t: "t = snd (plan_session cfg i g s0)"
    by (simp add: assms(6) historical_new_session_def new_session_def s0_def case_prod_beta)
  show "era_view t = era_view s" if "\<not> era_due cfg i c s"
    using that assms(5) s0(1,2) len unfolding t by (auto simp: plan_session_def era_due_def Let_def s0_def split: forcing.splits)
  show "active_era t = active_era s \<and> current_era t = Some (Suc c) \<and> eras_start_session_index t (Suc c) = Some i \<and>
       force_era t \<noteq> ForceNone \<and> history_depth t = history_depth s" if "era_due cfg i c s"
  proof -
    let ?u = "snd (trigger_new_era cfg i xs u)"
    have "t = (if force_era ?u = ForceNew then ?u\<lparr>force_era := NotForcing\<rparr> else ?u)"
      using that assms(5) s0(2) len u(2) unfolding t by (auto simp: plan_session_def era_due_def Let_def s0_def split: forcing.splits)
    moreover have "current_era u = Some c" "history_depth u < u32_max" "force_era u = force_era s" "active_era u = active_era s"
        "history_depth u = history_depth s"
      using u(1) s0 assms(4) by (simp_all add: era_view_def)
    ultimately show ?thesis using trigger_fields[of u c cfg i xs] assms(3,5) by auto
  qed
qed

text \<open>
  At the end of session \<open>i\<close> the session pallet starts session \<open>i + 1\<close> and has session \<open>i + 2\<close> planned, in
  this order.
\<close>

definition rotate_session :: "'w staking_config \<Rightarrow> session_index \<Rightarrow> 'w staking_state \<Rightarrow> 'w staking_state" where
  "rotate_session cfg i s = snd (historical_new_session cfg (i + 2) False (start_session cfg (i + 1) s))"

fun rotate_sessions :: "'w staking_config \<Rightarrow> session_index \<Rightarrow> nat \<Rightarrow> 'w staking_state \<Rightarrow> 'w staking_state" where
  "rotate_sessions cfg i 0 s = s"
| "rotate_sessions cfg i (Suc n) s = rotate_sessions cfg (i + 1) n (rotate_session cfg i s)"

text \<open>
  During session \<open>i\<close> the next era is either not planned yet, or it is planned for the next session.
\<close>

definition era_unplanned :: "session_index \<Rightarrow> era_index \<Rightarrow> 'w staking_state \<Rightarrow> bool" where
  "era_unplanned i a s \<longleftrightarrow> map_option ae_index (active_era s) = Some a \<and> current_era s = Some a \<and>
     eras_start_session_index s (Suc a) = None \<and> force_era s \<noteq> ForceNone \<and> history_depth s < u32_max"

definition era_planned :: "session_index \<Rightarrow> era_index \<Rightarrow> 'w staking_state \<Rightarrow> bool" where
  "era_planned i a s \<longleftrightarrow> map_option ae_index (active_era s) = Some a \<and> current_era s = Some (Suc a) \<and>
     eras_start_session_index s (Suc a) = Some (Suc i) \<and> force_era s \<noteq> ForceNone \<and> history_depth s < u32_max"

lemma planned_starts:
  assumes "elections_succeed cfg" "era_planned i a s" "Suc a < u32_max"
  shows "map_option ae_index (active_era (rotate_session cfg i s)) = Some (Suc a)"
proof -
  obtain x where x: "active_era s = Some x" "ae_index x = a" using assms(2) by (auto simp: era_planned_def)
  define t where "t = start_session cfg (i + 1) s"
  have "t = start_era cfg (Suc i) s"
    using assms(2,3) x by (simp add: t_def start_session_def era_planned_def)
  then have "era_view t = (Some \<lparr>ae_index = Suc a, ae_start = None\<rparr>, Some (Suc a), eras_start_session_index s, force_era s, history_depth s)"
    using era_view_start_era[of cfg "Suc i" s] x assms(2,3) by (simp add: era_planned_def)
  then have f: "active_era t = Some \<lparr>ae_index = Suc a, ae_start = None\<rparr>" "current_era t = Some (Suc a)" "force_era t \<noteq> ForceNone" "history_depth t < u32_max"
    using assms(2) by (simp_all add: era_view_def era_planned_def)
  note planned = plan_fields[OF assms(1) f(2) assms(3) f(4,3) refl, of "i + 2" False]
  have "active_era (snd (historical_new_session cfg (i + 2) False t)) = active_era t"
    using planned by (cases "era_due cfg (i + 2) (Suc a) t") (simp_all add: era_view_def)
  then show ?thesis using f(1) by (simp add: rotate_session_def t_def)
qed

lemma unplanned_goes_on:
  assumes "elections_succeed cfg" "era_unplanned i a s" "a < u32_max"
  shows "era_due cfg (i + 2) a s \<Longrightarrow> era_planned (i + 1) a (rotate_session cfg i s)"
    "\<not> era_due cfg (i + 2) a s \<Longrightarrow> era_unplanned (i + 1) a (rotate_session cfg i s) \<and> era_view (rotate_session cfg i s) = era_view s"
proof -
  obtain x where x: "active_era s = Some x" "ae_index x = a" using assms(2) by (auto simp: era_unplanned_def)
  have "start_session cfg (i + 1) s = s"
    using assms(2,3) x by (simp add: start_session_def era_unplanned_def)
  then have idle: "rotate_session cfg i s = snd (historical_new_session cfg (i + 2) False s)" unfolding rotate_session_def by simp
  have f: "current_era s = Some a" "force_era s \<noteq> ForceNone" "history_depth s < u32_max" using assms(2) by (simp_all add: era_unplanned_def)
  note planned = plan_fields[OF assms(1) f(1) assms(3) f(3,2) refl, of "i + 2" False]
  show "era_due cfg (i + 2) a s \<Longrightarrow> era_planned (i + 1) a (rotate_session cfg i s)"
    using planned(2) assms(2) unfolding idle by (simp add: era_planned_def era_unplanned_def)
  show "\<not> era_due cfg (i + 2) a s \<Longrightarrow> era_unplanned (i + 1) a (rotate_session cfg i s) \<and> era_view (rotate_session cfg i s) = era_view s"
    using planned(1) assms(2) unfolding idle by (auto simp: era_unplanned_def era_view_def)
qed

lemma rotations_Suc: "rotate_sessions cfg i (Suc n) s = rotate_session cfg (i + n) (rotate_sessions cfg i n s)"
  by (induction n arbitrary: i s) simp_all

text \<open>After enough sessions the next era is planned.\<close>

lemma planned_in_time:
  assumes "elections_succeed cfg" "a < u32_max" "era_unplanned i a s" "0 < n"
    and "sk_sessions_per_era cfg + unwrap_or (eras_start_session_index s a) 0 \<le> i + n + 1"
  shows "\<exists>j \<le> n. 0 < j \<and> era_planned (i + j) a (rotate_sessions cfg i j s)"
  using assms(3-5)
proof (induction n arbitrary: i s)
  case (Suc n)
  note step = unplanned_goes_on[OF assms(1) Suc.prems(1) assms(2)]
  show ?case
  proof (cases "era_due cfg (i + 2) a s")
    case True
    then show ?thesis using step(1) by (intro exI[of _ 1]) simp
  next
    case False
    let ?t = "rotate_session cfg i s"
    have t: "era_unplanned (i + 1) a ?t" "eras_start_session_index ?t = eras_start_session_index s"
      using step(2)[OF False] by (simp_all add: era_view_def)
    have "0 < n" using False Suc.prems(3) by (auto simp: era_due_def intro!: gr0I)
    then obtain j where "j \<le> n" "0 < j" "era_planned (i + 1 + j) a (rotate_sessions cfg (i + 1) j ?t)"
      using Suc.IH[OF t(1)] Suc.prems(3) t(2) by auto
    then show ?thesis by (intro exI[of _ "Suc j"]) simp
  qed
qed simp

text \<open>
  C37. Eras go on: if elections succeed and eras are not stopped by force, then from any session of
  an active era the next era is active after at most \<open>sessions_per_era + 1\<close> rotations of sessions
  (two, where an era has no length), whether it was already planned or not.
\<close>

theorem eras_go_on:
  assumes "elections_succeed cfg" "Suc a < u32_max" "era_unplanned i a s \<or> era_planned i a s"
    and "unwrap_or (eras_start_session_index s a) 0 \<le> i"
  shows "\<exists>k \<le> max 1 (sk_sessions_per_era cfg) + 1. map_option ae_index (active_era (rotate_sessions cfg i k s)) = Some (Suc a)"
  using assms(3)
proof
  assume "era_planned i a s"
  from planned_starts[OF assms(1) this assms(2)] show ?thesis by (intro exI[of _ 1]) simp
next
  let ?n = "max 1 (sk_sessions_per_era cfg)"
  assume "era_unplanned i a s"
  then obtain j where j: "j \<le> ?n" "era_planned (i + j) a (rotate_sessions cfg i j s)"
    using planned_in_time[OF assms(1) _ _, of a i s ?n] assms(2,4) by force
  have "map_option ae_index (active_era (rotate_sessions cfg i (Suc j) s)) = Some (Suc a)"
    unfolding rotations_Suc by (rule planned_starts[OF assms(1) j(2) assms(2)])
  then show ?thesis using j(1) by (intro exI[of _ "Suc j"]) simp
qed

definition demo_electing :: "(account_id \<Rightarrow> balance option) staking_config" where
  "demo_electing = demo_staking\<lparr>sk_elect := (\<lambda>_ s. (Some (replicate (max (minimum_validator_count s) 1) (7, [(7, 100)])), stk_world s))\<rparr>"

text \<open>Era 0 started in session 0, and nothing is planned in session 0; with two sessions per era.\<close>

lemma eras_go_on_witness:
  "\<exists>k \<le> 3. map_option ae_index (active_era (rotate_sessions demo_electing 0 k
     ((no_staking Map.empty)\<lparr>active_era := Some \<lparr>ae_index = 0, ae_start = None\<rparr>, current_era := Some 0,
        eras_start_session_index := [0 \<mapsto> 0]\<rparr>))) = Some 1"
proof -
  have "elections_succeed demo_electing" by (simp add: elections_succeed_def demo_electing_def)
  moreover have "max 1 (sk_sessions_per_era demo_electing) + 1 = 3" by (simp add: demo_electing_def demo_staking_def)
  ultimately show ?thesis
    using eras_go_on[where cfg = demo_electing and a = 0 and i = 0 and s = "(no_staking Map.empty)\<lparr>active_era := Some \<lparr>ae_index = 0, ae_start = None\<rparr>,
        current_era := Some 0, eras_start_session_index := [0 \<mapsto> 0]\<rparr>"]
    by (simp add: era_unplanned_def no_staking_def u32_max_def)
qed

end
