(* ===== verification/Slashing_Properties.thy ===== *)
theory Slashing_Properties
  imports Slashing Staking_Demo
begin

text \<open>
  The books of slashing: over any sequence of reports a stash is charged, for each of its slashing
  spans, exactly the highest slash reported in that span, not the sum. The spans it ends up with are
  well-formed.
\<close>

section \<open>One report\<close>

text \<open>
  What the code does for a validator and for each nominator, with the target span and the amount
  charged as results: fetch the spans, compare, end the span when it is the current one, drop.
\<close>

record slash_report =
  re_window_start :: era_index
  re_now :: era_index
  re_era :: era_index
  re_slash :: balance

definition slash_in_span ::
  "'w staking_config \<Rightarrow> account_id \<Rightarrow> perbill \<Rightarrow> slash_report \<Rightarrow> 'w staking_state \<Rightarrow> nat option \<times> balance \<times> 'w staking_state" where
  "slash_in_span cfg stash reward_proportion r s =
     (let (i0, s1) = fetch_spans stash (re_window_start r) 0 0 s;
          (target_span, i1, s2) = compare_and_update_span_slash cfg stash reward_proportion (re_era r) (re_slash r) (i0, s1);
          i2 = (if target_span = Some (sp_span_index (in_spans i1)) then inspecting_end_span (re_now r) i1 else i1)
      in (target_span, in_slash_of i2, drop_spans stash (re_window_start r) (i2, s2)))"

definition spans_or_new :: "account_id \<Rightarrow> era_index \<Rightarrow> 'w staking_state \<Rightarrow> slashing_spans" where
  "spans_or_new stash w s = (case spans_of s stash of None \<Rightarrow> new_spans w | Some sp \<Rightarrow> sp)"

definition earliest :: "slashing_spans \<Rightarrow> nat" where
  "earliest sp = sp_span_index sp - length (sp_prior sp)"

lemma fetch_spans_eq:
  "fetch_spans stash w p q s = (\<lparr>in_dirty = False, in_spans = spans_or_new stash w s, in_paid_out = p, in_slash_of = q\<rparr>,
     s\<lparr>spans_of := (spans_of s)(stash \<mapsto> spans_or_new stash w s)\<rparr>)"
  by (auto simp: fetch_spans_def spans_or_new_def Let_def fun_upd_idem split: option.splits)

text \<open>What the comparison charges and records.\<close>

definition slashed_in :: "account_id \<Rightarrow> nat \<Rightarrow> 'w staking_state \<Rightarrow> balance" where
  "slashed_in stash k s = sr_slashed (span_slash s stash k)"

lemma compare_none:
  "era_span era (in_spans i) = None \<Longrightarrow> compare_and_update_span_slash cfg stash p era slash (i, s) = (None, i, s)"
  by (simp add: compare_and_update_span_slash_def)

lemma compare_span_spec:
  assumes "compare_span cfg p era slash r i = (r', i', changed)" "slash \<le> u128_max" "in_slash_of i = 0"
  shows "in_slash_of i' = slash - sr_slashed r \<and> sr_slashed r' = max (sr_slashed r) slash \<and>
    sp_last_start (in_spans i') = sp_last_start (in_spans i) \<and> sp_prior (in_spans i') = sp_prior (in_spans i) \<and>
    sp_span_index (in_spans i') = sp_span_index (in_spans i) \<and> (\<not> changed \<longrightarrow> i' = i \<and> r' = r)"
proof -
  have sum: "wrap_add u128_max 0 (slash - sr_slashed r) = slash - sr_slashed r" using assms(2) by simp
  consider "sr_slashed r < slash" | "sr_slashed r = slash" | "slash < sr_slashed r" by linarith
  then show ?thesis
    using assms(1) sum assms(3) by cases (auto simp: compare_span_def add_slash_def split: if_splits)
qed

lemma compare_some:
  assumes "era_span era (in_spans i) = Some x" "slash \<le> u128_max" "in_slash_of i = 0" "in_dirty i = False"
    and "compare_and_update_span_slash cfg stash p era slash (i, s) = (target, i', s')"
  shows "target = Some (ss_index x)" "in_slash_of i' = slash - slashed_in stash (ss_index x) s"
    "slashed_in stash k s' = (if k = ss_index x then max (slashed_in stash k s) slash else slashed_in stash k s)"
    "spans_of s' = spans_of s" "sp_last_start (in_spans i') = sp_last_start (in_spans i)" "sp_prior (in_spans i') = sp_prior (in_spans i)"
    "sp_span_index (in_spans i') = sp_span_index (in_spans i)"
    "\<not> in_dirty i' \<Longrightarrow> i' = i \<and> s' = s"
proof -
  let ?r = "span_slash s stash (ss_index x)"
  obtain r j changed where c: "compare_span cfg p era slash ?r i = (r, j, changed)" by (metis prod_cases3)
  note cs = compare_span_spec[OF c assms(2,3)]
  note run = assms(5)[unfolded compare_and_update_span_slash_def prod.case assms(1) option.case c]
  have eqs: "target = Some (ss_index x)" "i' = (if changed then j\<lparr>in_dirty := True\<rparr> else j)"
    "s' = (if changed then s\<lparr>span_slash := (span_slash s)(stash := (span_slash s stash)(ss_index x := r))\<rparr> else s)"
    using run by simp_all
  have records: "span_slash s' stash = (if changed then (span_slash s stash)(ss_index x := r) else span_slash s stash)"
    by (simp add: eqs(3))
  have spans: "in_spans i' = in_spans j" "in_slash_of i' = in_slash_of j" by (simp_all add: eqs(2))
  show "target = Some (ss_index x)" by (rule eqs)
  show "spans_of s' = spans_of s" by (simp add: eqs(3))
  show "in_slash_of i' = slash - slashed_in stash (ss_index x) s" "sp_last_start (in_spans i') = sp_last_start (in_spans i)"
    "sp_prior (in_spans i') = sp_prior (in_spans i)" "sp_span_index (in_spans i') = sp_span_index (in_spans i)"
    unfolding spans slashed_in_def by (rule cs[THEN conjunct1] cs[THEN conjunct2, THEN conjunct2, THEN conjunct1]
      cs[THEN conjunct2, THEN conjunct2, THEN conjunct2, THEN conjunct1] cs[THEN conjunct2, THEN conjunct2, THEN conjunct2, THEN conjunct2, THEN conjunct1])+
  have "sr_slashed r = max (sr_slashed ?r) slash" "\<not> changed \<Longrightarrow> r = ?r" using cs by blast+
  then show "slashed_in stash k s' = (if k = ss_index x then max (slashed_in stash k s) slash else slashed_in stash k s)"
    unfolding slashed_in_def records by (cases changed) simp_all
  show "\<not> in_dirty i' \<Longrightarrow> i' = i \<and> s' = s"
  proof -
    assume "\<not> in_dirty i'"
    then have "\<not> changed" unfolding eqs(2) by (cases changed) simp_all
    then show "i' = i \<and> s' = s" unfolding eqs(2,3) using cs by simp
  qed
qed

text \<open>Clearing a range of records, and the destructor.\<close>

lemma clear_records: "fold (\<lambda>k f. f(k := no_record)) ks f = (\<lambda>k. if k \<in> set ks then no_record else f k)"
  by (induction ks arbitrary: f) auto

lemma drop_spans_clean: "\<not> in_dirty i \<Longrightarrow> drop_spans stash w (i, s) = s"
  by (simp add: drop_spans_def)

lemma drop_spans_dirty:
  assumes "in_dirty i" "spans_ok (in_spans i)" "w \<le> u32_max"
  obtains sp where "spans_ok sp" "sp_span_index sp = sp_span_index (in_spans i)" "earliest (in_spans i) \<le> earliest sp"
    "spans_of (drop_spans stash w (i, s)) = (spans_of s)(stash \<mapsto> sp)"
    "\<And>k. earliest sp \<le> k \<Longrightarrow> slashed_in stash k (drop_spans stash w (i, s)) = slashed_in stash k s"
proof -
  obtain r sp where prune: "prune_spans w (in_spans i) = (r, sp)" by fastforce
  note eq = prune_spans_eq[OF assms(2) prune]
  have ok: "spans_ok sp" by (rule spans_ok_prune[OF assms(2,3) prune])
  have len: "length (sp_prior sp) \<le> length (sp_prior (in_spans i))" by (metis eq(1) length_take min.cobounded1)
  have fields: "spans_of (drop_spans stash w (i, s)) = (spans_of s)(stash \<mapsto> sp)"
    by (auto simp: drop_spans_def assms(1) prune Let_def split: option.splits)
  have records: "slashed_in stash k (drop_spans stash w (i, s)) = slashed_in stash k s" if "earliest sp \<le> k" for k
    using that eq(3) by (auto simp: drop_spans_def assms(1) prune Let_def eq(5) clear_records slashed_in_def earliest_def)
  show ?thesis
    by (rule that[OF ok eq(3) _ fields records]) (use len eq(3) in \<open>simp_all add: earliest_def\<close>)
qed

lemma inspecting_end:
  assumes "now < u32_max" "spans_ok (in_spans i)"
  shows "spans_ok (in_spans (inspecting_end_span now i))" "earliest (in_spans (inspecting_end_span now i)) = earliest (in_spans i)"
    "sp_span_index (in_spans i) \<le> sp_span_index (in_spans (inspecting_end_span now i))"
    "in_slash_of (inspecting_end_span now i) = in_slash_of i" "\<not> in_dirty (inspecting_end_span now i) \<Longrightarrow> \<not> in_dirty i"
  using assms spans_ok_end[OF assms] by (auto simp: inspecting_end_span_def end_span_eq earliest_def split: if_splits)

lemma era_span_index:
  assumes "spans_ok sp" "era_span era sp = Some x"
  shows "earliest sp \<le> ss_index x" "ss_index x \<le> sp_span_index sp"
proof -
  have "x \<in> set (iter_spans sp)" using assms(2) by (auto simp: era_span_def find_Some_iff)
  moreover have "prior_spans (sp_last_start sp) (sp_span_index sp) (sp_prior sp) =
      map (\<lambda>k. \<lparr>ss_index = sp_span_index sp - Suc k, ss_start = sp_last_start sp - sum_list (take (Suc k) (sp_prior sp)),
        ss_length = Some (sp_prior sp ! k)\<rparr>) [0..<length (sp_prior sp)]"
    using assms(1) by (intro prior_spans_exact) (auto simp: spans_ok_def)
  ultimately show "earliest sp \<le> ss_index x" "ss_index x \<le> sp_span_index sp"
    by (auto simp: iter_spans_def earliest_def)
qed

section \<open>The books\<close>

text \<open>\<open>h\<close> is the highest slash reported so far in each span.\<close>

definition span_books :: "account_id \<Rightarrow> (nat \<Rightarrow> balance) \<Rightarrow> 'w staking_state \<Rightarrow> bool" where
  "span_books stash h s \<longleftrightarrow> (case spans_of s stash of
     None \<Rightarrow> \<forall>k. h k = 0 \<and> slashed_in stash k s = 0
   | Some sp \<Rightarrow> spans_ok sp \<and> (\<forall>k \<ge> earliest sp. slashed_in stash k s = h k) \<and> (\<forall>k > sp_span_index sp. h k = 0))"

definition raise_to :: "nat option \<Rightarrow> balance \<Rightarrow> (nat \<Rightarrow> balance) \<Rightarrow> nat \<Rightarrow> balance" where
  "raise_to target slash h = (case target of None \<Rightarrow> h | Some k \<Rightarrow> h(k := max (h k) slash))"

definition report_ok :: "slash_report \<Rightarrow> bool" where
  "report_ok r \<longleftrightarrow> re_window_start r \<le> u32_max \<and> re_now r < u32_max \<and> re_slash r \<le> u128_max"

lemma span_booksI:
  assumes "spans_of t stash = Some sp" "spans_ok sp" "\<And>k. earliest sp \<le> k \<Longrightarrow> slashed_in stash k t = h k" "\<And>k. sp_span_index sp < k \<Longrightarrow> h k = 0"
  shows "span_books stash h t"
  using assms by (simp add: span_books_def)

lemma span_booksD:
  assumes "span_books stash h s" "w \<le> u32_max"
  shows "spans_ok (spans_or_new stash w s)" "earliest (spans_or_new stash w s) \<le> k \<Longrightarrow> slashed_in stash k s = h k"
    "sp_span_index (spans_or_new stash w s) < k \<Longrightarrow> h k = 0"
  using assms spans_ok_new[OF assms(2)] by (auto simp: span_books_def spans_or_new_def split: option.splits)

lemma slash_in_span_books:
  assumes "span_books stash h s" "report_ok r" "slash_in_span cfg stash p r s = (target, charged, t)"
  shows "span_books stash (raise_to target (re_slash r) h) t"
    "charged = (case target of None \<Rightarrow> 0 | Some k \<Rightarrow> re_slash r - h k)"
proof -
  let ?w = "re_window_start r"
  define sp where "sp = spans_or_new stash ?w s"
  define i0 where "i0 = \<lparr>in_dirty = False, in_spans = sp, in_paid_out = 0, in_slash_of = 0\<rparr>"
  define s1 where "s1 = s\<lparr>spans_of := (spans_of s)(stash \<mapsto> sp)\<rparr>"
  have r: "?w \<le> u32_max" "re_now r < u32_max" "re_slash r \<le> u128_max" using assms(2) by (auto simp: report_ok_def)
  have ok: "spans_ok sp" and old: "\<And>k. earliest sp \<le> k \<Longrightarrow> slashed_in stash k s1 = h k" "\<And>k. sp_span_index sp < k \<Longrightarrow> h k = 0"
    using span_booksD[OF assms(1) r(1)] by (auto simp: sp_def s1_def slashed_in_def)
  have s1: "spans_of s1 stash = Some sp" by (simp add: s1_def)
  have fetch: "fetch_spans stash ?w 0 0 s = (i0, s1)" by (simp add: fetch_spans_eq i0_def s1_def sp_def)
  note run = assms(3)[unfolded slash_in_span_def fetch Let_def prod.case]
  show "span_books stash (raise_to target (re_slash r) h) t" "charged = (case target of None \<Rightarrow> 0 | Some k \<Rightarrow> re_slash r - h k)"
  proof (atomize (full), cases "era_span (re_era r) (in_spans i0)")
    case None
    then have "target = None" "charged = 0" "t = s1"
      using run by (auto simp: compare_none i0_def drop_spans_clean)
    then show "span_books stash (raise_to target (re_slash r) h) t \<and> charged = (case target of None \<Rightarrow> 0 | Some k \<Rightarrow> re_slash r - h k)"
      using s1 ok old by (simp add: raise_to_def span_books_def)
  next
    case (Some x)
    obtain tgt i1 s2 where c: "compare_and_update_span_slash cfg stash p (re_era r) (re_slash r) (i0, s1) = (tgt, i1, s2)"
      by (metis prod_cases3)
    define i2 where "i2 = (if tgt = Some (sp_span_index (in_spans i1)) then inspecting_end_span (re_now r) i1 else i1)"
    have i0: "in_slash_of i0 = 0" "in_dirty i0 = False" "in_spans i0 = sp" by (simp_all add: i0_def)
    note cs = compare_some[OF Some r(3) i0(1,2) c]
    have res: "target = Some (ss_index x)" "charged = in_slash_of i2" "t = drop_spans stash ?w (i2, s2)"
      using run[unfolded c prod.case, folded i2_def] cs(1) by auto
    have i1: "spans_ok (in_spans i1)" "earliest (in_spans i1) = earliest sp" "sp_span_index (in_spans i1) = sp_span_index sp"
      using ok cs(5-7) by (auto simp: spans_ok_def earliest_def i0)
    have i2: "spans_ok (in_spans i2)" "earliest (in_spans i2) = earliest sp" "sp_span_index sp \<le> sp_span_index (in_spans i2)"
      "in_slash_of i2 = in_slash_of i1" "\<not> in_dirty i2 \<Longrightarrow> \<not> in_dirty i1"
      using inspecting_end[OF r(2) i1(1)] i1 by (auto simp: i2_def split: if_splits)
    have x: "earliest sp \<le> ss_index x" "ss_index x \<le> sp_span_index sp" using era_span_index[OF ok] Some i0(3) by auto
    define h' where "h' = raise_to target (re_slash r) h"
    have h': "earliest sp \<le> k \<Longrightarrow> slashed_in stash k s2 = h' k" "sp_span_index sp < k \<Longrightarrow> h' k = 0" for k
      using cs(3)[of k] old x by (auto simp: h'_def raise_to_def res(1))
    have "span_books stash h' t"
    proof (cases "in_dirty i2")
      case True
      obtain sp' where sp': "spans_ok sp'" "sp_span_index sp' = sp_span_index (in_spans i2)" "earliest (in_spans i2) \<le> earliest sp'"
        "spans_of (drop_spans stash ?w (i2, s2)) = (spans_of s2)(stash \<mapsto> sp')"
        "\<And>k. earliest sp' \<le> k \<Longrightarrow> slashed_in stash k (drop_spans stash ?w (i2, s2)) = slashed_in stash k s2"
        by (rule drop_spans_dirty[OF True i2(1) r(1), where stash = stash and s = s2], rule that)
      show ?thesis
        by (rule span_booksI[of _ _ sp']) (use sp' i2(2,3) h' res(3) in auto)
    next
      case False
      then have "t = s2" "s2 = s1" using cs(8) i2(5) res(3) by (simp_all add: drop_spans_clean)
      then show ?thesis by (intro span_booksI[of _ _ sp]) (use s1 ok h' in auto)
    qed
    then show "span_books stash (raise_to target (re_slash r) h) t \<and> charged = (case target of None \<Rightarrow> 0 | Some k \<Rightarrow> re_slash r - h k)"
      using cs(2) old(1)[OF x(1)] i2(4) by (simp add: h'_def res(1,2))
  qed
qed

text \<open>A run of reports, with the target span, the slash and the charge of each.\<close>

fun slash_run ::
  "'w staking_config \<Rightarrow> account_id \<Rightarrow> perbill \<Rightarrow> slash_report list \<Rightarrow> 'w staking_state \<Rightarrow>
   (nat option \<times> balance \<times> balance) list \<times> 'w staking_state" where
  "slash_run cfg stash p [] s = ([], s)"
| "slash_run cfg stash p (r # rs) s =
     (case slash_in_span cfg stash p r s of (target, charged, t) \<Rightarrow>
      case slash_run cfg stash p rs t of (log, u) \<Rightarrow> ((target, re_slash r, charged) # log, u))"

definition charged_in :: "nat \<Rightarrow> (nat option \<times> balance \<times> balance) list \<Rightarrow> balance" where
  "charged_in k log = sum_list (map (\<lambda>(t, _, a). if t = Some k then a else 0) log)"

definition highest_in :: "nat \<Rightarrow> (nat option \<times> balance \<times> balance) list \<Rightarrow> balance" where
  "highest_in k log = foldr max (map (\<lambda>(t, x, _). if t = Some k then x else 0) log) 0"

lemma slash_run_books:
  assumes "span_books stash h s" "list_all report_ok rs"
  shows "h k + charged_in k (fst (slash_run cfg stash p rs s)) = max (h k) (highest_in k (fst (slash_run cfg stash p rs s)))"
  using assms
proof (induction rs arbitrary: h s)
  case (Cons r rs)
  obtain target charged t where step: "slash_in_span cfg stash p r s = (target, charged, t)" by (metis prod_cases3)
  note books = slash_in_span_books[OF Cons.prems(1) _ step]
  let ?log = "fst (slash_run cfg stash p rs t)" and ?h = "raise_to target (re_slash r) h"
  have IH: "?h k + charged_in k ?log = max (?h k) (highest_in k ?log)"
    using Cons.IH books(1) Cons.prems(2) by simp
  have log: "fst (slash_run cfg stash p (r # rs) s) = (target, re_slash r, charged) # ?log"
    by (simp add: step split: prod.split)
  show ?case
    using IH books(2) Cons.prems(2) unfolding log
    by (auto simp: charged_in_def highest_in_def raise_to_def max_def split: option.splits if_splits)
qed (simp add: charged_in_def highest_in_def)

text \<open>
  C35. A stash is charged at most once per slashing span: over any sequence of reports, in any order
  of eras and with any windows, what it is charged for a span adds up to exactly the highest slash
  reported in that span, although spans end, are pruned and are created in between.
\<close>

theorem slashed_once_per_span:
  assumes "spans_of s stash = None" "\<And>k. slashed_in stash k s = 0" "list_all report_ok rs"
    and "slash_run cfg stash p rs s = (log, t)"
  shows "charged_in k log = highest_in k log"
proof -
  have "span_books stash (\<lambda>_. 0) s" using assms(1,2) by (simp add: span_books_def)
  from slash_run_books[OF this assms(3), of k cfg p] show ?thesis using assms(4) by simp
qed

text \<open>
  Reports of 40 and 100 for era 3 charge 40 and 60; the span then ends, and a report for era 5 is
  charged in the next one.
\<close>

lemma slashed_once_per_span_witness:
  "charged_in 0 (fst (slash_run demo_staking 7 500000000
     [\<lparr>re_window_start = 1, re_now = 3, re_era = 3, re_slash = 40\<rparr>, \<lparr>re_window_start = 1, re_now = 3, re_era = 3, re_slash = 100\<rparr>,
      \<lparr>re_window_start = 1, re_now = 5, re_era = 5, re_slash = 30\<rparr>] (no_staking Map.empty))) =
   highest_in 0 (fst (slash_run demo_staking 7 500000000
     [\<lparr>re_window_start = 1, re_now = 3, re_era = 3, re_slash = 40\<rparr>, \<lparr>re_window_start = 1, re_now = 3, re_era = 3, re_slash = 100\<rparr>,
      \<lparr>re_window_start = 1, re_now = 5, re_era = 5, re_slash = 30\<rparr>] (no_staking Map.empty)))"
  by (rule slashed_once_per_span[where s = "no_staking Map.empty" and stash = 7, OF _ _ _ prod.collapse[symmetric]])
    (simp_all add: no_staking_def slashed_in_def report_ok_def u128_max_def u32_max_def)

text \<open>That is what the code does for a nominator.\<close>

lemma slash_nominator_in_span:
  fixes n :: individual_exposure
  assumes "e = wrap_add u128_max (unwrap_or (nominator_slash_in_era s (spm_slash_era q) (ie_who n)) 0)
      (sat_sub (sk_perbill_mul cfg (spm_slash q) (ie_value n)) (sk_perbill_mul cfg prior (ie_value n)))"
    and "slash_nominator cfg q prior n (0, xs, s) = (payout, ys, t)"
  shows "\<exists>target charged. ys = xs @ [(ie_who n, charged)] \<and>
    slash_in_span cfg (ie_who n) (spm_reward_proportion q)
      \<lparr>re_window_start = spm_window_start q, re_now = spm_now q, re_era = spm_slash_era q, re_slash = e\<rparr>
      (s\<lparr>nominator_slash_in_era := (nominator_slash_in_era s)(spm_slash_era q :=
           (nominator_slash_in_era s (spm_slash_era q))(ie_who n \<mapsto> e))\<rparr>) = (target, charged, t)"
  using assms(2) unfolding assms(1) slash_nominator_def slash_in_span_def Let_def
  by (auto simp: case_prod_beta)

end
