(* ===== verification/Democracy.thy ===== *)
theory Democracy
  imports Currency_Interface
begin

text \<open>
  The democracy pallet, \<open>lib-serml/democracy/src/lib.rs\<close>: the queue of external proposals with its
  vetoes, referenda from their launch to their end, votes and delegations, and the preimages of
  proposals. The modules of votes, convictions, thresholds and tallies are not part of the
  repository: their operations are parameters (\<open>vote_ops\<close>), on a tally \<open>'t\<close>, a vote \<open>'v\<close>, an amount of
  delegations \<open>'d\<close>, the prior locks \<open>'p\<close> and a conviction \<open>'c\<close>. So are the currencies, the scheduler,
  the decoding and the dispatch of a proposal. \<open>propose\<close>, \<open>second\<close> and \<open>backing_for\<close> do not type check
  (they multiply with optional prices, and take a deposit of three components for one of two); the
  ranking of public proposals that \<open>backing_for\<close> would give is a parameter. Block numbers are \<open>u32\<close>.
\<close>

section \<open>Types\<close>

type_synonym proposal_hash = "u8 list"
type_synonym prop_index = nat
type_synonym referendum_index = nat

datatype preimage_status =
    Missing block_number
  | Available (pre_data: "u8 list") (pre_provider: account_id) (pre_currency: currency_id) (pre_deposit: balance)
      (pre_since: block_number) (pre_expiry: "block_number option")

definition to_missing_expiry :: "preimage_status \<Rightarrow> block_number option" where
  "to_missing_expiry status = (case status of Missing expiry \<Rightarrow> Some expiry | _ \<Rightarrow> None)"

datatype vote_threshold = SuperMajorityApprove | SuperMajorityAgainst | SimpleMajority

record 't referendum_status =
  rs_end :: block_number
  rs_proposal_hash :: proposal_hash
  rs_threshold :: vote_threshold
  rs_delay :: block_number
  rs_tally :: 't

datatype 't referendum_info = Ongoing "'t referendum_status" | Finished block_number bool

datatype ('v, 'd, 'p, 'c) voting =
    Direct "(referendum_index \<times> 'v) list" 'd 'p
  | Delegating balance account_id 'c 'd 'p

datatype unvote_scope = Any_Scope | OnlyExpired

datatype democracy_event =
    Proposed prop_index currency_id balance
  | Tabled prop_index balance "account_id list"
  | ExternalTabled
  | Started referendum_index vote_threshold
  | Passed referendum_index
  | NotPassed referendum_index
  | Cancelled referendum_index
  | Executed referendum_index bool
  | Delegated account_id account_id
  | Undelegated account_id
  | Vetoed account_id proposal_hash block_number
  | PreimageNoted proposal_hash account_id currency_id balance
  | PreimageUsed proposal_hash account_id currency_id balance
  | PreimageInvalid proposal_hash referendum_index
  | PreimageMissing proposal_hash referendum_index
  | PreimageReaped proposal_hash account_id currency_id balance account_id
  | Unlocked account_id
  | Blacklisted proposal_hash

section \<open>Storage and configuration\<close>

record ('t, 'v, 'd, 'p, 'c, 'w) dm_state =
  public_prop_count :: prop_index
  public_props :: "(prop_index \<times> proposal_hash \<times> account_id) list"
  deposit_of :: "prop_index \<Rightarrow> (account_id list \<times> currency_id \<times> balance) option"
  preimages :: "proposal_hash \<Rightarrow> preimage_status option"
  referendum_count :: referendum_index
  lowest_unbaked :: referendum_index
  referendum_info_of :: "referendum_index \<Rightarrow> 't referendum_info option"
  voting_of :: "account_id \<Rightarrow> ('v, 'd, 'p, 'c) voting"
  last_tabled_was_external :: bool
  next_external :: "(proposal_hash \<times> vote_threshold) option"
  blacklisted :: "proposal_hash \<Rightarrow> (block_number \<times> account_id list) option"
  cancellations :: "proposal_hash \<Rightarrow> bool"
  dm_now :: block_number
  dm_world :: 'w
  dm_events :: "democracy_event list"

type_synonym ('t, 'v, 'd, 'p, 'c, 'w, 'a) dm_eff = "(dispatch_error, ('t, 'v, 'd, 'p, 'c, 'w) dm_state, 'a) effect"

text \<open>The operations of the modules that are missing.\<close>

record ('t, 'v, 'd, 'p, 'c) vote_ops =
  vo_tally_default :: 't
  vo_tally_add :: "'t \<Rightarrow> 'v \<Rightarrow> 't option"
  vo_tally_remove :: "'t \<Rightarrow> 'v \<Rightarrow> 't option"
  vo_tally_increase :: "'t \<Rightarrow> bool \<Rightarrow> 'd \<Rightarrow> 't"
  vo_tally_reduce :: "'t \<Rightarrow> bool \<Rightarrow> 'd \<Rightarrow> 't"
  vo_approved :: "vote_threshold \<Rightarrow> 't \<Rightarrow> balance \<Rightarrow> bool"
  vo_balance :: "'v \<Rightarrow> balance"
  vo_as_standard :: "'v \<Rightarrow> bool option"
  vo_locked_if :: "'v \<Rightarrow> bool \<Rightarrow> (nat \<times> balance) option"
  vo_no_delegations :: 'd
  vo_delegations_add :: "'d \<Rightarrow> 'd \<Rightarrow> 'd"
  vo_delegations_sub :: "'d \<Rightarrow> 'd \<Rightarrow> 'd"
  vo_no_prior :: 'p
  vo_accumulate :: "'p \<Rightarrow> block_number \<Rightarrow> balance \<Rightarrow> 'p"
  vo_conviction_votes :: "'c \<Rightarrow> balance \<Rightarrow> 'd"
  vo_lock_periods :: "'c \<Rightarrow> nat"
  vo_voting_default :: "('v, 'd, 'p, 'c) voting"
  vo_set_common :: "('v, 'd, 'p, 'c) voting \<Rightarrow> 'd \<Rightarrow> 'p \<Rightarrow> ('v, 'd, 'p, 'c) voting"
  vo_rejig :: "('v, 'd, 'p, 'c) voting \<Rightarrow> block_number \<Rightarrow> ('v, 'd, 'p, 'c) voting"
  vo_locked_balance :: "('v, 'd, 'p, 'c) voting \<Rightarrow> balance"

text \<open>
  A proposal that decodes is a call of the runtime, which may be one of this pallet: it runs on the
  whole storage.
\<close>

record ('t, 'v, 'd, 'p, 'c, 'w) dm_config =
  dm_votes :: "('t, 'v, 'd, 'p, 'c) vote_ops"
  dm_multi_currency :: "'w multi_currency"
  dm_free_balance :: "account_id \<Rightarrow> 'w \<Rightarrow> balance"
  dm_extend_lock :: "account_id \<Rightarrow> balance \<Rightarrow> 'w \<Rightarrow> 'w"
  dm_set_lock :: "account_id \<Rightarrow> balance \<Rightarrow> 'w \<Rightarrow> 'w"
  dm_remove_lock :: "account_id \<Rightarrow> 'w \<Rightarrow> 'w"
  dm_on_slash :: "balance \<Rightarrow> 'w \<Rightarrow> 'w"
  dm_schedule :: "referendum_index \<Rightarrow> block_number \<Rightarrow> proposal_hash \<Rightarrow> ('w, unit) eff"
  dm_cancel_scheduled :: "referendum_index \<Rightarrow> ('w, unit) eff"
  dm_hash :: "u8 list \<Rightarrow> proposal_hash"
  dm_dispatch :: "u8 list \<Rightarrow> (('t, 'v, 'd, 'p, 'c, 'w) dm_state \<Rightarrow> bool \<times> ('t, 'v, 'd, 'p, 'c, 'w) dm_state) option"
  dm_backing_for :: "prop_index \<Rightarrow> ('t, 'v, 'd, 'p, 'c, 'w) dm_state \<Rightarrow> balance option"
  dm_enactment_period :: block_number
  dm_launch_period :: block_number
  dm_voting_period :: block_number
  dm_fast_track_voting_period :: block_number
  dm_cooloff_period :: block_number
  dm_governance_currency_ids :: "currency_id list"
  dm_preimage_byte_deposit :: balance
  dm_max_votes :: nat
  dm_instant_allowed :: bool
  dm_external_origin :: "origin \<Rightarrow> bool"
  dm_external_majority_origin :: "origin \<Rightarrow> bool"
  dm_external_default_origin :: "origin \<Rightarrow> bool"
  dm_fast_track_origin :: "origin \<Rightarrow> bool"
  dm_instant_origin :: "origin \<Rightarrow> bool"
  dm_cancellation_origin :: "origin \<Rightarrow> bool"
  dm_blacklist_origin :: "origin \<Rightarrow> bool"
  dm_cancel_proposal_origin :: "origin \<Rightarrow> bool"
  dm_veto_origin :: "origin \<Rightarrow> account_id option"

definition inDm :: "('w, 'a) eff \<Rightarrow> ('t, 'v, 'd, 'p, 'c, 'w, 'a) dm_eff" where
  "inDm m = zoomE dm_world (\<lambda>w s. s\<lparr>dm_world := w\<rparr>) m"

definition on_dm_world :: "('w \<Rightarrow> 'w) \<Rightarrow> ('t, 'v, 'd, 'p, 'c, 'w) dm_state \<Rightarrow> ('t, 'v, 'd, 'p, 'c, 'w) dm_state" where
  "on_dm_world f s = s\<lparr>dm_world := f (dm_world s)\<rparr>"

definition dm_event :: "democracy_event \<Rightarrow> ('t, 'v, 'd, 'p, 'c, 'w) dm_state \<Rightarrow> ('t, 'v, 'd, 'p, 'c, 'w) dm_state" where
  "dm_event ev s = s\<lparr>dm_events := dm_events s @ [ev]\<rparr>"

abbreviation dmE :: "democracy_error \<Rightarrow> dispatch_error" where
  "dmE \<equiv> Democracy_Error"

section \<open>Referenda\<close>

definition referendum_status :: "referendum_index \<Rightarrow> ('t, 'v, 'd, 'p, 'c, 'w, 't referendum_status) dm_eff" where
  "referendum_status ref_index =
     bindE (getE (\<lambda>s. referendum_info_of s ref_index)) (\<lambda>found.
     case found of Some (Ongoing status) \<Rightarrow> okE status | _ \<Rightarrow> failE (dmE ReferendumInvalid))"

definition put_referendum :: "referendum_index \<Rightarrow> 't referendum_info \<Rightarrow> ('t, 'v, 'd, 'p, 'c, 'w) dm_state \<Rightarrow> ('t, 'v, 'd, 'p, 'c, 'w) dm_state" where
  "put_referendum ref_index info s = s\<lparr>referendum_info_of := (referendum_info_of s)(ref_index \<mapsto> info)\<rparr>"

definition internal_cancel_referendum :: "referendum_index \<Rightarrow> ('t, 'v, 'd, 'p, 'c, 'w) dm_state \<Rightarrow> ('t, 'v, 'd, 'p, 'c, 'w) dm_state" where
  "internal_cancel_referendum ref_index s =
     (dm_event (Cancelled ref_index) s)\<lparr>referendum_info_of := (referendum_info_of s)(ref_index := None)\<rparr>"

definition inject_referendum ::
  "('t, 'v, 'd, 'p, 'c, 'w) dm_config \<Rightarrow> block_number \<Rightarrow> proposal_hash \<Rightarrow> vote_threshold \<Rightarrow> block_number \<Rightarrow>
   ('t, 'v, 'd, 'p, 'c, 'w) dm_state \<Rightarrow> referendum_index \<times> ('t, 'v, 'd, 'p, 'c, 'w) dm_state" where
  "inject_referendum cfg stop hash threshold delay s =
     (let ref_index = referendum_count s;
          s1 = s\<lparr>referendum_count := wrap_add u32_max ref_index 1\<rparr>;
          status = \<lparr>rs_end = stop, rs_proposal_hash = hash, rs_threshold = threshold, rs_delay = delay,
                    rs_tally = vo_tally_default (dm_votes cfg)\<rparr>
      in (ref_index, dm_event (Started ref_index threshold) (put_referendum ref_index (Ongoing status) s1)))"

definition internal_start_referendum ::
  "('t, 'v, 'd, 'p, 'c, 'w) dm_config \<Rightarrow> proposal_hash \<Rightarrow> vote_threshold \<Rightarrow> block_number \<Rightarrow>
   ('t, 'v, 'd, 'p, 'c, 'w) dm_state \<Rightarrow> referendum_index \<times> ('t, 'v, 'd, 'p, 'c, 'w) dm_state" where
  "internal_start_referendum cfg hash threshold delay s =
     inject_referendum cfg (wrap_add u32_max (dm_now s) (dm_voting_period cfg)) hash threshold delay s"

text \<open>The referenda of a range of indices whose end is this block.\<close>

definition maturing_referenda_at_inner ::
  "block_number \<Rightarrow> referendum_index list \<Rightarrow> ('t, 'v, 'd, 'p, 'c, 'w) dm_state \<Rightarrow> (referendum_index \<times> 't referendum_status) list" where
  "maturing_referenda_at_inner n indices s =
     filter (\<lambda>(_, status). rs_end status = n)
       (concat (map (\<lambda>i. case referendum_info_of s i of Some (Ongoing status) \<Rightarrow> [(i, status)] | _ \<Rightarrow> []) indices))"

definition maturing_referenda_at :: "block_number \<Rightarrow> ('t, 'v, 'd, 'p, 'c, 'w) dm_state \<Rightarrow> (referendum_index \<times> 't referendum_status) list" where
  "maturing_referenda_at n s = maturing_referenda_at_inner n [lowest_unbaked s..<referendum_count s] s"

section \<open>External proposals\<close>

text \<open>A hash on the blacklist may not be proposed again before its block.\<close>

definition not_blacklisted :: "proposal_hash \<Rightarrow> ('t, 'v, 'd, 'p, 'c, 'w) dm_state \<Rightarrow> bool" where
  "not_blacklisted hash s = (case blacklisted s hash of None \<Rightarrow> True | Some (until, _) \<Rightarrow> dm_now s \<ge> until)"

definition external_propose ::
  "('t, 'v, 'd, 'p, 'c, 'w) dm_config \<Rightarrow> origin \<Rightarrow> proposal_hash \<Rightarrow> ('t, 'v, 'd, 'p, 'c, 'w, unit) dm_eff" where
  "external_propose cfg org hash =
     thenE (ensure (dm_external_origin cfg org) BadOrigin) (
     bindE (getE next_external) (\<lambda>queued.
     thenE (ensure (queued = None) (dmE DuplicateProposal)) (
     bindE (getE (not_blacklisted hash)) (\<lambda>ok.
     thenE (ensure ok (dmE ProposalBlacklisted))
       (modE (\<lambda>s. s\<lparr>next_external := Some (hash, SuperMajorityApprove)\<rparr>))))))"

definition external_propose_majority ::
  "('t, 'v, 'd, 'p, 'c, 'w) dm_config \<Rightarrow> origin \<Rightarrow> proposal_hash \<Rightarrow> ('t, 'v, 'd, 'p, 'c, 'w, unit) dm_eff" where
  "external_propose_majority cfg org hash =
     thenE (ensure (dm_external_majority_origin cfg org) BadOrigin)
       (modE (\<lambda>s. s\<lparr>next_external := Some (hash, SimpleMajority)\<rparr>))"

definition external_propose_default ::
  "('t, 'v, 'd, 'p, 'c, 'w) dm_config \<Rightarrow> origin \<Rightarrow> proposal_hash \<Rightarrow> ('t, 'v, 'd, 'p, 'c, 'w, unit) dm_eff" where
  "external_propose_default cfg org hash =
     thenE (ensure (dm_external_default_origin cfg org) BadOrigin)
       (modE (\<lambda>s. s\<lparr>next_external := Some (hash, SuperMajorityAgainst)\<rparr>))"

definition fast_track ::
  "('t, 'v, 'd, 'p, 'c, 'w) dm_config \<Rightarrow> origin \<Rightarrow> proposal_hash \<Rightarrow> block_number \<Rightarrow> block_number \<Rightarrow> ('t, 'v, 'd, 'p, 'c, 'w, unit) dm_eff" where
  "fast_track cfg org hash voting_period delay =
     thenE (whenE (voting_period < dm_fast_track_voting_period cfg \<or> \<not> dm_fast_track_origin cfg org) (
              thenE (ensure (dm_instant_origin cfg org) BadOrigin)
                (ensure (dm_instant_allowed cfg) (dmE InstantNotAllowed)))) (
     bindE (getE next_external) (\<lambda>queued.
     bindE (ok_or queued (dmE ProposalMissing)) (\<lambda>(e_hash, threshold).
     thenE (ensure (threshold \<noteq> SuperMajorityApprove) (dmE NotSimpleMajority)) (
     thenE (ensure (hash = e_hash) (dmE InvalidHash))
       (modE (\<lambda>s. snd (inject_referendum cfg (wrap_add u32_max (dm_now s) voting_period) hash threshold delay
                       (s\<lparr>next_external := None\<rparr>))))))))"

definition veto_external ::
  "('t, 'v, 'd, 'p, 'c, 'w) dm_config \<Rightarrow> origin \<Rightarrow> proposal_hash \<Rightarrow> ('t, 'v, 'd, 'p, 'c, 'w, unit) dm_eff" where
  "veto_external cfg org hash =
     bindE (ok_or (dm_veto_origin cfg org) BadOrigin) (\<lambda>who.
     bindE (getE next_external) (\<lambda>queued.
     bindE (ok_or queued (dmE NoProposal)) (\<lambda>(e_hash, _).
     thenE (ensure (hash = e_hash) (dmE ProposalMissing)) (
     bindE (getE (\<lambda>s. case blacklisted s hash of None \<Rightarrow> [] | Some (_, vetoers) \<Rightarrow> vetoers)) (\<lambda>existing_vetoers.
     case search_sorted who existing_vetoers of
       Inr _ \<Rightarrow> failE (dmE AlreadyVetoed)
     | Inl insert_position \<Rightarrow>
         modE (\<lambda>s.
           let until = wrap_add u32_max (dm_now s) (dm_cooloff_period cfg);
               s1 = s\<lparr>blacklisted := (blacklisted s)(hash \<mapsto> (until, insert_at insert_position who existing_vetoers))\<rparr>
           in (dm_event (Vetoed who hash until) s1)\<lparr>next_external := None\<rparr>))))))"

section \<open>Cancelling\<close>

definition emergency_cancel ::
  "('t, 'v, 'd, 'p, 'c, 'w) dm_config \<Rightarrow> origin \<Rightarrow> referendum_index \<Rightarrow> ('t, 'v, 'd, 'p, 'c, 'w, unit) dm_eff" where
  "emergency_cancel cfg org ref_index =
     thenE (ensure (dm_cancellation_origin cfg org) BadOrigin) (
     bindE (referendum_status ref_index) (\<lambda>status.
     let h = rs_proposal_hash status in
     bindE (getE (\<lambda>s. cancellations s h)) (\<lambda>already.
     thenE (ensure (\<not> already) (dmE AlreadyCanceled))
       (modE (\<lambda>s. internal_cancel_referendum ref_index (s\<lparr>cancellations := (cancellations s)(h := True)\<rparr>))))))"

definition cancel_referendum :: "origin \<Rightarrow> referendum_index \<Rightarrow> ('t, 'v, 'd, 'p, 'c, 'w, unit) dm_eff" where
  "cancel_referendum org ref_index = thenE (ensure_root org) (modE (internal_cancel_referendum ref_index))"

definition cancel_queued ::
  "('t, 'v, 'd, 'p, 'c, 'w) dm_config \<Rightarrow> origin \<Rightarrow> referendum_index \<Rightarrow> ('t, 'v, 'd, 'p, 'c, 'w, unit) dm_eff" where
  "cancel_queued cfg org which =
     thenE (ensure_root org) (map_errE (\<lambda>_. dmE ProposalMissing) (inDm (dm_cancel_scheduled cfg which)))"

definition clear_public_proposals :: "origin \<Rightarrow> ('t, 'v, 'd, 'p, 'c, 'w, unit) dm_eff" where
  "clear_public_proposals org = thenE (ensure_root org) (modE (\<lambda>s. s\<lparr>public_props := []\<rparr>))"

text \<open>The deposits of a public proposal are slashed.\<close>

definition slash_depositors ::
  "('t, 'v, 'd, 'p, 'c, 'w) dm_config \<Rightarrow> prop_index \<Rightarrow> ('t, 'v, 'd, 'p, 'c, 'w) dm_state \<Rightarrow> ('t, 'v, 'd, 'p, 'c, 'w) dm_state" where
  "slash_depositors cfg prop_index s =
     (case deposit_of s prop_index of
        None \<Rightarrow> s
      | Some (whos, currency_id, amount) \<Rightarrow>
          on_dm_world (\<lambda>w. fold (\<lambda>who w. case mc_slash_reserved (dm_multi_currency cfg) currency_id who amount w of
                                    (imbalance, w') \<Rightarrow> dm_on_slash cfg imbalance w') whos w)
            (s\<lparr>deposit_of := (deposit_of s)(prop_index := None)\<rparr>))"

definition blacklist ::
  "('t, 'v, 'd, 'p, 'c, 'w) dm_config \<Rightarrow> origin \<Rightarrow> proposal_hash \<Rightarrow> referendum_index option \<Rightarrow> ('t, 'v, 'd, 'p, 'c, 'w, unit) dm_eff" where
  "blacklist cfg org hash maybe_ref_index =
     thenE (ensure (dm_blacklist_origin cfg org) BadOrigin)
       (modE (\<lambda>s.
          let s1 = s\<lparr>blacklisted := (blacklisted s)(hash \<mapsto> (u32_max, []))\<rparr>;
              s2 = (case position (\<lambda>(_, h, _). h = hash) (public_props s1) of
                      None \<Rightarrow> s1
                    | Some i \<Rightarrow> slash_depositors cfg (fst (public_props s1 ! i)) (s1\<lparr>public_props := remove_at i (public_props s1)\<rparr>));
              s3 = (if map_option fst (next_external s2) = Some hash then s2\<lparr>next_external := None\<rparr> else s2);
              s4 = (case maybe_ref_index of
                      None \<Rightarrow> s3
                    | Some ref_index \<Rightarrow>
                        (case referendum_info_of s3 ref_index of
                           Some (Ongoing status) \<Rightarrow> if rs_proposal_hash status = hash then internal_cancel_referendum ref_index s3 else s3
                         | _ \<Rightarrow> s3))
          in dm_event (Blacklisted hash) s4))"

definition cancel_proposal ::
  "('t, 'v, 'd, 'p, 'c, 'w) dm_config \<Rightarrow> origin \<Rightarrow> prop_index \<Rightarrow> ('t, 'v, 'd, 'p, 'c, 'w, unit) dm_eff" where
  "cancel_proposal cfg org prop_index =
     thenE (ensure (dm_cancel_proposal_origin cfg org) BadOrigin)
       (modE (\<lambda>s. slash_depositors cfg prop_index (s\<lparr>public_props := filter (\<lambda>(i, _). i \<noteq> prop_index) (public_props s)\<rparr>)))"

section \<open>Votes\<close>

text \<open>The tally of a vote, with the delegations to the voter behind it.\<close>

definition tally_with :: "('t, 'v, 'd, 'p, 'c) vote_ops \<Rightarrow> 't \<Rightarrow> 'v \<Rightarrow> 'd \<Rightarrow> 't option" where
  "tally_with ops t v delegations =
     map_option (\<lambda>t'. case vo_as_standard ops v of None \<Rightarrow> t' | Some approve \<Rightarrow> vo_tally_increase ops t' approve delegations)
       (vo_tally_add ops t v)"

definition tally_without :: "('t, 'v, 'd, 'p, 'c) vote_ops \<Rightarrow> 't \<Rightarrow> 'v \<Rightarrow> 'd \<Rightarrow> 't option" where
  "tally_without ops t v delegations =
     map_option (\<lambda>t'. case vo_as_standard ops v of None \<Rightarrow> t' | Some approve \<Rightarrow> vo_tally_reduce ops t' approve delegations)
       (vo_tally_remove ops t v)"

text \<open>What a vote makes of the tally and of the votes of the account.\<close>

definition cast_vote ::
  "('t, 'v, 'd, 'p, 'c, 'w) dm_config \<Rightarrow> referendum_index \<Rightarrow> 'v \<Rightarrow> 't \<Rightarrow> ('v, 'd, 'p, 'c) voting \<Rightarrow>
   dispatch_error + 't \<times> ('v, 'd, 'p, 'c) voting" where
  "cast_vote cfg ref_index vote tally voting =
     (case voting of
        Delegating _ _ _ _ _ \<Rightarrow> Inl (dmE AlreadyDelegating)
      | Direct votes delegations prior \<Rightarrow>
          (case search_sorted ref_index (map fst votes) of
             Inr i \<Rightarrow>
               (case tally_without (dm_votes cfg) tally (snd (votes ! i)) delegations of
                  None \<Rightarrow> Inl Arithmetic_Underflow
                | Some t1 \<Rightarrow>
                    (case tally_with (dm_votes cfg) t1 vote delegations of
                       None \<Rightarrow> Inl Arithmetic_Overflow
                     | Some t2 \<Rightarrow> Inr (t2, Direct (votes[i := (ref_index, vote)]) delegations prior)))
           | Inl i \<Rightarrow>
               if length votes > dm_max_votes cfg then Inl (dmE MaxVotesReached)
               else
                 (case tally_with (dm_votes cfg) tally vote delegations of
                    None \<Rightarrow> Inl Arithmetic_Overflow
                  | Some t2 \<Rightarrow> Inr (t2, Direct (insert_at i (ref_index, vote) votes) delegations prior))))"

definition try_vote ::
  "('t, 'v, 'd, 'p, 'c, 'w) dm_config \<Rightarrow> account_id \<Rightarrow> referendum_index \<Rightarrow> 'v \<Rightarrow> ('t, 'v, 'd, 'p, 'c, 'w, unit) dm_eff" where
  "try_vote cfg who ref_index vote =
     bindE (referendum_status ref_index) (\<lambda>status.
     bindE (getE (\<lambda>s. vo_balance (dm_votes cfg) vote \<le> dm_free_balance cfg who (dm_world s))) (\<lambda>funded.
     thenE (ensure funded (dmE InsufficientFunds)) (
     bindE (getE (\<lambda>s. cast_vote cfg ref_index vote (rs_tally status) (voting_of s who))) (\<lambda>cast.
     case cast of
       Inl e \<Rightarrow> failE e
     | Inr (tally, voting) \<Rightarrow>
         modE (\<lambda>s. put_referendum ref_index (Ongoing (status\<lparr>rs_tally := tally\<rparr>))
           (on_dm_world (dm_extend_lock cfg who (vo_balance (dm_votes cfg) vote))
             (s\<lparr>voting_of := (voting_of s)(who := voting)\<rparr>)))))))"

definition dm_vote ::
  "('t, 'v, 'd, 'p, 'c, 'w) dm_config \<Rightarrow> origin \<Rightarrow> referendum_index \<Rightarrow> 'v \<Rightarrow> ('t, 'v, 'd, 'p, 'c, 'w, unit) dm_eff" where
  "dm_vote cfg org ref_index vote = bindE (ensure_signed org) (\<lambda>who. try_vote cfg who ref_index vote)"

text \<open>
  Removing a vote: from an ongoing referendum the tally goes back; from a finished one that the vote
  is still locked for, the lock is kept in the prior locks. Only the voter itself may do these two.
\<close>

definition try_remove_vote ::
  "('t, 'v, 'd, 'p, 'c, 'w) dm_config \<Rightarrow> account_id \<Rightarrow> referendum_index \<Rightarrow> unvote_scope \<Rightarrow> ('t, 'v, 'd, 'p, 'c, 'w, unit) dm_eff" where
  "try_remove_vote cfg who ref_index scope =
     bindE (getE (\<lambda>s. (referendum_info_of s ref_index, voting_of s who, dm_now s))) (\<lambda>(info, voting, now).
     case voting of
       Delegating _ _ _ _ _ \<Rightarrow> okE ()
     | Direct votes delegations prior \<Rightarrow>
         (case search_sorted ref_index (map fst votes) of
            Inl _ \<Rightarrow> failE (dmE NotVoter)
          | Inr i \<Rightarrow>
              (let vote = snd (votes ! i);
                   remove = (\<lambda>prior'. modE (\<lambda>s. s\<lparr>voting_of := (voting_of s)(who := Direct (remove_at i votes) delegations prior')\<rparr>))
               in case info of
                    None \<Rightarrow> remove prior
                  | Some (Ongoing status) \<Rightarrow>
                      thenE (ensure (scope = Any_Scope) (dmE Democracy_NoPermission)) (
                      bindE (ok_or (tally_without (dm_votes cfg) (rs_tally status) vote delegations) Arithmetic_Underflow) (\<lambda>tally.
                      thenE (modE (put_referendum ref_index (Ongoing (status\<lparr>rs_tally := tally\<rparr>)))) (remove prior)))
                  | Some (Finished stop approved) \<Rightarrow>
                      (case vo_locked_if (dm_votes cfg) vote approved of
                         None \<Rightarrow> remove prior
                       | Some (lock_periods, balance) \<Rightarrow>
                           (let unlock_at = wrap_add u32_max stop (dm_enactment_period cfg * lock_periods mod (u32_max + 1)) in
                            if now < unlock_at
                            then thenE (ensure (scope = Any_Scope) (dmE Democracy_NoPermission))
                                   (remove (vo_accumulate (dm_votes cfg) prior unlock_at balance))
                            else remove prior)))))"

definition remove_vote ::
  "('t, 'v, 'd, 'p, 'c, 'w) dm_config \<Rightarrow> origin \<Rightarrow> referendum_index \<Rightarrow> ('t, 'v, 'd, 'p, 'c, 'w, unit) dm_eff" where
  "remove_vote cfg org index = bindE (ensure_signed org) (\<lambda>who. try_remove_vote cfg who index Any_Scope)"

definition remove_other_vote ::
  "('t, 'v, 'd, 'p, 'c, 'w) dm_config \<Rightarrow> origin \<Rightarrow> account_id \<Rightarrow> referendum_index \<Rightarrow> ('t, 'v, 'd, 'p, 'c, 'w, unit) dm_eff" where
  "remove_other_vote cfg org who index =
     bindE (ensure_signed org) (\<lambda>caller. try_remove_vote cfg who index (if who = caller then Any_Scope else OnlyExpired))"

section \<open>Delegation\<close>

text \<open>
  The tallies of the ongoing referenda that an account voted on in the standard way move with the
  delegations to it; \<open>move\<close> is the increase or the reduction of a tally.
\<close>

definition move_tally ::
  "('t, 'v, 'd, 'p, 'c, 'w) dm_config \<Rightarrow> ('t \<Rightarrow> bool \<Rightarrow> 'd \<Rightarrow> 't) \<Rightarrow> 'd \<Rightarrow> referendum_index \<times> 'v \<Rightarrow>
   ('t, 'v, 'd, 'p, 'c, 'w) dm_state \<Rightarrow> ('t, 'v, 'd, 'p, 'c, 'w) dm_state" where
  "move_tally cfg move amount = (\<lambda>(ref_index, account_vote) s.
     case (vo_as_standard (dm_votes cfg) account_vote, referendum_info_of s ref_index) of
       (Some aye, Some (Ongoing status)) \<Rightarrow> put_referendum ref_index (Ongoing (status\<lparr>rs_tally := move (rs_tally status) aye amount\<rparr>)) s
     | _ \<Rightarrow> s)"

definition increase_upstream_delegation ::
  "('t, 'v, 'd, 'p, 'c, 'w) dm_config \<Rightarrow> account_id \<Rightarrow> 'd \<Rightarrow> ('t, 'v, 'd, 'p, 'c, 'w) dm_state \<Rightarrow> ('t, 'v, 'd, 'p, 'c, 'w) dm_state" where
  "increase_upstream_delegation cfg who amount s =
     (let ops = dm_votes cfg in
      case voting_of s who of
        Delegating balance to conviction delegations prior \<Rightarrow>
          s\<lparr>voting_of := (voting_of s)(who := Delegating balance to conviction (vo_delegations_add ops delegations amount) prior)\<rparr>
      | Direct votes delegations prior \<Rightarrow>
          fold (move_tally cfg (vo_tally_increase ops) amount) votes
            (s\<lparr>voting_of := (voting_of s)(who := Direct votes (vo_delegations_add ops delegations amount) prior)\<rparr>))"

definition reduce_upstream_delegation ::
  "('t, 'v, 'd, 'p, 'c, 'w) dm_config \<Rightarrow> account_id \<Rightarrow> 'd \<Rightarrow> ('t, 'v, 'd, 'p, 'c, 'w) dm_state \<Rightarrow> ('t, 'v, 'd, 'p, 'c, 'w) dm_state" where
  "reduce_upstream_delegation cfg who amount s =
     (let ops = dm_votes cfg in
      case voting_of s who of
        Delegating balance to conviction delegations prior \<Rightarrow>
          s\<lparr>voting_of := (voting_of s)(who := Delegating balance to conviction (vo_delegations_sub ops delegations amount) prior)\<rparr>
      | Direct votes delegations prior \<Rightarrow>
          fold (move_tally cfg (vo_tally_reduce ops) amount) votes
            (s\<lparr>voting_of := (voting_of s)(who := Direct votes (vo_delegations_sub ops delegations amount) prior)\<rparr>))"

text \<open>The weights that these two return, from the number of votes, are left out.\<close>

definition try_delegate ::
  "('t, 'v, 'd, 'p, 'c, 'w) dm_config \<Rightarrow> account_id \<Rightarrow> account_id \<Rightarrow> 'c \<Rightarrow> balance \<Rightarrow> ('t, 'v, 'd, 'p, 'c, 'w, unit) dm_eff" where
  "try_delegate cfg who to conviction balance =
     (let ops = dm_votes cfg in
     thenE (ensure (who \<noteq> to) (dmE Nonsense)) (
     bindE (getE (\<lambda>s. balance \<le> dm_free_balance cfg who (dm_world s))) (\<lambda>funded.
     thenE (ensure funded (dmE InsufficientFunds)) (
     bindE (getE (\<lambda>s. voting_of s who)) (\<lambda>old.
     let fresh = Delegating balance to conviction (vo_no_delegations ops) (vo_no_prior ops);
         finish = (\<lambda>voting s.
            let s1 = increase_upstream_delegation cfg to (vo_conviction_votes ops conviction balance) s
            in dm_event (Delegated who to)
                 ((on_dm_world (dm_extend_lock cfg who balance) s1)\<lparr>voting_of := (voting_of s1)(who := voting)\<rparr>))
     in case old of
          Delegating old_balance old_to old_conviction delegations prior \<Rightarrow>
            modE (\<lambda>s. finish (vo_set_common ops fresh delegations prior)
                       (reduce_upstream_delegation cfg old_to (vo_conviction_votes ops old_conviction old_balance) s))
        | Direct votes delegations prior \<Rightarrow>
            thenE (ensure (votes = []) (dmE VotesExist))
              (modE (finish (vo_set_common ops fresh delegations prior))))))))"

definition delegate ::
  "('t, 'v, 'd, 'p, 'c, 'w) dm_config \<Rightarrow> origin \<Rightarrow> account_id \<Rightarrow> 'c \<Rightarrow> balance \<Rightarrow> ('t, 'v, 'd, 'p, 'c, 'w, unit) dm_eff" where
  "delegate cfg org to conviction balance = bindE (ensure_signed org) (\<lambda>who. try_delegate cfg who to conviction balance)"

definition try_undelegate ::
  "('t, 'v, 'd, 'p, 'c, 'w) dm_config \<Rightarrow> account_id \<Rightarrow> ('t, 'v, 'd, 'p, 'c, 'w, unit) dm_eff" where
  "try_undelegate cfg who =
     bindE (getE (\<lambda>s. voting_of s who)) (\<lambda>old.
     case old of
       Direct _ _ _ \<Rightarrow> failE (dmE NotDelegating)
     | Delegating balance to conviction delegations prior \<Rightarrow>
         modE (\<lambda>s.
           let ops = dm_votes cfg;
               s1 = reduce_upstream_delegation cfg to (vo_conviction_votes ops conviction balance) s;
               unlock_at = wrap_add u32_max (dm_now s) (dm_enactment_period cfg * vo_lock_periods ops conviction mod (u32_max + 1));
               voting = vo_set_common ops (vo_voting_default ops) delegations (vo_accumulate ops prior unlock_at balance)
           in dm_event (Undelegated who) (s1\<lparr>voting_of := (voting_of s1)(who := voting)\<rparr>)))"

definition undelegate :: "('t, 'v, 'd, 'p, 'c, 'w) dm_config \<Rightarrow> origin \<Rightarrow> ('t, 'v, 'd, 'p, 'c, 'w, unit) dm_eff" where
  "undelegate cfg org = bindE (ensure_signed org) (try_undelegate cfg)"

definition update_lock :: "('t, 'v, 'd, 'p, 'c, 'w) dm_config \<Rightarrow> account_id \<Rightarrow> ('t, 'v, 'd, 'p, 'c, 'w) dm_state \<Rightarrow> ('t, 'v, 'd, 'p, 'c, 'w) dm_state" where
  "update_lock cfg who s =
     (let voting = vo_rejig (dm_votes cfg) (voting_of s who) (dm_now s);
          lock_needed = vo_locked_balance (dm_votes cfg) voting;
          s1 = s\<lparr>voting_of := (voting_of s)(who := voting)\<rparr>
      in on_dm_world (if lock_needed = 0 then dm_remove_lock cfg who else dm_set_lock cfg who lock_needed) s1)"

definition unlock :: "('t, 'v, 'd, 'p, 'c, 'w) dm_config \<Rightarrow> origin \<Rightarrow> account_id \<Rightarrow> ('t, 'v, 'd, 'p, 'c, 'w, unit) dm_eff" where
  "unlock cfg org who = bindE (ensure_signed org) (\<lambda>_. modE (update_lock cfg who))"

section \<open>Preimages\<close>

definition check_pre_image_is_missing :: "proposal_hash \<Rightarrow> ('t, 'v, 'd, 'p, 'c, 'w, unit) dm_eff" where
  "check_pre_image_is_missing hash =
     bindE (getE (\<lambda>s. preimages s hash)) (\<lambda>found.
     case found of
       None \<Rightarrow> failE (dmE NotImminent)
     | Some (Missing _) \<Rightarrow> okE ()
     | Some (Available _ _ _ _ _ _) \<Rightarrow> failE (dmE DuplicatePreimage))"

definition pre_image_data_len :: "proposal_hash \<Rightarrow> ('t, 'v, 'd, 'p, 'c, 'w, nat) dm_eff" where
  "pre_image_data_len hash =
     bindE (getE (\<lambda>s. preimages s hash)) (\<lambda>found.
     case found of Some (Available data _ _ _ _ _) \<Rightarrow> okE (length data) | _ \<Rightarrow> failE (dmE Error_PreimageMissing))"

definition note_preimage_inner ::
  "('t, 'v, 'd, 'p, 'c, 'w) dm_config \<Rightarrow> account_id \<Rightarrow> currency_id \<Rightarrow> u8 list \<Rightarrow> ('t, 'v, 'd, 'p, 'c, 'w, unit) dm_eff" where
  "note_preimage_inner cfg who currency_id encoded_proposal =
     (let hash = dm_hash cfg encoded_proposal in
     bindE (getE (\<lambda>s. preimages s hash = None)) (\<lambda>fresh.
     thenE (ensure fresh (dmE DuplicatePreimage)) (
     thenE (ensure (currency_id \<in> set (dm_governance_currency_ids cfg)) (dmE Democracy_InvalidCurrencyType)) (
     let deposit = sat_mul u128_max (length encoded_proposal) (dm_preimage_byte_deposit cfg) in
     thenE (inDm (mc_reserve (dm_multi_currency cfg) currency_id who deposit))
       (modE (\<lambda>s. dm_event (PreimageNoted hash who currency_id deposit)
         (s\<lparr>preimages := (preimages s)(hash \<mapsto> Available encoded_proposal who currency_id deposit (dm_now s) None)\<rparr>)))))))"

definition note_imminent_preimage_inner ::
  "('t, 'v, 'd, 'p, 'c, 'w) dm_config \<Rightarrow> account_id \<Rightarrow> currency_id \<Rightarrow> u8 list \<Rightarrow> ('t, 'v, 'd, 'p, 'c, 'w, unit) dm_eff" where
  "note_imminent_preimage_inner cfg who currency_id encoded_proposal =
     (let hash = dm_hash cfg encoded_proposal in
     thenE (check_pre_image_is_missing hash) (
     thenE (ensure (currency_id \<in> set (dm_governance_currency_ids cfg)) (dmE Democracy_InvalidCurrencyType)) (
     bindE (getE (\<lambda>s. preimages s hash)) (\<lambda>found.
     bindE (ok_or found (dmE NotImminent)) (\<lambda>status.
     bindE (ok_or (to_missing_expiry status) (dmE DuplicatePreimage)) (\<lambda>expiry.
     modE (\<lambda>s. dm_event (PreimageNoted hash who currency_id 0)
         (s\<lparr>preimages := (preimages s)(hash \<mapsto> Available encoded_proposal who currency_id 0 (dm_now s) (Some expiry))\<rparr>))))))))"

text \<open>After a while anyone may remove a preimage and keep its deposit, the provider earlier than others.\<close>

definition reap_preimage ::
  "('t, 'v, 'd, 'p, 'c, 'w) dm_config \<Rightarrow> origin \<Rightarrow> proposal_hash \<Rightarrow> nat \<Rightarrow> ('t, 'v, 'd, 'p, 'c, 'w, unit) dm_eff" where
  "reap_preimage cfg org hash proposal_len_upper_bound =
     bindE (ensure_signed org) (\<lambda>who.
     bindE (pre_image_data_len hash) (\<lambda>len.
     thenE (ensure (len \<le> proposal_len_upper_bound) (dmE WrongUpperBound)) (
     bindE (getE (\<lambda>s. preimages s hash)) (\<lambda>found.
     case found of
       Some (Available _ provider currency deposit since expiry) \<Rightarrow>
         (let additional = (if who = provider then 0 else dm_enactment_period cfg) in
          bindE (getE dm_now) (\<lambda>now.
          thenE (ensure (now \<ge> wrap_add u32_max (wrap_add u32_max since (dm_voting_period cfg)) additional) (dmE TooEarly)) (
          thenE (ensure (case expiry of None \<Rightarrow> True | Some e \<Rightarrow> now > e) (dmE Imminent)) (
          thenE (bindE (resultE (inDm (mc_repatriate_reserved (dm_multi_currency cfg) currency provider who deposit Free))) (\<lambda>_. okE ()))
            (modE (\<lambda>s. dm_event (PreimageReaped hash provider currency deposit who)
              (s\<lparr>preimages := (preimages s)(hash := None)\<rparr>)))))))
     | _ \<Rightarrow> failE (dmE Error_PreimageMissing)))))"

section \<open>Enactment\<close>

text \<open>The preimage is taken from storage also where this fails.\<close>

definition do_enact_proposal ::
  "('t, 'v, 'd, 'p, 'c, 'w) dm_config \<Rightarrow> proposal_hash \<Rightarrow> referendum_index \<Rightarrow> ('t, 'v, 'd, 'p, 'c, 'w, unit) dm_eff" where
  "do_enact_proposal cfg hash index =
     bindE (getE (\<lambda>s. preimages s hash)) (\<lambda>preimage.
     thenE (modE (\<lambda>s. s\<lparr>preimages := (preimages s)(hash := None)\<rparr>))
       (case preimage of
          Some (Available data provider currency deposit _ _) \<Rightarrow>
            (case dm_dispatch cfg data of
               Some call \<Rightarrow>
                 modE (\<lambda>s.
                   let s1 = on_dm_world (\<lambda>w. snd (mc_unreserve (dm_multi_currency cfg) currency provider deposit w)) s;
                       (ok, s2) = call (dm_event (PreimageUsed hash provider currency deposit) s1)
                   in dm_event (Executed index ok) s2)
             | None \<Rightarrow>
                 thenE (modE (\<lambda>s. dm_event (PreimageInvalid hash index)
                     (on_dm_world (\<lambda>w. case mc_slash_reserved (dm_multi_currency cfg) currency provider deposit w of
                                        (imbalance, w') \<Rightarrow> dm_on_slash cfg imbalance w') s)))
                   (failE (dmE Error_PreimageInvalid)))
        | _ \<Rightarrow> thenE (modE (dm_event (PreimageMissing hash index))) (failE (dmE Error_PreimageMissing))))"

definition enact_proposal ::
  "('t, 'v, 'd, 'p, 'c, 'w) dm_config \<Rightarrow> origin \<Rightarrow> proposal_hash \<Rightarrow> referendum_index \<Rightarrow> ('t, 'v, 'd, 'p, 'c, 'w, unit) dm_eff" where
  "enact_proposal cfg org hash index = thenE (ensure_root org) (do_enact_proposal cfg hash index)"

section \<open>The beginning of a block\<close>

text \<open>\<open>Iterator::max_by_key\<close>: the last one of the largest.\<close>

fun last_max :: "('a \<Rightarrow> nat) \<Rightarrow> 'a list \<Rightarrow> nat option" where
  "last_max key [] = None"
| "last_max key (x # xs) =
     (case last_max key xs of
        None \<Rightarrow> Some 0
      | Some i \<Rightarrow> if key x \<le> key (xs ! i) then Some (Suc i) else Some 0)"

definition launch_external :: "('t, 'v, 'd, 'p, 'c, 'w) dm_config \<Rightarrow> block_number \<Rightarrow> ('t, 'v, 'd, 'p, 'c, 'w, unit) dm_eff" where
  "launch_external cfg now =
     bindE (getE next_external) (\<lambda>queued.
     case queued of
       None \<Rightarrow> failE (dmE NoneWaiting)
     | Some (proposal, threshold) \<Rightarrow>
         modE (\<lambda>s. snd (inject_referendum cfg (wrap_add u32_max now (dm_voting_period cfg)) proposal threshold (dm_enactment_period cfg)
                 (dm_event ExternalTabled (s\<lparr>next_external := None, last_tabled_was_external := True\<rparr>)))))"

definition launch_public :: "('t, 'v, 'd, 'p, 'c, 'w) dm_config \<Rightarrow> block_number \<Rightarrow> ('t, 'v, 'd, 'p, 'c, 'w, unit) dm_eff" where
  "launch_public cfg now =
     bindE (getE id) (\<lambda>s0.
     case last_max (\<lambda>(i, _, _). unwrap_or (dm_backing_for cfg i s0) 0) (public_props s0) of
       None \<Rightarrow> failE (dmE NoneWaiting)
     | Some winner_index \<Rightarrow>
         modE (\<lambda>s.
           case public_props s ! winner_index of (prop_index, proposal, _) \<Rightarrow>
             let s1 = s\<lparr>public_props := swap_remove winner_index (public_props s)\<rparr> in
             case deposit_of s1 prop_index of
               None \<Rightarrow> s1
             | Some (depositors, currency_id, deposit) \<Rightarrow>
                 let s2 = on_dm_world (\<lambda>w. fold (\<lambda>d w. snd (mc_unreserve (dm_multi_currency cfg) currency_id d deposit w)) depositors w)
                            (s1\<lparr>deposit_of := (deposit_of s1)(prop_index := None)\<rparr>)
                 in snd (inject_referendum cfg (wrap_add u32_max now (dm_voting_period cfg)) proposal SuperMajorityApprove
                      (dm_enactment_period cfg) (dm_event (Tabled prop_index deposit depositors) s2))))"

definition or_elseE :: "('e, 's, 'a) effect \<Rightarrow> ('e, 's, 'a) effect \<Rightarrow> ('e, 's, 'a) effect" where
  "or_elseE m k = (\<lambda>s. case m s of (Inl _, t) \<Rightarrow> k t | (Inr x, t) \<Rightarrow> (Inr x, t))"

definition launch_next :: "('t, 'v, 'd, 'p, 'c, 'w) dm_config \<Rightarrow> block_number \<Rightarrow> ('t, 'v, 'd, 'p, 'c, 'w, unit) dm_eff" where
  "launch_next cfg now =
     bindE (getE last_tabled_was_external) (\<lambda>external.
     thenE (modE (\<lambda>s. s\<lparr>last_tabled_was_external := False\<rparr>))
       (map_errE (\<lambda>_. dmE NoneWaiting)
         (if external then or_elseE (launch_public cfg now) (launch_external cfg now)
          else or_elseE (launch_external cfg now) (launch_public cfg now))))"

text \<open>
  A referendum at its end: its result, and the enactment of what passed. Without a preimage there is no
  currency to compare the tally with the issuance of, and it fails.
\<close>

definition bake_referendum ::
  "('t, 'v, 'd, 'p, 'c, 'w) dm_config \<Rightarrow> block_number \<Rightarrow> referendum_index \<Rightarrow> 't referendum_status \<Rightarrow> ('t, 'v, 'd, 'p, 'c, 'w, bool) dm_eff" where
  "bake_referendum cfg now index status =
     (let hash = rs_proposal_hash status in
     bindE (getE (\<lambda>s. preimages s hash)) (\<lambda>found.
     case found of
       Some (Available data provider currency deposit since expiry) \<Rightarrow>
         bindE (getE (\<lambda>s. vo_approved (dm_votes cfg) (rs_threshold status) (rs_tally status)
                            (mc_total_issuance (dm_multi_currency cfg) currency (dm_world s)))) (\<lambda>approved.
         if \<not> approved then thenE (modE (dm_event (NotPassed index))) (okE False)
         else
           thenE (modE (dm_event (Passed index))) (
           if rs_delay status = 0 then bindE (resultE (do_enact_proposal cfg hash index)) (\<lambda>_. okE True)
           else
             (let when = wrap_add u32_max now (rs_delay status) in
              thenE (modE (\<lambda>s. s\<lparr>preimages := (preimages s)(hash \<mapsto> Available data provider currency deposit since (Some when))\<rparr>))
                (bindE (resultE (inDm (dm_schedule cfg index when hash))) (\<lambda>_. okE True)))))
     | _ \<Rightarrow> failE (dmE Error_PreimageMissing)))"

definition bake_all ::
  "('t, 'v, 'd, 'p, 'c, 'w) dm_config \<Rightarrow> block_number \<Rightarrow> (referendum_index \<times> 't referendum_status) list \<Rightarrow> ('t, 'v, 'd, 'p, 'c, 'w, unit) dm_eff" where
  "bake_all cfg now infos =
     forE infos (\<lambda>(index, info).
       bindE (bake_referendum cfg now index info) (\<lambda>approved. modE (put_referendum index (Finished now approved))))"

definition begin_block :: "('t, 'v, 'd, 'p, 'c, 'w) dm_config \<Rightarrow> block_number \<Rightarrow> ('t, 'v, 'd, 'p, 'c, 'w, unit) dm_eff" where
  "begin_block cfg now =
     thenE (ensure (dm_launch_period cfg \<noteq> 0) Panic) (
     thenE (whenE (now mod dm_launch_period cfg = 0) (bindE (resultE (launch_next cfg now)) (\<lambda>_. okE ()))) (
     bindE (getE (\<lambda>s. maturing_referenda_at_inner now [lowest_unbaked s..<referendum_count s] s)) (\<lambda>maturing.
     bake_all cfg now maturing)))"

text \<open>The hook of the block; the weight that stands for an error is left out.\<close>

definition dm_on_initialize :: "('t, 'v, 'd, 'p, 'c, 'w) dm_config \<Rightarrow> block_number \<Rightarrow> ('t, 'v, 'd, 'p, 'c, 'w) dm_state \<Rightarrow> ('t, 'v, 'd, 'p, 'c, 'w) dm_state" where
  "dm_on_initialize cfg n s = snd (begin_block cfg n s)"

end
