(* ===== verification/Democracy_Referenda.thy ===== *)
theory Democracy_Referenda
  imports Democracy
begin

text \<open>
  The calls and the blocks of the democracy pallet as steps of runs, and what they can do to a
  referendum: every effect is sorted into those that do not touch the referenda (\<open>calm\<close>) and those
  that only change a tally, cancel or start (\<open>evolving\<close>); a block may also finish what ends in it.
\<close>

section \<open>The history of a referendum\<close>

text \<open>
  From one state to a later one a referendum stays what it was, except for its tally while it is
  ongoing, or is cancelled, or finishes; \<open>fin\<close> says for which ends that is possible.
\<close>

definition same_question :: "'t referendum_status \<Rightarrow> 't referendum_status \<Rightarrow> bool" where
  "same_question st st' \<longleftrightarrow> rs_end st' = rs_end st \<and> rs_proposal_hash st' = rs_proposal_hash st \<and>
     rs_threshold st' = rs_threshold st \<and> rs_delay st' = rs_delay st"

fun follows :: "(block_number \<Rightarrow> bool) \<Rightarrow> 't referendum_info option \<Rightarrow> 't referendum_info option \<Rightarrow> bool" where
  "follows fin None b = (b = None)"
| "follows fin (Some (Finished stop approved)) b = (b = None \<or> b = Some (Finished stop approved))"
| "follows fin (Some (Ongoing st)) None = True"
| "follows fin (Some (Ongoing st)) (Some (Ongoing st')) = same_question st st'"
| "follows fin (Some (Ongoing st)) (Some (Finished stop approved)) = (stop = rs_end st \<and> fin stop)"

definition evolved :: "(block_number \<Rightarrow> bool) \<Rightarrow> ('t, 'v, 'd, 'p, 'c, 'w) dm_state \<Rightarrow> ('t, 'v, 'd, 'p, 'c, 'w) dm_state \<Rightarrow> bool" where
  "evolved fin s t \<longleftrightarrow> referendum_count s \<le> referendum_count t \<and>
     (\<forall>i < referendum_count s. follows fin (referendum_info_of s i) (referendum_info_of t i))"

lemma info_cases:
  obtains "a = None" | st where "a = Some (Ongoing st)" | stop approved where "a = Some (Finished stop approved)"
  by (metis option.exhaust referendum_info.exhaust)

lemma follows_refl [simp]: "follows fin a a"
  by (cases a rule: info_cases) (auto simp: same_question_def)

lemma follows_None [simp]: "follows fin a None"
  by (cases a rule: info_cases) auto

lemma follows_trans:
  assumes "follows fin a b" "follows fin b c"
  shows "follows fin a c"
  by (cases a rule: info_cases; cases b rule: info_cases; cases c rule: info_cases) (use assms in \<open>auto simp: same_question_def\<close>)

lemma follows_mono:
  assumes "follows fin a b" "\<And>e. fin e \<Longrightarrow> fin' e"
  shows "follows fin' a b"
  by (cases a rule: info_cases; cases b rule: info_cases) (use assms in auto)

lemma evolved_refl [simp]: "evolved fin s s"
  by (simp add: evolved_def)

lemma evolved_trans: "evolved fin s t \<Longrightarrow> evolved fin t u \<Longrightarrow> evolved fin s u"
  unfolding evolved_def using follows_trans order_trans order_less_le_trans by metis

lemma evolved_mono: "evolved fin s t \<Longrightarrow> (\<And>e. fin e \<Longrightarrow> fin' e) \<Longrightarrow> evolved fin' s t"
  unfolding evolved_def using follows_mono by blast

lemma evolved_fold: "(\<And>x s. evolved fin s (f x s)) \<Longrightarrow> evolved fin s (fold f xs s)"
  by (induction xs arbitrary: s) (auto intro: evolved_trans)

text \<open>Effects, on success and on failure; starting a referendum needs a free index, which \<open>b\<close> asks for.\<close>

definition evolving :: "bool \<Rightarrow> ('t, 'v, 'd, 'p, 'c, 'w, 'a) dm_eff \<Rightarrow> bool" where
  "evolving b m \<longleftrightarrow> (\<forall>s. (b \<longrightarrow> referendum_count s < u32_max) \<longrightarrow> evolved (\<lambda>_. False) s (snd (m s)) \<and> dm_now (snd (m s)) = dm_now s)"

text \<open>Most effects do not touch the referenda at all.\<close>

definition refs_of :: "('t, 'v, 'd, 'p, 'c, 'w) dm_state \<Rightarrow> nat \<times> (nat \<Rightarrow> 't referendum_info option) \<times> nat" where
  "refs_of s = (referendum_count s, referendum_info_of s, dm_now s)"

definition calm :: "('t, 'v, 'd, 'p, 'c, 'w, 'a) dm_eff \<Rightarrow> bool" where
  "calm m \<longleftrightarrow> (\<forall>s. refs_of (snd (m s)) = refs_of s)"

named_theorems calming \<open>effects that do not touch the referenda\<close>

lemma refs_same [simp]:
  "refs_of (s\<lparr>public_props := a\<rparr>) = refs_of s" "refs_of (s\<lparr>deposit_of := b\<rparr>) = refs_of s" "refs_of (s\<lparr>preimages := c\<rparr>) = refs_of s"
  "refs_of (s\<lparr>voting_of := d\<rparr>) = refs_of s" "refs_of (s\<lparr>last_tabled_was_external := e\<rparr>) = refs_of s"
  "refs_of (s\<lparr>next_external := f\<rparr>) = refs_of s" "refs_of (s\<lparr>blacklisted := g\<rparr>) = refs_of s" "refs_of (s\<lparr>cancellations := h\<rparr>) = refs_of s"
  "refs_of (s\<lparr>dm_world := w\<rparr>) = refs_of s" "refs_of (s\<lparr>dm_events := x\<rparr>) = refs_of s" "refs_of (on_dm_world k s) = refs_of s" "refs_of (dm_event ev s) = refs_of s"
  by (simp_all add: refs_of_def on_dm_world_def dm_event_def)

lemma refs_fields: "refs_of t = refs_of s \<Longrightarrow> referendum_count t = referendum_count s \<and> referendum_info_of t = referendum_info_of s \<and> dm_now t = dm_now s"
  by (simp add: refs_of_def)

lemma refs_evolved: "refs_of t = refs_of s \<Longrightarrow> evolved fin s t"
  by (simp add: refs_of_def evolved_def)

lemma calm_evolving: "calm m \<Longrightarrow> evolving b m"
  by (simp add: calm_def evolving_def refs_evolved) (simp add: refs_of_def)

lemma calm_basic [calming]:
  "calm (okE x)" "calm (failE e)" "calm (ensure c e)" "calm (ok_or v e)" "calm (getE f)" "calm (ensure_signed org)" "calm (ensure_root org)"
  "calm (inDm n)"
  by (auto simp: calm_def eff_defs ensure_signed_def ensure_root_def inDm_def split: option.splits origin.splits prod.splits)

lemma calm_bind [calming]: "calm m \<Longrightarrow> (\<And>x. calm (f x)) \<Longrightarrow> calm (bindE m f)"
  by (auto simp: calm_def bindE_def split: prod.splits sum.splits) (metis snd_conv)+

lemma calm_then [calming]: "calm m \<Longrightarrow> calm k \<Longrightarrow> calm (thenE m k)"
  by (simp add: thenE_def calm_bind)

lemma calm_when [calming]: "calm m \<Longrightarrow> calm (whenE c m)"
  by (simp add: whenE_def calm_basic)

lemma calm_result [calming]: "calm m \<Longrightarrow> calm (resultE m)" "calm m \<Longrightarrow> calm (map_errE g m)"
  by (auto simp: calm_def resultE_def map_errE_def split: prod.splits sum.splits) (metis snd_conv)+

lemma calm_cases [calming]:
  "calm m \<Longrightarrow> calm k \<Longrightarrow> calm (if c then m else k)"
  "calm m \<Longrightarrow> (\<And>x. calm (f x)) \<Longrightarrow> calm (case v of None \<Rightarrow> m | Some x \<Rightarrow> f x)"
  "(\<And>x y. calm (g x y)) \<Longrightarrow> calm (case p of (x, y) \<Rightarrow> g x y)"
  "(\<And>x. calm (h x)) \<Longrightarrow> calm (let x = u in h x)"
  "(\<And>b. calm (i b)) \<Longrightarrow> (\<And>a1 a2 a3 a4 a5 a6. calm (j a1 a2 a3 a4 a5 a6)) \<Longrightarrow>
     calm (case q of Missing b \<Rightarrow> i b | Available a1 a2 a3 a4 a5 a6 \<Rightarrow> j a1 a2 a3 a4 a5 a6)"
  "(\<And>e. calm (i' e)) \<Longrightarrow> (\<And>y. calm (j' y)) \<Longrightarrow> calm (case r of Inl e \<Rightarrow> i' e | Inr y \<Rightarrow> j' y)"
  by (simp_all split: option.split prod.split preimage_status.split sum.split)

lemma calm_modE: "(\<And>s. refs_of (f s) = refs_of s) \<Longrightarrow> calm (modE f)"
  by (simp add: calm_def modE_def)

lemma calm_status [calming]: "calm (referendum_status i)"
  unfolding referendum_status_def by (auto simp: calm_def eff_defs split: option.split referendum_info.split)

text \<open>First something calm, then something that evolves; or the other way round.\<close>

lemma evolving_after:
  assumes "calm m" "\<And>x. evolving b (f x)"
  shows "evolving b (bindE m f)"
  unfolding evolving_def
proof (intro allI impI)
  fix s :: "('a, 'b, 'c, 'd, 'e, 'f) dm_state"
  assume n: "b \<longrightarrow> referendum_count s < u32_max"
  obtain r t where m: "m s = (r, t)" by fastforce
  have t: "refs_of t = refs_of s" using assms(1) m by (metis calm_def snd_conv)
  show "evolved (\<lambda>_. False) s (snd (bindE m f s)) \<and> dm_now (snd (bindE m f s)) = dm_now s"
  proof (cases r)
    case (Inl e)
    then show ?thesis using refs_evolved[OF t] refs_fields[OF t] by (simp add: bindE_def m)
  next
    case (Inr x)
    have "evolved (\<lambda>_. False) t (snd (f x t)) \<and> dm_now (snd (f x t)) = dm_now t"
      using assms(2)[of x] n refs_fields[OF t] by (simp add: evolving_def)
    then show ?thesis using Inr evolved_trans[OF refs_evolved[OF t]] refs_fields[OF t] by (simp add: bindE_def m)
  qed
qed

lemma evolving_after_then: "calm m \<Longrightarrow> evolving b k \<Longrightarrow> evolving b (thenE m k)"
  by (simp add: thenE_def evolving_after)

lemma evolving_modE: "(\<And>s. (b \<longrightarrow> referendum_count s < u32_max) \<Longrightarrow> evolved (\<lambda>_. False) s (f s) \<and> dm_now (f s) = dm_now s) \<Longrightarrow> evolving b (modE f)"
  by (simp add: evolving_def modE_def)

section \<open>Calls\<close>

text \<open>What a dispatched proposal may do: it is a call, so that it does not finish a referendum, and time does not pass.\<close>

definition dispatch_ok :: "('t, 'v, 'd, 'p, 'c, 'w) dm_config \<Rightarrow> bool" where
  "dispatch_ok cfg \<longleftrightarrow> (\<forall>data call s. dm_dispatch cfg data = Some call \<longrightarrow>
     evolved (\<lambda>_. False) s (snd (call s)) \<and> dm_now (snd (call s)) = dm_now s)"

lemma cancel_evolved: "evolved (\<lambda>_. False) s (internal_cancel_referendum i t)" if "refs_of t = refs_of s"
  using that by (auto simp: internal_cancel_referendum_def evolved_def refs_of_def dm_event_def)

lemma tally_evolved:
  assumes "referendum_info_of s i = Some (Ongoing st)" "refs_of t = refs_of s"
  shows "evolved (\<lambda>_. False) s (put_referendum i (Ongoing (st\<lparr>rs_tally := x\<rparr>)) t)"
proof -
  have "follows (\<lambda>_. False) (Some (Ongoing st)) (Some (Ongoing (st\<lparr>rs_tally := x\<rparr>)))" by (simp add: same_question_def)
  then show ?thesis using assms refs_fields[OF assms(2)] by (auto simp: put_referendum_def evolved_def)
qed

lemma put_now [simp]: "dm_now (put_referendum i x t) = dm_now t" "dm_now (internal_cancel_referendum i t) = dm_now t"
  by (simp_all add: put_referendum_def internal_cancel_referendum_def dm_event_def)

lemma inject_evolved:
  assumes "referendum_count s < u32_max" "refs_of t = refs_of s"
  shows "evolved fin s (snd (inject_referendum cfg e h th d t)) \<and> dm_now (snd (inject_referendum cfg e h th d t)) = dm_now s"
  using assms refs_fields[OF assms(2)] by (auto simp: inject_referendum_def Let_def put_referendum_def dm_event_def evolved_def)

lemma quiet_calls:
  "calm (external_propose cfg org h)" "calm (external_propose_majority cfg org h)" "calm (external_propose_default cfg org h)"
  "calm (veto_external cfg org h)" "calm (cancel_queued cfg org i)" "calm (clear_public_proposals org)" "calm (cancel_proposal cfg org j)"
  "calm (note_preimage_inner cfg who c d)" "calm (note_imminent_preimage_inner cfg who c d)" "calm (reap_preimage cfg org h k)" "calm (unlock cfg org who)"
proof -
  have slash: "refs_of (slash_depositors cfg j s) = refs_of s" for j s
    by (simp add: slash_depositors_def split: option.split)
  show "calm (external_propose cfg org h)" "calm (external_propose_majority cfg org h)" "calm (external_propose_default cfg org h)"
    "calm (cancel_queued cfg org i)" "calm (clear_public_proposals org)" "calm (cancel_proposal cfg org j)"
    unfolding external_propose_def external_propose_majority_def external_propose_default_def cancel_queued_def
      clear_public_proposals_def cancel_proposal_def
    by (intro calming calm_modE; simp add: slash)+
  show "calm (veto_external cfg org h)"
    unfolding veto_external_def by (intro calming calm_modE) (simp add: Let_def)
  show "calm (note_preimage_inner cfg who c d)" "calm (note_imminent_preimage_inner cfg who c d)"
    unfolding note_preimage_inner_def note_imminent_preimage_inner_def check_pre_image_is_missing_def
    by (intro calming calm_modE; simp)+
  show "calm (reap_preimage cfg org h k)"
    unfolding reap_preimage_def pre_image_data_len_def by (intro calming calm_modE) simp
  show "calm (unlock cfg org who)"
    unfolding unlock_def update_lock_def by (intro calming calm_modE) (simp add: Let_def)
qed

lemma cancelling_calls:
  "evolving b (emergency_cancel cfg org i)" "evolving b (cancel_referendum org i)" "evolving True (fast_track cfg org h vp dl)" "evolving b (blacklist cfg org h ri)"
proof -
  show "evolving b (emergency_cancel cfg org i)"
    unfolding emergency_cancel_def Let_def
    by (intro evolving_after_then evolving_after calming evolving_modE) (simp add: cancel_evolved)
  show "evolving b (cancel_referendum org i)"
    unfolding cancel_referendum_def by (intro evolving_after_then calming evolving_modE) (simp add: cancel_evolved)
  have modprod: "evolving True (case x of (a, b) \<Rightarrow> f a b)" if "\<And>a b. evolving True (f a b)" for x and f :: "'x \<Rightarrow> 'y \<Rightarrow> ('a, 'b, 'c, 'd, 'e, 'f, unit) dm_eff"
    using that by (cases x) simp
  show "evolving True (fast_track cfg org h vp dl)"
    unfolding fast_track_def
    by (intro evolving_after_then evolving_after modprod calming evolving_modE inject_evolved) simp_all
  have slash: "refs_of (slash_depositors cfg j s) = refs_of s" for j s
    by (simp add: slash_depositors_def split: option.split)
  show "evolving b (blacklist cfg org h ri)"
    unfolding blacklist_def
  proof (intro evolving_after_then calming evolving_modE)
    fix s :: "('a, 'b, 'c, 'd, 'e, 'f) dm_state"
    define s1 where "s1 = s\<lparr>blacklisted := (blacklisted s)(h \<mapsto> (u32_max, []))\<rparr>"
    define s2 where "s2 = (case position (\<lambda>(_, g, _). g = h) (public_props s1) of None \<Rightarrow> s1
        | Some i \<Rightarrow> slash_depositors cfg (fst (public_props s1 ! i)) (s1\<lparr>public_props := remove_at i (public_props s1)\<rparr>))"
    define s3 where "s3 = (if map_option fst (next_external s2) = Some h then s2\<lparr>next_external := None\<rparr> else s2)"
    have s3: "refs_of s3 = refs_of s" by (simp add: s3_def s2_def s1_def slash split: option.split)
    have quiet: "evolved (\<lambda>_. False) s (dm_event ev s3) \<and> dm_now (dm_event ev s3) = dm_now s" for ev
      using s3 refs_evolved[of "dm_event ev s3" s] refs_fields[of "dm_event ev s3" s] by simp
    have cancelled: "evolved (\<lambda>_. False) s (dm_event ev (internal_cancel_referendum j s3)) \<and> dm_now (dm_event ev (internal_cancel_referendum j s3)) = dm_now s" for ev j
      using evolved_trans[OF cancel_evolved[OF s3] refs_evolved[of "dm_event ev (internal_cancel_referendum j s3)"]] refs_fields[OF s3]
      by (simp add: dm_event_def)
    show "evolved (\<lambda>_. False) s (let s1 = s\<lparr>blacklisted := (blacklisted s)(h \<mapsto> (u32_max, []))\<rparr>;
          s2 = (case position (\<lambda>(_, g, _). g = h) (public_props s1) of None \<Rightarrow> s1
             | Some i \<Rightarrow> slash_depositors cfg (fst (public_props s1 ! i)) (s1\<lparr>public_props := remove_at i (public_props s1)\<rparr>));
          s3 = (if map_option fst (next_external s2) = Some h then s2\<lparr>next_external := None\<rparr> else s2);
          s4 = (case ri of None \<Rightarrow> s3 | Some ref_index \<Rightarrow> (case referendum_info_of s3 ref_index of
               Some (Ongoing status) \<Rightarrow> if rs_proposal_hash status = h then internal_cancel_referendum ref_index s3 else s3 | _ \<Rightarrow> s3))
        in dm_event (Blacklisted h) s4) \<and>
      dm_now (let s1 = s\<lparr>blacklisted := (blacklisted s)(h \<mapsto> (u32_max, []))\<rparr>;
          s2 = (case position (\<lambda>(_, g, _). g = h) (public_props s1) of None \<Rightarrow> s1
             | Some i \<Rightarrow> slash_depositors cfg (fst (public_props s1 ! i)) (s1\<lparr>public_props := remove_at i (public_props s1)\<rparr>));
          s3 = (if map_option fst (next_external s2) = Some h then s2\<lparr>next_external := None\<rparr> else s2);
          s4 = (case ri of None \<Rightarrow> s3 | Some ref_index \<Rightarrow> (case referendum_info_of s3 ref_index of
               Some (Ongoing status) \<Rightarrow> if rs_proposal_hash status = h then internal_cancel_referendum ref_index s3 else s3 | _ \<Rightarrow> s3))
        in dm_event (Blacklisted h) s4) = dm_now s"
      unfolding Let_def s1_def[symmetric] s2_def[symmetric] s3_def[symmetric]
      using quiet cancelled by (simp split: option.split referendum_info.split)
  qed
qed

subsection \<open>Votes and delegations\<close>

lemma try_vote_result:
  "snd (try_vote cfg who i v s) = s \<or> (\<exists>st x vt. referendum_info_of s i = Some (Ongoing st) \<and>
     cast_vote cfg i v (rs_tally st) (voting_of s who) = Inr (x, vt) \<and>
     try_vote cfg who i v s = (Inr (), put_referendum i (Ongoing (st\<lparr>rs_tally := x\<rparr>))
       (on_dm_world (dm_extend_lock cfg who (vo_balance (dm_votes cfg) v)) (s\<lparr>voting_of := (voting_of s)(who := vt)\<rparr>))))"
proof (cases "referendum_info_of s i" rule: info_cases)
  case (2 st)
  show ?thesis
  proof (cases "cast_vote cfg i v (rs_tally st) (voting_of s who)")
    case (Inr y)
    obtain x vt where y: "y = (x, vt)" by fastforce
    have "try_vote cfg who i v s = (if vo_balance (dm_votes cfg) v \<le> dm_free_balance cfg who (dm_world s)
        then (Inr (), put_referendum i (Ongoing (st\<lparr>rs_tally := x\<rparr>))
                (on_dm_world (dm_extend_lock cfg who (vo_balance (dm_votes cfg) v)) (s\<lparr>voting_of := (voting_of s)(who := vt)\<rparr>)))
        else (Inl (dmE InsufficientFunds), s))"
      using 2 Inr y by (simp add: try_vote_def referendum_status_def eff_defs)
    then show ?thesis using 2 Inr y by (metis snd_conv)
  qed (use 2 in \<open>simp add: try_vote_def referendum_status_def eff_defs\<close>)
qed (simp_all add: try_vote_def referendum_status_def eff_defs)

lemma vote_evolving: "evolving b (dm_vote cfg org i v)"
proof -
  have "evolving b (try_vote cfg who i v)" for who
    unfolding evolving_def
  proof (intro allI impI)
    fix s :: "('a, 'b, 'c, 'd, 'e, 'f) dm_state"
    show "evolved (\<lambda>_. False) s (snd (try_vote cfg who i v s)) \<and> dm_now (snd (try_vote cfg who i v s)) = dm_now s"
      using try_vote_result[of cfg who i v s]
    proof (elim disjE exE conjE)
      fix st x vt
      define t where "t = on_dm_world (dm_extend_lock cfg who (vo_balance (dm_votes cfg) v)) (s\<lparr>voting_of := (voting_of s)(who := vt)\<rparr>)"
      assume st: "referendum_info_of s i = Some (Ongoing st)" and run: "try_vote cfg who i v s = (Inr (), put_referendum i (Ongoing (st\<lparr>rs_tally := x\<rparr>))
        (on_dm_world (dm_extend_lock cfg who (vo_balance (dm_votes cfg) v)) (s\<lparr>voting_of := (voting_of s)(who := vt)\<rparr>)))"
      have "refs_of t = refs_of s" by (simp add: t_def)
      then show ?thesis using tally_evolved[OF st] refs_fields[of t s] by (simp add: run flip: t_def)
    qed simp
  qed
  then show ?thesis unfolding dm_vote_def by (intro evolving_after calming)
qed

lemma remove_vote_evolving: "evolving b (try_remove_vote cfg who i scope)"
  unfolding evolving_def
proof (intro allI impI)
  fix s :: "('a, 'b, 'c, 'd, 'e, 'f) dm_state"
  have same: "evolved (\<lambda>_. False) s (s\<lparr>voting_of := f\<rparr>) \<and> dm_now (s\<lparr>voting_of := f\<rparr>) = dm_now s" for f
    by (simp add: refs_evolved)
  have moved: "evolved (\<lambda>_. False) s ((put_referendum i (Ongoing (st\<lparr>rs_tally := x\<rparr>)) s)\<lparr>voting_of := f\<rparr>) \<and>
      dm_now ((put_referendum i (Ongoing (st\<lparr>rs_tally := x\<rparr>)) s)\<lparr>voting_of := f\<rparr>) = dm_now s"
    if "referendum_info_of s i = Some (Ongoing st)" for st x f
    using evolved_trans[OF tally_evolved[OF that refl, of x] refs_evolved[OF refs_same(4)]] by (simp add: put_referendum_def)
  show "evolved (\<lambda>_. False) s (snd (try_remove_vote cfg who i scope s)) \<and> dm_now (snd (try_remove_vote cfg who i scope s)) = dm_now s"
  proof (cases "voting_of s who")
    case (Direct votes delegations prior)
    show ?thesis
    proof (cases "search_sorted i (map fst votes)")
      case (Inr k)
      show ?thesis
      proof (cases "referendum_info_of s i" rule: info_cases)
        case 1
        then show ?thesis using Direct Inr same by (simp add: try_remove_vote_def eff_defs)
      next
        case (2 st)
        then show ?thesis
          using Direct Inr same[of "voting_of s"] moved[OF 2]
          by (simp add: try_remove_vote_def eff_defs Let_def split: option.split)
      next
        case (3 stop approved)
        then show ?thesis
          using Direct Inr same same[of "voting_of s"] by (simp add: try_remove_vote_def eff_defs Let_def split: option.split prod.split)
      qed
    qed (use Direct same[of "voting_of s"] in \<open>simp add: try_remove_vote_def eff_defs\<close>)
  qed (use same[of "voting_of s"] in \<open>simp add: try_remove_vote_def eff_defs\<close>)
qed

lemma move_evolved: "evolved (\<lambda>_. False) s (move_tally cfg mv am v s) \<and> dm_now (move_tally cfg mv am v s) = dm_now s"
proof -
  obtain i w where v: "v = (i, w)" by fastforce
  show ?thesis
    using tally_evolved[OF _ refl] by (cases "referendum_info_of s i" rule: info_cases; cases "vo_as_standard (dm_votes cfg) w")
      (auto simp: v move_tally_def)
qed

lemma upstream_evolved:
  "evolved (\<lambda>_. False) s (increase_upstream_delegation cfg to am s) \<and> dm_now (increase_upstream_delegation cfg to am s) = dm_now s"
  "evolved (\<lambda>_. False) s (reduce_upstream_delegation cfg to am s) \<and> dm_now (reduce_upstream_delegation cfg to am s) = dm_now s"
proof -
  have now: "dm_now (fold (move_tally cfg mv am) vs s) = dm_now s" for mv vs s
    by (induction vs arbitrary: s) (simp_all add: move_evolved)
  have votes: "evolved (\<lambda>_. False) s (fold (move_tally cfg mv am) vs (s\<lparr>voting_of := f\<rparr>))" for mv vs f
    by (rule evolved_trans[OF refs_evolved[OF refs_same(4)] evolved_fold]) (simp add: move_evolved)
  show "evolved (\<lambda>_. False) s (increase_upstream_delegation cfg to am s) \<and> dm_now (increase_upstream_delegation cfg to am s) = dm_now s"
    "evolved (\<lambda>_. False) s (reduce_upstream_delegation cfg to am s) \<and> dm_now (reduce_upstream_delegation cfg to am s) = dm_now s"
    by (simp_all add: increase_upstream_delegation_def reduce_upstream_delegation_def Let_def now votes refs_evolved split: voting.split)
qed

lemma delegation_calls: "evolving b (delegate cfg org to cv bal)" "evolving b (undelegate cfg org)"
proof -
  have step: "evolved (\<lambda>_. False) s (dm_event ev ((on_dm_world g t)\<lparr>voting_of := f\<rparr>)) \<and> dm_now (dm_event ev ((on_dm_world g t)\<lparr>voting_of := f\<rparr>)) = dm_now s"
    if "evolved (\<lambda>_. False) s t \<and> dm_now t = dm_now s" for s t :: "('a, 'b, 'c, 'd, 'e, 'f) dm_state" and ev g f
    using evolved_trans[OF conjunct1[OF that] refs_evolved[of "dm_event ev ((on_dm_world g t)\<lparr>voting_of := f\<rparr>)"]] that
      refs_fields[of "dm_event ev ((on_dm_world g t)\<lparr>voting_of := f\<rparr>)" t] by simp
  have step': "evolved (\<lambda>_. False) s (dm_event ev (t\<lparr>voting_of := f\<rparr>)) \<and> dm_now (dm_event ev (t\<lparr>voting_of := f\<rparr>)) = dm_now s"
    if "evolved (\<lambda>_. False) s t \<and> dm_now t = dm_now s" for s t :: "('a, 'b, 'c, 'd, 'e, 'f) dm_state" and ev f
    using step[OF that, where ev = ev and g = id and f = f] by (simp add: on_dm_world_def)
  have both: "evolved (\<lambda>_. False) s (increase_upstream_delegation cfg x m (reduce_upstream_delegation cfg y n s)) \<and>
      dm_now (increase_upstream_delegation cfg x m (reduce_upstream_delegation cfg y n s)) = dm_now s" for s x m y n
    using upstream_evolved(2)[of s cfg y n] upstream_evolved(1)[of "reduce_upstream_delegation cfg y n s" cfg x m]
    by (auto intro: evolved_trans)
  have "evolving b (try_delegate cfg who to cv bal)" for who
    unfolding try_delegate_def Let_def
    by (intro evolving_after_then evolving_after calming)
      (auto intro!: evolving_after_then evolving_modE calming step both upstream_evolved split: voting.split)
  then show "evolving b (delegate cfg org to cv bal)" unfolding delegate_def by (intro evolving_after calming)
  have "evolving b (try_undelegate cfg who)" for who
    unfolding try_undelegate_def
    by (intro evolving_after calming)
      (auto simp: Let_def intro!: evolving_modE calm_evolving[OF calm_basic(2)] step' upstream_evolved split: voting.split)
  then show "evolving b (undelegate cfg org)" unfolding undelegate_def by (intro evolving_after calming)
qed

subsection \<open>Enactment\<close>

lemma enact_evolving:
  assumes ok: "dispatch_ok cfg"
  shows "evolving b (do_enact_proposal cfg h i)" "evolving b (enact_proposal cfg org h i)"
proof -
  have call: "evolved (\<lambda>_. False) s (dm_event ev (snd (f t))) \<and> dm_now (dm_event ev (snd (f t))) = dm_now s"
    if "refs_of t = refs_of s" "dm_dispatch cfg data = Some f" for s t :: "('a, 'b, 'c, 'd, 'e, 'f) dm_state" and data f ev
  proof -
    have "evolved (\<lambda>_. False) t (snd (f t)) \<and> dm_now (snd (f t)) = dm_now t" using ok that(2) unfolding dispatch_ok_def by blast
    moreover have "evolved (\<lambda>_. False) (snd (f t)) (dm_event ev (snd (f t)))" "dm_now (dm_event ev (snd (f t))) = dm_now (snd (f t))"
      using refs_evolved[of "dm_event ev (snd (f t))" "snd (f t)"] by (simp_all add: dm_event_def)
    ultimately show ?thesis using evolved_trans[OF refs_evolved[OF that(1)]] refs_fields[OF that(1)] evolved_trans by metis
  qed
  have missing: "evolving b (thenE (modE (dm_event ev)) (failE e))" "evolving b (thenE (modE (\<lambda>s. dm_event ev (on_dm_world g s))) (failE e))" for ev e g
    by (intro calm_evolving calming calm_modE; simp)+
  show *: "evolving b (do_enact_proposal cfg h i)"
    unfolding do_enact_proposal_def
    by (intro evolving_after evolving_after_then calming calm_modE)
      (auto simp: Let_def case_prod_beta intro!: missing evolving_modE call split: option.split preimage_status.split)
  show "evolving b (enact_proposal cfg org h i)" unfolding enact_proposal_def by (intro evolving_after_then calming *)
qed

section \<open>Blocks\<close>

lemma launch_evolving: "evolving True (launch_external cfg now)" "evolving True (launch_public cfg now)" "evolving True (launch_next cfg now)"
proof -
  show 1: "evolving True (launch_external cfg now)" for cfg :: "('a, 'b, 'c, 'd, 'e, 'f) dm_config"
    unfolding launch_external_def
    by (intro evolving_after calming) (auto intro!: evolving_modE inject_evolved calm_evolving[OF calm_basic(2)] split: option.split)
  show 2: "evolving True (launch_public cfg now)" for cfg :: "('a, 'b, 'c, 'd, 'e, 'f) dm_config"
    unfolding launch_public_def
    by (intro evolving_after calming)
      (auto simp: Let_def refs_evolved[OF refs_same(1)] intro!: evolving_modE inject_evolved[THEN conjunct1] inject_evolved[THEN conjunct2]
        calm_evolving[OF calm_basic(2)] split: option.split prod.split)
  have fails: "launch_external cfg now s = (Inl e, t) \<Longrightarrow> t = s" "launch_public cfg now s = (Inl e, t) \<Longrightarrow> t = s" for s t e
    by (auto simp: launch_external_def launch_public_def eff_defs split: option.splits)
  have alt: "evolving True (or_elseE m k)" if mk: "evolving True m" "evolving True k" "\<And>s e t. m s = (Inl e, t) \<Longrightarrow> t = s" for m k :: "('a, 'b, 'c, 'd, 'e, 'f, unit) dm_eff"
    unfolding evolving_def
  proof (intro allI impI)
    fix s :: "('a, 'b, 'c, 'd, 'e, 'f) dm_state"
    assume n: "True \<longrightarrow> referendum_count s < u32_max"
    obtain r t where m: "m s = (r, t)" by fastforce
    have "snd (or_elseE m k s) = snd (k s) \<or> snd (or_elseE m k s) = snd (m s)"
      using mk(3)[of s] m by (cases r) (auto simp: or_elseE_def)
    then show "evolved (\<lambda>_. False) s (snd (or_elseE m k s)) \<and> dm_now (snd (or_elseE m k s)) = dm_now s"
      using mk(1,2) n unfolding evolving_def by metis
  qed
  have "evolving True (if c then or_elseE (launch_public cfg now) (launch_external cfg now) else or_elseE (launch_external cfg now) (launch_public cfg now))" for c
    using alt[OF 1 2 fails(1)] alt[OF 2 1 fails(2)] by (cases c) simp_all
  moreover have "evolving True (map_errE g m)" if "evolving True m" for m :: "('a, 'b, 'c, 'd, 'e, 'f, unit) dm_eff" and g
  proof -
    have "snd (map_errE g m s) = snd (m s)" for s by (simp add: map_errE_def split: prod.split sum.split)
    then show ?thesis using that by (simp add: evolving_def)
  qed
  ultimately show "evolving True (launch_next cfg now)"
    unfolding launch_next_def by (intro evolving_after evolving_after_then calming calm_modE) simp_all
qed

lemma result_evolving: "evolving b (resultE m)" "evolving b (bindE (resultE m) (\<lambda>_. okE x))" if "evolving b m"
proof -
  have "snd (resultE m s) = snd (m s)" "snd (bindE (resultE m) (\<lambda>_. okE x) s) = snd (m s)" for s
    by (simp_all add: resultE_def bindE_def okE_def split: prod.split)
  then show "evolving b (resultE m)" "evolving b (bindE (resultE m) (\<lambda>_. okE x))" using that by (simp_all add: evolving_def)
qed

lemma bake_evolving:
  assumes "dispatch_ok cfg"
  shows "evolving b (bake_referendum cfg now i st)"
proof -
  have now: "evolving b (thenE (modE (dm_event (Passed i))) (bindE (resultE (do_enact_proposal cfg h i)) (\<lambda>_. okE True)))" for h
    by (intro evolving_after_then calm_modE result_evolving(2) enact_evolving(1)[OF assms]) simp
  have later: "evolving b (thenE (modE (dm_event (Passed i)))
      (let when = wrap_add u32_max now (rs_delay st) in thenE (modE (\<lambda>s. s\<lparr>preimages := f s when\<rparr>))
         (bindE (resultE (inDm (dm_schedule cfg i when h))) (\<lambda>_. okE True))))" for h f
    unfolding Let_def by (intro evolving_after_then calm_modE result_evolving(2) calm_evolving[OF calm_basic(8)]) simp_all
  have rejected: "evolving b (thenE (modE (dm_event (NotPassed i))) (okE False))" by (intro calm_evolving calming calm_modE) simp
  show ?thesis
    unfolding bake_referendum_def Let_def[of "rs_proposal_hash st"]
    by (intro evolving_after calming)
      (auto split: option.split preimage_status.split intro: now later rejected calm_evolving[OF calm_basic(2)] intro!: evolving_after calm_basic)
qed

lemma bake_all_evolved:
  assumes "dispatch_ok cfg" "\<And>i st. (i, st) \<in> set infos \<Longrightarrow> referendum_info_of s0 i = Some (Ongoing st) \<and> rs_end st = now"
    and "evolved (\<lambda>e. e = now) s0 s"
  shows "evolved (\<lambda>e. e = now) s0 (snd (bake_all cfg now infos s)) \<and> dm_now (snd (bake_all cfg now infos s)) = dm_now s"
  using assms(2,3)
proof (induction infos arbitrary: s)
  case Nil
  then show ?case by (simp add: bake_all_def okE_def)
next
  case (Cons x infos)
  obtain i st where x: "x = (i, st)" by fastforce
  obtain r t where bake: "bake_referendum cfg now i st s = (r, t)" by fastforce
  have "evolved (\<lambda>_. False) s t" and t': "dm_now t = dm_now s"
    using bake_evolving[OF assms(1), of False now i st] bake unfolding evolving_def by (metis snd_conv)+
  then have t: "evolved (\<lambda>e. e = now) s0 t" using evolved_trans[OF Cons.prems(2)] evolved_mono by blast
  show ?case
  proof (cases r)
    case (Inl e)
    then show ?thesis using t t' by (simp add: bake_all_def x thenE_def bindE_def bake)
  next
    case (Inr approved)
    have "evolved (\<lambda>e. e = now) s0 (put_referendum i (Finished now approved) t)"
      using t Cons.prems(1)[of i st] by (auto simp: x evolved_def put_referendum_def)
    from Cons.IH[OF Cons.prems(1) this] t' show ?thesis
      using Inr by (simp add: bake_all_def x thenE_def bindE_def bake modE_def)
  qed
qed

lemma maturing_in:
  assumes "(i, st) \<in> set (maturing_referenda_at_inner n ids s)"
  shows "referendum_info_of s i = Some (Ongoing st) \<and> rs_end st = n \<and> i \<in> set ids"
proof -
  obtain j where j: "j \<in> set ids" "(i, st) \<in> set (case referendum_info_of s j of Some (Ongoing status) \<Rightarrow> [(j, status)] | _ \<Rightarrow> [])" "rs_end st = n"
    using assms by (auto simp: maturing_referenda_at_inner_def)
  then show ?thesis by (cases "referendum_info_of s j" rule: info_cases) auto
qed

lemma bind_get: "bindE (getE f) k s = k (f s) s"
  by (simp add: bindE_def getE_def)

lemma then_mod: "thenE (modE f) k s = k (f s)"
  by (simp add: thenE_def bindE_def modE_def)

text \<open>A block first launches what is next, then bakes what ends in it.\<close>

definition launched :: "('t, 'v, 'd, 'p, 'c, 'w) dm_config \<Rightarrow> block_number \<Rightarrow> ('t, 'v, 'd, 'p, 'c, 'w) dm_state \<Rightarrow> ('t, 'v, 'd, 'p, 'c, 'w) dm_state" where
  "launched cfg n s = (if n mod dm_launch_period cfg = 0 then snd (launch_next cfg n s) else s)"

lemma begin_block_bakes:
  "begin_block cfg n s = (if dm_launch_period cfg = 0 then (Inl Panic, s)
     else bake_all cfg n (maturing_referenda_at n (launched cfg n s)) (launched cfg n s))"
proof -
  define m where "m = whenE (n mod dm_launch_period cfg = 0) (bindE (resultE (launch_next cfg n)) (\<lambda>_. okE ()))"
  have "m s = (Inr (), launched cfg n s)"
    by (simp add: m_def whenE_def launched_def bindE_def okE_def resultE_def split: prod.split)
  then have "thenE m k s = k (launched cfg n s)" for k :: "('a, 'b, 'c, 'd, 'e, 'f, unit) dm_eff" by (simp add: thenE_def bindE_def)
  moreover have "thenE (ensure True e) k = k" "thenE (ensure False e) k s = (Inl e, s)" for e and k :: "('a, 'b, 'c, 'd, 'e, 'f, unit) dm_eff"
    by (simp_all add: thenE_def ensure_def bindE_okE bindE_failE) (simp add: failE_def)
  ultimately show ?thesis by (simp add: begin_block_def bind_get maturing_referenda_at_def flip: m_def)
qed

lemma begin_block_evolved:
  assumes "dispatch_ok cfg" "referendum_count s < u32_max"
  shows "evolved (\<lambda>e. e = n) s (snd (begin_block cfg n s)) \<and> dm_now (snd (begin_block cfg n s)) = dm_now s"
proof -
  have t: "evolved (\<lambda>_. False) s (launched cfg n s)" "dm_now (launched cfg n s) = dm_now s"
    using launch_evolving(3)[of cfg n] assms(2) by (simp_all add: launched_def evolving_def)
  have "evolved (\<lambda>e. e = n) t (snd (bake_all cfg n (maturing_referenda_at n t) t)) \<and> dm_now (snd (bake_all cfg n (maturing_referenda_at n t) t)) = dm_now t" for t
    by (rule bake_all_evolved[OF assms(1)]) (use maturing_in in \<open>unfold maturing_referenda_at_def, blast\<close>, simp)
  then show ?thesis using t evolved_trans[OF evolved_mono[OF t(1)]] by (simp add: begin_block_bakes)
qed

section \<open>Runs\<close>

datatype ('v, 'c) dm_call =
    External_Propose proposal_hash
  | External_Propose_Majority proposal_hash
  | External_Propose_Default proposal_hash
  | Fast_Track proposal_hash block_number block_number
  | Veto_External proposal_hash
  | Emergency_Cancel referendum_index
  | Cancel_Referendum referendum_index
  | Cancel_Queued referendum_index
  | Clear_Public_Proposals
  | Blacklist proposal_hash "referendum_index option"
  | Cancel_Proposal prop_index
  | Vote_On referendum_index 'v
  | Remove_Vote referendum_index
  | Remove_Other_Vote account_id referendum_index
  | Delegate account_id 'c balance
  | Undelegate
  | Unlock account_id
  | Note_Preimage currency_id "u8 list"
  | Note_Imminent_Preimage currency_id "u8 list"
  | Reap_Preimage proposal_hash nat
  | Enact_Proposal proposal_hash referendum_index

fun dm_exec :: "('t, 'v, 'd, 'p, 'c, 'w) dm_config \<Rightarrow> origin \<Rightarrow> ('v, 'c) dm_call \<Rightarrow> ('t, 'v, 'd, 'p, 'c, 'w, unit) dm_eff" where
  "dm_exec cfg org (External_Propose h) = external_propose cfg org h"
| "dm_exec cfg org (External_Propose_Majority h) = external_propose_majority cfg org h"
| "dm_exec cfg org (External_Propose_Default h) = external_propose_default cfg org h"
| "dm_exec cfg org (Fast_Track h vp dl) = fast_track cfg org h vp dl"
| "dm_exec cfg org (Veto_External h) = veto_external cfg org h"
| "dm_exec cfg org (Emergency_Cancel i) = emergency_cancel cfg org i"
| "dm_exec cfg org (Cancel_Referendum i) = cancel_referendum org i"
| "dm_exec cfg org (Cancel_Queued i) = cancel_queued cfg org i"
| "dm_exec cfg org Clear_Public_Proposals = clear_public_proposals org"
| "dm_exec cfg org (Blacklist h ri) = blacklist cfg org h ri"
| "dm_exec cfg org (Cancel_Proposal j) = cancel_proposal cfg org j"
| "dm_exec cfg org (Vote_On i v) = dm_vote cfg org i v"
| "dm_exec cfg org (Remove_Vote i) = remove_vote cfg org i"
| "dm_exec cfg org (Remove_Other_Vote who i) = remove_other_vote cfg org who i"
| "dm_exec cfg org (Delegate to cv bal) = delegate cfg org to cv bal"
| "dm_exec cfg org Undelegate = undelegate cfg org"
| "dm_exec cfg org (Unlock who) = unlock cfg org who"
| "dm_exec cfg org (Note_Preimage c d) = bindE (ensure_signed org) (\<lambda>who. note_preimage_inner cfg who c d)"
| "dm_exec cfg org (Note_Imminent_Preimage c d) = bindE (ensure_signed org) (\<lambda>who. note_imminent_preimage_inner cfg who c d)"
| "dm_exec cfg org (Reap_Preimage h k) = reap_preimage cfg org h k"
| "dm_exec cfg org (Enact_Proposal h i) = enact_proposal cfg org h i"

datatype ('v, 'c) dm_action = Call origin "('v, 'c) dm_call" | Block block_number

text \<open>A call that fails keeps what it wrote, as \<open>enact_proposal\<close> does with the preimage; blocks have growing numbers.\<close>

inductive dm_run ::
  "('t, 'v, 'd, 'p, 'c, 'w) dm_config \<Rightarrow> ('t, 'v, 'd, 'p, 'c, 'w) dm_state \<Rightarrow> ('v, 'c) dm_action list \<Rightarrow>
   ('t, 'v, 'd, 'p, 'c, 'w) dm_state \<Rightarrow> bool" for cfg s where
  Run_Start: "dm_run cfg s [] s"
| Run_Call: "dm_run cfg s acts t \<Longrightarrow> referendum_count t < u32_max \<Longrightarrow> dm_run cfg s (acts @ [Call org c]) (snd (dm_exec cfg org c t))"
| Run_Block: "dm_run cfg s acts t \<Longrightarrow> referendum_count t < u32_max \<Longrightarrow> dm_now t < n \<Longrightarrow>
     dm_run cfg s (acts @ [Block n]) (dm_on_initialize cfg n (t\<lparr>dm_now := n\<rparr>))"

lemma exec_evolving: "dispatch_ok cfg \<Longrightarrow> evolving True (dm_exec cfg org c)"
proof (cases c)
  case (Remove_Other_Vote who i)
  then show ?thesis by (simp add: remove_other_vote_def evolving_after[OF calm_basic(6)] remove_vote_evolving)
qed (auto simp: remove_vote_def intro: evolving_after[OF calm_basic(6)] remove_vote_evolving quiet_calls[THEN calm_evolving] cancelling_calls
      vote_evolving delegation_calls enact_evolving calm_evolving[OF calm_bind])

lemma block_evolved:
  assumes "dispatch_ok cfg" "referendum_count s < u32_max"
  shows "evolved (\<lambda>e. e = n) s (dm_on_initialize cfg n (s\<lparr>dm_now := n\<rparr>)) \<and> dm_now (dm_on_initialize cfg n (s\<lparr>dm_now := n\<rparr>)) = n"
  using begin_block_evolved[OF assms(1), of "s\<lparr>dm_now := n\<rparr>" n] assms(2)
  by (simp add: dm_on_initialize_def evolved_def)

lemma run_history:
  assumes "dm_run cfg s acts t" "dispatch_ok cfg"
  shows "evolved (\<lambda>e. Block e \<in> set acts) s t \<and> dm_now s \<le> dm_now t \<and> (\<forall>n. Block n \<in> set acts \<longrightarrow> dm_now s < n \<and> n \<le> dm_now t)"
  using assms(1)
proof induction
  case Run_Start
  then show ?case by simp
next
  case (Run_Call acts t org c)
  have step: "evolved (\<lambda>_. False) t (snd (dm_exec cfg org c t))" "dm_now (snd (dm_exec cfg org c t)) = dm_now t"
    using exec_evolving[OF assms(2), of org c] Run_Call.hyps by (simp_all add: evolving_def)
  have "evolved (\<lambda>e. Block e \<in> set acts) s (snd (dm_exec cfg org c t))"
    using Run_Call.IH evolved_trans[OF _ evolved_mono[OF step(1)]] by blast
  then show ?case using Run_Call.IH step(2) by simp
next
  case (Run_Block acts t n)
  have step: "evolved (\<lambda>e. e = n) t (dm_on_initialize cfg n (t\<lparr>dm_now := n\<rparr>))" "dm_now (dm_on_initialize cfg n (t\<lparr>dm_now := n\<rparr>)) = n"
    using block_evolved[OF assms(2)] Run_Block.hyps by simp_all
  have "evolved (\<lambda>e. Block e \<in> set (acts @ [Block n])) s (dm_on_initialize cfg n (t\<lparr>dm_now := n\<rparr>))"
    by (rule evolved_trans[OF evolved_mono[OF conjunct1[OF Run_Block.IH]] evolved_mono[OF step(1)]]) simp_all
  then show ?case using Run_Block.IH Run_Block.hyps step(2) by auto
qed

end
