(* ===== verification/Democracy_Votes.thy ===== *)
theory Democracy_Votes
  imports Democracy_Referenda
begin

text \<open>
  Invariants of the votes and of the blacklist: an invariant that only looks at these and at the time
  is kept by every call and block, once it is kept by a change of the votes of an account that keeps
  them sorted and bounded, by a veto, by a blacklisting, and by what is enacted (\<open>book_inv\<close>).
\<close>

definition votes_of :: "('v, 'd, 'p, 'c) voting \<Rightarrow> (referendum_index \<times> 'v) list" where
  "votes_of voting = (case voting of Direct votes _ _ \<Rightarrow> votes | Delegating _ _ _ _ _ \<Rightarrow> [])"

text \<open>The votes of an account are sorted by their referenda, without duplicates, and at most one more than the limit.\<close>

definition voter_ok :: "('t, 'v, 'd, 'p, 'c, 'w) dm_config \<Rightarrow> ('v, 'd, 'p, 'c) voting \<Rightarrow> bool" where
  "voter_ok cfg voting \<longleftrightarrow> sorted_wrt (<) (map fst (votes_of voting)) \<and> length (votes_of voting) \<le> Suc (dm_max_votes cfg)"

text \<open>The missing module of votes: setting delegations and prior locks, or letting a lock expire, keeps the votes.\<close>

definition votes_kept :: "('t, 'v, 'd, 'p, 'c) vote_ops \<Rightarrow> bool" where
  "votes_kept ops \<longleftrightarrow> (\<forall>v d p. votes_of (vo_set_common ops v d p) = votes_of v) \<and> (\<forall>v n. votes_of (vo_rejig ops v n) = votes_of v) \<and>
     votes_of (vo_voting_default ops) = []"

lemma votes_of_simps [simp]: "votes_of (Direct votes d p) = votes" "votes_of (Delegating b to c d p) = []"
  by (simp_all add: votes_of_def)

lemma voter_ok_Delegating [simp]: "voter_ok cfg (Delegating b to c d p)"
  by (simp add: voter_ok_def)

lemma sorted_remove_at: "sorted_wrt (<) (map fst xs) \<Longrightarrow> sorted_wrt (<) (map fst (remove_at i xs))"
proof -
  let ?m = "map fst xs"
  assume "sorted_wrt (<) ?m"
  then have "sorted_wrt (<) (take i ?m @ drop i ?m)" by simp
  then have parts: "sorted_wrt (<) (take i ?m)" "sorted_wrt (<) (drop i ?m)" "\<forall>x \<in> set (take i ?m). \<forall>y \<in> set (drop i ?m). x < y"
    unfolding sorted_wrt_append by auto
  have "drop (Suc i) ?m = drop 1 (drop i ?m)" by simp
  then have "sorted_wrt (<) (drop (Suc i) ?m)" "set (drop (Suc i) ?m) \<subseteq> set (drop i ?m)"
    using parts(2) by (metis sorted_wrt_drop, metis set_drop_subset)
  then show ?thesis using parts by (auto simp: remove_at_def sorted_wrt_append simp flip: take_map drop_map)
qed

lemma cast_vote_ok:
  assumes "cast_vote cfg i v t voting = Inr (t', voting')" "voter_ok cfg voting"
  shows "voter_ok cfg voting'"
proof (cases voting)
  case (Direct votes d p)
  show ?thesis
  proof (cases "search_sorted i (map fst votes)")
    case (Inl k)
    have "length votes \<le> dm_max_votes cfg" and v: "voting' = Direct (insert_at k (i, v) votes) d p"
      using assms(1) Direct Inl by (auto simp: cast_vote_def split: if_splits option.splits)
    moreover have "map fst (insert_at k (i, v) votes) = insert_at k i (map fst votes)" by (simp add: insert_at_def take_map drop_map)
    moreover have "length (insert_at k (i, v) votes) = Suc (length votes)" by (simp add: insert_at_def)
    ultimately show ?thesis using sorted_insert_at(1)[of "map fst votes" i k] assms(2) Direct Inl by (simp add: voter_ok_def)
  next
    case (Inr k)
    then have "voting' = Direct (votes[k := (i, v)]) d p" using assms(1) Direct by (auto simp: cast_vote_def split: option.splits)
    moreover have "map fst (votes[k := (i, v)]) = map fst votes"
      using search_found[OF Inr] by (metis fst_conv list_update_id map_update nth_map length_map)
    ultimately show ?thesis using assms(2) Direct by (simp add: voter_ok_def)
  qed
qed (use assms(1) in \<open>simp add: cast_vote_def\<close>)

lemma removed_ok: "voter_ok cfg (Direct votes d p) \<Longrightarrow> voter_ok cfg (Direct (remove_at i votes) d' p')"
  by (auto simp: voter_ok_def sorted_remove_at) (simp add: remove_at_def)

section \<open>Invariants of votes and blacklist\<close>

definition same_book :: "('t, 'v, 'd, 'p, 'c, 'w) dm_state \<Rightarrow> ('t, 'v, 'd, 'p, 'c, 'w) dm_state \<Rightarrow> bool" where
  "same_book s t \<longleftrightarrow> voting_of t = voting_of s \<and> blacklisted t = blacklisted s \<and> dm_now t = dm_now s"

definition book_inv :: "('t, 'v, 'd, 'p, 'c, 'w) dm_config \<Rightarrow> (('t, 'v, 'd, 'p, 'c, 'w) dm_state \<Rightarrow> bool) \<Rightarrow> bool" where
  "book_inv cfg P \<longleftrightarrow> (\<forall>s t. same_book s t \<longrightarrow> P s \<longrightarrow> P t) \<and>
     (\<forall>s f. P s \<longrightarrow> (\<forall>a. voter_ok cfg (voting_of s a) \<longrightarrow> voter_ok cfg (f a)) \<longrightarrow> P (s\<lparr>voting_of := f\<rparr>)) \<and>
     (\<forall>data call s. dm_dispatch cfg data = Some call \<longrightarrow> P s \<longrightarrow> P (snd (call s)))"

lemma book_same: "book_inv cfg P \<Longrightarrow> same_book s t \<Longrightarrow> P s \<Longrightarrow> P t"
  unfolding book_inv_def by blast

lemma book_votes: "book_inv cfg P \<Longrightarrow> P s \<Longrightarrow> (\<And>a. voter_ok cfg (voting_of s a) \<Longrightarrow> voter_ok cfg (f a)) \<Longrightarrow> P (s\<lparr>voting_of := f\<rparr>)"
  unfolding book_inv_def by blast

lemma book_dispatch: "book_inv cfg P \<Longrightarrow> dm_dispatch cfg data = Some call \<Longrightarrow> P s \<Longrightarrow> P (snd (call s))"
  unfolding book_inv_def by blast

lemma same_book_fields [simp]:
  "same_book s s" "same_book s (s\<lparr>public_props := a\<rparr>)" "same_book s (s\<lparr>deposit_of := b\<rparr>)" "same_book s (s\<lparr>preimages := c\<rparr>)"
  "same_book s (s\<lparr>last_tabled_was_external := e\<rparr>)" "same_book s (s\<lparr>next_external := f\<rparr>)" "same_book s (s\<lparr>cancellations := h\<rparr>)"
  "same_book s (s\<lparr>dm_world := w\<rparr>)" "same_book s (on_dm_world k s)" "same_book s (dm_event ev s)" "same_book s (put_referendum i x s)"
  "same_book s (internal_cancel_referendum i s)" "same_book s (slash_depositors cfg j s)" "same_book s (move_tally cfg mv am v s)"
  by (auto simp: same_book_def on_dm_world_def dm_event_def put_referendum_def internal_cancel_referendum_def slash_depositors_def move_tally_def
      split: option.split referendum_info.split prod.split)

lemma same_book_trans: "same_book s t \<Longrightarrow> same_book t u \<Longrightarrow> same_book s u"
  by (simp add: same_book_def)

lemma same_book_steps [simp]:
  "same_book s (t\<lparr>public_props := a\<rparr>) = same_book s t" "same_book s (t\<lparr>deposit_of := b\<rparr>) = same_book s t" "same_book s (t\<lparr>preimages := c\<rparr>) = same_book s t"
  "same_book s (t\<lparr>last_tabled_was_external := e\<rparr>) = same_book s t" "same_book s (t\<lparr>next_external := f\<rparr>) = same_book s t"
  "same_book s (on_dm_world k t) = same_book s t" "same_book s (dm_event ev t) = same_book s t" "same_book s (slash_depositors cfg j t) = same_book s t"
  "same_book s (put_referendum i x t) = same_book s t" "same_book s (internal_cancel_referendum i t) = same_book s t"
  "same_book s (snd (inject_referendum cfg e' h th d t)) = same_book s t"
  by (auto simp: same_book_def on_dm_world_def dm_event_def slash_depositors_def inject_referendum_def Let_def put_referendum_def
      internal_cancel_referendum_def split: option.split)

named_theorems booked \<open>effects that keep an invariant of votes and blacklist\<close>

lemma keeps_mod_same [booked]: "book_inv cfg P \<Longrightarrow> (\<And>s. same_book s (f s)) \<Longrightarrow> preserves P (modE f)"
  by (intro keeps_modE) (rule book_same)

lemma keeps_inDm [booked]: "book_inv cfg P \<Longrightarrow> preserves P (inDm m)"
  by (auto simp: preserves_def inDm_def zoomE_def split: prod.split intro: book_same[OF _ same_book_fields(8)])

lemma keeps_more_cases [booked]:
  "(\<And>b. preserves P (i b)) \<Longrightarrow> (\<And>a1 a2 a3 a4 a5 a6. preserves P (j a1 a2 a3 a4 a5 a6)) \<Longrightarrow>
     preserves P (case q of Missing b \<Rightarrow> i b | Available a1 a2 a3 a4 a5 a6 \<Rightarrow> j a1 a2 a3 a4 a5 a6)"
  "(\<And>e. preserves P (i' e)) \<Longrightarrow> (\<And>y. preserves P (j' y)) \<Longrightarrow> preserves P (case r of Inl e \<Rightarrow> i' e | Inr y \<Rightarrow> j' y)"
  by (simp_all split: preimage_status.split sum.split)

lemma keeps_status [booked]: "preserves P (referendum_status i)"
  unfolding referendum_status_def by (auto simp: preserves_def eff_defs split: option.split referendum_info.split)

lemma keeps_plain:
  assumes inv: "book_inv cfg P"
  shows "preserves P (external_propose cfg org h)" "preserves P (external_propose_majority cfg org h)" "preserves P (external_propose_default cfg org h)"
    "preserves P (fast_track cfg org h vp dl)" "preserves P (emergency_cancel cfg org i)" "preserves P (cancel_referendum org i)"
    "preserves P (cancel_queued cfg org i)" "preserves P (clear_public_proposals org)" "preserves P (cancel_proposal cfg org j)"
    "preserves P (note_preimage_inner cfg who c d)" "preserves P (note_imminent_preimage_inner cfg who c d)" "preserves P (reap_preimage cfg org h k)"
  unfolding external_propose_def external_propose_majority_def external_propose_default_def fast_track_def emergency_cancel_def
    cancel_referendum_def cancel_queued_def clear_public_proposals_def cancel_proposal_def note_preimage_inner_def note_imminent_preimage_inner_def
    check_pre_image_is_missing_def reap_preimage_def pre_image_data_len_def
  by (intro keeps booked keeps_mod_same[OF inv] keeps_inDm[OF inv]; simp add: Let_def)+

section \<open>Votes, delegations, enactment and blocks\<close>

lemma keeps_vote: "book_inv cfg P \<Longrightarrow> preserves P (dm_vote cfg org i v)"
proof -
  assume inv: "book_inv cfg P"
  have "preserves P (try_vote cfg who i v)" for who
  proof (rule preservesI)
    fix s r t
    assume s: "P s" and run: "try_vote cfg who i v s = (r, t)"
    have cast: "P (s\<lparr>voting_of := (voting_of s)(who := vt)\<rparr>)" if "cast_vote cfg i v x (voting_of s who) = Inr (x', vt)" for x x' vt
      by (rule book_votes[OF inv s]) (use cast_vote_ok[OF that] in \<open>auto split: if_splits\<close>)
    from try_vote_result[of cfg who i v s] show "P t"
    proof (elim disjE exE conjE)
      fix st x vt
      let ?u = "s\<lparr>voting_of := (voting_of s)(who := vt)\<rparr>"
      assume "cast_vote cfg i v (rs_tally st) (voting_of s who) = Inr (x, vt)"
        "try_vote cfg who i v s = (Inr (), put_referendum i (Ongoing (st\<lparr>rs_tally := x\<rparr>)) (on_dm_world (dm_extend_lock cfg who (vo_balance (dm_votes cfg) v)) ?u))"
      then show ?thesis using run book_same[OF inv, of ?u t] cast by simp
    qed (simp add: run s)
  qed
  then show ?thesis unfolding dm_vote_def by (intro keeps)
qed

lemma keeps_remove:
  assumes inv: "book_inv cfg P"
  shows "preserves P (try_remove_vote cfg who i scope)"
proof (rule preservesI)
  fix s r t
  assume s: "P s" and run: "try_remove_vote cfg who i scope s = (r, t)"
  show "P t"
  proof (cases "voting_of s who")
    case (Direct votes d p)
    have removed: "P (s\<lparr>voting_of := (voting_of s)(who := Direct (remove_at k votes) d p')\<rparr>)" for k p'
      by (rule book_votes[OF inv s]) (use removed_ok Direct in \<open>fastforce split: if_splits\<close>)
    have put: "P (put_referendum j x (s\<lparr>voting_of := (voting_of s)(who := Direct (remove_at k votes) d p')\<rparr>))" for j x k p'
      by (rule book_same[OF inv _ removed[of k p']]) simp
    have swap: "(put_referendum j x s)\<lparr>voting_of := (voting_of s)(who := v)\<rparr> = put_referendum j x (s\<lparr>voting_of := (voting_of s)(who := v)\<rparr>)" for j x v
      by (simp add: put_referendum_def)
    have same: "voting_of (put_referendum j x s) = voting_of s" for j x by (simp add: put_referendum_def)
    show ?thesis
      using run Direct s removed put
      by (auto simp: try_remove_vote_def eff_defs Let_def swap same split: sum.splits option.splits referendum_info.splits if_splits prod.splits)
  qed (use run s in \<open>auto simp: try_remove_vote_def eff_defs\<close>)
qed

lemma move_same: "same_book s (fold (move_tally cfg mv am) vs s)"
  by (induction vs arbitrary: s) (auto intro: same_book_trans[OF same_book_fields(14)] simp del: split_paired_All)

lemma upstream_votes:
  "voter_ok cfg (voting_of (increase_upstream_delegation cfg to am s) a) = voter_ok cfg (voting_of s a)"
  "voter_ok cfg (voting_of (reduce_upstream_delegation cfg to am s) a) = voter_ok cfg (voting_of s a)"
  by (auto simp: move_same[unfolded same_book_def] increase_upstream_delegation_def reduce_upstream_delegation_def Let_def voter_ok_def split: voting.split)

lemma upstream_keeps:
  assumes inv: "book_inv cfg P" and s: "P s"
  shows "P (increase_upstream_delegation cfg to am s)" "P (reduce_upstream_delegation cfg to am s)"
proof -
  have step: "P (s\<lparr>voting_of := (voting_of s)(to := v)\<rparr>)" if "votes_of v = votes_of (voting_of s to)" for v
    by (rule book_votes[OF inv s]) (use that in \<open>auto simp: voter_ok_def split: if_splits\<close>)
  have moved: "P (fold (move_tally cfg mv am) vs (s\<lparr>voting_of := (voting_of s)(to := v)\<rparr>))" if "votes_of v = votes_of (voting_of s to)" for mv vs v
    using book_same[OF inv move_same step[OF that]] .
  show "P (increase_upstream_delegation cfg to am s)" "P (reduce_upstream_delegation cfg to am s)"
    by (auto simp: increase_upstream_delegation_def reduce_upstream_delegation_def Let_def intro: step moved split: voting.split)
qed

lemma keeps_set_vote:
  assumes inv: "book_inv cfg P" and t: "P t" and v: "votes_of v = []"
  shows "P (t\<lparr>voting_of := (voting_of t)(who := v)\<rparr>)"
  by (rule book_votes[OF inv t]) (use v in \<open>simp add: voter_ok_def split: if_splits\<close>)

lemma keeps_delegate:
  assumes inv: "book_inv cfg P" and ops: "votes_kept (dm_votes cfg)"
  shows "preserves P (delegate cfg org to cv bal)" "preserves P (undelegate cfg org)" "preserves P (unlock cfg org who)"
proof -
  have final: "P (dm_event ev ((on_dm_world g t)\<lparr>voting_of := (voting_of t)(w := v)\<rparr>))" "P (dm_event ev (t\<lparr>voting_of := (voting_of t)(w := v)\<rparr>))"
    if "P t" "votes_of v = []" for t ev g w v
  proof -
    have "P (t\<lparr>voting_of := (voting_of t)(w := v)\<rparr>)" by (rule keeps_set_vote[OF inv that])
    moreover have "same_book (t\<lparr>voting_of := (voting_of t)(w := v)\<rparr>) ((on_dm_world g t)\<lparr>voting_of := (voting_of t)(w := v)\<rparr>)"
      by (simp add: same_book_def on_dm_world_def)
    ultimately show "P (dm_event ev ((on_dm_world g t)\<lparr>voting_of := (voting_of t)(w := v)\<rparr>))" "P (dm_event ev (t\<lparr>voting_of := (voting_of t)(w := v)\<rparr>))"
      using book_same[OF inv] by (metis same_book_steps(7), metis same_book_steps(7) same_book_fields(1))
  qed
  have kept: "votes_of (vo_set_common (dm_votes cfg) v d p) = votes_of v" "votes_of (vo_voting_default (dm_votes cfg)) = []"
    "votes_of (vo_rejig (dm_votes cfg) v n) = votes_of v" for v d p n
    using ops by (simp_all add: votes_kept_def)
  have "preserves P (try_delegate cfg w to cv bal)" for w
    unfolding try_delegate_def Let_def
    by (intro keeps) (auto intro!: keeps keeps_modE final upstream_keeps[OF inv] simp: kept split: voting.split)
  then show "preserves P (delegate cfg org to cv bal)" unfolding delegate_def by (intro keeps)
  have "preserves P (try_undelegate cfg w)" for w
    unfolding try_undelegate_def Let_def
    by (intro keeps) (auto intro!: keeps keeps_modE final upstream_keeps[OF inv] simp: kept split: voting.split)
  then show "preserves P (undelegate cfg org)" unfolding undelegate_def by (intro keeps)
  have "P (update_lock cfg who s)" if "P s" for s
  proof -
    have "P (s\<lparr>voting_of := (voting_of s)(who := vo_rejig (dm_votes cfg) (voting_of s who) (dm_now s))\<rparr>)"
      by (rule book_votes[OF inv that]) (auto simp: voter_ok_def kept)
    then show ?thesis unfolding update_lock_def Let_def by (rule book_same[OF inv, rotated]) simp
  qed
  then show "preserves P (unlock cfg org who)" unfolding unlock_def by (intro keeps keeps_modE)
qed

lemma keeps_enact:
  assumes inv: "book_inv cfg P"
  shows "preserves P (do_enact_proposal cfg h i)" "preserves P (enact_proposal cfg org h i)"
proof -
  have used: "P (s\<lparr>preimages := f\<rparr>)" "P (dm_event ev s)" "P (on_dm_world k s)" if "P s" for s f ev k by (rule book_same[OF inv _ that]; simp)+
  show *: "preserves P (do_enact_proposal cfg h i)"
    unfolding do_enact_proposal_def
    by (auto simp: Let_def case_prod_beta intro!: keeps keeps_modE used intro: book_dispatch[OF inv] split: option.split preimage_status.split)
  show "preserves P (enact_proposal cfg org h i)" unfolding enact_proposal_def by (intro keeps *)
qed

lemma keeps_block:
  assumes inv: "book_inv cfg P"
  shows "preserves P (begin_block cfg n)"
proof -
  have bake: "preserves P (bake_referendum cfg n i st)" for i st
    unfolding bake_referendum_def by (intro keeps booked keeps_mod_same[OF inv] keeps_enact[OF inv] keeps_inDm[OF inv]; simp)
  have "preserves P (bake_all cfg n infos)" for infos
    unfolding bake_all_def by (intro keeps keeps_mod_same[OF inv] bake; simp)
  moreover have "preserves P (or_elseE m k)" if "preserves P m" "preserves P k" for m k :: "('a, 'b, 'c, 'd, 'e, 'f, unit) dm_eff"
    using that by (auto simp: preserves_def or_elseE_def split: prod.split sum.split)
  moreover have "preserves P (launch_external cfg n)" "preserves P (launch_public cfg n)"
    unfolding launch_external_def launch_public_def
    by (intro keeps keeps_mod_same[OF inv]; simp add: Let_def split: prod.split option.split)+
  ultimately show ?thesis
    unfolding begin_block_def launch_next_def by (intro keeps keeps_mod_same[OF inv]) simp_all
qed

section \<open>Runs\<close>

lemma keeps_exec:
  assumes inv: "book_inv cfg P" and ops: "votes_kept (dm_votes cfg)"
    and veto: "\<And>h. preserves P (veto_external cfg org h)" and black: "\<And>h ri. c = Blacklist h ri \<Longrightarrow> preserves P (blacklist cfg org h ri)"
  shows "preserves P (dm_exec cfg org c)"
proof (cases c)
  case (Remove_Other_Vote who i)
  then show ?thesis by (simp add: remove_other_vote_def keeps keeps_remove[OF inv])
qed (auto simp: remove_vote_def intro!: keeps_plain[OF inv] keeps_vote[OF inv] keeps_delegate[OF inv ops] keeps_enact[OF inv] veto black
      keeps_bindE[OF keeps_ensure_signed] keeps_remove[OF inv])

lemma run_keeps:
  assumes "dm_run cfg s acts t" "P s"
    and inv: "book_inv cfg P" and ops: "votes_kept (dm_votes cfg)" and veto: "\<And>org h. preserves P (veto_external cfg org h)"
    and black: "\<And>org h ri. Call org (Blacklist h ri) \<in> set acts \<Longrightarrow> preserves P (blacklist cfg org h ri)"
    and time: "\<And>s n. P s \<Longrightarrow> dm_now s < n \<Longrightarrow> P (s\<lparr>dm_now := n\<rparr>)"
  shows "P t"
  using assms(1,2) black
proof induction
  case (Run_Call acts t org c)
  have "preserves P (dm_exec cfg org c)" by (rule keeps_exec[OF inv ops veto]) (simp add: Run_Call.prems(2))
  then show ?case using Run_Call by (simp add: preserves_def)
next
  case (Run_Block acts t n)
  then have "P (t\<lparr>dm_now := n\<rparr>)" by (intro time) simp_all
  then show ?case using keeps_block[OF inv, of n] by (simp add: preserves_def dm_on_initialize_def)
qed

section \<open>Vetoes\<close>

definition vetoers :: "('t, 'v, 'd, 'p, 'c, 'w) dm_state \<Rightarrow> proposal_hash \<Rightarrow> account_id list" where
  "vetoers s h = (case blacklisted s h of None \<Rightarrow> [] | Some (_, vs) \<Rightarrow> vs)"

lemma veto_result:
  "veto_external cfg org h s =
     (case dm_veto_origin cfg org of None \<Rightarrow> (Inl BadOrigin, s)
      | Some who \<Rightarrow> (case next_external s of None \<Rightarrow> (Inl (dmE NoProposal), s)
        | Some (e_hash, _) \<Rightarrow>
            if h \<noteq> e_hash then (Inl (dmE ProposalMissing), s)
            else (case search_sorted who (vetoers s h) of
                Inr _ \<Rightarrow> (Inl (dmE AlreadyVetoed), s)
              | Inl i \<Rightarrow>
                  let until = wrap_add u32_max (dm_now s) (dm_cooloff_period cfg)
                  in (Inr (), (dm_event (Vetoed who h until)
                       (s\<lparr>blacklisted := (blacklisted s)(h \<mapsto> (until, insert_at i who (vetoers s h)))\<rparr>))\<lparr>next_external := None\<rparr>))))"
  unfolding vetoers_def
  by (simp add: veto_external_def eff_defs Let_def split: option.split sum.split prod.split)

lemma veto_cases:
  obtains "snd (veto_external cfg org h s) = s" "fst (veto_external cfg org h s) \<noteq> Inr ()"
  | who i th where "dm_veto_origin cfg org = Some who" "next_external s = Some (h, th)" "search_sorted who (vetoers s h) = Inl i"
      "fst (veto_external cfg org h s) = Inr ()" "dm_now (snd (veto_external cfg org h s)) = dm_now s"
      "blacklisted (snd (veto_external cfg org h s)) =
         (blacklisted s)(h \<mapsto> (wrap_add u32_max (dm_now s) (dm_cooloff_period cfg), insert_at i who (vetoers s h)))"
proof (cases "dm_veto_origin cfg org")
  case (Some who)
  show ?thesis
  proof (cases "next_external s")
    case (Some queued)
    then obtain e th where e: "next_external s = Some (e, th)" by (cases queued) simp
    note run = veto_result[of cfg org h s, unfolded \<open>dm_veto_origin cfg org = Some who\<close> e option.case prod.case]
    show ?thesis
    proof (cases "h = e")
      case True
      show ?thesis
      proof (cases "search_sorted who (vetoers s h)")
        case (Inl i)
        show ?thesis
          by (rule that(2)[OF \<open>dm_veto_origin cfg org = Some who\<close> _ Inl]) (use run True e Inl in \<open>simp_all add: Let_def dm_event_def\<close>)
      qed (rule that(1), use run True in simp_all)
    qed (rule that(1), use run in simp_all)
  qed (rule that(1), use Some in \<open>simp_all add: veto_result\<close>)
qed (rule that(1), simp_all add: veto_result)

text \<open>What is left of a veto: the hash is blacklisted until then, by the account.\<close>

definition held :: "bool \<Rightarrow> account_id \<Rightarrow> proposal_hash \<Rightarrow> block_number \<Rightarrow> ('t, 'v, 'd, 'p, 'c, 'w) dm_state \<Rightarrow> bool" where
  "held strict who h until s \<longleftrightarrow> (\<exists>e vs. blacklisted s h = Some (e, vs) \<and> until \<le> e \<and> (strict \<longrightarrow> sorted_wrt (<) vs \<and> who \<in> set vs))"

text \<open>It holds on, as long as the time has not come near to its end.\<close>

definition holds_on :: "('t, 'v, 'd, 'p, 'c, 'w) dm_config \<Rightarrow> bool \<Rightarrow> account_id \<Rightarrow> proposal_hash \<Rightarrow> block_number \<Rightarrow> ('t, 'v, 'd, 'p, 'c, 'w) dm_state \<Rightarrow> bool" where
  "holds_on cfg strict who h since s \<longleftrightarrow> since \<le> dm_now s \<and>
     (dm_now s + dm_cooloff_period cfg \<le> u32_max \<longrightarrow> held strict who h (since + dm_cooloff_period cfg) s)"

text \<open>
  What an enacted proposal may do to the blacklist: leave it alone, or put hashes on it for ever, as a
  proposal that calls \<open>blacklist\<close> does. The second is excluded for one hash by \<open>dispatch_spares\<close>.
\<close>

definition dispatch_only_blacklists :: "('t, 'v, 'd, 'p, 'c, 'w) dm_config \<Rightarrow> bool" where
  "dispatch_only_blacklists cfg \<longleftrightarrow> (\<forall>data call s. dm_dispatch cfg data = Some call \<longrightarrow> dm_now (snd (call s)) = dm_now s \<and>
     (\<forall>g. blacklisted (snd (call s)) g = blacklisted s g \<or> blacklisted (snd (call s)) g = Some (u32_max, [])))"

definition dispatch_spares :: "('t, 'v, 'd, 'p, 'c, 'w) dm_config \<Rightarrow> proposal_hash \<Rightarrow> bool" where
  "dispatch_spares cfg h \<longleftrightarrow> (\<forall>data call s. dm_dispatch cfg data = Some call \<longrightarrow> blacklisted (snd (call s)) h = blacklisted s h)"

lemma holds_book:
  assumes "dispatch_only_blacklists cfg" "strict \<Longrightarrow> dispatch_spares cfg h"
  shows "book_inv cfg (holds_on cfg strict who h since)"
proof -
  have "holds_on cfg strict who h since (snd (call s))"
    if call: "dm_dispatch cfg data = Some call" and s: "holds_on cfg strict who h since s" for data call s
  proof -
    have now: "dm_now (snd (call s)) = dm_now s"
      and entry: "blacklisted (snd (call s)) h = blacklisted s h \<or> blacklisted (snd (call s)) h = Some (u32_max, [])"
      using assms(1) call unfolding dispatch_only_blacklists_def by blast+
    have "strict \<longrightarrow> blacklisted (snd (call s)) h = blacklisted s h"
      using assms(2) call unfolding dispatch_spares_def by blast
    then show ?thesis using s now entry by (auto simp: holds_on_def held_def)
  qed
  then show ?thesis unfolding book_inv_def by (auto simp: holds_on_def held_def same_book_def)
qed

lemma holds_later: "holds_on cfg strict who h since s \<Longrightarrow> dm_now s < n \<Longrightarrow> holds_on cfg strict who h since (s\<lparr>dm_now := n\<rparr>)"
  by (auto simp: holds_on_def held_def)

lemma veto_keeps_holding: "preserves (holds_on cfg strict who h since) (veto_external cfg org g)"
  unfolding preserves_def
proof (intro allI impI)
  fix s
  assume s: "holds_on cfg strict who h since s"
  show "holds_on cfg strict who h since (snd (veto_external cfg org g s))"
  proof (cases rule: veto_cases[of cfg org g s])
    case (2 w i th)
    show ?thesis
    proof (cases "g = h \<and> dm_now s + dm_cooloff_period cfg \<le> u32_max")
      case True
      then have e: "strict \<longrightarrow> sorted_wrt (<) (vetoers s h) \<and> who \<in> set (vetoers s h)"
        using s by (auto simp: holds_on_def held_def vetoers_def)
      have "strict \<longrightarrow> sorted_wrt (<) (insert_at i w (vetoers s h)) \<and> who \<in> set (insert_at i w (vetoers s h))"
        using sorted_insert_at[of "vetoers s h" w i] e 2 True by auto
      then show ?thesis using True s 2 by (auto simp: holds_on_def held_def wrap_add_def)
    qed (use s 2 in \<open>auto simp: holds_on_def held_def\<close>)
  qed (use s in simp)
qed

lemma blacklist_keeps_holding:
  assumes "\<not> strict \<or> g \<noteq> h"
  shows "preserves (holds_on cfg strict who h since) (blacklist cfg org g ri)"
proof (rule preservesI)
  fix s r t
  assume s: "holds_on cfg strict who h since s" and run: "blacklist cfg org g ri s = (r, t)"
  have "t = s \<or> dm_now t = dm_now s \<and> blacklisted t = (blacklisted s)(g \<mapsto> (u32_max, []))"
  proof -
    have same: "dm_now (slash_depositors cfg j u) = dm_now u" "blacklisted (slash_depositors cfg j u) = blacklisted u" for j u
      using same_book_fields(13)[of u cfg j] by (simp_all add: same_book_def)
    show ?thesis
      using run by (auto simp: blacklist_def eff_defs Let_def dm_event_def internal_cancel_referendum_def same
          split: if_splits option.splits referendum_info.splits)
  qed
  then show "holds_on cfg strict who h since t" using s assms by (auto simp: holds_on_def held_def)
qed

end
