(* ===== verification/Democracy_Demo.thy ===== *)
theory Democracy_Demo
  imports Democracy Ledger
begin

text \<open>
  An implementation of what the democracy pallet is configured with, on the ledger: a tally is the
  pair of the ayes and the nays, a vote says aye or nay with a balance, delegations count with their
  conviction as a factor. It shows that what is assumed of the missing modules can hold, and concrete
  runs use it.
\<close>

type_synonym demo_vote = "bool \<times> balance"

definition demo_votes :: "(nat \<times> nat, demo_vote, nat, nat \<times> nat, nat) vote_ops" where
  "demo_votes = \<lparr>
     vo_tally_default = (0, 0),
     vo_tally_add = (\<lambda>(ayes, nays) (aye, b). Some (if aye then (ayes + b, nays) else (ayes, nays + b))),
     vo_tally_remove = (\<lambda>(ayes, nays) (aye, b).
       if b \<le> (if aye then ayes else nays) then Some (if aye then (ayes - b, nays) else (ayes, nays - b)) else None),
     vo_tally_increase = (\<lambda>(ayes, nays) aye d. if aye then (ayes + d, nays) else (ayes, nays + d)),
     vo_tally_reduce = (\<lambda>(ayes, nays) aye d. if aye then (ayes - d, nays) else (ayes, nays - d)),
     vo_approved = (\<lambda>_ (ayes, nays) _. nays < ayes),
     vo_balance = snd, vo_as_standard = (\<lambda>v. Some (fst v)),
     vo_locked_if = (\<lambda>v approved. if fst v = approved then Some (1, snd v) else None),
     vo_no_delegations = 0, vo_delegations_add = (+), vo_delegations_sub = (-),
     vo_no_prior = (0, 0), vo_accumulate = (\<lambda>(u, a) at b. (max u at, max a b)),
     vo_conviction_votes = (*), vo_lock_periods = id, vo_voting_default = Direct [] 0 (0, 0),
     vo_set_common = (\<lambda>v d p. case v of Direct votes _ _ \<Rightarrow> Direct votes d p | Delegating b to c _ _ \<Rightarrow> Delegating b to c d p),
     vo_rejig = (\<lambda>v now. v), vo_locked_balance = (\<lambda>v. 0)\<rparr>"

type_synonym demo_democracy = "(nat \<times> nat, demo_vote, nat, nat \<times> nat, nat, ledger) dm_state"

definition demo_democracy :: "(nat \<times> nat, demo_vote, nat, nat \<times> nat, nat, ledger) dm_config" where
  "demo_democracy = \<lparr>
     dm_votes = demo_votes, dm_multi_currency = ledger_multi,
     dm_free_balance = (\<lambda>_ _. 1000), dm_extend_lock = (\<lambda>_ _ w. w), dm_set_lock = (\<lambda>_ _ w. w),
     dm_remove_lock = (\<lambda>_ w. w), dm_on_slash = (\<lambda>_ w. w), dm_schedule = (\<lambda>_ _ _. okE ()),
     dm_cancel_scheduled = (\<lambda>_. okE ()), dm_hash = id, dm_dispatch = (\<lambda>data. if data = [] then None else Some (Pair True)),
     dm_backing_for = (\<lambda>_ _. None), dm_enactment_period = 2, dm_launch_period = 10, dm_voting_period = 5,
     dm_fast_track_voting_period = 3, dm_cooloff_period = 7, dm_governance_currency_ids = [Token DNAR],
     dm_preimage_byte_deposit = 1, dm_max_votes = 3, dm_instant_allowed = True,
     dm_external_origin = (\<lambda>org. True), dm_external_majority_origin = (\<lambda>org. org = Root),
     dm_external_default_origin = (\<lambda>org. org = Root), dm_fast_track_origin = (\<lambda>org. org = Root),
     dm_instant_origin = (\<lambda>org. org = Root), dm_cancellation_origin = (\<lambda>org. org = Root),
     dm_blacklist_origin = (\<lambda>org. org = Root), dm_cancel_proposal_origin = (\<lambda>org. org = Root),
     dm_veto_origin = (\<lambda>org. case org of Signed who \<Rightarrow> Some who | _ \<Rightarrow> None)\<rparr>"

definition no_democracy :: demo_democracy where
  "no_democracy = \<lparr>
     public_prop_count = 0, public_props = [], deposit_of = (\<lambda>_. None), preimages = (\<lambda>_. None), referendum_count = 0,
     lowest_unbaked = 0, referendum_info_of = (\<lambda>_. None), voting_of = (\<lambda>_. Direct [] 0 (0, 0)),
     last_tabled_was_external = False, next_external = None, blacklisted = (\<lambda>_. None), cancellations = (\<lambda>_. False),
     dm_now = 1, dm_world = (\<lambda>_ _. 0), dm_events = []\<rparr>"

text \<open>A referendum about one hash that ends in block 5, with a preimage or without one.\<close>

definition demo_question :: "proposal_hash \<Rightarrow> (nat \<times> nat) referendum_status" where
  "demo_question h = \<lparr>rs_end = 5, rs_proposal_hash = h, rs_threshold = SimpleMajority, rs_delay = 0, rs_tally = (0, 0)\<rparr>"

definition one_referendum :: demo_democracy where
  "one_referendum = no_democracy\<lparr>referendum_count := 1, referendum_info_of := [0 \<mapsto> Ongoing (demo_question [7])]\<rparr>"

definition with_preimage :: demo_democracy where
  "with_preimage = one_referendum\<lparr>preimages := [[7] \<mapsto> Available [7] 1 (Token DNAR) 0 1 None]\<rparr>"

end
