(* ===== verification/Democracy_Properties.thy ===== *)
theory Democracy_Properties
  imports Democracy_Votes Democracy_Demo
begin

text \<open>
  Properties of the democracy pallet: the history of a referendum, what a missing preimage does to the
  referenda of a block, how long a veto holds, the votes of an account, and removing a vote.
\<close>

text \<open>
  C28. Over any run of calls and blocks a referendum that was there keeps its end, its
  proposal, its threshold and its delay while it is ongoing; it ends in the block of its end, with that
  block's number, or is cancelled; and once it is finished its result does not change
  while its record is there, which root may remove. A proposal that
  is enacted may be any call that itself satisfies this, and referenda are fewer than an index can count.
\<close>

theorem referenda_history:
  assumes "dispatch_ok cfg" "dm_run cfg s acts t" "i < referendum_count s"
  shows "follows (\<lambda>e. Block e \<in> set acts \<and> dm_now s < e \<and> e \<le> dm_now t) (referendum_info_of s i) (referendum_info_of t i)"
proof -
  have "evolved (\<lambda>e. Block e \<in> set acts) s t" "\<And>n. Block n \<in> set acts \<Longrightarrow> dm_now s < n \<and> n \<le> dm_now t"
    using run_history[OF assms(2,1)] by blast+
  from evolved_mono[OF this(1), of "\<lambda>e. Block e \<in> set acts \<and> dm_now s < e \<and> e \<le> dm_now t"] this(2) show ?thesis
    using assms(3) unfolding evolved_def by blast
qed


lemma demo_dispatch: "dispatch_ok demo_democracy"
  by (simp add: dispatch_ok_def demo_democracy_def)

definition voted :: demo_democracy where
  "voted = snd (dm_exec demo_democracy (Signed 1) (Vote_On 0 (True, 10)) with_preimage)"

lemma demo_state:
  "referendum_count with_preimage = 1" "dm_now with_preimage = 1" "referendum_count voted = 1" "dm_now voted = 1" "lowest_unbaked voted = 0"
  "referendum_info_of voted = [0 \<mapsto> Ongoing (demo_question [7]\<lparr>rs_tally := (10, 0)\<rparr>)]"
  "preimages voted = [[7] \<mapsto> Available [7] 1 (Token DNAR) 0 1 None]"
  "referendum_info_of with_preimage = [0 \<mapsto> Ongoing (demo_question [7])]"
  by (simp_all add: voted_def with_preimage_def one_referendum_def no_democracy_def demo_question_def dm_vote_def try_vote_def referendum_status_def
      put_referendum_def on_dm_world_def cast_vote_def tally_with_def insert_at_def demo_democracy_def demo_votes_def ensure_signed_def eff_defs)

lemma demo_block: "referendum_info_of (dm_on_initialize demo_democracy 5 (voted\<lparr>dm_now := 5\<rparr>)) 0 = Some (Finished 5 True)"
  by (simp add: dm_on_initialize_def begin_block_def demo_democracy_def demo_votes_def bake_all_def bake_referendum_def maturing_referenda_at_inner_def
      demo_state demo_question_def do_enact_proposal_def whenE_def put_referendum_def on_dm_world_def dm_event_def Let_def eff_defs ledger_multi_def)

lemma demo_run: "dm_run demo_democracy with_preimage [Call (Signed 1) (Vote_On 0 (True, 10)), Block 5] (dm_on_initialize demo_democracy 5 (voted\<lparr>dm_now := 5\<rparr>))"
proof -
  have "dm_run demo_democracy with_preimage ([] @ [Call (Signed 1) (Vote_On 0 (True, 10))]) voted"
    unfolding voted_def by (intro Run_Call Run_Start) (simp add: demo_state u32_max_def)
  from Run_Block[OF this, of 5] show ?thesis by (simp add: demo_state u32_max_def)
qed

theorem referenda_history_witness:
  "referendum_info_of (dm_on_initialize demo_democracy 5 (voted\<lparr>dm_now := 5\<rparr>)) 0 = Some (Finished 5 True) \<and>
   follows (\<lambda>e. Block e \<in> set [Call (Signed 1) (Vote_On 0 (True, 10)), Block 5] \<and> dm_now with_preimage < e \<and>
       e \<le> dm_now (dm_on_initialize demo_democracy 5 (voted\<lparr>dm_now := 5\<rparr>)))
     (referendum_info_of with_preimage 0) (referendum_info_of (dm_on_initialize demo_democracy 5 (voted\<lparr>dm_now := 5\<rparr>)) 0)"
  using demo_block referenda_history[OF demo_dispatch demo_run, of 0] by (simp add: demo_state)

section \<open>A missing preimage\<close>

definition has_preimage :: "('t, 'v, 'd, 'p, 'c, 'w) dm_state \<Rightarrow> proposal_hash \<Rightarrow> bool" where
  "has_preimage s h = (case preimages s h of Some (Available _ _ _ _ _ _) \<Rightarrow> True | _ \<Rightarrow> False)"

text \<open>A launch only adds a referendum at the end.\<close>

definition extends :: "('t, 'v, 'd, 'p, 'c, 'w) dm_state \<Rightarrow> ('t, 'v, 'd, 'p, 'c, 'w) dm_state \<Rightarrow> bool" where
  "extends s t \<longleftrightarrow> preimages t = preimages s \<and> lowest_unbaked t = lowest_unbaked s \<and> referendum_count s \<le> referendum_count t \<and>
     (\<forall>i < referendum_count s. referendum_info_of t i = referendum_info_of s i) \<and> dm_now t = dm_now s"

lemma inject_extends:
  assumes "referendum_count s < u32_max" "refs_of t = refs_of s" "preimages t = preimages s" "lowest_unbaked t = lowest_unbaked s"
  shows "extends s (snd (inject_referendum cfg e h th d t))"
  using assms refs_fields[OF assms(2)] by (auto simp: extends_def inject_referendum_def Let_def put_referendum_def dm_event_def)

lemma refs_extend: "refs_of t = refs_of s \<Longrightarrow> preimages t = preimages s \<Longrightarrow> lowest_unbaked t = lowest_unbaked s \<Longrightarrow> extends s t"
  by (auto simp: extends_def dest: refs_fields)

lemma launch_extends: "extends s (snd (launch_next cfg n s))" if count: "referendum_count s < u32_max"
proof -
  have frame: "preimages (on_dm_world f u) = preimages u" "lowest_unbaked (on_dm_world f u) = lowest_unbaked u"
    "preimages (dm_event ev u) = preimages u" "lowest_unbaked (dm_event ev u) = lowest_unbaked u" for f ev and u :: "('a, 'b, 'c, 'd, 'e, 'f) dm_state"
    by (simp_all add: on_dm_world_def dm_event_def)
  define u where "u = s\<lparr>last_tabled_was_external := False\<rparr>"
  have u: "refs_of u = refs_of s" "preimages u = preimages s" "lowest_unbaked u = lowest_unbaked s" by (simp_all add: u_def)
  have external: "extends s (snd (launch_external cfg n u))"
    by (auto simp: launch_external_def eff_defs frame u split: option.split intro!: refs_extend inject_extends[OF count])
  have public: "extends s (snd (launch_public cfg n u))"
    by (auto simp: launch_public_def eff_defs frame u Let_def split: option.split prod.split intro!: refs_extend inject_extends[OF count])
  have fails: "launch_external cfg n u = (Inl e, t) \<Longrightarrow> t = u" "launch_public cfg n u = (Inl e, t) \<Longrightarrow> t = u" for t e
    by (auto simp: launch_external_def launch_public_def eff_defs split: option.splits)
  have "snd (or_elseE m k u) = snd (m u) \<or> snd (or_elseE m k u) = snd (k u)" if "\<And>e t. m u = (Inl e, t) \<Longrightarrow> t = u" for m k :: "('a, 'b, 'c, 'd, 'e, 'f, unit) dm_eff"
    using that by (cases "m u"; cases "fst (m u)") (auto simp: or_elseE_def)
  then have "extends s (snd (or_elseE (launch_external cfg n) (launch_public cfg n) u))" "extends s (snd (or_elseE (launch_public cfg n) (launch_external cfg n) u))"
    using external public fails by metis+
  moreover have "snd (map_errE g m u) = snd (m u)" for m :: "('a, 'b, 'c, 'd, 'e, 'f, unit) dm_eff" and g :: "dispatch_error \<Rightarrow> dispatch_error"
    by (simp add: map_errE_def split: prod.split sum.split)
  ultimately show ?thesis
    by (simp add: launch_next_def bind_get then_mod flip: u_def)
qed

lemma launched_extends: "referendum_count s < u32_max \<Longrightarrow> extends s (launched cfg n s)"
  by (simp add: launched_def launch_extends refs_extend)

text \<open>What was to end in the block still comes first after the launch.\<close>

lemma maturing_extends:
  assumes "extends s t" "maturing_referenda_at n s \<noteq> []"
  obtains more where "maturing_referenda_at n t = maturing_referenda_at n s @ more"
proof -
  have "lowest_unbaked s \<le> referendum_count s"
    using assms(2) by (rule contrapos_np) (simp add: maturing_referenda_at_def maturing_referenda_at_inner_def)
  then have "[lowest_unbaked t..<referendum_count t] = [lowest_unbaked s..<referendum_count s] @ [referendum_count s..<referendum_count t]"
    using assms(1) by (auto simp: extends_def) (metis le_add_diff_inverse upt_add_eq_append)
  then have "maturing_referenda_at n t =
      maturing_referenda_at_inner n [lowest_unbaked s..<referendum_count s] t @ maturing_referenda_at_inner n [referendum_count s..<referendum_count t] t"
    by (simp add: maturing_referenda_at_def maturing_referenda_at_inner_def)
  moreover have "maturing_referenda_at_inner n [lowest_unbaked s..<referendum_count s] t = maturing_referenda_at n s"
    unfolding maturing_referenda_at_def maturing_referenda_at_inner_def
    by (rule arg_cong[where f = "\<lambda>xs. filter _ (concat xs)"], rule map_cong) (use assms(1) in \<open>simp_all add: extends_def\<close>)
  ultimately show thesis by (intro that) simp
qed

lemma bake_without_preimage:
  assumes "\<not> has_preimage t (rs_proposal_hash st)"
  shows "bake_all cfg n ((i, st) # infos) t = (Inl (dmE Error_PreimageMissing), t)"
proof -
  have "bake_referendum cfg n i st t = (Inl (dmE Error_PreimageMissing), t)"
    using assms unfolding bake_referendum_def Let_def bind_get
    by (auto simp: has_preimage_def failE_def split: option.splits preimage_status.splits)
  then show ?thesis by (simp add: bake_all_def thenE_def bindE_def)
qed

text \<open>
  C30. When the first referendum that ends in a block has no preimage,
  none of the referenda that end in this block is decided, in it or ever after: the error leaves the
  loop, and the next blocks only look at those that end in them.
\<close>

theorem missing_preimage_blocks_the_others:
  assumes "dispatch_ok cfg" "dm_now s = n" "referendum_count s < u32_max"
    and "maturing_referenda_at n s = (i, st) # others" "\<not> has_preimage s (rs_proposal_hash st)"
    and "dm_run cfg (dm_on_initialize cfg n s) acts t" "(j, st') \<in> set (maturing_referenda_at n s)"
  shows "referendum_info_of t j \<noteq> Some (Finished stop approved)"
proof -
  define u where "u = launched cfg n s"
  have u: "extends s u" unfolding u_def using assms(3) by (rule launched_extends)
  obtain more where more: "maturing_referenda_at n u = ((i, st) # others) @ more"
    by (rule maturing_extends[OF u, of n]) (simp_all add: assms(4))
  have "\<not> has_preimage u (rs_proposal_hash st)" using assms(5) u by (simp add: has_preimage_def extends_def)
  then have after: "dm_on_initialize cfg n s = (if dm_launch_period cfg = 0 then s else u)"
    unfolding dm_on_initialize_def begin_block_bakes u_def[symmetric] more by (simp add: bake_without_preimage)
  have j: "referendum_info_of s j = Some (Ongoing st')" "rs_end st' = n" "j < referendum_count s"
    using maturing_in assms(7) by (fastforce simp: maturing_referenda_at_def)+
  let ?v = "dm_on_initialize cfg n s"
  have "referendum_info_of ?v j = Some (Ongoing st')" "dm_now ?v = n" "j < referendum_count ?v"
    using after u j assms(2) by (auto simp: extends_def)
  with run_history[OF assms(6,1)] j show ?thesis
    unfolding evolved_def by (metis follows.simps(5) less_irrefl)
qed

text \<open>One of two that end in block 5, with its preimage, is never decided as the other has none.\<close>

definition two_referenda :: demo_democracy where
  "two_referenda = with_preimage\<lparr>dm_now := 5, referendum_count := 2,
     referendum_info_of := [0 \<mapsto> Ongoing (demo_question [8]), 1 \<mapsto> Ongoing (demo_question [7]\<lparr>rs_tally := (10, 0)\<rparr>)]\<rparr>"

theorem missing_preimage_blocks_the_others_witness:
  "has_preimage two_referenda [7] \<and> referendum_info_of two_referenda 1 = Some (Ongoing (demo_question [7]\<lparr>rs_tally := (10, 0)\<rparr>)) \<and>
   referendum_info_of (dm_on_initialize demo_democracy 6 (dm_on_initialize demo_democracy 5 two_referenda\<lparr>dm_now := 6\<rparr>)) 1 \<noteq> Some (Finished 6 True)"
proof -
  have state: "dm_now two_referenda = 5" "referendum_count two_referenda = 2"
    "maturing_referenda_at 5 two_referenda = [(0, demo_question [8]), (1, demo_question [7]\<lparr>rs_tally := (10, 0)\<rparr>)]"
    "\<not> has_preimage two_referenda (rs_proposal_hash (demo_question [8]))" "has_preimage two_referenda [7]"
    by (simp_all add: two_referenda_def with_preimage_def one_referendum_def no_democracy_def demo_question_def has_preimage_def
        maturing_referenda_at_def maturing_referenda_at_inner_def upt_rec)
  have after: "dm_on_initialize demo_democracy 5 two_referenda = two_referenda"
    using state by (simp add: dm_on_initialize_def begin_block_bakes launched_def bake_without_preimage) (simp add: demo_democracy_def)
  have "dm_run demo_democracy (dm_on_initialize demo_democracy 5 two_referenda) ([] @ [Block 6])
      (dm_on_initialize demo_democracy 6 (dm_on_initialize demo_democracy 5 two_referenda\<lparr>dm_now := 6\<rparr>))"
    by (intro Run_Block Run_Start) (simp_all add: after state u32_max_def)
  from missing_preimage_blocks_the_others[OF demo_dispatch state(1) _ state(3,4) this, of 1] state show ?thesis
    by (simp add: u32_max_def) (simp add: two_referenda_def)
qed

section \<open>The votes of an account\<close>

definition dispatch_keeps_votes :: "('t, 'v, 'd, 'p, 'c, 'w) dm_config \<Rightarrow> bool" where
  "dispatch_keeps_votes cfg \<longleftrightarrow> (\<forall>data call s. dm_dispatch cfg data = Some call \<longrightarrow>
     (\<forall>a. voter_ok cfg (voting_of s a)) \<longrightarrow> (\<forall>a. voter_ok cfg (voting_of (snd (call s)) a)))"

text \<open>
  C31. In any run of calls and blocks the votes of every account stay sorted by
  the index of their referenda, without duplicates, so that the binary searches find them, and there
  are at most one more than the limit of votes (which one vote too many can reach).
\<close>

theorem votes_sorted_and_bounded:
  assumes "dispatch_keeps_votes cfg" "votes_kept (dm_votes cfg)" "dm_run cfg s acts t" "\<And>a. voter_ok cfg (voting_of s a)"
  shows "voter_ok cfg (voting_of t a)"
proof -
  let ?P = "\<lambda>s. \<forall>a. voter_ok cfg (voting_of s a)"
  have inv: "book_inv cfg ?P"
    using assms(1) unfolding book_inv_def dispatch_keeps_votes_def by (auto simp: same_book_def)
  have veto: "preserves ?P (veto_external cfg org h)" for org h
    unfolding veto_external_def
    by (intro keeps booked keeps_modE; simp add: Let_def dm_event_def)
  have black: "preserves ?P (blacklist cfg org h ri)" for org h ri
  proof -
    have same: "voting_of (slash_depositors cfg j u) = voting_of u" for j u
      using same_book_fields(13)[of u cfg j] by (simp add: same_book_def)
    show ?thesis
      unfolding blacklist_def
      by (intro keeps keeps_modE)
        (simp add: Let_def dm_event_def internal_cancel_referendum_def same split: option.split referendum_info.split)
  qed
  have "?P t"
    by (rule run_keeps[OF assms(3) _ inv assms(2) veto black]) (simp_all add: assms(4))
  then show ?thesis by blast
qed

lemma demo_laws: "votes_kept (dm_votes demo_democracy)" "dispatch_keeps_votes demo_democracy" "dispatch_only_blacklists demo_democracy" "dispatch_spares demo_democracy h"
  by (auto simp: votes_kept_def votes_of_def dispatch_keeps_votes_def dispatch_only_blacklists_def dispatch_spares_def demo_democracy_def demo_votes_def split: voting.split)

text \<open>The fourth vote where the limit is three.\<close>

definition three_votes :: demo_democracy where
  "three_votes = one_referendum\<lparr>referendum_info_of := [3 \<mapsto> Ongoing (demo_question [7])],
     voting_of := (\<lambda>_. Direct [(0, True, 1), (1, True, 1), (2, True, 1)] 0 (0, 0))\<rparr>"

theorem votes_sorted_and_bounded_witness:
  "dm_max_votes demo_democracy = 3 \<and>
   votes_of (voting_of (snd (dm_exec demo_democracy (Signed 1) (Vote_On 3 (True, 10)) three_votes)) 1) = [(0, True, 1), (1, True, 1), (2, True, 1), (3, True, 10)] \<and>
   voter_ok demo_democracy (voting_of (snd (dm_exec demo_democracy (Signed 1) (Vote_On 3 (True, 10)) three_votes)) 1)"
proof -
  have run: "dm_run demo_democracy three_votes ([] @ [Call (Signed 1) (Vote_On 3 (True, 10))]) (snd (dm_exec demo_democracy (Signed 1) (Vote_On 3 (True, 10)) three_votes))"
    by (intro Run_Call Run_Start) (simp add: three_votes_def one_referendum_def u32_max_def)
  have "voter_ok demo_democracy (voting_of (snd (dm_exec demo_democracy (Signed 1) (Vote_On 3 (True, 10)) three_votes)) 1)"
    by (rule votes_sorted_and_bounded[OF demo_laws(2,1) run]) (simp add: voter_ok_def three_votes_def demo_democracy_def)
  moreover have "votes_of (voting_of (snd (dm_exec demo_democracy (Signed 1) (Vote_On 3 (True, 10)) three_votes)) 1) = [(0, True, 1), (1, True, 1), (2, True, 1), (3, True, 10)]"
    by (simp add: three_votes_def one_referendum_def no_democracy_def demo_question_def dm_vote_def try_vote_def referendum_status_def
      put_referendum_def on_dm_world_def cast_vote_def tally_with_def insert_at_def demo_democracy_def demo_votes_def ensure_signed_def eff_defs numeral_3_eq_3)
  ultimately show ?thesis by (simp add: demo_democracy_def)
qed

section \<open>Vetoes\<close>

text \<open>
  C29. After an account has vetoed an external proposal, no run of calls and blocks brings the hash back
  through external_propose before the cool-off period is over, also when the hash is blacklisted on the
  way. And the account cannot veto the hash again at any later time, as long as nothing blacklists it,
  neither a call nor an enacted proposal: blacklisting forgets who has vetoed. Block numbers do not come
  within a cool-off period of their end, and the vetoers recorded so far are sorted, as the binary
  search for the place of a new one keeps them.
\<close>

theorem veto_holds:
  assumes "veto_external cfg org h s = (Inr (), t)" "dm_veto_origin cfg org = Some who" "sorted_wrt (<) (vetoers s h)"
    and "votes_kept (dm_votes cfg)" "dispatch_only_blacklists cfg" "dm_run cfg t acts u" "dm_now u + dm_cooloff_period cfg \<le> u32_max"
  shows "(dm_now u < dm_now s + dm_cooloff_period cfg \<longrightarrow> fst (external_propose cfg org' h u) \<noteq> Inr ()) \<and>
    ((\<forall>org ri. Call org (Blacklist h ri) \<notin> set acts) \<longrightarrow> dispatch_spares cfg h \<longrightarrow> dm_veto_origin cfg org'' = Some who \<longrightarrow> fst (veto_external cfg org'' h u) \<noteq> Inr ())"
proof -
  have start: "holds_on cfg strict who h (dm_now s) t" for strict
  proof (cases rule: veto_cases[of cfg org h s])
    case (2 w i th)
    have i: "search_sorted who (vetoers s h) = Inl i" "w = who" using 2(1,3) assms(2) by simp_all
    have "sorted_wrt (<) (insert_at i who (vetoers s h))" "who \<in> set (insert_at i who (vetoers s h))"
      using sorted_insert_at[OF assms(3) i(1)] by simp_all
    moreover have "dm_now t = dm_now s"
      "blacklisted t h = Some (wrap_add u32_max (dm_now s) (dm_cooloff_period cfg), insert_at i who (vetoers s h))"
      using 2(5,6) i(2) unfolding assms(1) by simp_all
    ultimately show ?thesis by (simp add: holds_on_def held_def wrap_add_def)
  qed (use assms(1) in simp)
  have kept: "holds_on cfg strict who h (dm_now s) u"
    if "\<And>org ri. Call org (Blacklist h ri) \<in> set acts \<Longrightarrow> \<not> strict" "strict \<Longrightarrow> dispatch_spares cfg h" for strict
  proof (rule run_keeps[OF assms(6) start _ assms(4) veto_keeps_holding])
    show "book_inv cfg (holds_on cfg strict who h (dm_now s))" by (rule holds_book[OF assms(5) that(2)])
    show "preserves (holds_on cfg strict who h (dm_now s)) (blacklist cfg org g ri)" if "Call org (Blacklist g ri) \<in> set acts" for org g ri
      by (rule blacklist_keeps_holding) (use \<open>\<And>org ri. Call org (Blacklist h ri) \<in> set acts \<Longrightarrow> \<not> strict\<close> that in metis)
  qed (rule holds_later)
  have "fst (external_propose cfg org' h u) \<noteq> Inr ()" if "dm_now u < dm_now s + dm_cooloff_period cfg"
  proof -
    have "\<not> not_blacklisted h u"
      using kept[of False] that assms(7) by (auto simp: holds_on_def held_def not_blacklisted_def)
    then show ?thesis by (simp add: external_propose_def eff_defs)
  qed
  moreover have "fst (veto_external cfg org'' h u) \<noteq> Inr ()" if "\<And>org ri. Call org (Blacklist h ri) \<notin> set acts" "dispatch_spares cfg h" "dm_veto_origin cfg org'' = Some who"
  proof (cases rule: veto_cases[of cfg org'' h u])
    case (2 w i th)
    have "sorted_wrt (<) (vetoers u h)" "who \<in> set (vetoers u h)"
      using kept[of True] that assms(7) by (auto simp: holds_on_def held_def vetoers_def)
    then show ?thesis using search_hit[of "vetoers u h" who] 2(1,3) that(3) by auto
  qed simp
  ultimately show ?thesis by blast
qed

text \<open>A veto in block 1 for seven blocks: in block 6 the hash cannot be proposed again.\<close>

definition queued :: demo_democracy where
  "queued = no_democracy\<lparr>next_external := Some ([7], SuperMajorityApprove)\<rparr>"

theorem veto_holds_witness:
  "fst (veto_external demo_democracy (Signed 1) [7] queued) = Inr () \<and>
   fst (external_propose demo_democracy (Signed 2) [7] (dm_on_initialize demo_democracy 6 (snd (veto_external demo_democracy (Signed 1) [7] queued)\<lparr>dm_now := 6\<rparr>))) \<noteq> Inr () \<and>
   fst (veto_external demo_democracy (Signed 1) [7] (dm_on_initialize demo_democracy 6 (snd (veto_external demo_democracy (Signed 1) [7] queued)\<lparr>dm_now := 6\<rparr>))) \<noteq> Inr ()"
proof -
  have ok: "fst (veto_external demo_democracy (Signed 1) [7] queued) = Inr ()"
    by (simp add: veto_result queued_def no_democracy_def demo_democracy_def vetoers_def Let_def)
  then have veto: "veto_external demo_democracy (Signed 1) [7] queued = (Inr (), snd (veto_external demo_democracy (Signed 1) [7] queued))"
    by (metis prod.collapse)
  have state: "referendum_count (snd (veto_external demo_democracy (Signed 1) [7] queued)) = 0" "dm_now (snd (veto_external demo_democracy (Signed 1) [7] queued)) = 1"
    by (simp_all add: veto_result queued_def no_democracy_def demo_democracy_def vetoers_def Let_def dm_event_def)
  have run: "dm_run demo_democracy (snd (veto_external demo_democracy (Signed 1) [7] queued)) ([] @ [Block 6])
      (dm_on_initialize demo_democracy 6 (snd (veto_external demo_democracy (Signed 1) [7] queued)\<lparr>dm_now := 6\<rparr>))"
    by (intro Run_Block Run_Start) (simp_all add: state u32_max_def del: One_nat_def)
  have now: "dm_now (dm_on_initialize demo_democracy 6 (snd (veto_external demo_democracy (Signed 1) [7] queued)\<lparr>dm_now := 6\<rparr>)) = 6"
    using block_evolved[OF demo_dispatch, of "snd (veto_external demo_democracy (Signed 1) [7] queued)" 6] by (simp add: state u32_max_def del: One_nat_def)
  have "dm_veto_origin demo_democracy (Signed 1) = Some 1" "dm_cooloff_period demo_democracy = 7" "sorted_wrt (<) (vetoers queued [7])" "dm_now queued = 1"
    by (simp_all add: demo_democracy_def vetoers_def queued_def no_democracy_def)
  with veto_holds[OF veto _ _ demo_laws(1,3) run, of 1 "Signed 2" "Signed 1"] demo_laws(4) ok now show ?thesis
    by (simp add: u32_max_def del: One_nat_def)
qed

section \<open>Removing a vote\<close>

lemma search_inserted: "search_sorted k xs = Inl i \<Longrightarrow> search_sorted k (insert_at i k xs) = Inr i"
  by (induction xs arbitrary: i) (auto simp: insert_at_def split: if_splits sum.splits)

lemma remove_inserted: "i \<le> length xs \<Longrightarrow> remove_at i (insert_at i x xs) = xs \<and> insert_at i x xs ! i = x"
  by (simp add: remove_at_def insert_at_def nth_append min_def)

lemma removed_after_vote:
  assumes "voter_ok cfg (voting_of s who)" "i \<notin> fst ` set (votes_of (voting_of s who))"
    and "dm_vote cfg (Signed who) i v s = (Inr (), t)"
  shows "\<exists>st votes d p x. referendum_info_of s i = Some (Ongoing st) \<and> voting_of s who = Direct votes d p \<and>
    tally_with (dm_votes cfg) (rs_tally st) v d = Some x \<and>
    (case tally_without (dm_votes cfg) x v d of
       None \<Rightarrow> remove_vote cfg (Signed who) i t = (Inl Arithmetic_Underflow, t)
     | Some y \<Rightarrow> \<exists>u. remove_vote cfg (Signed who) i t = (Inr (), u) \<and> voting_of u = voting_of s \<and>
         referendum_info_of u = (referendum_info_of s)(i \<mapsto> Ongoing (st\<lparr>rs_tally := y\<rparr>)))"
proof -
  have "try_vote cfg who i v s = (Inr (), t)" using assms(3) by (simp add: dm_vote_def ensure_signed_def bindE_okE)
  then obtain st x vt where st: "referendum_info_of s i = Some (Ongoing st)" and cast: "cast_vote cfg i v (rs_tally st) (voting_of s who) = Inr (x, vt)"
    and t: "t = put_referendum i (Ongoing (st\<lparr>rs_tally := x\<rparr>))
       (on_dm_world (dm_extend_lock cfg who (vo_balance (dm_votes cfg) v)) (s\<lparr>voting_of := (voting_of s)(who := vt)\<rparr>))"
    unfolding try_vote_def referendum_status_def by (auto split: option.splits referendum_info.splits sum.splits)
  obtain votes d p where old: "voting_of s who = Direct votes d p" using cast by (cases "voting_of s who") (auto simp: cast_vote_def)
  have "search_sorted i (map fst votes) \<noteq> Inr k" for k
    using search_found[of i "map fst votes" k] assms(2) old by (auto simp: image_iff) (metis fst_conv nth_mem)
  then obtain k where k: "search_sorted i (map fst votes) = Inl k" by (cases "search_sorted i (map fst votes)") auto
  have sorted: "sorted_wrt (<) (map fst votes)" using assms(1) old by (simp add: voter_ok_def)
  have len: "k \<le> length votes" using search_missing[OF sorted k] by simp
  have vt: "vt = Direct (insert_at k (i, v) votes) d p" and x: "tally_with (dm_votes cfg) (rs_tally st) v d = Some x"
    using cast old k by (auto simp: cast_vote_def split: if_splits option.splits)
  have "map fst (insert_at k (i, v) votes) = insert_at k i (map fst votes)" by (simp add: insert_at_def take_map drop_map)
  then have found: "search_sorted i (map fst (insert_at k (i, v) votes)) = Inr k" using search_inserted[OF k] by simp
  have now: "voting_of t who = Direct (insert_at k (i, v) votes) d p" "referendum_info_of t i = Some (Ongoing (st\<lparr>rs_tally := x\<rparr>))"
    by (simp_all add: t vt put_referendum_def on_dm_world_def)
  have "case tally_without (dm_votes cfg) x v d of
       None \<Rightarrow> remove_vote cfg (Signed who) i t = (Inl Arithmetic_Underflow, t)
     | Some y \<Rightarrow> \<exists>u. remove_vote cfg (Signed who) i t = (Inr (), u) \<and> voting_of u = voting_of s \<and>
         referendum_info_of u = (referendum_info_of s)(i \<mapsto> Ongoing (st\<lparr>rs_tally := y\<rparr>))"
  proof (cases "tally_without (dm_votes cfg) x v d")
    case None
    then show ?thesis
      using now found remove_inserted[OF len, of "(i, v)"]
      by (simp add: remove_vote_def try_remove_vote_def ensure_signed_def eff_defs Let_def)
  next
    case (Some y)
    let ?u = "(put_referendum i (Ongoing (st\<lparr>rs_tally := y\<rparr>)) t)\<lparr>voting_of := (voting_of t)(who := Direct votes d p)\<rparr>"
    have "remove_vote cfg (Signed who) i t = (Inr (), ?u)"
      using now found Some remove_inserted[OF len, of "(i, v)"]
      by (simp add: remove_vote_def try_remove_vote_def ensure_signed_def eff_defs Let_def put_referendum_def)
    moreover have "voting_of ?u = voting_of s" "referendum_info_of ?u = (referendum_info_of s)(i \<mapsto> Ongoing (st\<lparr>rs_tally := y\<rparr>))"
      using old st by (auto simp: t put_referendum_def on_dm_world_def)
    ultimately show ?thesis using Some by auto
  qed
  then show ?thesis using st old x by blast
qed

text \<open>
  C32. An account votes on a referendum it had not voted on, and then removes the vote. The vote adds
  itself and the delegations behind it to the tally; the removal takes the same vote and the same
  delegations out of that tally again: all votes, delegations and prior locks are as before, no other
  referendum has changed, and of this one nothing but the tally, on which exactly the opposite
  operations ran. If the tally refuses, the call fails and changes nothing. The lock stays.
\<close>

theorem vote_then_remove:
  assumes "voter_ok cfg (voting_of s who)" "i \<notin> fst ` set (votes_of (voting_of s who))"
    and "dm_vote cfg (Signed who) i v s = (Inr (), t)"
  shows "\<exists>st votes d p x. referendum_info_of s i = Some (Ongoing st) \<and> voting_of s who = Direct votes d p \<and>
    vo_tally_add (dm_votes cfg) (rs_tally st) v = Some x \<and>
    (case vo_tally_remove (dm_votes cfg)
        (case vo_as_standard (dm_votes cfg) v of None \<Rightarrow> x | Some aye \<Rightarrow> vo_tally_increase (dm_votes cfg) x aye d) v of
       None \<Rightarrow> remove_vote cfg (Signed who) i t = (Inl Arithmetic_Underflow, t)
     | Some y \<Rightarrow> \<exists>u. remove_vote cfg (Signed who) i t = (Inr (), u) \<and> voting_of u = voting_of s \<and>
         referendum_info_of u = (referendum_info_of s)(i \<mapsto> Ongoing (st\<lparr>rs_tally :=
           (case vo_as_standard (dm_votes cfg) v of None \<Rightarrow> y | Some aye \<Rightarrow> vo_tally_reduce (dm_votes cfg) y aye d)\<rparr>)))"
proof -
  obtain st votes d p z where st: "referendum_info_of s i = Some (Ongoing st)" "voting_of s who = Direct votes d p"
    and z: "tally_with (dm_votes cfg) (rs_tally st) v d = Some z"
    and removed: "case tally_without (dm_votes cfg) z v d of
         None \<Rightarrow> remove_vote cfg (Signed who) i t = (Inl Arithmetic_Underflow, t)
       | Some y \<Rightarrow> \<exists>u. remove_vote cfg (Signed who) i t = (Inr (), u) \<and> voting_of u = voting_of s \<and>
           referendum_info_of u = (referendum_info_of s)(i \<mapsto> Ongoing (st\<lparr>rs_tally := y\<rparr>))"
    using removed_after_vote[OF assms] by blast
  obtain x where x: "vo_tally_add (dm_votes cfg) (rs_tally st) v = Some x"
    and zx: "z = (case vo_as_standard (dm_votes cfg) v of None \<Rightarrow> x | Some aye \<Rightarrow> vo_tally_increase (dm_votes cfg) x aye d)"
    using z by (auto simp: tally_with_def)
  show ?thesis
    by (intro exI conjI, rule st, rule st, rule x) (use removed in \<open>simp add: tally_without_def zx split: option.splits\<close>)
qed

theorem vote_then_remove_witness:
  "\<exists>u. remove_vote demo_democracy (Signed 1) 0 voted = (Inr (), u) \<and> voting_of u = voting_of with_preimage \<and>
     referendum_info_of u = [0 \<mapsto> Ongoing (demo_question [7])] \<and> referendum_info_of voted \<noteq> referendum_info_of u"
proof -
  have "dm_vote demo_democracy (Signed 1) 0 (True, 10) with_preimage = (Inr (), voted)"
    by (simp add: voted_def with_preimage_def one_referendum_def no_democracy_def demo_question_def dm_vote_def try_vote_def referendum_status_def
      put_referendum_def on_dm_world_def cast_vote_def tally_with_def insert_at_def demo_democracy_def demo_votes_def ensure_signed_def eff_defs)
  moreover have "voter_ok demo_democracy (voting_of with_preimage 1)" "votes_of (voting_of with_preimage 1) = []"
    by (simp_all add: voter_ok_def with_preimage_def one_referendum_def no_democracy_def)
  moreover have "referendum_info_of with_preimage 0 = Some (Ongoing (demo_question [7]))" "rs_tally (demo_question [7]) = (0, 0)"
    "voting_of with_preimage 1 = Direct [] 0 (0, 0)"
    by (simp_all add: demo_state demo_question_def with_preimage_def one_referendum_def no_democracy_def)
  ultimately obtain u where "remove_vote demo_democracy (Signed 1) 0 voted = (Inr (), u)" "voting_of u = voting_of with_preimage"
      "referendum_info_of u = (referendum_info_of with_preimage)(0 \<mapsto> Ongoing (demo_question [7]\<lparr>rs_tally := (0, 0)\<rparr>))"
    using vote_then_remove[of demo_democracy with_preimage 1 0 "(True, 10)" voted] by (auto simp: demo_democracy_def demo_votes_def)
  then show ?thesis by (auto simp: demo_state demo_question_def fun_eq_iff)
qed

end
