(* ===== verification/Spec2Isabelle.thy ===== *)
theory Spec2Isabelle
  imports Currencies Dex_Properties Settmint_Properties Evm_Accounts_Properties Evm_Manager_Properties
    Storage_Meter Precompiles_Properties Chainbridge_Properties Evm_Bridge_Properties Evm_Code
    Transaction_Payment_Properties Incentives_Properties Renvm_Bridge_Properties
    Staking_Time Slashing_Properties Democracy_Properties
begin

text \<open>
  A verification library for Setheum, a Substrate chain: a set of pallets that keep tokens, an
  exchange, stablecoins, NFTs, bridges and an Ethereum virtual machine. Paths below are relative to
  \<open>src/\<close>.

  \<^bold>\<open>The program.\<close> A runtime (\<open>runtime/*\<close>) composes pallets. Each pallet owns storage items, offers
  dispatchable calls to accounts, and implements traits that other pallets are configured with.
  \<open>tokens/currencies\<close> puts one interface over the native balance, the tokens pallet and ERC20
  contracts; the exchange \<open>dex/dex\<close> and the stablecoin pallets \<open>settmint/*\<close> move currencies through
  it; \<open>evm/*\<close> runs contracts, maps accounts to addresses, and lets contracts call back into the
  pallets through the precompiled contracts of \<open>runtime/common/src/precompile\<close>;
  \<open>transaction-payment\<close> takes fees in any currency by a swap on the exchange; \<open>dex/incentives\<close> takes
  liquidity shares as stakes; \<open>bridges/*\<close> bring currencies in from other chains.

  \<^bold>\<open>How it is modelled.\<close> A pallet's storage is a record; a call is an \<open>effect\<close> (\<open>Prelude\<close>), a function
  from the storage to a result (\<open>Inl\<close> an error, \<open>Inr\<close> a value) and the storage it leaves behind, also
  when it fails, because Substrate keeps the writes of a failing function unless a caller is
  \<open>#[transactional]\<close>, which is the combinator \<open>transactional\<close>. A panic is the error \<open>Panic\<close>. Storage of
  other pallets is a field of the record (its world), and what the pallet calls there is a record of
  operations in its configuration: parameters, of which the laws the pallet relies on are stated as
  predicates (\<open>custody\<close>, \<open>imbalance_laws\<close>, \<open>nft_env\<close>, ...), each shown to hold for a reference
  implementation (\<open>Ledger\<close>, and the \<open>demo\<close> configurations of the property theories). Where the
  provider is modelled too, its operations instantiate the parameters: \<open>pallet_dex\<close> (the exchange
  behind precompiles and fees), \<open>pallet_currencies\<close>, \<open>pallet_nft\<close>, \<open>pallet_evm\<close> and \<open>pallet_state_rent\<close>.

  \<^bold>\<open>Components and their theories.\<close>
  \<^item> \<open>Primitives\<close>: \<open>primitives/src/currency.rs\<close>, token symbols, currency identifiers with their order,
    trading pairs; splitting and joining of LP currencies.
  \<^item> \<open>Currency_Interface\<close>, \<open>Ledger\<close>: the traits of currencies and fixed-point numbers, the laws assumed
    of them, and a reference ledger that meets the laws (no code of the repository).
  \<^item> \<open>Currencies\<close>: \<open>lib-serml/tokens/currencies/src/lib.rs\<close>.
  \<^item> \<open>Dex\<close> with \<open>Dex_Pricing\<close>, \<open>Dex_Paths\<close>, \<open>Dex_Solvency\<close>, \<open>Dex_Machine\<close>, \<open>Dex_Properties\<close>:
    \<open>lib-serml/dex/dex/src/lib.rs\<close>. The locale \<open>constant_product\<close> is what a pool relies on and is
    interpreted on \<open>get_target_amount\<close>; quotes along a path equal the relation \<open>hops\<close>; every run of the
    pallet keeps pools and provisions covered by the pallet's account.
  \<^item> \<open>Settmint\<close>, \<open>Settmint_Properties\<close>: the manager and the gateway of \<open>lib-serml/settmint\<close>.
  \<^item> \<open>Nft\<close>, \<open>Nft_Laws\<close>, \<open>Nft_Properties\<close>: \<open>lib-serml/tokens/nft/src/lib.rs\<close>.
  \<^item> \<open>Evm_Accounts\<close>, \<open>Evm_Manager\<close> and their properties: account mapping, claims, and the encoding of
    currencies as EVM addresses (\<open>lib-serml/evm/evm-accounts\<close>, \<open>evm-manager\<close>).
  \<^item> \<open>Storage_Meter\<close>: \<open>lib-serml/evm/evm/src/runner/storage_meter.rs\<close>.
  \<^item> \<open>Evm_Types\<close>, \<open>Evm\<close>, \<open>Evm_Runner\<close>, \<open>Evm_Pallet\<close>: the EVM pallet \<open>lib-serml/evm/evm/src/lib.rs\<close>, its
    runner and the handler of the interpreter (\<open>runner/mod.rs\<close>, \<open>runner/handler.rs\<close>);
    \<open>Evm_Properties\<close>, \<open>Evm_Code\<close>: what a failing execution leaves, and the reference counts of
    code over runs of all operations on contracts, \<open>set_code\<close> included.
  \<^item> \<open>Evm_Bridge\<close>: \<open>lib-serml/evm/evm-bridge/src/lib.rs\<close>, calls of ERC20 contracts.
  \<^item> \<open>Precompile_Input\<close>, \<open>Precompiles\<close>: the six contracts of \<open>runtime/common/src/precompile\<close>.
  \<^item> \<open>Transaction_Payment\<close>, \<open>Incentives\<close>, \<open>Chainbridge\<close>, \<open>Renvm_Bridge\<close>: the pallets of these names.
  \<^item> \<open>Staking_Ledger\<close> (the ledger of a stash), \<open>Staking_State\<close> (types, storage, shared operations),
    \<open>Slashing_Spans\<close>, \<open>Slashing\<close> (\<open>slashing.rs\<close>), \<open>Staking\<close> (the dispatchables) and \<open>Staking_Eras\<close> (genesis,
    sessions and eras, the data of elections, offences): the staking pallet
    \<open>lib-serml/serp/serp-staking/src\<close>. \<open>Slashing_Properties\<close>: a stash is charged once per slashing span;
    \<open>Staking_Bonds\<close>, \<open>Staking_Properties\<close>: bonds, ledgers, locks and roles over all runs, and the return
    of unbonded funds; \<open>Staking_Time\<close>: eras as time. \<open>Staking_Demo\<close> is a configuration for concrete runs.
  \<^item> \<open>Democracy\<close>: \<open>lib-serml/democracy/src/lib.rs\<close>, external proposals, vetoes, referenda, votes, delegations,
    preimages and the beginning of a block. \<open>Democracy_Referenda\<close>: calls and blocks as the step relation
    \<open>dm_run\<close>, and the history of a referendum over runs; \<open>Democracy_Votes\<close>: invariants of votes and
    blacklist; \<open>Democracy_Properties\<close>, with \<open>Democracy_Demo\<close> as the configuration of the witnesses.
  A theory \<open>X_Properties\<close> holds the properties of the component \<open>X\<close>. The locale \<open>pallet_machine\<close> of the
  prelude is the interface between a pallet and its runs: calls that keep an invariant keep it over
  every run of calls, failing ones included; each pallet interprets it on its own calls.

  \<^bold>\<open>What the lemmas show.\<close> Invariants over all runs (solvency of the exchange, sums of positions,
  deposits backed by reserves, one-to-one maps, the books of the bridges, staked shares, available
  code); functional behaviour on every branch where it matters (swaps, fees, executions); round
  trips of the encodings; equivalence of loops with declarative definitions; refinement of the
  pallets by the precompiled contracts; atomicity of failing calls; termination of the one loop that is not structural; liveness (unbonded
  funds come back, deferred slashes are applied, eras go on); the lifecycle of a referendum and of a veto; and behaviours of the code that
  are probably not meant, each named a finding of the manifest (a provisioned pair that opens without
  liquidity, \<open>set_code\<close> without effect and, with a constructor that destroys its contract, a contract
  without code (\<open>set_code_can_lose_code\<close>), premium rewards that cannot be set, a second signature that
  mints again, a missing preimage that leaves the referenda of its block undecided for ever).

  \<^bold>\<open>Integers and bounds.\<close> Unsigned integers are natural numbers with the largest value of their type
  written out wherever the code saturates or checks (\<open>sat_add\<close>, \<open>chk_add\<close>, ...), words where it works
  on bits. Where the code adds without a check the release build wraps around; the model writes the
  wrap-around (\<open>mod 2 ^ 32\<close>) or the theorem bounds the operands. \<open>usize\<close> has 32 bits, as in the
  WebAssembly runtime. Trading paths are at most as long as the runtimes configure (3); the theorems
  hold for any bound. No definition needs fuel: all recursion is structural or terminates by a
  measure, except the loop of \<open>rebond\<close>, which is a \<open>while_option\<close> with a theorem that it returns. What may run for ever, the interpreter of contract code, is a parameter.

  \<^bold>\<open>Not modelled, and why.\<close> The interpreter, hashes, signature recovery, SCALE and RLP codecs, the
  libraries orml and Substrate (code outside \<open>src/\<close>): parameters. \<open>serp-treasury\<close>, \<open>serp-auction\<close>,
  \<open>settmint-engine\<close> and \<open>prices\<close> do not type check or do not parse, so that they have no behaviour to
  translate; the same holds of single functions (\<open>update_exchange_fee\<close>, \<open>update_accumulate_period\<close>, and
  in the staking pallet the payouts and \<open>end_era\<close>, with the inflation and the reward curve that only
  they would use).
  \<open>democracy\<close> lacks its modules for votes, convictions, thresholds and tallies in this repository: they are
  parameters, with the law \<open>votes_kept\<close> (they do not touch the list of votes) where a theorem relies on it; \<open>propose\<close>,
  \<open>second\<close> and \<open>backing_for\<close> of it do not type check. Weights, benchmarks,
  mocks, the node, RPC and command lines carry no logic of the chain's state.
\<close>

end
